(* ===== verification/Prelude.thy ===== *)
theory Prelude
  imports Main "HOL-Library.Sublist" "HOL-Library.Char_ord" "HOL-Library.List_Lexorder"
begin

text \<open>
  What every component shares: Go strings as byte strings, the functions of the packages
  \<open>strings\<close> and \<open>strconv\<close> the sources call, 64-bit wrap-around for Go's \<open>int\<close>, \<open>int64\<close> and
  \<open>time.Duration\<close>, and errors as values.

  A Go string is a sequence of bytes, so \<^typ>\<open>string\<close> (a list of 8-bit characters) models it
  directly and \<^const>\<open>length\<close> is Go's \<open>len\<close>. \<open>strings.HasPrefix s p\<close> is \<^term>\<open>prefix p s\<close>
  and \<open>strings.HasSuffix s p\<close> is \<^term>\<open>suffix p s\<close>. Case mapping is the ASCII one: bytes
  outside A-Z and a-z stay as they are.
\<close>

named_theorems go_str \<open>rewrite rules for the string functions\<close>
named_theorems path_simps \<open>rewrite rules for file paths\<close>
named_theorems res_simps \<open>rewrite rules for results and errors\<close>

section \<open>Errors as values\<close>

text \<open>
  The operating system's errors, and Go's \<open>error\<close> values: a message built by \<open>errors.New\<close> or by
  \<open>fmt.Errorf\<close> without \<open>%w\<close>, an error wrapped by \<open>%w\<close> between two pieces of text, the sentinel
  and struct errors the sources test for, and errors of code outside the repository.
\<close>

datatype errno = ENOENT | ENOTDIR | EISDIR | ENOTEMPTY | EEXIST | ELOOP

datatype gerr =
    ErrMsg string
  | ErrWrap string gerr string
  | ErrOS errno string
  | ErrNotFound
  | ErrAPI int string string
  | ErrUnknownConnector string
  | ErrCanceled
  | ErrExt string

type_synonym 'a res = "gerr + 'a"

text \<open>\<open>errors.Is\<close> and \<open>errors.As\<close> walk the chain of wrapped errors.\<close>

fun err_root :: "gerr \<Rightarrow> gerr" where
  "err_root (ErrWrap _ e _) = err_root e"
| "err_root e = e"

definition is_not_exist :: "gerr \<Rightarrow> bool" where
  "is_not_exist e = (case err_root e of ErrOS ENOENT _ \<Rightarrow> True | _ \<Rightarrow> False)"

lemma err_root_ErrWrap [res_simps]: "err_root (ErrWrap p e s) = err_root e"
  by simp

section \<open>The package strings\<close>

definition trim_prefix :: "string \<Rightarrow> string \<Rightarrow> string" where
  "trim_prefix s p = (if prefix p s then drop (length p) s else s)"

definition trim_suffix :: "string \<Rightarrow> string \<Rightarrow> string" where
  "trim_suffix s p = (if suffix p s then take (length s - length p) s else s)"

text \<open>\<open>strings.TrimLeft\<close> and \<open>strings.TrimRight\<close> with a cutset of ASCII characters.\<close>

definition trim_left :: "string \<Rightarrow> string \<Rightarrow> string" where
  "trim_left s cutset = dropWhile (\<lambda>c. c \<in> set cutset) s"

definition trim_right :: "string \<Rightarrow> string \<Rightarrow> string" where
  "trim_right s cutset = rev (dropWhile (\<lambda>c. c \<in> set cutset) (rev s))"

text \<open>
  \<open>strings.TrimSpace\<close> drops the white space of Unicode at both ends. The white-space code points
  beyond ASCII are listed by their UTF-8 bytes.
\<close>

definition ascii_spaces :: "string" where
  "ascii_spaces = [CHR 0x09, CHR 0x0A, CHR 0x0B, CHR 0x0C, CHR 0x0D, CHR 0x20]"

definition wide_spaces :: "string list" where
  "wide_spaces =
     [[CHR 0xC2, CHR 0x85], [CHR 0xC2, CHR 0xA0], [CHR 0xE1, CHR 0x9A, CHR 0x80]]
     @ map (\<lambda>b. [CHR 0xE2, CHR 0x80, b])
         [CHR 0x80, CHR 0x81, CHR 0x82, CHR 0x83, CHR 0x84, CHR 0x85, CHR 0x86, CHR 0x87,
          CHR 0x88, CHR 0x89, CHR 0x8A, CHR 0xA8, CHR 0xA9, CHR 0xAF]
     @ [[CHR 0xE2, CHR 0x81, CHR 0x9F], [CHR 0xE3, CHR 0x80, CHR 0x80]]"

definition space_seqs :: "string list" where
  "space_seqs = map (\<lambda>c. [c]) ascii_spaces @ wide_spaces"

text \<open>One white-space sequence at the front, if there is one; repeated by \<open>drop_spaces\<close>.\<close>

definition drop_space :: "string list \<Rightarrow> string \<Rightarrow> string option" where
  "drop_space seqs s = map_option (\<lambda>w. drop (length w) s) (find (\<lambda>w. w \<noteq> [] \<and> prefix w s) seqs)"

lemma drop_space_shorter: "drop_space seqs s = Some t \<Longrightarrow> length t < length s"
  by (auto simp: drop_space_def find_Some_iff prefix_def)

function drop_spaces :: "string list \<Rightarrow> string \<Rightarrow> string" where
  "drop_spaces seqs s = (case drop_space seqs s of None \<Rightarrow> s | Some t \<Rightarrow> drop_spaces seqs t)"
  by pat_completeness auto
termination
  by (relation "measure (\<lambda>(seqs, s). length s)") (auto simp: drop_space_shorter)

declare drop_spaces.simps [simp del]

definition trim_space :: "string \<Rightarrow> string" where
  "trim_space s =
     rev (drop_spaces (map rev space_seqs) (rev (drop_spaces space_seqs s)))"

definition lower_char :: "char \<Rightarrow> char" where
  "lower_char c =
     (let n = (of_char c :: nat) in if 65 \<le> n \<and> n \<le> 90 then char_of (n + 32) else c)"

definition to_lower :: "string \<Rightarrow> string" where
  "to_lower s = map lower_char s"

definition upper_char :: "char \<Rightarrow> char" where
  "upper_char c =
     (let n = (of_char c :: nat) in if 97 \<le> n \<and> n \<le> 122 then char_of (n - 32) else c)"

definition to_upper :: "string \<Rightarrow> string" where
  "to_upper s = map upper_char s"

definition equal_fold :: "string \<Rightarrow> string \<Rightarrow> bool" where
  "equal_fold s t = (to_lower s = to_lower t)"

text \<open>\<open>strings.Split\<close> with a separator of one character, \<open>strings.Join\<close> and \<open>strings.Cut\<close>.\<close>

fun split_on :: "char \<Rightarrow> string \<Rightarrow> string list" where
  "split_on c [] = [[]]"
| "split_on c (x # xs) =
     (if x = c then [] # split_on c xs
      else (x # hd (split_on c xs)) # tl (split_on c xs))"

fun join_with :: "string \<Rightarrow> string list \<Rightarrow> string" where
  "join_with sep [] = []"
| "join_with sep [x] = x"
| "join_with sep (x # y # ys) = x @ sep @ join_with sep (y # ys)"

definition str_cut :: "char \<Rightarrow> string \<Rightarrow> string \<times> string \<times> bool" where
  "str_cut c s =
     (if c \<in> set s then (takeWhile (\<lambda>x. x \<noteq> c) s, tl (dropWhile (\<lambda>x. x \<noteq> c) s), True)
      else (s, [], False))"

text \<open>\<open>strings.Replace s old new 1\<close> for a non-empty \<open>old\<close>: the first occurrence only.\<close>

fun replace_first :: "string \<Rightarrow> string \<Rightarrow> string \<Rightarrow> string" where
  "replace_first old new [] = []"
| "replace_first old new (x # xs) =
     (if prefix old (x # xs) then new @ drop (length old) (x # xs)
      else x # replace_first old new xs)"

text \<open>
  Split on commas, trim every part and drop the empty ones: the loop of
  \<open>connector.Values.StringList\<close>, of the wizard's list prompt and of the telegram trigger.
\<close>

definition split_trim :: "string \<Rightarrow> string list" where
  "split_trim s = filter (\<lambda>t. t \<noteq> []) (map trim_space (split_on (CHR '','') s))"

section \<open>The package strconv\<close>

definition digit_char :: "nat \<Rightarrow> char" where
  "digit_char d = char_of (48 + d)"

fun nat_digits :: "nat \<Rightarrow> nat list" where
  "nat_digits n = (if n < 10 then [n] else nat_digits (n div 10) @ [n mod 10])"

declare nat_digits.simps [simp del]

definition nat_str :: "nat \<Rightarrow> string" where
  "nat_str n = map digit_char (nat_digits n)"

text \<open>\<open>strconv.Itoa\<close> and \<open>strconv.FormatInt\<close> in base ten.\<close>

definition itoa :: "int \<Rightarrow> string" where
  "itoa i = (if i < 0 then CHR ''-'' # nat_str (nat (- i)) else nat_str (nat i))"

definition is_digit :: "char \<Rightarrow> bool" where
  "is_digit c = (48 \<le> (of_char c :: nat) \<and> (of_char c :: nat) \<le> 57)"

definition digit_val :: "char \<Rightarrow> nat" where
  "digit_val c = of_char c - 48"

fun digits_val :: "nat \<Rightarrow> string \<Rightarrow> nat" where
  "digits_val acc [] = acc"
| "digits_val acc (c # cs) = digits_val (10 * acc + digit_val c) cs"

definition max_int64 :: int where "max_int64 = 9223372036854775807"
definition min_int64 :: int where "min_int64 = - 9223372036854775808"

text \<open>Two's complement wrap-around of \<open>int\<close>, \<open>int64\<close> and \<open>time.Duration\<close> arithmetic.\<close>

definition wrap64 :: "int \<Rightarrow> int" where
  "wrap64 i = (i + 9223372036854775808) mod 18446744073709551616 - 9223372036854775808"

definition int64_range :: "int \<Rightarrow> bool" where
  "int64_range i = (min_int64 \<le> i \<and> i \<le> max_int64)"

text \<open>
  \<open>strconv.Atoi\<close> returns a number together with an error: 0 with a syntax error, and the nearest
  64-bit bound with a range error. The result pair is (number, no error).
\<close>

definition atoi :: "string \<Rightarrow> int \<times> bool" where
  "atoi s =
     (let neg = (s \<noteq> [] \<and> hd s = CHR ''-'');
          body = (if s \<noteq> [] \<and> (hd s = CHR ''-'' \<or> hd s = CHR ''+'') then tl s else s)
      in if body = [] \<or> \<not> list_all is_digit body then (0, False)
         else let n = int (digits_val 0 body); v = (if neg then - n else n)
              in if v > max_int64 then (max_int64, False)
                 else if v < min_int64 then (min_int64, False)
                 else (v, True))"

text \<open>\<open>strconv.ParseBool\<close>: \<open>None\<close> is the syntax error (Go also returns false with it).\<close>

definition parse_bool :: "string \<Rightarrow> bool option" where
  "parse_bool s =
     (if s \<in> {''1'', ''t'', ''T'', ''TRUE'', ''true'', ''True''} then Some True
      else if s \<in> {''0'', ''f'', ''F'', ''FALSE'', ''false'', ''False''} then Some False
      else None)"

definition bool_str :: "bool \<Rightarrow> string" where
  "bool_str b = (if b then ''true'' else ''false'')"

section \<open>Shared lemmas\<close>

subsection \<open>Affixes\<close>

lemma trim_prefix_append [simp, go_str]: "trim_prefix (p @ s) p = s"
  by (simp add: trim_prefix_def)

lemma trim_prefix_id [go_str]: "\<not> prefix p s \<Longrightarrow> trim_prefix s p = s"
  by (simp add: trim_prefix_def)

lemma trim_suffix_append [simp, go_str]: "trim_suffix (s @ p) p = s"
  by (simp add: trim_suffix_def suffix_def)

lemma trim_suffix_suffix: "suffix p s \<Longrightarrow> trim_suffix s p @ p = s"
  by (auto simp: suffix_def)

lemma trim_right_append_none: "\<forall>c\<in>set t. c \<in> set cutset \<Longrightarrow> trim_right (s @ t) cutset = trim_right s cutset"
proof -
  assume "\<forall>c\<in>set t. c \<in> set cutset"
  then have "dropWhile (\<lambda>c. c \<in> set cutset) (rev t @ rev s) = dropWhile (\<lambda>c. c \<in> set cutset) (rev s)"
    by (subst dropWhile_append2) auto
  then show ?thesis by (simp add: trim_right_def)
qed

lemma trim_right_id: "s = [] \<or> last s \<notin> set cutset \<Longrightarrow> trim_right s cutset = s"
  by (cases s rule: rev_cases) (auto simp: trim_right_def)

lemma trim_right_last: "trim_right s cutset \<noteq> [] \<Longrightarrow> last (trim_right s cutset) \<notin> set cutset"
proof -
  assume ne: "trim_right s cutset \<noteq> []"
  then have "dropWhile (\<lambda>c. c \<in> set cutset) (rev s) \<noteq> []"
    by (simp add: trim_right_def)
  from hd_dropWhile [OF this] show ?thesis
    by (simp add: trim_right_def last_rev)
qed

lemma trim_right_prefix: "prefix (trim_right s cutset) s"
proof -
  have "suffix (dropWhile (\<lambda>c. c \<in> set cutset) (rev s)) (rev s)"
    by (rule suffix_dropWhile)
  then show ?thesis by (simp add: trim_right_def suffix_to_prefix)
qed

lemma trim_left_suffix: "suffix (trim_left s cutset) s"
  by (simp add: trim_left_def suffix_dropWhile)

lemma trim_left_hd: "trim_left s cutset \<noteq> [] \<Longrightarrow> hd (trim_left s cutset) \<notin> set cutset"
  unfolding trim_left_def by (rule hd_dropWhile)

subsection \<open>Splitting and joining\<close>

lemma split_on_nonempty [simp, go_str]: "split_on c s \<noteq> []"
  by (cases s) auto

lemma split_on_no_sep: "x \<in> set (split_on c s) \<Longrightarrow> c \<notin> set x"
proof (induction s arbitrary: x)
  case Nil
  then show ?case by simp
next
  case (Cons y ys)
  show ?case
  proof (cases "y = c")
    case True
    with Cons show ?thesis by auto
  next
    case False
    have "hd (split_on c ys) \<in> set (split_on c ys)" by simp
    with Cons.IH have "c \<notin> set (hd (split_on c ys))" by blast
    moreover have "\<And>z. z \<in> set (tl (split_on c ys)) \<Longrightarrow> c \<notin> set z"
      using Cons.IH by (meson list.set_sel(2) split_on_nonempty)
    ultimately show ?thesis using False Cons.prems by auto
  qed
qed

lemma split_on_id: "c \<notin> set s \<Longrightarrow> split_on c s = [s]"
  by (induction s) auto

lemma split_on_append_sep: "split_on c (xs @ c # ys) = split_on c xs @ split_on c ys"
  by (induction xs) auto

lemma join_split: "join_with [c] (split_on c s) = s"
proof (induction s)
  case Nil
  then show ?case by simp
next
  case (Cons x xs)
  obtain p ps where "split_on c xs = p # ps" by (cases "split_on c xs") auto
  with Cons show ?case by (cases ps) auto
qed

lemma join_with_Cons: "ys \<noteq> [] \<Longrightarrow> join_with sep (x # ys) = x @ sep @ join_with sep ys"
  by (cases ys) auto

lemma join_with_append:
  "xs \<noteq> [] \<Longrightarrow> ys \<noteq> [] \<Longrightarrow> join_with sep (xs @ ys) = join_with sep xs @ sep @ join_with sep ys"
proof (induction xs)
  case Nil
  then show ?case by simp
next
  case (Cons x xs)
  then show ?case by (cases xs) (auto simp: join_with_Cons)
qed

lemma split_join: "xs \<noteq> [] \<Longrightarrow> \<forall>x\<in>set xs. c \<notin> set x \<Longrightarrow> split_on c (join_with [c] xs) = xs"
proof (induction xs)
  case Nil
  then show ?case by simp
next
  case (Cons x xs)
  show ?case
  proof (cases xs)
    case Nil
    with Cons.prems show ?thesis by (simp add: split_on_id)
  next
    case (Cons y ys)
    with Cons.IH Cons.prems show ?thesis
      by (simp add: join_with_Cons split_on_append_sep split_on_id)
  qed
qed

lemma str_cut_found: "str_cut c s = (a, b, True) \<Longrightarrow> s = a @ c # b \<and> c \<notin> set a"
proof -
  assume h: "str_cut c s = (a, b, True)"
  then have c: "c \<in> set s" and a: "a = takeWhile (\<lambda>x. x \<noteq> c) s"
    and b: "b = tl (dropWhile (\<lambda>x. x \<noteq> c) s)"
    by (auto simp: str_cut_def split: if_splits)
  from c have ne: "dropWhile (\<lambda>x. x \<noteq> c) s \<noteq> []" by (auto simp: dropWhile_eq_Nil_conv)
  with hd_dropWhile [OF ne] have "dropWhile (\<lambda>x. x \<noteq> c) s = c # b"
    by (cases "dropWhile (\<lambda>x. x \<noteq> c) s") (auto simp: b)
  then have "s = a @ c # b" using takeWhile_dropWhile_id [of "\<lambda>x. x \<noteq> c" s] a by simp
  moreover have "c \<notin> set a" using a by (auto dest: set_takeWhileD)
  ultimately show ?thesis by simp
qed

lemma str_cut_append [simp, go_str]: "c \<notin> set a \<Longrightarrow> str_cut c (a @ c # b) = (a, b, True)"
proof -
  assume n: "c \<notin> set a"
  have "takeWhile (\<lambda>x. x \<noteq> c) (a @ c # b) = a @ takeWhile (\<lambda>x. x \<noteq> c) (c # b)"
    by (rule takeWhile_append2) (use n in auto)
  moreover have "dropWhile (\<lambda>x. x \<noteq> c) (a @ c # b) = dropWhile (\<lambda>x. x \<noteq> c) (c # b)"
    by (rule dropWhile_append2) (use n in auto)
  ultimately show ?thesis by (simp add: str_cut_def)
qed

lemma str_cut_absent [simp, go_str]: "c \<notin> set s \<Longrightarrow> str_cut c s = (s, [], False)"
  by (simp add: str_cut_def)

lemma split_trim_nonempty: "t \<in> set (split_trim s) \<Longrightarrow> t \<noteq> []"
  by (auto simp: split_trim_def)

subsection \<open>White space\<close>

lemma drop_spaces_suffix: "suffix (drop_spaces seqs s) s"
proof (induction seqs s rule: drop_spaces.induct)
  case (1 seqs s)
  show ?case
  proof (cases "drop_space seqs s")
    case None
    then show ?thesis by (simp add: drop_spaces.simps [of seqs s])
  next
    case (Some t)
    then have "suffix t s" by (auto simp: drop_space_def suffix_drop)
    with 1 Some show ?thesis
      by (auto simp: drop_spaces.simps [of seqs s] intro: suffix_order.trans)
  qed
qed

lemma trim_space_infix: "\<exists>a b. s = a @ trim_space s @ b"
proof -
  obtain a where a: "s = a @ drop_spaces space_seqs s"
    using drop_spaces_suffix [of space_seqs s] by (auto simp: suffix_def)
  define t where "t = drop_spaces space_seqs s"
  obtain b where b: "rev t = b @ drop_spaces (map rev space_seqs) (rev t)"
    using drop_spaces_suffix [of "map rev space_seqs" "rev t"] by (auto simp: suffix_def)
  then have "t = trim_space s @ rev b"
    by (metis rev_append rev_rev_ident t_def trim_space_def)
  with a show ?thesis by (auto simp: t_def)
qed

lemma trim_space_set: "set (trim_space s) \<subseteq> set s"
  using trim_space_infix [of s] by (metis Un_upper1 Un_upper2 order_trans set_append)

lemma trim_space_Nil [simp, go_str]: "trim_space [] = []"
  using trim_space_infix [of "[]"] by auto

text \<open>A string of characters that start no white-space sequence is its own trimming.\<close>

definition space_free :: "string \<Rightarrow> bool" where
  "space_free s = (\<forall>c\<in>set s. \<forall>w\<in>set space_seqs. c \<notin> set w)"

lemma drop_spaces_id: "find (\<lambda>w. w \<noteq> [] \<and> prefix w s) seqs = None \<Longrightarrow> drop_spaces seqs s = s"
  by (simp add: drop_spaces.simps [of seqs s] drop_space_def)

lemma no_space_prefix:
  "\<forall>c\<in>set s. \<forall>w\<in>set seqs. c \<notin> set w \<Longrightarrow> find (\<lambda>w. w \<noteq> [] \<and> prefix w s) seqs = None"
proof -
  assume n: "\<forall>c\<in>set s. \<forall>w\<in>set seqs. c \<notin> set w"
  { fix w assume w: "w \<in> set seqs" "w \<noteq> []" "prefix w s"
    then have "hd w \<in> set s" by (auto simp: prefix_def)
    with n w have False by (meson hd_in_set) }
  then show ?thesis by (auto simp: find_None_iff)
qed

lemma trim_space_id: "space_free s \<Longrightarrow> trim_space s = s"
  unfolding trim_space_def space_free_def
  by (subst drop_spaces_id, rule no_space_prefix, assumption,
      subst drop_spaces_id, rule no_space_prefix) auto

subsection \<open>Decimal numbers\<close>

lemma nat_digits_less_10 [simp]: "\<forall>d\<in>set (nat_digits n). d < 10"
proof (induction n rule: nat_digits.induct)
  case (1 n)
  then show ?case by (auto simp: nat_digits.simps [of n])
qed

lemma nat_digits_nonempty [simp]: "nat_digits n \<noteq> []"
  by (simp add: nat_digits.simps [of n])

lemma digit_char_val [simp]: "d < 10 \<Longrightarrow> digit_val (digit_char d) = d"
  by (simp add: digit_val_def digit_char_def)

lemma digit_char_is_digit [simp]: "d < 10 \<Longrightarrow> is_digit (digit_char d)"
  by (simp add: is_digit_def digit_char_def)

lemma digits_val_append: "digits_val acc (xs @ ys) = digits_val (digits_val acc xs) ys"
  by (induction xs arbitrary: acc) auto

lemma digits_val_nat_str: "digits_val 0 (nat_str n) = n"
  unfolding nat_str_def
proof (induction n rule: nat_digits.induct)
  case (1 n)
  then show ?case by (auto simp: nat_digits.simps [of n] digits_val_append)
qed

lemma nat_str_nonempty [simp]: "nat_str n \<noteq> []"
  by (simp add: nat_str_def)

lemma nat_str_digits: "list_all is_digit (nat_str n)"
  by (auto simp: nat_str_def list_all_iff)

lemma is_digit_not_sign: "is_digit c \<Longrightarrow> c \<noteq> CHR ''-'' \<and> c \<noteq> CHR ''+''"
  by (auto simp: is_digit_def)

lemma hd_nat_str: "hd (nat_str n) \<noteq> CHR ''-'' \<and> hd (nat_str n) \<noteq> CHR ''+''"
proof -
  have "hd (nat_str n) \<in> set (nat_str n)" by simp
  then have "is_digit (hd (nat_str n))" using nat_str_digits [of n] by (simp add: list_all_iff)
  then show ?thesis by (rule is_digit_not_sign)
qed

text \<open>Every 64-bit integer is read back from its decimal form.\<close>

lemma atoi_itoa: "int64_range i \<Longrightarrow> atoi (itoa i) = (i, True)"
proof (cases "i < 0")
  case True
  assume r: "int64_range i"
  have "int (digits_val 0 (nat_str (nat (- i)))) = - i" using True by (simp add: digits_val_nat_str)
  with r True show ?thesis
    by (simp add: atoi_def itoa_def Let_def nat_str_digits int64_range_def)
next
  case False
  assume r: "int64_range i"
  have "int (digits_val 0 (nat_str (nat i))) = i" using False by (simp add: digits_val_nat_str)
  with r False show ?thesis
    using hd_nat_str [of "nat i"]
    by (simp add: atoi_def itoa_def Let_def nat_str_digits int64_range_def)
qed

lemma wrap64_id: "int64_range i \<Longrightarrow> wrap64 i = i"
  by (simp add: wrap64_def int64_range_def min_int64_def max_int64_def)

lemma wrap64_range: "int64_range (wrap64 i)"
proof -
  have "0 \<le> (i + 9223372036854775808) mod 18446744073709551616" by simp
  moreover have "(i + 9223372036854775808) mod 18446744073709551616 < 18446744073709551616" by simp
  ultimately show ?thesis
    by (simp add: wrap64_def int64_range_def min_int64_def max_int64_def)
qed

lemma itoa_inj: "int64_range i \<Longrightarrow> int64_range j \<Longrightarrow> itoa i = itoa j \<Longrightarrow> i = j"
  using atoi_itoa by (metis prod.inject)

end
