(* ===== verification/GoPath.thy ===== *)
theory GoPath
  imports Prelude
begin

text \<open>
  The functions of \<open>path/filepath\<close> the sources use, on Unix paths: \<open>Clean\<close>, \<open>Join\<close>, \<open>Abs\<close>, \<open>Rel\<close>,
  \<open>Base\<close>, \<open>Dir\<close> and \<open>Ext\<close>. A path is a byte string; its components are the pieces between slashes.
  The lemmas reduce cleaned absolute paths to lists of components, on which the containment
  arguments of the other theories are made.
\<close>

section \<open>Components and Clean\<close>

definition is_abs :: "string \<Rightarrow> bool" where
  "is_abs p = (p \<noteq> [] \<and> hd p = CHR ''/'')"

definition raw_comps :: "string \<Rightarrow> string list" where
  "raw_comps p = filter (\<lambda>c. c \<noteq> [] \<and> c \<noteq> ''.'') (split_on (CHR ''/'') p)"

text \<open>
  The stack of \<open>filepath.Clean\<close>: a dot-dot removes the component before it; at the front of a
  rooted path it is dropped, at the front of a relative one it stays. The first argument says
  whether the path is rooted, the second is the output so far, last component first.
\<close>

fun clean_stack :: "bool \<Rightarrow> string list \<Rightarrow> string list \<Rightarrow> string list" where
  "clean_stack r st [] = rev st"
| "clean_stack r st (c # cs) =
     (if c = ''..'' then
        (case st of
           [] \<Rightarrow> (if r then clean_stack r [] cs else clean_stack r [''..''] cs)
         | x # xs \<Rightarrow> (if x = ''..'' then clean_stack r (''..'' # x # xs) cs else clean_stack r xs cs))
      else clean_stack r (c # st) cs)"

definition join_slash :: "string list \<Rightarrow> string" where
  "join_slash cs = join_with ''/'' cs"

definition abs_path :: "string list \<Rightarrow> string" where
  "abs_path cs = CHR ''/'' # join_slash cs"

definition clean :: "string \<Rightarrow> string" where
  "clean p =
     (if is_abs p then abs_path (clean_stack True [] (raw_comps p))
      else let cs = clean_stack False [] (raw_comps p)
           in if cs = [] then ''.'' else join_slash cs)"

text \<open>\<open>filepath.Join\<close> ignores empty elements; with nothing left the result is the empty string.\<close>

definition path_join :: "string list \<Rightarrow> string" where
  "path_join es =
     (let ne = dropWhile (\<lambda>e. e = []) es in if ne = [] then [] else clean (join_slash ne))"

text \<open>\<open>filepath.Abs\<close> in the working directory \<open>cwd\<close>.\<close>

definition path_abs :: "string \<Rightarrow> string \<Rightarrow> string" where
  "path_abs cwd p = (if is_abs p then clean p else path_join [cwd, p])"

text \<open>\<open>filepath.Rel\<close>: strip the common components, then go up once per component left of the base.\<close>

fun strip_common :: "string list \<Rightarrow> string list \<Rightarrow> string list \<times> string list" where
  "strip_common (b # bs) (t # ts) = (if b = t then strip_common bs ts else (b # bs, t # ts))"
| "strip_common bs ts = (bs, ts)"

definition path_rel :: "string \<Rightarrow> string \<Rightarrow> string res" where
  "path_rel basepath targpath =
     (let b = clean basepath; t = clean targpath
      in if t = b then Inr ''.''
         else if is_abs b \<noteq> is_abs t then
           Inl (ErrMsg (''Rel: can't make '' @ targpath @ '' relative to '' @ basepath))
         else let (rb, rt) = strip_common (raw_comps b) (raw_comps t)
              in if rb \<noteq> [] \<and> hd rb = ''..'' then
                   Inl (ErrMsg (''Rel: can't make '' @ targpath @ '' relative to '' @ basepath))
                 else Inr (join_slash (replicate (length rb) ''..'' @ rt)))"

text \<open>\<open>filepath.Base\<close>, \<open>filepath.Dir\<close> and \<open>filepath.Ext\<close>.\<close>

definition path_base :: "string \<Rightarrow> string" where
  "path_base p =
     (if p = [] then ''.''
      else let q = trim_right p ''/'' in if q = [] then ''/'' else last (split_on (CHR ''/'') q))"

definition path_dir :: "string \<Rightarrow> string" where
  "path_dir p = clean (rev (dropWhile (\<lambda>c. c \<noteq> CHR ''/'') (rev p)))"

definition path_ext :: "string \<Rightarrow> string" where
  "path_ext p =
     (let b = last (split_on (CHR ''/'') p)
      in if CHR ''.'' \<in> set b then CHR ''.'' # last (split_on (CHR ''.'') b) else [])"

section \<open>Lemmas\<close>

definition ok_comp :: "string \<Rightarrow> bool" where
  "ok_comp c = (c \<noteq> [] \<and> c \<noteq> ''.'' \<and> c \<noteq> ''..'' \<and> CHR ''/'' \<notin> set c)"

definition comp_like :: "string \<Rightarrow> bool" where
  "comp_like c = (c \<noteq> [] \<and> c \<noteq> ''.'' \<and> CHR ''/'' \<notin> set c)"

lemma ok_comp_like: "ok_comp c \<Longrightarrow> comp_like c"
  by (simp add: ok_comp_def comp_like_def)

lemma raw_comps_like: "\<forall>c\<in>set (raw_comps p). comp_like c"
  by (auto simp: raw_comps_def comp_like_def dest: split_on_no_sep)

lemma raw_comps_append: "raw_comps (p @ CHR ''/'' # q) = raw_comps p @ raw_comps q"
  by (simp add: raw_comps_def split_on_append_sep)

lemma raw_comps_slash [simp, path_simps]: "raw_comps (CHR ''/'' # q) = raw_comps q"
  using raw_comps_append [of "[]" q] by (simp add: raw_comps_def)

lemma raw_comps_Nil [simp, path_simps]: "raw_comps [] = []"
  by (simp add: raw_comps_def)

lemma raw_comps_join: "\<forall>c\<in>set cs. comp_like c \<Longrightarrow> raw_comps (join_slash cs) = cs"
proof (cases "cs = []")
  case False
  assume h: "\<forall>c\<in>set cs. comp_like c"
  then have "split_on (CHR ''/'') (join_slash cs) = cs"
    unfolding join_slash_def using False by (intro split_join) (auto simp: comp_like_def)
  with h show ?thesis by (auto simp: raw_comps_def comp_like_def filter_id_conv)
qed (simp add: join_slash_def)

lemma raw_comps_abs_path: "\<forall>c\<in>set cs. comp_like c \<Longrightarrow> raw_comps (abs_path cs) = cs"
  by (simp add: abs_path_def raw_comps_join)

lemma is_abs_abs_path [simp, path_simps]: "is_abs (abs_path cs)"
  by (simp add: is_abs_def abs_path_def)

text \<open>On a rooted path, the stack holds plain names only.\<close>

lemma clean_stack_ok:
  "\<forall>c\<in>set cs. comp_like c \<Longrightarrow> \<forall>c\<in>set st. ok_comp c \<Longrightarrow>
   \<forall>c\<in>set (clean_stack True st cs). ok_comp c"
proof (induction cs arbitrary: st)
  case (Cons c cs)
  then have c: "comp_like c" and cs: "\<forall>c\<in>set cs. comp_like c" by auto
  show ?case
  proof (cases "c = ''..''")
    case True
    show ?thesis
    proof (cases st)
      case Nil
      with True Cons.IH [of "[]"] cs show ?thesis by simp
    next
      case (Cons x xs)
      with Cons.prems(2) have "x \<noteq> ''..''" "\<forall>c\<in>set xs. ok_comp c" by (auto simp: ok_comp_def)
      with True Cons Cons.IH [of xs] cs show ?thesis by simp
    qed
  next
    case False
    with c have "ok_comp c" by (simp add: ok_comp_def comp_like_def)
    with Cons.prems(2) Cons.IH [of "c # st"] cs False show ?thesis by simp
  qed
qed simp

lemma clean_stack_plain:
  "\<forall>c\<in>set cs. c \<noteq> ''..'' \<Longrightarrow> clean_stack r st cs = rev st @ cs"
  by (induction cs arbitrary: st) auto

lemma clean_abs: "is_abs p \<Longrightarrow> clean p = abs_path (clean_stack True [] (raw_comps p))"
  by (simp add: clean_def)

lemma clean_abs_path: "\<forall>c\<in>set cs. ok_comp c \<Longrightarrow> clean (abs_path cs) = abs_path cs"
  by (simp add: clean_abs raw_comps_abs_path ok_comp_like clean_stack_plain ok_comp_def)

lemma clean_abs_comps: "is_abs p \<Longrightarrow> \<exists>cs. clean p = abs_path cs \<and> (\<forall>c\<in>set cs. ok_comp c)"
  using clean_stack_ok [OF raw_comps_like, of "[]" p] by (auto simp: clean_abs)

definition clean_root :: "string \<Rightarrow> bool" where
  "clean_root p = (is_abs p \<and> clean p = p)"

lemma clean_root_comps:
  assumes "clean_root p"
  obtains cs where "p = abs_path cs" "\<forall>c\<in>set cs. ok_comp c" "raw_comps p = cs"
proof -
  from assms have "is_abs p" by (simp add: clean_root_def)
  then obtain cs where cs: "clean p = abs_path cs" "\<forall>c\<in>set cs. ok_comp c"
    using clean_abs_comps by blast
  with assms have "p = abs_path cs" by (simp add: clean_root_def)
  with cs show thesis by (intro that) (auto simp: raw_comps_abs_path ok_comp_like)
qed

lemma clean_root_abs_path: "\<forall>c\<in>set cs. ok_comp c \<Longrightarrow> clean_root (abs_path cs)"
  by (simp add: clean_root_def clean_abs_path)

lemma clean_clean_root: "is_abs p \<Longrightarrow> clean_root (clean p)"
  using clean_abs_comps [of p] by (auto simp: clean_root_abs_path)

lemma path_join_abs:
  assumes "is_abs p"
  shows "path_join (p # es) = abs_path (clean_stack True [] (raw_comps p @ concat (map raw_comps es)))"
proof -
  from assms have ne: "p \<noteq> []" by (simp add: is_abs_def)
  have j: "raw_comps (join_slash (p # es)) = raw_comps p @ concat (map raw_comps es)"
  proof (induction es arbitrary: p)
    case Nil
    then show ?case by (simp add: join_slash_def)
  next
    case (Cons e es)
    have "join_slash (p # e # es) = p @ CHR ''/'' # join_slash (e # es)"
      by (simp add: join_slash_def)
    then show ?case using Cons.IH [of e] by (simp add: raw_comps_append)
  qed
  have "is_abs (join_slash (p # es))"
    using assms by (cases es) (auto simp: join_slash_def is_abs_def)
  then show ?thesis using ne by (simp add: path_join_def clean_abs j)
qed

lemma path_join_root:
  "clean_root p \<Longrightarrow> path_join (p # es) =
     abs_path (clean_stack True (rev (raw_comps p)) (concat (map raw_comps es)))"
proof -
  assume r: "clean_root p"
  then obtain cs where cs: "p = abs_path cs" "\<forall>c\<in>set cs. ok_comp c" "raw_comps p = cs"
    by (rule clean_root_comps)
  have app: "clean_stack True st (cs @ ds) = clean_stack True (rev cs @ st) ds" for st ds
    using cs(2) by (induction cs arbitrary: st) (auto simp: ok_comp_def)
  from r have "is_abs p" by (simp add: clean_root_def)
  then show ?thesis using app [of "[]"] cs(3) by (simp add: path_join_abs)
qed

lemma path_join_root_plain:
  "clean_root p \<Longrightarrow> \<forall>c\<in>set (concat (map raw_comps es)). c \<noteq> ''..'' \<Longrightarrow>
   path_join (p # es) = abs_path (raw_comps p @ concat (map raw_comps es))"
  by (simp add: path_join_root clean_stack_plain)

lemma abs_path_inj:
  "\<forall>c\<in>set cs. comp_like c \<Longrightarrow> \<forall>c\<in>set ds. comp_like c \<Longrightarrow> abs_path cs = abs_path ds \<Longrightarrow> cs = ds"
  by (metis raw_comps_abs_path)

lemma raw_comps_single: "ok_comp c \<Longrightarrow> raw_comps c = [c]"
  by (simp add: raw_comps_def ok_comp_def split_on_id)

lemma strip_common_split:
  "strip_common bs ts = (rb, rt) \<Longrightarrow> \<exists>cs. bs = cs @ rb \<and> ts = cs @ rt \<and>
     (rb = [] \<or> rt = [] \<or> hd rb \<noteq> hd rt)"
proof (induction bs ts rule: strip_common.induct)
  case (1 b bs t ts)
  show ?case
  proof (cases "b = t")
    case True
    with 1 obtain cs where "bs = cs @ rb" "ts = cs @ rt" "rb = [] \<or> rt = [] \<or> hd rb \<noteq> hd rt"
      by auto
    with True show ?thesis by (intro exI [of _ "t # cs"]) simp
  next
    case False
    with "1.prems" show ?thesis by auto
  qed
qed auto

text \<open>
  The escape test of the local file driver: for cleaned absolute paths, \<open>filepath.Rel\<close> starts
  with a dot-dot component exactly when the target does not lie below the base.
\<close>

lemma path_rel_abs:
  assumes b: "\<forall>c\<in>set bs. ok_comp c" and t: "\<forall>c\<in>set ts. ok_comp c"
  shows "path_rel (abs_path bs) (abs_path ts) =
     Inr (if ts = bs then ''.''
          else (let (rb, rt) = strip_common bs ts in join_slash (replicate (length rb) ''..'' @ rt)))"
proof -
  from b t have bl: "\<forall>c\<in>set bs. comp_like c" and tl: "\<forall>c\<in>set ts. comp_like c"
    by (simp_all add: ok_comp_like)
  have eq: "abs_path ts = abs_path bs \<longleftrightarrow> ts = bs"
    using abs_path_inj [OF tl bl] by blast
  obtain rb rt where s: "strip_common bs ts = (rb, rt)" by (cases "strip_common bs ts")
  then obtain cs where "bs = cs @ rb" using strip_common_split by blast
  with b have nd: "\<not> (rb \<noteq> [] \<and> hd rb = ''..'')" by (cases rb) (auto simp: ok_comp_def)
  have cb: "clean (abs_path bs) = abs_path bs" and ct: "clean (abs_path ts) = abs_path ts"
    using b t by (simp_all add: clean_abs_path)
  have rb': "raw_comps (abs_path bs) = bs" and rt': "raw_comps (abs_path ts) = ts"
    using bl tl by (simp_all add: raw_comps_abs_path)
  show ?thesis
    unfolding path_rel_def Let_def cb ct rb' rt' eq s using nd by auto
qed

lemma join_slash_dotdot:
  "join_slash (''..'' # cs) = ''..'' @ (if cs = [] then [] else CHR ''/'' # join_slash cs)"
  by (cases cs) (auto simp: join_slash_def)

lemma rel_escapes_iff:
  assumes b: "\<forall>c\<in>set bs. ok_comp c" and t: "\<forall>c\<in>set ts. ok_comp c"
    and r: "path_rel (abs_path bs) (abs_path ts) = Inr rel"
  shows "(rel = ''..'' \<or> prefix ''../'' rel) \<longleftrightarrow> \<not> prefix bs ts"
proof (cases "ts = bs")
  case True
  with r b t have "rel = ''.''" by (simp add: path_rel_abs)
  with True show ?thesis by simp
next
  case False
  obtain rb rt where s: "strip_common bs ts = (rb, rt)" by (cases "strip_common bs ts")
  then obtain cs where cs: "bs = cs @ rb" "ts = cs @ rt" "rb = [] \<or> rt = [] \<or> hd rb \<noteq> hd rt"
    using strip_common_split by blast
  from r s False b t have rel: "rel = join_slash (replicate (length rb) ''..'' @ rt)"
    by (simp add: path_rel_abs)
  show ?thesis
  proof (cases rb)
    case Nil
    with cs have "prefix bs ts" by simp
    moreover have "rt \<noteq> []" using False cs Nil by auto
    then obtain d ds where d: "rt = d # ds" by (cases rt) auto
    then have okd: "ok_comp d" using t cs(2) by auto
    have "\<not> (rel = ''..'' \<or> prefix ''../'' rel)"
    proof
      assume a: "rel = ''..'' \<or> prefix ''../'' rel"
      have "raw_comps rel = rt" using rel Nil t cs(2) by (simp add: raw_comps_join ok_comp_like)
      moreover have "\<exists>q. raw_comps rel = ''..'' # q"
        using a by (auto simp: prefix_def raw_comps_def)
      ultimately show False using d okd by (auto simp: ok_comp_def)
    qed
    ultimately show ?thesis by simp
  next
    case (Cons d ds)
    then have "rel = join_slash (''..'' # replicate (length ds) ''..'' @ rt)" using rel by simp
    then have "rel = ''..'' \<or> prefix ''../'' rel" by (auto simp: join_slash_dotdot)
    moreover have "\<not> prefix bs ts"
      using cs Cons by (cases rt) auto
    ultimately show ?thesis by simp
  qed
qed

section \<open>Directories of rooted paths\<close>

lemma abs_path_snoc:
  "abs_path (d @ [c]) = (if d = [] then [] else abs_path d) @ CHR ''/'' # c"
  by (simp add: abs_path_def join_slash_def join_with_append)

lemma path_dir_abs:
  assumes d: "\<forall>x\<in>set d. ok_comp x" and c: "ok_comp c"
  shows "path_dir (abs_path (d @ [c])) = abs_path d"
proof -
  have "dropWhile (\<lambda>x. x \<noteq> CHR ''/'') (rev c @ CHR ''/'' # t) = CHR ''/'' # t" for t
    using c by (induction "rev c") (auto simp: ok_comp_def dropWhile_append3)
  then have "path_dir (abs_path (d @ [c])) = clean ((if d = [] then [] else abs_path d) @ [CHR ''/''])"
    by (simp add: path_dir_def abs_path_snoc)
  also have "\<dots> = abs_path d"
  proof -
    have a: "is_abs ((if d = [] then [] else abs_path d) @ [CHR ''/''])"
      by (simp add: is_abs_def abs_path_def)
    have "raw_comps ((if d = [] then [] else abs_path d) @ [CHR ''/'']) = d"
      using d raw_comps_append [of "abs_path d" "[]"]
      by (auto simp: raw_comps_abs_path ok_comp_like raw_comps_slash [of "[]"])
    then show ?thesis using d by (simp add: clean_abs [OF a] clean_stack_plain ok_comp_def)
  qed
  finally show ?thesis .
qed

lemma path_join_abs_single:
  assumes "\<forall>x\<in>set d. ok_comp x" "\<forall>x\<in>set cs. ok_comp x"
  shows "path_join (abs_path d # cs) = abs_path (d @ cs)"
proof -
  have "concat (map raw_comps cs) = cs"
    using assms(2) by (induction cs) (auto simp: raw_comps_single)
  moreover have "\<forall>c\<in>set cs. c \<noteq> ''..''" using assms(2) by (auto simp: ok_comp_def)
  ultimately show ?thesis
    using assms by (simp add: path_join_root_plain clean_root_abs_path raw_comps_abs_path ok_comp_like)
qed

end
