(* ===== verification/FileSystem.thy ===== *)
theory FileSystem
  imports GoPath "HOL-Library.AList"
begin

text \<open>
  The operating system as the sources see it through the packages \<open>os\<close> and \<open>path/filepath\<close>: a
  tree of regular files, directories and symbolic links, a working directory, environment
  variables and a home directory. A location in the tree is the list of its components from the
  root; the root itself always exists. Files carry their permission bits and their contents.

  An operation returns the new state, or the error the kernel reports for the shape of the tree
  (missing entry, not a directory, and so on). Failures that do not depend on the tree (no space,
  no permission, an I/O error) are not modelled. Paths are resolved the way the kernel resolves
  them, following symbolic links component by component with a bound on their number; a trailing
  slash is not significant here.
\<close>

section \<open>State\<close>

datatype node = Reg nat string | Dir nat | Link string

type_synonym loc = "string list"
type_synonym fs = "(loc \<times> node) list"

record osys =
  files :: fs
  cwd :: string
  getenv :: "string \<Rightarrow> string"
  home_dir :: "string option"

definition node_at :: "fs \<Rightarrow> loc \<Rightarrow> node option" where
  "node_at f p = (if p = [] then Some (Dir 493) else map_of f p)"

definition is_dir :: "fs \<Rightarrow> loc \<Rightarrow> bool" where
  "is_dir f p = (case node_at f p of Some (Dir _) \<Rightarrow> True | _ \<Rightarrow> False)"

section \<open>Path resolution\<close>

text \<open>
  \<open>walk f n cur cs\<close> resolves the components \<open>cs\<close> from the directory \<open>cur\<close>, following at most \<open>n\<close>
  symbolic links. The result is a location whose last component may be missing; every directory
  on the way must exist.
\<close>

function walk :: "fs \<Rightarrow> nat \<Rightarrow> loc \<Rightarrow> string list \<Rightarrow> errno + loc" where
  "walk f n cur [] = Inr cur"
| "walk f n cur (c # cs) =
     (if c = ''..'' then walk f n (butlast cur) cs
      else case node_at f (cur @ [c]) of
             None \<Rightarrow> (if cs = [] then Inr (cur @ [c]) else Inl ENOENT)
           | Some (Dir _) \<Rightarrow> walk f n (cur @ [c]) cs
           | Some (Reg _ _) \<Rightarrow> (if cs = [] then Inr (cur @ [c]) else Inl ENOTDIR)
           | Some (Link t) \<Rightarrow>
               (case n of
                  0 \<Rightarrow> Inl ELOOP
                | Suc m \<Rightarrow> walk f m (if is_abs t then [] else cur) (raw_comps t @ cs)))"
  by pat_completeness auto
termination
  by (relation "measures [\<lambda>(f, n, cur, cs). n, \<lambda>(f, n, cur, cs). length cs]") auto

definition start_dir :: "osys \<Rightarrow> string \<Rightarrow> loc" where
  "start_dir s p = (if is_abs p then [] else raw_comps (cwd s))"

definition max_links :: nat where "max_links = 40"

text \<open>\<open>resolve\<close> follows a link in the last component, \<open>lresolve\<close> does not.\<close>

definition resolve :: "osys \<Rightarrow> string \<Rightarrow> errno + loc" where
  "resolve s p =
     (if p = [] then Inl ENOENT else walk (files s) max_links (start_dir s p) (raw_comps p))"

definition lresolve :: "osys \<Rightarrow> string \<Rightarrow> errno + loc" where
  "lresolve s p =
     (let cs = raw_comps p
      in if p = [] then Inl ENOENT
         else if cs = [] \<or> last cs = ''..'' then resolve s p
         else case walk (files s) max_links (start_dir s p) (butlast cs) of
                Inl e \<Rightarrow> Inl e
              | Inr d \<Rightarrow> (case node_at (files s) d of
                           Some (Dir _) \<Rightarrow> Inr (d @ [last cs])
                         | None \<Rightarrow> Inl ENOENT
                         | _ \<Rightarrow> Inl ENOTDIR))"

section \<open>Operations of the package os\<close>

definition os_stat :: "osys \<Rightarrow> string \<Rightarrow> (loc \<times> node) res" where
  "os_stat s p =
     (case resolve s p of
        Inl e \<Rightarrow> Inl (ErrOS e p)
      | Inr l \<Rightarrow> (case node_at (files s) l of
                   None \<Rightarrow> Inl (ErrOS ENOENT p)
                 | Some nd \<Rightarrow> Inr (l, nd)))"

definition os_read_file :: "osys \<Rightarrow> string \<Rightarrow> string res" where
  "os_read_file s p =
     (case os_stat s p of
        Inl e \<Rightarrow> Inl e
      | Inr (_, Reg _ d) \<Rightarrow> Inr d
      | Inr (_, _) \<Rightarrow> Inl (ErrOS EISDIR p))"

text \<open>
  \<open>os.WriteFile\<close> and \<open>os.Create\<close>: a new file gets the mode, an existing one keeps its own and is
  truncated first.
\<close>

definition os_write_file :: "osys \<Rightarrow> string \<Rightarrow> string \<Rightarrow> nat \<Rightarrow> osys res" where
  "os_write_file s p d mode =
     (case resolve s p of
        Inl e \<Rightarrow> Inl (ErrOS e p)
      | Inr l \<Rightarrow> (case node_at (files s) l of
                   Some (Dir _) \<Rightarrow> Inl (ErrOS EISDIR p)
                 | Some (Reg m _) \<Rightarrow> Inr (s\<lparr>files := AList.update l (Reg m d) (files s)\<rparr>)
                 | _ \<Rightarrow> Inr (s\<lparr>files := AList.update l (Reg mode d) (files s)\<rparr>)))"

text \<open>
  \<open>os.Rename\<close> of a file or link over a missing entry, a file or a link. The sources never rename a
  directory; Go reports EEXIST when the new name is one.
\<close>

definition os_rename :: "osys \<Rightarrow> string \<Rightarrow> string \<Rightarrow> osys res" where
  "os_rename s p q =
     (case lresolve s p of
        Inl e \<Rightarrow> Inl (ErrOS e p)
      | Inr a \<Rightarrow>
          (case node_at (files s) a of
             None \<Rightarrow> Inl (ErrOS ENOENT p)
           | Some (Dir _) \<Rightarrow> Inl (ErrOS EISDIR p)
           | Some nd \<Rightarrow>
               (case lresolve s q of
                  Inl e \<Rightarrow> Inl (ErrOS e q)
                | Inr b \<Rightarrow>
                    (if is_dir (files s) b then Inl (ErrOS EEXIST q)
                     else Inr (s\<lparr>files := AList.update b nd (AList.delete a (files s))\<rparr>)))))"

definition children :: "fs \<Rightarrow> loc \<Rightarrow> (loc \<times> node) list" where
  "children f d = filter (\<lambda>(k, _). k \<noteq> [] \<and> butlast k = d) f"

definition os_remove :: "osys \<Rightarrow> string \<Rightarrow> osys res" where
  "os_remove s p =
     (case lresolve s p of
        Inl e \<Rightarrow> Inl (ErrOS e p)
      | Inr l \<Rightarrow>
          (case node_at (files s) l of
             None \<Rightarrow> Inl (ErrOS ENOENT p)
           | Some nd \<Rightarrow>
               (if is_dir (files s) l \<and> (l = [] \<or> children (files s) l \<noteq> [])
                then Inl (ErrOS ENOTEMPTY p)
                else Inr (s\<lparr>files := AList.delete l (files s)\<rparr>))))"

text \<open>\<open>os.MkdirAll\<close>: make every missing directory along the path, first component first.\<close>

fun mkdir_from :: "osys \<Rightarrow> nat \<Rightarrow> string \<Rightarrow> loc \<Rightarrow> string list \<Rightarrow> osys res" where
  "mkdir_from s mode p cur [] = Inr s"
| "mkdir_from s mode p cur (c # cs) =
     (case walk (files s) max_links cur [c] of
        Inl e \<Rightarrow> Inl (ErrOS e p)
      | Inr l \<Rightarrow>
          (case node_at (files s) l of
             Some (Dir _) \<Rightarrow> mkdir_from s mode p l cs
           | Some _ \<Rightarrow> Inl (ErrOS ENOTDIR p)
           | None \<Rightarrow>
               (if l = cur @ [c]
                then mkdir_from (s\<lparr>files := AList.update l (Dir mode) (files s)\<rparr>) mode p l cs
                else Inl (ErrOS EEXIST p))))"

definition os_mkdir_all :: "osys \<Rightarrow> string \<Rightarrow> nat \<Rightarrow> osys res" where
  "os_mkdir_all s p mode =
     (if p = [] then Inl (ErrOS ENOENT p) else mkdir_from s mode p (start_dir s p) (raw_comps p))"

text \<open>\<open>os.ReadDir\<close>: the entries of a directory, sorted by name, without following links.\<close>

definition os_read_dir :: "osys \<Rightarrow> string \<Rightarrow> (string \<times> node) list res" where
  "os_read_dir s p =
     (case os_stat s p of
        Inl e \<Rightarrow> Inl e
      | Inr (l, Dir _) \<Rightarrow>
          Inr (sort_key fst (map (\<lambda>(k, nd). (last k, nd)) (children (files s) l)))
      | Inr (_, _) \<Rightarrow> Inl (ErrOS ENOTDIR p))"

text \<open>\<open>filepath.EvalSymlinks\<close> of an absolute path: its location, which must exist (255 links).\<close>

definition eval_symlinks :: "osys \<Rightarrow> string \<Rightarrow> string option" where
  "eval_symlinks s p =
     (case walk (files s) 255 (start_dir s p) (raw_comps p) of
        Inl _ \<Rightarrow> None
      | Inr l \<Rightarrow> (case node_at (files s) l of None \<Rightarrow> None | Some _ \<Rightarrow> Some (abs_path l)))"

section \<open>Well-formed trees without links\<close>

text \<open>
  Every entry has a directory above it and plain component names. The store components are
  proved on trees without symbolic links (\<open>no_links\<close>), on which a path leads to the location
  spelled by its components.
\<close>

definition wf_fs :: "fs \<Rightarrow> bool" where
  "wf_fs f = (distinct (map fst f) \<and>
     (\<forall>(k, nd)\<in>set f. k \<noteq> [] \<and> (\<forall>c\<in>set k. ok_comp c) \<and> is_dir f (butlast k)))"

definition no_links :: "fs \<Rightarrow> bool" where
  "no_links f = (\<forall>(k, nd)\<in>set f. case nd of Link _ \<Rightarrow> False | _ \<Rightarrow> True)"

definition is_link :: "node \<Rightarrow> bool" where
  "is_link nd = (case nd of Link _ \<Rightarrow> True | _ \<Rightarrow> False)"

definition plain_fs :: "fs \<Rightarrow> bool" where
  "plain_fs f = (wf_fs f \<and> no_links f)"

text \<open>No regular file stands where a directory of the path to \<open>p\<close> has to be.\<close>

definition dir_free :: "fs \<Rightarrow> loc \<Rightarrow> bool" where
  "dir_free f p = list_all (\<lambda>q. node_at f q = None \<or> is_dir f q) (prefixes p)"

lemma node_at_Nil [simp]: "node_at f [] = Some (Dir 493)"
  by (simp add: node_at_def)

lemma is_dir_Nil [simp]: "is_dir f []"
  by (simp add: is_dir_def)

lemma node_at_update [simp]:
  "l \<noteq> [] \<Longrightarrow> node_at (AList.update l nd f) p = (if p = l then Some nd else node_at f p)"
  by (auto simp: node_at_def update_conv)

lemma node_at_delete [simp]:
  "l \<noteq> [] \<Longrightarrow> node_at (AList.delete l f) p = (if p = l then None else node_at f p)"
  by (auto simp: node_at_def delete_conv)

lemma is_dirI: "node_at f p = Some (Dir m) \<Longrightarrow> is_dir f p"
  by (simp add: is_dir_def)

lemma is_dirE: "is_dir f p \<Longrightarrow> (\<And>m. node_at f p = Some (Dir m) \<Longrightarrow> P) \<Longrightarrow> P"
  by (auto simp: is_dir_def split: option.splits node.splits)

lemma is_dir_update:
  "l \<noteq> [] \<Longrightarrow> is_dir (AList.update l nd f) p =
     (if p = l then (case nd of Dir _ \<Rightarrow> True | _ \<Rightarrow> False) else is_dir f p)"
  by (simp add: is_dir_def)

lemma is_dir_delete: "l \<noteq> [] \<Longrightarrow> is_dir (AList.delete l f) p = (p \<noteq> l \<and> is_dir f p)"
  by (simp add: is_dir_def)

lemma wf_fs_entry:
  "wf_fs f \<Longrightarrow> node_at f p = Some nd \<Longrightarrow> p \<noteq> [] \<Longrightarrow> (\<forall>c\<in>set p. ok_comp c) \<and> is_dir f (butlast p)"
  by (fastforce simp: wf_fs_def node_at_def dest!: map_of_SomeD)

lemma wf_fs_dir_above:
  "wf_fs f \<Longrightarrow> node_at f (p @ q) = Some nd \<Longrightarrow> q \<noteq> [] \<Longrightarrow> is_dir f p"
proof (induction q arbitrary: nd rule: rev_induct)
  case Nil
  then show ?case by simp
next
  case (snoc x xs)
  from snoc.prems have d: "is_dir f (p @ xs)"
    using wf_fs_entry [of f "p @ xs @ [x]"] by (simp add: butlast_append)
  show ?case
  proof (cases "xs = []")
    case True
    with d show ?thesis by simp
  next
    case False
    with d snoc.IH snoc.prems(1) show ?thesis by (auto elim: is_dirE)
  qed
qed

lemma no_links_node: "no_links f \<Longrightarrow> node_at f p \<noteq> Some (Link t)"
  by (cases "p = []") (auto simp: no_links_def node_at_def dest!: map_of_SomeD)

lemma wf_fs_update:
  assumes wf: "wf_fs f" and l: "l \<noteq> []" "\<forall>c\<in>set l. ok_comp c" "is_dir f (butlast l)"
    and d: "\<not> is_dir f l \<or> (\<exists>m. nd = Dir m)"
  shows "wf_fs (AList.update l nd f)"
proof -
  let ?f = "AList.update l nd f"
  have dist: "distinct (map fst ?f)"
    using wf by (simp add: wf_fs_def distinct_update)
  have "k \<noteq> [] \<and> (\<forall>c\<in>set k. ok_comp c) \<and> is_dir ?f (butlast k)" if kn: "(k, n) \<in> set ?f" for k n
  proof -
    from kn dist have m: "map_of ?f k = Some n" by simp
    show ?thesis
    proof (cases "k = l")
      case True
      have "butlast l \<noteq> l" using l(1) by (metis append_butlast_last_id self_append_conv not_Cons_self2)
      with True l show ?thesis by (simp add: is_dir_update)
    next
      case False
      with m have "map_of f k = Some n" by (simp add: update_conv)
      then have "(k, n) \<in> set f" by (rule map_of_SomeD)
      with wf have "k \<noteq> []" "\<forall>c\<in>set k. ok_comp c" "is_dir f (butlast k)"
        by (auto simp: wf_fs_def)
      with d l(1) show ?thesis by (auto simp: is_dir_update)
    qed
  qed
  with dist show ?thesis by (auto simp: wf_fs_def)
qed

lemma wf_fs_delete:
  assumes wf: "wf_fs f" and l: "l \<noteq> []" and c: "\<not> is_dir f l \<or> children f l = []"
  shows "wf_fs (AList.delete l f)"
proof -
  have sub: "set (AList.delete l f) = {(k, n) \<in> set f. k \<noteq> l}"
    by (auto simp: AList.delete_eq)
  have "butlast k \<noteq> l" if kn: "(k, n) \<in> set f" "is_dir f (butlast k)" for k n
  proof
    assume e: "butlast k = l"
    with kn(2) c have "children f l = []" by auto
    moreover from kn(1) wf have "k \<noteq> []" by (auto simp: wf_fs_def)
    with kn(1) e have "(k, n) \<in> set (children f l)" by (auto simp: children_def)
    ultimately show False by simp
  qed
  with wf l show ?thesis
    by (fastforce simp: wf_fs_def sub is_dir_delete distinct_delete)
qed

lemma no_links_update: "no_links f \<Longrightarrow> \<not> is_link nd \<Longrightarrow> no_links (AList.update l nd f)"
proof -
  assume n: "no_links f" and nd: "\<not> is_link nd"
  have "set (AList.update l nd f) \<subseteq> insert (l, nd) (set f)"
    by (induction f) auto
  with n nd show ?thesis
    by (fastforce simp: no_links_def is_link_def split: node.splits)
qed

lemma no_links_delete: "no_links f \<Longrightarrow> no_links (AList.delete l f)"
  by (auto simp: no_links_def AList.delete_eq)

section \<open>Resolution on plain trees\<close>

lemma walk_exists:
  "plain_fs f \<Longrightarrow> is_dir f cur \<Longrightarrow> \<forall>c\<in>set cs. ok_comp c \<Longrightarrow> node_at f (cur @ cs) = Some nd \<Longrightarrow>
   walk f n cur cs = Inr (cur @ cs)"
proof (induction cs arbitrary: cur)
  case Nil
  then show ?case by simp
next
  case (Cons c cs)
  from Cons.prems(3) have nd: "c \<noteq> ''..''" by (simp add: ok_comp_def)
  show ?case
  proof (cases "cs = []")
    case True
    with Cons.prems nd show ?thesis
      by (cases nd) (auto simp: plain_fs_def no_links_node)
  next
    case False
    with Cons.prems(1,4) have d: "is_dir f (cur @ [c])"
      using wf_fs_dir_above [of f "cur @ [c]" cs nd] by (simp add: plain_fs_def)
    then obtain m where "node_at f (cur @ [c]) = Some (Dir m)" by (rule is_dirE)
    with Cons.IH [of "cur @ [c]"] Cons.prems nd d show ?thesis by simp
  qed
qed

lemma walk_new:
  assumes "plain_fs f" "is_dir f cur" "\<forall>c\<in>set cs. ok_comp c" "cs \<noteq> []"
    "is_dir f (cur @ butlast cs)" "node_at f (cur @ cs) = None"
  shows "walk f n cur cs = Inr (cur @ cs)"
  using assms
proof (induction cs arbitrary: cur)
  case Nil
  then show ?case by simp
next
  case (Cons c cs)
  from Cons.prems(3) have nd: "c \<noteq> ''..''" by (simp add: ok_comp_def)
  show ?case
  proof (cases "cs = []")
    case True
    with Cons.prems nd show ?thesis by simp
  next
    case False
    have d: "is_dir f (cur @ [c])"
    proof (cases "butlast cs = []")
      case True
      with False Cons.prems(5) show ?thesis by simp
    next
      case F: False
      with False Cons.prems(1,5) show ?thesis
        using wf_fs_dir_above [of f "cur @ [c]" "butlast cs"]
        by (auto simp: plain_fs_def elim!: is_dirE)
    qed
    then obtain m where "node_at f (cur @ [c]) = Some (Dir m)" by (rule is_dirE)
    with Cons.IH [of "cur @ [c]"] Cons.prems nd d False show ?thesis by simp
  qed
qed

lemma walk_absent:
  assumes "plain_fs f" "is_dir f cur" "\<forall>c\<in>set cs. ok_comp c" "node_at f (cur @ cs) = None"
    "\<forall>q. strict_prefix q (cur @ cs) \<longrightarrow> node_at f q = None \<or> is_dir f q"
  shows "walk f n cur cs \<in> {Inr (cur @ cs), Inl ENOENT}"
  using assms
proof (induction cs arbitrary: cur)
  case Nil
  then show ?case by simp
next
  case (Cons c cs)
  from Cons.prems(3) have nd: "c \<noteq> ''..''" by (simp add: ok_comp_def)
  show ?case
  proof (cases "cs = []")
    case True
    with Cons.prems nd show ?thesis by simp
  next
    case False
    then have "strict_prefix (cur @ [c]) (cur @ c # cs)"
      by (auto simp: strict_prefix_def)
    with Cons.prems(5) have "node_at f (cur @ [c]) = None \<or> is_dir f (cur @ [c])" by simp
    then consider "node_at f (cur @ [c]) = None" | "is_dir f (cur @ [c])" by fast
    then show ?thesis
    proof cases
      case 1
      with nd False show ?thesis by simp
    next
      case 2
      then obtain m where "node_at f (cur @ [c]) = Some (Dir m)" by (rule is_dirE)
      with Cons.IH [of "cur @ [c]"] Cons.prems nd 2 show ?thesis by simp
    qed
  qed
qed

section \<open>The operations on plain trees\<close>

lemma raw_comps_abs_ok: "\<forall>c\<in>set l. ok_comp c \<Longrightarrow> raw_comps (abs_path l) = l"
  by (simp add: raw_comps_abs_path ok_comp_like)

lemma abs_path_nonempty [simp]: "abs_path l \<noteq> []"
  by (simp add: abs_path_def)

lemma start_dir_abs [simp]: "start_dir s (abs_path l) = []"
  by (simp add: start_dir_def)

lemma resolve_there:
  "plain_fs (files s) \<Longrightarrow> \<forall>c\<in>set l. ok_comp c \<Longrightarrow> node_at (files s) l = Some nd \<Longrightarrow>
   resolve s (abs_path l) = Inr l"
  using walk_exists [of "files s" "[]" l nd] by (simp add: resolve_def raw_comps_abs_ok)

lemma resolve_new:
  "plain_fs (files s) \<Longrightarrow> \<forall>c\<in>set l. ok_comp c \<Longrightarrow> l \<noteq> [] \<Longrightarrow> is_dir (files s) (butlast l) \<Longrightarrow>
   node_at (files s) l = None \<Longrightarrow> resolve s (abs_path l) = Inr l"
  using walk_new [of "files s" "[]" l] by (simp add: resolve_def raw_comps_abs_ok)

lemma resolve_in_dir:
  "plain_fs (files s) \<Longrightarrow> \<forall>c\<in>set l. ok_comp c \<Longrightarrow> l \<noteq> [] \<Longrightarrow> is_dir (files s) (butlast l) \<Longrightarrow>
   resolve s (abs_path l) = Inr l"
  by (cases "node_at (files s) l") (auto intro: resolve_there resolve_new)

lemma resolve_absent:
  "plain_fs (files s) \<Longrightarrow> \<forall>c\<in>set l. ok_comp c \<Longrightarrow> node_at (files s) l = None \<Longrightarrow>
   dir_free (files s) (butlast l) \<Longrightarrow> resolve s (abs_path l) \<in> {Inr l, Inl ENOENT}"
proof -
  assume h: "plain_fs (files s)" "\<forall>c\<in>set l. ok_comp c" "node_at (files s) l = None"
    and df: "dir_free (files s) (butlast l)"
  have "\<forall>q. strict_prefix q ([] @ l) \<longrightarrow> node_at (files s) q = None \<or> is_dir (files s) q"
  proof (intro allI impI)
    fix q assume "strict_prefix q ([] @ l)"
    then have "prefix q (butlast l)"
      by (cases l rule: rev_cases) (auto simp: strict_prefix_def prefix_snoc)
    with df show "node_at (files s) q = None \<or> is_dir (files s) q"
      by (simp add: dir_free_def list_all_iff)
  qed
  with h walk_absent [of "files s" "[]" l] show ?thesis
    by (simp add: resolve_def raw_comps_abs_ok)
qed

lemma lresolve_abs:
  assumes "plain_fs (files s)" "\<forall>c\<in>set l. ok_comp c" "l \<noteq> []" "is_dir (files s) (butlast l)"
  shows "lresolve s (abs_path l) = Inr l"
proof -
  from assms(2,3) have "ok_comp (last l)" "\<forall>c\<in>set (butlast l). ok_comp c"
    by (auto dest: in_set_butlastD)
  moreover from this(1) have "last l \<noteq> ''..''" by (simp add: ok_comp_def)
  moreover obtain m where m: "node_at (files s) (butlast l) = Some (Dir m)"
    using assms(4) by (rule is_dirE)
  ultimately have "walk (files s) max_links [] (butlast l) = Inr (butlast l)"
    using walk_exists [of "files s" "[]" "butlast l"] assms(1) by simp
  with assms m \<open>last l \<noteq> ''..''\<close> show ?thesis
    by (simp add: lresolve_def Let_def raw_comps_abs_ok)
qed

lemma lresolve_absent_dir:
  assumes "plain_fs (files s)" "\<forall>c\<in>set l. ok_comp c" "l \<noteq> []"
    "node_at (files s) (butlast l) = None" "dir_free (files s) (butlast l)"
  shows "lresolve s (abs_path l) = Inl ENOENT"
proof -
  from assms(2,3) have ok: "ok_comp (last l)" "\<forall>c\<in>set (butlast l). ok_comp c"
    by (auto dest: in_set_butlastD)
  have "\<forall>q. strict_prefix q ([] @ butlast l) \<longrightarrow> node_at (files s) q = None \<or> is_dir (files s) q"
    using assms(5) by (auto simp: dir_free_def list_all_iff strict_prefix_def)
  with walk_absent [of "files s" "[]" "butlast l" max_links] assms ok(2)
  have "walk (files s) max_links [] (butlast l) \<in> {Inr (butlast l), Inl ENOENT}" by simp
  moreover from ok(1) have "last l \<noteq> ''..''" by (simp add: ok_comp_def)
  ultimately show ?thesis using assms
    by (auto simp: lresolve_def Let_def raw_comps_abs_ok)
qed

lemma read_file_reg:
  "plain_fs (files s) \<Longrightarrow> \<forall>c\<in>set l. ok_comp c \<Longrightarrow> node_at (files s) l = Some (Reg m d) \<Longrightarrow>
   os_read_file s (abs_path l) = Inr d"
  by (simp add: os_read_file_def os_stat_def resolve_there)

lemma read_file_absent:
  "plain_fs (files s) \<Longrightarrow> \<forall>c\<in>set l. ok_comp c \<Longrightarrow> node_at (files s) l = None \<Longrightarrow>
   dir_free (files s) (butlast l) \<Longrightarrow> os_read_file s (abs_path l) = Inl (ErrOS ENOENT (abs_path l))"
  using resolve_absent [of s l] by (auto simp: os_read_file_def os_stat_def)

definition new_mode :: "fs \<Rightarrow> loc \<Rightarrow> nat \<Rightarrow> nat" where
  "new_mode f l mode = (case node_at f l of Some (Reg m _) \<Rightarrow> m | _ \<Rightarrow> mode)"

lemma write_file_ok:
  "plain_fs (files s) \<Longrightarrow> \<forall>c\<in>set l. ok_comp c \<Longrightarrow> l \<noteq> [] \<Longrightarrow> is_dir (files s) (butlast l) \<Longrightarrow>
   \<not> is_dir (files s) l \<Longrightarrow>
   os_write_file s (abs_path l) d mode =
     Inr (s\<lparr>files := AList.update l (Reg (new_mode (files s) l mode) d) (files s)\<rparr>)"
  by (auto simp: os_write_file_def resolve_in_dir new_mode_def is_dir_def split: option.splits node.splits)

lemma rename_ok:
  "plain_fs (files s) \<Longrightarrow> \<forall>c\<in>set a. ok_comp c \<Longrightarrow> \<forall>c\<in>set b. ok_comp c \<Longrightarrow> a \<noteq> [] \<Longrightarrow> b \<noteq> [] \<Longrightarrow>
   is_dir (files s) (butlast a) \<Longrightarrow> is_dir (files s) (butlast b) \<Longrightarrow>
   node_at (files s) a = Some (Reg m d) \<Longrightarrow> \<not> is_dir (files s) b \<Longrightarrow>
   os_rename s (abs_path a) (abs_path b) =
     Inr (s\<lparr>files := AList.update b (Reg m d) (AList.delete a (files s))\<rparr>)"
  by (simp add: os_rename_def lresolve_abs)

lemma remove_file_ok:
  "plain_fs (files s) \<Longrightarrow> \<forall>c\<in>set l. ok_comp c \<Longrightarrow> l \<noteq> [] \<Longrightarrow> is_dir (files s) (butlast l) \<Longrightarrow>
   node_at (files s) l = Some (Reg m d) \<Longrightarrow>
   os_remove s (abs_path l) = Inr (s\<lparr>files := AList.delete l (files s)\<rparr>)"
  by (simp add: os_remove_def lresolve_abs is_dir_def)

lemma remove_absent:
  assumes "plain_fs (files s)" "\<forall>c\<in>set l. ok_comp c" "l \<noteq> []" "node_at (files s) l = None"
    "dir_free (files s) (butlast l)"
  shows "os_remove s (abs_path l) = Inl (ErrOS ENOENT (abs_path l))"
proof -
  have "prefix (butlast l) (butlast l)" by simp
  with assms(5) have "node_at (files s) (butlast l) = None \<or> is_dir (files s) (butlast l)"
    by (simp add: dir_free_def list_all_iff)
  then show ?thesis
    using assms by (auto simp: os_remove_def lresolve_abs lresolve_absent_dir)
qed

text \<open>\<open>MkdirAll\<close> only adds missing directories of the path.\<close>

lemma mkdir_from_ok:
  assumes "plain_fs (files s)" "is_dir (files s) cur" "\<forall>c\<in>set cur. ok_comp c"
    "\<forall>c\<in>set cs. ok_comp c"
    "\<forall>q. prefix cur q \<and> prefix q (cur @ cs) \<longrightarrow> node_at (files s) q = None \<or> is_dir (files s) q"
  shows "\<exists>f. mkdir_from s mode p cur cs = Inr (s\<lparr>files := f\<rparr>) \<and> plain_fs f \<and> is_dir f (cur @ cs) \<and>
     (\<forall>q. node_at f q = (if node_at (files s) q = None \<and> prefix cur q \<and> prefix q (cur @ cs)
          then Some (Dir mode) else node_at (files s) q))"
  using assms
proof (induction cs arbitrary: s cur)
  case Nil
  have "node_at (files s) q \<noteq> None" if "prefix cur q \<and> prefix q cur" for q
  proof -
    from that have "q = cur" by (auto intro: prefix_order.antisym)
    with Nil show ?thesis by (auto elim: is_dirE)
  qed
  with Nil show ?case by (intro exI [of _ "files s"]) auto
next
  case (Cons c cs)
  let ?l = "cur @ [c]"
  let ?f = "AList.update ?l (Dir mode) (files s)"
  from Cons.prems(4) have okc: "ok_comp c" and nd: "c \<noteq> ''..''" by (auto simp: ok_comp_def)
  have "node_at (files s) ?l = None \<or> is_dir (files s) ?l"
    using Cons.prems(5) by (simp add: prefix_def)
  then show ?case
  proof
    assume n: "node_at (files s) ?l = None"
    have w: "walk (files s) max_links cur [c] = Inr ?l" using n nd by simp
    have pf: "plain_fs ?f"
      using Cons.prems(1,2,3) okc n
      by (auto simp: plain_fs_def is_link_def intro!: wf_fs_update no_links_update)
    have below: "node_at (files s) q = None" if "prefix ?l q" for q
    proof (rule ccontr)
      assume "node_at (files s) q \<noteq> None"
      then obtain nd where s: "node_at (files s) q = Some nd" by auto
      from that obtain r where r: "q = ?l @ r" by (auto simp: prefix_def)
      with s n have "r \<noteq> []" by auto
      with s r Cons.prems(1) have "is_dir (files s) ?l"
        using wf_fs_dir_above [of "files s" ?l r] by (simp add: plain_fs_def)
      with n show False by (auto elim: is_dirE)
    qed
    define F where "F = ?f"
    have pF: "plain_fs F" using pf by (simp add: F_def)
    have dF: "is_dir F ?l" by (simp add: F_def is_dir_update)
    have oF: "\<forall>c\<in>set ?l. ok_comp c" and oc: "\<forall>c\<in>set cs. ok_comp c"
      using Cons.prems(3,4) by auto
    have rF: "\<forall>q. prefix ?l q \<and> prefix q (?l @ cs) \<longrightarrow> node_at F q = None \<or> is_dir F q"
      using below by (simp add: F_def is_dir_update)
    obtain f where f: "mkdir_from (s\<lparr>files := F\<rparr>) mode p ?l cs = Inr (s\<lparr>files := f\<rparr>)"
      "plain_fs f" "is_dir f (?l @ cs)"
      "\<forall>q. node_at f q = (if node_at F q = None \<and> prefix ?l q \<and> prefix q (?l @ cs)
          then Some (Dir mode) else node_at F q)"
      using Cons.IH [of "s\<lparr>files := F\<rparr>" ?l] pF dF oF oc rF by auto
    have nF: "node_at F q = (if q = ?l then Some (Dir mode) else node_at (files s) q)" for q
      by (simp add: F_def)
    have pl: "(prefix cur q \<and> prefix q (?l @ cs)) = (q = cur \<or> (prefix ?l q \<and> prefix q (?l @ cs)))" for q
      by (auto simp: prefix_def append_eq_append_conv2 append_eq_Cons_conv Cons_eq_append_conv)
    have curd: "node_at (files s) cur \<noteq> None" using Cons.prems(2) by (auto elim: is_dirE)
    show ?thesis
      using f w n pl curd nF by (intro exI [of _ f]) (auto simp: F_def)
  next
    assume d: "is_dir (files s) ?l"
    then obtain m where m: "node_at (files s) ?l = Some (Dir m)" by (rule is_dirE)
    have w: "walk (files s) max_links cur [c] = Inr ?l" using m nd by simp
    have pre: "\<forall>q. prefix ?l q \<and> prefix q (?l @ cs) \<longrightarrow> node_at (files s) q = None \<or> is_dir (files s) q"
      using Cons.prems(5) by (auto dest: append_prefixD)
    from Cons.IH [of s ?l] Cons.prems(1,3,4) d pre okc obtain f where
      f: "mkdir_from s mode p ?l cs = Inr (s\<lparr>files := f\<rparr>)" "plain_fs f" "is_dir f (?l @ cs)"
      "\<forall>q. node_at f q = (if node_at (files s) q = None \<and> prefix ?l q \<and> prefix q (?l @ cs)
          then Some (Dir mode) else node_at (files s) q)"
      by auto
    have pl: "(prefix cur q \<and> prefix q (?l @ cs)) = (q = cur \<or> (prefix ?l q \<and> prefix q (?l @ cs)))" for q
      by (auto simp: prefix_def append_eq_append_conv2 append_eq_Cons_conv Cons_eq_append_conv)
    have curd: "node_at (files s) cur \<noteq> None" using Cons.prems(2) by (auto elim: is_dirE)
    show ?thesis
      using f w m pl curd by (intro exI [of _ f]) auto
  qed
qed

lemma mkdir_all_ok:
  assumes "plain_fs (files s)" "\<forall>c\<in>set l. ok_comp c" "dir_free (files s) l"
  obtains f where "os_mkdir_all s (abs_path l) mode = Inr (s\<lparr>files := f\<rparr>)" "plain_fs f" "is_dir f l"
    "\<And>q. node_at f q = (if node_at (files s) q = None \<and> prefix q l then Some (Dir mode)
       else node_at (files s) q)"
proof -
  have "\<exists>f. mkdir_from s mode (abs_path l) [] l = Inr (s\<lparr>files := f\<rparr>) \<and> plain_fs f \<and> is_dir f ([] @ l) \<and>
     (\<forall>q. node_at f q = (if node_at (files s) q = None \<and> prefix [] q \<and> prefix q ([] @ l)
          then Some (Dir mode) else node_at (files s) q))"
    by (rule mkdir_from_ok) (use assms in \<open>auto simp: dir_free_def list_all_iff\<close>)
  with assms(2) that show thesis
    by (auto simp: os_mkdir_all_def raw_comps_abs_ok)
qed

lemmas plain_ops = resolve_there resolve_in_dir lresolve_abs read_file_reg read_file_absent
  write_file_ok rename_ok remove_file_ok remove_absent

end
