(* ===== verification/Codec.thy ===== *)
theory Codec
  imports Prelude "HOL-Library.Word"
begin

text \<open>
  The codecs and digests of Go's standard library the sources use: \<open>encoding/hex\<close>,
  \<open>encoding/base64\<close> (standard alphabet, padded), SHA-256, SHA-1 and HMAC. They are written out, so
  that a digest of a concrete string can be evaluated; no property of the digests beyond their
  definition is assumed anywhere.
\<close>

unbundle bit_operations_syntax

section \<open>encoding/hex\<close>

definition hex_digit :: "nat \<Rightarrow> char" where
  "hex_digit d = char_of (if d < 10 then 48 + d else 87 + d)"

definition hex_val :: "char \<Rightarrow> nat option" where
  "hex_val c =
     (let n = of_char c
      in if 48 \<le> n \<and> n \<le> 57 then Some (n - 48)
         else if 97 \<le> n \<and> n \<le> 102 then Some (n - 87)
         else if 65 \<le> n \<and> n \<le> 70 then Some (n - 55)
         else None)"

fun hex_encode :: "string \<Rightarrow> string" where
  "hex_encode [] = []"
| "hex_encode (c # cs) =
     hex_digit (of_char c div 16) # hex_digit (of_char c mod 16) # hex_encode cs"

text \<open>\<open>hex.DecodeString\<close>: \<open>None\<close> is an odd length or a character that is no hex digit.\<close>

fun hex_decode :: "string \<Rightarrow> string option" where
  "hex_decode [] = Some []"
| "hex_decode [c] = None"
| "hex_decode (a # b # cs) =
     (case (hex_val a, hex_val b, hex_decode cs) of
        (Some x, Some y, Some r) \<Rightarrow> Some (char_of (16 * x + y) # r)
      | _ \<Rightarrow> None)"

lemma hex_val_digit: "d < 16 \<Longrightarrow> hex_val (hex_digit d) = Some d"
  by (auto simp: hex_val_def hex_digit_def Let_def)

lemma of_char_less_256 [simp]: "(of_char c :: nat) < 256"
  using of_char_mod_256 [of c, where 'a = nat] by (metis mod_less_divisor zero_less_numeral)

lemma hex_decode_encode: "hex_decode (hex_encode s) = Some s"
proof (induction s)
  case (Cons c cs)
  have "(of_char c :: nat) div 16 < 16"
    using of_char_less_256 [of c] by (simp add: less_mult_imp_div_less)
  with Cons show ?case by (simp add: hex_val_digit)
qed simp

lemma hex_encode_inj: "hex_encode s = hex_encode t \<Longrightarrow> s = t"
  by (metis hex_decode_encode option.inject)

lemma hex_digit_not_slash: "d < 16 \<Longrightarrow> hex_digit d \<noteq> CHR ''/'' \<and> hex_digit d \<noteq> CHR ''.''"
  by (auto simp: hex_digit_def dest: arg_cong [where f = "of_char :: char \<Rightarrow> nat"])

lemma hex_encode_chars: "CHR ''/'' \<notin> set (hex_encode s) \<and> CHR ''.'' \<notin> set (hex_encode s)"
proof (induction s)
  case (Cons c cs)
  have "(of_char c :: nat) div 16 < 16"
    using of_char_less_256 [of c] by (simp add: less_mult_imp_div_less)
  from hex_digit_not_slash [OF this] hex_digit_not_slash [of "of_char c mod 16"] Cons
  show ?case by (auto dest: sym)
qed simp

section \<open>encoding/base64\<close>

definition b64_char :: "nat \<Rightarrow> char" where
  "b64_char x =
     (if x < 26 then char_of (65 + x) else if x < 52 then char_of (71 + x)
      else if x < 62 then char_of (x - 4) else if x = 62 then CHR ''+'' else CHR ''/'')"

definition b64_val :: "char \<Rightarrow> nat option" where
  "b64_val c =
     (let n = of_char c
      in if 65 \<le> n \<and> n \<le> 90 then Some (n - 65)
         else if 97 \<le> n \<and> n \<le> 122 then Some (n - 71)
         else if 48 \<le> n \<and> n \<le> 57 then Some (n + 4)
         else if c = CHR ''+'' then Some 62
         else if c = CHR ''/'' then Some 63
         else None)"

fun b64_encode :: "string \<Rightarrow> string" where
  "b64_encode [] = []"
| "b64_encode [a] =
     (let n = 16 * of_char a in [b64_char (n div 64), b64_char (n mod 64), CHR ''='', CHR ''=''])"
| "b64_encode [a, b] =
     (let n = 4 * (256 * of_char a + of_char b)
      in [b64_char (n div 4096), b64_char (n div 64 mod 64), b64_char (n mod 64), CHR ''=''])"
| "b64_encode (a # b # c # cs) =
     (let n = 65536 * of_char a + 256 * of_char b + of_char c
      in b64_char (n div 262144) # b64_char (n div 4096 mod 64) # b64_char (n div 64 mod 64)
         # b64_char (n mod 64) # b64_encode cs)"

text \<open>
  The decoder skips carriage returns and line feeds, wants groups of four characters, allows
  padding in the last group only, and ignores the unused low bits there, as Go's does.
\<close>

fun b64_quads :: "string \<Rightarrow> string option" where
  "b64_quads [] = Some []"
| "b64_quads (p # q # r # s # cs) =
     (case (b64_val p, b64_val q) of
        (Some x, Some y) \<Rightarrow>
          (if r = CHR ''='' then
             (if s = CHR ''='' \<and> cs = [] then Some [char_of ((64 * x + y) div 16)] else None)
           else case b64_val r of
             None \<Rightarrow> None
           | Some z \<Rightarrow>
               (if s = CHR ''='' then
                  (if cs = [] then
                     (let n = (4096 * x + 64 * y + z) div 4
                      in Some [char_of (n div 256), char_of (n mod 256)])
                   else None)
                else case (b64_val s, b64_quads cs) of
                  (Some w, Some out) \<Rightarrow>
                    (let n = 262144 * x + 4096 * y + 64 * z + w
                     in Some (char_of (n div 65536) # char_of (n div 256 mod 256)
                              # char_of (n mod 256) # out))
                | _ \<Rightarrow> None))
      | _ \<Rightarrow> None)"
| "b64_quads cs = None"

definition b64_decode :: "string \<Rightarrow> string option" where
  "b64_decode s = b64_quads (filter (\<lambda>c. c \<noteq> CHR 0x0A \<and> c \<noteq> CHR 0x0D) s)"

lemma b64_val_char: "x < 64 \<Longrightarrow> b64_val (b64_char x) = Some x"
  by (auto simp: b64_val_def b64_char_def Let_def)

lemma b64_char_plain:
  "x < 64 \<Longrightarrow> b64_char x \<noteq> CHR ''='' \<and> b64_char x \<noteq> CHR 0x0A \<and> b64_char x \<noteq> CHR 0x0D"
  by (auto simp: b64_char_def dest!: arg_cong [where f = "of_char :: char \<Rightarrow> nat"])

text \<open>A number is put together again from its base-64 digits.\<close>

lemma sextets2: "64 * (n div 64) + n mod 64 = (n :: nat)"
  by simp

lemma sextets3: "4096 * (n div 4096) + 64 * (n div 64 mod 64) + n mod 64 = (n :: nat)"
proof -
  have "n div 4096 = n div 64 div 64" using div_mult2_eq [of n 64 64] by simp
  moreover have "64 * (n div 64 div 64) + n div 64 mod 64 = n div 64" by (rule sextets2)
  moreover have "64 * (n div 64) + n mod 64 = n" by (rule sextets2)
  ultimately show ?thesis by linarith
qed

lemma sextets4:
  "262144 * (n div 262144) + 4096 * (n div 4096 mod 64) + 64 * (n div 64 mod 64) + n mod 64 = (n :: nat)"
proof -
  have f: "262144 * p + 4096 * q + 64 * r + t = 64 * (4096 * p + 64 * q + r) + t" for p q r t :: nat
    by simp
  have e: "n div 262144 = n div 64 div 4096" "n div 4096 = n div 64 div 64"
    using div_mult2_eq [of n 64 4096] div_mult2_eq [of n 64 64] by simp_all
  show ?thesis
    unfolding f e sextets3 by (rule sextets2)
qed

lemma bytes3:
  fixes a b c :: nat
  assumes "a < 256" "b < 256" "c < 256"
  shows "(65536 * a + 256 * b + c) div 262144 < 64"
    "(65536 * a + 256 * b + c) div 65536 = a" "(65536 * a + 256 * b + c) div 256 mod 256 = b"
    "(65536 * a + 256 * b + c) mod 256 = c"
proof -
  from assms have le: "a \<le> 255" "b \<le> 255" "c \<le> 255" by simp_all
  then have "65536 * a + 256 * b + c < 64 * 262144" by simp
  then show "(65536 * a + 256 * b + c) div 262144 < 64" by (simp add: less_mult_imp_div_less)
  from le have "256 * b + c < 65536" by simp
  moreover have "65536 * a + 256 * b + c = (256 * b + c) + 65536 * a" by simp
  ultimately show "(65536 * a + 256 * b + c) div 65536 = a" by simp
  have e: "65536 * a + 256 * b + c = c + 256 * (256 * a + b)" by simp
  show "(65536 * a + 256 * b + c) mod 256 = c"
    unfolding e mod_mult_self2 using assms(3) by (rule mod_less)
  have "(65536 * a + 256 * b + c) div 256 = 256 * a + b" using assms(3) unfolding e by simp
  then show "(65536 * a + 256 * b + c) div 256 mod 256 = b" using assms(2) by simp
qed

lemma bytes2:
  fixes a b :: nat
  assumes "a < 256" "b < 256"
  shows "4 * (256 * a + b) div 4096 < 64" "(256 * a + b) div 256 = a" "(256 * a + b) mod 256 = b"
proof -
  from assms have "a \<le> 255" "b \<le> 255" by simp_all
  then have "4 * (256 * a + b) < 64 * 4096" by simp
  then show "4 * (256 * a + b) div 4096 < 64" by (simp add: less_mult_imp_div_less)
qed (use assms in simp_all)

lemma b64_quads_encode: "b64_quads (b64_encode s) = Some s"
proof (induction s rule: b64_encode.induct)
  case 1
  show ?case by simp
next
  case (2 a)
  define n :: nat where "n = 16 * of_char a"
  have "n < 64 * 64" using of_char_less_256 [of a] by (simp add: n_def)
  then have l: "n div 64 < 64" by (simp add: less_mult_imp_div_less)
  have "n div 16 = of_char a" by (simp add: n_def)
  then show ?case
    using l by (simp add: Let_def b64_val_char b64_char_plain n_def [symmetric])
next
  case (3 a b)
  define n :: nat where "n = 4 * (256 * of_char a + of_char b)"
  have l: "n div 4096 < 64" and
    d: "n div 4 div 256 = of_char a" "n div 4 mod 256 = of_char b"
    unfolding n_def using bytes2 [of "of_char a" "of_char b"] by simp_all
  have "char_of (n div 4) = b" by (metis char_of_mod_256 char_of_char d(2))
  then show ?case
    unfolding b64_encode.simps Let_def n_def [symmetric]
    using l d by (simp add: Let_def b64_val_char b64_char_plain sextets3)
next
  case (4 a b c cs)
  define n :: nat where "n = 65536 * of_char a + 256 * of_char b + of_char c"
  have l: "n div 262144 < 64" and
    d: "n div 65536 = of_char a" "n div 256 mod 256 = of_char b" "n mod 256 = of_char c"
    unfolding n_def by (rule bytes3; simp)+
  have "char_of (n div 256) = b" "char_of n = c" by (metis char_of_mod_256 char_of_char d(2,3))+
  then show ?case
    unfolding b64_encode.simps Let_def n_def [symmetric]
    using l d 4 by (simp add: Let_def b64_val_char b64_char_plain sextets4)
qed

lemma b64_encode_no_newline:
  "filter (\<lambda>c. c \<noteq> CHR 0x0A \<and> c \<noteq> CHR 0x0D) (b64_encode s) = b64_encode s"
proof (induction s rule: b64_encode.induct)
  case (2 a)
  have "16 * (of_char a :: nat) < 64 * 64" using of_char_less_256 [of a] by simp
  then have "16 * (of_char a :: nat) div 64 < 64" by (simp only: less_mult_imp_div_less)
  then show ?case by (simp add: Let_def b64_char_plain)
next
  case (3 a b)
  have "4 * (256 * (of_char a :: nat) + of_char b) div 4096 < 64"
    by (rule bytes2) simp_all
  then show ?case by (simp add: Let_def b64_char_plain del: distrib_left_numeral)
next
  case (4 a b c cs)
  have "(65536 * (of_char a :: nat) + 256 * of_char b + of_char c) div 262144 < 64"
    by (rule bytes3) simp_all
  with 4 show ?case by (simp add: Let_def b64_char_plain)
qed simp

text \<open>Decoding inverts encoding, for every byte string.\<close>

lemma b64_decode_encode: "b64_decode (b64_encode s) = Some s"
  by (simp add: b64_decode_def b64_encode_no_newline b64_quads_encode)

section \<open>Digests\<close>

type_synonym u32 = "32 word"

definition rotr :: "nat \<Rightarrow> u32 \<Rightarrow> u32" where
  "rotr n x = drop_bit n x OR push_bit (32 - n) x"

definition rotl :: "nat \<Rightarrow> u32 \<Rightarrow> u32" where
  "rotl n x = push_bit n x OR drop_bit (32 - n) x"

definition be_word :: "string \<Rightarrow> u32" where
  "be_word bs = foldl (\<lambda>w c. push_bit 8 w OR of_int (of_char c)) 0 bs"

definition be_bytes :: "u32 \<Rightarrow> string" where
  "be_bytes w = map (\<lambda>k. char_of (uint (drop_bit k w AND 255))) [24, 16, 8, 0]"

fun chunks :: "nat \<Rightarrow> nat \<Rightarrow> 'a list \<Rightarrow> 'a list list" where
  "chunks 0 n xs = []"
| "chunks (Suc k) n xs = take n xs # chunks k n (drop n xs)"

text \<open>The padding both digests share: a one bit, zeros, and the bit length in 64 bits.\<close>

definition md_pad :: "string \<Rightarrow> string" where
  "md_pad m =
     m @ CHR 0x80 # replicate ((119 - length m mod 64) mod 64) CHR 0x00
     @ map (\<lambda>k. char_of (drop_bit k (8 * int (length m)))) [56, 48, 40, 32, 24, 16, 8, 0]"

definition blocks :: "string \<Rightarrow> u32 list list" where
  "blocks m = (let p = md_pad m
     in map (\<lambda>b. map be_word (chunks 16 4 b)) (chunks (length p div 64) 64 p))"

text \<open>The round constants: the first 32 bits of the fractions of the cube roots of the first 64 primes.\<close>

definition sha256_k :: "u32 list" where
  "sha256_k =
    [1116352408, 1899447441, 3049323471, 3921009573, 961987163, 1508970993, 2453635748, 2870763221,
     3624381080, 310598401, 607225278, 1426881987, 1925078388, 2162078206, 2614888103, 3248222580,
     3835390401, 4022224774, 264347078, 604807628, 770255983, 1249150122, 1555081692, 1996064986,
     2554220882, 2821834349, 2952996808, 3210313671, 3336571891, 3584528711, 113926993, 338241895,
     666307205, 773529912, 1294757372, 1396182291, 1695183700, 1986661051, 2177026350, 2456956037,
     2730485921, 2820302411, 3259730800, 3345764771, 3516065817, 3600352804, 4094571909, 275423344,
     430227734, 506948616, 659060556, 883997877, 958139571, 1322822218, 1537002063, 1747873779,
     1955562222, 2024104815, 2227730452, 2361852424, 2428436474, 2756734187, 3204031479, 3329325298]"

text \<open>The message schedule slides over the last sixteen words while the rounds consume the first.\<close>

fun sha256_rounds :: "u32 list \<Rightarrow> u32 list \<Rightarrow> u32 list \<Rightarrow> u32 list" where
  "sha256_rounds [] w st = st"
| "sha256_rounds (k # ks) w [a, b, c, d, e, f, g, h] =
     (let t1 = h + (rotr 6 e XOR rotr 11 e XOR rotr 25 e) + ((e AND f) XOR ((NOT e) AND g)) + k + w ! 0;
          t2 = (rotr 2 a XOR rotr 13 a XOR rotr 22 a) + ((a AND b) XOR (a AND c) XOR (b AND c));
          x = w ! 1; y = w ! 14;
          w' = (rotr 17 y XOR rotr 19 y XOR drop_bit 10 y) + w ! 9
               + (rotr 7 x XOR rotr 18 x XOR drop_bit 3 x) + w ! 0
      in sha256_rounds ks (tl w @ [w']) [t1 + t2, a, b, c, d + t1, e, f, g])"
| "sha256_rounds (k # ks) w st = st"

definition sha256_block :: "u32 list \<Rightarrow> u32 list \<Rightarrow> u32 list" where
  "sha256_block st b = map2 (+) st (sha256_rounds sha256_k b st)"

definition sha256 :: "string \<Rightarrow> string" where
  "sha256 m = concat (map be_bytes (foldl sha256_block
     [0x6a09e667, 0xbb67ae85, 0x3c6ef372, 0xa54ff53a, 0x510e527f, 0x9b05688c, 0x1f83d9ab, 0x5be0cd19]
     (blocks m)))"

definition sha1_f :: "nat \<Rightarrow> u32 \<Rightarrow> u32 \<Rightarrow> u32 \<Rightarrow> u32" where
  "sha1_f t b c d =
     (if t < 20 then (b AND c) OR ((NOT b) AND d)
      else if t < 40 then b XOR c XOR d
      else if t < 60 then (b AND c) OR (b AND d) OR (c AND d)
      else b XOR c XOR d)"

definition sha1_k :: "nat \<Rightarrow> u32" where
  "sha1_k t =
     (if t < 20 then 0x5a827999 else if t < 40 then 0x6ed9eba1
      else if t < 60 then 0x8f1bbcdc else 0xca62c1d6)"

fun sha1_rounds :: "nat list \<Rightarrow> u32 list \<Rightarrow> u32 list \<Rightarrow> u32 list" where
  "sha1_rounds [] w st = st"
| "sha1_rounds (t # ts) w [a, b, c, d, e] =
     (let x = rotl 5 a + sha1_f t b c d + e + sha1_k t + w ! 0;
          w' = rotl 1 (w ! 13 XOR w ! 8 XOR w ! 2 XOR w ! 0)
      in sha1_rounds ts (tl w @ [w']) [x, a, rotl 30 b, c, d])"
| "sha1_rounds (t # ts) w st = st"

definition sha1 :: "string \<Rightarrow> string" where
  "sha1 m = concat (map be_bytes (foldl (\<lambda>st b. map2 (+) st (sha1_rounds [0..<80] b st))
     [0x67452301, 0xefcdab89, 0x98badcfe, 0x10325476, 0xc3d2e1f0] (blocks m)))"

text \<open>\<open>crypto/hmac\<close> over a digest with blocks of 64 bytes.\<close>

definition xor_byte :: "int \<Rightarrow> char \<Rightarrow> char" where
  "xor_byte n c = char_of ((of_char c :: int) XOR n)"

definition hmac :: "(string \<Rightarrow> string) \<Rightarrow> string \<Rightarrow> string \<Rightarrow> string" where
  "hmac h key msg =
     (let k0 = (if length key > 64 then h key else key);
          k = k0 @ replicate (64 - length k0) CHR 0x00
      in h (map (xor_byte 92) k @ h (map (xor_byte 54) k @ msg)))"

end
