(* ===== verification/Values.thy ===== *)
theory Values
  imports Prelude
begin

text \<open>
  \<open>connector/values.go\<close> and \<open>connector/schema.go\<close>: the typed bag of parameter or credential
  values with its coercing accessors, and the schema of fields that drives the wizard, the path
  check and the defaults.

  A value is what the command line, a JSON document or a schema default puts into the bag. A
  \<open>float64\<close> (every JSON number) is given by sign, mantissa and binary exponent, and its shortest
  decimal form is computed the way \<open>strconv\<close> defines it.
\<close>

section \<open>Floating point\<close>

datatype float64 = FNum bool nat int | FInf bool | FNaN

text \<open>The canonical form of an IEEE double: 53 bits of mantissa, or the least exponent.\<close>

definition canonical :: "float64 \<Rightarrow> bool" where
  "canonical x =
     (case x of
        FNum _ m e \<Rightarrow> m = 0 \<or> (m < 2 ^ 53 \<and> - 1074 \<le> e \<and> e \<le> 971 \<and> (2 ^ 52 \<le> m \<or> e = - 1074))
      | _ \<Rightarrow> True)"

text \<open>The double of an integer below \<open>2 ^ 53\<close>, by doubling the mantissa up to 53 bits.\<close>

fun norm_up :: "nat \<Rightarrow> nat \<Rightarrow> int \<Rightarrow> float64" where
  "norm_up 0 m e = FNum False m e"
| "norm_up (Suc k) m e = (if m < 4503599627370496 then norm_up k (2 * m) (e - 1) else FNum False m e)"

definition float_of_int :: "int \<Rightarrow> float64" where
  "float_of_int i =
     (if i = 0 then FNum False 0 0
      else case norm_up 53 (nat \<bar>i\<bar>) 0 of FNum _ m e \<Rightarrow> FNum (i < 0) m e | x \<Rightarrow> x)"

text \<open>
  The shortest decimal that reads back as \<open>m * 2 ^ e\<close>. All quantities are scaled to quarter units
  in the last place, over the common denominator \<open>D\<close>: the value \<open>V\<close> and the bounds \<open>L\<close> and \<open>H\<close> of
  the interval of reals that round to it (closed for an even mantissa).
\<close>

fun leading_zeros :: "nat \<Rightarrow> nat \<Rightarrow> nat \<Rightarrow> nat" where
  "leading_zeros 0 V D = 0"
| "leading_zeros (Suc k) V D = (if D \<le> 10 * V then 0 else Suc (leading_zeros k (10 * V) D))"

definition decimal_point :: "nat \<Rightarrow> nat \<Rightarrow> int" where
  "decimal_point V D =
     (if D \<le> V then int (length (nat_digits (V div D))) else - int (leading_zeros 400 V D))"

text \<open>Candidate with \<open>n\<close> digits: rounding down, up, or to the nearer of the two.\<close>

definition try_digits :: "nat \<Rightarrow> nat \<Rightarrow> nat \<Rightarrow> nat \<Rightarrow> bool \<Rightarrow> int \<Rightarrow> nat \<Rightarrow> nat option" where
  "try_digits V L H D incl dp n =
     (let a = 10 ^ nat (int n - dp); b = D * 10 ^ nat (dp - int n);
          d = V * a div b;
          down = (if incl then L * a \<le> d * b else L * a < d * b);
          up = (if incl then Suc d * b \<le> H * a else Suc d * b < H * a)
      in if down \<and> up then
           (if 2 * V * a < (2 * d + 1) * b \<or> (2 * V * a = (2 * d + 1) * b \<and> even d)
            then Some d else Some (Suc d))
         else if down then Some d
         else if up then Some (Suc d)
         else None)"

fun first_digits :: "nat \<Rightarrow> nat \<Rightarrow> nat \<Rightarrow> nat \<Rightarrow> bool \<Rightarrow> int \<Rightarrow> nat list \<Rightarrow> nat \<times> nat" where
  "first_digits V L H D incl dp [] = (V * 10 ^ nat (17 - dp) div (D * 10 ^ nat (dp - 17)), 17)"
| "first_digits V L H D incl dp (n # ns) =
     (case try_digits V L H D incl dp n of
        Some d \<Rightarrow> (d, n)
      | None \<Rightarrow> first_digits V L H D incl dp ns)"

text \<open>The digits without trailing zeros, and the position of the decimal point before them.\<close>

definition shortest :: "nat \<Rightarrow> int \<Rightarrow> string \<times> int" where
  "shortest m e =
     (let N = 2 ^ nat (e - 2); D = 2 ^ nat (2 - e);
          V = 4 * m * N;
          L = (if m = 4503599627370496 \<and> - 1074 < e then 4 * m - 1 else 4 * m - 2) * N;
          H = (4 * m + 2) * N;
          dp = decimal_point V D;
          (d, n) = first_digits V L H D (even m) dp [1..<18];
          s = nat_str d
      in (trim_right s ''0'', dp + int (length s) - int n))"

definition fmt_exp :: "string \<Rightarrow> int \<Rightarrow> string" where
  "fmt_exp ds dp =
     (let x = dp - 1; k = nat_str (nat \<bar>x\<bar>)
      in hd ds # (if tl ds = [] then [] else CHR ''.'' # tl ds)
         @ ''e'' @ (if x < 0 then ''-'' else ''+'') @ (if length k < 2 then CHR ''0'' # k else k))"

definition fmt_fixed :: "string \<Rightarrow> int \<Rightarrow> string" where
  "fmt_fixed ds dp =
     (let w = nat dp; n = length ds
      in if 0 < dp then
           (if n \<le> w then ds @ replicate (w - n) CHR ''0''
            else take w ds @ ''.'' @ drop w ds)
         else ''0.'' @ replicate (nat (- dp)) CHR ''0'' @ ds)"

text \<open>
  \<open>strconv.FormatFloat x 'g' -1 64\<close>, which is also what \<open>fmt.Sprint\<close> prints: exponent form when
  the decimal exponent is below -4 or at least 6.
\<close>

definition format_float :: "float64 \<Rightarrow> string" where
  "format_float x =
     (case x of
        FNaN \<Rightarrow> ''NaN''
      | FInf neg \<Rightarrow> (if neg then ''-Inf'' else ''+Inf'')
      | FNum neg m e \<Rightarrow>
          (if neg then ''-'' else []) @
          (if m = 0 then ''0''
           else let (ds, dp) = shortest m e
                in if dp - 1 < - 4 \<or> 6 \<le> dp - 1 then fmt_exp ds dp else fmt_fixed ds dp))"

text \<open>
  The conversion \<open>int(x)\<close> truncates towards zero; out of range the amd64 instruction yields the
  least 64-bit integer.
\<close>

definition float_to_int :: "float64 \<Rightarrow> int" where
  "float_to_int x =
     (case x of
        FNum neg m e \<Rightarrow>
          (let t = (if 0 \<le> e then int m * 2 ^ nat e else int m div 2 ^ nat (- e));
               v = (if neg then - t else t)
           in if int64_range v then v else min_int64)
      | _ \<Rightarrow> min_int64)"

section \<open>Values\<close>

datatype gval =
    GNil
  | GStr string
  | GBool bool
  | GInt int
  | GInt64 int
  | GFloat float64
  | GStrs "string list"
  | GList "gval list"
  | GMap "(string \<times> gval) list"

text \<open>\<open>fmt.Sprint\<close> of one operand: lists in brackets, maps with their keys in order.\<close>

definition sprint_map :: "(string \<times> string) list \<Rightarrow> string" where
  "sprint_map kvs = ''map['' @ join_with '' '' (map (\<lambda>(k, v). k @ '':'' @ v) (sort_key fst kvs)) @ '']''"

fun sprint :: "gval \<Rightarrow> string" where
  "sprint GNil = ''<nil>''"
| "sprint (GStr s) = s"
| "sprint (GBool b) = bool_str b"
| "sprint (GInt i) = itoa i"
| "sprint (GInt64 i) = itoa i"
| "sprint (GFloat x) = format_float x"
| "sprint (GStrs ss) = ''['' @ join_with '' '' ss @ '']''"
| "sprint (GList xs) = ''['' @ join_with '' '' (map sprint xs) @ '']''"
| "sprint (GMap kvs) = sprint_map (map (\<lambda>(k, v). (k, sprint v)) kvs)"

type_synonym vals = "string \<rightharpoonup> gval"

definition v_has :: "vals \<Rightarrow> string \<Rightarrow> bool" where
  "v_has v key = (v key \<noteq> None)"

definition v_string :: "vals \<Rightarrow> string \<Rightarrow> string" where
  "v_string v key =
     (case v key of
        None \<Rightarrow> []
      | Some GNil \<Rightarrow> []
      | Some (GStr x) \<Rightarrow> x
      | Some (GBool x) \<Rightarrow> bool_str x
      | Some (GInt x) \<Rightarrow> itoa x
      | Some (GInt64 x) \<Rightarrow> itoa x
      | Some (GFloat x) \<Rightarrow> format_float x
      | Some x \<Rightarrow> sprint x)"

definition v_int :: "vals \<Rightarrow> string \<Rightarrow> int" where
  "v_int v key =
     (case v key of
        Some (GInt x) \<Rightarrow> x
      | Some (GInt64 x) \<Rightarrow> x
      | Some (GFloat x) \<Rightarrow> float_to_int x
      | Some (GStr x) \<Rightarrow> fst (atoi x)
      | _ \<Rightarrow> 0)"

definition v_bool :: "vals \<Rightarrow> string \<Rightarrow> bool" where
  "v_bool v key =
     (case v key of
        Some (GBool x) \<Rightarrow> x
      | Some (GStr x) \<Rightarrow> parse_bool x = Some True
      | Some (GInt x) \<Rightarrow> x \<noteq> 0
      | _ \<Rightarrow> False)"

definition v_string_list :: "vals \<Rightarrow> string \<Rightarrow> string list" where
  "v_string_list v key =
     (case v key of
        Some (GStrs x) \<Rightarrow> x
      | Some (GList x) \<Rightarrow> map sprint x
      | Some (GStr x) \<Rightarrow> (if x = [] then [] else split_trim x)
      | _ \<Rightarrow> [])"

section \<open>Schemas\<close>

datatype field_kind =
  FieldString | FieldLongText | FieldSecret | FieldInt | FieldBool | FieldStringList | FieldEnum

fun kind_name :: "field_kind \<Rightarrow> string" where
  "kind_name FieldString = ''string''"
| "kind_name FieldLongText = ''long_text''"
| "kind_name FieldSecret = ''secret''"
| "kind_name FieldInt = ''int''"
| "kind_name FieldBool = ''bool''"
| "kind_name FieldStringList = ''string_list''"
| "kind_name FieldEnum = ''enum''"

record enum_option =
  o_value :: string
  o_label :: string

record field_spec =
  f_name :: string
  f_label :: string
  f_description :: string
  f_kind :: field_kind
  f_required :: bool
  f_default :: "gval option"
  f_options :: "enum_option list"
  f_is_path :: bool
  f_show_when :: "(vals \<Rightarrow> bool) option"

type_synonym schema = "field_spec list"

text \<open>A field literal that names its name and kind; Go's zero values for the rest.\<close>

definition field :: "string \<Rightarrow> field_kind \<Rightarrow> field_spec" where
  "field n k = \<lparr>f_name = n, f_label = [], f_description = [], f_kind = k, f_required = False,
     f_default = None, f_options = [], f_is_path = False, f_show_when = None\<rparr>"

definition is_active :: "field_spec \<Rightarrow> vals \<Rightarrow> bool" where
  "is_active f v = (case f_show_when f of None \<Rightarrow> True | Some p \<Rightarrow> p v)"

definition schema_field :: "schema \<Rightarrow> string \<Rightarrow> field_spec option" where
  "schema_field s name = find (\<lambda>f. f_name f = name) s"

definition default_step :: "vals \<Rightarrow> field_spec \<Rightarrow> vals" where
  "default_step out f =
     (case f_default f of
        None \<Rightarrow> out
      | Some d \<Rightarrow> (if out (f_name f) = None then out(f_name f \<mapsto> d) else out))"

definition with_defaults :: "vals \<Rightarrow> schema \<Rightarrow> vals" where
  "with_defaults v s = foldl default_step v s"

section \<open>Lemmas\<close>

lemma v_string_str [simp]: "v k = Some (GStr x) \<Longrightarrow> v_string v k = x"
  by (simp add: v_string_def)

lemma v_string_absent [simp]: "v k = None \<Longrightarrow> v_string v k = []"
  by (simp add: v_string_def)

lemma field_simps_fs [simp]:
  "f_name (field n k) = n" "f_kind (field n k) = k" "f_required (field n k) = False"
  "f_default (field n k) = None" "f_options (field n k) = []" "f_is_path (field n k) = False"
  "f_show_when (field n k) = None" "f_label (field n k) = []" "f_description (field n k) = []"
  by (simp_all add: field_def)

text \<open>
  What \<open>WithDefaults\<close> computes: a key already present keeps its value, a missing one gets the
  default of the first field of that name that has one.
\<close>

definition first_default :: "schema \<Rightarrow> string \<Rightarrow> gval option" where
  "first_default s k =
     (case find (\<lambda>f. f_name f = k \<and> f_default f \<noteq> None) s of None \<Rightarrow> None | Some f \<Rightarrow> f_default f)"

lemma foldl_default_step:
  "foldl default_step v s k = (case v k of Some x \<Rightarrow> Some x | None \<Rightarrow> first_default s k)"
proof (induction s arbitrary: v)
  case Nil
  then show ?case by (simp add: first_default_def split: option.splits)
next
  case (Cons f s)
  then show ?case
    by (auto simp: default_step_def first_default_def split: option.splits)
qed

lemma with_defaults_at:
  "with_defaults v s k = (case v k of Some x \<Rightarrow> Some x | None \<Rightarrow> first_default s k)"
  by (simp add: with_defaults_def foldl_default_step)

lemma first_default_Nil [simp]: "first_default [] k = None"
  by (simp add: first_default_def)

lemma first_default_Cons [simp]:
  "first_default (f # s) k =
     (if f_name f = k \<and> f_default f \<noteq> None then f_default f else first_default s k)"
  by (auto simp: first_default_def)

section \<open>Decimal length of a printed float\<close>

lemma nat_digits_length: "10 ^ (length (nat_digits n) - 1) \<le> n \<or> n = 0"
proof (induction n rule: nat_digits.induct)
  case (1 n)
  show ?case
  proof (cases "n < 10")
    case True
    then show ?thesis by (auto simp: nat_digits.simps [of n])
  next
    case False
    with 1 have ih: "10 ^ (length (nat_digits (n div 10)) - 1) \<le> n div 10" by auto
    have "length (nat_digits (n div 10)) > 0" by simp
    then have "(10::nat) ^ length (nat_digits (n div 10)) =
        10 * 10 ^ (length (nat_digits (n div 10)) - 1)"
      by (cases "length (nat_digits (n div 10))") auto
    also have "\<dots> \<le> 10 * (n div 10)" using ih by simp
    also have "\<dots> \<le> n" by simp
    finally show ?thesis using False by (simp add: nat_digits.simps [of n])
  qed
qed

lemma nat_digits_length_ge: "10 ^ k \<le> n \<Longrightarrow> k < length (nat_digits n)"
proof (induction n arbitrary: k rule: nat_digits.induct)
  case (1 n)
  show ?case
  proof (cases "n < 10")
    case True
    with "1.prems" have "(10::nat) ^ k < 10 ^ 1" by simp
    then have "k = 0" using power_less_imp_less_exp [of "10::nat" k 1] by simp
    then show ?thesis by simp
  next
    case False
    show ?thesis
    proof (cases k)
      case 0
      then show ?thesis by simp
    next
      case (Suc j)
      with "1.prems" have "10 ^ j \<le> n div 10" by (simp add: less_eq_div_iff_mult_less_eq mult.commute)
      with 1(1) [OF False] Suc False show ?thesis by (simp add: nat_digits.simps [of n])
    qed
  qed
qed

lemma length_nat_str [simp]: "length (nat_str n) = length (nat_digits n)"
  by (simp add: nat_str_def)

text \<open>Every candidate with \<open>n\<close> digits has at least \<open>n\<close> digits, for a value of at least 1.\<close>

lemma floor_digits:
  fixes D V :: nat
  assumes v: "D * 10 ^ (p - 1) \<le> V" and p: "0 < p" and n: "0 < n" and D: "0 < D"
  shows "10 ^ (n - 1) \<le> V * 10 ^ (n - p) div (D * 10 ^ (p - n))"
proof (cases "p \<le> n")
  case True
  then have "D * 10 ^ (n - 1) = D * 10 ^ (p - 1) * 10 ^ (n - p)"
    using p by (simp flip: power_add)
  also have "\<dots> \<le> V * 10 ^ (n - p)" using v by simp
  finally show ?thesis using True D by (simp add: less_eq_div_iff_mult_less_eq mult.commute)
next
  case False
  then have "10 ^ (n - 1) * (D * 10 ^ (p - n)) = D * 10 ^ (p - 1)"
    using n by (simp flip: power_add)
  also have "\<dots> \<le> V * 10 ^ (n - p)" using v False by simp
  finally show ?thesis using D by (simp add: less_eq_div_iff_mult_less_eq)
qed

lemma try_digits_ge:
  assumes "try_digits V L H D incl dp n = Some d" "dp = int p" "D * 10 ^ (p - 1) \<le> V" "0 < p" "0 < n" "0 < D"
  shows "10 ^ (n - 1) \<le> d"
proof -
  have e: "nat (int n - int p) = n - p" "nat (int p - int n) = p - n" by simp_all
  have "10 ^ (n - 1) \<le> V * 10 ^ (n - p) div (D * 10 ^ (p - n))"
    using assms by (intro floor_digits) auto
  then show ?thesis
    using assms(1,2) by (auto simp: try_digits_def Let_def e split: if_splits)
qed

lemma first_digits_ge:
  assumes "dp = int p" "D * 10 ^ (p - 1) \<le> V" "0 < p" "0 < D"
  shows "\<forall>n\<in>set ns. 0 < n \<Longrightarrow> first_digits V L H D incl dp ns = (d, n) \<Longrightarrow> n \<le> length (nat_str d)"
proof (induction ns)
  case Nil
  have e: "nat (17 - int p) = 17 - p" "nat (int p - 17) = p - 17" by simp_all
  have "10 ^ (17 - 1) \<le> V * 10 ^ (17 - p) div (D * 10 ^ (p - 17))"
    using assms by (intro floor_digits) auto
  with Nil have "10 ^ (17 - 1) \<le> d" "n = 17" by (auto simp: assms(1) e)
  then show ?case using nat_digits_length_ge [of 16 d] by simp
next
  case (Cons k ns)
  show ?case
  proof (cases "try_digits V L H D incl dp k")
    case None
    with Cons show ?thesis by simp
  next
    case (Some d')
    with Cons.prems have "d' = d" "k = n" "0 < k" by auto
    with Some have "try_digits V L H D incl dp n = Some d" by simp
    then have "10 ^ (n - 1) \<le> d"
      by (rule try_digits_ge) (use assms \<open>k = n\<close> \<open>0 < k\<close> in auto)
    with nat_digits_length_ge [of "n - 1" d] \<open>k = n\<close> \<open>0 < k\<close> show ?thesis by simp
  qed
qed

lemma shortest_point:
  assumes "D = 2 ^ nat (2 - e)" "V = 4 * m * 2 ^ nat (e - 2)" "10 ^ k \<le> V div D"
    "shortest m e = (ds, dp)"
  shows "int k < dp"
proof -
  define p where "p = length (nat_digits (V div D))"
  define L where "L = (if m = 4503599627370496 \<and> - 1074 < e then 4 * m - 1 else 4 * m - 2) * 2 ^ nat (e - 2)"
  define H where "H = (4 * m + 2) * 2 ^ nat (e - 2 :: int)"
  have D: "0 < D" using assms(1) by simp
  have kp: "k < p" unfolding p_def using assms(3) by (rule nat_digits_length_ge)
  have pos: "0 < V div D" by (rule less_le_trans [OF _ assms(3)]) simp
  then have "D \<le> V" by (metis div_less not_le less_irrefl)
  then have dpe: "decimal_point V D = int p" by (simp add: decimal_point_def p_def)
  have "10 ^ (p - 1) \<le> V div D"
    using nat_digits_length [of "V div D"] pos by (auto simp: p_def)
  then have Vp: "D * 10 ^ (p - 1) \<le> V"
    using D by (simp add: less_eq_div_iff_mult_less_eq mult.commute)
  obtain d n where fd: "first_digits V L H D (even m) (int p) [1..<18] = (d, n)"
    by (cases "first_digits V L H D (even m) (int p) [1..<18]")
  have "n \<le> length (nat_str d)"
    by (rule first_digits_ge [OF refl Vp _ D _ fd]) (use kp in auto)
  moreover have "shortest m e = (trim_right (nat_str d) ''0'', int p + int (length (nat_str d)) - int n)"
    unfolding shortest_def Let_def assms(1,2) [symmetric] L_def [symmetric] H_def [symmetric] dpe fd
    by simp
  with assms(4) have "dp = int p + int (length (nat_str d)) - int n" by simp
  ultimately show ?thesis using kp by simp
qed

lemma norm_up_value: "\<exists>j. norm_up k m e = FNum False (m * 2 ^ j) (e - int j)"
proof (induction k arbitrary: m e)
  case 0
  show ?case by (auto intro: exI [of _ 0])
next
  case (Suc k)
  show ?case
  proof (cases "m < 4503599627370496")
    case True
    obtain j where "norm_up k (2 * m) (e - 1) = FNum False (2 * m * 2 ^ j) (e - 1 - int j)"
      using Suc.IH by blast
    with True show ?thesis by (auto intro!: exI [of _ "Suc j"] simp: algebra_simps)
  qed (auto intro: exI [of _ 0])
qed

text \<open>A whole number of seven or more digits is printed with an exponent.\<close>

lemma format_float_int_exp:
  assumes "1000000 \<le> \<bar>i\<bar>"
  shows "CHR ''e'' \<in> set (format_float (float_of_int i))"
proof -
  obtain j where j: "norm_up 53 (nat \<bar>i\<bar>) 0 = FNum False (nat \<bar>i\<bar> * 2 ^ j) (- int j)"
    using norm_up_value [of 53 "nat \<bar>i\<bar>" 0] by auto
  define m where "m = nat \<bar>i\<bar> * 2 ^ j"
  from assms have i0: "i \<noteq> 0" and big: "10 ^ 6 \<le> nat \<bar>i\<bar>" by auto
  have f: "float_of_int i = FNum (i < 0) m (- int j)"
    unfolding float_of_int_def j using i0 by (simp add: m_def)
  obtain ds dp where sh: "shortest m (- int j) = (ds, dp)" by (cases "shortest m (- int j)")
  have n2: "nat (2 + int j) = 2 + j" by simp
  have "4 * m * 2 ^ nat (- int j - 2) div 2 ^ nat (2 - - int j) = nat \<bar>i\<bar>"
    by (simp add: m_def n2 power_add)
  then have "10 ^ 6 \<le> 4 * m * 2 ^ nat (- int j - 2) div 2 ^ nat (2 - - int j)"
    using big by simp
  with sh have "int 6 < dp" by (intro shortest_point [OF refl refl])
  then show ?thesis
    using f i0 sh by (auto simp: format_float_def m_def fmt_exp_def Let_def)
qed

lemma itoa_chars: "c \<in> set (itoa i) \<Longrightarrow> c = CHR ''-'' \<or> is_digit c"
  using nat_str_digits by (auto simp: itoa_def list_all_iff split: if_splits)

end
