(* ===== verification/Contract.thy ===== *)
theory Contract
  imports Values
begin

text \<open>
  The contract of \<open>connector/\<close>: descriptors, credentials and their specifications, actions,
  triggers, events and webhook responses as records of functions (\<open>connector.go\<close>,
  \<open>credential.go\<close>, \<open>trigger.go\<close>), and the registry (\<open>registry.go\<close>).

  A method that touches the outside world takes it as an argument \<open>'w\<close> and returns it with its
  result; \<open>'s\<close> is the type of open sessions. The context argument of the Go methods (deadlines and
  cancellation) shows up only where a component's own control flow tests it.
\<close>

section \<open>Data\<close>

text \<open>A point in time in nanoseconds; 0 stands for Go's zero time.\<close>

type_synonym time = int

definition is_zero_time :: "time \<Rightarrow> bool" where
  "is_zero_time t = (t = 0)"

record descriptor =
  d_name :: string
  d_display :: string
  d_description :: string
  d_version :: string
  d_categories :: "string list"

datatype auth_kind = AuthBasic | AuthAPIKey | AuthOAuth2 | AuthCustom | AuthNone

record preset =
  p_name :: string
  p_description :: string
  p_values :: "(string \<times> gval) list"

record credential =
  cr_type :: string
  cr_name :: string
  cr_values :: vals
  cr_created :: time
  cr_updated :: time

record 'w cred_spec =
  cs_kind :: auth_kind
  cs_schema :: schema
  cs_presets :: "preset list"
  cs_defaults :: "vals \<Rightarrow> vals"
  cs_validate :: "credential \<Rightarrow> 'w \<Rightarrow> vals res \<times> 'w"

text \<open>
  The values are a map, so \<open>Validate\<close> may change them for its caller, who saves them: it returns them here. Most
  leave them alone.
\<close>

definition keep_values :: "(credential \<Rightarrow> 'w \<Rightarrow> unit res \<times> 'w) \<Rightarrow> credential \<Rightarrow> 'w \<Rightarrow> vals res \<times> 'w" where
  "keep_values validate c w =
     (case validate c w of (Inl e, w1) \<Rightarrow> (Inl e, w1) | (Inr _, w1) \<Rightarrow> (Inr (cr_values c), w1))"

datatype strategy = TriggerPolling | TriggerPush | TriggerWebhook

fun strategy_name :: "strategy \<Rightarrow> string" where
  "strategy_name TriggerPolling = ''polling''"
| "strategy_name TriggerPush = ''push''"
| "strategy_name TriggerWebhook = ''webhook''"

record event =
  ev_id :: string
  ev_type :: string
  ev_payload :: gval
  ev_time :: time

type_synonym header = "(string \<times> string list) list"

record webhook_response =
  w_status :: int
  w_content_type :: string
  w_headers :: header
  w_body :: string

text \<open>
  The parts of \<open>*http.Request\<close> the receivers read: header keys are in canonical form, and reading
  the body may fail.
\<close>

record http_request =
  rq_method :: string
  rq_path :: string
  rq_url :: string
  rq_query :: header
  rq_headers :: header
  rq_body :: "string res"
  rq_remote :: string

type_synonym 'w sink = "event \<Rightarrow> 'w \<Rightarrow> unit res \<times> 'w"

record ('w, 's) action =
  a_name :: string
  a_display :: string
  a_description :: string
  a_schema :: schema
  a_run :: "'s \<Rightarrow> vals \<Rightarrow> 'w \<Rightarrow> gval res \<times> 'w"

record ('w, 's) webhook_ops =
  on_enable :: "'s \<Rightarrow> vals \<Rightarrow> string \<Rightarrow> 'w \<Rightarrow> unit res \<times> 'w"
  on_disable :: "'s \<Rightarrow> vals \<Rightarrow> 'w \<Rightarrow> unit res \<times> 'w"
  on_handle :: "'s \<Rightarrow> vals \<Rightarrow> http_request \<Rightarrow> 'w sink \<Rightarrow> 'w \<Rightarrow> webhook_response option res \<times> 'w"

record ('w, 's) trigger =
  t_name :: string
  t_display :: string
  t_description :: string
  t_schema :: schema
  t_strategy :: strategy
  t_subscribe :: "('s \<Rightarrow> vals \<Rightarrow> 'w sink \<Rightarrow> 'w \<Rightarrow> unit res \<times> 'w) option"
  t_webhook :: "('w, 's) webhook_ops option"

text \<open>
  A connector opens a session from a credential and the root of the instance's state store (the
  one field of \<open>OpenOptions\<close>); \<open>c_close\<close> is the \<open>Close\<close> method of its sessions.
\<close>

record ('w, 's) connector =
  c_descriptor :: descriptor
  c_credential :: "'w cred_spec"
  c_actions :: "('w, 's) action list"
  c_triggers :: "('w, 's) trigger list"
  c_open :: "credential \<Rightarrow> string \<Rightarrow> 'w \<Rightarrow> 's res \<times> 'w"
  c_close :: "'s \<Rightarrow> 'w \<Rightarrow> unit res \<times> 'w"

section \<open>The registry\<close>

type_synonym ('w, 's) registry = "(string \<times> ('w, 's) connector) list"

definition new_registry :: "('w, 's) registry" where
  "new_registry = []"

definition reg_get :: "('w, 's) registry \<Rightarrow> string \<Rightarrow> ('w, 's) connector option" where
  "reg_get r name = map_of r name"

definition register :: "('w, 's) connector \<Rightarrow> ('w, 's) registry \<Rightarrow> ('w, 's) registry res" where
  "register c r =
     (let n = d_name (c_descriptor c)
      in if n = [] then Inl (ErrMsg ''connector has empty Descriptor.Name'')
         else if map_of r n \<noteq> None then
           Inl (ErrMsg (''connector '' @ n @ '' already registered''))
         else Inr ((n, c) # r))"

definition reg_list :: "('w, 's) registry \<Rightarrow> descriptor list" where
  "reg_list r = sort_key d_name (map (\<lambda>(_, c). c_descriptor c) r)"

text \<open>\<open>MustRegister\<close> panics on an error: \<open>None\<close>. Start-up registers one connector after the other.\<close>

definition must_register :: "('w, 's) connector \<Rightarrow> ('w, 's) registry \<Rightarrow> ('w, 's) registry option" where
  "must_register c r = (case register c r of Inl _ \<Rightarrow> None | Inr r' \<Rightarrow> Some r')"

fun register_all :: "('w, 's) connector list \<Rightarrow> ('w, 's) registry \<Rightarrow> ('w, 's) registry option" where
  "register_all [] r = Some r"
| "register_all (c # cs) r =
     (case register c r of Inl _ \<Rightarrow> None | Inr r' \<Rightarrow> register_all cs r')"

subsection \<open>Invariant\<close>

definition reg_ok :: "('w, 's) registry \<Rightarrow> bool" where
  "reg_ok r = (distinct (map fst r) \<and> (\<forall>(n, c)\<in>set r. n \<noteq> [] \<and> d_name (c_descriptor c) = n))"

lemma reg_ok_new [simp]: "reg_ok new_registry"
  by (simp add: reg_ok_def new_registry_def)

lemma register_ok: "reg_ok r \<Longrightarrow> register c r = Inr r' \<Longrightarrow> reg_ok r'"
  by (auto simp: reg_ok_def register_def Let_def map_of_eq_None_iff split: if_splits)

lemma register_all_ok: "reg_ok r \<Longrightarrow> register_all cs r = Some r' \<Longrightarrow> reg_ok r'"
  by (induction cs arbitrary: r) (auto split: sum.splits intro: register_ok)

lemma register_get:
  "register c r = Inr r' \<Longrightarrow>
   reg_get r' n = (if n = d_name (c_descriptor c) then Some c else reg_get r n)"
  by (auto simp: register_def reg_get_def Let_def split: if_splits)

lemma register_dup:
  "d_name (c_descriptor c) \<noteq> [] \<Longrightarrow>
   (\<exists>e. register c r = Inl e) \<longleftrightarrow> reg_get r (d_name (c_descriptor c)) \<noteq> None"
  by (auto simp: register_def reg_get_def Let_def)

lemma map_insort_key: "map f (insort_key f x xs) = insort (f x) (map f xs)"
  by (induction xs) auto

lemma map_sort_key: "map f (sort_key f xs) = sort (map f xs)"
  by (induction xs) (simp_all add: map_insort_key)

lemma reg_list_names: "reg_ok r \<Longrightarrow> map d_name (reg_list r) = sort (map fst r)"
proof -
  assume ok: "reg_ok r"
  then have "map d_name (map (\<lambda>(_, c). c_descriptor c) r) = map fst r"
    by (auto simp: reg_ok_def)
  then show ?thesis unfolding reg_list_def map_sort_key by (rule arg_cong)
qed

lemma register_all_get:
  "register_all cs r = Some r' \<Longrightarrow>
   reg_get r' n = (case find (\<lambda>c. d_name (c_descriptor c) = n) cs of Some c \<Rightarrow> Some c | None \<Rightarrow> reg_get r n)"
proof (induction cs arbitrary: r)
  case Nil
  then show ?case by simp
next
  case (Cons c cs)
  then obtain r1 where r1: "register c r = Inr r1" "register_all cs r1 = Some r'"
    by (auto split: sum.splits)
  note ih = Cons.IH [OF r1(2)]
  show ?case
  proof (cases "find (\<lambda>c. d_name (c_descriptor c) = n) cs")
    case None
    with ih r1(1) show ?thesis by (auto simp: register_get)
  next
    case (Some d)
    have mono: "register_all cs r1 = Some r' \<Longrightarrow> reg_get r1 m \<noteq> None \<Longrightarrow>
        find (\<lambda>c. d_name (c_descriptor c) = m) cs = None" for cs and r1 :: "('a, 'b) registry" and m
    proof (induction cs arbitrary: r1)
      case (Cons e es)
      then obtain r2 where "register e r1 = Inr r2" "register_all es r2 = Some r'"
        by (auto split: sum.splits)
      with Cons show ?case
        by (auto simp: register_get register_def reg_get_def Let_def split: if_splits)
    qed simp
    with Some ih r1 show ?thesis by (auto simp: register_get)
  qed
qed

end
