(* ===== verification/Json.thy ===== *)
theory Json
  imports Values
begin

text \<open>
  The part of \<open>encoding/json\<close> the sources use on untyped values: decoding into \<open>any\<close> (numbers
  become \<open>float64\<close>, a repeated key keeps its last value) and encoding of the values of a bag.
  Decimal numbers are rounded to the nearest double, ties to even. Two limits of Go's decoder are
  not modelled: the nesting depth of 10000, and the replacement of invalid UTF-8.
\<close>

section \<open>Decimal numbers to doubles\<close>

fun bit_length :: "nat \<Rightarrow> nat" where
  "bit_length n = (if n = 0 then 0 else Suc (bit_length (n div 2)))"

declare bit_length.simps [simp del]

definition round_ratio :: "nat \<Rightarrow> nat \<Rightarrow> nat" where
  "round_ratio a b =
     (let q = a div b; r = a mod b
      in if 2 * r < b \<or> (2 * r = b \<and> even q) then q else Suc q)"

definition float_of_ratio :: "bool \<Rightarrow> nat \<Rightarrow> nat \<Rightarrow> float64 option" where
  "float_of_ratio neg a b =
     (let e1 = max (- 1074) (int (bit_length a) - int (bit_length b) - 53);
          big = (9007199254740992 * b * 2 ^ nat e1 \<le> a * 2 ^ nat (- e1));
          e2 = (if big then e1 + 1 else e1);
          m = round_ratio (a * 2 ^ nat (- e2)) (b * 2 ^ nat e2);
          (m, e) = (if m = 9007199254740992 then (4503599627370496, e2 + 1) else (m, e2))
      in if 971 < e then None else if m = 0 then Some (FNum neg 0 0) else Some (FNum neg m e))"

definition float_of_dec :: "bool \<Rightarrow> nat \<Rightarrow> int \<Rightarrow> float64 option" where
  "float_of_dec neg n k =
     (if n = 0 then Some (FNum neg 0 0)
      else if 400 < k then None
      else if k + int (length (nat_digits n)) < - 400 then Some (FNum neg 0 0)
      else float_of_ratio neg (n * 10 ^ nat k) (10 ^ nat (- k)))"

section \<open>Decoding\<close>

definition json_ws :: "string" where
  "json_ws = [CHR 0x20, CHR 0x09, CHR 0x0A, CHR 0x0D]"

definition skip_ws :: "string \<Rightarrow> string" where
  "skip_ws s = dropWhile (\<lambda>c. c \<in> set json_ws) s"

definition byte :: "nat \<Rightarrow> char" where
  "byte n = char_of n"

definition utf8 :: "nat \<Rightarrow> string" where
  "utf8 n =
     (if n < 128 then [byte n]
      else if n < 2048 then [byte (192 + n div 64), byte (128 + n mod 64)]
      else if n < 65536 then [byte (224 + n div 4096), byte (128 + n div 64 mod 64), byte (128 + n mod 64)]
      else [byte (240 + n div 262144), byte (128 + n div 4096 mod 64), byte (128 + n div 64 mod 64),
            byte (128 + n mod 64)])"

definition hex_digit_val :: "char \<Rightarrow> nat option" where
  "hex_digit_val c =
     (let n = of_char c
      in if 48 \<le> n \<and> n \<le> 57 then Some (n - 48)
         else if 97 \<le> n \<and> n \<le> 102 then Some (n - 87)
         else if 65 \<le> n \<and> n \<le> 70 then Some (n - 55)
         else None)"

definition hex4 :: "string \<Rightarrow> (nat \<times> string) option" where
  "hex4 s =
     (case s of
        a # b # c # d # r \<Rightarrow>
          (case (hex_digit_val a, hex_digit_val b, hex_digit_val c, hex_digit_val d) of
             (Some w, Some x, Some y, Some z) \<Rightarrow> Some (4096 * w + 256 * x + 16 * y + z, r)
           | _ \<Rightarrow> None)
      | _ \<Rightarrow> None)"

definition low_surrogate :: "string \<Rightarrow> (nat \<times> string) option" where
  "low_surrogate s =
     (case s of
        a # b # r \<Rightarrow>
          (if a = CHR 0x5C \<and> b = CHR ''u'' then
             (case hex4 r of
                Some (l, r') \<Rightarrow> (if 56320 \<le> l \<and> l < 57344 then Some (l, r') else None)
              | None \<Rightarrow> None)
           else None)
      | _ \<Rightarrow> None)"

definition simple_escape :: "char \<Rightarrow> char option" where
  "simple_escape c =
     (if c = CHR 0x22 \<or> c = CHR 0x5C \<or> c = CHR ''/'' then Some c
      else if c = CHR ''b'' then Some (CHR 0x08)
      else if c = CHR ''f'' then Some (CHR 0x0C)
      else if c = CHR ''n'' then Some (CHR 0x0A)
      else if c = CHR ''r'' then Some (CHR 0x0D)
      else if c = CHR ''t'' then Some (CHR 0x09)
      else None)"

text \<open>The rest of a string after its opening quote; the fuel is the length of the input.\<close>

fun json_string :: "nat \<Rightarrow> string \<Rightarrow> (string \<times> string) option" where
  "json_string 0 s = None"
| "json_string (Suc n) s =
     (case s of
        [] \<Rightarrow> None
      | c # cs \<Rightarrow>
          (if c = CHR 0x22 then Some ([], cs)
           else if (of_char c :: nat) < 32 then None
           else if c \<noteq> CHR 0x5C then map_option (\<lambda>(x, r). (c # x, r)) (json_string n cs)
           else case cs of
             [] \<Rightarrow> None
           | e # es \<Rightarrow>
               (if e = CHR ''u'' then
                  (case hex4 es of
                     None \<Rightarrow> None
                   | Some (h, r) \<Rightarrow>
                       (if h < 55296 \<or> 57344 \<le> h then
                          map_option (\<lambda>(x, r'). (utf8 h @ x, r')) (json_string n r)
                        else case (if h < 56320 then low_surrogate r else None) of
                          Some (l, r2) \<Rightarrow>
                            map_option (\<lambda>(x, r'). (utf8 (65536 + (h - 55296) * 1024 + (l - 56320)) @ x, r'))
                              (json_string n r2)
                        | None \<Rightarrow> map_option (\<lambda>(x, r'). (utf8 65533 @ x, r')) (json_string n r)))
                else case simple_escape e of
                  None \<Rightarrow> None
                | Some ch \<Rightarrow> map_option (\<lambda>(x, r). (ch # x, r)) (json_string n es))))"

definition take_digits :: "string \<Rightarrow> string \<times> string" where
  "take_digits s = (takeWhile is_digit s, dropWhile is_digit s)"

definition json_number :: "string \<Rightarrow> (gval \<times> string) option" where
  "json_number s =
     (let neg = (s \<noteq> [] \<and> hd s = CHR ''-'');
          s1 = (if neg then tl s else s);
          (ip, s2) = take_digits s1
      in if ip = [] \<or> (hd ip = CHR ''0'' \<and> tl ip \<noteq> []) then None
         else
           (let (fp, s3, okf) =
              (case s2 of
                 c # r \<Rightarrow> (if c = CHR ''.'' then let (d, t) = take_digits r in (d, t, d \<noteq> []) else ([], s2, True))
               | [] \<Rightarrow> ([], s2, True));
               (ex, s4, oke) =
              (case s3 of
                 c # r \<Rightarrow>
                   (if c = CHR ''e'' \<or> c = CHR ''E'' then
                      (let sg = (r \<noteq> [] \<and> (hd r = CHR ''+'' \<or> hd r = CHR ''-''));
                           (d, t) = take_digits (if sg then tl r else r);
                           v = int (digits_val 0 d)
                       in (if r \<noteq> [] \<and> hd r = CHR ''-'' then - v else v, t, d \<noteq> []))
                    else (0, s3, True))
               | [] \<Rightarrow> (0, s3, True))
            in if okf \<and> oke then
                 map_option (\<lambda>x. (GFloat x, s4))
                   (float_of_dec neg (digits_val 0 (ip @ fp)) (ex - int (length fp)))
               else None))"

text \<open>A map of a JSON object: the last value of a key counts, keys are kept in first order.\<close>

definition obj_put :: "string \<Rightarrow> gval \<Rightarrow> (string \<times> gval) list \<Rightarrow> (string \<times> gval) list" where
  "obj_put k v kvs =
     (if k \<in> set (map fst kvs) then map (\<lambda>(k', v'). if k' = k then (k, v) else (k', v')) kvs
      else kvs @ [(k, v)])"

fun json_value :: "nat \<Rightarrow> string \<Rightarrow> (gval \<times> string) option"
  and json_items :: "nat \<Rightarrow> gval list \<Rightarrow> string \<Rightarrow> (gval \<times> string) option"
  and json_members :: "nat \<Rightarrow> (string \<times> gval) list \<Rightarrow> string \<Rightarrow> (gval \<times> string) option" where
  "json_value 0 s = None"
| "json_value (Suc n) s =
     (case skip_ws s of
        [] \<Rightarrow> None
      | c # cs \<Rightarrow>
          (if c = CHR 0x22 then map_option (\<lambda>(x, r). (GStr x, r)) (json_string (Suc (length cs)) cs)
           else if c = CHR ''['' then
             (case skip_ws cs of
                d # r \<Rightarrow> (if d = CHR '']'' then Some (GList [], r) else json_items n [] cs)
              | [] \<Rightarrow> None)
           else if c = CHR 0x7B then
             (case skip_ws cs of
                d # r \<Rightarrow> (if d = CHR 0x7D then Some (GMap [], r) else json_members n [] cs)
              | [] \<Rightarrow> None)
           else if prefix ''true'' (c # cs) then Some (GBool True, drop 4 (c # cs))
           else if prefix ''false'' (c # cs) then Some (GBool False, drop 5 (c # cs))
           else if prefix ''null'' (c # cs) then Some (GNil, drop 4 (c # cs))
           else json_number (c # cs)))"
| "json_items 0 acc s = None"
| "json_items (Suc n) acc s =
     (case json_value n s of
        None \<Rightarrow> None
      | Some (v, r) \<Rightarrow>
          (case skip_ws r of
             c # cs \<Rightarrow>
               (if c = CHR '','' then json_items n (acc @ [v]) cs
                else if c = CHR '']'' then Some (GList (acc @ [v]), cs)
                else None)
           | [] \<Rightarrow> None))"
| "json_members 0 acc s = None"
| "json_members (Suc n) acc s =
     (case skip_ws s of
        q # qs \<Rightarrow>
          (if q \<noteq> CHR 0x22 then None
           else case json_string (Suc (length qs)) qs of
             None \<Rightarrow> None
           | Some (k, r) \<Rightarrow>
               (case skip_ws r of
                  c # cs \<Rightarrow>
                    (if c \<noteq> CHR '':'' then None
                     else case json_value n cs of
                       None \<Rightarrow> None
                     | Some (v, r2) \<Rightarrow>
                         (case skip_ws r2 of
                            d # ds \<Rightarrow>
                              (if d = CHR '','' then json_members n (obj_put k v acc) ds
                               else if d = CHR 0x7D then Some (GMap (obj_put k v acc), ds)
                               else None)
                          | [] \<Rightarrow> None))
                | [] \<Rightarrow> None))
      | [] \<Rightarrow> None)"

text \<open>
  \<open>json.Decoder.Decode\<close> reads one value and leaves the rest; \<open>json.Unmarshal\<close> wants the value to
  be the whole input. The fuel covers every character twice, more than the nesting can use.
\<close>

definition json_decode_first :: "string \<Rightarrow> (gval \<times> string) option" where
  "json_decode_first s = json_value (2 * length s + 2) s"

definition json_unmarshal :: "string \<Rightarrow> gval option" where
  "json_unmarshal s =
     (case json_decode_first s of
        Some (v, r) \<Rightarrow> (if skip_ws r = [] then Some v else None)
      | None \<Rightarrow> None)"

section \<open>Encoding\<close>

definition hex_char :: "nat \<Rightarrow> char" where
  "hex_char d = (if d < 10 then char_of (48 + d) else char_of (87 + d))"

definition json_escape :: "char \<Rightarrow> string" where
  "json_escape c =
     (if c = CHR 0x22 then [CHR 0x5C, CHR 0x22]
      else if c = CHR 0x5C then [CHR 0x5C, CHR 0x5C]
      else if c = CHR 0x08 then [CHR 0x5C, CHR ''b'']
      else if c = CHR 0x0C then [CHR 0x5C, CHR ''f'']
      else if c = CHR 0x0A then [CHR 0x5C, CHR ''n'']
      else if c = CHR 0x0D then [CHR 0x5C, CHR ''r'']
      else if c = CHR 0x09 then [CHR 0x5C, CHR ''t'']
      else let n = of_char c
           in if n < 32 \<or> c = CHR ''<'' \<or> c = CHR ''>'' \<or> c = CHR ''&''
              then [CHR 0x5C, CHR ''u'', CHR ''0'', CHR ''0'', hex_char (n div 16), hex_char (n mod 16)]
              else [c])"

definition json_quote :: "string \<Rightarrow> string" where
  "json_quote s = CHR 0x22 # concat (map json_escape s) @ [CHR 0x22]"

text \<open>A float prints with an exponent only below 1e-6 and from 1e21 on, the exponent unpadded.\<close>

definition json_float :: "float64 \<Rightarrow> string option" where
  "json_float x =
     (case x of
        FNum neg m e \<Rightarrow>
          Some ((if neg then ''-'' else []) @
            (if m = 0 then ''0''
             else let (ds, dp) = shortest m e
                  in if dp < - 5 \<or> 21 < dp then
                       (let k = dp - 1
                        in hd ds # (if tl ds = [] then [] else CHR ''.'' # tl ds) @ ''e''
                           @ (if k < 0 then ''-'' else ''+'') @ nat_str (nat \<bar>k\<bar>))
                     else fmt_fixed ds dp))
      | _ \<Rightarrow> None)"

fun all_some :: "'a option list \<Rightarrow> 'a list option" where
  "all_some [] = Some []"
| "all_some (x # xs) =
     (case (x, all_some xs) of (Some a, Some as) \<Rightarrow> Some (a # as) | _ \<Rightarrow> None)"

fun json_encode :: "gval \<Rightarrow> string option" where
  "json_encode GNil = Some ''null''"
| "json_encode (GStr s) = Some (json_quote s)"
| "json_encode (GBool b) = Some (bool_str b)"
| "json_encode (GInt i) = Some (itoa i)"
| "json_encode (GInt64 i) = Some (itoa i)"
| "json_encode (GFloat x) = json_float x"
| "json_encode (GStrs ss) = Some (''['' @ join_with '','' (map json_quote ss) @ '']'')"
| "json_encode (GList xs) =
     (case all_some (map json_encode xs) of
        Some ss \<Rightarrow> Some (''['' @ join_with '','' ss @ '']'')
      | None \<Rightarrow> None)"
| "json_encode (GMap kvs) =
     (case all_some (map (\<lambda>(k, v). map_option (\<lambda>s. (k, s)) (json_encode v)) kvs) of
        Some kss \<Rightarrow>
          Some (CHR 0x7B # join_with '','' (map (\<lambda>(k, s). json_quote k @ '':'' @ s) (sort_key fst kss))
                @ [CHR 0x7D])
      | None \<Rightarrow> None)"

text \<open>Fields of a decoded object.\<close>

definition obj_get :: "gval \<Rightarrow> string \<Rightarrow> gval option" where
  "obj_get v k = (case v of GMap kvs \<Rightarrow> map_of kvs k | _ \<Rightarrow> None)"

definition vals_of :: "(string \<times> gval) list \<Rightarrow> vals" where
  "vals_of kvs = map_of kvs"

lemma vals_of_Nil [simp]: "vals_of [] k = None"
  by (simp add: vals_of_def)

end
