(* ===== verification/Http.thy ===== *)
theory Http
  imports Json FileSystem
begin

text \<open>
  \<open>transport/http\<close>: the client wrapper of the JSON connectors (\<open>client.go\<close>) and the backoff and
  retry helpers (\<open>retry.go\<close>).

  The network is the argument \<open>net\<close>: what a request meets there and what comes back is outside the
  repository. Of \<open>net/url\<close> the model has query parsing, escaping and encoding; a URL fails to
  parse when it holds a control character or a broken percent escape. A response body decodes into
  an untyped value; the callers pick the fields their target structs name.
\<close>

section \<open>Headers\<close>

type_synonym hdr = "(string \<times> string list) list"

text \<open>\<open>CanonicalMIMEHeaderKey\<close>: a capital after the start and every dash.\<close>

fun canon_from :: "bool \<Rightarrow> string \<Rightarrow> string" where
  "canon_from up [] = []"
| "canon_from up (c # cs) = (if up then upper_char c else lower_char c) # canon_from (c = CHR ''-'') cs"

definition canon_key :: "string \<Rightarrow> string" where
  "canon_key k = canon_from True k"

definition hdr_get :: "hdr \<Rightarrow> string \<Rightarrow> string" where
  "hdr_get h k = (case map_of h (canon_key k) of Some (v # _) \<Rightarrow> v | _ \<Rightarrow> [])"

definition hdr_set :: "string \<Rightarrow> string \<Rightarrow> hdr \<Rightarrow> hdr" where
  "hdr_set k v h = AList.update (canon_key k) [v] h"

definition hdr_add :: "string \<Rightarrow> string \<Rightarrow> hdr \<Rightarrow> hdr" where
  "hdr_add k v h =
     (case map_of h (canon_key k) of
        None \<Rightarrow> h @ [(canon_key k, [v])]
      | Some vs \<Rightarrow> AList.update (canon_key k) (vs @ [v]) h)"

section \<open>Queries\<close>

definition hex_upper :: "nat \<Rightarrow> char" where
  "hex_upper d = (if d < 10 then char_of (48 + d) else char_of (55 + d))"

definition is_unreserved :: "char \<Rightarrow> bool" where
  "is_unreserved c =
     (let n = (of_char c :: nat)
      in (48 \<le> n \<and> n \<le> 57) \<or> (65 \<le> n \<and> n \<le> 90) \<or> (97 \<le> n \<and> n \<le> 122) \<or> c \<in> set ''-_.~'')"

definition query_escape :: "string \<Rightarrow> string" where
  "query_escape s =
     concat (map (\<lambda>c. if is_unreserved c then [c] else if c = CHR '' '' then ''+''
       else [CHR ''%'', hex_upper (of_char c div 16), hex_upper (of_char c mod 16)]) s)"

fun query_unescape :: "string \<Rightarrow> string option" where
  "query_unescape [] = Some []"
| "query_unescape (c # cs) =
     (if c = CHR ''+'' then map_option (\<lambda>r. CHR '' '' # r) (query_unescape cs)
      else if c = CHR ''%'' then
        (case cs of
           a # b # r \<Rightarrow>
             (case (hex_digit_val a, hex_digit_val b) of
                (Some x, Some y) \<Rightarrow> map_option (\<lambda>t. char_of (16 * x + y) # t) (query_unescape r)
              | _ \<Rightarrow> None)
         | _ \<Rightarrow> None)
      else map_option (\<lambda>r. c # r) (query_unescape cs))"

type_synonym url_values = "(string \<times> string list) list"

definition q_add :: "string \<Rightarrow> string \<Rightarrow> url_values \<Rightarrow> url_values" where
  "q_add k v q =
     (case map_of q k of
        None \<Rightarrow> q @ [(k, [v])]
      | Some vs \<Rightarrow> AList.update k (vs @ [v]) q)"

definition q_get :: "url_values \<Rightarrow> string \<Rightarrow> string" where
  "q_get q k = (case map_of q k of Some (v # _) \<Rightarrow> v | _ \<Rightarrow> [])"

definition parse_query :: "string \<Rightarrow> url_values" where
  "parse_query s =
     foldl (\<lambda>q part.
       if part = [] \<or> CHR '';'' \<in> set part then q
       else let (k, v, _) = str_cut (CHR ''='') part
            in case (query_unescape k, query_unescape v) of
                 (Some k', Some v') \<Rightarrow> q_add k' v' q
               | _ \<Rightarrow> q) [] (split_on (CHR ''&'') s)"

definition q_encode :: "url_values \<Rightarrow> string" where
  "q_encode q =
     join_with ''&'' (concat (map (\<lambda>(k, vs). map (\<lambda>v. query_escape k @ ''='' @ query_escape v) vs)
       (sort_key fst q)))"

fun escapes_ok :: "string \<Rightarrow> bool" where
  "escapes_ok [] = True"
| "escapes_ok (c # cs) =
     (if c = CHR ''%'' then
        (case cs of
           a # b # r \<Rightarrow> hex_digit_val a \<noteq> None \<and> hex_digit_val b \<noteq> None \<and> escapes_ok r
         | _ \<Rightarrow> False)
      else escapes_ok cs)"

definition url_ok :: "string \<Rightarrow> bool" where
  "url_ok u =
     (list_all (\<lambda>c. 32 \<le> (of_char c :: nat) \<and> (of_char c :: nat) \<noteq> 127) u \<and>
      escapes_ok (fst (str_cut (CHR ''?'') (fst (str_cut (CHR ''#'') u)))))"

text \<open>Parse a URL, replace its query, print it.\<close>

definition with_query :: "url_values \<Rightarrow> string \<Rightarrow> string" where
  "with_query extra u =
     (let (main, frag, has_frag) = str_cut (CHR ''#'') u;
          (path, raw, _) = str_cut (CHR ''?'') main;
          q = foldl (\<lambda>q (k, vs). foldl (\<lambda>q v. q_add k v q) q vs) (parse_query raw) extra
      in path @ ''?'' @ q_encode q @ (if has_frag then CHR ''#'' # frag else []))"

section \<open>The client\<close>

record http_config =
  hc_base :: string
  hc_headers :: hdr
  hc_agent :: string
  hc_timeout :: int

definition second :: int where "second = 1000000000"

definition new_client :: "http_config \<Rightarrow> http_config res" where
  "new_client cfg =
     (if hc_base cfg = [] then Inl (ErrMsg ''http: BaseURL is required'')
      else if \<not> url_ok (hc_base cfg) then Inl (ErrWrap ''http: BaseURL: '' (ErrExt ''url'') [])
      else
        (let c1 = (if hc_timeout cfg = 0 then cfg\<lparr>hc_timeout := 30 * second\<rparr> else cfg)
         in Inr (if hc_agent c1 = [] then c1\<lparr>hc_agent := ''mw/0.1''\<rparr> else c1)))"

record api_request =
  aq_method :: string
  aq_url :: string
  aq_headers :: hdr
  aq_body :: string
  aq_timeout :: int

record api_response =
  as_status :: int
  as_headers :: hdr
  as_body :: "string res"

type_synonym 'w net = "api_request \<Rightarrow> 'w \<Rightarrow> api_response res \<times> 'w"

definition ellipsis :: string where
  "ellipsis = [CHR 0xE2, CHR 0x80, CHR 0xA6]"

text \<open>\<open>APIError.Error\<close>.\<close>

definition api_error_text :: "int \<Rightarrow> string \<Rightarrow> string \<Rightarrow> string" where
  "api_error_text status url body =
     (let b = trim_space body; t = (if 200 < length b then take 200 b @ ellipsis else b)
      in ''http '' @ itoa status @ '' '' @ url @ '': '' @ t)"

definition truncate_bytes :: "string \<Rightarrow> nat \<Rightarrow> string" where
  "truncate_bytes b n = (if length b \<le> n then b else take n b @ ellipsis)"

definition resolve_url :: "http_config \<Rightarrow> string \<Rightarrow> url_values \<Rightarrow> string res" where
  "resolve_url c path query =
     (let full = (if \<not> prefix ''http://'' path \<and> \<not> prefix ''https://'' path
                  then trim_right (hc_base c) ''/'' @ ''/'' @ trim_left path ''/'' else path)
      in if query \<noteq> [] then
           (if \<not> url_ok full then Inl (ErrExt ''url'') else Inr (with_query query full))
         else Inr full)"

definition new_request :: "http_config \<Rightarrow> string \<Rightarrow> string \<Rightarrow> url_values \<Rightarrow> string \<Rightarrow> string \<Rightarrow> api_request res" where
  "new_request c method path query body ctype =
     (case resolve_url c path query of
        Inl e \<Rightarrow> Inl e
      | Inr full \<Rightarrow>
          (if \<not> url_ok full then Inl (ErrExt ''url'')
           else
             (let h1 = foldl (\<lambda>h (k, vs). foldl (\<lambda>h v. hdr_add k v h) h vs) [] (hc_headers c);
                  h2 = (if hc_agent c \<noteq> [] then hdr_set ''User-Agent'' (hc_agent c) h1 else h1);
                  h3 = (if ctype \<noteq> [] then hdr_set ''Content-Type'' ctype h2 else h2)
              in Inr \<lparr>aq_method = method, aq_url = full, aq_headers = h3, aq_body = body,
                      aq_timeout = hc_timeout c\<rparr>)))"

text \<open>\<open>out\<close> tells whether the caller wants the body; an empty or discarded one gives \<open>GNil\<close>.\<close>

definition do_json :: "'w net \<Rightarrow> api_request \<Rightarrow> bool \<Rightarrow> 'w \<Rightarrow> gval res \<times> 'w" where
  "do_json net rq out w =
     (let rq = (if hdr_get (aq_headers rq) ''Accept'' = []
                then rq\<lparr>aq_headers := hdr_set ''Accept'' ''application/json'' (aq_headers rq)\<rparr> else rq)
      in case net rq w of
           (Inl e, w') \<Rightarrow> (Inl e, w')
         | (Inr resp, w') \<Rightarrow>
             (case as_body resp of
                Inl e \<Rightarrow> (Inl e, w')
              | Inr body \<Rightarrow>
                  (if as_status resp div 100 \<noteq> 2 then (Inl (ErrAPI (as_status resp) (aq_url rq) body), w')
                   else if \<not> out \<or> body = [] then (Inr GNil, w')
                   else case json_unmarshal body of
                     None \<Rightarrow>
                       (Inl (ErrWrap ''http: unmarshal: '' (ErrExt ''json'')
                          ('' (body='' @ json_quote (truncate_bytes body 200) @ '')'')), w')
                   | Some v \<Rightarrow> (Inr v, w'))))"

definition get_json :: "'w net \<Rightarrow> http_config \<Rightarrow> string \<Rightarrow> url_values \<Rightarrow> bool \<Rightarrow> 'w \<Rightarrow> gval res \<times> 'w" where
  "get_json net c path query out w =
     (case new_request c ''GET'' path query [] [] of
        Inl e \<Rightarrow> (Inl e, w)
      | Inr rq \<Rightarrow> do_json net rq out w)"

text \<open>No body, \<open>None\<close>, sends none, still with the JSON content type.\<close>

definition send_json :: "'w net \<Rightarrow> http_config \<Rightarrow> string \<Rightarrow> string \<Rightarrow> gval option \<Rightarrow> bool \<Rightarrow> 'w \<Rightarrow> gval res \<times> 'w" where
  "send_json net c method path body out w =
     (case (case body of None \<Rightarrow> Some [] | Some b \<Rightarrow> json_encode b) of
        None \<Rightarrow> (Inl (ErrWrap ''http: marshal request: '' (ErrExt ''json'') []), w)
      | Some buf \<Rightarrow>
          (case new_request c method path [] buf ''application/json'' of
             Inl e \<Rightarrow> (Inl e, w)
           | Inr rq \<Rightarrow> do_json net rq out w))"

definition post_form :: "'w net \<Rightarrow> http_config \<Rightarrow> string \<Rightarrow> url_values \<Rightarrow> bool \<Rightarrow> 'w \<Rightarrow> gval res \<times> 'w" where
  "post_form net c path form out w =
     (case new_request c ''POST'' path [] (q_encode form) ''application/x-www-form-urlencoded'' of
        Inl e \<Rightarrow> (Inl e, w)
      | Inr rq \<Rightarrow> do_json net rq out w)"

definition do_raw :: "'w net \<Rightarrow> http_config \<Rightarrow> string \<Rightarrow> string \<Rightarrow> string \<Rightarrow> string \<Rightarrow> 'w \<Rightarrow> api_response res \<times> 'w" where
  "do_raw net c method path body ctype w =
     (case new_request c method path [] body ctype of
        Inl e \<Rightarrow> (Inl e, w)
      | Inr rq \<Rightarrow> net rq w)"

record file_field =
  ff_field :: string
  ff_path :: string
  ff_mime :: string
  ff_filename :: string

definition crlf :: string where "crlf = [CHR 0x0D, CHR 0x0A]"

definition escape_quotes :: "string \<Rightarrow> string" where
  "escape_quotes s =
     concat (map (\<lambda>c. if c = CHR 0x5C \<or> c = CHR 0x22 then [CHR 0x5C, c] else [c]) s)"

definition quoted :: "string \<Rightarrow> string" where
  "quoted s = CHR 0x22 # escape_quotes s @ [CHR 0x22]"

text \<open>
  The body the writing goroutine pipes into the request: form fields, then files read from disk.
  A part is preceded by the boundary line; an error closes the pipe and fails the request.
\<close>

fun multipart_files :: "osys \<Rightarrow> string \<Rightarrow> file_field list \<Rightarrow> string \<Rightarrow> string res" where
  "multipart_files s b [] acc = Inr (acc @ (if acc = [] then [] else crlf) @ ''--'' @ b @ ''--'' @ crlf)"
| "multipart_files s b (f # fs) acc =
     (case os_read_file s (ff_path f) of
        Inl e \<Rightarrow> Inl (ErrWrap (''open '' @ ff_path f @ '': '') e [])
      | Inr d \<Rightarrow>
          (let fname = (if ff_filename f = [] then path_base (ff_path f) else ff_filename f)
           in multipart_files s b fs
                (acc @ (if acc = [] then [] else crlf) @ ''--'' @ b @ crlf
                 @ ''Content-Disposition: form-data; name='' @ quoted (ff_field f)
                 @ ''; filename='' @ quoted fname @ crlf
                 @ ''Content-Type: application/octet-stream'' @ crlf @ crlf @ d)))"

definition multipart_fields :: "string \<Rightarrow> (string \<times> string) list \<Rightarrow> string" where
  "multipart_fields b kvs =
     join_with crlf (map (\<lambda>(k, v). ''--'' @ b @ crlf @ ''Content-Disposition: form-data; name='' @ quoted k
       @ crlf @ crlf @ v) kvs)"

definition post_multipart :: "'w net \<Rightarrow> http_config \<Rightarrow> osys \<Rightarrow> string \<Rightarrow> string \<Rightarrow> (string \<times> string) list \<Rightarrow>
    file_field list \<Rightarrow> bool \<Rightarrow> 'w \<Rightarrow> gval res \<times> 'w" where
  "post_multipart net c s boundary path form fls out w =
     (case multipart_files s boundary fls (multipart_fields boundary form) of
        Inl e \<Rightarrow>
          (case new_request c ''POST'' path [] [] [] of
             Inl e' \<Rightarrow> (Inl e', w)
           | Inr rq \<Rightarrow> (Inl (ErrWrap (''Post '' @ json_quote (aq_url rq) @ '': '') e []), w))
      | Inr body \<Rightarrow>
          (case new_request c ''POST'' path [] body (''multipart/form-data; boundary='' @ boundary) of
             Inl e \<Rightarrow> (Inl e, w)
           | Inr rq \<Rightarrow> do_json net rq out w))"

section \<open>Backoff and retry\<close>

record backoff =
  bo_cur :: int
  bo_initial :: int
  bo_max :: int

definition new_backoff :: "int \<Rightarrow> int \<Rightarrow> backoff" where
  "new_backoff initial mx = \<lparr>bo_cur = initial, bo_initial = initial, bo_max = mx\<rparr>"

definition bo_next :: "backoff \<Rightarrow> int \<times> backoff" where
  "bo_next b =
     (let d = bo_cur b; c = wrap64 (2 * d)
      in (d, b\<lparr>bo_cur := (if bo_max b < c then bo_max b else c)\<rparr>))"

definition bo_reset :: "backoff \<Rightarrow> backoff" where
  "bo_reset b = b\<lparr>bo_cur := bo_initial b\<rparr>"

definition retry_matches :: "int list \<Rightarrow> gerr \<Rightarrow> bool" where
  "retry_matches codes e = (case err_root e of ErrAPI st _ _ \<Rightarrow> st \<in> set codes | _ \<Rightarrow> False)"

definition max_attempts :: nat where "max_attempts = 5"

text \<open>
  \<open>fn\<close> is the call and \<open>wait d\<close> the select on the timer of \<open>d\<close> nanoseconds and the context: it
  returns \<open>True\<close> when the context is done first. The attempts left and the last error are the
  loop's variables.
\<close>

fun retry_loop :: "('w \<Rightarrow> unit res \<times> 'w) \<Rightarrow> (int \<Rightarrow> 'w \<Rightarrow> bool \<times> 'w) \<Rightarrow> int list \<Rightarrow> nat \<Rightarrow> backoff \<Rightarrow>
    gerr \<Rightarrow> 'w \<Rightarrow> unit res \<times> 'w" where
  "retry_loop fn wait codes 0 bo lst w =
     (Inl (ErrWrap (''retried '' @ nat_str max_attempts @ '' times: '') lst []), w)"
| "retry_loop fn wait codes (Suc n) bo lst w =
     (case fn w of
        (Inr _, w1) \<Rightarrow> (Inr (), w1)
      | (Inl e, w1) \<Rightarrow>
          (if \<not> retry_matches codes e then (Inl e, w1)
           else
             (let (d, bo') = bo_next bo
              in case wait d w1 of
                   (True, w2) \<Rightarrow> (Inl ErrCanceled, w2)
                 | (False, w2) \<Rightarrow> retry_loop fn wait codes n bo' e w2)))"

definition millisecond :: int where "millisecond = 1000000"

definition retry_on :: "('w \<Rightarrow> unit res \<times> 'w) \<Rightarrow> (int \<Rightarrow> 'w \<Rightarrow> bool \<times> 'w) \<Rightarrow> int list \<Rightarrow> 'w \<Rightarrow> unit res \<times> 'w" where
  "retry_on fn wait codes w =
     retry_loop fn wait codes max_attempts (new_backoff (600 * millisecond) (30 * second)) (ErrMsg []) w"

section \<open>Lemmas\<close>

text \<open>The delays of a backoff.\<close>

fun bo_delays :: "nat \<Rightarrow> backoff \<Rightarrow> int list" where
  "bo_delays 0 b = []"
| "bo_delays (Suc n) b = (let (d, b') = bo_next b in d # bo_delays n b')"

lemma bo_delays_length [simp]: "length (bo_delays n b) = n"
  by (induction n arbitrary: b) (auto simp: Let_def split: prod.splits)

lemma bo_delays_at:
  assumes "0 < bo_cur b" "bo_cur b \<le> bo_max b" "bo_max b \<le> 4611686018427387903" "i < n"
  shows "bo_delays n b ! i = min (bo_cur b * 2 ^ i) (bo_max b)"
  using assms
proof (induction n arbitrary: b i)
  case (Suc n)
  let ?b' = "snd (bo_next b)"
  have range: "int64_range (2 * bo_cur b)"
    using Suc.prems(1-3) by (simp add: int64_range_def max_int64_def min_int64_def)
  then have cur: "bo_cur ?b' = min (2 * bo_cur b) (bo_max b)" "bo_max ?b' = bo_max b"
    by (simp_all add: bo_next_def Let_def wrap64_id min_def)
  show ?case
  proof (cases i)
    case 0
    then show ?thesis using Suc.prems by (simp add: bo_next_def Let_def)
  next
    case (Suc j)
    have "bo_delays n ?b' ! j = min (bo_cur ?b' * 2 ^ j) (bo_max ?b')"
      by (rule Suc.IH) (use Suc.prems Suc cur in auto)
    also have "\<dots> = min (bo_cur b * 2 ^ i) (bo_max b)"
    proof (cases "2 * bo_cur b \<le> bo_max b")
      case True
      then show ?thesis by (simp add: cur Suc mult.assoc mult.left_commute)
    next
      case False
      then have "bo_max b \<le> bo_cur b * 2 ^ i"
      proof -
        have "bo_max b \<le> 2 * bo_cur b" using False by simp
        also have "\<dots> \<le> 2 * bo_cur b * 2 ^ j" using Suc.prems(1) by simp
        also have "\<dots> = bo_cur b * 2 ^ i" by (simp add: Suc)
        finally show ?thesis .
      qed
      moreover have "bo_max b \<le> bo_max b * 2 ^ j" using Suc.prems(1,2) by simp
      ultimately show ?thesis using False by (simp add: cur min_def)
    qed
    finally show ?thesis by (simp add: Suc Let_def split: prod.splits) (metis snd_conv)
  qed
qed simp

text \<open>Running a retry against a scripted call: the outcomes still to come and the waits so far.\<close>

type_synonym script = "unit res list \<times> int list"

fun script_call :: "script \<Rightarrow> unit res \<times> script" where
  "script_call ([], ds) = (Inl (ErrExt ''script''), ([], ds))"
| "script_call (r # rs, ds) = (r, (rs, ds))"

fun script_wait :: "int \<Rightarrow> script \<Rightarrow> bool \<times> script" where
  "script_wait d (rs, ds) = (False, (rs, ds @ [d]))"

definition retriable :: "int list \<Rightarrow> unit res \<Rightarrow> bool" where
  "retriable codes r = (case r of Inl e \<Rightarrow> retry_matches codes e | Inr _ \<Rightarrow> False)"

lemma retry_loop_script:
  "n \<le> length rs \<Longrightarrow>
   retry_loop script_call script_wait codes n bo lst (rs, ds) =
     (let pre = takeWhile (retriable codes) (take n rs); k = length pre
      in if k = n then
           (Inl (ErrWrap (''retried '' @ nat_str max_attempts @ '' times: '')
              (if n = 0 then lst else projl (rs ! (n - 1))) []), (drop n rs, ds @ bo_delays n bo))
         else (rs ! k, (drop (Suc k) rs, ds @ bo_delays k bo)))"
proof (induction n arbitrary: rs bo lst ds)
  case (Suc n)
  then obtain r rs' where rs: "rs = r # rs'" "n \<le> length rs'" by (cases rs) auto
  show ?case
  proof (cases "retriable codes r")
    case True
    then obtain e where e: "r = Inl e" "retry_matches codes e" by (auto simp: retriable_def split: sum.splits)
    obtain d bo' where d: "bo_next bo = (d, bo')" by fastforce
    let ?p = "takeWhile (retriable codes) (take n rs')"
    have step: "retry_loop script_call script_wait codes (Suc n) bo lst (rs, ds) =
        retry_loop script_call script_wait codes n bo' e (rs', ds @ [d])"
      using e d by (simp add: rs(1))
    have tw: "takeWhile (retriable codes) (take (Suc n) rs) = r # ?p" using True by (simp add: rs(1))
    have bd: "bo_delays (Suc k) bo = d # bo_delays k bo'" for k using d by simp
    have ix: "projl (rs ! (Suc n - 1)) = (if n = 0 then e else projl (rs' ! (n - 1)))"
      using e by (cases n) (simp_all add: rs(1))
    show ?thesis
      unfolding step Suc.IH [OF rs(2), of bo' e "ds @ [d]"] tw Let_def
      by (cases "length ?p = n") (simp_all add: bd ix, simp_all add: rs(1), simp_all add: d e)
  next
    case False
    then have tw: "takeWhile (retriable codes) (take (Suc n) rs) = []" by (simp add: rs(1))
    have "retry_loop script_call script_wait codes (Suc n) bo lst (rs, ds) = (r, (rs', ds))"
      using False by (cases r) (simp_all add: rs(1) retriable_def)
    then show ?thesis unfolding tw Let_def by (simp add: rs(1))
  qed
qed simp

text \<open>URLs.\<close>

lemma str_cut_fst_append: "c \<notin> set a \<Longrightarrow> fst (str_cut c (a @ b)) = a @ fst (str_cut c b)"
  by (auto simp: str_cut_def intro: takeWhile_append2)

lemma str_cut_fst_prefix: "prefix (fst (str_cut c s)) s"
  by (auto simp: str_cut_def takeWhile_is_prefix)

lemma with_query_path:
  "\<exists>t. with_query q u = fst (str_cut (CHR ''?'') (fst (str_cut (CHR ''#'') u))) @ CHR ''?'' # t"
  by (auto simp: with_query_def Let_def split: prod.splits)

lemma trim_right_subset: "set (trim_right s cs) \<subseteq> set s"
  using trim_right_prefix [of s cs] by (auto dest: set_mono_prefix)

section \<open>Properties\<close>

text \<open>
  Resolving a relative path keeps the whole base URL, its path included: whatever slashes end
  the base or start the path, and whatever query is added, the result is the base without its
  trailing slashes, one slash, and a rest that does not start with a slash. (Base URLs carry no
  query or fragment.)
\<close>

theorem resolve_keeps_base:
  assumes rel: "\<not> prefix ''http://'' path" "\<not> prefix ''https://'' path"
    and base: "CHR ''?'' \<notin> set (hc_base c)" "CHR ''#'' \<notin> set (hc_base c)"
    and r: "resolve_url c path query = Inr full"
  shows "\<exists>rest. full = trim_right (hc_base c) ''/'' @ ''/'' @ rest \<and> (rest = [] \<or> hd rest \<noteq> CHR ''/'')"
proof -
  let ?b = "trim_right (hc_base c) ''/'' @ ''/''" and ?p = "trim_left path ''/''"
  have nb: "CHR ''?'' \<notin> set ?b" "CHR ''#'' \<notin> set ?b"
    using base trim_right_subset [of "hc_base c" "''/''"] by auto
  have hp: "x = [] \<or> hd x \<noteq> CHR ''/''" if "prefix x ?p" for x
    using trim_left_hd [of path "''/''"] that by (cases x) (auto simp: prefix_def)
  show ?thesis
  proof (cases "query = []")
    case True
    then show ?thesis using r rel hp [of ?p] by (auto simp: resolve_url_def Let_def)
  next
    case False
    then have "full = with_query query (?b @ ?p)"
      using r rel by (auto simp: resolve_url_def Let_def split: if_splits)
    moreover obtain t where "with_query query (?b @ ?p) =
        fst (str_cut (CHR ''?'') (fst (str_cut (CHR ''#'') (?b @ ?p)))) @ CHR ''?'' # t"
      using with_query_path by blast
    moreover have "fst (str_cut (CHR ''#'') (?b @ ?p)) = ?b @ fst (str_cut (CHR ''#'') ?p)"
      by (rule str_cut_fst_append [OF nb(2)])
    moreover have "fst (str_cut (CHR ''?'') (?b @ x)) = ?b @ fst (str_cut (CHR ''?'') x)" for x
      by (rule str_cut_fst_append [OF nb(1)])
    ultimately have "full = (?b @ fst (str_cut (CHR ''?'') (fst (str_cut (CHR ''#'') ?p)))) @ CHR ''?'' # t"
      by (simp only:)
    moreover have "prefix (fst (str_cut (CHR ''?'') (fst (str_cut (CHR ''#'') ?p)))) ?p"
      by (meson prefix_order.trans str_cut_fst_prefix)
    note hp [OF this]
    ultimately show ?thesis
      by (intro exI [of _ "fst (str_cut (CHR ''?'') (fst (str_cut (CHR ''#'') ?p))) @ CHR ''?'' # t"])
         (auto simp: hd_append)
  qed
qed

definition ex_client :: http_config where
  "ex_client = \<lparr>hc_base = ''https://api.example.org/botT/'', hc_headers = [], hc_agent = [], hc_timeout = 0\<rparr>"

theorem resolve_keeps_base_witness:
  "\<exists>rest. ''https://api.example.org/botT/getMe?a=1'' =
     trim_right (hc_base ex_client) ''/'' @ ''/'' @ rest \<and> (rest = [] \<or> hd rest \<noteq> CHR ''/'')"
proof (rule resolve_keeps_base [of "''//getMe''" ex_client "[(''a'', [''1''])]"])
  show "resolve_url ex_client ''//getMe'' [(''a'', [''1''])] = Inr ''https://api.example.org/botT/getMe?a=1''"
    by code_simp
qed (simp_all add: ex_client_def)

text \<open>
  C16. \<open>RetryOn\<close> calls at most five times and stops at the first outcome that is not an API error
  with one of the given codes: against any script of outcomes it returns that outcome and the
  rest of the script is untouched; when the first five are all retriable it returns the fifth,
  wrapped. The waits between the calls double from 600 ms; the fifth failure is waited for too.
\<close>

theorem retry_on_spec:
  assumes "5 \<le> length rs"
  shows "retry_on script_call script_wait codes (rs, []) =
     (let k = length (takeWhile (retriable codes) (take 5 rs));
          waits = map ((*) millisecond) [600, 1200, 2400, 4800, 9600]
      in if k = 5 then
           (Inl (ErrWrap ''retried 5 times: '' (projl (rs ! 4)) []), (drop 5 rs, waits))
         else (rs ! k, (drop (Suc k) rs, take k waits)))"
proof -
  let ?bo = "new_backoff (600 * millisecond) (30 * second)"
  have bo: "bo_next \<lparr>bo_cur = x, bo_initial = 600000000, bo_max = 30000000000\<rparr> =
      (x, \<lparr>bo_cur = 2 * x, bo_initial = 600000000, bo_max = 30000000000\<rparr>)" if "0 < x" "x \<le> 9600000000" for x
    using that wrap64_id [of "2 * x"]
    by (simp add: bo_next_def Let_def int64_range_def min_int64_def max_int64_def)
  have five: "(5::nat) = Suc (Suc (Suc (Suc (Suc 0))))" by simp
  have d: "bo_delays 5 ?bo = map ((*) millisecond) [600, 1200, 2400, 4800, 9600]"
    unfolding five by (simp add: new_backoff_def millisecond_def second_def bo)
  have t: "bo_delays k b = take k (bo_delays n b)" if "k \<le> n" for k n b
    using that
  proof (induction n arbitrary: k b)
    case (Suc n)
    obtain d b' where "bo_next b = (d, b')" by fastforce
    then show ?case
    proof (cases k)
      case (Suc j)
      with Suc.prems have "bo_delays j b' = take j (bo_delays n b')" by (intro Suc.IH) simp
      then show ?thesis using Suc \<open>bo_next b = (d, b')\<close> by simp
    qed simp
  qed simp
  have "length (takeWhile (retriable codes) (take 5 rs)) \<le> 5"
    by (rule order_trans [OF length_takeWhile_le]) simp
  note dk = t [OF this, of ?bo]
  have m: "max_attempts = 5" "nat_str 5 = ''5''"
    by (simp add: max_attempts_def) code_simp
  have four: "(5::nat) - 1 = 4" by simp
  from retry_loop_script [OF assms, of codes ?bo "ErrMsg []" "[]"] show ?thesis
    unfolding retry_on_def m Let_def dk d four by simp
qed

theorem retry_on_spec_witness:
  "retry_on script_call script_wait [429] ([Inl (ErrAPI 429 [] []), Inr (), Inr (), Inr (), Inr ()], []) =
     (Inr (), ([Inr (), Inr (), Inr ()], [600 * millisecond]))"
  using retry_on_spec [of "[Inl (ErrAPI 429 [] []), Inr (), Inr (), Inr (), Inr ()]" "[429]"]
  by (simp add: retriable_def retry_matches_def Let_def)

text \<open>
  A backoff of positive initial delay not above its maximum (and a maximum below 146 years, so
  that doubling does not wrap) yields, on the \<open>i\<close>-th call, the initial delay doubled \<open>i\<close> times and
  capped at the maximum.
\<close>

theorem backoff_delay:
  assumes "0 < initial" "initial \<le> mx" "mx \<le> 4611686018427387903" "i < n"
  shows "bo_delays n (new_backoff initial mx) ! i = min (initial * 2 ^ i) mx"
  using bo_delays_at [of "new_backoff initial mx" i n] assms by (simp add: new_backoff_def)

theorem backoff_delay_witness:
  "bo_delays 10 (new_backoff (second) (30 * second)) ! 9 = min (second * 2 ^ 9) (30 * second)"
  by (rule backoff_delay) (simp_all add: second_def)

end
