(* ===== verification/AtomicWrite.thy ===== *)
theory AtomicWrite
  imports FileSystem
begin

text \<open>
  What the two file stores share: the effect of \<open>os.WriteFile\<close> to a temporary name followed by
  \<open>os.Rename\<close> over the final one, on a tree without symbolic links, and the preservation of the
  well-formedness of the tree by every operation the stores perform.
\<close>

named_theorems fs_ok

lemma plain_fs_update:
  assumes "plain_fs f" "l \<noteq> []" "\<forall>c\<in>set l. ok_comp c" "is_dir f (butlast l)" "\<not> is_dir f l"
  shows "plain_fs (AList.update l (Reg m d) f)"
  using assms by (auto simp: plain_fs_def is_link_def intro!: wf_fs_update no_links_update)

lemma plain_fs_delete:
  assumes "plain_fs f" "l \<noteq> []" "\<not> is_dir f l"
  shows "plain_fs (AList.delete l f)"
  using assms by (auto simp: plain_fs_def intro!: wf_fs_delete no_links_delete)

lemma is_dir_butlast_ne: "l \<noteq> [] \<Longrightarrow> butlast l \<noteq> (l :: 'a list)"
  by (metis append_butlast_last_id append_self_conv not_Cons_self2)

text \<open>One file is written: nothing else changes.\<close>

lemma write_effect:
  assumes "plain_fs (files s)" "\<forall>c\<in>set l. ok_comp c" "l \<noteq> []" "is_dir (files s) (butlast l)"
    "\<not> is_dir (files s) l"
  obtains f where "os_write_file s (abs_path l) d mode = Inr (s\<lparr>files := f\<rparr>)" "plain_fs f"
    "\<And>q. node_at f q = (if q = l then Some (Reg (new_mode (files s) l mode) d) else node_at (files s) q)"
    "\<And>q. is_dir f q = is_dir (files s) q"
proof
  let ?f = "AList.update l (Reg (new_mode (files s) l mode) d) (files s)"
  show "os_write_file s (abs_path l) d mode = Inr (s\<lparr>files := ?f\<rparr>)"
    using assms by (intro write_file_ok) auto
  show "plain_fs ?f" using assms by (intro plain_fs_update)
  show "node_at ?f q = (if q = l then Some (Reg (new_mode (files s) l mode) d) else node_at (files s) q)" for q
    using assms by simp
  show "is_dir ?f q = is_dir (files s) q" for q
    using assms by (auto simp: is_dir_update)
qed

text \<open>One file is renamed over a missing entry or another file.\<close>

lemma rename_effect:
  assumes "plain_fs (files s)" "\<forall>c\<in>set a. ok_comp c" "\<forall>c\<in>set b. ok_comp c" "a \<noteq> []" "b \<noteq> []" "a \<noteq> b"
    "is_dir (files s) (butlast a)" "is_dir (files s) (butlast b)"
    "node_at (files s) a = Some (Reg m d)" "\<not> is_dir (files s) b"
  obtains f where "os_rename s (abs_path a) (abs_path b) = Inr (s\<lparr>files := f\<rparr>)" "plain_fs f"
    "\<And>q. node_at f q = (if q = b then Some (Reg m d) else if q = a then None else node_at (files s) q)"
    "\<And>q. is_dir f q = is_dir (files s) q"
proof
  let ?f = "AList.update b (Reg m d) (AList.delete a (files s))"
  have na: "\<not> is_dir (files s) a" using assms(9) by (simp add: is_dir_def)
  then have ba: "butlast b \<noteq> a" using assms(8) by auto
  show "os_rename s (abs_path a) (abs_path b) = Inr (s\<lparr>files := ?f\<rparr>)"
    using assms by (intro rename_ok) auto
  have "plain_fs (AList.delete a (files s))" using assms na by (intro plain_fs_delete)
  then show "plain_fs ?f"
    by (rule plain_fs_update) (use assms ba in \<open>auto simp: is_dir_delete\<close>)
  show "node_at ?f q = (if q = b then Some (Reg m d) else if q = a then None else node_at (files s) q)" for q
    using assms by simp
  show "is_dir ?f q = is_dir (files s) q" for q
    using assms na by (auto simp: is_dir_update is_dir_delete)
qed

lemma remove_effect:
  assumes "plain_fs (files s)" "\<forall>c\<in>set l. ok_comp c" "l \<noteq> []" "is_dir (files s) (butlast l)"
    "node_at (files s) l = Some (Reg m d)"
  obtains f where "os_remove s (abs_path l) = Inr (s\<lparr>files := f\<rparr>)" "plain_fs f"
    "\<And>q. node_at f q = (if q = l then None else node_at (files s) q)"
    "\<And>q. is_dir f q = is_dir (files s) q"
proof
  let ?f = "AList.delete l (files s)"
  have na: "\<not> is_dir (files s) l" using assms(5) by (simp add: is_dir_def)
  show "os_remove s (abs_path l) = Inr (s\<lparr>files := ?f\<rparr>)"
    using assms by (intro remove_file_ok) auto
  show "plain_fs ?f" using assms na by (intro plain_fs_delete)
  show "node_at ?f q = (if q = l then None else node_at (files s) q)" for q using assms by simp
  show "is_dir ?f q = is_dir (files s) q" for q using assms na by (auto simp: is_dir_delete)
qed

text \<open>Write to the temporary name, rename to the final one.\<close>

lemma replace_effect:
  assumes "plain_fs (files s)" "\<forall>c\<in>set a. ok_comp c" "\<forall>c\<in>set b. ok_comp c" "a \<noteq> []" "b \<noteq> []" "a \<noteq> b"
    "is_dir (files s) (butlast a)" "is_dir (files s) (butlast b)" "\<not> is_dir (files s) a" "\<not> is_dir (files s) b"
  obtains f g where "os_write_file s (abs_path a) d mode = Inr (s\<lparr>files := f\<rparr>)"
    "os_rename (s\<lparr>files := f\<rparr>) (abs_path a) (abs_path b) = Inr (s\<lparr>files := g\<rparr>)"
    "plain_fs g"
    "\<And>q. node_at g q = (if q = b then Some (Reg (new_mode (files s) a mode) d)
       else if q = a then None else node_at (files s) q)"
    "\<And>q. is_dir g q = is_dir (files s) q"
proof -
  obtain f where f: "os_write_file s (abs_path a) d mode = Inr (s\<lparr>files := f\<rparr>)" "plain_fs f"
    "\<And>q. node_at f q = (if q = a then Some (Reg (new_mode (files s) a mode) d) else node_at (files s) q)"
    "\<And>q. is_dir f q = is_dir (files s) q"
    using write_effect [OF assms(1,2,4,7,9)] by metis
  obtain g where g: "os_rename (s\<lparr>files := f\<rparr>) (abs_path a) (abs_path b) = Inr (s\<lparr>files := f, files := g\<rparr>)"
    "plain_fs g"
    "\<And>q. node_at g q = (if q = b then Some (Reg (new_mode (files s) a mode) d) else if q = a then None else node_at f q)"
    "\<And>q. is_dir g q = is_dir f q"
    by (rule rename_effect [of "s\<lparr>files := f\<rparr>" a b "new_mode (files s) a mode" d])
       (use assms f(2-4) in auto)
  have "node_at g q = (if q = b then Some (Reg (new_mode (files s) a mode) d)
       else if q = a then None else node_at (files s) q)" for q
    unfolding g(3) f(3) by simp
  moreover have "is_dir g q = is_dir (files s) q" for q unfolding g(4) f(4) ..
  moreover have "os_rename (s\<lparr>files := f\<rparr>) (abs_path a) (abs_path b) = Inr (s\<lparr>files := g\<rparr>)"
    using g(1) by simp
  ultimately show thesis using f(1) g(2) that by blast
qed

lemma mkdir_effect:
  assumes "plain_fs (files s)" "\<forall>c\<in>set l. ok_comp c" "dir_free (files s) l"
  obtains f where "os_mkdir_all s (abs_path l) mode = Inr (s\<lparr>files := f\<rparr>)" "plain_fs f" "is_dir f l"
    "\<And>q. node_at f q = (if node_at (files s) q = None \<and> prefix q l then Some (Dir mode)
       else node_at (files s) q)"
    "\<And>q. is_dir f q = (prefix q l \<or> is_dir (files s) q)"
proof -
  obtain f where f: "os_mkdir_all s (abs_path l) mode = Inr (s\<lparr>files := f\<rparr>)" "plain_fs f" "is_dir f l"
    "\<And>q. node_at f q = (if node_at (files s) q = None \<and> prefix q l then Some (Dir mode)
       else node_at (files s) q)"
    using mkdir_all_ok [OF assms] by metis
  have "is_dir f q = (prefix q l \<or> is_dir (files s) q)" for q
  proof -
    have "node_at (files s) q = None \<or> is_dir (files s) q" if "prefix q l"
      using assms(3) that by (auto simp: dir_free_def list_all_iff)
    then show ?thesis using f(4) [of q] by (auto simp: is_dir_def)
  qed
  with f show thesis using that by blast
qed

lemma dir_freeI: "is_dir f l \<Longrightarrow> wf_fs f \<Longrightarrow> dir_free f l"
proof -
  assume d: "is_dir f l" and w: "wf_fs f"
  obtain nd where nd: "node_at f l = Some nd" using d by (auto elim: is_dirE)
  have "is_dir f q" if q: "prefix q l" for q
  proof (cases "q = l")
    case False
    with q obtain r where "l = q @ r" "r \<noteq> []" by (auto simp: prefix_def)
    with wf_fs_dir_above [OF w] nd show ?thesis by blast
  qed (use d in simp)
  then show ?thesis by (auto simp: dir_free_def list_all_iff)
qed

lemma dir_free_cong: "(\<And>q. node_at g q = None \<or> is_dir g q \<longleftrightarrow> node_at f q = None \<or> is_dir f q) \<Longrightarrow> dir_free g l = dir_free f l"
  by (simp add: dir_free_def)

text \<open>Missing entries stay missing in a tree that lacks their directory.\<close>

lemma node_below_absent: "wf_fs f \<Longrightarrow> node_at f l = None \<Longrightarrow> node_at f (l @ [c]) = None"
  using wf_fs_dir_above [of f l "[c]"] by (cases "node_at f (l @ [c])") (auto elim: is_dirE)

text \<open>Listing a directory gives every entry once, in the order of the names.\<close>

lemma children_map_of:
  "wf_fs f \<Longrightarrow> (k, nd) \<in> set (children f l) \<longleftrightarrow> k \<noteq> [] \<and> butlast k = l \<and> node_at f k = Some nd"
  by (auto simp: children_def wf_fs_def node_at_def)

lemma read_dir_entries:
  assumes pf: "plain_fs (files s)" and ok: "\<forall>c\<in>set l. ok_comp c" and d: "is_dir (files s) l"
  obtains es where "os_read_dir s (abs_path l) = Inr es" "sorted (map fst es)" "distinct (map fst es)"
    "\<And>c nd. (c, nd) \<in> set es \<longleftrightarrow> node_at (files s) (l @ [c]) = Some nd"
proof
  let ?g = "\<lambda>(k, nd). (last k, nd)"
  let ?es = "sort_key fst (map ?g (children (files s) l))"
  have wf: "wf_fs (files s)" using pf by (simp add: plain_fs_def)
  obtain m where m: "node_at (files s) l = Some (Dir m)" using d by (rule is_dirE)
  show "os_read_dir s (abs_path l) = Inr ?es"
    using resolve_there [OF pf ok m] m by (simp add: os_read_dir_def os_stat_def)
  show "sorted (map fst ?es)" by simp
  have dc: "distinct (map fst (children (files s) l))"
    using wf by (auto simp: wf_fs_def children_def distinct_map inj_on_def)
  have keys: "x = l @ [last x]" if "x \<in> set (map fst (children (files s) l))" for x
    using that by (auto simp: children_def)
  have "inj_on last (set (map fst (children (files s) l)))"
    by (rule inj_onI) (metis keys)
  with dc have "distinct (map last (map fst (children (files s) l)))"
    by (simp only: distinct_map list.set_map simp_thms)
  moreover have "map fst (map ?g xs) = map last (map fst xs)" for xs :: "(loc \<times> node) list"
    by (induction xs) auto
  ultimately have "distinct (map fst (map ?g (children (files s) l)))" by (simp only:)
  then have di: "distinct (map ?g (children (files s) l))" "inj_on fst (set (map ?g (children (files s) l)))"
    by (simp_all only: distinct_map)
  show "distinct (map fst ?es)"
    using di by (simp add: distinct_map del: set_map map_map)
  show "(c, nd) \<in> set ?es \<longleftrightarrow> node_at (files s) (l @ [c]) = Some nd" for c nd
  proof
    assume "(c, nd) \<in> set ?es"
    then obtain k where "(k, nd) \<in> set (children (files s) l)" "c = last k" by auto
    then show "node_at (files s) (l @ [c]) = Some nd"
      using children_map_of [OF wf] by (metis append_butlast_last_id)
  next
    assume "node_at (files s) (l @ [c]) = Some nd"
    then have "(l @ [c], nd) \<in> set (children (files s) l)" by (simp add: children_map_of [OF wf])
    then show "(c, nd) \<in> set ?es" by force
  qed
qed

lemma read_dir_absent:
  assumes "plain_fs (files s)" "\<forall>c\<in>set l. ok_comp c" "node_at (files s) l = None" "dir_free (files s) (butlast l)"
  shows "os_read_dir s (abs_path l) = Inl (ErrOS ENOENT (abs_path l))"
  using resolve_absent [OF assms] assms(3) by (auto simp: os_read_dir_def os_stat_def)

end
