(* ===== verification/StateStore.thy ===== *)
theory StateStore
  imports AtomicWrite Codec
begin

text \<open>
  The per-instance key-value store of connector state: the interface \<open>state.Store\<close> as the locale
  \<open>kv_store\<close> (\<open>state/store.go\<close>), and its file backend (\<open>state/fsstore/fsstore.go\<close>), one value
  file and one sidecar per key, named by the SHA-256 digest of the key.

  A store is its root path. \<open>For\<close> makes a store with a mutex of its own on every call, so the
  mutex orders the calls of one session only: two sessions of one instance interleave their
  system calls, which the scripts of section "System calls" spell out.
\<close>

section \<open>The manager\<close>

definition default_state_root :: "osys \<Rightarrow> string res" where
  "default_state_root s =
     (if getenv s ''PGF_STATE_DIR'' \<noteq> [] then Inr (getenv s ''PGF_STATE_DIR'')
      else if getenv s ''XDG_STATE_HOME'' \<noteq> [] then
        Inr (path_join [getenv s ''XDG_STATE_HOME'', ''pgf'', ''state''])
      else case home_dir s of
        None \<Rightarrow> Inl (ErrMsg ''$HOME is not defined'')
      | Some home \<Rightarrow> Inr (path_join [home, ''.local'', ''state'', ''pgf'', ''state'']))"

definition new_state_manager :: "string \<Rightarrow> osys \<Rightarrow> string res \<times> osys" where
  "new_state_manager root s =
     (case (if root = [] then default_state_root s else Inr root) of
        Inl e \<Rightarrow> (Inl e, s)
      | Inr r \<Rightarrow> (case os_mkdir_all s r 448 of Inl e \<Rightarrow> (Inl e, s) | Inr s' \<Rightarrow> (Inr r, s')))"

definition store_for :: "string \<Rightarrow> string \<Rightarrow> string \<Rightarrow> string" where
  "store_for root typ name = path_join [root, typ, name]"

section \<open>The store\<close>

definition key_hash :: "string \<Rightarrow> string" where
  "key_hash key = hex_encode (sha256 key)"

definition key_file :: "string \<Rightarrow> string \<Rightarrow> string \<times> string" where
  "key_file root key =
     (let h = key_hash key
      in (path_join [root, h @ ''.bin''], path_join [root, h @ ''.key'']))"

definition ensure_root :: "string \<Rightarrow> osys \<Rightarrow> osys res" where
  "ensure_root root s = os_mkdir_all s root 448"

definition store_get :: "string \<Rightarrow> osys \<Rightarrow> string \<Rightarrow> string option res" where
  "store_get root s key =
     (let (vpath, _) = key_file root key
      in case os_read_file s vpath of
           Inr d \<Rightarrow> Inr (Some d)
         | Inl e \<Rightarrow> (if is_not_exist e then Inr None else Inl e))"

definition store_put :: "string \<Rightarrow> osys \<Rightarrow> string \<Rightarrow> string \<Rightarrow> unit res \<times> osys" where
  "store_put root s key v =
     (case ensure_root root s of
        Inl e \<Rightarrow> (Inl e, s)
      | Inr s1 \<Rightarrow>
          (let (vpath, kpath) = key_file root key; tmp = vpath @ ''.tmp''
           in case os_write_file s1 tmp v 384 of
                Inl e \<Rightarrow> (Inl e, s1)
              | Inr s2 \<Rightarrow>
                  (case os_rename s2 tmp vpath of
                     Inl e \<Rightarrow> (Inl e, s2)
                   | Inr s3 \<Rightarrow>
                       (case os_write_file s3 kpath key 384 of
                          Inl e \<Rightarrow> (Inl e, s3)
                        | Inr s4 \<Rightarrow> (Inr (), s4)))))"

fun remove_all_of :: "string list \<Rightarrow> osys \<Rightarrow> unit res \<times> osys" where
  "remove_all_of [] s = (Inr (), s)"
| "remove_all_of (p # ps) s =
     (case os_remove s p of
        Inl e \<Rightarrow> (if is_not_exist e then remove_all_of ps s else (Inl e, s))
      | Inr s' \<Rightarrow> remove_all_of ps s')"

definition store_delete :: "string \<Rightarrow> osys \<Rightarrow> string \<Rightarrow> unit res \<times> osys" where
  "store_delete root s key =
     (let (vpath, kpath) = key_file root key in remove_all_of [vpath, kpath] s)"

fun keys_of :: "string \<Rightarrow> osys \<Rightarrow> string \<Rightarrow> (string \<times> node) list \<Rightarrow> string list" where
  "keys_of root s pfx [] = []"
| "keys_of root s pfx ((name, _) # es) =
     (if \<not> suffix ''.key'' name then keys_of root s pfx es
      else case os_read_file s (path_join [root, name]) of
             Inl _ \<Rightarrow> keys_of root s pfx es
           | Inr k \<Rightarrow> (if pfx = [] \<or> prefix pfx k then k # keys_of root s pfx es
                      else keys_of root s pfx es))"

definition store_keys :: "string \<Rightarrow> osys \<Rightarrow> string \<Rightarrow> string list res" where
  "store_keys root s pfx =
     (case os_read_dir s root of
        Inl e \<Rightarrow> (if is_not_exist e then Inr [] else Inl e)
      | Inr entries \<Rightarrow> Inr (keys_of root s pfx entries))"

section \<open>The interface\<close>

text \<open>
  What a client may rely on: on every state that satisfies the invariant a \<open>Get\<close> answers, and a
  \<open>Put\<close> or \<open>Delete\<close> of a key succeeds, keeps the invariant, determines what \<open>Get\<close> answers for
  that key and leaves every independent key alone.
\<close>

locale kv_store =
  fixes inv :: "'s \<Rightarrow> bool"
    and get :: "'s \<Rightarrow> 'k \<Rightarrow> 'v option res"
    and put :: "'s \<Rightarrow> 'k \<Rightarrow> 'v \<Rightarrow> unit res \<times> 's"
    and del :: "'s \<Rightarrow> 'k \<Rightarrow> unit res \<times> 's"
    and indep :: "'k \<Rightarrow> 'k \<Rightarrow> bool"
  assumes get_total: "inv s \<Longrightarrow> \<exists>x. get s k = Inr x"
    and put_ok: "inv s \<Longrightarrow> put s k v = (r, s') \<Longrightarrow> r = Inr () \<and> inv s' \<and> get s' k = Inr (Some v)"
    and put_frame: "inv s \<Longrightarrow> put s k v = (r, s') \<Longrightarrow> indep k j \<Longrightarrow> get s' j = get s j"
    and del_ok: "inv s \<Longrightarrow> del s k = (r, s') \<Longrightarrow> r = Inr () \<and> inv s' \<and> get s' k = Inr None"
    and del_frame: "inv s \<Longrightarrow> del s k = (r, s') \<Longrightarrow> indep k j \<Longrightarrow> get s' j = get s j"

text \<open>The abstract store is a map; a client's history is a list of operations on it.\<close>

datatype ('k, 'v) kv_op = KPut 'k 'v | KDel 'k

fun op_key :: "('k, 'v) kv_op \<Rightarrow> 'k" where
  "op_key (KPut k _) = k"
| "op_key (KDel k) = k"

fun kv_spec :: "('k, 'v) kv_op list \<Rightarrow> ('k \<rightharpoonup> 'v) \<Rightarrow> ('k \<rightharpoonup> 'v)" where
  "kv_spec [] m = m"
| "kv_spec (KPut k v # ops) m = kv_spec ops (m(k \<mapsto> v))"
| "kv_spec (KDel k # ops) m = kv_spec ops (m(k := None))"

fun kv_run :: "('s \<Rightarrow> 'k \<Rightarrow> 'v \<Rightarrow> unit res \<times> 's) \<Rightarrow> ('s \<Rightarrow> 'k \<Rightarrow> unit res \<times> 's) \<Rightarrow>
    ('k, 'v) kv_op list \<Rightarrow> 's \<Rightarrow> unit res list \<times> 's" where
  "kv_run put del [] s = ([], s)"
| "kv_run put del (KPut k v # ops) s =
     (case put s k v of (r, s1) \<Rightarrow> (case kv_run put del ops s1 of (rs, s2) \<Rightarrow> (r # rs, s2)))"
| "kv_run put del (KDel k # ops) s =
     (case del s k of (r, s1) \<Rightarrow> (case kv_run put del ops s1 of (rs, s2) \<Rightarrow> (r # rs, s2)))"

definition kv_abs :: "('s \<Rightarrow> 'k \<Rightarrow> 'v option res) \<Rightarrow> 's \<Rightarrow> 'k \<rightharpoonup> 'v" where
  "kv_abs get s k = (case get s k of Inr x \<Rightarrow> x | Inl _ \<Rightarrow> None)"

lemma kv_spec_cong: "m k = m' k \<Longrightarrow> kv_spec ops m k = kv_spec ops m' k"
proof (induction ops arbitrary: m m')
  case (Cons x ops)
  show ?case
  proof (cases x)
    case (KPut i v)
    have "(m(i \<mapsto> v)) k = (m'(i \<mapsto> v)) k" using Cons.prems by simp
    from Cons.IH [of "m(i \<mapsto> v)" "m'(i \<mapsto> v)", OF this] KPut show ?thesis by (simp del: fun_upd_apply)
  next
    case (KDel i)
    have "(m(i := None)) k = (m'(i := None)) k" using Cons.prems by simp
    from Cons.IH [of "m(i := None)" "m'(i := None)", OF this] KDel show ?thesis by (simp del: fun_upd_apply)
  qed
qed simp

context kv_store begin

lemma get_abs: "inv s \<Longrightarrow> get s k = Inr (kv_abs get s k)"
  using get_total [of s k] by (auto simp: kv_abs_def)

lemma run_refines:
  "inv s \<Longrightarrow> kv_run put del ops s = (rs, s') \<Longrightarrow>
   \<forall>k\<in>op_key ` set ops. k = j \<or> indep k j \<Longrightarrow>
   (\<forall>r\<in>set rs. r = Inr ()) \<and> inv s' \<and> get s' j = Inr (kv_spec ops (kv_abs get s) j)"
proof (induction ops arbitrary: s rs s')
  case Nil
  then show ?case by (simp add: get_abs)
next
  case (Cons x ops)
  obtain r s1 where step: "(case x of KPut k v \<Rightarrow> put s k v | KDel k \<Rightarrow> del s k) = (r, s1)"
    by fastforce
  obtain rs1 s2 where rest: "kv_run put del ops s1 = (rs1, s2)" by fastforce
  have e: "rs = r # rs1" "s' = s2" using Cons.prems(2) step rest by (cases x; simp)+
  have ok: "r = Inr ()" "inv s1"
    using put_ok [OF Cons.prems(1)] del_ok [OF Cons.prems(1)] step by (cases x; auto)+
  have at: "kv_abs get s1 j = kv_spec [x] (kv_abs get s) j"
    using step Cons.prems(3) put_ok [OF Cons.prems(1)] del_ok [OF Cons.prems(1)]
      put_frame [OF Cons.prems(1)] del_frame [OF Cons.prems(1)]
    by (cases x) (auto simp: kv_abs_def split: if_splits)
  have "kv_spec (x # ops) (kv_abs get s) j = kv_spec ops (kv_abs get s1) j"
    using at by (cases x) (auto intro: kv_spec_cong)
  with Cons.IH [OF ok(2) rest] Cons.prems(3) ok(1) e show ?case by auto
qed

lemma put_put: "inv s \<Longrightarrow> put s k v = (r, s1) \<Longrightarrow> put s1 k w = (r', s2) \<Longrightarrow> get s2 k = Inr (Some w)"
  using put_ok by blast

end

section \<open>Locations of a key\<close>

definition loc_of :: "loc \<Rightarrow> string \<Rightarrow> string \<Rightarrow> loc" where
  "loc_of rl key ext = rl @ [key_hash key @ ext]"

lemma key_hash_comp: "e \<noteq> [] \<Longrightarrow> CHR ''/'' \<notin> set e \<Longrightarrow> 2 < length e \<Longrightarrow> ok_comp (key_hash key @ e)"
proof -
  assume e: "e \<noteq> []" "CHR ''/'' \<notin> set e" "2 < length e"
  then have "2 < length (key_hash key @ e)" by simp
  then have "key_hash key @ e \<noteq> ''.''" "key_hash key @ e \<noteq> ''..''" by (auto dest: arg_cong [of _ _ length])
  with e hex_encode_chars show ?thesis by (auto simp: ok_comp_def key_hash_def)
qed

definition rooted :: "string \<Rightarrow> loc \<Rightarrow> bool" where
  "rooted root rl = (root = abs_path rl \<and> (\<forall>c\<in>set rl. ok_comp c))"

lemma key_file_locs:
  "rooted root rl \<Longrightarrow> key_file root key = (abs_path (loc_of rl key ''.bin''), abs_path (loc_of rl key ''.key''))"
  using key_hash_comp [of "''.bin''" key] key_hash_comp [of "''.key''" key]
  by (simp add: key_file_def Let_def rooted_def loc_of_def path_join_abs_single)

lemma abs_path_loc_of: "abs_path (loc_of rl key e) @ t = abs_path (loc_of rl key (e @ t))"
  by (simp add: loc_of_def abs_path_snoc)

lemma loc_of_ok: "rooted root rl \<Longrightarrow> e \<in> {''.bin'', ''.bin.tmp'', ''.key''} \<Longrightarrow> \<forall>c\<in>set (loc_of rl key e). ok_comp c"
  using key_hash_comp [of e key] by (auto simp: loc_of_def rooted_def)

lemma loc_of_simps [simp]:
  "loc_of rl key e \<noteq> []" "butlast (loc_of rl key e) = rl" "\<not> prefix (loc_of rl key e) rl"
  by (auto simp: loc_of_def dest: prefix_length_le)

lemma loc_of_last: "loc_of rl k e = loc_of rl j e' \<Longrightarrow> e \<noteq> [] \<Longrightarrow> e' \<noteq> [] \<Longrightarrow> last e = last e'"
  unfolding loc_of_def by (metis append1_eq_conv last_appendR)

lemma loc_of_neq [simp]:
  "loc_of rl k ''.bin'' \<noteq> loc_of rl j ''.bin.tmp''" "loc_of rl k ''.bin.tmp'' \<noteq> loc_of rl j ''.bin''"
  "loc_of rl k ''.bin'' \<noteq> loc_of rl j ''.key''" "loc_of rl k ''.key'' \<noteq> loc_of rl j ''.bin''"
  "loc_of rl k ''.key'' \<noteq> loc_of rl j ''.bin.tmp''" "loc_of rl k ''.bin.tmp'' \<noteq> loc_of rl j ''.key''"
  by (auto dest: loc_of_last)

lemma loc_of_inj: "loc_of rl k e = loc_of rl j e \<longleftrightarrow> sha256 k = sha256 j"
  by (auto simp: loc_of_def key_hash_def dest: hex_encode_inj)

section \<open>The invariant\<close>

definition store_inv :: "string \<Rightarrow> osys \<Rightarrow> bool" where
  "store_inv root s =
     (\<exists>rl. rooted root rl \<and> plain_fs (files s) \<and> dir_free (files s) rl \<and>
        (\<forall>key. \<forall>e\<in>{''.bin'', ''.bin.tmp'', ''.key''}. \<not> is_dir (files s) (loc_of rl key e)))"

lemma store_invE:
  assumes "store_inv root s"
  obtains rl where "rooted root rl" "plain_fs (files s)" "dir_free (files s) rl"
    "\<And>key e. e \<in> {''.bin'', ''.bin.tmp'', ''.key''} \<Longrightarrow> \<not> is_dir (files s) (loc_of rl key e)"
  using assms unfolding store_inv_def by metis

definition slot :: "osys \<Rightarrow> loc \<Rightarrow> string option" where
  "slot s l = (case node_at (files s) l of Some (Reg _ d) \<Rightarrow> Some d | _ \<Rightarrow> None)"

lemma store_get_slot:
  assumes "rooted root rl" "plain_fs (files s)" "dir_free (files s) rl"
    "\<not> is_dir (files s) (loc_of rl key ''.bin'')"
  shows "store_get root s key = Inr (slot s (loc_of rl key ''.bin''))"
proof -
  let ?l = "loc_of rl key ''.bin''"
  have ok: "\<forall>c\<in>set ?l. ok_comp c" using assms(1) by (rule loc_of_ok) simp
  show ?thesis
  proof (cases "node_at (files s) ?l")
    case None
    then have "os_read_file s (abs_path ?l) = Inl (ErrOS ENOENT (abs_path ?l))"
      using assms ok by (intro read_file_absent) auto
    then show ?thesis using None
      by (simp add: store_get_def key_file_locs [OF assms(1)] is_not_exist_def slot_def)
  next
    case (Some nd)
    obtain m d where nd: "nd = Reg m d"
      using Some assms(2,4) no_links_node [of "files s" ?l] by (cases nd) (auto simp: is_dir_def plain_fs_def)
    then have "os_read_file s (abs_path ?l) = Inr d"
      using Some assms ok by (intro read_file_reg) auto
    then show ?thesis using Some nd by (simp add: store_get_def key_file_locs [OF assms(1)] slot_def)
  qed
qed

text \<open>The system calls of \<open>Put\<close> and \<open>Delete\<close>, with what they leave in the tree.\<close>

lemma ensure_root_effect:
  assumes "rooted root rl" "plain_fs (files s)" "dir_free (files s) rl"
  obtains f where "ensure_root root s = Inr (s\<lparr>files := f\<rparr>)" "plain_fs f" "is_dir f rl" "dir_free f rl"
    "\<And>q. \<not> prefix q rl \<Longrightarrow> node_at f q = node_at (files s) q"
    "\<And>q. is_dir f q = (prefix q rl \<or> is_dir (files s) q)"
proof -
  have "\<forall>c\<in>set rl. ok_comp c" using assms(1) by (simp add: rooted_def)
  then obtain f where f: "os_mkdir_all s (abs_path rl) 448 = Inr (s\<lparr>files := f\<rparr>)" "plain_fs f" "is_dir f rl"
    "\<And>q. node_at f q = (if node_at (files s) q = None \<and> prefix q rl then Some (Dir 448)
       else node_at (files s) q)"
    "\<And>q. is_dir f q = (prefix q rl \<or> is_dir (files s) q)"
    using mkdir_effect [OF assms(2)] assms(3) by metis
  have "dir_free f rl" using f(2,3) by (simp add: dir_freeI plain_fs_def)
  with f show thesis using that assms(1) by (auto simp: ensure_root_def rooted_def)
qed

lemma put_effect:
  assumes "rooted root rl" "plain_fs (files s)" "dir_free (files s) rl"
    "\<And>e. e \<in> {''.bin'', ''.bin.tmp'', ''.key''} \<Longrightarrow> \<not> is_dir (files s) (loc_of rl key e)"
  obtains f m1 m2 where "store_put root s key v = (Inr (), s\<lparr>files := f\<rparr>)" "plain_fs f" "is_dir f rl"
    "\<And>q. \<not> prefix q rl \<Longrightarrow> node_at f q =
       (if q = loc_of rl key ''.key'' then Some (Reg m1 key)
        else if q = loc_of rl key ''.bin'' then Some (Reg m2 v)
        else if q = loc_of rl key ''.bin.tmp'' then None else node_at (files s) q)"
    "\<And>q. is_dir f q = (prefix q rl \<or> is_dir (files s) q)"
proof -
  let ?t = "loc_of rl key ''.bin.tmp''" and ?b = "loc_of rl key ''.bin''" and ?k = "loc_of rl key ''.key''"
  have ok: "\<forall>c\<in>set ?t. ok_comp c" "\<forall>c\<in>set ?b. ok_comp c" "\<forall>c\<in>set ?k. ok_comp c"
    by (rule loc_of_ok [OF assms(1)], simp)+
  obtain f where f: "ensure_root root s = Inr (s\<lparr>files := f\<rparr>)" "plain_fs f" "is_dir f rl"
    "\<And>q. \<not> prefix q rl \<Longrightarrow> node_at f q = node_at (files s) q"
    "\<And>q. is_dir f q = (prefix q rl \<or> is_dir (files s) q)"
    using ensure_root_effect [OF assms(1-3)] by metis
  have nd: "\<not> is_dir f ?t" "\<not> is_dir f ?b" "\<not> is_dir f ?k" using assms(4) f(5) by simp_all
  let ?s1 = "s\<lparr>files := f\<rparr>"
  have p: "plain_fs (files ?s1)" "is_dir (files ?s1) (butlast ?t)" "is_dir (files ?s1) (butlast ?b)"
    "\<not> is_dir (files ?s1) ?t" "\<not> is_dir (files ?s1) ?b" using f(2,3) nd by simp_all
  obtain g h where g: "os_write_file ?s1 (abs_path ?t) v 384 = Inr (?s1\<lparr>files := g\<rparr>)"
    "os_rename (?s1\<lparr>files := g\<rparr>) (abs_path ?t) (abs_path ?b) = Inr (?s1\<lparr>files := h\<rparr>)" "plain_fs h"
    "\<And>q. node_at h q = (if q = ?b then Some (Reg (new_mode (files ?s1) ?t 384) v)
       else if q = ?t then None else node_at (files ?s1) q)"
    "\<And>q. is_dir h q = is_dir (files ?s1) q"
    by (rule replace_effect [OF p(1) ok(1,2) _ _ _ p(2-5)]) (simp_all, blast)
  let ?s3 = "s\<lparr>files := h\<rparr>"
  have p3: "plain_fs (files ?s3)" "is_dir (files ?s3) (butlast ?k)" "\<not> is_dir (files ?s3) ?k"
    using g(3,5) f(3) nd by simp_all
  obtain w where w: "os_write_file ?s3 (abs_path ?k) key 384 = Inr (?s3\<lparr>files := w\<rparr>)" "plain_fs w"
    "\<And>q. node_at w q = (if q = ?k then Some (Reg (new_mode (files ?s3) ?k 384) key) else node_at (files ?s3) q)"
    "\<And>q. is_dir w q = is_dir (files ?s3) q"
    by (rule write_effect [OF p3(1) ok(3) _ p3(2,3)]) (simp, blast)
  show thesis
  proof (rule that [of w "new_mode h ?k 384" "new_mode f ?t 384"])
    show "store_put root s key v = (Inr (), s\<lparr>files := w\<rparr>)"
      using f(1) g(1,2) w(1) by (simp add: store_put_def key_file_locs [OF assms(1)] abs_path_loc_of)
    show "is_dir w q = (prefix q rl \<or> is_dir (files s) q)" for q by (simp add: w(4) g(5) f(5) del: loc_of_simps)
    then show "is_dir w rl" by simp
    show "node_at w q = (if q = ?k then Some (Reg (new_mode h ?k 384) key)
        else if q = ?b then Some (Reg (new_mode f ?t 384) v)
        else if q = ?t then None else node_at (files s) q)" if "\<not> prefix q rl" for q
      unfolding w(3) using g(4) f(4) [OF that] by simp
  qed (rule w(2))
qed

lemma remove_step:
  assumes "plain_fs (files s)" "\<forall>c\<in>set l. ok_comp c" "l \<noteq> []" "dir_free (files s) (butlast l)"
    "\<not> is_dir (files s) l"
  obtains f where "remove_all_of (abs_path l # ps) s = remove_all_of ps (s\<lparr>files := f\<rparr>)" "plain_fs f"
    "\<And>q. node_at f q = (if q = l then None else node_at (files s) q)"
    "\<And>q. is_dir f q = is_dir (files s) q"
proof (cases "node_at (files s) l")
  case None
  then have "os_remove s (abs_path l) = Inl (ErrOS ENOENT (abs_path l))"
    using assms by (intro remove_absent) auto
  then show thesis using None assms(1) that [of "files s"] by (auto simp: is_not_exist_def)
next
  case (Some nd)
  obtain m d where nd: "nd = Reg m d"
    using Some assms(1,5) no_links_node [of "files s" l] by (cases nd) (auto simp: is_dir_def plain_fs_def)
  have "node_at (files s) (butlast l @ [last l]) = Some nd" using Some assms(3) by simp
  then have "is_dir (files s) (butlast l)"
    using wf_fs_dir_above [of "files s" "butlast l" "[last l]"] assms(1) by (auto simp: plain_fs_def)
  then obtain f where f: "os_remove s (abs_path l) = Inr (s\<lparr>files := f\<rparr>)" "plain_fs f"
    "\<And>q. node_at f q = (if q = l then None else node_at (files s) q)"
    "\<And>q. is_dir f q = is_dir (files s) q"
    using remove_effect [OF assms(1-3)] Some nd by metis
  then show thesis by (intro that [of f]) auto
qed

lemma delete_effect:
  assumes "rooted root rl" "plain_fs (files s)" "dir_free (files s) rl"
    "\<And>e. e \<in> {''.bin'', ''.bin.tmp'', ''.key''} \<Longrightarrow> \<not> is_dir (files s) (loc_of rl key e)"
  obtains f where "store_delete root s key = (Inr (), s\<lparr>files := f\<rparr>)" "plain_fs f" "dir_free f rl"
    "\<And>q. node_at f q =
       (if q = loc_of rl key ''.key'' \<or> q = loc_of rl key ''.bin'' then None else node_at (files s) q)"
    "\<And>q. is_dir f q = is_dir (files s) q"
proof -
  let ?b = "loc_of rl key ''.bin''" and ?k = "loc_of rl key ''.key''"
  have ok: "\<forall>c\<in>set ?b. ok_comp c" "\<forall>c\<in>set ?k. ok_comp c"
    by (rule loc_of_ok [OF assms(1)], simp)+
  have bl: "butlast ?b = rl" "butlast ?k = rl" by simp_all
  obtain f where f: "remove_all_of [abs_path ?b, abs_path ?k] s = remove_all_of [abs_path ?k] (s\<lparr>files := f\<rparr>)"
    "plain_fs f" "\<And>q. node_at f q = (if q = ?b then None else node_at (files s) q)"
    "\<And>q. is_dir f q = is_dir (files s) q"
    by (rule remove_step [of s ?b "[abs_path ?k]"]) (use assms ok in auto)
  have df: "dir_free f rl"
  proof -
    have "\<And>q. prefix q rl \<Longrightarrow> node_at f q = node_at (files s) q" using f(3) by auto
    then show ?thesis using assms(3) f(4) by (simp add: dir_free_def list_all_iff)
  qed
  obtain g where g: "remove_all_of [abs_path ?k] (s\<lparr>files := f\<rparr>) = remove_all_of [] (s\<lparr>files := f, files := g\<rparr>)"
    "plain_fs g" "\<And>q. node_at g q = (if q = ?k then None else node_at f q)"
    "\<And>q. is_dir g q = is_dir f q"
    by (rule remove_step [of "s\<lparr>files := f\<rparr>" ?k "[]"]) (use assms ok f(2,4) df in auto)
  show thesis
  proof (rule that [of g])
    show "store_delete root s key = (Inr (), s\<lparr>files := g\<rparr>)"
      using f(1) g(1) by (simp add: store_delete_def key_file_locs [OF assms(1)])
    show "node_at g q = (if q = ?k \<or> q = ?b then None else node_at (files s) q)" for q
      using g(3) f(3) by simp
    show "is_dir g q = is_dir (files s) q" for q using g(4) f(4) by simp
    have "\<And>q. prefix q rl \<Longrightarrow> node_at g q = node_at f q" using g(3) by auto
    then show "dir_free g rl" using df g(4) by (simp add: dir_free_def list_all_iff)
  qed (rule g(2))
qed

interpretation fsstore: kv_store "store_inv root" "store_get root" "store_put root" "store_delete root"
    "\<lambda>k j. sha256 k \<noteq> sha256 j"
proof
  fix s k assume "store_inv root s"
  then obtain rl where rl: "rooted root rl" "plain_fs (files s)" "dir_free (files s) rl"
    "\<And>key e. e \<in> {''.bin'', ''.bin.tmp'', ''.key''} \<Longrightarrow> \<not> is_dir (files s) (loc_of rl key e)"
    by (rule store_invE) (rule that)
  have "\<not> is_dir (files s) (loc_of rl k ''.bin'')" by (rule rl(4)) simp
  from store_get_slot [OF rl(1-3) this] show "\<exists>x. store_get root s k = Inr x" by blast
next
  fix s k v r s' assume i: "store_inv root s" and p: "store_put root s k v = (r, s')"
  from i obtain rl where rl: "rooted root rl" "plain_fs (files s)" "dir_free (files s) rl"
    "\<And>key e. e \<in> {''.bin'', ''.bin.tmp'', ''.key''} \<Longrightarrow> \<not> is_dir (files s) (loc_of rl key e)"
    by (rule store_invE) (rule that)
  obtain f m1 m2 where f: "store_put root s k v = (Inr (), s\<lparr>files := f\<rparr>)" "plain_fs f" "is_dir f rl"
    "\<And>q. \<not> prefix q rl \<Longrightarrow> node_at f q =
       (if q = loc_of rl k ''.key'' then Some (Reg m1 k)
        else if q = loc_of rl k ''.bin'' then Some (Reg m2 v)
        else if q = loc_of rl k ''.bin.tmp'' then None else node_at (files s) q)"
    "\<And>q. is_dir f q = (prefix q rl \<or> is_dir (files s) q)"
    by (rule put_effect [OF rl(1-3), of k v]) (erule rl(4), rule that)
  have df: "dir_free f rl" using f(2,3) by (simp add: dir_freeI plain_fs_def)
  have s': "r = Inr ()" "s' = s\<lparr>files := f\<rparr>" using p f(1) by auto
  have nd: "\<not> is_dir f (loc_of rl key e)" if "e \<in> {''.bin'', ''.bin.tmp'', ''.key''}" for key e
    using rl(4) [OF that] f(5) by simp
  have get: "store_get root s' j = Inr (slot s' (loc_of rl j ''.bin''))" for j
    by (rule store_get_slot) (use rl(1) f(2) df nd s' in auto)
  have "store_inv root s'" unfolding store_inv_def s' using rl(1) f(2) df nd by auto
  then show "r = Inr () \<and> store_inv root s' \<and> store_get root s' k = Inr (Some v)"
    using s' get [of k] f(4) by (auto simp: slot_def)
  fix j assume "sha256 k \<noteq> sha256 j"
  then have "slot s' (loc_of rl j ''.bin'') = slot s (loc_of rl j ''.bin'')"
    using f(4) s' by (auto simp: slot_def loc_of_inj)
  moreover have "store_get root s j = Inr (slot s (loc_of rl j ''.bin''))"
    by (rule store_get_slot) (use rl in auto)
  ultimately show "store_get root s' j = store_get root s j" using get by simp
next
  fix s k r s' assume i: "store_inv root s" and p: "store_delete root s k = (r, s')"
  from i obtain rl where rl: "rooted root rl" "plain_fs (files s)" "dir_free (files s) rl"
    "\<And>key e. e \<in> {''.bin'', ''.bin.tmp'', ''.key''} \<Longrightarrow> \<not> is_dir (files s) (loc_of rl key e)"
    by (rule store_invE) (rule that)
  obtain f where f: "store_delete root s k = (Inr (), s\<lparr>files := f\<rparr>)" "plain_fs f" "dir_free f rl"
    "\<And>q. node_at f q =
       (if q = loc_of rl k ''.key'' \<or> q = loc_of rl k ''.bin'' then None else node_at (files s) q)"
    "\<And>q. is_dir f q = is_dir (files s) q"
    by (rule delete_effect [OF rl(1-3), of k]) (erule rl(4), rule that)
  have s': "r = Inr ()" "s' = s\<lparr>files := f\<rparr>" using p f(1) by auto
  have nd: "\<not> is_dir f (loc_of rl key e)" if "e \<in> {''.bin'', ''.bin.tmp'', ''.key''}" for key e
    using rl(4) [OF that] f(5) by simp
  have get: "store_get root s' j = Inr (slot s' (loc_of rl j ''.bin''))" for j
    by (rule store_get_slot) (use rl(1) f(2,3) nd s' in auto)
  have "store_inv root s'" unfolding store_inv_def s' using rl(1) f(2,3) nd by auto
  then show "r = Inr () \<and> store_inv root s' \<and> store_get root s' k = Inr None"
    using s' get [of k] f(4) by (auto simp: slot_def)
  fix j assume "sha256 k \<noteq> sha256 j"
  then have "slot s' (loc_of rl j ''.bin'') = slot s (loc_of rl j ''.bin'')"
    using f(4) s' by (auto simp: slot_def loc_of_inj)
  moreover have "store_get root s j = Inr (slot s (loc_of rl j ''.bin''))"
    by (rule store_get_slot) (use rl in auto)
  ultimately show "store_get root s' j = store_get root s j" using get by simp
qed

section \<open>System calls\<close>

text \<open>
  \<open>Put\<close> as the list of its system calls. A crash may fall between two of them or inside one: a
  torn write leaves a prefix of the data, a torn \<open>MkdirAll\<close> the first directories.
\<close>

datatype sys_step = SMkdir string nat | SWrite string string nat | SRename string string

fun do_step :: "sys_step \<Rightarrow> osys \<Rightarrow> osys res" where
  "do_step (SMkdir p m) s = os_mkdir_all s p m"
| "do_step (SWrite p d m) s = os_write_file s p d m"
| "do_step (SRename p q) s = os_rename s p q"

fun torn_step :: "sys_step \<Rightarrow> nat \<Rightarrow> osys \<Rightarrow> osys" where
  "torn_step (SMkdir p m) j s =
     (case os_mkdir_all s (abs_path (take j (raw_comps p))) m of Inl _ \<Rightarrow> s | Inr s' \<Rightarrow> s')"
| "torn_step (SWrite p d m) j s =
     (case os_write_file s p (take j d) m of Inl _ \<Rightarrow> s | Inr s' \<Rightarrow> s')"
| "torn_step (SRename p q) j s = s"

definition put_script :: "string \<Rightarrow> string \<Rightarrow> string \<Rightarrow> sys_step list" where
  "put_script root key v =
     (let (vpath, kpath) = key_file root key; tmp = vpath @ ''.tmp''
      in [SMkdir root 448, SWrite tmp v 384, SRename tmp vpath, SWrite kpath key 384])"

fun run_steps :: "sys_step list \<Rightarrow> osys \<Rightarrow> unit res \<times> osys" where
  "run_steps [] s = (Inr (), s)"
| "run_steps (st # sts) s = (case do_step st s of Inl e \<Rightarrow> (Inl e, s) | Inr s' \<Rightarrow> run_steps sts s')"

lemma store_put_script: "store_put root s key v = run_steps (put_script root key v) s"
  by (simp add: store_put_def put_script_def ensure_root_def Let_def split: sum.splits prod.splits)

text \<open>The state after \<open>n\<close> complete calls and a crash in the next one.\<close>

fun crash_at :: "sys_step list \<Rightarrow> nat \<Rightarrow> nat \<Rightarrow> osys \<Rightarrow> osys" where
  "crash_at [] n j s = s"
| "crash_at (st # sts) 0 j s = torn_step st j s"
| "crash_at (st # sts) (Suc n) j s = (case do_step st s of Inl _ \<Rightarrow> s | Inr s' \<Rightarrow> crash_at sts n j s')"

text \<open>Two calls of \<open>Put\<close> with mutexes of their own, interleaved: \<open>True\<close> is a call of the first.\<close>

fun interleave_steps :: "bool list \<Rightarrow> sys_step list \<Rightarrow> sys_step list \<Rightarrow> osys \<Rightarrow> unit res \<times> osys" where
  "interleave_steps (True # w) (a # as) bs s =
     (case do_step a s of Inl e \<Rightarrow> (Inl e, s) | Inr s' \<Rightarrow> interleave_steps w as bs s')"
| "interleave_steps (False # w) as (b # bs) s =
     (case do_step b s of Inl e \<Rightarrow> (Inl e, s) | Inr s' \<Rightarrow> interleave_steps w as bs s')"
| "interleave_steps w as bs s = (Inr (), s)"

lemma put_script_locs:
  "rooted root rl \<Longrightarrow> put_script root key v =
     [SMkdir (abs_path rl) 448, SWrite (abs_path (loc_of rl key ''.bin.tmp'')) v 384,
      SRename (abs_path (loc_of rl key ''.bin.tmp'')) (abs_path (loc_of rl key ''.bin'')),
      SWrite (abs_path (loc_of rl key ''.key'')) key 384]"
  using key_file_locs [of root rl key] by (simp add: put_script_def abs_path_loc_of rooted_def Let_def)

definition put_frame_ok :: "loc \<Rightarrow> string \<Rightarrow> string \<Rightarrow> osys \<Rightarrow> osys \<Rightarrow> bool" where
  "put_frame_ok rl key v s t =
     (plain_fs (files t) \<and> dir_free (files t) rl \<and>
      (\<forall>q. is_dir (files t) q \<longrightarrow> is_dir (files s) q \<or> prefix q rl) \<and>
      (\<forall>q. \<not> prefix q rl \<longrightarrow> q \<notin> loc_of rl key ` {''.bin'', ''.bin.tmp'', ''.key''} \<longrightarrow>
         node_at (files t) q = node_at (files s) q) \<and>
      (slot t (loc_of rl key ''.bin'') = slot s (loc_of rl key ''.bin'') \<or>
       slot t (loc_of rl key ''.bin'') = Some v))"

lemma put_frame_result:
  assumes i: "rooted root rl" "plain_fs (files s)" "dir_free (files s) rl"
    "\<And>key e. e \<in> {''.bin'', ''.bin.tmp'', ''.key''} \<Longrightarrow> \<not> is_dir (files s) (loc_of rl key e)"
    and f: "put_frame_ok rl key v s t"
  shows "store_inv root t \<and> store_get root t key \<in> {store_get root s key, Inr (Some v)} \<and>
    (\<forall>j. sha256 j \<noteq> sha256 key \<longrightarrow> store_get root t j = store_get root s j)"
proof -
  have nd: "\<not> is_dir (files t) (loc_of rl key e)" if "e \<in> {''.bin'', ''.bin.tmp'', ''.key''}" for key e
    using i(4) [OF that] f by (auto simp: put_frame_ok_def)
  have pt: "plain_fs (files t)" "dir_free (files t) rl" using f by (auto simp: put_frame_ok_def)
  have gt: "store_get root t j = Inr (slot t (loc_of rl j ''.bin''))" for j
    by (rule store_get_slot [OF i(1) pt]) (rule nd, simp)
  have gs: "store_get root s j = Inr (slot s (loc_of rl j ''.bin''))" for j
    by (rule store_get_slot [OF i(1-3)]) (rule i(4), simp)
  have "store_inv root t" unfolding store_inv_def using i(1) pt nd by blast
  moreover have "slot t (loc_of rl j ''.bin'') = slot s (loc_of rl j ''.bin'')" if "sha256 j \<noteq> sha256 key" for j
    using that f by (simp add: put_frame_ok_def slot_def loc_of_inj)
  moreover have "slot t (loc_of rl key ''.bin'') \<in> {slot s (loc_of rl key ''.bin''), Some v}"
    using f by (auto simp: put_frame_ok_def)
  ultimately show ?thesis unfolding gt gs by auto
qed

lemma torn_mkdir_frame:
  assumes "rooted root rl" "plain_fs (files s)" "dir_free (files s) rl"
  shows "put_frame_ok rl key v s (torn_step (SMkdir (abs_path rl) 448) j s)"
proof -
  have ok: "\<forall>c\<in>set rl. ok_comp c" using assms(1) by (simp add: rooted_def)
  have rc: "raw_comps (abs_path rl) = rl" by (rule raw_comps_abs_ok [OF ok])
  have pre: "prefix (take j rl) rl" by (rule take_is_prefix)
  have ok2: "\<forall>c\<in>set (take j rl). ok_comp c" using ok by (meson in_set_takeD)
  have df: "dir_free (files s) (take j rl)"
    using assms(3) pre by (auto simp: dir_free_def list_all_iff intro: prefix_order.trans)
  obtain f where f: "os_mkdir_all s (abs_path (take j rl)) 448 = Inr (s\<lparr>files := f\<rparr>)" "plain_fs f" "is_dir f (take j rl)"
    "\<And>q. node_at f q = (if node_at (files s) q = None \<and> prefix q (take j rl) then Some (Dir 448)
       else node_at (files s) q)"
    "\<And>q. is_dir f q = (prefix q (take j rl) \<or> is_dir (files s) q)"
    by (rule mkdir_effect [OF assms(2) ok2 df]) (rule that)
  have p: "prefix q rl" if "prefix q (take j rl)" for q using that pre by (rule prefix_order.trans)
  have "dir_free f rl"
    using assms(3) f(4,5) by (auto simp: dir_free_def list_all_iff)
  moreover have "node_at f q = node_at (files s) q" if "\<not> prefix q rl" for q
    using that p f(4) by auto
  ultimately show ?thesis
    using f(1,2,5) p by (auto simp: rc put_frame_ok_def slot_def)
qed

lemma crash_frame:
  assumes "rooted root rl" "plain_fs (files s)" "dir_free (files s) rl"
    "\<And>e. e \<in> {''.bin'', ''.bin.tmp'', ''.key''} \<Longrightarrow> \<not> is_dir (files s) (loc_of rl key e)"
  shows "put_frame_ok rl key v s (crash_at (put_script root key v) n j s)"
proof (cases n)
  case 0
  then show ?thesis using torn_mkdir_frame [OF assms(1-3)] by (simp only: put_script_locs [OF assms(1)] crash_at.simps)
next
  case (Suc n1)
  let ?t = "loc_of rl key ''.bin.tmp''" and ?b = "loc_of rl key ''.bin''" and ?k = "loc_of rl key ''.key''"
  have ok: "\<forall>c\<in>set ?t. ok_comp c" "\<forall>c\<in>set ?b. ok_comp c" "\<forall>c\<in>set ?k. ok_comp c"
    by (rule loc_of_ok [OF assms(1)], simp)+
  obtain f where f: "ensure_root root s = Inr (s\<lparr>files := f\<rparr>)" "plain_fs f" "is_dir f rl" "dir_free f rl"
    "\<And>q. \<not> prefix q rl \<Longrightarrow> node_at f q = node_at (files s) q"
    "\<And>q. is_dir f q = (prefix q rl \<or> is_dir (files s) q)"
    by (rule ensure_root_effect [OF assms(1-3)]) (rule that)
  let ?s1 = "s\<lparr>files := f\<rparr>"
  have mk: "os_mkdir_all s (abs_path rl) 448 = Inr ?s1" using f(1) assms(1) by (simp add: ensure_root_def rooted_def)
  have frameI: "put_frame_ok rl key v s (s\<lparr>files := g\<rparr>)"
    if "plain_fs g" "\<And>q. is_dir g q = is_dir f q"
      "\<And>q. q \<notin> {?t, ?b, ?k} \<Longrightarrow> node_at g q = node_at f q"
      "node_at g ?b = node_at f ?b \<or> (\<exists>m. node_at g ?b = Some (Reg m v))" for g
  proof -
    have "dir_free g rl" using that(1,2) f(3) by (simp add: dir_freeI plain_fs_def)
    then show ?thesis using that f(5,6) by (auto simp: put_frame_ok_def slot_def)
  qed
  have p1: "plain_fs (files ?s1)" "is_dir (files ?s1) (butlast ?t)" "is_dir (files ?s1) (butlast ?b)"
    "\<not> is_dir (files ?s1) ?t" "\<not> is_dir (files ?s1) ?b" "\<not> is_dir f ?k"
    using f(2,3,6) assms(4) by simp_all
  have torn: "put_frame_ok rl key v s (torn_step (SWrite (abs_path ?t) v 384) j ?s1)"
  proof -
    obtain g where g: "os_write_file ?s1 (abs_path ?t) (take j v) 384 = Inr (?s1\<lparr>files := g\<rparr>)" "plain_fs g"
      "\<And>q. node_at g q = (if q = ?t then Some (Reg (new_mode (files ?s1) ?t 384) (take j v)) else node_at (files ?s1) q)"
      "\<And>q. is_dir g q = is_dir (files ?s1) q"
      by (rule write_effect [OF p1(1) ok(1) _ p1(2,4)]) (simp, rule that)
    then show ?thesis using frameI [OF g(2)] by simp
  qed
  obtain g h where g: "os_write_file ?s1 (abs_path ?t) v 384 = Inr (?s1\<lparr>files := g\<rparr>)"
    "os_rename (?s1\<lparr>files := g\<rparr>) (abs_path ?t) (abs_path ?b) = Inr (?s1\<lparr>files := h\<rparr>)" "plain_fs h"
    "\<And>q. node_at h q = (if q = ?b then Some (Reg (new_mode (files ?s1) ?t 384) v)
       else if q = ?t then None else node_at (files ?s1) q)"
    "\<And>q. is_dir h q = is_dir (files ?s1) q"
    by (rule replace_effect [OF p1(1) ok(1,2) _ _ _ p1(2-5)]) (simp_all, blast)
  obtain g' where g': "os_write_file ?s1 (abs_path ?t) v 384 = Inr (?s1\<lparr>files := g'\<rparr>)" "plain_fs g'"
      "\<And>q. node_at g' q = (if q = ?t then Some (Reg (new_mode (files ?s1) ?t 384) v) else node_at (files ?s1) q)"
      "\<And>q. is_dir g' q = is_dir (files ?s1) q"
    by (rule write_effect [OF p1(1) ok(1) _ p1(2,4)]) (simp, rule that)
  have "g = g'" using g(1) g'(1) by (simp, metis osys.ext_inject osys.surjective osys.update_convs(1))
  then have after_write: "put_frame_ok rl key v s (s\<lparr>files := g\<rparr>)"
    using frameI [OF g'(2)] g'(3,4) by simp
  have after_rename: "put_frame_ok rl key v s (s\<lparr>files := h\<rparr>)"
    using frameI [OF g(3)] g(4,5) by simp
  let ?s3 = "s\<lparr>files := h\<rparr>"
  have p3: "plain_fs (files ?s3)" "is_dir (files ?s3) (butlast ?k)" "\<not> is_dir (files ?s3) ?k"
    using g(3,5) f(3) p1(6) by simp_all
  have sidecar: "\<exists>w. os_write_file ?s3 (abs_path ?k) d 384 = Inr (s\<lparr>files := w\<rparr>) \<and>
      put_frame_ok rl key v s (s\<lparr>files := w\<rparr>)" for d
  proof -
    obtain w where w: "os_write_file ?s3 (abs_path ?k) d 384 = Inr (?s3\<lparr>files := w\<rparr>)" "plain_fs w"
      "\<And>q. node_at w q = (if q = ?k then Some (Reg (new_mode (files ?s3) ?k 384) d) else node_at (files ?s3) q)"
      "\<And>q. is_dir w q = is_dir (files ?s3) q"
      by (rule write_effect [OF p3(1) ok(3) _ p3(2,3)]) (simp, rule that)
    have "put_frame_ok rl key v s (s\<lparr>files := w\<rparr>)"
      by (rule frameI [OF w(2)]) (use w(3,4) g(4,5) in auto)
    with w(1) show ?thesis by auto
  qed
  have script: "crash_at (put_script root key v) n j s =
      crash_at [SWrite (abs_path ?t) v 384, SRename (abs_path ?t) (abs_path ?b), SWrite (abs_path ?k) key 384] n1 j ?s1"
    using mk Suc by (simp add: put_script_locs [OF assms(1)])
  consider "n1 = 0" | "n1 = 1" | "n1 = 2" | m where "n1 = Suc (Suc (Suc m))"
    by (metis One_nat_def Suc_1 nat.exhaust)
  then show ?thesis
  proof cases
    case 1
    then show ?thesis using torn by (simp only: script crash_at.simps)
  next
    case 2
    then show ?thesis using after_write g(1) by (simp add: script)
  next
    case 3
    then show ?thesis using sidecar [of "take j key"] g(1,2)
      by (auto simp: script numeral_2_eq_2)
  next
    case 4
    then show ?thesis using sidecar [of key] g(1,2) by (auto simp: script)
  qed
qed

section \<open>Listing keys\<close>

lemma keys_of_mem:
  "k \<in> set (keys_of root s pfx es) \<longleftrightarrow> prefix pfx k \<and>
     (\<exists>n nd. (n, nd) \<in> set es \<and> suffix ''.key'' n \<and> os_read_file s (path_join [root, n]) = Inr k)"
proof (induction es)
  case (Cons x es)
  obtain n nd where x: "x = (n, nd)" by fastforce
  show ?case
  proof (cases "suffix ''.key'' n")
    case True
    show ?thesis
      using True Cons by (cases "os_read_file s (path_join [root, n])") (auto simp: x)
  next
    case False
    then show ?thesis using Cons by (auto simp: x)
  qed
qed simp

lemma store_keys_set:
  assumes rt: "rooted root rl" and pf: "plain_fs (files s)" and d: "is_dir (files s) rl"
  obtains ks where "store_keys root s pfx = Inr ks"
    "\<And>k. k \<in> set ks \<longleftrightarrow> prefix pfx k \<and>
       (\<exists>n m. suffix ''.key'' n \<and> node_at (files s) (rl @ [n]) = Some (Reg m k))"
proof -
  have ok: "\<forall>c\<in>set rl. ok_comp c" and root: "root = abs_path rl" using rt by (simp_all add: rooted_def)
  obtain es where es: "os_read_dir s (abs_path rl) = Inr es"
    "\<And>c nd. (c, nd) \<in> set es \<longleftrightarrow> node_at (files s) (rl @ [c]) = Some nd"
    by (rule read_dir_entries [OF pf ok d]) (rule that)
  have rd: "os_read_file s (path_join [root, n]) = Inr k \<longleftrightarrow> (\<exists>m. nd = Reg m k)"
    if n: "node_at (files s) (rl @ [n]) = Some nd" for n nd k
  proof -
    have okn: "\<forall>c\<in>set (rl @ [n]). ok_comp c"
      using wf_fs_entry [of "files s" "rl @ [n]" nd] n pf by (simp add: plain_fs_def)
    then have p: "path_join [root, n] = abs_path (rl @ [n])"
      unfolding root using path_join_abs_single [OF ok, of "[n]"] by simp
    have "resolve s (abs_path (rl @ [n])) = Inr (rl @ [n])"
      by (rule resolve_there [OF pf okn n])
    then show ?thesis
      using n no_links_node [of "files s" "rl @ [n]"] pf unfolding p
      by (cases nd) (auto simp: os_read_file_def os_stat_def plain_fs_def)
  qed
  show thesis
  proof (rule that)
    show "store_keys root s pfx = Inr (keys_of root s pfx es)"
      using es(1) root by (simp add: store_keys_def)
    show "k \<in> set (keys_of root s pfx es) \<longleftrightarrow> prefix pfx k \<and>
        (\<exists>n m. suffix ''.key'' n \<and> node_at (files s) (rl @ [n]) = Some (Reg m k))" for k
      unfolding keys_of_mem es(2) by (metis rd)
  qed
qed

section \<open>Properties\<close>

text \<open>
  C6. The file store refines a map: any sequence of \<open>Put\<close> and \<open>Delete\<close> on keys without a digest
  collision with \<open>k\<close> succeeds call by call, keeps the store's invariant, and \<open>Get k\<close> then
  answers what the same sequence of updates makes of the map the store held before. The keys
  may be any strings, whatever characters they contain.
\<close>

theorem fsstore_refines_map:
  assumes "store_inv root s" "kv_run (store_put root) (store_delete root) ops s = (rs, s')"
    "\<forall>j\<in>op_key ` set ops. j = k \<or> sha256 j \<noteq> sha256 k"
  shows "(\<forall>r\<in>set rs. r = Inr ()) \<and> store_inv root s' \<and>
    store_get root s' k = Inr (kv_spec ops (kv_abs (store_get root) s) k)"
  using fsstore.run_refines [OF assms] .

definition ex_store_os :: osys where
  "ex_store_os = \<lparr>files = [([''s''], Dir 448)], cwd = ''/'', getenv = (\<lambda>_. []), home_dir = None\<rparr>"

lemma ex_store_inv: "store_inv (abs_path [''s'', ''rss'', ''news'']) ex_store_os"
  unfolding store_inv_def
  by (rule exI [of _ "[''s'', ''rss'', ''news'']"])
     (simp add: rooted_def ok_comp_def ex_store_os_def plain_fs_def wf_fs_def no_links_def dir_free_def
        node_at_def is_dir_def loc_of_def)

theorem fsstore_refines_map_witness:
  "\<exists>rs s'. kv_run (store_put (abs_path [''s'', ''rss'', ''news''])) (store_delete (abs_path [''s'', ''rss'', ''news'']))
       [KPut ''k'' ''1'', KDel ''k'', KPut ''k'' ''2''] ex_store_os = (rs, s') \<and>
     store_get (abs_path [''s'', ''rss'', ''news'']) s' ''k'' = Inr (Some ''2'')"
proof -
  obtain rs s' where r: "kv_run (store_put (abs_path [''s'', ''rss'', ''news''])) (store_delete (abs_path [''s'', ''rss'', ''news'']))
       [KPut ''k'' ''1'', KDel ''k'', KPut ''k'' ''2''] ex_store_os = (rs, s')" by fastforce
  from fsstore_refines_map [OF ex_store_inv r, of "''k''"] r show ?thesis by simp
qed

text \<open>
  C9. A \<open>Put\<close> is atomic for readers of the value: wherever a crash falls, between two of its system
  calls or inside one (a torn write leaves any prefix of its data), the store is still usable
  and \<open>Get\<close> answers the value from before or the new one, and nothing changes for the keys
  with other digests.
\<close>

theorem put_crash_atomic:
  assumes "store_inv root s"
  shows "store_inv root (crash_at (put_script root key v) n j s) \<and>
    store_get root (crash_at (put_script root key v) n j s) key \<in> {store_get root s key, Inr (Some v)} \<and>
    (\<forall>i. sha256 i \<noteq> sha256 key \<longrightarrow>
       store_get root (crash_at (put_script root key v) n j s) i = store_get root s i)"
proof -
  from assms obtain rl where rl: "rooted root rl" "plain_fs (files s)" "dir_free (files s) rl"
    "\<And>key e. e \<in> {''.bin'', ''.bin.tmp'', ''.key''} \<Longrightarrow> \<not> is_dir (files s) (loc_of rl key e)"
    by (rule store_invE) (rule that)
  have "put_frame_ok rl key v s (crash_at (put_script root key v) n j s)"
    by (rule crash_frame [OF rl(1-3)]) (rule rl(4))
  from put_frame_result [OF rl(1-3) _ this] rl(4) show ?thesis by blast
qed

theorem put_crash_atomic_witness:
  "store_get (abs_path [''s'', ''rss'', ''news''])
     (crash_at (put_script (abs_path [''s'', ''rss'', ''news'']) ''k'' ''value'') 1 2 ex_store_os) ''k''
   \<in> {store_get (abs_path [''s'', ''rss'', ''news'']) ex_store_os ''k'', Inr (Some ''value'')}"
  using put_crash_atomic [OF ex_store_inv] by blast

text \<open>
  A successful \<open>Put\<close> makes its key visible to \<open>Keys\<close>: listing with a prefix succeeds, contains
  the key exactly if it has the prefix, and contains only keys with the prefix.
\<close>

theorem put_listed:
  assumes "store_inv root s" "store_put root s key v = (r, s')"
  shows "\<exists>ks. store_keys root s' pfx = Inr ks \<and> (key \<in> set ks \<longleftrightarrow> prefix pfx key) \<and>
    list_all (prefix pfx) ks"
proof -
  from assms(1) obtain rl where rl: "rooted root rl" "plain_fs (files s)" "dir_free (files s) rl"
    "\<And>key e. e \<in> {''.bin'', ''.bin.tmp'', ''.key''} \<Longrightarrow> \<not> is_dir (files s) (loc_of rl key e)"
    by (rule store_invE) (rule that)
  obtain f m1 m2 where f: "store_put root s key v = (Inr (), s\<lparr>files := f\<rparr>)" "plain_fs f" "is_dir f rl"
    "\<And>q. \<not> prefix q rl \<Longrightarrow> node_at f q =
       (if q = loc_of rl key ''.key'' then Some (Reg m1 key)
        else if q = loc_of rl key ''.bin'' then Some (Reg m2 v)
        else if q = loc_of rl key ''.bin.tmp'' then None else node_at (files s) q)"
    "\<And>q. is_dir f q = (prefix q rl \<or> is_dir (files s) q)"
    by (rule put_effect [OF rl(1-3), of key v]) (erule rl(4), rule that)
  have s': "s' = s\<lparr>files := f\<rparr>" using assms(2) f(1) by simp
  have p': "plain_fs (files s')" "is_dir (files s') rl" using f(2,3) s' by simp_all
  obtain ks where ks: "store_keys root s' pfx = Inr ks"
    "\<And>k. k \<in> set ks \<longleftrightarrow> prefix pfx k \<and>
       (\<exists>n m. suffix ''.key'' n \<and> node_at (files s') (rl @ [n]) = Some (Reg m k))"
    by (rule store_keys_set [OF rl(1) p']) (rule that)
  have "node_at (files s') (rl @ [key_hash key @ ''.key'']) = Some (Reg m1 key)"
    using f(4) [of "loc_of rl key ''.key''"] s' by (simp add: loc_of_def)
  then have "key \<in> set ks \<longleftrightarrow> prefix pfx key" using ks(2) suffixI by blast
  with ks show ?thesis by (auto simp: list_all_iff)
qed

theorem put_listed_witness:
  "\<exists>ks. store_keys (abs_path [''s'', ''rss'', ''news''])
       (snd (store_put (abs_path [''s'', ''rss'', ''news'']) ex_store_os ''rss:seen'' ''v'')) ''rss:'' = Inr ks \<and>
     (''rss:seen'' \<in> set ks \<longleftrightarrow> prefix ''rss:'' ''rss:seen'') \<and> list_all (prefix ''rss:'') ks"
proof -
  obtain r s' where p: "store_put (abs_path [''s'', ''rss'', ''news'']) ex_store_os ''rss:seen'' ''v'' = (r, s')"
    by fastforce
  from put_listed [OF ex_store_inv p, of "''rss:''"] show ?thesis by (simp add: p)
qed

text \<open>
  Two sessions of one instance do not exclude each other: both \<open>Put\<close> calls go through the same
  temporary file, and from every usable state there is an interleaving of their system calls in
  which one of them fails because the other has already renamed the file away.
\<close>

theorem put_race_fails:
  assumes "store_inv root s"
  shows "\<exists>w p s'. interleave_steps w (put_script root key v1) (put_script root key v2) s = (Inl (ErrOS ENOENT p), s')"
proof -
  from assms obtain rl where rl: "rooted root rl" "plain_fs (files s)" "dir_free (files s) rl"
    "\<And>key e. e \<in> {''.bin'', ''.bin.tmp'', ''.key''} \<Longrightarrow> \<not> is_dir (files s) (loc_of rl key e)"
    by (rule store_invE) (rule that)
  let ?t = "loc_of rl key ''.bin.tmp''" and ?b = "loc_of rl key ''.bin''"
  have ok: "\<forall>c\<in>set ?t. ok_comp c" "\<forall>c\<in>set ?b. ok_comp c" by (rule loc_of_ok [OF rl(1)], simp)+
  obtain f where f: "ensure_root root s = Inr (s\<lparr>files := f\<rparr>)" "plain_fs f" "is_dir f rl" "dir_free f rl"
    "\<And>q. \<not> prefix q rl \<Longrightarrow> node_at f q = node_at (files s) q"
    "\<And>q. is_dir f q = (prefix q rl \<or> is_dir (files s) q)"
    by (rule ensure_root_effect [OF rl(1-3)]) (rule that)
  let ?s1 = "s\<lparr>files := f\<rparr>"
  have p1: "plain_fs (files ?s1)" "is_dir (files ?s1) (butlast ?t)" "\<not> is_dir (files ?s1) ?t"
    using f(2,3,6) rl(4) by simp_all
  obtain g where g: "os_write_file ?s1 (abs_path ?t) v1 384 = Inr (?s1\<lparr>files := g\<rparr>)" "plain_fs g"
    "\<And>q. node_at g q = (if q = ?t then Some (Reg (new_mode (files ?s1) ?t 384) v1) else node_at (files ?s1) q)"
    "\<And>q. is_dir g q = is_dir (files ?s1) q"
    by (rule write_effect [OF p1(1) ok(1) _ p1(2,3)]) (simp, rule that)
  let ?s2 = "?s1\<lparr>files := g\<rparr>"
  have dg: "is_dir g rl" using g(4) f(3) by simp
  then have p2: "rooted root rl" "plain_fs (files ?s2)" "dir_free (files ?s2) rl"
    using rl(1) g(2) by (simp_all add: dir_freeI plain_fs_def)
  obtain h where h: "ensure_root root ?s2 = Inr (?s2\<lparr>files := h\<rparr>)" "plain_fs h" "is_dir h rl" "dir_free h rl"
    "\<And>q. \<not> prefix q rl \<Longrightarrow> node_at h q = node_at (files ?s2) q"
    "\<And>q. is_dir h q = (prefix q rl \<or> is_dir (files ?s2) q)"
    by (rule ensure_root_effect [OF p2]) (rule that)
  let ?s3 = "?s2\<lparr>files := h\<rparr>"
  have p3: "plain_fs (files ?s3)" "is_dir (files ?s3) (butlast ?t)" "is_dir (files ?s3) (butlast ?b)"
    "\<not> is_dir (files ?s3) ?t" "\<not> is_dir (files ?s3) ?b"
    using h(2,3,6) g(4) f(6) rl(4) by simp_all
  obtain x y where x: "os_write_file ?s3 (abs_path ?t) v2 384 = Inr (?s3\<lparr>files := x\<rparr>)"
    "os_rename (?s3\<lparr>files := x\<rparr>) (abs_path ?t) (abs_path ?b) = Inr (?s3\<lparr>files := y\<rparr>)" "plain_fs y"
    "\<And>q. node_at y q = (if q = ?b then Some (Reg (new_mode (files ?s3) ?t 384) v2)
       else if q = ?t then None else node_at (files ?s3) q)"
    "\<And>q. is_dir y q = is_dir (files ?s3) q"
    by (rule replace_effect [OF p3(1) ok(1,2) _ _ _ p3(2-5)]) (simp_all, blast)
  have "lresolve (?s3\<lparr>files := y\<rparr>) (abs_path ?t) = Inr ?t"
    by (rule lresolve_abs) (use x(3,5) h(3) ok in auto)
  moreover have "node_at y ?t = None" using x(4) by simp
  ultimately have fail: "os_rename (s\<lparr>files := y\<rparr>) (abs_path ?t) (abs_path ?b) = Inl (ErrOS ENOENT (abs_path ?t))"
    by (simp add: os_rename_def)
  have "os_mkdir_all s (abs_path rl) 448 = Inr ?s1" "os_mkdir_all ?s2 (abs_path rl) 448 = Inr ?s3"
    using f(1) h(1) rl(1) by (simp_all add: ensure_root_def rooted_def)
  then have "interleave_steps [True, True, False, False, True, False] (put_script root key v1) (put_script root key v2) s
      = (Inl (ErrOS ENOENT (abs_path ?t)), s\<lparr>files := y\<rparr>)"
    using g(1) x(1,2) fail by (simp add: put_script_locs [OF rl(1)])
  then show ?thesis by blast
qed

theorem put_race_fails_witness:
  "\<exists>w p s'. interleave_steps w (put_script (abs_path [''s'', ''rss'', ''news'']) ''k'' ''1'')
     (put_script (abs_path [''s'', ''rss'', ''news'']) ''k'' ''2'') ex_store_os = (Inl (ErrOS ENOENT p), s')"
  by (rule put_race_fails [OF ex_store_inv])

end
