(* ===== verification/CredStore.thy ===== *)
theory CredStore
  imports StateStore Contract "HOL-Library.Product_Lexorder"
begin

text \<open>
  Persistence of connector instances: \<open>storage/store.go\<close> and its backend
  \<open>storage/yamlstore/yamlstore.go\<close>, one file per instance at \<open>root/type/name.yaml\<close>.

  The YAML library is not part of the repository: \<open>enc\<close> and \<open>dec\<close> stand for \<open>yaml.Marshal\<close> and
  \<open>yaml.Unmarshal\<close> of a credential. A credential reads back as itself only if its values are of
  the kinds YAML keeps apart, so the law \<open>yaml_keeps\<close> is about one credential. The clock is the
  argument \<open>now\<close>.
\<close>

type_synonym yaml_enc = "credential \<Rightarrow> string res"
type_synonym yaml_dec = "string \<Rightarrow> credential res"

record inst_ref =
  ir_type :: string
  ir_name :: string

definition default_store_root :: "osys \<Rightarrow> string res" where
  "default_store_root s =
     (if getenv s ''PGF_STORE_DIR'' \<noteq> [] then Inr (getenv s ''PGF_STORE_DIR'')
      else if getenv s ''XDG_CONFIG_HOME'' \<noteq> [] then
        Inr (path_join [getenv s ''XDG_CONFIG_HOME'', ''pgf'', ''instances''])
      else case home_dir s of
        None \<Rightarrow> Inl (ErrMsg ''$HOME is not defined'')
      | Some home \<Rightarrow> Inr (path_join [home, ''.config'', ''pgf'', ''instances'']))"

definition new_cred_store :: "string \<Rightarrow> osys \<Rightarrow> string res \<times> osys" where
  "new_cred_store root s =
     (case (if root = [] then default_store_root s else Inr root) of
        Inl e \<Rightarrow> (Inl e, s)
      | Inr r \<Rightarrow>
          (case os_mkdir_all s r 448 of
             Inl e \<Rightarrow> (Inl (ErrWrap (''yamlstore: mkdir '' @ r @ '': '') e []), s)
           | Inr s' \<Rightarrow> (Inr r, s')))"

definition cred_path :: "string \<Rightarrow> string \<Rightarrow> string \<Rightarrow> string" where
  "cred_path root typ name = path_join [root, typ, name @ ''.yaml'']"

text \<open>The time stamps of \<open>Put\<close>.\<close>

definition stamp :: "time \<Rightarrow> credential \<Rightarrow> credential" where
  "stamp now c =
     (let c1 = (if is_zero_time (cr_created c) then c\<lparr>cr_created := now\<rparr> else c)
      in c1\<lparr>cr_updated := now\<rparr>)"

definition cred_put :: "yaml_enc \<Rightarrow> string \<Rightarrow> time \<Rightarrow> credential \<Rightarrow> osys \<Rightarrow> unit res \<times> osys" where
  "cred_put enc root now cred s =
     (if cr_type cred = [] \<or> cr_name cred = [] then
        (Inl (ErrMsg ''yamlstore: Put requires Type and Name''), s)
      else
        (let cred = stamp now cred; dir = path_join [root, cr_type cred]
         in case os_mkdir_all s dir 448 of
              Inl e \<Rightarrow> (Inl e, s)
            | Inr s1 \<Rightarrow>
                (case enc cred of
                   Inl e \<Rightarrow> (Inl e, s1)
                 | Inr data \<Rightarrow>
                     (let dst = cred_path root (cr_type cred) (cr_name cred); tmp = dst @ ''.tmp''
                      in case os_write_file s1 tmp data 384 of
                           Inl e \<Rightarrow> (Inl e, s1)
                         | Inr s2 \<Rightarrow>
                             (case os_rename s2 tmp dst of
                                Inl e \<Rightarrow> (Inl e, s2)
                              | Inr s3 \<Rightarrow> (Inr (), s3))))))"

definition cred_get :: "yaml_dec \<Rightarrow> string \<Rightarrow> osys \<Rightarrow> string \<Rightarrow> string \<Rightarrow> credential res" where
  "cred_get dec root s typ name =
     (case os_read_file s (cred_path root typ name) of
        Inl e \<Rightarrow> (if is_not_exist e then Inl ErrNotFound else Inl e)
      | Inr data \<Rightarrow>
          (case dec data of
             Inl e \<Rightarrow> Inl (ErrWrap (''yamlstore: parse '' @ typ @ ''/'' @ name @ '': '') e [])
           | Inr c \<Rightarrow> Inr c))"

definition cred_delete :: "string \<Rightarrow> osys \<Rightarrow> string \<Rightarrow> string \<Rightarrow> unit res \<times> osys" where
  "cred_delete root s typ name =
     (case os_remove s (cred_path root typ name) of
        Inl e \<Rightarrow>
          (if is_not_exist e then (Inl ErrNotFound, s)
           else (Inl e, (case os_remove s (path_join [root, typ]) of Inl _ \<Rightarrow> s | Inr s' \<Rightarrow> s')))
      | Inr s1 \<Rightarrow>
          (Inr (), (case os_remove s1 (path_join [root, typ]) of Inl _ \<Rightarrow> s1 | Inr s' \<Rightarrow> s')))"

fun list_type :: "string \<Rightarrow> (string \<times> node) list \<Rightarrow> inst_ref list" where
  "list_type t [] = []"
| "list_type t ((name, nd) # es) =
     (if (case nd of Dir _ \<Rightarrow> True | _ \<Rightarrow> False) \<or> \<not> suffix ''.yaml'' name then list_type t es
      else \<lparr>ir_type = t, ir_name = trim_suffix name ''.yaml''\<rparr> # list_type t es)"

fun list_types :: "string \<Rightarrow> osys \<Rightarrow> (string \<times> node) list \<Rightarrow> inst_ref list" where
  "list_types root s [] = []"
| "list_types root s ((t, nd) # ts) =
     (case nd of
        Dir _ \<Rightarrow>
          (case os_read_dir s (path_join [root, t]) of
             Inl _ \<Rightarrow> list_types root s ts
           | Inr es \<Rightarrow> list_type t es @ list_types root s ts)
      | _ \<Rightarrow> list_types root s ts)"

definition ref_key :: "inst_ref \<Rightarrow> string \<times> string" where
  "ref_key r = (ir_type r, ir_name r)"

definition cred_list :: "string \<Rightarrow> osys \<Rightarrow> inst_ref list res" where
  "cred_list root s =
     (case os_read_dir s root of
        Inl e \<Rightarrow> (if is_not_exist e then Inr [] else Inl e)
      | Inr types \<Rightarrow> Inr (sort_key ref_key (list_types root s types)))"

section \<open>Locations of an instance\<close>

definition yaml_keeps :: "yaml_enc \<Rightarrow> yaml_dec \<Rightarrow> credential \<Rightarrow> bool" where
  "yaml_keeps enc dec c = (case enc c of Inl _ \<Rightarrow> False | Inr d \<Rightarrow> dec d = Inr c)"

definition plain_name :: "string \<Rightarrow> bool" where
  "plain_name n = (n \<noteq> [] \<and> CHR ''/'' \<notin> set n \<and> ok_comp n)"

definition inst_loc :: "loc \<Rightarrow> string \<Rightarrow> string \<Rightarrow> string \<Rightarrow> loc" where
  "inst_loc rl t n e = rl @ [t, n @ e]"

lemma ext_comp: "plain_name n \<Longrightarrow> CHR ''/'' \<notin> set e \<Longrightarrow> 2 \<le> length e \<Longrightarrow> ok_comp (n @ e)"
proof -
  assume n: "plain_name n" "CHR ''/'' \<notin> set e" "2 \<le> length e"
  then have "2 < length (n @ e)" by (cases n) (auto simp: plain_name_def)
  then have "n @ e \<noteq> ''.''" "n @ e \<noteq> ''..''" by (auto dest: arg_cong [of _ _ length])
  with n show ?thesis by (auto simp: ok_comp_def plain_name_def)
qed

lemma yaml_comp: "plain_name n \<Longrightarrow> ok_comp (n @ ''.yaml'')" "plain_name n \<Longrightarrow> ok_comp (n @ ''.yaml.tmp'')"
  by (rule ext_comp; simp)+

lemma cred_path_loc:
  "rooted root rl \<Longrightarrow> plain_name t \<Longrightarrow> plain_name n \<Longrightarrow>
   cred_path root t n = abs_path (inst_loc rl t n ''.yaml'')"
  using yaml_comp(1) [of n]
  by (simp add: cred_path_def rooted_def inst_loc_def path_join_abs_single plain_name_def)

lemma type_path_loc:
  "rooted root rl \<Longrightarrow> plain_name t \<Longrightarrow> path_join [root, t] = abs_path (rl @ [t])"
  by (simp add: rooted_def path_join_abs_single plain_name_def)

lemma inst_loc_tmp: "abs_path (inst_loc rl t n ''.yaml'') @ ''.tmp'' = abs_path (inst_loc rl t n ''.yaml.tmp'')"
  using abs_path_snoc [of "rl @ [t]"] by (simp add: inst_loc_def)

lemma inst_loc_ok:
  "rooted root rl \<Longrightarrow> plain_name t \<Longrightarrow> plain_name n \<Longrightarrow> e \<in> {''.yaml'', ''.yaml.tmp''} \<Longrightarrow>
   \<forall>c\<in>set (inst_loc rl t n e). ok_comp c"
  using yaml_comp [of n] by (auto simp: inst_loc_def rooted_def plain_name_def)

lemma inst_loc_simps [simp]:
  "inst_loc rl t n e \<noteq> []" "butlast (inst_loc rl t n e) = rl @ [t]"
  "\<not> prefix (inst_loc rl t n e) (rl @ [u])" "\<not> prefix (inst_loc rl t n e) rl"
  "inst_loc rl t n e \<noteq> rl @ [u]" "rl @ [u] \<noteq> inst_loc rl t n e"
  by (auto simp: inst_loc_def butlast_append dest: prefix_length_le)

lemma inst_loc_neq [simp]:
  "inst_loc rl t n ''.yaml'' \<noteq> inst_loc rl u m ''.yaml.tmp''"
  "inst_loc rl t n ''.yaml.tmp'' \<noteq> inst_loc rl u m ''.yaml''"
proof -
  have "n @ ''.yaml'' \<noteq> m @ ''.yaml.tmp''" for n m :: string
    by (auto dest: arg_cong [where f = last])
  then show "inst_loc rl t n ''.yaml'' \<noteq> inst_loc rl u m ''.yaml.tmp''"
    "inst_loc rl t n ''.yaml.tmp'' \<noteq> inst_loc rl u m ''.yaml''"
    by (auto simp: inst_loc_def)
qed

lemma inst_loc_inj: "inst_loc rl t n e = inst_loc rl u m e \<longleftrightarrow> t = u \<and> n = m"
  by (simp add: inst_loc_def)

section \<open>The invariant\<close>

definition cred_inv :: "string \<Rightarrow> osys \<Rightarrow> bool" where
  "cred_inv root s =
     (\<exists>rl. rooted root rl \<and> plain_fs (files s) \<and> dir_free (files s) rl \<and>
        (\<forall>t. node_at (files s) (rl @ [t]) = None \<or> is_dir (files s) (rl @ [t])) \<and>
        (\<forall>t n. \<forall>e\<in>{''.yaml'', ''.yaml.tmp''}. \<not> is_dir (files s) (inst_loc rl t n e)))"

lemma cred_invE:
  assumes "cred_inv root s"
  obtains rl where "rooted root rl" "plain_fs (files s)" "dir_free (files s) rl"
    "\<And>t. node_at (files s) (rl @ [t]) = None \<or> is_dir (files s) (rl @ [t])"
    "\<And>t n e. e \<in> {''.yaml'', ''.yaml.tmp''} \<Longrightarrow> \<not> is_dir (files s) (inst_loc rl t n e)"
  using assms unfolding cred_inv_def by metis

lemma dir_free_snoc:
  "dir_free f rl \<Longrightarrow> node_at f (rl @ [t]) = None \<or> is_dir f (rl @ [t]) \<Longrightarrow> dir_free f (rl @ [t])"
  by (auto simp: dir_free_def list_all_iff)

lemma cred_get_slot:
  assumes "rooted root rl" "plain_fs (files s)" "dir_free (files s) rl"
    "node_at (files s) (rl @ [t]) = None \<or> is_dir (files s) (rl @ [t])"
    "\<not> is_dir (files s) (inst_loc rl t n ''.yaml'')" "plain_name t" "plain_name n"
  shows "cred_get dec root s t n =
    (case slot s (inst_loc rl t n ''.yaml'') of
       None \<Rightarrow> Inl ErrNotFound
     | Some d \<Rightarrow> (case dec d of
           Inl e \<Rightarrow> Inl (ErrWrap (''yamlstore: parse '' @ t @ ''/'' @ n @ '': '') e [])
         | Inr c \<Rightarrow> Inr c))"
proof -
  let ?l = "inst_loc rl t n ''.yaml''"
  have ok: "\<forall>c\<in>set ?l. ok_comp c" by (rule inst_loc_ok [OF assms(1,6,7)]) simp
  show ?thesis
  proof (cases "node_at (files s) ?l")
    case None
    then have "os_read_file s (abs_path ?l) = Inl (ErrOS ENOENT (abs_path ?l))"
      using assms ok dir_free_snoc [OF assms(3,4)] by (intro read_file_absent) auto
    then show ?thesis using None
      by (simp add: cred_get_def cred_path_loc [OF assms(1,6,7)] is_not_exist_def slot_def)
  next
    case (Some nd)
    obtain m d where nd: "nd = Reg m d"
      using Some assms(2,5) no_links_node [of "files s" ?l] by (cases nd) (auto simp: is_dir_def plain_fs_def)
    then have "os_read_file s (abs_path ?l) = Inr d"
      using Some assms ok by (intro read_file_reg) auto
    then show ?thesis using Some nd by (simp add: cred_get_def cred_path_loc [OF assms(1,6,7)] slot_def)
  qed
qed

lemma cred_put_effect:
  assumes rl: "rooted root rl" "plain_fs (files s)" "dir_free (files s) rl"
    "node_at (files s) (rl @ [t]) = None \<or> is_dir (files s) (rl @ [t])"
    "\<And>e. e \<in> {''.yaml'', ''.yaml.tmp''} \<Longrightarrow> \<not> is_dir (files s) (inst_loc rl t n e)"
    and tn: "t = cr_type c" "n = cr_name c" "plain_name t" "plain_name n"
    and d: "enc (stamp now c) = Inr d"
  obtains f m where "cred_put enc root now c s = (Inr (), s\<lparr>files := f\<rparr>)" "plain_fs f" "is_dir f (rl @ [t])"
    "\<And>q. \<not> prefix q (rl @ [t]) \<Longrightarrow> node_at f q =
       (if q = inst_loc rl t n ''.yaml'' then Some (Reg m d)
        else if q = inst_loc rl t n ''.yaml.tmp'' then None else node_at (files s) q)"
    "\<And>q. is_dir f q = (prefix q (rl @ [t]) \<or> is_dir (files s) q)"
proof -
  let ?t = "inst_loc rl t n ''.yaml.tmp''" and ?b = "inst_loc rl t n ''.yaml''"
  have ok: "\<forall>c\<in>set ?t. ok_comp c" "\<forall>c\<in>set ?b. ok_comp c" by (rule inst_loc_ok [OF rl(1) tn(3,4)], simp)+
  have okt: "\<forall>c\<in>set (rl @ [t]). ok_comp c" using rl(1) tn(3) by (simp add: rooted_def plain_name_def)
  obtain f where f: "os_mkdir_all s (abs_path (rl @ [t])) 448 = Inr (s\<lparr>files := f\<rparr>)" "plain_fs f" "is_dir f (rl @ [t])"
    "\<And>q. node_at f q = (if node_at (files s) q = None \<and> prefix q (rl @ [t]) then Some (Dir 448)
       else node_at (files s) q)"
    "\<And>q. is_dir f q = (prefix q (rl @ [t]) \<or> is_dir (files s) q)"
    by (rule mkdir_effect [OF rl(2) okt dir_free_snoc [OF rl(3,4)]]) (rule that)
  let ?s1 = "s\<lparr>files := f\<rparr>"
  have p: "plain_fs (files ?s1)" "is_dir (files ?s1) (butlast ?t)" "is_dir (files ?s1) (butlast ?b)"
    "\<not> is_dir (files ?s1) ?t" "\<not> is_dir (files ?s1) ?b" using f(2,3,5) rl(5) by simp_all
  obtain g h where g: "os_write_file ?s1 (abs_path ?t) d 384 = Inr (?s1\<lparr>files := g\<rparr>)"
    "os_rename (?s1\<lparr>files := g\<rparr>) (abs_path ?t) (abs_path ?b) = Inr (?s1\<lparr>files := h\<rparr>)" "plain_fs h"
    "\<And>q. node_at h q = (if q = ?b then Some (Reg (new_mode (files ?s1) ?t 384) d)
       else if q = ?t then None else node_at (files ?s1) q)"
    "\<And>q. is_dir h q = is_dir (files ?s1) q"
    by (rule replace_effect [OF p(1) ok(1,2) _ _ _ p(2-5)]) (simp_all, blast)
  have ct: "cr_type (stamp now c) = t" "cr_name (stamp now c) = n"
    using tn(1,2) by (simp_all add: stamp_def Let_def)
  have ne: "cr_type c \<noteq> []" "cr_name c \<noteq> []" using tn by (auto simp: plain_name_def)
  show thesis
  proof (rule that [of h "new_mode (files ?s1) ?t 384"])
    show "cred_put enc root now c s = (Inr (), s\<lparr>files := h\<rparr>)"
      using f(1) d g(1,2) ne
      by (simp add: cred_put_def Let_def ct type_path_loc [OF rl(1) tn(3)] cred_path_loc [OF rl(1) tn(3,4)]
          inst_loc_tmp)
    show "is_dir h q = (prefix q (rl @ [t]) \<or> is_dir (files s) q)" for q
      using g(5) f(5) by simp
    then show "is_dir h (rl @ [t])" by simp
    show "node_at h q = (if q = ?b then Some (Reg (new_mode (files ?s1) ?t 384) d)
        else if q = ?t then None else node_at (files s) q)" if "\<not> prefix q (rl @ [t])" for q
      using g(4) f(4) that by simp
  qed (rule g(3))
qed

lemma prefix_type_dir: "prefix q (rl @ [t]) \<longleftrightarrow> q = rl @ [t] \<or> prefix q rl"
  by (auto simp: prefix_snoc)

lemma cred_put_inv:
  assumes i: "cred_inv root s" and tn: "plain_name (cr_type c)" "plain_name (cr_name c)"
    and d: "enc (stamp now c) = Inr d"
  obtains s' where "cred_put enc root now c s = (Inr (), s')" "cred_inv root s'"
    "cred_get dec root s' (cr_type c) (cr_name c) =
       (case dec d of Inl e \<Rightarrow> Inl (ErrWrap (''yamlstore: parse '' @ cr_type c @ ''/'' @ cr_name c @ '': '') e [])
          | Inr c' \<Rightarrow> Inr c')"
    "\<And>t n. plain_name t \<Longrightarrow> plain_name n \<Longrightarrow> (t, n) \<noteq> (cr_type c, cr_name c) \<Longrightarrow>
       cred_get dec root s' t n = cred_get dec root s t n"
proof -
  let ?t = "cr_type c" and ?n = "cr_name c"
  from i obtain rl where rl: "rooted root rl" "plain_fs (files s)" "dir_free (files s) rl"
    "\<And>t. node_at (files s) (rl @ [t]) = None \<or> is_dir (files s) (rl @ [t])"
    "\<And>t n e. e \<in> {''.yaml'', ''.yaml.tmp''} \<Longrightarrow> \<not> is_dir (files s) (inst_loc rl t n e)"
    by (rule cred_invE) (rule that)
  obtain f m where f: "cred_put enc root now c s = (Inr (), s\<lparr>files := f\<rparr>)" "plain_fs f" "is_dir f (rl @ [?t])"
    "\<And>q. \<not> prefix q (rl @ [?t]) \<Longrightarrow> node_at f q =
       (if q = inst_loc rl ?t ?n ''.yaml'' then Some (Reg m d)
        else if q = inst_loc rl ?t ?n ''.yaml.tmp'' then None else node_at (files s) q)"
    "\<And>q. is_dir f q = (prefix q (rl @ [?t]) \<or> is_dir (files s) q)"
    by (rule cred_put_effect [of root rl s ?t ?n c enc now d, OF rl(1-4) _ refl refl tn d]) (erule rl(5), rule that)
  let ?s = "s\<lparr>files := f\<rparr>"
  have "dir_free f (rl @ [?t])" using f(2,3) by (simp add: dir_freeI plain_fs_def)
  then have df: "dir_free (files ?s) rl" by (auto simp: dir_free_def list_all_iff prefix_type_dir)
  have ty: "node_at (files ?s) (rl @ [t]) = None \<or> is_dir (files ?s) (rl @ [t])" for t
  proof (cases "t = ?t")
    case False
    then have "\<not> prefix (rl @ [t]) (rl @ [?t])" by (auto dest: prefix_length_le)
    moreover have "rl @ [t] \<noteq> inst_loc rl ?t ?n e" for e by (simp add: inst_loc_def)
    ultimately show ?thesis using f(4) [of "rl @ [t]"] f(5) rl(4) [of t] by simp
  qed (use f(3) in simp)
  have nd: "\<not> is_dir (files ?s) (inst_loc rl t n e)" if "e \<in> {''.yaml'', ''.yaml.tmp''}" for t n e
    using rl(5) [OF that] f(5) by simp
  have pf: "plain_fs (files ?s)" using f(2) by simp
  have get: "cred_get dec root ?s t n =
    (case slot ?s (inst_loc rl t n ''.yaml'') of
       None \<Rightarrow> Inl ErrNotFound
     | Some d \<Rightarrow> (case dec d of
           Inl e \<Rightarrow> Inl (ErrWrap (''yamlstore: parse '' @ t @ ''/'' @ n @ '': '') e [])
         | Inr c \<Rightarrow> Inr c))" if "plain_name t" "plain_name n" for t n
    by (rule cred_get_slot [OF rl(1) pf df ty _ that]) (rule nd, simp)
  show thesis
  proof (rule that [OF f(1)])
    show "cred_inv root ?s" unfolding cred_inv_def using rl(1) pf df ty nd by blast
    show "cred_get dec root ?s ?t ?n =
       (case dec d of Inl e \<Rightarrow> Inl (ErrWrap (''yamlstore: parse '' @ ?t @ ''/'' @ ?n @ '': '') e [])
          | Inr c' \<Rightarrow> Inr c')"
      unfolding get [OF tn] using f(4) [of "inst_loc rl ?t ?n ''.yaml''"] by (simp add: slot_def)
    fix t n assume o: "plain_name t" "plain_name n" "(t, n) \<noteq> (?t, ?n)"
    have "slot ?s (inst_loc rl t n ''.yaml'') = slot s (inst_loc rl t n ''.yaml'')"
      using f(4) [of "inst_loc rl t n ''.yaml''"] o(3) by (auto simp: slot_def inst_loc_inj)
    moreover have "cred_get dec root s t n =
    (case slot s (inst_loc rl t n ''.yaml'') of
       None \<Rightarrow> Inl ErrNotFound
     | Some d \<Rightarrow> (case dec d of
           Inl e \<Rightarrow> Inl (ErrWrap (''yamlstore: parse '' @ t @ ''/'' @ n @ '': '') e [])
         | Inr c \<Rightarrow> Inr c))"
      by (rule cred_get_slot [OF rl(1-4) _ o(1,2)]) (rule rl(5), simp)
    ultimately show "cred_get dec root ?s t n = cred_get dec root s t n" unfolding get [OF o(1,2)] by simp
  qed
qed

section \<open>Deleting\<close>

lemma remove_dir_effect:
  assumes "plain_fs (files s)" "\<forall>c\<in>set l. ok_comp c" "l \<noteq> []" "is_dir (files s) l"
  shows "(\<exists>e. os_remove s (abs_path l) = Inl e) \<or>
    (\<exists>f. os_remove s (abs_path l) = Inr (s\<lparr>files := f\<rparr>) \<and> plain_fs f \<and>
       (\<forall>q. node_at f q = (if q = l then None else node_at (files s) q)))"
proof (cases "children (files s) l = []")
  case True
  have "node_at (files s) (butlast l @ [last l]) \<noteq> None" using assms(3,4) by (auto elim: is_dirE)
  then have d: "is_dir (files s) (butlast l)"
    using wf_fs_dir_above [of "files s" "butlast l" "[last l]"] assms(1) by (auto simp: plain_fs_def)
  have "plain_fs (AList.delete l (files s))"
    using assms True by (auto simp: plain_fs_def intro!: wf_fs_delete no_links_delete)
  then show ?thesis
    using assms d True by (auto simp: os_remove_def lresolve_abs split: option.splits)
next
  case False
  have "is_dir (files s) (butlast l)"
  proof -
    have "node_at (files s) (butlast l @ [last l]) \<noteq> None" using assms(3,4) by (auto elim: is_dirE)
    then show ?thesis
      using wf_fs_dir_above [of "files s" "butlast l" "[last l]"] assms(1) by (auto simp: plain_fs_def)
  qed
  then show ?thesis
    using assms False by (auto simp: os_remove_def lresolve_abs split: option.splits)
qed

lemma cred_delete_effect:
  assumes i: "cred_inv root s" and tn: "plain_name t" "plain_name n"
  obtains "cred_delete root s t n = (Inl ErrNotFound, s)" "cred_get dec root s t n = Inl ErrNotFound"
  | s' where "cred_delete root s t n = (Inr (), s')" "cred_inv root s'"
    "cred_get dec root s' t n = Inl ErrNotFound" "cred_get dec root s t n \<noteq> Inl ErrNotFound"
    "\<And>u m. plain_name u \<Longrightarrow> plain_name m \<Longrightarrow> (u, m) \<noteq> (t, n) \<Longrightarrow>
       cred_get dec root s' u m = cred_get dec root s u m"
proof -
  from i obtain rl where rl: "rooted root rl" "plain_fs (files s)" "dir_free (files s) rl"
    "\<And>t. node_at (files s) (rl @ [t]) = None \<or> is_dir (files s) (rl @ [t])"
    "\<And>t n e. e \<in> {''.yaml'', ''.yaml.tmp''} \<Longrightarrow> \<not> is_dir (files s) (inst_loc rl t n e)"
    by (rule cred_invE) (rule that)
  let ?l = "inst_loc rl t n ''.yaml''"
  have ok: "\<forall>c\<in>set ?l. ok_comp c" by (rule inst_loc_ok [OF rl(1) tn]) simp
  have okt: "\<forall>c\<in>set (rl @ [t]). ok_comp c" using rl(1) tn(1) by (simp add: rooted_def plain_name_def)
  note get = cred_get_slot [OF rl(1-4) rl(5)]
  show thesis
  proof (cases "node_at (files s) ?l")
    case None
    then have "os_remove s (abs_path ?l) = Inl (ErrOS ENOENT (abs_path ?l))"
      using rl(2) ok dir_free_snoc [OF rl(3) rl(4)] by (intro remove_absent) auto
    then have "cred_delete root s t n = (Inl ErrNotFound, s)"
      by (simp add: cred_delete_def cred_path_loc [OF rl(1) tn] is_not_exist_def)
    moreover have "cred_get dec root s t n = Inl ErrNotFound"
      using get [of t n dec] tn None by (simp add: slot_def)
    ultimately show thesis by (rule that(1))
  next
    case (Some nd)
    have "\<not> is_dir (files s) ?l" by (rule rl(5)) simp
    then obtain m d where nd: "nd = Reg m d"
      using Some rl(2) no_links_node [of "files s" ?l] by (cases nd) (auto simp: is_dir_def plain_fs_def)
    have "node_at (files s) ((rl @ [t]) @ [n @ ''.yaml'']) = Some nd" using Some by (simp add: inst_loc_def)
    then have dt: "is_dir (files s) (rl @ [t])"
      using wf_fs_dir_above [of "files s" "rl @ [t]" "[n @ ''.yaml'']"] rl(2) by (auto simp: plain_fs_def)
    then have db: "is_dir (files s) (butlast ?l)" by simp
    obtain f where f: "os_remove s (abs_path ?l) = Inr (s\<lparr>files := f\<rparr>)" "plain_fs f"
      "\<And>q. node_at f q = (if q = ?l then None else node_at (files s) q)"
      "\<And>q. is_dir f q = is_dir (files s) q"
      by (rule remove_effect [OF rl(2) ok _ db]) (simp, use Some nd in simp, rule that)
    obtain g where g: "cred_delete root s t n = (Inr (), s\<lparr>files := g\<rparr>)" "plain_fs g"
      "\<And>q. q \<noteq> rl @ [t] \<Longrightarrow> node_at g q = (if q = ?l then None else node_at (files s) q)"
      "node_at g (rl @ [t]) = None \<or> node_at g (rl @ [t]) = node_at (files s) (rl @ [t])"
    proof -
      have "is_dir (files (s\<lparr>files := f\<rparr>)) (rl @ [t])" "plain_fs (files (s\<lparr>files := f\<rparr>))"
        using dt f(2,4) by simp_all
      from remove_dir_effect [OF this(2) okt _ this(1)]
      consider e where "os_remove (s\<lparr>files := f\<rparr>) (abs_path (rl @ [t])) = Inl e"
        | g where "os_remove (s\<lparr>files := f\<rparr>) (abs_path (rl @ [t])) = Inr (s\<lparr>files := g\<rparr>)" "plain_fs g"
            "\<And>q. node_at g q = (if q = rl @ [t] then None else node_at f q)"
        by auto
      then show thesis
      proof cases
        case 1
        then have "cred_delete root s t n = (Inr (), s\<lparr>files := f\<rparr>)"
          using f(1) by (simp add: cred_delete_def cred_path_loc [OF rl(1) tn] type_path_loc [OF rl(1) tn(1)])
        then show thesis using f(2,3) by (intro that [of f]) auto
      next
        case 2
        then have "cred_delete root s t n = (Inr (), s\<lparr>files := g\<rparr>)"
          using f(1) by (simp add: cred_delete_def cred_path_loc [OF rl(1) tn] type_path_loc [OF rl(1) tn(1)])
        then show thesis using 2(2,3) f(3) by (intro that [of g]) auto
      qed
    qed
    let ?s = "s\<lparr>files := g\<rparr>"
    have same_dir: "is_dir g q = is_dir (files s) q" if "q \<noteq> rl @ [t]" for q
      using g(3) [OF that] Some nd by (auto simp: is_dir_def)
    have sub: "is_dir g q \<Longrightarrow> is_dir (files s) q" for q
      using same_dir [of q] dt by (cases "q = rl @ [t]") auto
    have df: "dir_free (files ?s) rl"
    proof -
      have ne: "q \<noteq> rl @ [t]" "q \<noteq> ?l" if "prefix q rl" for q
        using that by (auto dest: prefix_length_le)
      then have "node_at g q = node_at (files s) q \<and> is_dir g q = is_dir (files s) q" if "prefix q rl" for q
        using that g(3) same_dir by auto
      then show ?thesis using rl(3) by (simp add: dir_free_def list_all_iff)
    qed
    have ty: "node_at (files ?s) (rl @ [u]) = None \<or> is_dir (files ?s) (rl @ [u])" for u
    proof (cases "u = t")
      case True
      then show ?thesis using g(4) dt by (auto simp: is_dir_def)
    next
      case False
      then show ?thesis using rl(4) [of u] g(3) [of "rl @ [u]"] same_dir [of "rl @ [u]"] by simp
    qed
    have ndd: "\<not> is_dir (files ?s) (inst_loc rl u m e)" if "e \<in> {''.yaml'', ''.yaml.tmp''}" for u m e
      using rl(5) [OF that] sub by simp blast
    have pf: "plain_fs (files ?s)" using g(2) by simp
    note get' = cred_get_slot [OF rl(1) pf df ty ndd]
    show thesis
    proof (rule that(2) [OF g(1)])
      show "cred_inv root ?s" unfolding cred_inv_def using rl(1) pf df ty ndd by blast
      show "cred_get dec root ?s t n = Inl ErrNotFound"
        using get' [of t n dec] tn g(3) [of ?l] by (simp add: slot_def)
      show "cred_get dec root s t n \<noteq> Inl ErrNotFound"
        using get [of t n dec] tn Some nd by (auto simp: slot_def split: sum.splits)
      fix u m assume o: "plain_name u" "plain_name m" "(u, m) \<noteq> (t, n)"
      have "slot ?s (inst_loc rl u m ''.yaml'') = slot s (inst_loc rl u m ''.yaml'')"
        using g(3) [of "inst_loc rl u m ''.yaml''"] o(3) by (auto simp: slot_def inst_loc_inj)
      then show "cred_get dec root ?s u m = cred_get dec root s u m"
        using get [of u m dec] get' [of u m dec] o(1,2) by simp
    qed
  qed
qed

section \<open>Listing\<close>

lemma list_type_mem:
  "r \<in> set (list_type t es) \<longleftrightarrow>
     (\<exists>name nd. (name, nd) \<in> set es \<and> (\<forall>m. nd \<noteq> Dir m) \<and> suffix ''.yaml'' name \<and>
        r = \<lparr>ir_type = t, ir_name = trim_suffix name ''.yaml''\<rparr>)"
  by (induction t es rule: list_type.induct) (auto split: node.splits)

lemma list_types_mem:
  "r \<in> set (list_types root s ts) \<longleftrightarrow>
     (\<exists>t m es. (t, Dir m) \<in> set ts \<and> os_read_dir s (path_join [root, t]) = Inr es \<and> r \<in> set (list_type t es))"
proof (induction ts)
  case (Cons x ts)
  obtain t nd where x: "x = (t, nd)" by fastforce
  show ?case
  proof (cases nd)
    case (Dir m)
    then show ?thesis using Cons
      by (cases "os_read_dir s (path_join [root, t])") (auto simp: x)
  qed (use Cons in \<open>auto simp: x\<close>)
qed simp

lemma sort_key_sorted: "sorted (map f (sort_key f xs))"
  by simp

lemma suffix_trim: "suffix e name \<longleftrightarrow> (\<exists>n. name = n @ e)"
  by (auto simp: suffix_def)

lemma cred_list_set:
  assumes i: "cred_inv root s"
  obtains refs where "cred_list root s = Inr refs" "sorted (map ref_key refs)"
    "\<And>r. r \<in> set refs \<longleftrightarrow>
       (\<exists>m d rl. rooted root rl \<and> node_at (files s) (inst_loc rl (ir_type r) (ir_name r) ''.yaml'') = Some (Reg m d))"
proof -
  from i obtain rl where rl: "rooted root rl" "plain_fs (files s)" "dir_free (files s) rl"
    "\<And>t. node_at (files s) (rl @ [t]) = None \<or> is_dir (files s) (rl @ [t])"
    "\<And>t n e. e \<in> {''.yaml'', ''.yaml.tmp''} \<Longrightarrow> \<not> is_dir (files s) (inst_loc rl t n e)"
    by (rule cred_invE) (rule that)
  have ok: "\<forall>c\<in>set rl. ok_comp c" and root: "root = abs_path rl" using rl(1) by (simp_all add: rooted_def)
  have uniq: "rl' = rl" if "rooted root rl'" for rl'
  proof -
    have "\<forall>c\<in>set rl'. comp_like c" "\<forall>c\<in>set rl. comp_like c" "abs_path rl' = abs_path rl"
      using that ok root by (auto simp: rooted_def ok_comp_like)
    then show ?thesis by (rule abs_path_inj)
  qed
  show thesis
  proof (cases "node_at (files s) rl")
    case None
    have "prefix q rl" if "prefix q (butlast rl)" for q
      using that prefixeq_butlast by (rule prefix_order.trans)
    then have "dir_free (files s) (butlast rl)"
      using rl(3) by (auto simp: dir_free_def list_all_iff)
    then have "os_read_dir s (abs_path rl) = Inl (ErrOS ENOENT (abs_path rl))"
      by (intro read_dir_absent [OF rl(2) ok None])
    then have "cred_list root s = Inr []" using root by (simp add: cred_list_def is_not_exist_def)
    moreover have "node_at (files s) (inst_loc rl t n e) = None" for t n e
    proof -
      have "node_at (files s) (rl @ [t]) = None"
        using node_below_absent [of "files s" rl t] None rl(2) by (simp add: plain_fs_def)
      then have "node_at (files s) ((rl @ [t]) @ [n @ e]) = None"
        by (rule node_below_absent [rotated]) (use rl(2) in \<open>simp add: plain_fs_def\<close>)
      then show ?thesis by (simp add: inst_loc_def)
    qed
    ultimately show thesis using uniq by (intro that [of "[]"]) (auto dest!: uniq)
  next
    case (Some nd)
    have "node_at (files s) rl = None \<or> is_dir (files s) rl"
      using rl(3) by (simp add: dir_free_def list_all_iff)
    with Some have d: "is_dir (files s) rl" by simp
    obtain ts where ts: "os_read_dir s (abs_path rl) = Inr ts"
      "\<And>c nd. (c, nd) \<in> set ts \<longleftrightarrow> node_at (files s) (rl @ [c]) = Some nd"
      by (rule read_dir_entries [OF rl(2) ok d]) (rule that)
    have each: "(\<exists>es. os_read_dir s (path_join [root, t]) = Inr es \<and> r \<in> set (list_type t es)) \<longleftrightarrow>
        ir_type r = t \<and> (\<exists>m d. node_at (files s) (inst_loc rl t (ir_name r) ''.yaml'') = Some (Reg m d))"
      if t: "node_at (files s) (rl @ [t]) = Some (Dir m0)" for t m0 r
    proof -
      have okt: "\<forall>c\<in>set (rl @ [t]). ok_comp c"
        using wf_fs_entry [of "files s" "rl @ [t]"] t rl(2) by (simp add: plain_fs_def)
      have p: "path_join [root, t] = abs_path (rl @ [t])"
        unfolding root using path_join_abs_single [OF ok, of "[t]"] okt by simp
      have dt: "is_dir (files s) (rl @ [t])" using t by (rule is_dirI)
      obtain es where es: "os_read_dir s (abs_path (rl @ [t])) = Inr es"
        "\<And>c nd. (c, nd) \<in> set es \<longleftrightarrow> node_at (files s) ((rl @ [t]) @ [c]) = Some nd"
        by (rule read_dir_entries [OF rl(2) okt dt]) (rule that)
      have nl: "node_at (files s) q \<noteq> Some (Link x)" for q x
        using no_links_node [of "files s"] rl(2) by (simp add: plain_fs_def)
      have "r \<in> set (list_type t es) \<longleftrightarrow>
          ir_type r = t \<and> (\<exists>m d. node_at (files s) (inst_loc rl t (ir_name r) ''.yaml'') = Some (Reg m d))"
      proof
        assume "r \<in> set (list_type t es)"
        then obtain n nd where n: "(n @ ''.yaml'', nd) \<in> set es" "\<forall>m. nd \<noteq> Dir m"
          "r = \<lparr>ir_type = t, ir_name = n\<rparr>"
          by (auto simp: list_type_mem suffix_trim)
        then have "node_at (files s) (inst_loc rl t n ''.yaml'') = Some nd"
          using es(2) by (simp add: inst_loc_def)
        with n nl show "ir_type r = t \<and> (\<exists>m d. node_at (files s) (inst_loc rl t (ir_name r) ''.yaml'') = Some (Reg m d))"
          by (cases nd) auto
      next
        assume a: "ir_type r = t \<and> (\<exists>m d. node_at (files s) (inst_loc rl t (ir_name r) ''.yaml'') = Some (Reg m d))"
        then obtain m d where "(ir_name r @ ''.yaml'', Reg m d) \<in> set es"
          using es(2) by (auto simp: inst_loc_def)
        with a show "r \<in> set (list_type t es)" unfolding list_type_mem suffix_trim by force
      qed
      with es(1) p show ?thesis by auto
    qed
    have mem: "r \<in> set (list_types root s ts) \<longleftrightarrow>
        (\<exists>m d. node_at (files s) (inst_loc rl (ir_type r) (ir_name r) ''.yaml'') = Some (Reg m d))" for r
    proof
      assume "r \<in> set (list_types root s ts)"
      then obtain t m es where "node_at (files s) (rl @ [t]) = Some (Dir m)"
        "os_read_dir s (path_join [root, t]) = Inr es" "r \<in> set (list_type t es)"
        by (auto simp: list_types_mem ts(2))
      with each [of t m r] show "\<exists>m d. node_at (files s) (inst_loc rl (ir_type r) (ir_name r) ''.yaml'') = Some (Reg m d)"
        by auto
    next
      assume a: "\<exists>m d. node_at (files s) (inst_loc rl (ir_type r) (ir_name r) ''.yaml'') = Some (Reg m d)"
      then have "is_dir (files s) (rl @ [ir_type r])"
        using wf_fs_dir_above [of "files s" "rl @ [ir_type r]" "[ir_name r @ ''.yaml'']"] rl(2)
        by (auto simp: plain_fs_def inst_loc_def)
      then obtain m0 where m0: "node_at (files s) (rl @ [ir_type r]) = Some (Dir m0)" by (rule is_dirE)
      from each [OF m0, of r] a m0 show "r \<in> set (list_types root s ts)"
        unfolding list_types_mem ts(2) by blast
    qed
    show thesis
    proof (rule that)
      show "cred_list root s = Inr (sort_key ref_key (list_types root s ts))"
        using ts(1) root by (simp add: cred_list_def)
      show "sorted (map ref_key (sort_key ref_key (list_types root s ts)))" by (rule sort_key_sorted)
      show "r \<in> set (sort_key ref_key (list_types root s ts)) \<longleftrightarrow>
       (\<exists>m d rl. rooted root rl \<and> node_at (files s) (inst_loc rl (ir_type r) (ir_name r) ''.yaml'') = Some (Reg m d))" for r
      proof -
        have "r \<in> set (sort_key ref_key (list_types root s ts)) \<longleftrightarrow> r \<in> set (list_types root s ts)" by simp
        then show ?thesis unfolding mem using rl(1) uniq by metis
      qed
    qed
  qed
qed

section \<open>Properties\<close>

text \<open>
  C1. Storing a credential under a plain type and name and reading it back gives the credential
  with its time stamps set (the creation time only if it had none), leaves every other instance
  as it was, and keeps the store usable, for every credential its YAML form keeps.
\<close>

theorem cred_put_get:
  assumes "cred_inv root s" "plain_name (cr_type c)" "plain_name (cr_name c)" "yaml_keeps enc dec (stamp now c)"
  shows "\<exists>s'. cred_put enc root now c s = (Inr (), s') \<and> cred_inv root s' \<and>
    cred_get dec root s' (cr_type c) (cr_name c) = Inr (stamp now c) \<and>
    (\<forall>t n. plain_name t \<longrightarrow> plain_name n \<longrightarrow> (t, n) \<noteq> (cr_type c, cr_name c) \<longrightarrow>
       cred_get dec root s' t n = cred_get dec root s t n)"
proof -
  from assms(4) obtain d where d: "enc (stamp now c) = Inr d" "dec d = Inr (stamp now c)"
    by (auto simp: yaml_keeps_def split: sum.splits)
  obtain s' where "cred_put enc root now c s = (Inr (), s')" "cred_inv root s'"
    "cred_get dec root s' (cr_type c) (cr_name c) =
       (case dec d of Inl e \<Rightarrow> Inl (ErrWrap (''yamlstore: parse '' @ cr_type c @ ''/'' @ cr_name c @ '': '') e [])
          | Inr c' \<Rightarrow> Inr c')"
    "\<And>t n. plain_name t \<Longrightarrow> plain_name n \<Longrightarrow> (t, n) \<noteq> (cr_type c, cr_name c) \<Longrightarrow>
       cred_get dec root s' t n = cred_get dec root s t n"
    by (rule cred_put_inv [of root s c enc now d dec, OF assms(1-3) d(1)]) (rule that)
  with d(2) show ?thesis by auto
qed

definition ex_cred :: credential where
  "ex_cred = \<lparr>cr_type = ''email'', cr_name = ''work'', cr_values = [''user'' \<mapsto> GStr ''ada''],
     cr_created = 0, cr_updated = 0\<rparr>"

definition ex_enc :: yaml_enc where
  "ex_enc c = Inr (v_string (cr_values c) ''user'')"

definition ex_dec :: yaml_dec where
  "ex_dec d = Inr (stamp 7 (ex_cred\<lparr>cr_values := [''user'' \<mapsto> GStr d]\<rparr>))"

lemma ex_cred_inv: "cred_inv (abs_path [''s'']) ex_store_os"
  unfolding cred_inv_def
  by (rule exI [of _ "[''s'']"])
     (simp add: rooted_def ok_comp_def ex_store_os_def plain_fs_def wf_fs_def no_links_def dir_free_def
        node_at_def is_dir_def inst_loc_def)

theorem cred_put_get_witness:
  "\<exists>s'. cred_put ex_enc (abs_path [''s'']) 7 ex_cred ex_store_os = (Inr (), s') \<and>
     cred_get ex_dec (abs_path [''s'']) s' ''email'' ''work'' = Inr (stamp 7 ex_cred)"
proof -
  have "plain_name (cr_type ex_cred)" "plain_name (cr_name ex_cred)"
    by (simp_all add: ex_cred_def plain_name_def ok_comp_def)
  moreover have "yaml_keeps ex_enc ex_dec (stamp 7 ex_cred)"
    by (simp add: yaml_keeps_def ex_enc_def ex_dec_def ex_cred_def stamp_def Let_def is_zero_time_def)
  ultimately have "\<exists>s'. cred_put ex_enc (abs_path [''s'']) 7 ex_cred ex_store_os = (Inr (), s') \<and>
     cred_get ex_dec (abs_path [''s'']) s' (cr_type ex_cred) (cr_name ex_cred) = Inr (stamp 7 ex_cred)"
    using cred_put_get [OF ex_cred_inv] by blast
  then show ?thesis by (simp add: ex_cred_def)
qed

text \<open>
  C14. Deleting an instance: a missing one is reported as not found and nothing changes; otherwise
  the call succeeds, the instance is gone, every other instance reads as before (whether or not
  the emptied directory of its type was pruned), and the store stays usable.
\<close>

theorem cred_delete_spec:
  assumes "cred_inv root s" "plain_name t" "plain_name n"
  shows "if cred_get dec root s t n = Inl ErrNotFound
    then cred_delete root s t n = (Inl ErrNotFound, s)
    else \<exists>s'. cred_delete root s t n = (Inr (), s') \<and> cred_inv root s' \<and>
      cred_get dec root s' t n = Inl ErrNotFound \<and>
      (\<forall>u m. plain_name u \<longrightarrow> plain_name m \<longrightarrow> (u, m) \<noteq> (t, n) \<longrightarrow>
         cred_get dec root s' u m = cred_get dec root s u m)"
  by (rule cred_delete_effect [OF assms, of dec]) auto

theorem cred_delete_spec_witness:
  "cred_delete (abs_path [''s'']) ex_store_os ''email'' ''work'' = (Inl ErrNotFound, ex_store_os)"
proof -
  have p: "plain_name ''email''" "plain_name ''work''" by (simp_all add: plain_name_def ok_comp_def)
  have "os_read_file ex_store_os (cred_path (abs_path [''s'']) ''email'' ''work'') =
      Inl (ErrOS ENOENT ''/s/email/work.yaml'')"
    by code_simp
  then have "cred_get ex_dec (abs_path [''s'']) ex_store_os ''email'' ''work'' = Inl ErrNotFound"
    by (simp add: cred_get_def is_not_exist_def)
  with cred_delete_spec [OF ex_cred_inv p, of ex_dec] show ?thesis by simp
qed

text \<open>
  C13. \<open>List\<close> is complete and sound: on a usable store it succeeds, its references are in order of
  type and name, and an instance with a plain type and name is listed exactly if \<open>Get\<close> does not
  report it missing.
\<close>

theorem cred_list_complete:
  assumes "cred_inv root s"
  shows "\<exists>refs. cred_list root s = Inr refs \<and> sorted (map ref_key refs) \<and>
    (\<forall>t n. plain_name t \<longrightarrow> plain_name n \<longrightarrow>
       ((t, n) \<in> set (map ref_key refs) \<longleftrightarrow> cred_get dec root s t n \<noteq> Inl ErrNotFound))"
proof -
  from assms obtain rl where rl: "rooted root rl" "plain_fs (files s)" "dir_free (files s) rl"
    "\<And>t. node_at (files s) (rl @ [t]) = None \<or> is_dir (files s) (rl @ [t])"
    "\<And>t n e. e \<in> {''.yaml'', ''.yaml.tmp''} \<Longrightarrow> \<not> is_dir (files s) (inst_loc rl t n e)"
    by (rule cred_invE) (rule that)
  obtain refs where refs: "cred_list root s = Inr refs" "sorted (map ref_key refs)"
    "\<And>r. r \<in> set refs \<longleftrightarrow>
       (\<exists>m d rl. rooted root rl \<and> node_at (files s) (inst_loc rl (ir_type r) (ir_name r) ''.yaml'') = Some (Reg m d))"
    by (rule cred_list_set [OF assms]) (rule that)
  have uniq: "rl' = rl" if "rooted root rl'" for rl'
    using that rl(1) by (intro abs_path_inj) (auto simp: rooted_def ok_comp_like)
  have key: "(t, n) \<in> set (map ref_key refs) \<longleftrightarrow> (\<exists>m d. node_at (files s) (inst_loc rl t n ''.yaml'') = Some (Reg m d))"
    for t n
  proof
    assume "(t, n) \<in> set (map ref_key refs)"
    then show "\<exists>m d. node_at (files s) (inst_loc rl t n ''.yaml'') = Some (Reg m d)"
      using refs(3) uniq by (fastforce simp: ref_key_def)
  next
    assume "\<exists>m d. node_at (files s) (inst_loc rl t n ''.yaml'') = Some (Reg m d)"
    then have "\<lparr>ir_type = t, ir_name = n\<rparr> \<in> set refs" using refs(3) rl(1) by auto
    then show "(t, n) \<in> set (map ref_key refs)" by (force simp: ref_key_def)
  qed
  have "cred_get dec root s t n \<noteq> Inl ErrNotFound \<longleftrightarrow>
      (\<exists>m d. node_at (files s) (inst_loc rl t n ''.yaml'') = Some (Reg m d))"
    if p: "plain_name t" "plain_name n" for t n
  proof -
    have "cred_get dec root s t n =
      (case slot s (inst_loc rl t n ''.yaml'') of
         None \<Rightarrow> Inl ErrNotFound
       | Some d \<Rightarrow> (case dec d of
             Inl e \<Rightarrow> Inl (ErrWrap (''yamlstore: parse '' @ t @ ''/'' @ n @ '': '') e [])
           | Inr c \<Rightarrow> Inr c))"
      by (rule cred_get_slot [OF rl(1-4) _ p]) (rule rl(5), simp)
    then show ?thesis
      by (auto simp: slot_def split: option.splits node.splits sum.splits)
  qed
  with key have "(t, n) \<in> set (map ref_key refs) \<longleftrightarrow> cred_get dec root s t n \<noteq> Inl ErrNotFound"
    if "plain_name t" "plain_name n" for t n using that by simp
  with refs(1,2) show ?thesis by (intro exI [of _ refs]) (simp del: set_map)
qed

theorem cred_list_complete_witness:
  "\<exists>refs. cred_list (abs_path [''s'']) ex_store_os = Inr refs \<and> sorted (map ref_key refs)"
  using cred_list_complete [OF ex_cred_inv, of ex_dec] by blast

text \<open>
  Names are not sanitised: below an absolute root, the instance of any type \<open>t\<close> with the name
  \<open>../u/n\<close> is the file of the instance \<open>n\<close> of type \<open>u\<close>, so a caller who may choose a name reads,
  overwrites and deletes credentials of other types.
\<close>

theorem name_traversal_alias:
  assumes "rooted root rl" "plain_name t" "plain_name u" "plain_name n"
  shows "cred_path root t (''../'' @ u @ CHR ''/'' # n) = cred_path root u n"
proof -
  have r: "clean_root root" "raw_comps root = rl"
    using assms(1) by (auto simp: rooted_def clean_root_abs_path raw_comps_abs_path ok_comp_like)
  have c: "raw_comps t = [t]" "raw_comps u = [u]" "raw_comps (n @ ''.yaml'') = [n @ ''.yaml'']"
    using assms(2-4) yaml_comp(1) [of n] by (simp_all add: plain_name_def raw_comps_single)
  have d: "raw_comps ((''../'' @ u @ CHR ''/'' # n) @ ''.yaml'') = [''..'', u, n @ ''.yaml'']"
  proof -
    have dd: "raw_comps ''..'' = [''..'']" by (simp add: raw_comps_def)
    have "raw_comps (''..'' @ CHR ''/'' # (u @ CHR ''/'' # (n @ ''.yaml''))) = [''..'', u, n @ ''.yaml'']"
      unfolding raw_comps_append c dd by simp
    then show ?thesis by simp
  qed
  have ne: "t \<noteq> ''..''" "u \<noteq> ''..''" "n @ ''.yaml'' \<noteq> ''..''" "\<forall>x\<in>set rl. x \<noteq> ''..''"
    using assms yaml_comp(1) [of n] by (auto simp: plain_name_def ok_comp_def rooted_def)
  show ?thesis
    unfolding cred_path_def path_join_root [OF r(1)] r(2) list.map c d using ne by simp
qed

theorem name_traversal_alias_witness:
  "cred_path (abs_path [''s'']) ''email'' (''../'' @ ''telegram'' @ CHR ''/'' # ''bot'') =
     cred_path (abs_path [''s'']) ''telegram'' ''bot''"
  by (rule name_traversal_alias [of _ "[''s'']"]) (simp_all add: rooted_def plain_name_def ok_comp_def)

end
