(* ===== verification/Vault.thy ===== *)
theory Vault
  imports Codec FileSystem Contract
begin

text \<open>
  \<open>secrets/\<close>: the master key and the encryption of secret fields (\<open>vault.go\<close>), and the sealing of
  the secret fields of a bag of values along its schema (\<open>values.go\<close>).

  The cipher \<open>golang.org/x/crypto/nacl/secretbox\<close> is not part of the repository: its two functions
  are the arguments \<open>sbx\<close> (message, nonce, key) and \<open>sbo\<close> (box, nonce, key), and the one law the
  code relies on is \<open>secretbox_law\<close>. The source of randomness is a finite pool of bytes that is
  consumed; an exhausted pool is a failing \<open>rand.Reader\<close>. A pointer to a vault is an option.
\<close>

type_synonym pool = string
type_synonym sealer = "string \<Rightarrow> string \<Rightarrow> string \<Rightarrow> string"
type_synonym opener = "string \<Rightarrow> string \<Rightarrow> string \<Rightarrow> string option"

record vault =
  v_key :: string

definition secretbox_law :: "sealer \<Rightarrow> opener \<Rightarrow> bool" where
  "secretbox_law sbx sbo = (\<forall>m n k. sbo (sbx m n k) n k = Some m)"

text \<open>\<open>io.ReadFull\<close> into a buffer of \<open>n\<close> bytes.\<close>

definition read_full :: "nat \<Rightarrow> pool \<Rightarrow> string res \<times> pool" where
  "read_full n r =
     (if n \<le> length r then (Inr (take n r), drop n r)
      else (Inl (ErrMsg (if r = [] then ''EOF'' else ''unexpected EOF'')), []))"

section \<open>The vault\<close>

definition sealed_prefix :: string where "sealed_prefix = ''sealed:''"
definition key_env :: string where "key_env = ''PGF_MASTER_KEY''"
definition key_dir_env :: string where "key_dir_env = ''PGF_KEY_DIR''"

definition is_sealed :: "string \<Rightarrow> bool" where
  "is_sealed s = prefix sealed_prefix s"

definition vault_seal :: "sealer \<Rightarrow> vault option \<Rightarrow> string \<Rightarrow> pool \<Rightarrow> string res \<times> pool" where
  "vault_seal sbx v plaintext r =
     (case v of
        None \<Rightarrow> (Inl (ErrMsg ''secrets: nil vault''), r)
      | Some v \<Rightarrow>
          (case read_full 24 r of
             (Inl e, r') \<Rightarrow> (Inl e, r')
           | (Inr nonce, r') \<Rightarrow>
               (let box = nonce @ sbx plaintext nonce (v_key v)
                in (Inr (sealed_prefix @ b64_encode box), r'))))"

definition vault_open :: "opener \<Rightarrow> vault option \<Rightarrow> string \<Rightarrow> string res" where
  "vault_open sbo v s =
     (if \<not> is_sealed s then Inr s
      else case v of
        None \<Rightarrow> Inl (ErrMsg ''secrets: nil vault'')
      | Some v \<Rightarrow>
          (case b64_decode (trim_prefix s sealed_prefix) of
             None \<Rightarrow> Inl (ErrWrap ''secrets: base64: '' (ErrMsg ''illegal base64 data'') [])
           | Some raw \<Rightarrow>
               (if length raw < 24 then Inl (ErrMsg ''secrets: sealed value too short'')
                else case sbo (drop 24 raw) (take 24 raw) (v_key v) of
                  None \<Rightarrow> Inl (ErrMsg ''secrets: decryption failed (wrong key?)'')
                | Some out \<Rightarrow> Inr out)))"

definition decode_key :: "string \<Rightarrow> string res" where
  "decode_key s =
     (case b64_decode s of
        None \<Rightarrow> Inl (ErrMsg ''illegal base64 data'')
      | Some raw \<Rightarrow>
          (if length raw \<noteq> 32 then
             Inl (ErrMsg (''master key must be 32 bytes, got '' @ itoa (int (length raw))))
           else Inr raw))"

definition user_home_dir :: "osys \<Rightarrow> string res" where
  "user_home_dir s =
     (case home_dir s of None \<Rightarrow> Inl (ErrMsg ''$HOME is not defined'') | Some h \<Rightarrow> Inr h)"

definition key_path :: "osys \<Rightarrow> string res" where
  "key_path s =
     (if getenv s key_dir_env \<noteq> [] then Inr (path_join [getenv s key_dir_env, ''master.key''])
      else if getenv s ''XDG_CONFIG_HOME'' \<noteq> [] then
        Inr (path_join [getenv s ''XDG_CONFIG_HOME'', ''pgf'', ''master.key''])
      else case user_home_dir s of
        Inl e \<Rightarrow> Inl e
      | Inr home \<Rightarrow> Inr (path_join [home, ''.config'', ''pgf'', ''master.key'']))"

definition vault_create :: "string \<Rightarrow> osys \<Rightarrow> pool \<Rightarrow> vault res \<times> osys \<times> pool" where
  "vault_create path s r =
     (case os_mkdir_all s (path_dir path) 448 of
        Inl e \<Rightarrow> (Inl e, s, r)
      | Inr s1 \<Rightarrow>
          (case read_full 32 r of
             (Inl e, r') \<Rightarrow> (Inl e, s1, r')
           | (Inr k, r') \<Rightarrow>
               (case os_write_file s1 path (b64_encode k @ [CHR 0x0A]) 384 of
                  Inl e \<Rightarrow> (Inl e, s1, r')
                | Inr s2 \<Rightarrow> (Inr \<lparr>v_key = k\<rparr>, s2, r'))))"

definition vault_load :: "osys \<Rightarrow> pool \<Rightarrow> vault res \<times> osys \<times> pool" where
  "vault_load s r =
     (if getenv s key_env \<noteq> [] then
        (case decode_key (getenv s key_env) of
           Inl e \<Rightarrow> (Inl (ErrWrap (''secrets: $'' @ key_env @ '': '') e []), s, r)
         | Inr k \<Rightarrow> (Inr \<lparr>v_key = k\<rparr>, s, r))
      else case key_path s of
        Inl e \<Rightarrow> (Inl e, s, r)
      | Inr path \<Rightarrow>
          (case os_read_file s path of
             Inl e \<Rightarrow>
               (if is_not_exist e then vault_create path s r
                else (Inl (ErrWrap (''secrets: read '' @ path @ '': '') e []), s, r))
           | Inr d \<Rightarrow>
               (case decode_key (trim_space d) of
                  Inl e \<Rightarrow> (Inl (ErrWrap (''secrets: parse '' @ path @ '': '') e []), s, r)
                | Inr k \<Rightarrow> (Inr \<lparr>v_key = k\<rparr>, s, r))))"

section \<open>Bags of values\<close>

text \<open>The loops over the fields, on the copy \<open>out\<close> of the values.\<close>

fun seal_fields :: "sealer \<Rightarrow> vault option \<Rightarrow> schema \<Rightarrow> vals \<Rightarrow> pool \<Rightarrow> vals res \<times> pool" where
  "seal_fields sbx v [] out r = (Inr out, r)"
| "seal_fields sbx v (f # fs) out r =
     (if f_kind f \<noteq> FieldSecret then seal_fields sbx v fs out r
      else case out (f_name f) of
        Some (GStr s) \<Rightarrow>
          (if s = [] \<or> is_sealed s then seal_fields sbx v fs out r
           else case vault_seal sbx v s r of
             (Inl e, r') \<Rightarrow> (Inl (ErrWrap (''seal '' @ f_name f @ '': '') e []), r')
           | (Inr c, r') \<Rightarrow> seal_fields sbx v fs (out(f_name f \<mapsto> GStr c)) r')
      | _ \<Rightarrow> seal_fields sbx v fs out r)"

definition seal_values :: "sealer \<Rightarrow> vault option \<Rightarrow> schema \<Rightarrow> vals \<Rightarrow> pool \<Rightarrow> vals res \<times> pool" where
  "seal_values sbx v schema vs r = seal_fields sbx v schema vs r"

fun open_fields :: "opener \<Rightarrow> vault option \<Rightarrow> schema \<Rightarrow> vals \<Rightarrow> vals res" where
  "open_fields sbo v [] out = Inr out"
| "open_fields sbo v (f # fs) out =
     (if f_kind f \<noteq> FieldSecret then open_fields sbo v fs out
      else case out (f_name f) of
        Some (GStr s) \<Rightarrow>
          (if s = [] then open_fields sbo v fs out
           else case vault_open sbo v s of
             Inl e \<Rightarrow> Inl (ErrWrap (''open '' @ f_name f @ '': '') e [])
           | Inr t \<Rightarrow> open_fields sbo v fs (out(f_name f \<mapsto> GStr t)))
      | _ \<Rightarrow> open_fields sbo v fs out)"

definition open_values :: "opener \<Rightarrow> vault option \<Rightarrow> schema \<Rightarrow> vals \<Rightarrow> vals res" where
  "open_values sbo v schema vs = open_fields sbo v schema vs"

section \<open>Lemmas\<close>

named_theorems vault_simps

lemma read_full_ok [vault_simps]: "n \<le> length r \<Longrightarrow> read_full n r = (Inr (take n r), drop n r)"
  by (simp add: read_full_def)

lemma is_sealed_seal [simp, vault_simps]: "is_sealed (sealed_prefix @ x)"
  by (simp add: is_sealed_def)

lemma not_sealed_Nil [simp]: "\<not> is_sealed []"
  by (simp add: is_sealed_def sealed_prefix_def)

lemma vault_open_plain [simp, vault_simps]: "\<not> is_sealed s \<Longrightarrow> vault_open sbo v s = Inr s"
  by (simp add: vault_open_def)

text \<open>What the sealing of one plaintext produces, and that opening inverts it.\<close>

lemma vault_seal_ok:
  "24 \<le> length r \<Longrightarrow>
   vault_seal sbx (Some v) m r =
     (Inr (sealed_prefix @ b64_encode (take 24 r @ sbx m (take 24 r) (v_key v))), drop 24 r)"
  by (simp add: vault_seal_def read_full_ok Let_def)

lemma vault_seal_SomeD:
  "vault_seal sbx v m r = (Inr c, r') \<Longrightarrow>
   \<exists>w. v = Some w \<and> 24 \<le> length r \<and> r' = drop 24 r \<and>
     c = sealed_prefix @ b64_encode (take 24 r @ sbx m (take 24 r) (v_key w))"
  by (auto simp: vault_seal_def read_full_def Let_def split: option.splits if_splits)

lemma vault_open_seal:
  "secretbox_law sbx sbo \<Longrightarrow> vault_seal sbx v m r = (Inr c, r') \<Longrightarrow>
   is_sealed c \<and> vault_open sbo v c = Inr m"
  by (drule vault_seal_SomeD)
     (auto simp: vault_open_def b64_decode_encode secretbox_law_def)

text \<open>
  What one key holds after \<open>SealValues\<close>: only a secret field with a non-empty plaintext changes,
  to a sealed string that opens to it.
\<close>

definition to_seal :: "schema \<Rightarrow> vals \<Rightarrow> string \<Rightarrow> string option" where
  "to_seal s v k =
     (case v k of
        Some (GStr x) \<Rightarrow>
          (if x \<noteq> [] \<and> \<not> is_sealed x \<and> (\<exists>f\<in>set s. f_kind f = FieldSecret \<and> f_name f = k)
           then Some x else None)
      | _ \<Rightarrow> None)"

definition sealed_as :: "opener \<Rightarrow> vault option \<Rightarrow> string \<Rightarrow> gval option \<Rightarrow> bool" where
  "sealed_as sbo v x y = (\<exists>c. y = Some (GStr c) \<and> is_sealed c \<and> vault_open sbo v c = Inr x)"

lemma to_seal_Nil [simp]: "to_seal [] v k = None"
  by (simp add: to_seal_def split: option.splits gval.splits)

lemma to_seal_same: "v k = w k \<Longrightarrow> to_seal s v k = to_seal s w k"
  by (simp add: to_seal_def)

lemma to_seal_Cons:
  "to_seal (f # fs) v k =
     (case to_seal fs v k of
        Some x \<Rightarrow> Some x
      | None \<Rightarrow> (if f_kind f = FieldSecret \<and> f_name f = k then
                  (case v k of
                     Some (GStr x) \<Rightarrow> (if x \<noteq> [] \<and> \<not> is_sealed x then Some x else None)
                   | _ \<Rightarrow> None)
                else None))"
  by (auto simp: to_seal_def split: option.splits gval.splits)

lemma seal_fields_at:
  assumes "secretbox_law sbx sbo"
  shows "seal_fields sbx v fs vs r = (Inr out, r') \<Longrightarrow>
    (case to_seal fs vs k of
       Some x \<Rightarrow> sealed_as sbo v x (out k)
     | None \<Rightarrow> out k = vs k)"
proof (induction fs arbitrary: vs r)
  case Nil
  then show ?case by simp
next
  case (Cons f fs)
  show ?case
  proof (cases "f_kind f = FieldSecret \<and> (\<exists>s. vs (f_name f) = Some (GStr s) \<and> s \<noteq> [] \<and> \<not> is_sealed s)")
    case False
    then have "seal_fields sbx v fs vs r = (Inr out, r')"
      using Cons.prems by (auto split: option.splits gval.splits if_splits)
    from Cons.IH [OF this] False show ?thesis
      by (auto simp: to_seal_Cons split: option.splits gval.splits if_splits)
  next
    case True
    then obtain s where s: "f_kind f = FieldSecret" "vs (f_name f) = Some (GStr s)" "s \<noteq> []" "\<not> is_sealed s"
      by blast
    with Cons.prems obtain c r1 where c: "vault_seal sbx v s r = (Inr c, r1)"
      and out: "seal_fields sbx v fs (vs(f_name f \<mapsto> GStr c)) r1 = (Inr out, r')"
      by (auto split: prod.splits sum.splits)
    have sc: "is_sealed c" "vault_open sbo v c = Inr s"
      using vault_open_seal [OF assms c] by auto
    note ih = Cons.IH [OF out]
    show ?thesis
    proof (cases "k = f_name f")
      case True
      then have n: "to_seal fs (vs(f_name f \<mapsto> GStr c)) k = None"
        using sc by (simp add: to_seal_def)
      have "out k = Some (GStr c)" using ih unfolding n using True by simp
      moreover have "to_seal (f # fs) vs k = Some s"
        using s True by (auto simp: to_seal_def)
      ultimately show ?thesis using sc by (simp add: sealed_as_def)
    next
      case False
      have "to_seal fs (vs(f_name f \<mapsto> GStr c)) k = to_seal fs vs k"
        by (rule to_seal_same) (use False in simp)
      moreover have "to_seal (f # fs) vs k = to_seal fs vs k"
        using False by (auto simp: to_seal_Cons split: option.splits)
      moreover have "(vs(f_name f \<mapsto> GStr c)) k = vs k" using False by simp
      ultimately show ?thesis using ih by (simp only:)
    qed
  qed
qed

lemma seal_fields_total:
  "24 * length fs \<le> length r \<Longrightarrow> \<exists>out r'. seal_fields sbx (Some v) fs vs r = (Inr out, r')"
proof (induction fs arbitrary: vs r)
  case Nil
  then show ?case by simp
next
  case (Cons f fs)
  from Cons.prems have "24 * length fs \<le> length r" "24 * length fs \<le> length (drop 24 r)" "24 \<le> length r"
    by auto
  with Cons.IH show ?case
    by (auto simp: vault_seal_ok split: option.splits gval.splits)
qed

text \<open>\<open>OpenValues\<close> at one key, and its effect on what \<open>SealValues\<close> made.\<close>

definition opened_at :: "opener \<Rightarrow> vault option \<Rightarrow> schema \<Rightarrow> vals \<Rightarrow> string \<Rightarrow> gval option" where
  "opened_at sbo v s vs k =
     (case vs k of
        Some (GStr x) \<Rightarrow>
          (if \<exists>f\<in>set s. f_kind f = FieldSecret \<and> f_name f = k then
             (case vault_open sbo v x of Inr y \<Rightarrow> Some (GStr y) | Inl _ \<Rightarrow> None)
           else Some (GStr x))
      | y \<Rightarrow> y)"

text \<open>
  A secret that stays sealed after opening would be opened again when its field name occurs twice
  in the schema; schemas have distinct names.
\<close>

lemma opened_at_same: "vs k = ws k \<Longrightarrow> opened_at sbo v s vs k = opened_at sbo v s ws k"
  by (simp add: opened_at_def)

lemma opened_at_fresh:
  "k \<notin> f_name ` set s \<Longrightarrow> opened_at sbo v s vs k = vs k"
  by (auto simp: opened_at_def image_iff split: option.splits gval.splits)

lemma opened_at_skip:
  "f_name f \<noteq> k \<or> f_kind f \<noteq> FieldSecret \<Longrightarrow> opened_at sbo v (f # fs) vs k = opened_at sbo v fs vs k"
  by (auto simp: opened_at_def split: option.splits gval.splits)

lemma open_fields_at:
  "distinct (map f_name fs) \<Longrightarrow>
   (\<And>f x. f \<in> set fs \<Longrightarrow> f_kind f = FieldSecret \<Longrightarrow> vs (f_name f) = Some (GStr x) \<Longrightarrow>
     \<exists>y. vault_open sbo v x = Inr y) \<Longrightarrow>
   \<exists>out. open_fields sbo v fs vs = Inr out \<and> (\<forall>k. out k = opened_at sbo v fs vs k)"
proof (induction fs arbitrary: vs)
  case Nil
  then show ?case by (simp add: opened_at_fresh)
next
  case (Cons f fs)
  have d: "distinct (map f_name fs)" "f_name f \<notin> f_name ` set fs" using Cons.prems(1) by auto
  have rest: "\<exists>y. vault_open sbo v x = Inr y"
    if "g \<in> set fs" "f_kind g = FieldSecret" "vs (f_name g) = Some (GStr x)" for g x
    using Cons.prems(2) [of g x] that by simp
  show ?case
  proof (cases "f_kind f = FieldSecret \<and> (\<exists>s. vs (f_name f) = Some (GStr s))")
    case False
    have "opened_at sbo v (f # fs) vs k = opened_at sbo v fs vs k" for k
      using False d(2) by (cases "f_name f = k")
        (auto simp: opened_at_skip opened_at_def image_iff split: option.splits gval.splits)
    moreover have "open_fields sbo v (f # fs) vs = open_fields sbo v fs vs"
      using False by (auto split: option.splits gval.splits)
    ultimately show ?thesis using Cons.IH [OF d(1) rest] by simp
  next
    case True
    then obtain s where s: "f_kind f = FieldSecret" "vs (f_name f) = Some (GStr s)" by blast
    from Cons.prems(2) [of f s] s obtain y where y: "vault_open sbo v s = Inr y" by auto
    let ?vs = "vs(f_name f \<mapsto> GStr y)"
    have same: "y = []" if "s = []" using y that by simp
    have step: "open_fields sbo v (f # fs) vs = open_fields sbo v fs ?vs"
      using s y same by (auto simp: fun_upd_idem)
    have rest2: "\<exists>z. vault_open sbo v x = Inr z"
      if g: "g \<in> set fs" "f_kind g = FieldSecret" "?vs (f_name g) = Some (GStr x)" for g x
    proof -
      from g(1) d(2) have "f_name g \<noteq> f_name f" by (metis image_eqI)
      with g rest [of g x] show ?thesis by simp
    qed
    have "\<exists>out. open_fields sbo v fs ?vs = Inr out \<and> (\<forall>k. out k = opened_at sbo v fs ?vs k)"
      by (rule Cons.IH [OF d(1)]) (rule rest2)
    then obtain out
      where out: "open_fields sbo v fs ?vs = Inr out" "\<And>k. out k = opened_at sbo v fs ?vs k"
      by metis
    have "opened_at sbo v fs ?vs k = opened_at sbo v (f # fs) vs k" for k
    proof (cases "k = f_name f")
      case True
      have "opened_at sbo v fs ?vs k = Some (GStr y)"
        unfolding True opened_at_fresh [OF d(2)] by simp
      moreover have "opened_at sbo v (f # fs) vs k = Some (GStr y)"
        unfolding True using s y by (auto simp: opened_at_def)
      ultimately show ?thesis by simp
    next
      case False
      then have "opened_at sbo v fs ?vs k = opened_at sbo v fs vs k"
        by (intro opened_at_same) simp
      then show ?thesis using False by (simp add: opened_at_skip)
    qed
    with out(2) have "\<forall>k. out k = opened_at sbo v (f # fs) vs k" by simp
    with out(1) show ?thesis unfolding step by blast
  qed
qed

section \<open>The key file\<close>

lemma b64_char_range: "x < 64 \<Longrightarrow> 33 \<le> (of_char (b64_char x) :: nat) \<and> (of_char (b64_char x) :: nat) < 128"
  by (auto simp: b64_char_def)

lemma sextet_bounds:
  "(i::nat) < 256 \<Longrightarrow> 16 * i div 64 < 64"
  "i < 256 \<Longrightarrow> j < 256 \<Longrightarrow> 4 * (256 * i + j) div 4096 < 64"
  "i < 256 \<Longrightarrow> j < 256 \<Longrightarrow> k < 256 \<Longrightarrow> (65536 * i + 256 * j + k) div 262144 < 64"
  by (simp_all add: div_less_iff_less_mult)

lemma b64_encode_range: "c \<in> set (b64_encode s) \<Longrightarrow> 33 \<le> (of_char c :: nat) \<and> (of_char c :: nat) < 128"
proof (induction s rule: b64_encode.induct)
  case (2 a)
  have "(of_char a :: nat) < 256" by simp
  note b = sextet_bounds(1) [OF this]
  from 2 b64_char_range [OF b] b64_char_range show ?case by (auto simp del: div_mult2_eq simp: Let_def)
next
  case (3 a b)
  have "(of_char a :: nat) < 256" "(of_char b :: nat) < 256" by simp_all
  note b = sextet_bounds(2) [OF this]
  from 3 b64_char_range [OF b] b64_char_range show ?case by (auto simp: Let_def)
next
  case (4 a b c cs)
  have "(of_char a :: nat) < 256" "(of_char b :: nat) < 256" "(of_char c :: nat) < 256" by simp_all
  note b = sextet_bounds(3) [OF this]
  from 4 b64_char_range [OF b] b64_char_range show ?case by (auto simp: Let_def)
qed simp

lemma b64_encode_space_free: "space_free (b64_encode s)"
proof -
  have "(of_char x :: nat) < 33 \<or> 128 \<le> (of_char x :: nat)" if "w \<in> set space_seqs" "x \<in> set w" for w x
    using that by (auto simp: space_seqs_def ascii_spaces_def wide_spaces_def)
  then show ?thesis
    using b64_encode_range [of _ s] unfolding space_free_def by (meson leD)
qed

lemma trim_space_newline:
  assumes "space_free s" "s \<noteq> []"
  shows "trim_space (s @ [CHR 0x0A]) = s"
proof -
  have sf: "\<forall>c\<in>set s. \<forall>w\<in>set space_seqs. c \<notin> set w" using assms(1) by (simp add: space_free_def)
  have "\<not> (w \<noteq> [] \<and> prefix w (s @ [CHR 0x0A]))" if "w \<in> set space_seqs" for w
    using sf that assms(2) by (cases w; cases s) auto
  then have a: "drop_spaces space_seqs (s @ [CHR 0x0A]) = s @ [CHR 0x0A]"
    by (intro drop_spaces_id) (auto simp: find_None_iff)
  have "drop_space (map rev space_seqs) (CHR 0x0A # rev s) = Some (rev s)"
    by (simp add: drop_space_def space_seqs_def ascii_spaces_def)
  then have "drop_spaces (map rev space_seqs) (CHR 0x0A # rev s) = drop_spaces (map rev space_seqs) (rev s)"
    by (simp add: drop_spaces.simps [of _ "CHR 0x0A # rev s"])
  also have "\<dots> = rev s"
    by (rule drop_spaces_id, rule no_space_prefix) (use sf in auto)
  finally show ?thesis by (simp add: trim_space_def a)
qed

lemma decode_key_line:
  assumes "length k = 32"
  shows "decode_key (trim_space (b64_encode k @ [CHR 0x0A])) = Inr k"
proof -
  have "b64_encode k \<noteq> []" using assms by (cases k rule: b64_encode.cases) (auto simp: Let_def)
  then show ?thesis
    using assms by (simp add: trim_space_newline b64_encode_space_free decode_key_def b64_decode_encode)
qed

section \<open>Properties\<close>

text \<open>
  C2. Sealing a bag of values leaves no non-empty secret in the clear and touches nothing else:
  when \<open>SealValues\<close> succeeds, a key that names a secret field of the schema and held a non-empty
  unsealed string holds a string marked as sealed that opens to it, and every other key holds
  what it held before (a string that already carries the marker included).
\<close>

theorem seal_values_at:
  assumes "secretbox_law sbx sbo" "seal_values sbx v s vs r = (Inr out, r')"
  shows "case to_seal s vs k of
           Some x \<Rightarrow> sealed_as sbo v x (out k)
         | None \<Rightarrow> out k = vs k"
  using assms seal_fields_at [of sbx sbo v s vs r out r' k] by (simp add: seal_values_def)

text \<open>A toy cipher that puts the key before the message, to show the cipher law can hold.\<close>

definition toy_seal :: sealer where "toy_seal m n k = k @ m"
definition toy_open :: opener where
  "toy_open c n k = (if prefix k c then Some (drop (length k) c) else None)"

lemma toy_law: "secretbox_law toy_seal toy_open"
  by (simp add: secretbox_law_def toy_seal_def toy_open_def)

definition ex_schema :: schema where
  "ex_schema = [field ''user'' FieldString, field ''token'' FieldSecret]"

definition ex_values :: vals where
  "ex_values = [''user'' \<mapsto> GStr ''ada'', ''token'' \<mapsto> GStr ''hunter2'']"

definition ex_vault :: "vault option" where
  "ex_vault = Some \<lparr>v_key = ''k''\<rparr>"

definition ex_pool :: pool where
  "ex_pool = replicate 24 CHR ''n''"

lemma ex_seal:
  "seal_values toy_seal ex_vault ex_schema ex_values ex_pool =
     (Inr (ex_values(''token'' \<mapsto> GStr (sealed_prefix @ b64_encode (ex_pool @ ''khunter2'')))), [])"
  by (simp add: seal_values_def ex_schema_def ex_values_def ex_vault_def ex_pool_def vault_seal_ok
      toy_seal_def is_sealed_def sealed_prefix_def)

theorem seal_values_at_witness:
  "sealed_as toy_open ex_vault ''hunter2''
     ((ex_values(''token'' \<mapsto> GStr (sealed_prefix @ b64_encode (ex_pool @ ''khunter2'')))) ''token'')"
proof -
  have "to_seal ex_schema ex_values ''token'' = Some ''hunter2''"
    by (simp add: to_seal_def ex_schema_def ex_values_def is_sealed_def sealed_prefix_def)
  with seal_values_at [OF toy_law ex_seal, of "''token''"] show ?thesis by simp
qed

text \<open>
  C3. Opening inverts sealing: with a vault, enough randomness and a schema of distinct names, a
  bag none of whose secrets starts with the marker \<open>sealed:\<close> is sealed successfully and
  \<open>OpenValues\<close> gives the same bag back.
\<close>

theorem open_seal_values:
  assumes law: "secretbox_law sbx sbo" and d: "distinct (map f_name s)"
    and r: "24 * length s \<le> length r"
    and plain: "list_all (\<lambda>f. f_kind f = FieldSecret \<longrightarrow> \<not> is_sealed (v_string vs (f_name f))) s"
  shows "\<exists>out r'. seal_values sbx (Some v) s vs r = (Inr out, r') \<and> open_values sbo (Some v) s out = Inr vs"
proof -
  from seal_fields_total [OF r] obtain out r' where o: "seal_fields sbx (Some v) s vs r = (Inr out, r')"
    by blast
  note at = seal_fields_at [OF law o]
  have plainD: "\<not> is_sealed x" if "f \<in> set s" "f_kind f = FieldSecret" "vs (f_name f) = Some (GStr x)" for f x
    using plain that by (auto simp: list_all_iff dest!: bspec)
  have undo: "opened_at sbo (Some v) s out k = vs k \<and>
      (\<forall>f x. f \<in> set s \<longrightarrow> f_kind f = FieldSecret \<longrightarrow> f_name f = k \<longrightarrow> out k = Some (GStr x) \<longrightarrow>
         (\<exists>y. vault_open sbo (Some v) x = Inr y))" for k
  proof (cases "to_seal s vs k")
    case None
    with at [of k] have e: "out k = vs k" by simp
    have "vault_open sbo (Some v) x = Inr x"
      if "f \<in> set s" "f_kind f = FieldSecret" "f_name f = k" "vs k = Some (GStr x)" for f x
      using plainD [of f x] that by simp
    then show ?thesis unfolding opened_at_def e by (auto split: option.splits gval.splits)
  next
    case (Some x)
    with at [of k] obtain c where c: "out k = Some (GStr c)" "vault_open sbo (Some v) c = Inr x"
      by (auto simp: sealed_as_def)
    from Some have "\<exists>f\<in>set s. f_kind f = FieldSecret \<and> f_name f = k" "vs k = Some (GStr x)"
      by (auto simp: to_seal_def split: option.splits gval.splits if_splits)
    with c show ?thesis by (auto simp: opened_at_def)
  qed
  have "\<exists>out'. open_fields sbo (Some v) s out = Inr out' \<and> (\<forall>k. out' k = opened_at sbo (Some v) s out k)"
    by (rule open_fields_at [OF d]) (use undo in blast)
  with undo have "open_fields sbo (Some v) s out = Inr vs" by (metis ext)
  with o show ?thesis by (auto simp: seal_values_def open_values_def)
qed

theorem open_seal_values_witness:
  "\<exists>out r'. seal_values toy_seal (Some \<lparr>v_key = ''k''\<rparr>) ex_schema ex_values (replicate 48 CHR ''n'') = (Inr out, r') \<and>
     open_values toy_open (Some \<lparr>v_key = ''k''\<rparr>) ex_schema out = Inr ex_values"
  by (rule open_seal_values [OF toy_law])
     (simp_all add: ex_schema_def ex_values_def is_sealed_def sealed_prefix_def)

text \<open>
  C12. The first start creates the master key and every later one finds it: without the
  environment override, on a tree where the key file is missing below an absolute
  \<open>PGF_KEY_DIR\<close>, \<open>Load\<close> draws 32 bytes, writes them with mode 0600 and returns the vault of that
  key; loading again, with any randomness, returns the same vault and changes nothing.
\<close>

theorem vault_load_persists:
  assumes env: "getenv s key_env = []" "getenv s key_dir_env = abs_path d"
    and fs: "plain_fs (files s)" "\<forall>c\<in>set d. ok_comp c" "dir_free (files s) d"
      "node_at (files s) (d @ [''master.key'']) = None"
    and r: "32 \<le> length r"
  shows "\<exists>s1. vault_load s r = (Inr \<lparr>v_key = take 32 r\<rparr>, s1, drop 32 r) \<and>
           node_at (files s1) (d @ [''master.key'']) = Some (Reg 384 (b64_encode (take 32 r) @ [CHR 0x0A])) \<and>
           (\<forall>r2. vault_load s1 r2 = (Inr \<lparr>v_key = take 32 r\<rparr>, s1, r2))"
proof -
  let ?l = "d @ [''master.key'']" and ?k = "take 32 r"
  have mk: "ok_comp ''master.key''" by (simp add: ok_comp_def)
  have okl: "\<forall>c\<in>set ?l. ok_comp c" using fs(2) mk by simp
  have kp: "key_path t = Inr (abs_path ?l)" if "getenv t = getenv s" for t
    using env(2) that path_join_abs_single [OF fs(2), of "[''master.key'']"] mk
    by (simp add: key_path_def)
  have rd: "os_read_file s (abs_path ?l) = Inl (ErrOS ENOENT (abs_path ?l))"
    using fs okl by (intro read_file_absent) auto
  obtain f where f: "os_mkdir_all s (abs_path d) 448 = Inr (s\<lparr>files := f\<rparr>)" "plain_fs f" "is_dir f d"
    "\<And>q. node_at f q = (if node_at (files s) q = None \<and> prefix q d then Some (Dir 448) else node_at (files s) q)"
    using mkdir_all_ok [OF fs(1,2,3)] by metis
  have no: "node_at f ?l = None" using f(4) [of ?l] fs(4) by simp
  let ?f = "AList.update ?l (Reg 384 (b64_encode ?k @ [CHR 0x0A])) f"
  let ?s1 = "s\<lparr>files := ?f\<rparr>"
  have w: "os_write_file (s\<lparr>files := f\<rparr>) (abs_path ?l) (b64_encode ?k @ [CHR 0x0A]) 384 = Inr ?s1"
    using write_file_ok [of "s\<lparr>files := f\<rparr>" ?l "b64_encode ?k @ [CHR 0x0A]" 384] okl f(2,3) no
    by (simp add: new_mode_def is_dir_def)
  have pf: "plain_fs ?f"
    using f(2,3) okl no
    by (auto simp: plain_fs_def is_link_def is_dir_def intro!: wf_fs_update no_links_update)
  have at: "node_at ?f ?l = Some (Reg 384 (b64_encode ?k @ [CHR 0x0A]))" by simp
  have rd2: "os_read_file ?s1 (abs_path ?l) = Inr (b64_encode ?k @ [CHR 0x0A])"
    by (rule read_file_reg [of ?s1 ?l 384]) (use pf okl in simp_all)
  have len: "length ?k = 32" using r by simp
  have "vault_load s r = (Inr \<lparr>v_key = ?k\<rparr>, ?s1, drop 32 r)"
    using env(1) rd f(1) w r
    by (simp add: vault_load_def kp is_not_exist_def vault_create_def path_dir_abs [OF fs(2) mk]
        read_full_ok)
  moreover have "vault_load ?s1 r2 = (Inr \<lparr>v_key = ?k\<rparr>, ?s1, r2)" for r2
    using env(1) rd2 by (simp add: vault_load_def kp decode_key_line [OF len])
  ultimately show ?thesis using at by (intro exI [of _ ?s1]) simp
qed

definition ex_os :: osys where
  "ex_os = \<lparr>files = [([''k''], Dir 448)], cwd = ''/'',
     getenv = (\<lambda>n. if n = ''PGF_KEY_DIR'' then abs_path [''k''] else []), home_dir = None\<rparr>"

theorem vault_load_persists_witness:
  "\<exists>s1. vault_load ex_os (replicate 40 CHR ''r'') =
      (Inr \<lparr>v_key = take 32 (replicate 40 CHR ''r'')\<rparr>, s1, drop 32 (replicate 40 CHR ''r'')) \<and>
    node_at (files s1) ([''k''] @ [''master.key'']) =
      Some (Reg 384 (b64_encode (take 32 (replicate 40 CHR ''r'')) @ [CHR 0x0A])) \<and>
    (\<forall>r2. vault_load s1 r2 = (Inr \<lparr>v_key = take 32 (replicate 40 CHR ''r'')\<rparr>, s1, r2))"
  by (rule vault_load_persists)
     (simp_all add: ex_os_def key_env_def key_dir_env_def plain_fs_def wf_fs_def no_links_def ok_comp_def
        dir_free_def node_at_def is_dir_def)

end
