(* ===== verification/MailTransport.thy ===== *)
theory MailTransport
  imports Prelude
begin

text \<open>
  \<open>transport/smtp\<close> and \<open>transport/imap\<close>: the mapping of a flat configuration to the options and calls
  of the mail libraries. The libraries are not part of the repository: an SMTP client is the list
  of options it is made with, and the calls \<open>mk\<close>, \<open>dial\<close>, \<open>send\<close>, \<open>login\<close> and so on are arguments.
  A security mode is its string; anything but \<open>starttls\<close> and \<open>none\<close> means implicit TLS.
\<close>

record mail_config =
  mc_host :: string
  mc_port :: int
  mc_security :: string
  mc_user :: string
  mc_password :: string
  mc_insecure :: bool

datatype tls_policy = TLSMandatory | NoTLS

datatype smtp_option =
    WithPort int
  | WithUsername string
  | WithPassword string
  | WithSMTPAuthPlain
  | WithTLSPolicy tls_policy
  | WithSSL
  | WithTLSConfig string bool

definition security_starttls :: string where "security_starttls = ''starttls''"
definition security_none :: string where "security_none = ''none''"

text \<open>\<open>insecureTLS\<close>: server name and the switch that skips verification.\<close>

definition insecure_tls :: "string \<Rightarrow> smtp_option" where
  "insecure_tls host = WithTLSConfig host True"

definition smtp_options :: "mail_config \<Rightarrow> smtp_option list" where
  "smtp_options cfg =
     (let port = (if mc_port cfg = 0 then
                    (if mc_security cfg = security_starttls then 587
                     else if mc_security cfg = security_none then 25 else 465)
                  else mc_port cfg)
      in [WithPort port, WithUsername (mc_user cfg), WithPassword (mc_password cfg), WithSMTPAuthPlain]
         @ (if mc_security cfg = security_starttls then [WithTLSPolicy TLSMandatory]
            else if mc_security cfg = security_none then [WithTLSPolicy NoTLS] else [WithSSL])
         @ (if mc_insecure cfg then [insecure_tls (mc_host cfg)] else []))"

definition smtp_new_client :: "(string \<Rightarrow> smtp_option list \<Rightarrow> 'c res) \<Rightarrow> mail_config \<Rightarrow> 'c res" where
  "smtp_new_client mk cfg =
     (case mk (mc_host cfg) (smtp_options cfg) of
        Inl e \<Rightarrow> Inl (ErrWrap ''smtp: client: '' e [])
      | Inr c \<Rightarrow> Inr c)"

definition smtp_send :: "(string \<Rightarrow> smtp_option list \<Rightarrow> 'c res) \<Rightarrow>
    ('c \<Rightarrow> 'm list \<Rightarrow> 'w \<Rightarrow> unit res \<times> 'w) \<Rightarrow> mail_config \<Rightarrow> 'm list \<Rightarrow> 'w \<Rightarrow> unit res \<times> 'w" where
  "smtp_send mk dial_and_send cfg msgs w =
     (if mc_host cfg = [] then (Inl (ErrMsg ''smtp: host required''), w)
      else case smtp_new_client mk cfg of
        Inl e \<Rightarrow> (Inl e, w)
      | Inr c \<Rightarrow>
          (case dial_and_send c msgs w of
             (Inl e, w') \<Rightarrow> (Inl (ErrWrap ''smtp: send: '' e []), w')
           | (Inr _, w') \<Rightarrow> (Inr (), w')))"

definition smtp_probe :: "(string \<Rightarrow> smtp_option list \<Rightarrow> 'c res) \<Rightarrow>
    ('c \<Rightarrow> 'w \<Rightarrow> unit res \<times> 'w) \<Rightarrow> ('c \<Rightarrow> 'w \<Rightarrow> unit res \<times> 'w) \<Rightarrow> mail_config \<Rightarrow> 'w \<Rightarrow> unit res \<times> 'w" where
  "smtp_probe mk dial close cfg w =
     (if mc_host cfg = [] then (Inl (ErrMsg ''smtp: host required''), w)
      else case smtp_new_client mk cfg of
        Inl e \<Rightarrow> (Inl e, w)
      | Inr c \<Rightarrow>
          (case dial c w of
             (Inl e, w') \<Rightarrow> (Inl (ErrWrap ''smtp: probe: '' e []), w')
           | (Inr _, w') \<Rightarrow> close c w'))"

text \<open>How \<open>imap.Dial\<close> connects: the mode, the address, and for TLS the server name and switch.\<close>

datatype imap_dial = DialStartTLS string string bool | DialInsecure string | DialTLS string string bool

definition imap_dial_plan :: "mail_config \<Rightarrow> imap_dial" where
  "imap_dial_plan cfg =
     (let port = (if mc_port cfg = 0 then
                    (if mc_security cfg = security_starttls \<or> mc_security cfg = security_none then 143 else 993)
                  else mc_port cfg);
          addr = mc_host cfg @ '':'' @ itoa port
      in if mc_security cfg = security_starttls then DialStartTLS addr (mc_host cfg) (mc_insecure cfg)
         else if mc_security cfg = security_none then DialInsecure addr
         else DialTLS addr (mc_host cfg) (mc_insecure cfg))"

fun dial_addr :: "imap_dial \<Rightarrow> string" where
  "dial_addr (DialStartTLS a _ _) = a"
| "dial_addr (DialInsecure a) = a"
| "dial_addr (DialTLS a _ _) = a"

definition imap_connect :: "(imap_dial \<Rightarrow> 'w \<Rightarrow> 'c res \<times> 'w) \<Rightarrow> ('c \<Rightarrow> string \<Rightarrow> string \<Rightarrow> 'w \<Rightarrow> unit res \<times> 'w) \<Rightarrow>
    ('c \<Rightarrow> 'w \<Rightarrow> 'w) \<Rightarrow> mail_config \<Rightarrow> 'w \<Rightarrow> 'c res \<times> 'w" where
  "imap_connect dial login close cfg w =
     (if mc_host cfg = [] then (Inl (ErrMsg ''imap: host required''), w)
      else case dial (imap_dial_plan cfg) w of
        (Inl e, w1) \<Rightarrow> (Inl (ErrWrap (''imap: dial '' @ dial_addr (imap_dial_plan cfg) @ '': '') e []), w1)
      | (Inr c, w1) \<Rightarrow>
          (case login c (mc_user cfg) (mc_password cfg) w1 of
             (Inl e, w2) \<Rightarrow> (Inl (ErrWrap (''imap: login '' @ mc_user cfg @ '': '') e []), close c w2)
           | (Inr _, w2) \<Rightarrow> (Inr c, w2)))"

section \<open>Properties\<close>

text \<open>The options under which a session is encrypted and the server's certificate is checked.\<close>

definition smtp_encrypted :: "smtp_option list \<Rightarrow> bool" where
  "smtp_encrypted opts = (WithSSL \<in> set opts \<or> WithTLSPolicy TLSMandatory \<in> set opts)"

fun imap_encrypted :: "imap_dial \<Rightarrow> bool" where
  "imap_encrypted (DialInsecure _) = False"
| "imap_encrypted _ = True"

fun imap_verified :: "imap_dial \<Rightarrow> bool" where
  "imap_verified (DialInsecure _) = False"
| "imap_verified (DialStartTLS _ _ skip) = (\<not> skip)"
| "imap_verified (DialTLS _ _ skip) = (\<not> skip)"

text \<open>
  Mail credentials leave the machine unencrypted only by choice: for every configuration, whatever
  string its security mode is, both transports encrypt unless the mode is exactly \<open>none\<close>, the
  certificate is checked unless the configuration says otherwise, and SMTP never gets the
  contradictory options of encryption and no TLS together.
\<close>

theorem mail_encrypted_unless_none:
  "smtp_encrypted (smtp_options cfg) = (mc_security cfg \<noteq> security_none) \<and>
   imap_encrypted (imap_dial_plan cfg) = (mc_security cfg \<noteq> security_none) \<and>
   imap_verified (imap_dial_plan cfg) = (mc_security cfg \<noteq> security_none \<and> \<not> mc_insecure cfg) \<and>
   (WithTLSPolicy NoTLS \<in> set (smtp_options cfg)) = (\<not> smtp_encrypted (smtp_options cfg)) \<and>
   ((\<exists>h. WithTLSConfig h True \<in> set (smtp_options cfg)) = mc_insecure cfg)"
  by (auto simp: smtp_encrypted_def smtp_options_def imap_dial_plan_def Let_def security_none_def
      security_starttls_def insecure_tls_def)

end
