(* ===== verification/AllowedPaths.thy ===== *)
theory AllowedPaths
  imports FileSystem Values
begin

text \<open>
  The path whitelist of the command line and the daemon (\<open>cmd/pgf/paths.go\<close>): every value of a field
  marked as a local path must lie under one of the roots of \<open>PGF_ALLOWED_PATHS\<close>.
\<close>

definition allowed_paths :: "osys \<Rightarrow> string list" where
  "allowed_paths s =
     (let v = trim_space (getenv s ''PGF_ALLOWED_PATHS'')
      in if v = [] then []
         else map (path_abs (cwd s)) (filter (\<lambda>p. p \<noteq> []) (map trim_space (split_on (CHR '':'') v))))"

definition path_under_any :: "osys \<Rightarrow> string \<Rightarrow> string list \<Rightarrow> bool" where
  "path_under_any s p allowed =
     (let abs = path_abs (cwd s) p;
          check = (case eval_symlinks s abs of Some real \<Rightarrow> real | None \<Rightarrow> abs)
      in list_ex (\<lambda>root.
           (let root_sep = trim_right root ''/'' @ ''/''
            in check @ ''/'' = root_sep \<or> prefix root_sep check \<or> check = trim_right root ''/'')) allowed)"

definition extract_paths :: "gval \<Rightarrow> string list" where
  "extract_paths raw =
     (case raw of
        GStr v \<Rightarrow> (if v = [] then [] else [v])
      | GStrs vs \<Rightarrow> vs
      | GList xs \<Rightarrow> concat (map (\<lambda>e. case e of GStr s \<Rightarrow> (if s \<noteq> [] then [s] else []) | _ \<Rightarrow> []) xs)
      | _ \<Rightarrow> [])"

definition outside_error :: "string \<Rightarrow> string \<Rightarrow> string \<Rightarrow> string list \<Rightarrow> gerr" where
  "outside_error label name p allowed =
     ErrMsg (label @ '': field '' @ name @ '' value '' @ p @ '' is outside PGF_ALLOWED_PATHS (''
       @ join_with '':'' allowed @ '')'')"

text \<open>The loop over the fields, with the loop over the paths of a field as a search.\<close>

fun validate_fields :: "osys \<Rightarrow> string list \<Rightarrow> field_spec list \<Rightarrow> vals \<Rightarrow> string \<Rightarrow> unit res" where
  "validate_fields s allowed [] values label = Inr ()"
| "validate_fields s allowed (f # fs) values label =
     (if \<not> f_is_path f then validate_fields s allowed fs values label
      else if \<not> is_active f values then validate_fields s allowed fs values label
      else case values (f_name f) of
        None \<Rightarrow> validate_fields s allowed fs values label
      | Some raw \<Rightarrow>
          (case find (\<lambda>p. \<not> path_under_any s p allowed) (extract_paths raw) of
             Some p \<Rightarrow> Inl (outside_error label (f_name f) p allowed)
           | None \<Rightarrow> validate_fields s allowed fs values label))"

definition validate_paths :: "osys \<Rightarrow> schema \<Rightarrow> vals \<Rightarrow> string \<Rightarrow> unit res" where
  "validate_paths s schema values label =
     (let allowed = allowed_paths s
      in if length allowed = 0 then Inr () else validate_fields s allowed schema values label)"

section \<open>Roots and locations\<close>

lemma trim_right_abs_path:
  assumes "\<forall>c\<in>set rs. ok_comp c"
  shows "trim_right (abs_path rs) ''/'' = (if rs = [] then [] else abs_path rs)"
proof (cases rs rule: rev_cases)
  case Nil
  then show ?thesis by (simp add: abs_path_def join_slash_def trim_right_def)
next
  case (snoc ds c)
  then have "c \<noteq> []" "CHR ''/'' \<notin> set c" using assms by (auto simp: ok_comp_def)
  then have "last c \<noteq> CHR ''/''" by (metis last_in_set)
  with \<open>c \<noteq> []\<close> have "last (abs_path rs) \<noteq> CHR ''/''"
    using snoc by (auto simp: abs_path_snoc)
  then show ?thesis using snoc by (auto intro!: trim_right_id)
qed

lemma abs_path_append:
  "rs \<noteq> [] \<Longrightarrow> ds \<noteq> [] \<Longrightarrow> abs_path (rs @ ds) = abs_path rs @ CHR ''/'' # join_slash ds"
  by (simp add: abs_path_def join_slash_def join_with_append)

text \<open>The three comparisons together decide whether the components of the root are a prefix.\<close>

lemma under_root_iff:
  assumes rs: "\<forall>c\<in>set rs. ok_comp c" and cs: "\<forall>c\<in>set cs. ok_comp c"
  shows "(let root_sep = trim_right (abs_path rs) ''/'' @ ''/''
     in abs_path cs @ ''/'' = root_sep \<or> prefix root_sep (abs_path cs) \<or> abs_path cs = trim_right (abs_path rs) ''/'')
     \<longleftrightarrow> prefix rs cs"
proof (cases "rs = []")
  case True
  have "prefix ''/'' (abs_path cs)" by (simp add: abs_path_def)
  then show ?thesis using True trim_right_abs_path [OF rs] by (simp add: Let_def)
next
  case False
  have rc: "raw_comps (abs_path rs) = rs" "raw_comps (abs_path cs) = cs"
    using rs cs by (auto simp: raw_comps_abs_path ok_comp_like)
  have "prefix (abs_path rs @ ''/'') (abs_path cs) \<or> abs_path cs = abs_path rs \<longleftrightarrow> prefix rs cs"
  proof
    assume "prefix (abs_path rs @ ''/'') (abs_path cs) \<or> abs_path cs = abs_path rs"
    then show "prefix rs cs"
    proof
      assume "prefix (abs_path rs @ ''/'') (abs_path cs)"
      then obtain t where "abs_path cs = abs_path rs @ CHR ''/'' # t" by (auto simp: prefix_def)
      then have "cs = rs @ raw_comps t" using rc raw_comps_append by metis
      then show ?thesis by simp
    next
      assume "abs_path cs = abs_path rs"
      with rc have "cs = rs" by metis
      then show ?thesis by simp
    qed
  next
    assume "prefix rs cs"
    then obtain ds where ds: "cs = rs @ ds" by (auto simp: prefix_def)
    show "prefix (abs_path rs @ ''/'') (abs_path cs) \<or> abs_path cs = abs_path rs"
    proof (cases "ds = []")
      case False
      then show ?thesis using ds abs_path_append [OF \<open>rs \<noteq> []\<close> False] by simp
    qed (use ds in simp)
  qed
  moreover have "abs_path cs @ ''/'' = abs_path rs @ ''/'' \<longleftrightarrow> abs_path cs = abs_path rs" by simp
  ultimately show ?thesis using False trim_right_abs_path [OF rs] by (auto simp: Let_def)
qed

lemma path_abs_clean_root: "is_abs d \<Longrightarrow> clean_root (path_abs d p)"
proof -
  assume d: "is_abs d"
  then have "d \<noteq> []" by (auto simp: is_abs_def)
  then have "path_join [d, p] = clean (join_slash [d, p])" by (simp add: path_join_def)
  moreover have "is_abs (join_slash [d, p])" using d by (cases d) (auto simp: is_abs_def join_slash_def)
  ultimately show ?thesis by (auto simp: path_abs_def clean_clean_root)
qed

lemma allowed_roots: "is_abs (cwd s) \<Longrightarrow> r \<in> set (allowed_paths s) \<Longrightarrow> clean_root r"
  by (auto simp: allowed_paths_def Let_def path_abs_clean_root split: if_splits)

text \<open>Where a path leads: its real location if it exists, else its lexical one.\<close>

definition real_comps :: "osys \<Rightarrow> string \<Rightarrow> loc" where
  "real_comps s p =
     (let a = path_abs (cwd s) p in raw_comps (case eval_symlinks s a of Some r \<Rightarrow> r | None \<Rightarrow> a))"

lemma walk_ok:
  "walk f n cur cs = Inr l \<Longrightarrow> wf_fs f \<Longrightarrow> \<forall>c\<in>set cur. ok_comp c \<Longrightarrow> \<forall>c\<in>set cs. comp_like c \<Longrightarrow>
   \<forall>c\<in>set l. ok_comp c"
proof (induction f n cur cs rule: walk.induct)
  case (2 f n cur c cs)
  have bl: "\<forall>c\<in>set (butlast cur). ok_comp c" using 2(6) by (meson in_set_butlastD)
  show ?case
  proof (cases "c = ''..''")
    case True
    then show ?thesis using 2 bl by auto
  next
    case False
    then have c: "\<forall>x\<in>set (cur @ [c]). ok_comp x" using 2(6,7) by (auto simp: ok_comp_def comp_like_def)
    show ?thesis
    proof (cases "node_at f (cur @ [c])")
      case None
      then show ?thesis using 2(4) False c by (auto split: if_splits)
    next
      case (Some nd)
      show ?thesis
      proof (cases nd)
        case (Reg m d)
        then show ?thesis using 2(4) False c Some by (auto split: if_splits)
      next
        case (Dir m)
        then show ?thesis using 2(2) [OF False Some Dir] 2(4,5,7) False c Some by auto
      next
        case (Link t)
        then obtain m where n: "n = Suc m" using 2(4) False Some by (cases n) auto
        have "\<forall>x\<in>set (if is_abs t then [] else cur). ok_comp x" using 2(6) by simp
        moreover have "\<forall>x\<in>set (raw_comps t @ cs). comp_like x" using raw_comps_like [of t] 2(7) by auto
        ultimately show ?thesis using 2(3) [OF False Some Link n] 2(4,5) False Some Link n by simp
      qed
    qed
  qed
qed simp

lemma eval_symlinks_ok:
  assumes "wf_fs (files s)" "is_abs p" "eval_symlinks s p = Some r"
  obtains l where "r = abs_path l" "\<forall>c\<in>set l. ok_comp c" "node_at (files s) l \<noteq> None"
  using assms walk_ok [of "files s" 255 "[]" "raw_comps p"] raw_comps_like [of p]
  by (auto simp: eval_symlinks_def start_dir_def split: sum.splits option.splits)

lemma real_comps_spec:
  assumes "wf_fs (files s)" "is_abs (cwd s)"
  shows "(case eval_symlinks s (path_abs (cwd s) p) of Some r \<Rightarrow> r | None \<Rightarrow> path_abs (cwd s) p)
      = abs_path (real_comps s p) \<and> (\<forall>c\<in>set (real_comps s p). ok_comp c)"
proof -
  have a: "clean_root (path_abs (cwd s) p)" by (rule path_abs_clean_root [OF assms(2)])
  show ?thesis
  proof (cases "eval_symlinks s (path_abs (cwd s) p)")
    case None
    then show ?thesis
      using clean_root_comps [OF a] by (metis option.simps(4) real_comps_def)
  next
    case (Some r)
    have "is_abs (path_abs (cwd s) p)" using a by (simp add: clean_root_def)
    then obtain l where "r = abs_path l" "\<forall>c\<in>set l. ok_comp c"
      using eval_symlinks_ok [OF assms(1) _ Some] by metis
    then show ?thesis using Some by (simp add: real_comps_def Let_def raw_comps_abs_path ok_comp_like)
  qed
qed

lemma validate_fields_iff:
  "validate_fields s allowed fs values label = Inr () \<longleftrightarrow>
     (\<forall>f\<in>set fs. f_is_path f \<and> is_active f values \<longrightarrow>
        (case values (f_name f) of None \<Rightarrow> True
         | Some raw \<Rightarrow> list_all (\<lambda>p. path_under_any s p allowed) (extract_paths raw)))"
proof (induction fs)
  case (Cons f fs)
  show ?case
  proof (cases "values (f_name f)")
    case None
    with Cons show ?thesis by auto
  next
    case (Some raw)
    show ?thesis
    proof (cases "find (\<lambda>p. \<not> path_under_any s p allowed) (extract_paths raw)")
      case None
      then have "list_all (\<lambda>p. path_under_any s p allowed) (extract_paths raw)"
        by (auto simp: find_None_iff list_all_iff)
      with Cons Some None show ?thesis by auto
    next
      case (Some p)
      then have "\<not> list_all (\<lambda>p. path_under_any s p allowed) (extract_paths raw)"
        by (auto simp: find_Some_iff list_all_iff dest: nth_mem)
      with Cons Some \<open>values (f_name f) = Some raw\<close> show ?thesis by auto
    qed
  qed
qed simp

lemma under_any_iff:
  assumes wf: "wf_fs (files s)" and cwd: "is_abs (cwd s)"
  shows "path_under_any s p (allowed_paths s) \<longleftrightarrow>
     list_ex (\<lambda>r. prefix (raw_comps r) (real_comps s p)) (allowed_paths s)"
proof -
  have each: "(let root_sep = trim_right r ''/'' @ ''/''
       in abs_path (real_comps s p) @ ''/'' = root_sep \<or> prefix root_sep (abs_path (real_comps s p)) \<or>
          abs_path (real_comps s p) = trim_right r ''/'') \<longleftrightarrow> prefix (raw_comps r) (real_comps s p)"
    if r: "r \<in> set (allowed_paths s)" for r
  proof -
    obtain rs where rs: "r = abs_path rs" "\<forall>c\<in>set rs. ok_comp c" "raw_comps r = rs"
      by (rule clean_root_comps [OF allowed_roots [OF cwd r]])
    show ?thesis
      unfolding rs(3) unfolding rs(1) by (rule under_root_iff) (use rs(2) real_comps_spec [OF wf cwd] in auto)
  qed
  have "path_under_any s p (allowed_paths s) \<longleftrightarrow>
      list_ex (\<lambda>r. let root_sep = trim_right r ''/'' @ ''/''
       in abs_path (real_comps s p) @ ''/'' = root_sep \<or> prefix root_sep (abs_path (real_comps s p)) \<or>
          abs_path (real_comps s p) = trim_right r ''/'') (allowed_paths s)"
    using real_comps_spec [OF wf cwd, of p] by (simp only: path_under_any_def Let_def)
  with each show ?thesis by (auto simp: list_ex_iff)
qed

section \<open>Properties\<close>

text \<open>
  C15. The whitelist compares whole directories of the real location: on a well-formed file tree
  (symbolic links included) and from an absolute working directory, a path is accepted exactly
  if the components of one of the allowed roots are a prefix of the components of the place the
  path leads to, links resolved when it exists. So \<open>/foo/barbaz\<close> is not under \<open>/foo/bar\<close>, and
  neither dot-dot components nor a link out of the root get through.
\<close>

theorem path_under_any_iff:
  assumes "wf_fs (files s)" "is_abs (cwd s)"
  shows "path_under_any s p (allowed_paths s) \<longleftrightarrow>
     list_ex (\<lambda>r. prefix (raw_comps r) (real_comps s p)) (allowed_paths s)"
  using assms by (rule under_any_iff)

definition jail_os :: osys where
  "jail_os = \<lparr>files = [([''jail''], Dir 493), ([''etc''], Dir 493), ([''etc'', ''passwd''], Reg 420 ''root''),
       ([''jail'', ''ok''], Reg 420 ''x''), ([''jail'', ''link''], Link ''/etc'')],
     cwd = ''/'', getenv = (\<lambda>n. if n = ''PGF_ALLOWED_PATHS'' then ''/jail'' else []), home_dir = None\<rparr>"

lemma jail_wf: "wf_fs (files jail_os)" "is_abs (cwd jail_os)"
  by (simp_all add: jail_os_def wf_fs_def ok_comp_def is_dir_def node_at_def is_abs_def)

theorem path_under_any_iff_witness:
  "path_under_any jail_os ''/jail/link/passwd'' (allowed_paths jail_os) \<longleftrightarrow>
     list_ex (\<lambda>r. prefix (raw_comps r) (real_comps jail_os ''/jail/link/passwd'')) (allowed_paths jail_os)"
  by (rule path_under_any_iff [OF jail_wf])


definition jail_schema :: schema where
  "jail_schema = [field ''attachments'' FieldStringList \<lparr>f_is_path := True\<rparr>]"

lemma jail_allowed: "allowed_paths jail_os = [''/jail'']"
  by code_simp

lemma jail_rejects:
  "validate_paths jail_os jail_schema [''attachments'' \<mapsto> GStr ''/etc/passwd''] label \<noteq> Inr ()"
proof -
  have no: "\<not> path_under_any jail_os ''/etc/passwd'' [''/jail'']" by code_simp
  have e: "extract_paths (GStr ''/etc/passwd'') = [''/etc/passwd'']" by (simp add: extract_paths_def)
  have "validate_fields jail_os [''/jail''] jail_schema [''attachments'' \<mapsto> GStr ''/etc/passwd''] label \<noteq> Inr ()"
    unfolding validate_fields_iff jail_schema_def by (simp add: e no is_active_def)
  then show ?thesis unfolding validate_paths_def jail_allowed Let_def by simp
qed


text \<open>
  The check sees a comma-separated list as one path, while \<open>StringList\<close> splits it: for a path field
  of list kind, the value \<open>/jail/ok,/etc/passwd\<close> passes a whitelist of \<open>/jail\<close>, and the action is
  handed the two paths \<open>/jail/ok\<close> and \<open>/etc/passwd\<close>, the second of which alone is rejected.
\<close>

theorem comma_list_bypass:
  "validate_paths jail_os jail_schema [''attachments'' \<mapsto> GStr ''/jail/ok,/etc/passwd''] ''a'' = Inr () \<and>
   v_string_list [''attachments'' \<mapsto> GStr ''/jail/ok,/etc/passwd''] ''attachments'' = [''/jail/ok'', ''/etc/passwd''] \<and>
   \<not> path_under_any jail_os ''/etc/passwd'' (allowed_paths jail_os)"
proof -
  have a: "path_under_any jail_os ''/jail/ok,/etc/passwd'' [''/jail'']" by code_simp
  have b: "\<not> path_under_any jail_os ''/etc/passwd'' [''/jail'']" by code_simp
  have "trim_space ''/jail/ok'' = ''/jail/ok''" "trim_space ''/etc/passwd'' = ''/etc/passwd''"
    by (rule trim_space_id; simp add: space_free_def space_seqs_def ascii_spaces_def wide_spaces_def)+
  moreover have "split_on (CHR '','') (''/jail/ok'' @ CHR '','' # ''/etc/passwd'') = [''/jail/ok'', ''/etc/passwd'']"
    unfolding split_on_append_sep by (simp add: split_on_id del: split_on.simps)
  ultimately have c: "split_trim ''/jail/ok,/etc/passwd'' = [''/jail/ok'', ''/etc/passwd'']"
    by (simp add: split_trim_def del: split_on.simps)
  let ?v = "[''attachments'' \<mapsto> GStr ''/jail/ok,/etc/passwd''] :: vals"
  have e: "extract_paths (GStr ''/jail/ok,/etc/passwd'') = [''/jail/ok,/etc/passwd'']"
    by (simp add: extract_paths_def)
  have "validate_fields jail_os [''/jail''] jail_schema ?v ''a'' = Inr ()"
    unfolding validate_fields_iff jail_schema_def by (simp add: e a)
  then have "validate_paths jail_os jail_schema ?v ''a'' = Inr ()"
    unfolding validate_paths_def jail_allowed Let_def by simp
  moreover have "v_string_list ?v ''attachments'' = [''/jail/ok'', ''/etc/passwd'']"
    using c by (simp add: v_string_list_def)
  ultimately show ?thesis using b unfolding jail_allowed by blast
qed

text \<open>
  A target that does not exist yet is judged by its name only: below a directory link that
  leads out of the allowed root, an existing file is rejected but a new one is accepted, and
  writing it creates it outside the root.
\<close>

theorem new_file_through_link:
  "\<not> path_under_any jail_os ''/jail/link/passwd'' (allowed_paths jail_os) \<and>
   path_under_any jail_os ''/jail/link/new'' (allowed_paths jail_os) \<and>
   (\<exists>s'. os_write_file jail_os ''/jail/link/new'' ''x'' 420 = Inr s' \<and>
      node_at (files s') [''etc'', ''new''] = Some (Reg 420 ''x''))"
proof -
  have a: "\<not> path_under_any jail_os ''/jail/link/passwd'' [''/jail'']" by code_simp
  have b: "path_under_any jail_os ''/jail/link/new'' [''/jail'']" by code_simp
  have c: "resolve jail_os ''/jail/link/new'' = Inr [''etc'', ''new'']" by code_simp
  show ?thesis
    using a b c by (simp add: jail_allowed os_write_file_def) (simp add: jail_os_def node_at_def)
qed

text \<open>
  A whitelist of separators and blanks only is no whitelist: the variable is set, but the check
  is skipped and every path is accepted.
\<close>

theorem blank_whitelist_open:
  "allowed_paths (jail_os\<lparr>getenv := \<lambda>_. '' : ''\<rparr>) = [] \<and>
   validate_paths (jail_os\<lparr>getenv := \<lambda>_. '' : ''\<rparr>) sch values label = Inr ()"
proof -
  have "allowed_paths (jail_os\<lparr>getenv := \<lambda>_. '' : ''\<rparr>) = []" by code_simp
  then show ?thesis by (simp add: validate_paths_def)
qed

end
