(* ===== verification/Cli.thy ===== *)
theory Cli
  imports AllowedPaths CredStore Vault Json
begin

text \<open>
  The command line (\<open>cmd/pgf/main.go\<close>, \<open>cmd/pgf/wizard.go\<close>): parameters, the credential wizard and
  the commands on instances.

  The world of a command is a record with the operating system, the randomness, the input and the
  output; connectors may extend it (\<open>'m\<close>), and their operations work on the whole of it. A command
  returns an error where the code calls \<open>fail\<close>, which prints it and exits at once, so that deferred
  calls do not run. What is printed is a list of items: text, a value as indented JSON, an event
  as one JSON line.
\<close>

datatype out_item = OText string | OJson gval | OEvent event

record cli =
  c_os :: osys
  c_pool :: pool
  c_now :: time
  c_stdin :: string
  c_tty :: bool
  c_out :: "out_item list"

text \<open>What \<open>main\<close> sets up before it dispatches: registry, credential store, vault, state root.\<close>

record ('w, 's) runtime =
  rt_reg :: "('w, 's) registry"
  rt_store :: string
  rt_enc :: yaml_enc
  rt_dec :: yaml_dec
  rt_seal :: sealer
  rt_open :: opener
  rt_vault :: "vault option"
  rt_state :: string

definition say :: "string \<Rightarrow> 'm cli_scheme \<Rightarrow> 'm cli_scheme" where
  "say t w = w\<lparr>c_out := c_out w @ [OText t]\<rparr>"

definition nl :: string where "nl = [CHR 0x0A]"

definition pad :: "nat \<Rightarrow> string \<Rightarrow> string" where
  "pad n s = s @ replicate (n - length s) (CHR '' '')"

section \<open>Parameters\<close>

definition read_json_input :: "osys \<Rightarrow> string \<Rightarrow> (string \<times> gval) list res" where
  "read_json_input s arg =
     (case (if prefix ''@'' arg then
              (let path = trim_prefix arg ''@''
               in case os_read_file s path of
                    Inl e \<Rightarrow> Inl (ErrWrap (''read --input file '' @ path @ '': '') e [])
                  | Inr d \<Rightarrow> Inr d)
            else Inr arg) of
        Inl e \<Rightarrow> Inl e
      | Inr raw \<Rightarrow>
          (case json_unmarshal raw of
             Some (GMap kvs) \<Rightarrow> Inr kvs
           | Some GNil \<Rightarrow> Inr []
           | _ \<Rightarrow> Inl (ErrWrap ''parse --input as JSON object: '' (ErrExt ''json'') [])))"

text \<open>A further \<open>-p\<close> for a key turns its value into a list.\<close>

definition add_override :: "vals \<Rightarrow> string \<Rightarrow> string \<Rightarrow> vals" where
  "add_override m k v =
     (case m k of
        Some (GStr e) \<Rightarrow> m(k \<mapsto> GStrs [e, v])
      | Some (GStrs e) \<Rightarrow> m(k \<mapsto> GStrs (e @ [v]))
      | _ \<Rightarrow> m(k \<mapsto> GStr v))"

fun parse_loop :: "osys \<Rightarrow> string list \<Rightarrow> vals \<Rightarrow> vals \<Rightarrow> (vals \<times> vals) res" where
  "parse_loop s [] base over = Inr (base, over)"
| "parse_loop s (a # args) base over =
     (if a = ''--input'' \<or> a = ''-i'' then
        (case args of
           [] \<Rightarrow> Inl (ErrMsg ''--input requires a JSON value (or @file)'')
         | b # rest \<Rightarrow>
             (case read_json_input s b of
                Inl e \<Rightarrow> Inl e
              | Inr kvs \<Rightarrow> parse_loop s rest (base ++ map_of kvs) over))
      else if a = ''-p'' \<or> a = ''--param'' then
        (case args of
           [] \<Rightarrow> Inl (ErrMsg ''-p requires k=v'')
         | b # rest \<Rightarrow>
             (let (k, v, ok) = str_cut (CHR ''='') b
              in if \<not> ok then Inl (ErrMsg (''expected k=v, got '' @ b))
                 else parse_loop s rest base (add_override over k v)))
      else Inl (ErrMsg (''unexpected arg '' @ a)))"

definition parse_params :: "osys \<Rightarrow> string list \<Rightarrow> vals res" where
  "parse_params s args =
     (case parse_loop s args Map.empty Map.empty of
        Inl e \<Rightarrow> Inl e
      | Inr (base, over) \<Rightarrow> Inr (base ++ over))"

section \<open>The wizard\<close>

text \<open>\<open>ReadString\<close> up to a newline: the line with it, the rest, and whether the input ended first.\<close>

definition read_line :: "string \<Rightarrow> string \<times> string \<times> bool" where
  "read_line s =
     (let l = takeWhile (\<lambda>c. c \<noteq> CHR 0x0A) s
      in if length l < length s then (l @ nl, drop (Suc (length l)) s, False) else (s, [], True))"

definition eol :: string where "eol = [CHR 0x0D, CHR 0x0A]"

definition prompt_line :: "string \<Rightarrow> string \<Rightarrow> 'm cli_scheme \<Rightarrow> string \<times> 'm cli_scheme" where
  "prompt_line label def w =
     (let w1 = say (if def \<noteq> [] then label @ '' ['' @ def @ '']: '' else label @ '': '') w;
          (line, rest, _) = read_line (c_stdin w1)
      in (trim_right line eol, w1\<lparr>c_stdin := rest\<rparr>))"

text \<open>An untyped value that may be nil.\<close>

definition non_nil :: "gval option \<Rightarrow> bool" where
  "non_nil v = (v \<noteq> None \<and> v \<noteq> Some GNil)"

definition def_str :: "gval option \<Rightarrow> string" where
  "def_str v = (case v of None \<Rightarrow> [] | Some GNil \<Rightarrow> [] | Some x \<Rightarrow> sprint x)"

text \<open>On a terminal the line is read without echo by \<open>read_password\<close>, which is not in the repository.\<close>

definition read_secret :: "('m cli_scheme \<Rightarrow> string res \<times> 'm cli_scheme) \<Rightarrow> string \<Rightarrow> 'm cli_scheme \<Rightarrow>
    string res \<times> 'm cli_scheme" where
  "read_secret read_password label w =
     (let w1 = say (label @ '': '') w
      in if \<not> c_tty w1 then
           (let (line, rest, eof) = read_line (c_stdin w1); w2 = w1\<lparr>c_stdin := rest\<rparr>
            in if eof then (Inl (ErrMsg ''EOF''), w2) else (Inr (trim_right line eol), w2))
         else
           (let (r, w2) = read_password w1 in (r, say nl w2)))"

fun option_lines :: "nat \<Rightarrow> gval option \<Rightarrow> enum_option list \<Rightarrow> string" where
  "option_lines i def [] = []"
| "option_lines i def (opt # opts) =
     '' '' @ (if non_nil def \<and> o_value opt = def_str def then ''*'' else '' '') @ '' '' @ nat_str (Suc i) @ ''. ''
     @ o_label opt @ '' ('' @ o_value opt @ '')'' @ nl @ option_lines (Suc i) def opts"

definition em_dash :: string where "em_dash = [CHR 0xE2, CHR 0x80, CHR 0x94]"

definition prompt_field :: "('m cli_scheme \<Rightarrow> string res \<times> 'm cli_scheme) \<Rightarrow> field_spec \<Rightarrow> gval option \<Rightarrow>
    'm cli_scheme \<Rightarrow> gval option res \<times> 'm cli_scheme" where
  "prompt_field read_password f def w =
     (let label = (if f_label f = [] then f_name f else f_label f)
      in case f_kind f of
           FieldSecret \<Rightarrow>
             (case read_secret read_password label w of
                (Inl e, w') \<Rightarrow> (Inl e, w')
              | (Inr raw, w') \<Rightarrow>
                  (if raw = [] \<and> non_nil def then (Inr def, w')
                   else if raw = [] \<and> f_required f then (Inl (ErrMsg (f_name f @ '' is required'')), w')
                   else (Inr (Some (GStr raw)), w')))
         | FieldEnum \<Rightarrow>
             (let w1 = say (nl @ label @ '' '' @ em_dash @ '' pick one:'' @ nl @ option_lines 0 def (f_options f)) w;
                  (line, w2) = prompt_line ''Choice'' (def_str def) w1;
                  raw = trim_space line;
                  (idx, ok) = atoi raw
              in if raw = [] then (Inr def, w2)
                 else if ok \<and> 1 \<le> idx \<and> idx \<le> int (length (f_options f)) then
                   (Inr (Some (GStr (o_value (f_options f ! nat (idx - 1))))), w2)
                 else if list_ex (\<lambda>opt. o_value opt = raw) (f_options f) then (Inr (Some (GStr raw)), w2)
                 else (Inl (ErrMsg (f_name f @ '': '' @ raw @ '' is not a valid choice'')), w2))
         | FieldInt \<Rightarrow>
             (let (raw, w1) = prompt_line label (def_str def) w; (n, ok) = atoi raw
              in if raw = [] then (Inr def, w1)
                 else if \<not> ok then
                   (Inl (ErrWrap (f_name f @ '': '') (ErrMsg (''strconv.Atoi: parsing '' @ raw)) []), w1)
                 else (Inr (Some (GInt n)), w1))
         | FieldBool \<Rightarrow>
             (let (line, w1) = prompt_line (label @ '' (y/n)'') (def_str def) w;
                  raw = to_lower (trim_space line)
              in if raw = [] then (Inr def, w1)
                 else (Inr (Some (GBool (raw = ''y'' \<or> raw = ''yes'' \<or> raw = ''true''))), w1))
         | FieldStringList \<Rightarrow>
             (let (line, w1) = prompt_line (label @ '' (comma-separated)'') (def_str def) w;
                  raw = trim_space line
              in if raw = [] then (Inr def, w1) else (Inr (Some (GStrs (split_trim raw))), w1))
         | _ \<Rightarrow>
             (let (raw, w1) = prompt_line label (def_str def) w
              in if raw = [] then
                   (if non_nil def then (Inr def, w1)
                    else if f_required f then (Inl (ErrMsg (f_name f @ '' is required'')), w1)
                    else (Inr None, w1))
                 else (Inr (Some (GStr raw)), w1)))"

fun prompt_fields :: "('m cli_scheme \<Rightarrow> string res \<times> 'm cli_scheme) \<Rightarrow> field_spec list \<Rightarrow> vals \<Rightarrow>
    'm cli_scheme \<Rightarrow> vals res \<times> 'm cli_scheme" where
  "prompt_fields rp [] values w = (Inr values, w)"
| "prompt_fields rp (f # fs) values w =
     (if \<not> is_active f values then prompt_fields rp fs values w
      else
        (let def = (case values (f_name f) of None \<Rightarrow> f_default f | Some c \<Rightarrow> Some c)
         in case prompt_field rp f def w of
              (Inl e, w1) \<Rightarrow> (Inl e, w1)
            | (Inr v, w1) \<Rightarrow>
                prompt_fields rp fs
                  (if non_nil v then values(f_name f := v) else values) w1))"

fun preset_lines :: "nat \<Rightarrow> preset list \<Rightarrow> string" where
  "preset_lines i [] = []"
| "preset_lines i (p # ps) =
     ''  '' @ nat_str (Suc i) @ ''. '' @ p_name p @ '' '' @ em_dash @ '' '' @ p_description p @ nl
     @ preset_lines (Suc i) ps"

definition arrow :: string where "arrow = [CHR 0xE2, CHR 0x86, CHR 0x92]"
definition cross_mark :: string where "cross_mark = [CHR 0xE2, CHR 0x9C, CHR 0x97]"
definition check_mark :: string where "check_mark = [CHR 0xE2, CHR 0x9C, CHR 0x93]"

definition pick_preset :: "string \<Rightarrow> preset list \<Rightarrow> 'm cli_scheme \<Rightarrow> vals res \<times> 'm cli_scheme" where
  "pick_preset typ presets w =
     (if presets = [] then (Inr Map.empty, w)
      else
        (let w1 = say (nl @ ''Available presets for '' @ typ @ '':'' @ nl @ preset_lines 0 presets) w;
             (choice, w2) = prompt_line ''Pick a preset'' ''1'' w1;
             (idx, ok) = atoi (trim_space choice)
         in if \<not> ok \<or> idx < 1 \<or> int (length presets) < idx then
              (Inl (ErrMsg (''invalid preset choice '' @ choice)), w2)
            else
              (let p = presets ! nat (idx - 1)
               in (Inr (map_of (p_values p)), say (arrow @ '' '' @ p_name p @ '' applied'' @ nl) w2))))"

definition new_credential :: "string \<Rightarrow> string \<Rightarrow> vals \<Rightarrow> credential" where
  "new_credential typ name values =
     \<lparr>cr_type = typ, cr_name = name, cr_values = values, cr_created = 0, cr_updated = 0\<rparr>"

text \<open>The live validation both ways of connecting share.\<close>

definition validate_live :: "('m cli_scheme) cred_spec \<Rightarrow> credential \<Rightarrow> 'm cli_scheme \<Rightarrow>
    credential res \<times> 'm cli_scheme" where
  "validate_live spec cred w =
     (case cs_validate spec cred (say ''Validating... '' w) of
        (Inl e, w1) \<Rightarrow> (Inl e, say (cross_mark @ nl) w1)
      | (Inr vs, w1) \<Rightarrow> (Inr (cred\<lparr>cr_values := vs\<rparr>), say (check_mark @ nl) w1))"

definition run_wizard :: "('m cli_scheme \<Rightarrow> string res \<times> 'm cli_scheme) \<Rightarrow> string \<Rightarrow> string \<Rightarrow>
    ('m cli_scheme) cred_spec \<Rightarrow> 'm cli_scheme \<Rightarrow> credential res \<times> 'm cli_scheme" where
  "run_wizard rp typ name spec w =
     (case pick_preset typ (cs_presets spec) w of
        (Inl e, w1) \<Rightarrow> (Inl e, w1)
      | (Inr values, w1) \<Rightarrow>
          (case prompt_fields rp (cs_schema spec) values w1 of
             (Inl e, w2) \<Rightarrow> (Inl e, w2)
           | (Inr values', w2) \<Rightarrow>
               validate_live spec (new_credential typ name (cs_defaults spec values')) w2))"

section \<open>Listing commands\<close>

definition cmd_connectors :: "('m cli_scheme, 's) runtime \<Rightarrow> 'm cli_scheme \<Rightarrow> unit res \<times> 'm cli_scheme" where
  "cmd_connectors rt w =
     (Inr (), foldl (\<lambda>w d. say (pad 12 (d_name d) @ '' '' @ d_display d @ nl @ replicate 13 (CHR '' '')
        @ d_description d @ nl) w) w (reg_list (rt_reg rt)))"

definition field_line :: "field_spec \<Rightarrow> string" where
  "field_line f =
     ''    '' @ pad 14 (f_name f) @ '' '' @ kind_name (f_kind f)
     @ (case f_default f of None \<Rightarrow> [] | Some d \<Rightarrow> '' [default: '' @ sprint d @ '']'')
     @ (if f_required f then '' (required)'' else []) @ nl"

definition cmd_triggers :: "('m cli_scheme, 's) runtime \<Rightarrow> string list \<Rightarrow> 'm cli_scheme \<Rightarrow> unit res \<times> 'm cli_scheme" where
  "cmd_triggers rt args w =
     (if length args \<noteq> 1 then (Inl (ErrMsg ''usage: pgf triggers <type>''), w)
      else case reg_get (rt_reg rt) (hd args) of
        None \<Rightarrow> (Inl (ErrMsg (''unknown connector: '' @ hd args)), w)
      | Some c \<Rightarrow>
          (if length (c_triggers c) = 0 then
             (Inr (), say (''(connector '' @ hd args @ '' has no triggers)'' @ nl) w)
           else
             (Inr (), foldl (\<lambda>w t. foldl (\<lambda>w f. say (field_line f) w)
                (say (pad 16 (t_name t) @ '' ['' @ strategy_name (t_strategy t) @ ''] '' @ t_description t @ nl) w)
                (t_schema t)) w (c_triggers c))))"

definition cmd_actions :: "('m cli_scheme, 's) runtime \<Rightarrow> string list \<Rightarrow> 'm cli_scheme \<Rightarrow> unit res \<times> 'm cli_scheme" where
  "cmd_actions rt args w =
     (if length args \<noteq> 1 then (Inl (ErrMsg ''usage: pgf actions <type>''), w)
      else case reg_get (rt_reg rt) (hd args) of
        None \<Rightarrow> (Inl (ErrMsg (''unknown connector: '' @ hd args)), w)
      | Some c \<Rightarrow>
          (Inr (), foldl (\<lambda>w a. foldl (\<lambda>w f. say (field_line f) w)
             (say (pad 16 (a_name a) @ '' '' @ a_description a @ nl) w) (a_schema a)) w (c_actions c)))"

definition cmd_instances :: "('m cli_scheme, 's) runtime \<Rightarrow> 'm cli_scheme \<Rightarrow> unit res \<times> 'm cli_scheme" where
  "cmd_instances rt w =
     (case cred_list (rt_store rt) (c_os w) of
        Inl e \<Rightarrow> (Inl e, w)
      | Inr refs \<Rightarrow>
          (if refs = [] then
             (Inr (), say (''No instances. Use `pgf connect <type> <name>` to add one.'' @ nl) w)
           else (Inr (), foldl (\<lambda>w r. say (ir_type r @ ''/'' @ ir_name r @ nl) w) w refs)))"

definition cmd_remove :: "('m cli_scheme, 's) runtime \<Rightarrow> string list \<Rightarrow> 'm cli_scheme \<Rightarrow> unit res \<times> 'm cli_scheme" where
  "cmd_remove rt args w =
     (if length args \<noteq> 1 then (Inl (ErrMsg ''usage: pgf rm <type>/<name>''), w)
      else
        (let (typ, name, ok) = str_cut (CHR ''/'') (hd args)
         in if \<not> ok then (Inl (ErrMsg ''argument must be <type>/<name>''), w)
            else case cred_delete (rt_store rt) (c_os w) typ name of
              (Inl e, s) \<Rightarrow> (Inl e, w\<lparr>c_os := s\<rparr>)
            | (Inr _, s) \<Rightarrow> (Inr (), say (''Removed '' @ typ @ ''/'' @ name @ nl) (w\<lparr>c_os := s\<rparr>))))"

section \<open>Connecting\<close>

fun connect_args :: "string list \<Rightarrow> string \<Rightarrow> bool \<Rightarrow> string list \<Rightarrow> (string \<times> bool \<times> string list) res" where
  "connect_args [] input noval pos = Inr (input, noval, pos)"
| "connect_args (a # args) input noval pos =
     (if a = ''--input'' \<or> a = ''-i'' then
        (case args of
           [] \<Rightarrow> Inl (ErrMsg ''--input requires a JSON value (or @file)'')
         | b # rest \<Rightarrow> connect_args rest b noval pos)
      else if a = ''--no-validate'' then connect_args args input True pos
      else connect_args args input noval (pos @ [a]))"

definition cmd_connect :: "('m cli_scheme \<Rightarrow> string res \<times> 'm cli_scheme) \<Rightarrow> ('m cli_scheme, 's) runtime \<Rightarrow>
    string list \<Rightarrow> 'm cli_scheme \<Rightarrow> unit res \<times> 'm cli_scheme" where
  "cmd_connect rp rt args w =
     (case connect_args args [] False [] of
        Inl e \<Rightarrow> (Inl e, w)
      | Inr (input, noval, pos) \<Rightarrow>
          (case pos of
             [typ, name] \<Rightarrow>
               (case reg_get (rt_reg rt) typ of
                  None \<Rightarrow> (Inl (ErrMsg (''unknown connector: '' @ typ)), w)
                | Some c \<Rightarrow>
                    (let spec = c_credential c
                     in case (if input \<noteq> [] then
                                (case read_json_input (c_os w) input of
                                   Inl e \<Rightarrow> (Inl e, w)
                                 | Inr kvs \<Rightarrow>
                                     (let cred = new_credential typ name (cs_defaults spec (vals_of kvs))
                                      in if noval then (Inr cred, w) else validate_live spec cred w))
                              else run_wizard rp typ name spec w) of
                          (Inl e, w1) \<Rightarrow> (Inl e, w1)
                        | (Inr cred, w1) \<Rightarrow>
                            (case validate_paths (c_os w1) (cs_schema spec) (cr_values cred)
                                    (''credential '' @ typ @ ''/'' @ name) of
                               Inl e \<Rightarrow> (Inl e, w1)
                             | Inr _ \<Rightarrow>
                                 (case seal_values (rt_seal rt) (rt_vault rt) (cs_schema spec) (cr_values cred) (c_pool w1) of
                                    (Inl e, r) \<Rightarrow> (Inl e, w1\<lparr>c_pool := r\<rparr>)
                                  | (Inr sealed, r) \<Rightarrow>
                                      (case cred_put (rt_enc rt) (rt_store rt) (c_now w1)
                                              (cred\<lparr>cr_values := sealed\<rparr>) (c_os w1) of
                                         (Inl e, s) \<Rightarrow> (Inl e, w1\<lparr>c_pool := r, c_os := s\<rparr>)
                                       | (Inr _, s) \<Rightarrow>
                                           (Inr (), say (''Saved '' @ typ @ ''/'' @ name @ nl)
                                              (w1\<lparr>c_pool := r, c_os := s\<rparr>)))))))
           | _ \<Rightarrow> (Inl (ErrMsg ''usage: pgf connect [--input {...} [--no-validate]] <type> <name>''), w)))"

section \<open>Running and watching\<close>

definition cmd_run :: "('m cli_scheme, 's) runtime \<Rightarrow> string list \<Rightarrow> 'm cli_scheme \<Rightarrow> unit res \<times> 'm cli_scheme" where
  "cmd_run rt args w =
     (case args of
        ref # action_name # rest \<Rightarrow>
          (let (typ, name, ok) = str_cut (CHR ''/'') ref
           in if \<not> ok then (Inl (ErrMsg ''first argument must be <type>/<name>''), w)
              else case parse_params (c_os w) rest of
                Inl e \<Rightarrow> (Inl e, w)
              | Inr params \<Rightarrow>
                  (case reg_get (rt_reg rt) typ of
                     None \<Rightarrow> (Inl (ErrMsg (''unknown connector: '' @ typ)), w)
                   | Some c \<Rightarrow>
                       (case find (\<lambda>a. a_name a = action_name) (c_actions c) of
                          None \<Rightarrow> (Inl (ErrMsg (''connector '' @ typ @ '' has no action '' @ action_name)), w)
                        | Some act \<Rightarrow>
                            (case cred_get (rt_dec rt) (rt_store rt) (c_os w) typ name of
                               Inl e \<Rightarrow> (Inl e, w)
                             | Inr cred \<Rightarrow>
                                 (case open_values (rt_open rt) (rt_vault rt) (cs_schema (c_credential c)) (cr_values cred) of
                                    Inl e \<Rightarrow> (Inl e, w)
                                  | Inr opened \<Rightarrow>
                                      (case validate_paths (c_os w) (a_schema act) params
                                              (''action '' @ typ @ ''/'' @ name @ ''.'' @ action_name) of
                                         Inl e \<Rightarrow> (Inl e, w)
                                       | Inr _ \<Rightarrow>
                                           (case c_open c (cred\<lparr>cr_values := opened\<rparr>) (store_for (rt_state rt) typ name) w of
                                              (Inl e, w1) \<Rightarrow> (Inl e, w1)
                                            | (Inr sess, w1) \<Rightarrow>
                                                (case a_run act sess params w1 of
                                                   (Inl e, w2) \<Rightarrow> (Inl e, w2)
                                                 | (Inr result, w2) \<Rightarrow>
                                                     (Inr (), snd (c_close c sess
                                                        (w2\<lparr>c_out := c_out w2 @ [OJson result]\<rparr>)))))))))))
      | _ \<Rightarrow> (Inl (ErrMsg ''usage: pgf run <type>/<name> <action> [-p k=v ...]''), w))"

definition emit_event :: "('m cli_scheme) sink" where
  "emit_event e w =
     (case json_encode (ev_payload e) of
        None \<Rightarrow> (Inl (ErrExt ''json''), w)
      | Some _ \<Rightarrow> (Inr (), w\<lparr>c_out := c_out w @ [OEvent e]\<rparr>))"

definition cmd_watch :: "('m cli_scheme, 's) runtime \<Rightarrow> string list \<Rightarrow> 'm cli_scheme \<Rightarrow> unit res \<times> 'm cli_scheme" where
  "cmd_watch rt args w =
     (case args of
        ref # trig_name # rest \<Rightarrow>
          (let (typ, name, ok) = str_cut (CHR ''/'') ref
           in if \<not> ok then (Inl (ErrMsg ''first argument must be <type>/<name>''), w)
              else case parse_params (c_os w) rest of
                Inl e \<Rightarrow> (Inl e, w)
              | Inr params \<Rightarrow>
                  (case reg_get (rt_reg rt) typ of
                     None \<Rightarrow> (Inl (ErrMsg (''unknown connector: '' @ typ)), w)
                   | Some c \<Rightarrow>
                       (case find (\<lambda>t. t_name t = trig_name) (c_triggers c) of
                          None \<Rightarrow> (Inl (ErrMsg (''connector '' @ typ @ '' has no trigger '' @ trig_name)), w)
                        | Some trig \<Rightarrow>
                            (case cred_get (rt_dec rt) (rt_store rt) (c_os w) typ name of
                               Inl e \<Rightarrow> (Inl e, w)
                             | Inr cred \<Rightarrow>
                                 (case open_values (rt_open rt) (rt_vault rt) (cs_schema (c_credential c)) (cr_values cred) of
                                    Inl e \<Rightarrow> (Inl e, w)
                                  | Inr opened \<Rightarrow>
                                      (case c_open c (cred\<lparr>cr_values := opened\<rparr>) (store_for (rt_state rt) typ name) w of
                                         (Inl e, w1) \<Rightarrow> (Inl e, w1)
                                       | (Inr sess, w1) \<Rightarrow>
                                           (case t_subscribe trig of
                                              None \<Rightarrow>
                                                (Inl (ErrMsg (''trigger '' @ trig_name @ '' has strategy ''
                                                   @ strategy_name (t_strategy trig)
                                                   @ ''; use pgf serve for webhook triggers'')), w1)
                                            | Some sub \<Rightarrow>
                                                (case sub sess params emit_event w1 of
                                                   (Inl e, w2) \<Rightarrow>
                                                     (if err_root e = ErrCanceled then (Inr (), snd (c_close c sess w2))
                                                      else (Inl e, w2))
                                                 | (Inr _, w2) \<Rightarrow> (Inr (), snd (c_close c sess w2))))))))))
      | _ \<Rightarrow> (Inl (ErrMsg ''usage: pgf watch <type>/<name> <trigger> [-p k=v ...]''), w))"

section \<open>Lemmas\<close>

text \<open>A reference reading of an argument list: the \<open>-p\<close> values of a key, and the last \<open>--input\<close> that has it.\<close>

fun param_values :: "string list \<Rightarrow> string \<Rightarrow> string list" where
  "param_values (a # b # rest) k =
     (if a = ''-p'' \<or> a = ''--param''
      then (let (k', v, _) = str_cut (CHR ''='') b in (if k' = k then [v] else []) @ param_values rest k)
      else param_values rest k)"
| "param_values _ k = []"

fun input_value :: "osys \<Rightarrow> string list \<Rightarrow> string \<Rightarrow> gval option" where
  "input_value s (a # b # rest) k =
     (if a = ''-p'' \<or> a = ''--param'' then input_value s rest k
      else case input_value s rest k of
        Some v \<Rightarrow> Some v
      | None \<Rightarrow> (case read_json_input s b of Inl _ \<Rightarrow> None | Inr kvs \<Rightarrow> map_of kvs k))"
| "input_value s _ k = None"

fun list_value :: "string list \<Rightarrow> gval option" where
  "list_value [] = None"
| "list_value [v] = Some (GStr v)"
| "list_value (v # w # vs) = Some (GStrs (v # w # vs))"

lemma list_value_snoc:
  "list_value (vs @ [v]) =
     (case list_value vs of
        None \<Rightarrow> Some (GStr v)
      | Some (GStr e) \<Rightarrow> Some (GStrs [e, v])
      | Some (GStrs es) \<Rightarrow> Some (GStrs (es @ [v]))
      | x \<Rightarrow> x)"
  by (cases vs rule: list_value.cases) auto

lemma list_value_cases: "list_value vs = None \<or> (\<exists>e. list_value vs = Some (GStr e)) \<or> (\<exists>es. list_value vs = Some (GStrs es))"
  by (cases vs rule: list_value.cases) auto

lemma add_override_list:
  "m k = list_value vs \<Longrightarrow> add_override m k v j = (if j = k then list_value (vs @ [v]) else m j)"
  using list_value_cases [of vs] by (auto simp: add_override_def list_value_snoc)

lemma parse_loop_spec:
  "parse_loop s args base over = Inr (b, r) \<Longrightarrow> (\<And>k. over k = list_value (vs k)) \<Longrightarrow>
   b k = (case input_value s args k of Some v \<Rightarrow> Some v | None \<Rightarrow> base k) \<and>
   r k = list_value (vs k @ param_values args k)"
proof (induction args arbitrary: base over vs rule: length_induct)
  case (1 args)
  show ?case
  proof (cases args)
    case Nil
    then have "over = r" "base = b" using 1(2) by auto
    then show ?thesis using 1(3) [of k] Nil by simp
  next
    case (Cons a tail)
    show ?thesis
    proof (cases "a = ''-p'' \<or> a = ''--param''")
      case True
      then obtain x rest where args: "args = a # x # rest" using 1(2) Cons by (cases tail) auto
      obtain i v where iv: "str_cut (CHR ''='') x = (i, v, True)"
        using 1(2) True args by (auto split: prod.splits if_splits)
      have step: "parse_loop s rest base (add_override over i v) = Inr (b, r)"
        using 1(2) True args iv by auto
      let ?vs = "vs(i := vs i @ [v])"
      have over: "add_override over i v j = list_value (?vs j)" for j
        using add_override_list [of over i "vs i" v j] 1(3) by simp
      have "b k = (case input_value s rest k of Some v \<Rightarrow> Some v | None \<Rightarrow> base k) \<and>
          r k = list_value (?vs k @ param_values rest k)"
        by (rule 1(1) [rule_format, OF _ step over]) (simp add: args)
      then show ?thesis using True args iv by auto
    next
      case False
      then have i: "a = ''--input'' \<or> a = ''-i''" using 1(2) Cons by (auto split: if_splits)
      then obtain x rest where args: "args = a # x # rest" using 1(2) Cons by (cases tail) auto
      obtain kvs where kvs: "read_json_input s x = Inr kvs"
        "parse_loop s rest (base ++ map_of kvs) over = Inr (b, r)"
        using 1(2) i args by (auto split: sum.splits)
      have "b k = (case input_value s rest k of Some v \<Rightarrow> Some v | None \<Rightarrow> (base ++ map_of kvs) k) \<and>
          r k = list_value (vs k @ param_values rest k)"
        by (rule 1(1) [rule_format, OF _ kvs(2) 1(3)]) (simp add: args)
      then show ?thesis using False args kvs(1) by (auto simp: map_add_def split: option.splits)
    qed
  qed
qed

definition ex_cli :: cli where
  "ex_cli = \<lparr>c_os = ex_store_os, c_pool = ex_pool, c_now = 7, c_stdin = ''42'' @ nl, c_tty = False, c_out = []\<rparr>"

text \<open>A small connector and runtime to apply the properties to.\<close>

definition ex_action :: "(cli, unit) action" where
  "ex_action = \<lparr>a_name = ''send'', a_display = ''Send'', a_description = [], a_schema = jail_schema,
     a_run = (\<lambda>_ _ w. (Inr GNil, w))\<rparr>"

definition ex_connector :: "(cli, unit) connector" where
  "ex_connector = \<lparr>c_descriptor = \<lparr>d_name = ''email'', d_display = ''Email'', d_description = [],
       d_version = ''0.1'', d_categories = []\<rparr>,
     c_credential = \<lparr>cs_kind = AuthBasic, cs_schema = ex_schema, cs_presets = [],
       cs_defaults = (\<lambda>_. ex_values), cs_validate = (\<lambda>c w. (Inr (cr_values c), w))\<rparr>,
     c_actions = [ex_action], c_triggers = [],
     c_open = (\<lambda>_ _ w. (Inr (), w)), c_close = (\<lambda>_ w. (Inr (), w))\<rparr>"

definition ex_rt :: "(cli, unit) runtime" where
  "ex_rt = \<lparr>rt_reg = [(''email'', ex_connector)], rt_store = abs_path [''s''], rt_enc = ex_enc, rt_dec = ex_dec,
     rt_seal = toy_seal, rt_open = toy_open, rt_vault = ex_vault, rt_state = abs_path [''state'']\<rparr>"

lemma ex_rt_reg: "reg_get (rt_reg ex_rt) ''email'' = Some ex_connector"
  by (simp add: ex_rt_def reg_get_def)

section \<open>Properties\<close>

text \<open>
  C10. Parameters from the command line: when the arguments parse, a key given with \<open>-p\<close> holds its one
  value as a string, or the list of its values in order when it is repeated, whatever \<open>--input\<close>
  says and in whatever order the options come; any other key holds the value of the last
  \<open>--input\<close> document that has it.
\<close>

theorem parse_params_spec:
  assumes "parse_params s args = Inr m"
  shows "m k = (case param_values args k of
      [] \<Rightarrow> input_value s args k
    | [v] \<Rightarrow> Some (GStr v)
    | vs \<Rightarrow> Some (GStrs vs))"
proof -
  from assms obtain b r where l: "parse_loop s args Map.empty Map.empty = Inr (b, r)" and m: "m = b ++ r"
    by (auto simp: parse_params_def split: sum.splits)
  from parse_loop_spec [OF l, of "\<lambda>_. []" k]
  have "b k = input_value s args k" "r k = list_value (param_values args k)"
    by (auto split: option.splits)
  then show ?thesis
    by (cases "param_values args k" rule: list_value.cases) (auto simp: m map_add_def)
qed

theorem parse_params_spec_witness:
  "\<exists>m. parse_params ex_store_os [''-p'', ''to=a'', ''-p'', ''n=1'', ''--param'', ''to=b''] = Inr m \<and>
     m ''to'' = Some (GStrs [''a'', ''b''])"
proof -
  have c: "str_cut (CHR ''='') ''to=a'' = (''to'', ''a'', True)" "str_cut (CHR ''='') ''n=1'' = (''n'', ''1'', True)"
    "str_cut (CHR ''='') ''to=b'' = (''to'', ''b'', True)"
    by (simp_all add: str_cut_def)
  then obtain m where m: "parse_params ex_store_os [''-p'', ''to=a'', ''-p'', ''n=1'', ''--param'', ''to=b''] = Inr m"
    by (simp add: parse_params_def)
  from parse_params_spec [OF m, of "''to''"] m c show ?thesis by simp
qed

text \<open>The values a field of a kind may get from its prompt.\<close>

definition fits_kind :: "field_spec \<Rightarrow> gval \<Rightarrow> bool" where
  "fits_kind f v =
     (case f_kind f of
        FieldEnum \<Rightarrow> (\<exists>opt\<in>set (f_options f). v = GStr (o_value opt))
      | FieldInt \<Rightarrow> (\<exists>n. v = GInt n \<and> int64_range n)
      | FieldBool \<Rightarrow> (\<exists>b. v = GBool b)
      | FieldStringList \<Rightarrow> (\<exists>ts. v = GStrs ts \<and> (\<forall>t\<in>set ts. t \<noteq> []))
      | _ \<Rightarrow> (\<exists>s. v = GStr s \<and> (f_required f \<longrightarrow> s \<noteq> [])))"

lemma atoi_range: "atoi s = (n, True) \<Longrightarrow> int64_range n"
  by (auto simp: atoi_def Let_def int64_range_def max_int64_def min_int64_def split: if_splits)



text \<open>
  The path whitelist guards every action of \<open>pgf run\<close>: when the parameters of a known action do not
  pass \<open>validatePaths\<close>, the command fails before a session is opened, and nothing changes.
\<close>

theorem run_rejects_outside_paths:
  assumes "str_cut (CHR ''/'') ref = (typ, name, True)" "parse_params (c_os w) rest = Inr params"
    "reg_get (rt_reg rt) typ = Some c" "find (\<lambda>a. a_name a = action_name) (c_actions c) = Some act"
    "validate_paths (c_os w) (a_schema act) params (''action '' @ typ @ ''/'' @ name @ ''.'' @ action_name) \<noteq> Inr ()"
  shows "\<exists>e. cmd_run rt (ref # action_name # rest) w = (Inl e, w)"
  using assms by (simp add: cmd_run_def Let_def split: sum.splits)

theorem run_rejects_outside_paths_witness:
  "\<exists>e. cmd_run ex_rt [''email/work'', ''send'', ''-p'', ''attachments=/etc/passwd''] (ex_cli\<lparr>c_os := jail_os\<rparr>) =
     (Inl e, ex_cli\<lparr>c_os := jail_os\<rparr>)"
proof (rule run_rejects_outside_paths)
  show "str_cut (CHR ''/'') ''email/work'' = (''email'', ''work'', True)" by (simp add: str_cut_def)
  show "parse_params (c_os (ex_cli\<lparr>c_os := jail_os\<rparr>)) [''-p'', ''attachments=/etc/passwd''] =
      Inr [''attachments'' \<mapsto> GStr ''/etc/passwd'']"
    by (simp add: parse_params_def str_cut_def add_override_def)
  show "reg_get (rt_reg ex_rt) ''email'' = Some ex_connector" by (rule ex_rt_reg)
  show "find (\<lambda>a. a_name a = ''send'') (c_actions ex_connector) = Some ex_action"
    by (simp add: ex_connector_def ex_action_def)
  show "validate_paths (c_os (ex_cli\<lparr>c_os := jail_os\<rparr>)) (a_schema ex_action) [''attachments'' \<mapsto> GStr ''/etc/passwd'']
      (''action '' @ ''email'' @ ''/'' @ ''work'' @ ''.'' @ ''send'') \<noteq> Inr ()"
    using jail_rejects by (simp add: ex_action_def)
qed


lemma ex_connect:
  "\<exists>w'. cmd_connect (\<lambda>w. (Inr [], w)) ex_rt [''-i'', ''null'', ''--no-validate'', ''email'', ''work''] ex_cli = (Inr (), w')"
proof -
  let ?vs = "ex_values(''token'' \<mapsto> GStr (sealed_prefix @ b64_encode (ex_pool @ ''khunter2'')))"
  let ?c = "new_credential ''email'' ''work'' ?vs"
  have j: "json_unmarshal ''null'' = Some GNil" by code_simp
  have pl: "plain_name (cr_type ?c)" "plain_name (cr_name ?c)"
    by (simp_all add: new_credential_def plain_name_def ok_comp_def)
  obtain s' where s': "cred_put ex_enc (abs_path [''s'']) 7 ?c ex_store_os = (Inr (), s')"
    by (rule cred_put_inv [of _ _ ?c ex_enc 7 _ ex_dec, OF ex_cred_inv pl]) (simp add: ex_enc_def, rule that)
  have v: "validate_paths ex_store_os ex_schema ex_values label = Inr ()" for label
  proof -
    have "allowed_paths ex_store_os = []" by (simp add: allowed_paths_def ex_store_os_def)
    then show ?thesis by (simp add: validate_paths_def)
  qed
  show ?thesis
    using s' ex_seal v j
    by (simp add: cmd_connect_def ex_rt_reg ex_rt_def reg_get_def read_json_input_def Let_def ex_connector_def
        ex_cli_def new_credential_def)
qed


end
