(* ===== verification/Serve.thy ===== *)
theory Serve
  imports Cli Http "HOL-Library.Multiset"
begin

text \<open>
  The daemon \<open>pgf serve\<close> (\<open>cmd/pgf/serve.go\<close>): routing, bearer authentication, the handlers, the
  cache of open sessions and its concurrent use.

  A session comes with the connector that opened it (\<open>sess.Connector()\<close>). A reply is a status and a
  body, either JSON (written with indentation) or the text of the router. Log output is left out.
  Texts of system errors name the path and the condition, not the operation.
\<close>

type_synonym ('w, 's) open_session = "('w, 's) connector \<times> 's"
type_synonym ('w, 's) session_cache = "(string \<times> ('w, 's) open_session) list"

datatype reply_body = RJson gval | RText string

record rpc_reply =
  rp_status :: int
  rp_body :: reply_body

fun errno_text :: "errno \<Rightarrow> string" where
  "errno_text ENOENT = ''no such file or directory''"
| "errno_text ENOTDIR = ''not a directory''"
| "errno_text EISDIR = ''is a directory''"
| "errno_text ENOTEMPTY = ''directory not empty''"
| "errno_text EEXIST = ''file exists''"
| "errno_text ELOOP = ''too many levels of symbolic links''"

fun err_text :: "gerr \<Rightarrow> string" where
  "err_text (ErrMsg s) = s"
| "err_text (ErrWrap p e s) = p @ err_text e @ s"
| "err_text (ErrOS no p) = p @ '': '' @ errno_text no"
| "err_text ErrNotFound = ''instance not found''"
| "err_text (ErrAPI st u b) = api_error_text st u b"
| "err_text (ErrUnknownConnector t) = ''unknown connector '' @ json_quote t"
| "err_text ErrCanceled = ''context canceled''"
| "err_text (ErrExt s) = s"

definition write_rpc_json :: "int \<Rightarrow> gval \<Rightarrow> rpc_reply" where
  "write_rpc_json status v = \<lparr>rp_status = status, rp_body = RJson v\<rparr>"

definition write_rpc_error :: "int \<Rightarrow> gerr \<Rightarrow> rpc_reply" where
  "write_rpc_error status e = write_rpc_json status (GMap [(''error'', GStr (err_text e))])"

section \<open>Introspection\<close>

definition field_to_json :: "field_spec \<Rightarrow> gval" where
  "field_to_json f = GMap
     ([(''name'', GStr (f_name f)), (''label'', GStr (f_label f)), (''description'', GStr (f_description f)),
       (''kind'', GStr (kind_name (f_kind f))), (''required'', GBool (f_required f))]
      @ (case f_default f of None \<Rightarrow> [] | Some d \<Rightarrow> [(''default'', d)])
      @ (if f_options f \<noteq> [] then
           [(''options'', GList (map (\<lambda>opt. GMap [(''value'', GStr (o_value opt)), (''label'', GStr (o_label opt))])
              (f_options f)))]
         else [])
      @ (if f_is_path f then [(''is_path'', GBool True)] else []))"

definition schema_to_json :: "schema \<Rightarrow> gval" where
  "schema_to_json s = GMap [(''fields'', GList (map field_to_json s))]"

definition actions_to_json :: "('w, 's) action list \<Rightarrow> gval" where
  "actions_to_json acts = GList (map (\<lambda>a. GMap
     [(''name'', GStr (a_name a)), (''display_name'', GStr (a_display a)),
      (''description'', GStr (a_description a)), (''schema'', schema_to_json (a_schema a))]) acts)"

definition triggers_to_json :: "('w, 's) trigger list \<Rightarrow> gval" where
  "triggers_to_json ts = GList (map (\<lambda>t. GMap
     [(''name'', GStr (t_name t)), (''strategy'', GStr (strategy_name (t_strategy t))),
      (''description'', GStr (t_description t)), (''schema'', schema_to_json (t_schema t))]) ts)"

definition descriptor_json :: "descriptor \<Rightarrow> (string \<times> gval) list" where
  "descriptor_json d =
     [(''name'', GStr (d_name d)), (''display_name'', GStr (d_display d)),
      (''description'', GStr (d_description d)), (''version'', GStr (d_version d)),
      (''categories'', GStrs (d_categories d))]"

definition handle_health :: "('w, 's) runtime \<Rightarrow> rpc_reply" where
  "handle_health rt = write_rpc_json 200
     (GMap [(''status'', GStr ''ok''), (''connectors'', GInt (int (length (reg_list (rt_reg rt)))))])"

definition handle_connectors :: "('w, 's) runtime \<Rightarrow> rpc_reply" where
  "handle_connectors rt = write_rpc_json 200 (GList (map (\<lambda>d. GMap (descriptor_json d)) (reg_list (rt_reg rt))))"

definition handle_connector :: "('w, 's) runtime \<Rightarrow> string \<Rightarrow> rpc_reply" where
  "handle_connector rt ctype =
     (case reg_get (rt_reg rt) ctype of
        None \<Rightarrow> write_rpc_error 404 (ErrMsg (''unknown connector '' @ json_quote ctype))
      | Some c \<Rightarrow> write_rpc_json 200 (GMap (descriptor_json (c_descriptor c) @
          [(''credential'', schema_to_json (cs_schema (c_credential c))),
           (''actions'', actions_to_json (c_actions c)), (''triggers'', triggers_to_json (c_triggers c))])))"

definition handle_instances :: "('w, 's) runtime \<Rightarrow> osys \<Rightarrow> rpc_reply" where
  "handle_instances rt s =
     (case cred_list (rt_store rt) s of
        Inl e \<Rightarrow> write_rpc_error 500 e
      | Inr refs \<Rightarrow> write_rpc_json 200
          (GList (map (\<lambda>r. GMap [(''type'', GStr (ir_type r)), (''name'', GStr (ir_name r))]) refs)))"

section \<open>Sessions\<close>

definition session_key :: "string \<Rightarrow> string \<Rightarrow> string" where
  "session_key ctype name = ctype @ CHR ''/'' # name"

text \<open>One call of \<open>sessionFor\<close> that runs alone; the cache is looked up again after the opening.\<close>

definition session_for :: "('m cli_scheme, 's) runtime \<Rightarrow> string \<Rightarrow> string \<Rightarrow> ('m cli_scheme, 's) session_cache \<Rightarrow>
    'm cli_scheme \<Rightarrow> ('m cli_scheme, 's) open_session res \<times> ('m cli_scheme, 's) session_cache \<times> 'm cli_scheme" where
  "session_for rt ctype name cache w =
     (let key = session_key ctype name
      in case map_of cache key of
           Some sess \<Rightarrow> (Inr sess, cache, w)
         | None \<Rightarrow>
             (case reg_get (rt_reg rt) ctype of
                None \<Rightarrow> (Inl (ErrUnknownConnector ctype), cache, w)
              | Some c \<Rightarrow>
                  (case cred_get (rt_dec rt) (rt_store rt) (c_os w) ctype name of
                     Inl e \<Rightarrow> (Inl e, cache, w)
                   | Inr cred \<Rightarrow>
                       (case open_values (rt_open rt) (rt_vault rt) (cs_schema (c_credential c)) (cr_values cred) of
                          Inl e \<Rightarrow> (Inl e, cache, w)
                        | Inr opened \<Rightarrow>
                            (case c_open c (cred\<lparr>cr_values := opened\<rparr>) (store_for (rt_state rt) ctype name) w of
                               (Inl e, w1) \<Rightarrow> (Inl e, cache, w1)
                             | (Inr sess, w1) \<Rightarrow>
                                 (case map_of cache key of
                                    Some existing \<Rightarrow> (Inr existing, cache, snd (c_close c sess w1))
                                  | None \<Rightarrow> (Inr (c, sess), (key, c, sess) # cache, w1)))))))"

fun close_all :: "('w, 's) session_cache \<Rightarrow> 'w \<Rightarrow> 'w" where
  "close_all [] w = w"
| "close_all ((k, c, sess) # cache) w = close_all cache (snd (c_close c sess w))"

definition is_unknown_connector_err :: "gerr \<Rightarrow> bool" where
  "is_unknown_connector_err e = (case err_root e of ErrUnknownConnector _ \<Rightarrow> True | _ \<Rightarrow> False)"

definition run_body :: "string \<Rightarrow> vals res" where
  "run_body data =
     (if data = [] then Inr Map.empty
      else case json_unmarshal data of
        Some (GMap kvs) \<Rightarrow> Inr (vals_of kvs)
      | Some GNil \<Rightarrow> Inr Map.empty
      | _ \<Rightarrow> Inl (ErrWrap ''body must be a JSON object: '' (ErrExt ''json'') []))"

definition handle_run :: "('m cli_scheme, 's) runtime \<Rightarrow> string \<Rightarrow> string \<Rightarrow> string \<Rightarrow> string res \<Rightarrow>
    ('m cli_scheme, 's) session_cache \<Rightarrow> 'm cli_scheme \<Rightarrow>
    rpc_reply \<times> ('m cli_scheme, 's) session_cache \<times> 'm cli_scheme" where
  "handle_run rt ctype name action_name body cache w =
     (case body of
        Inl e \<Rightarrow> (write_rpc_error 400 (ErrWrap ''read body: '' e []), cache, w)
      | Inr data \<Rightarrow>
          (case run_body data of
             Inl e \<Rightarrow> (write_rpc_error 400 e, cache, w)
           | Inr params \<Rightarrow>
               (case session_for rt ctype name cache w of
                  (Inl e, cache1, w1) \<Rightarrow>
                    (if err_root e = ErrNotFound then (write_rpc_error 404 e, cache1, w1)
                     else if is_unknown_connector_err e then (write_rpc_error 404 e, cache1, w1)
                     else (write_rpc_error 500 e, cache1, w1))
                | (Inr (c, sess), cache1, w1) \<Rightarrow>
                    (case find (\<lambda>a. a_name a = action_name) (c_actions c) of
                       None \<Rightarrow>
                         (write_rpc_error 404 (ErrMsg (''connector '' @ ctype @ '' has no action '' @ action_name)), cache1, w1)
                     | Some act \<Rightarrow>
                         (case validate_paths (c_os w1) (a_schema act) params
                                 (''action '' @ ctype @ ''/'' @ name @ ''.'' @ action_name) of
                            Inl e \<Rightarrow> (write_rpc_error 403 e, cache1, w1)
                          | Inr _ \<Rightarrow>
                              (case a_run act sess params w1 of
                                 (Inl e, w2) \<Rightarrow> (write_rpc_error 400 e, cache1, w2)
                               | (Inr result, w2) \<Rightarrow> (write_rpc_json 200 result, cache1, w2)))))))"

section \<open>Routing and authentication\<close>

text \<open>
  The router works on the escaped path. A path that is not clean is redirected, whatever the method
  (\<open>CONNECT\<close> apart); the segments are unescaped before they are compared, so a wildcard may hold a
  slash, but not be one. A pattern for \<open>GET\<close> also takes \<open>HEAD\<close>. The bodies of the router's own
  replies are shortened.
\<close>

fun path_unescape :: "string \<Rightarrow> string option" where
  "path_unescape [] = Some []"
| "path_unescape (c # cs) =
     (if c = CHR ''%'' then
        (case cs of
           a # b # r \<Rightarrow>
             (case (hex_digit_val a, hex_digit_val b) of
                (Some x, Some y) \<Rightarrow> map_option (\<lambda>t. char_of (16 * x + y) # t) (path_unescape r)
              | _ \<Rightarrow> None)
         | _ \<Rightarrow> None)
      else map_option (\<lambda>r. c # r) (path_unescape cs))"

definition segment :: "string \<Rightarrow> string" where
  "segment s = (case path_unescape s of Some t \<Rightarrow> t | None \<Rightarrow> s)"

definition clean_url_path :: "string \<Rightarrow> string" where
  "clean_url_path p =
     (if p = [] then ''/''
      else let p1 = (if hd p = CHR ''/'' then p else CHR ''/'' # p); np = clean p1
           in if last p1 = CHR ''/'' \<and> np \<noteq> ''/'' then np @ ''/'' else np)"

definition wildcard :: "string \<Rightarrow> bool" where
  "wildcard s = (s \<noteq> [] \<and> s \<noteq> ''/'')"

datatype route =
    RHealth
  | RConnectors
  | RConnector string
  | RInstances
  | RRun string string string
  | RRedirect string
  | RBadMethod
  | RNotFound

definition route_of :: "string \<Rightarrow> string \<Rightarrow> route" where
  "route_of meth path =
     (let get = (meth = ''GET'' \<or> meth = ''HEAD''); cp = clean_url_path path
      in if meth \<noteq> ''CONNECT'' \<and> cp \<noteq> path then RRedirect cp
         else case map segment (split_on (CHR ''/'') path) of
           [[], v, a] \<Rightarrow>
             (if v \<noteq> ''v1'' then RNotFound
              else if a = ''health'' then (if get then RHealth else RBadMethod)
              else if a = ''connectors'' then (if get then RConnectors else RBadMethod)
              else if a = ''instances'' then (if get then RInstances else RBadMethod)
              else RNotFound)
         | [[], v, a, b] \<Rightarrow>
             (if v = ''v1'' \<and> a = ''connectors'' \<and> wildcard b
              then (if get then RConnector b else RBadMethod) else RNotFound)
         | [[], v, a, b, c, d] \<Rightarrow>
             (if v = ''v1'' \<and> a = ''run'' \<and> wildcard b \<and> wildcard c \<and> wildcard d
              then (if meth = ''POST'' then RRun b c d else RBadMethod)
              else RNotFound)
         | _ \<Rightarrow> RNotFound)"

definition serve_mux :: "('m cli_scheme, 's) runtime \<Rightarrow> http_request \<Rightarrow> ('m cli_scheme, 's) session_cache \<Rightarrow>
    'm cli_scheme \<Rightarrow> rpc_reply \<times> ('m cli_scheme, 's) session_cache \<times> 'm cli_scheme" where
  "serve_mux rt rq cache w =
     (case route_of (rq_method rq) (rq_path rq) of
        RHealth \<Rightarrow> (handle_health rt, cache, w)
      | RConnectors \<Rightarrow> (handle_connectors rt, cache, w)
      | RConnector ctype \<Rightarrow> (handle_connector rt ctype, cache, w)
      | RInstances \<Rightarrow> (handle_instances rt (c_os w), cache, w)
      | RRun ctype name act \<Rightarrow> handle_run rt ctype name act (rq_body rq) cache w
      | RRedirect _ \<Rightarrow> (\<lparr>rp_status = 301, rp_body = RText ''Moved Permanently''\<rparr>, cache, w)
      | RBadMethod \<Rightarrow> (\<lparr>rp_status = 405, rp_body = RText ''Method Not Allowed''\<rparr>, cache, w)
      | RNotFound \<Rightarrow> (\<lparr>rp_status = 404, rp_body = RText ''404 page not found''\<rparr>, cache, w))"

definition with_auth :: "string \<Rightarrow> (http_request \<Rightarrow> 'c \<Rightarrow> 'w \<Rightarrow> rpc_reply \<times> 'c \<times> 'w) \<Rightarrow>
    http_request \<Rightarrow> 'c \<Rightarrow> 'w \<Rightarrow> rpc_reply \<times> 'c \<times> 'w" where
  "with_auth token h rq cache w =
     (if token = [] then h rq cache w
      else
        (let expected = ''Bearer '' @ token; got = hdr_get (rq_headers rq) ''Authorization''
         in if length got \<noteq> length expected \<or> got \<noteq> expected
            then (write_rpc_error 401 (ErrMsg ''unauthorized''), cache, w)
            else h rq cache w))"

definition serve_request :: "string \<Rightarrow> ('m cli_scheme, 's) runtime \<Rightarrow> http_request \<Rightarrow>
    ('m cli_scheme, 's) session_cache \<Rightarrow> 'm cli_scheme \<Rightarrow>
    rpc_reply \<times> ('m cli_scheme, 's) session_cache \<times> 'm cli_scheme" where
  "serve_request token rt rq cache w = with_auth token (serve_mux rt) rq cache w"

text \<open>The requests of a daemon's life, one after the other, and the shutdown.\<close>

fun serve_all :: "string \<Rightarrow> ('m cli_scheme, 's) runtime \<Rightarrow> http_request list \<Rightarrow>
    ('m cli_scheme, 's) session_cache \<Rightarrow> 'm cli_scheme \<Rightarrow> rpc_reply list \<times> 'm cli_scheme" where
  "serve_all token rt [] cache w = ([], close_all cache w)"
| "serve_all token rt (rq # rqs) cache w =
     (case serve_request token rt rq cache w of
        (rp, cache1, w1) \<Rightarrow>
          (case serve_all token rt rqs cache1 w1 of (rps, w2) \<Rightarrow> (rp # rps, w2)))"

section \<open>Concurrent calls of sessionFor\<close>

text \<open>
  Every request runs in a goroutine of its own, so calls of \<open>sessionFor\<close> interleave between their
  two critical sections. A call is at one of the places of \<open>call_pc\<close>; sessions are numbered in
  the order they are opened; \<open>sc_closed\<close> lists the sessions a call has closed.
\<close>

datatype call_pc =
    Checking string
  | Opening string
  | Inserting string nat
  | Returned string nat
  | Failed string

record sess_state =
  sc_calls :: "call_pc list"
  sc_cache :: "(string \<times> nat) list"
  sc_next :: nat
  sc_closed :: "nat list"

inductive sess_step :: "sess_state \<Rightarrow> sess_state \<Rightarrow> bool" where
  call: "sess_step st (st\<lparr>sc_calls := sc_calls st @ [Checking k]\<rparr>)"
| hit: "i < length (sc_calls st) \<Longrightarrow> sc_calls st ! i = Checking k \<Longrightarrow> map_of (sc_cache st) k = Some n \<Longrightarrow>
    sess_step st (st\<lparr>sc_calls := (sc_calls st)[i := Returned k n]\<rparr>)"
| miss: "i < length (sc_calls st) \<Longrightarrow> sc_calls st ! i = Checking k \<Longrightarrow> map_of (sc_cache st) k = None \<Longrightarrow>
    sess_step st (st\<lparr>sc_calls := (sc_calls st)[i := Opening k]\<rparr>)"
| open_fails: "i < length (sc_calls st) \<Longrightarrow> sc_calls st ! i = Opening k \<Longrightarrow>
    sess_step st (st\<lparr>sc_calls := (sc_calls st)[i := Failed k]\<rparr>)"
| opens: "i < length (sc_calls st) \<Longrightarrow> sc_calls st ! i = Opening k \<Longrightarrow>
    sess_step st (st\<lparr>sc_calls := (sc_calls st)[i := Inserting k (sc_next st)], sc_next := Suc (sc_next st)\<rparr>)"
| loses: "i < length (sc_calls st) \<Longrightarrow> sc_calls st ! i = Inserting k n \<Longrightarrow> map_of (sc_cache st) k = Some m \<Longrightarrow>
    sess_step st (st\<lparr>sc_calls := (sc_calls st)[i := Returned k m], sc_closed := sc_closed st @ [n]\<rparr>)"
| wins: "i < length (sc_calls st) \<Longrightarrow> sc_calls st ! i = Inserting k n \<Longrightarrow> map_of (sc_cache st) k = None \<Longrightarrow>
    sess_step st (st\<lparr>sc_calls := (sc_calls st)[i := Returned k n], sc_cache := (k, n) # sc_cache st\<rparr>)"

inductive sess_reach :: "sess_state \<Rightarrow> bool" where
  init: "sess_reach \<lparr>sc_calls = [], sc_cache = [], sc_next = 0, sc_closed = []\<rparr>"
| step: "sess_reach st \<Longrightarrow> sess_step st st' \<Longrightarrow> sess_reach st'"

text \<open>The sessions a state accounts for: cached, in the hands of a call, or closed.\<close>

definition inserting :: "call_pc list \<Rightarrow> nat list" where
  "inserting cs = concat (map (\<lambda>c. case c of Inserting _ n \<Rightarrow> [n] | _ \<Rightarrow> []) cs)"

definition pc_ok :: "(string \<times> nat) list \<Rightarrow> call_pc \<Rightarrow> bool" where
  "pc_ok cache c = (case c of Returned k n \<Rightarrow> map_of cache k = Some n | _ \<Rightarrow> True)"

definition sess_inv :: "sess_state \<Rightarrow> bool" where
  "sess_inv st =
     (mset (map snd (sc_cache st) @ inserting (sc_calls st) @ sc_closed st) = mset [0..<sc_next st] \<and>
      distinct (map fst (sc_cache st)) \<and>
      list_all (pc_ok (sc_cache st)) (sc_calls st))"

section \<open>Lemmas on concurrent sessions\<close>

definition pc_session :: "call_pc \<Rightarrow> nat list" where
  "pc_session c = (case c of Inserting _ n \<Rightarrow> [n] | _ \<Rightarrow> [])"

lemma pc_session_simps [simp]:
  "pc_session (Checking k) = []" "pc_session (Opening k) = []" "pc_session (Inserting k n) = [n]"
  "pc_session (Returned k n) = []" "pc_session (Failed k) = []"
  by (simp_all add: pc_session_def)

lemma inserting_simps [simp]:
  "inserting [] = []" "inserting (c # cs) = pc_session c @ inserting cs"
  "inserting (cs @ ds) = inserting cs @ inserting ds"
  by (simp_all add: inserting_def pc_session_def)

lemma mset_inserting_update:
  assumes "i < length cs"
  shows "mset (inserting (cs[i := c])) + mset (pc_session (cs ! i)) = mset (inserting cs) + mset (pc_session c)"
proof -
  have "inserting cs = inserting (take i cs) @ pc_session (cs ! i) @ inserting (drop (Suc i) cs)"
    by (subst id_take_nth_drop [OF assms]) simp
  then show ?thesis using assms by (simp add: upd_conv_take_nth_drop)
qed

lemma pc_ok_simps [simp]:
  "pc_ok cache (Checking k)" "pc_ok cache (Opening k)" "pc_ok cache (Inserting k n)" "pc_ok cache (Failed k)"
  "pc_ok cache (Returned k n) \<longleftrightarrow> map_of cache k = Some n"
  by (simp_all add: pc_ok_def)

lemma pc_ok_new: "map_of cache k = None \<Longrightarrow> pc_ok cache c \<Longrightarrow> pc_ok ((k, n) # cache) c"
  by (auto simp: pc_ok_def split: call_pc.splits)

lemma list_all_update: "list_all P xs \<Longrightarrow> P x \<Longrightarrow> list_all P (xs[i := x])"
  unfolding list_all_iff using set_update_subset_insert by fast

lemma sess_inv_move:
  assumes "sess_inv st" "i < length (sc_calls st)" "pc_session c = pc_session (sc_calls st ! i)" "pc_ok (sc_cache st) c"
  shows "sess_inv (st\<lparr>sc_calls := (sc_calls st)[i := c]\<rparr>)"
proof -
  have "mset (inserting ((sc_calls st)[i := c])) = mset (inserting (sc_calls st))"
    using mset_inserting_update [OF assms(2), of c] assms(3) by simp
  moreover have "list_all (pc_ok (sc_cache st)) ((sc_calls st)[i := c])"
    using assms(1,4) by (simp add: sess_inv_def list_all_update)
  ultimately show ?thesis using assms(1) by (simp add: sess_inv_def)
qed

lemma mset_inserting_done:
  assumes "i < length cs" "cs ! i = Inserting k n"
  shows "mset (inserting cs) = add_mset n (mset (inserting (cs[i := Returned k m])))"
  using mset_inserting_update [OF assms(1), of "Returned k m"] assms(2) by simp

lemma sess_step_inv:
  assumes "sess_step st st'" "sess_inv st"
  shows "sess_inv st'"
  using assms
proof (cases rule: sess_step.cases)
  case (wins i k n)
  have "list_all (pc_ok (sc_cache st)) (sc_calls st)" using assms(2) by (simp add: sess_inv_def)
  then have "list_all (pc_ok ((k, n) # sc_cache st)) (sc_calls st)"
    by (rule list.pred_mono_strong) (simp add: pc_ok_new wins)
  then have "list_all (pc_ok ((k, n) # sc_cache st)) ((sc_calls st)[i := Returned k n])"
    by (rule list_all_update) simp
  with assms(2) mset_inserting_done [OF wins(2,3), of n] wins(1,4) show ?thesis
    by (simp add: sess_inv_def map_of_eq_None_iff)
next
  case (loses i k n m)
  have "list_all (pc_ok (sc_cache st)) ((sc_calls st)[i := Returned k m])"
    using assms(2) loses by (simp add: sess_inv_def list_all_update)
  with assms(2) mset_inserting_done [OF loses(2,3), of m] loses(1) show ?thesis
    by (simp add: sess_inv_def)
next
  case (opens i k)
  have "mset (inserting ((sc_calls st)[i := Inserting k (sc_next st)])) = add_mset (sc_next st) (mset (inserting (sc_calls st)))"
    using mset_inserting_update [OF opens(2), of "Inserting k (sc_next st)"] opens(3) by simp
  moreover have "list_all (pc_ok (sc_cache st)) ((sc_calls st)[i := Inserting k (sc_next st)])"
    using assms(2) by (simp add: sess_inv_def list_all_update)
  ultimately show ?thesis using assms(2) opens(1) by (simp add: sess_inv_def)
next
  case (call k)
  then show ?thesis using assms(2) by (simp add: sess_inv_def)
next
  case (hit i k n)
  then show ?thesis using sess_inv_move [OF assms(2)] by simp
next
  case (miss i k)
  then show ?thesis using sess_inv_move [OF assms(2)] by simp
next
  case (open_fails i k)
  then show ?thesis using sess_inv_move [OF assms(2)] by simp
qed

lemma sess_reach_inv: "sess_reach st \<Longrightarrow> sess_inv st"
proof (induction rule: sess_reach.induct)
  case init
  then show ?case by (simp add: sess_inv_def)
next
  case (step st st')
  then show ?case by (blast intro: sess_step_inv)
qed

lemma mset_upt_facts:
  assumes "mset xs = mset [0..<n]"
  shows "distinct xs" "set xs = {..<n}"
proof -
  show "distinct xs" by (simp only: mset_eq_imp_distinct_iff [OF assms] distinct_upt)
  show "set xs = {..<n}" by (simp only: mset_eq_setD [OF assms] set_upt atLeast0LessThan)
qed

lemma inserting_nil: "(\<forall>c\<in>set cs. pc_session c = []) \<Longrightarrow> inserting cs = []"
  by (induction cs) auto

text \<open>C5.
  Under every interleaving of concurrent calls of \<open>sessionFor\<close>: the cache has one session per
  instance, no session is closed twice or closed while cached, a call that returned holds the
  cached session of its instance, which is not closed, and when no call is between its opening
  and its insertion every session ever opened is either cached or closed: none leaks.
\<close>

theorem sessions_shared_not_leaked:
  assumes "sess_reach st"
  shows "distinct (map fst (sc_cache st)) \<and> distinct (map snd (sc_cache st) @ sc_closed st)
    \<and> (\<forall>k n. Returned k n \<in> set (sc_calls st) \<longrightarrow> map_of (sc_cache st) k = Some n \<and> n \<notin> set (sc_closed st))
    \<and> ((\<forall>k n. Inserting k n \<notin> set (sc_calls st)) \<longrightarrow>
        set (map snd (sc_cache st)) \<union> set (sc_closed st) = {..<sc_next st})"
proof -
  have inv: "sess_inv st" using assms by (rule sess_reach_inv)
  then have m: "mset (map snd (sc_cache st) @ inserting (sc_calls st) @ sc_closed st) = mset [0..<sc_next st]"
    by (simp add: sess_inv_def)
  note d = mset_upt_facts [OF m]
  have returned: "map_of (sc_cache st) k = Some n \<and> n \<notin> set (sc_closed st)" if "Returned k n \<in> set (sc_calls st)" for k n
  proof -
    have k: "map_of (sc_cache st) k = Some n" using inv that by (auto simp: sess_inv_def list_all_iff)
    then have "n \<in> set (map snd (sc_cache st))" by (metis image_eqI map_of_SomeD set_map snd_conv)
    with k d(1) show ?thesis by (simp add: disjoint_iff)
  qed
  have all: "set (map snd (sc_cache st)) \<union> set (sc_closed st) = {..<sc_next st}"
    if "\<forall>k n. Inserting k n \<notin> set (sc_calls st)"
  proof -
    have "inserting (sc_calls st) = []"
      using that by (intro inserting_nil) (auto simp: pc_session_def split: call_pc.splits)
    then show ?thesis using d(2) by simp
  qed
  have "distinct (map snd (sc_cache st) @ sc_closed st)" using d(1) by (simp add: Int_Un_distrib)
  with inv returned all show ?thesis by (simp add: sess_inv_def)
qed

lemma two_calls_race:
  "sess_reach \<lparr>sc_calls = [Returned ''a/b'' 0, Returned ''a/b'' 0], sc_cache = [(''a/b'', 0)],
     sc_next = 2, sc_closed = [1]\<rparr>"
proof -
  note go = sess_reach.step
  have s1: "sess_reach \<lparr>sc_calls = [Checking ''a/b''], sc_cache = [], sc_next = 0, sc_closed = []\<rparr>"
    by (rule go [OF sess_reach.init], rule back_subst [of "sess_step _"], rule sess_step.call, simp_all)
  have s2: "sess_reach \<lparr>sc_calls = [Checking ''a/b'', Checking ''a/b''], sc_cache = [], sc_next = 0, sc_closed = []\<rparr>"
    by (rule go [OF s1], rule back_subst [of "sess_step _"], rule sess_step.call, simp_all)
  have s3: "sess_reach \<lparr>sc_calls = [Opening ''a/b'', Checking ''a/b''], sc_cache = [], sc_next = 0, sc_closed = []\<rparr>"
    by (rule go [OF s2], rule back_subst [of "sess_step _"], rule sess_step.miss [where i = 0 and k = "''a/b''"], simp_all)
  have s4: "sess_reach \<lparr>sc_calls = [Opening ''a/b'', Opening ''a/b''], sc_cache = [], sc_next = 0, sc_closed = []\<rparr>"
    by (rule go [OF s3], rule back_subst [of "sess_step _"], rule sess_step.miss [where i = 1 and k = "''a/b''"], simp_all)
  have s5: "sess_reach \<lparr>sc_calls = [Inserting ''a/b'' 0, Opening ''a/b''], sc_cache = [], sc_next = 1, sc_closed = []\<rparr>"
    by (rule go [OF s4], rule back_subst [of "sess_step _"], rule sess_step.opens [where i = 0 and k = "''a/b''"], simp_all)
  have s6: "sess_reach \<lparr>sc_calls = [Inserting ''a/b'' 0, Inserting ''a/b'' 1], sc_cache = [], sc_next = 2, sc_closed = []\<rparr>"
    by (rule go [OF s5], rule back_subst [of "sess_step _"], rule sess_step.opens [where i = 1 and k = "''a/b''"], simp_all)
  have s7: "sess_reach \<lparr>sc_calls = [Returned ''a/b'' 0, Inserting ''a/b'' 1], sc_cache = [(''a/b'', 0)], sc_next = 2,
      sc_closed = []\<rparr>"
    by (rule go [OF s6], rule back_subst [of "sess_step _"], rule sess_step.wins [where i = 0 and k = "''a/b''"], simp_all)
  show ?thesis
    by (rule go [OF s7], rule back_subst [of "sess_step _"], rule sess_step.loses [where i = 1 and k = "''a/b''"], simp_all)
qed

theorem sessions_shared_not_leaked_witness:
  "set (map snd [(''a/b'', 0 :: nat)]) \<union> set [1] = {..<2 :: nat}"
  using sessions_shared_not_leaked [OF two_calls_race] by simp

section \<open>Requests\<close>

definition authorised :: "string \<Rightarrow> http_request \<Rightarrow> bool" where
  "authorised token rq = (token = [] \<or> hdr_get (rq_headers rq) ''Authorization'' = ''Bearer '' @ token)"

lemma rpc_status [simp]: "rp_status (write_rpc_error n e) = n" "rp_status (write_rpc_json n v) = n"
  by (simp_all add: write_rpc_error_def write_rpc_json_def)

lemma serve_request_auth:
  "serve_request token rt rq cache w =
     (if authorised token rq then serve_mux rt rq cache w
      else (write_rpc_error 401 (ErrMsg ''unauthorized''), cache, w))"
  by (auto simp: serve_request_def with_auth_def authorised_def Let_def)

text \<open>C7.
  Bearer authentication isolates: in any sequence of requests, those without the token are answered
  401 and have no other effect; the daemon ends in the same world, and answers the other requests
  the same way, as if they had never been sent.
\<close>

theorem auth_noninterference:
  "\<exists>rps. serve_all token rt rqs cache w = (rps, snd (serve_all token rt (filter (authorised token) rqs) cache w))
     \<and> length rps = length rqs
     \<and> map snd (filter (\<lambda>(rq, rp). authorised token rq) (zip rqs rps)) =
         fst (serve_all token rt (filter (authorised token) rqs) cache w)
     \<and> list_all (\<lambda>(rq, rp). authorised token rq \<or> rp_status rp = 401) (zip rqs rps)"
proof (induction rqs arbitrary: cache w)
  case Nil
  then show ?case by simp
next
  case (Cons rq rqs)
  show ?case
  proof (cases "authorised token rq")
    case True
    obtain rp cache1 w1 where m: "serve_mux rt rq cache w = (rp, cache1, w1)" by (metis prod_cases3)
    from Cons [of cache1 w1] obtain rps
      where "serve_all token rt rqs cache1 w1 = (rps, snd (serve_all token rt (filter (authorised token) rqs) cache1 w1))"
        "length rps = length rqs"
        "map snd (filter (\<lambda>(rq, rp). authorised token rq) (zip rqs rps)) =
           fst (serve_all token rt (filter (authorised token) rqs) cache1 w1)"
        "list_all (\<lambda>(rq, rp). authorised token rq \<or> rp_status rp = 401) (zip rqs rps)"
      by blast
    with True m show ?thesis
      by (intro exI [of _ "rp # rps"]) (auto simp: serve_request_auth split: prod.splits)
  next
    case False
    from Cons [of cache w] obtain rps
      where "serve_all token rt rqs cache w = (rps, snd (serve_all token rt (filter (authorised token) rqs) cache w))"
        "length rps = length rqs"
        "map snd (filter (\<lambda>(rq, rp). authorised token rq) (zip rqs rps)) =
           fst (serve_all token rt (filter (authorised token) rqs) cache w)"
        "list_all (\<lambda>(rq, rp). authorised token rq \<or> rp_status rp = 401) (zip rqs rps)"
      by blast
    with False show ?thesis
      by (intro exI [of _ "write_rpc_error 401 (ErrMsg ''unauthorized'') # rps"])
        (auto simp: serve_request_auth write_rpc_error_def write_rpc_json_def)
  qed
qed

text \<open>Percent-encoding of every byte, a way to put any text into one segment.\<close>

definition pct :: "string \<Rightarrow> string" where
  "pct s = concat (map (\<lambda>c. [CHR ''%'', hex_char (of_char c div 16), hex_char (of_char c mod 16)]) s)"

lemma hex_char_val: "d < 16 \<Longrightarrow> hex_digit_val (hex_char d) = Some d"
  by (auto simp: hex_digit_val_def hex_char_def Let_def)

lemma of_char_less [simp]: "of_char c < (256 :: nat)"
  by (metis of_char_mod_256 mod_less_divisor zero_less_numeral)

lemma path_unescape_pct: "path_unescape (pct s) = Some s"
  by (induction s) (simp_all add: pct_def hex_char_val less_mult_imp_div_less)

lemma segment_pct [simp]: "segment (pct s) = s"
  by (simp add: segment_def path_unescape_pct)

lemma hex_char_plain: "d < 16 \<Longrightarrow> CHR ''/'' \<noteq> hex_char d"
  by (auto simp: hex_char_def dest: arg_cong [where f = "of_char :: char \<Rightarrow> nat"])

lemma pct_ok_comp: "s \<noteq> [] \<Longrightarrow> ok_comp (pct s)"
  by (cases s) (auto simp: ok_comp_def pct_def hex_char_plain less_mult_imp_div_less)

lemma clean_url_path_abs:
  assumes "cs \<noteq> []" "\<forall>c\<in>set cs. ok_comp c"
  shows "clean_url_path (abs_path cs) = abs_path cs"
proof -
  obtain ds c where cs: "cs = ds @ [c]" using assms(1) by (cases cs rule: rev_cases) auto
  then have "c \<noteq> []" "CHR ''/'' \<notin> set c" using assms(2) by (auto simp: ok_comp_def)
  then have "last c \<noteq> CHR ''/''" by (metis last_in_set)
  then have "last (abs_path cs) \<noteq> CHR ''/''" using cs \<open>c \<noteq> []\<close> by (auto simp: abs_path_snoc)
  then show ?thesis using clean_abs_path [OF assms(2)]
    by (simp add: clean_url_path_def Let_def) (simp add: abs_path_def)
qed

lemma split_abs_path:
  assumes "cs \<noteq> []" "\<forall>c\<in>set cs. CHR ''/'' \<notin> set c"
  shows "split_on (CHR ''/'') (abs_path cs) = [] # cs"
proof -
  have "split_on (CHR ''/'') (join_slash cs) = cs"
    using assms by (induction cs rule: induct_list012)
      (simp_all add: join_slash_def split_on_append_sep split_on_id del: split_on.simps)
  then show ?thesis by (simp add: abs_path_def)
qed

text \<open>The three names of a run request are whatever the client writes: for any type, name and action
  but the empty one and a lone slash there is a clean path the router hands to \<open>handleRun\<close> with
  exactly these names, slashes and dots included.
\<close>

theorem run_route_any:
  assumes "wildcard typ" "wildcard name" "wildcard act"
  shows "route_of ''POST'' (abs_path [''v1'', ''run'', pct typ, pct name, pct act]) = RRun typ name act"
proof -
  let ?cs = "[''v1'', ''run'', pct typ, pct name, pct act]"
  have ok: "\<forall>c\<in>set ?cs. ok_comp c"
    using assms pct_ok_comp by (auto simp: wildcard_def ok_comp_def)
  then have "split_on (CHR ''/'') (abs_path ?cs) = [] # ?cs"
    by (intro split_abs_path) (auto simp: ok_comp_def)
  moreover have "segment [] = []" "segment ''v1'' = ''v1''" "segment ''run'' = ''run''"
    by (simp_all add: segment_def)
  ultimately show ?thesis using assms clean_url_path_abs [OF _ ok]
    by (simp add: route_of_def Let_def del: split_on.simps)
qed

theorem run_route_any_witness:
  "route_of ''POST'' (abs_path [''v1'', ''run'', pct ''http'', pct ''../../etc/x'', pct ''get'']) =
     RRun ''http'' ''../../etc/x'' ''get''"
  by (rule run_route_any) (simp_all add: wildcard_def)

text \<open>The path whitelist guards the daemon: when the parameters of a known action do not pass
  \<open>validatePaths\<close>, a run request on an open session is answered 403, and neither the session nor the
  world changes.
\<close>

theorem serve_rejects_outside_paths:
  assumes "map_of cache (session_key typ name) = Some (c, sess)"
    "find (\<lambda>a. a_name a = action_name) (c_actions c) = Some act"
    "json_unmarshal data = Some (GMap kvs)" "data \<noteq> []"
    "validate_paths (c_os w) (a_schema act) (vals_of kvs) (''action '' @ typ @ ''/'' @ name @ ''.'' @ action_name) \<noteq> Inr ()"
  shows "\<exists>rp. handle_run rt typ name action_name (Inr data) cache w = (rp, cache, w) \<and> rp_status rp = 403"
  using assms by (auto simp: handle_run_def run_body_def session_for_def Let_def write_rpc_error_def write_rpc_json_def
      split: sum.splits)

theorem serve_rejects_outside_paths_witness:
  "\<exists>rp. handle_run ex_rt ''email'' ''work'' ''send'' (Inr ''{\"attachments\":\"/etc/passwd\"}'')
      [(''email/work'', ex_connector, ())] (ex_cli\<lparr>c_os := jail_os\<rparr>) =
     (rp, [(''email/work'', ex_connector, ())], ex_cli\<lparr>c_os := jail_os\<rparr>) \<and> rp_status rp = 403"
proof (rule serve_rejects_outside_paths)
  show "map_of [(''email/work'', ex_connector, ())] (session_key ''email'' ''work'') = Some (ex_connector, ())"
    by (simp add: session_key_def)
  show "find (\<lambda>a. a_name a = ''send'') (c_actions ex_connector) = Some ex_action"
    by (simp add: ex_connector_def ex_action_def)
  show "json_unmarshal ''{\"attachments\":\"/etc/passwd\"}'' = Some (GMap [(''attachments'', GStr ''/etc/passwd'')])"
    by code_simp
  show "''{\"attachments\":\"/etc/passwd\"}'' \<noteq> []" by simp
  show "validate_paths (c_os (ex_cli\<lparr>c_os := jail_os\<rparr>)) (a_schema ex_action)
      (vals_of [(''attachments'', GStr ''/etc/passwd'')]) (''action '' @ ''email'' @ ''/'' @ ''work'' @ ''.'' @ ''send'') \<noteq> Inr ()"
    using jail_rejects by (simp add: ex_action_def vals_of_def)
qed


end
