(* ===== verification/Webhooks.thy ===== *)
theory Webhooks
  imports Serve
begin

text \<open>
  The receiver \<open>pgf webhooks\<close> (\<open>cmd/pgf/webhooks.go\<close>): its flags, the resolution of references to
  mounted triggers, registration and teardown, and the handling of requests, one after the other.

  Patterns are taken literally: names with braces, which the router would read as wildcards, are
  refused here with the malformed ones. A panic of the router while mounting runs the deferred
  teardown; \<open>fail\<close> exits without it. Lines on the standard error are left out. The shutdown is a
  signal after the last request.
\<close>

section \<open>Flags\<close>

text \<open>
  \<open>flag.FlagSet.Parse\<close>: a flag is given by its name and whether it is boolean; the values given, in
  order, and the arguments left.
\<close>

type_synonym flag_defs = "(string \<times> bool) list"

definition flag_body :: "string \<Rightarrow> string option" where
  "flag_body a =
     (case a of
        c # d # r \<Rightarrow> if c = CHR ''-'' then Some (if d = CHR ''-'' then r else d # r) else None
      | _ \<Rightarrow> None)"

definition flag_split :: "string \<Rightarrow> string \<times> string option" where
  "flag_split name =
     (case str_cut (CHR ''='') (tl name) of
        (k, v, ok) \<Rightarrow> (hd name # k, if ok then Some v else None))"

fun flag_parse :: "flag_defs \<Rightarrow> string list \<Rightarrow> ((string \<times> string) list \<times> string list) res" where
  "flag_parse defs [] = Inr ([], [])"
| "flag_parse defs (a # args) =
     (case flag_body a of
        None \<Rightarrow> Inr ([], a # args)
      | Some name \<Rightarrow>
          if a = ''--'' then Inr ([], args)
          else if name = [] \<or> hd name = CHR ''-'' \<or> hd name = CHR ''='' then
            Inl (ErrMsg (''bad flag syntax: '' @ a))
          else
            (let (key, val) = flag_split name
             in case map_of defs key of
                  None \<Rightarrow>
                    Inl (ErrMsg (if key = ''help'' \<or> key = ''h'' then ''flag: help requested''
                                 else ''flag provided but not defined: -'' @ key))
                | Some True \<Rightarrow>
                    (let v = (case val of None \<Rightarrow> ''true'' | Some v \<Rightarrow> v)
                     in if parse_bool v = None then
                          Inl (ErrMsg (''invalid boolean value '' @ json_quote v @ '' for -'' @ key @ '': parse error''))
                        else (case flag_parse defs args of
                                Inl e \<Rightarrow> Inl e
                              | Inr (vs, rest) \<Rightarrow> Inr ((key, v) # vs, rest)))
                | Some False \<Rightarrow>
                    (case (val, args) of
                       (Some v, _) \<Rightarrow>
                         (case flag_parse defs args of
                            Inl e \<Rightarrow> Inl e
                          | Inr (vs, rest) \<Rightarrow> Inr ((key, v) # vs, rest))
                     | (None, v # args') \<Rightarrow>
                         (case flag_parse defs args' of
                            Inl e \<Rightarrow> Inl e
                          | Inr (vs, rest) \<Rightarrow> Inr ((key, v) # vs, rest))
                     | (None, []) \<Rightarrow> Inl (ErrMsg (''flag needs an argument: -'' @ key)))))"

definition flag_value :: "(string \<times> string) list \<Rightarrow> string \<Rightarrow> string \<Rightarrow> string" where
  "flag_value vs key def = (case map_of (rev vs) key of None \<Rightarrow> def | Some v \<Rightarrow> v)"

definition webhook_flags :: flag_defs where
  "webhook_flags = [(''addr'', False), (''public-url'', False), (''no-register'', True)]"

text \<open>The arguments left: references, and \<open>-p\<close> pairs kept for \<open>parseParams\<close>.\<close>

fun split_refs :: "string list \<Rightarrow> (string list \<times> string list) res" where
  "split_refs [] = Inr ([], [])"
| "split_refs (a # args) =
     (if a = ''-p'' \<or> a = ''--param'' then
        (case args of
           [] \<Rightarrow> Inl (ErrMsg ''-p requires k=v'')
         | b # rest \<Rightarrow>
             (case split_refs rest of
                Inl e \<Rightarrow> Inl e
              | Inr (refs, ps) \<Rightarrow> Inr (refs, a # b # ps)))
      else
        (case split_refs args of
           Inl e \<Rightarrow> Inl e
         | Inr (refs, ps) \<Rightarrow> Inr (a # refs, ps)))"

section \<open>Mounts\<close>

record ('w, 's) mount =
  m_label :: string
  m_path :: string
  m_conn :: "('w, 's) connector"
  m_sess :: 's
  m_ops :: "('w, 's) webhook_ops"

record inst_sel =
  s_type :: string
  s_name :: string
  s_trigger :: string

fun parse_refs :: "string list \<Rightarrow> inst_sel list res" where
  "parse_refs [] = Inr []"
| "parse_refs (ref # refs) =
     (let (tn, trig, _) = str_cut (CHR '':'') ref;
          (typ, name, ok) = str_cut (CHR ''/'') tn
      in if \<not> ok then Inl (ErrMsg (''ref '' @ json_quote ref @ '' must be <type>/<name>[:<trigger>]''))
         else case parse_refs refs of
           Inl e \<Rightarrow> Inl e
         | Inr sels \<Rightarrow> Inr (\<lparr>s_type = typ, s_name = name, s_trigger = trig\<rparr> # sels))"

definition selections :: "('w, 's) runtime \<Rightarrow> osys \<Rightarrow> string list \<Rightarrow> inst_sel list res" where
  "selections rt s refs =
     (if refs = [] then
        (case cred_list (rt_store rt) s of
           Inl e \<Rightarrow> Inl e
         | Inr all \<Rightarrow> Inr (map (\<lambda>r. \<lparr>s_type = ir_type r, s_name = ir_name r, s_trigger = []\<rparr>) all))
      else parse_refs refs)"

fun pick_triggers :: "string \<Rightarrow> ('w, 's) trigger list \<Rightarrow> (string \<times> ('w, 's) webhook_ops) list" where
  "pick_triggers trig [] = []"
| "pick_triggers trig (t # ts) =
     (case t_webhook t of
        None \<Rightarrow> pick_triggers trig ts
      | Some ops \<Rightarrow>
          if trig \<noteq> [] \<and> t_name t \<noteq> trig then pick_triggers trig ts
          else (t_name t, ops) # pick_triggers trig ts)"

definition mount_of :: "inst_sel \<Rightarrow> ('w, 's) connector \<Rightarrow> 's \<Rightarrow> string \<times> ('w, 's) webhook_ops \<Rightarrow> ('w, 's) mount" where
  "mount_of sel c sess p =
     \<lparr>m_label = s_type sel @ ''/'' @ s_name sel @ ''::'' @ fst p,
      m_path = ''/'' @ s_type sel @ ''/'' @ s_name sel @ ''/'' @ fst p,
      m_conn = c, m_sess = sess, m_ops = snd p\<rparr>"

fun resolve_sels :: "('m cli_scheme, 's) runtime \<Rightarrow> inst_sel list \<Rightarrow> 'm cli_scheme \<Rightarrow>
    ('m cli_scheme, 's) mount list res \<times> 'm cli_scheme" where
  "resolve_sels rt [] w = (Inr [], w)"
| "resolve_sels rt (sel # sels) w =
     (case reg_get (rt_reg rt) (s_type sel) of
        None \<Rightarrow> (Inl (ErrMsg (''unknown connector: '' @ s_type sel)), w)
      | Some c \<Rightarrow>
          (case pick_triggers (s_trigger sel) (c_triggers c) of
             [] \<Rightarrow>
               (if s_trigger sel \<noteq> [] then
                  (Inl (ErrMsg (''connector '' @ s_type sel @ '' has no webhook trigger ''
                     @ json_quote (s_trigger sel))), w)
                else resolve_sels rt sels w)
           | picks \<Rightarrow>
               (case cred_get (rt_dec rt) (rt_store rt) (c_os w) (s_type sel) (s_name sel) of
                  Inl e \<Rightarrow> (Inl (ErrWrap (''load '' @ s_type sel @ ''/'' @ s_name sel @ '': '') e []), w)
                | Inr cred \<Rightarrow>
                    (case open_values (rt_open rt) (rt_vault rt) (cs_schema (c_credential c)) (cr_values cred) of
                       Inl e \<Rightarrow> (Inl (ErrWrap (''open creds '' @ s_type sel @ ''/'' @ s_name sel @ '': '') e []), w)
                     | Inr opened \<Rightarrow>
                         (case c_open c (cred\<lparr>cr_values := opened\<rparr>)
                                 (store_for (rt_state rt) (s_type sel) (s_name sel)) w of
                            (Inl e, w1) \<Rightarrow>
                              (Inl (ErrWrap (''open '' @ s_type sel @ ''/'' @ s_name sel @ '': '') e []), w1)
                          | (Inr sess, w1) \<Rightarrow>
                              (case resolve_sels rt sels w1 of
                                 (Inl e, w2) \<Rightarrow> (Inl e, w2)
                               | (Inr ms, w2) \<Rightarrow> (Inr (map (mount_of sel c sess) picks @ ms), w2)))))))"

definition resolve_mounts :: "('m cli_scheme, 's) runtime \<Rightarrow> string list \<Rightarrow> 'm cli_scheme \<Rightarrow>
    ('m cli_scheme, 's) mount list res \<times> 'm cli_scheme" where
  "resolve_mounts rt refs w =
     (case selections rt (c_os w) refs of
        Inl e \<Rightarrow> (Inl e, w)
      | Inr sels \<Rightarrow> resolve_sels rt sels w)"

section \<open>Replies\<close>

record web_reply =
  wr_status :: int
  wr_headers :: hdr
  wr_body :: string

text \<open>\<open>WriteHeader\<close> panics on a code that is not of three digits, which drops the connection: \<open>None\<close>.\<close>

definition write_response :: "webhook_response option \<Rightarrow> web_reply option" where
  "write_response r =
     (case r of
        None \<Rightarrow> Some \<lparr>wr_status = 200, wr_headers = [], wr_body = []\<rparr>
      | Some r \<Rightarrow>
          (let added = fold (\<lambda>(k, vs) h. fold (\<lambda>v h. hdr_add k v h) vs h) (w_headers r) [];
               ct = (if w_content_type r = [] then ''text/plain; charset=utf-8'' else w_content_type r);
               status = (if w_status r = 0 then 200 else w_status r)
           in if status < 100 \<or> status > 999 then None
              else Some \<lparr>wr_status = status, wr_headers = hdr_set ''Content-Type'' ct added, wr_body = w_body r\<rparr>))"

definition http_error :: "int \<Rightarrow> string \<Rightarrow> web_reply" where
  "http_error status msg =
     \<lparr>wr_status = status,
      wr_headers = [(''Content-Type'', [''text/plain; charset=utf-8'']), (''X-Content-Type-Options'', [''nosniff''])],
      wr_body = msg @ nl\<rparr>"

section \<open>Serving\<close>

datatype ('w, 's) teardown = TClose "('w, 's) mount" | TDisable "('w, 's) mount"

fun run_teardown :: "vals \<Rightarrow> ('w, 's) teardown list \<Rightarrow> 'w \<Rightarrow> 'w" where
  "run_teardown params [] w = w"
| "run_teardown params (TClose m # ts) w = run_teardown params ts (snd (c_close (m_conn m) (m_sess m) w))"
| "run_teardown params (TDisable m # ts) w = run_teardown params ts (snd (on_disable (m_ops m) (m_sess m) params w))"

text \<open>What the router accepts as a further literal pattern.\<close>

definition pattern_segs :: "string \<Rightarrow> string list" where
  "pattern_segs p = map segment (split_on (CHR ''/'') p)"

definition pattern_ok :: "string list \<Rightarrow> string \<Rightarrow> bool" where
  "pattern_ok mounted p =
     (clean_url_path p = p \<and> set p \<inter> {CHR '' '', CHR 0x09, CHR ''{''} = {} \<and>
      list_all (\<lambda>q. pattern_segs q \<noteq> pattern_segs p) mounted)"

datatype mount_end = Exited gerr | Panicked string

text \<open>
  The mounting loop. \<open>td\<close> is the teardown stack, last first; \<open>ps\<close> the patterns mounted so far.
\<close>

fun mount_loop :: "bool \<Rightarrow> string \<Rightarrow> vals \<Rightarrow> ('w, 's) mount list \<Rightarrow> string list \<Rightarrow> ('w, 's) teardown list \<Rightarrow> 'w \<Rightarrow>
    (mount_end + ('w, 's) teardown list) \<times> 'w" where
  "mount_loop noreg url params [] ps td w = (Inr td, w)"
| "mount_loop noreg url params (m # ms) ps td w =
     (if \<not> pattern_ok ps (m_path m) then (Inl (Panicked (m_path m)), run_teardown params td w)
      else if noreg then mount_loop noreg url params ms (m_path m # ps) (TClose m # td) w
      else
        (case on_enable (m_ops m) (m_sess m) params (trim_right url ''/'' @ m_path m) w of
           (Inl e, w1) \<Rightarrow> (Inl (Exited (ErrWrap (''OnEnable '' @ m_label m @ '': '') e [])), w1)
         | (Inr _, w1) \<Rightarrow>
             mount_loop noreg url params ms (m_path m # ps) (TDisable m # TClose m # td) w1))"

definition web_handle :: "vals \<Rightarrow> ('m cli_scheme, 's) mount list \<Rightarrow> http_request \<Rightarrow> 'm cli_scheme \<Rightarrow>
    web_reply option \<times> 'm cli_scheme" where
  "web_handle params ms rq w =
     (if rq_method rq \<noteq> ''CONNECT'' \<and> clean_url_path (rq_path rq) \<noteq> rq_path rq then
        (Some \<lparr>wr_status = 301, wr_headers = [(''Location'', [clean_url_path (rq_path rq)])], wr_body = []\<rparr>, w)
      else if pattern_segs (rq_path rq) = pattern_segs ''/healthz'' then
        (Some \<lparr>wr_status = 200, wr_headers = [], wr_body = ''ok''\<rparr>, w)
      else
        (case find (\<lambda>m. pattern_segs (m_path m) = pattern_segs (rq_path rq)) ms of
           None \<Rightarrow> (Some (http_error 404 ''404 page not found''), w)
         | Some m \<Rightarrow>
             (case on_handle (m_ops m) (m_sess m) params rq emit_event w of
                (Inl e, w1) \<Rightarrow> (Some (http_error 500 (err_text e)), w1)
              | (Inr r, w1) \<Rightarrow> (write_response r, w1))))"

fun web_serve :: "vals \<Rightarrow> ('m cli_scheme, 's) mount list \<Rightarrow> http_request list \<Rightarrow> 'm cli_scheme \<Rightarrow>
    web_reply option list \<times> 'm cli_scheme" where
  "web_serve params ms [] w = ([], w)"
| "web_serve params ms (rq # rqs) w =
     (case web_handle params ms rq w of
        (rp, w1) \<Rightarrow> (case web_serve params ms rqs w1 of (rps, w2) \<Rightarrow> (rp # rps, w2)))"

definition cmd_webhooks :: "('m cli_scheme, 's) runtime \<Rightarrow> string list \<Rightarrow> http_request list \<Rightarrow> 'm cli_scheme \<Rightarrow>
    (mount_end + web_reply option list) \<times> 'm cli_scheme" where
  "cmd_webhooks rt args rqs w =
     (case flag_parse webhook_flags args of
        Inl e \<Rightarrow> (Inl (Exited e), w)
      | Inr (vs, rest) \<Rightarrow>
          (let url = flag_value vs ''public-url'' [];
               noreg = (parse_bool (flag_value vs ''no-register'' ''false'') = Some True)
           in case split_refs rest of
                Inl e \<Rightarrow> (Inl (Exited e), w)
              | Inr (refs, pargs) \<Rightarrow>
                  (case parse_params (c_os w) pargs of
                     Inl e \<Rightarrow> (Inl (Exited e), w)
                   | Inr params \<Rightarrow>
                       if url = [] \<and> \<not> noreg then
                         (Inl (Exited (ErrMsg ''--public-url is required (or --no-register for local dev)'')), w)
                       else
                         (case resolve_mounts rt refs w of
                            (Inl e, w1) \<Rightarrow> (Inl (Exited e), w1)
                          | (Inr [], w1) \<Rightarrow>
                              (Inl (Exited (ErrMsg ''no webhook triggers to mount (no instances or no webhook triggers)'')), w1)
                          | (Inr ms, w1) \<Rightarrow>
                              (case mount_loop noreg url params ms [''/healthz''] [] w1 of
                                 (Inl e, w2) \<Rightarrow> (Inl e, w2)
                               | (Inr td, w2) \<Rightarrow>
                                   (case web_serve params ms rqs w2 of
                                      (rps, w3) \<Rightarrow> (Inr rps, run_teardown params td w3)))))))"

section \<open>Properties\<close>

lemma mount_loop_stack:
  "fst (mount_loop noreg url params ms ps td w) = Inr td' \<Longrightarrow>
   td' = concat (map (\<lambda>m. if noreg then [TClose m] else [TDisable m, TClose m]) (rev ms)) @ td"
proof (induction ms arbitrary: ps td w)
  case Nil
  then show ?case by simp
next
  case (Cons m ms)
  show ?case
  proof (cases noreg)
    case True
    with Cons.prems have "fst (mount_loop noreg url params ms (m_path m # ps) (TClose m # td) w) = Inr td'"
      by (simp split: if_splits)
    from Cons.IH [OF this] True show ?thesis by simp
  next
    case False
    obtain r w1 where e: "on_enable (m_ops m) (m_sess m) params (trim_right url ''/'' @ m_path m) w = (r, w1)"
      by fastforce
    with Cons.prems False have "fst (mount_loop noreg url params ms (m_path m # ps) (TDisable m # TClose m # td) w1) = Inr td'"
      by (cases r) (simp_all split: if_splits)
    from Cons.IH [OF this] False show ?thesis by simp
  qed
qed


definition ex_hook :: "(cli, unit) webhook_ops" where
  "ex_hook = \<lparr>on_enable = (\<lambda>_ _ _ w. (Inr (), w)), on_disable = (\<lambda>_ _ w. (Inr (), w)),
     on_handle = (\<lambda>_ _ _ _ w. (Inr None, w))\<rparr>"

definition ex_mount :: "string \<Rightarrow> (cli, unit) mount" where
  "ex_mount t = mount_of \<lparr>s_type = ''email'', s_name = ''work'', s_trigger = []\<rparr> ex_connector () (t, ex_hook)"

lemma ex_mount_path: "m_path (ex_mount ''a'') = ''/email/work/a''" "m_path (ex_mount ''b'') = ''/email/work/b''"
  by (simp_all add: ex_mount_def mount_of_def)

lemma ex_patterns:
  "pattern_ok [''/healthz''] ''/email/work/a''" "pattern_ok [''/email/work/a'', ''/healthz''] ''/email/work/b''"
  by code_simp+

lemma ex_mount_loop:
  "fst (mount_loop False ''https://h'' Map.empty [ex_mount ''a'', ex_mount ''b''] [''/healthz''] [] ex_cli) =
     Inr [TDisable (ex_mount ''b''), TClose (ex_mount ''b''), TDisable (ex_mount ''a''), TClose (ex_mount ''a'')]"
proof -
  have "m_ops (ex_mount t) = ex_hook" for t by (simp add: ex_mount_def mount_of_def)
  then show ?thesis by (simp add: ex_mount_path ex_patterns) (simp add: ex_hook_def ex_mount_path ex_patterns)
qed


text \<open>Two triggers of one instance share its session, but each mount pushes a close of its own: on
  shutdown the first trigger is disabled on a session that is already closed, and the session is
  closed a second time.
\<close>

theorem shared_session_closed_early:
  assumes "fst (mount_loop False url params (map (mount_of sel c sess) [p, q]) ps [] w) = Inr td"
  shows "run_teardown params td w' =
    snd (c_close c sess (snd (on_disable (snd p) sess params (snd (c_close c sess (snd (on_disable (snd q) sess params w')))))))"
  using mount_loop_stack [OF assms] by (simp add: mount_of_def)

theorem shared_session_closed_early_witness:
  "run_teardown Map.empty [TDisable (ex_mount ''b''), TClose (ex_mount ''b''), TDisable (ex_mount ''a''), TClose (ex_mount ''a'')]
     ex_cli = ex_cli"
proof -
  let ?sel = "\<lparr>s_type = ''email'', s_name = ''work'', s_trigger = []\<rparr>"
  have "fst (mount_loop False ''https://h'' Map.empty (map (mount_of ?sel ex_connector ()) [(''a'', ex_hook), (''b'', ex_hook)])
      [''/healthz''] [] ex_cli) =
     Inr [TDisable (ex_mount ''b''), TClose (ex_mount ''b''), TDisable (ex_mount ''a''), TClose (ex_mount ''a'')]"
    using ex_mount_loop by (simp add: ex_mount_def)
  from shared_session_closed_early [OF this, of ex_cli] show ?thesis by (simp add: ex_hook_def ex_connector_def)
qed

text \<open>\<open>-p\<close> among the flags, where the comment of the command shows it, is refused by the flag parser: it is only
  understood behind a reference.
\<close>

theorem params_before_refs_refused:
  "cmd_webhooks rt (''-p'' # kv # refs) rqs w = (Inl (Exited (ErrMsg ''flag provided but not defined: -p'')), w)"
  by (simp add: cmd_webhooks_def flag_body_def flag_split_def str_cut_def webhook_flags_def)

text \<open>The mounts a selection stands for.\<close>

definition sel_mounts :: "('w, 's) registry \<Rightarrow> inst_sel \<Rightarrow> (string \<times> string) list" where
  "sel_mounts reg sel =
     (case reg_get reg (s_type sel) of
        None \<Rightarrow> []
      | Some c \<Rightarrow> map (\<lambda>t. (''/'' @ s_type sel @ ''/'' @ s_name sel @ ''/'' @ t_name t,
          s_type sel @ ''/'' @ s_name sel @ ''::'' @ t_name t))
          (filter (\<lambda>t. t_webhook t \<noteq> None \<and> (s_trigger sel = [] \<or> t_name t = s_trigger sel)) (c_triggers c)))"

lemma pick_triggers_names:
  "map fst (pick_triggers trig ts) =
     map t_name (filter (\<lambda>t. t_webhook t \<noteq> None \<and> (trig = [] \<or> t_name t = trig)) ts)"
  by (induction ts) (auto split: option.splits)

lemma mounts_of_picks:
  assumes "reg_get reg (s_type sel) = Some c" "pick_triggers (s_trigger sel) (c_triggers c) = picks"
  shows "map (\<lambda>m. (m_path m, m_label m)) (map (mount_of sel c sess) picks) = sel_mounts reg sel"
proof -
  let ?f = "\<lambda>n. (''/'' @ s_type sel @ ''/'' @ s_name sel @ ''/'' @ n, s_type sel @ ''/'' @ s_name sel @ ''::'' @ n)"
  have "map (\<lambda>m. (m_path m, m_label m)) (map (mount_of sel c sess) picks) = map ?f (map fst picks)"
    by (simp add: mount_of_def)
  also have "\<dots> = sel_mounts reg sel"
    by (simp add: assms(2) [symmetric] pick_triggers_names sel_mounts_def assms(1))
  finally show ?thesis .
qed

lemma resolve_sels_mounts:
  "resolve_sels rt sels w = (Inr ms, w') \<Longrightarrow>
   map (\<lambda>m. (m_path m, m_label m)) ms = concat (map (sel_mounts (rt_reg rt)) sels) \<and>
   list_all (\<lambda>sel. s_trigger sel = [] \<or> sel_mounts (rt_reg rt) sel \<noteq> []) sels"
proof (induction sels arbitrary: w ms w')
  case Nil
  then show ?case by simp
next
  case (Cons sel sels)
  then obtain c where c: "reg_get (rt_reg rt) (s_type sel) = Some c" by (auto split: option.splits)
  obtain picks where picks: "pick_triggers (s_trigger sel) (c_triggers c) = picks" by simp
  note sm = mounts_of_picks [OF c picks]
  show ?case
  proof (cases "picks = []")
    case True
    then have "resolve_sels rt sels w = (Inr ms, w')" "s_trigger sel = []"
      using Cons.prems c picks by (auto split: if_splits)
    with Cons.IH [OF this(1)] sm [of undefined] True show ?thesis by simp
  next
    case False
    with Cons.prems c picks obtain sess w1 ms1 where
      "resolve_sels rt sels w1 = (Inr ms1, w')" "ms = map (mount_of sel c sess) picks @ ms1"
      by (auto split: list.splits sum.splits prod.splits)
    with Cons.IH [OF this(1)] sm [of sess] False show ?thesis by auto
  qed
qed


definition ex_hooked :: "(cli, unit) connector" where
  "ex_hooked = ex_connector\<lparr>c_triggers := [\<lparr>t_name = ''in'', t_display = [], t_description = [], t_schema = [],
     t_strategy = TriggerWebhook, t_subscribe = None, t_webhook = Some ex_hook\<rparr>]\<rparr>"

definition ex_web_os :: osys where
  "ex_web_os = ex_store_os\<lparr>files := [([''s''], Dir 448), ([''s'', ''email''], Dir 448),
     ([''s'', ''email'', ''work.yaml''], Reg 384 ''ada'')]\<rparr>"

lemma ex_web_read: "os_read_file ex_web_os (cred_path (abs_path [''s'']) ''email'' ''work'') = Inr ''ada''"
  by code_simp


end
