(* ===== verification/Dispatch.thy ===== *)
theory Dispatch
  imports Webhooks StateStore
begin

text \<open>
  The program's start (\<open>main\<close> and \<open>init\<close> of \<open>cmd/pgf/main.go\<close>): registration of the connectors, the
  set-up every command shares, and the choice of the command.

  What lies outside is given by \<open>platform\<close>: the YAML library, the cipher, the terminal. A run ends with
  an exit status, and with the error \<open>fail\<close> prints. \<open>serve\<close> and \<open>webhooks\<close> get the requests they will see.
\<close>

record ('w, 's) platform =
  pf_connectors :: "('w, 's) connector list"
  pf_enc :: yaml_enc
  pf_dec :: yaml_dec
  pf_seal :: sealer
  pf_open :: opener
  pf_read :: "'w \<Rightarrow> string res \<times> 'w"

datatype pgf_end = Done | UsageExit | FailExit gerr | PanicExit string | Served "rpc_reply list" | Received "web_reply option list"

definition exit_status :: "pgf_end \<Rightarrow> int" where
  "exit_status e = (case e of UsageExit \<Rightarrow> 2 | FailExit _ \<Rightarrow> 1 | PanicExit _ \<Rightarrow> 2 | _ \<Rightarrow> 0)"

text \<open>\<open>init\<close> registers into the empty default registry; a failure is a panic.\<close>

definition pgf_init :: "('w, 's) connector list \<Rightarrow> ('w, 's) registry option" where
  "pgf_init cs = register_all cs new_registry"

text \<open>
  The flags and the token of \<open>pgf serve\<close>. The shutdown timeout is not read as a duration: an ill-formed
  one is not refused here.
\<close>

definition serve_flags :: flag_defs where
  "serve_flags = [(''addr'', False), (''auth-token'', False), (''shutdown-timeout'', False)]"

definition serve_token :: "osys \<Rightarrow> (string \<times> string) list \<Rightarrow> string" where
  "serve_token s vs =
     (let t = flag_value vs ''auth-token'' []
      in if t = [] \<and> getenv s ''PGF_AUTH_TOKEN'' \<noteq> [] then getenv s ''PGF_AUTH_TOKEN'' else t)"

definition cmd_serve :: "('m cli_scheme, 's) runtime \<Rightarrow> string list \<Rightarrow> http_request list \<Rightarrow> 'm cli_scheme \<Rightarrow>
    pgf_end \<times> 'm cli_scheme" where
  "cmd_serve rt args rqs w =
     (case flag_parse serve_flags args of
        Inl e \<Rightarrow> (FailExit e, w)
      | Inr (vs, _) \<Rightarrow>
          (case serve_all (serve_token (c_os w) vs) rt rqs [] w of (rps, w1) \<Rightarrow> (Served rps, w1)))"

definition plain_end :: "unit res \<times> 'w \<Rightarrow> pgf_end \<times> 'w" where
  "plain_end p = (case p of (Inl e, w) \<Rightarrow> (FailExit e, w) | (Inr _, w) \<Rightarrow> (Done, w))"

definition set_up :: "('m cli_scheme, 's) platform \<Rightarrow> ('m cli_scheme, 's) registry \<Rightarrow> 'm cli_scheme \<Rightarrow>
    ('m cli_scheme, 's) runtime res \<times> 'm cli_scheme" where
  "set_up pf reg w =
     (case new_cred_store [] (c_os w) of
        (Inl e, s) \<Rightarrow> (Inl e, w\<lparr>c_os := s\<rparr>)
      | (Inr store, s) \<Rightarrow>
          (case vault_load s (c_pool w) of
             (Inl e, s1, r) \<Rightarrow> (Inl e, w\<lparr>c_os := s1, c_pool := r\<rparr>)
           | (Inr v, s1, r) \<Rightarrow>
               (case new_state_manager [] s1 of
                  (Inl e, s2) \<Rightarrow> (Inl e, w\<lparr>c_os := s2, c_pool := r\<rparr>)
                | (Inr st, s2) \<Rightarrow>
                    (Inr \<lparr>rt_reg = reg, rt_store = store, rt_enc = pf_enc pf, rt_dec = pf_dec pf,
                       rt_seal = pf_seal pf, rt_open = pf_open pf, rt_vault = Some v, rt_state = st\<rparr>,
                     w\<lparr>c_os := s2, c_pool := r\<rparr>))))"

text \<open>\<open>usage\<close> is the help text.\<close>

definition pgf_main :: "string \<Rightarrow> ('m cli_scheme, 's) platform \<Rightarrow> string list \<Rightarrow> http_request list \<Rightarrow> 'm cli_scheme \<Rightarrow>
    pgf_end \<times> 'm cli_scheme" where
  "pgf_main usage pf argv rqs w =
     (case pgf_init (pf_connectors pf) of
        None \<Rightarrow> (PanicExit ''init'', w)
      | Some reg \<Rightarrow>
          (case argv of
             _ # cmd # args \<Rightarrow>
               (case set_up pf reg w of
                  (Inl e, w1) \<Rightarrow> (FailExit e, w1)
                | (Inr rt, w1) \<Rightarrow>
                    if cmd = ''connectors'' then plain_end (cmd_connectors rt w1)
                    else if cmd = ''actions'' then plain_end (cmd_actions rt args w1)
                    else if cmd = ''triggers'' then plain_end (cmd_triggers rt args w1)
                    else if cmd = ''connect'' then plain_end (cmd_connect (pf_read pf) rt args w1)
                    else if cmd = ''instances'' then plain_end (cmd_instances rt w1)
                    else if cmd = ''rm'' then plain_end (cmd_remove rt args w1)
                    else if cmd = ''run'' then plain_end (cmd_run rt args w1)
                    else if cmd = ''watch'' then plain_end (cmd_watch rt args w1)
                    else if cmd = ''serve'' then cmd_serve rt args rqs w1
                    else if cmd = ''webhooks'' then
                      (case cmd_webhooks rt args rqs w1 of
                         (Inl (Exited e), w2) \<Rightarrow> (FailExit e, w2)
                       | (Inl (Panicked p), w2) \<Rightarrow> (PanicExit p, w2)
                       | (Inr rps, w2) \<Rightarrow> (Received rps, w2))
                    else if cmd = ''help'' \<or> cmd = ''-h'' \<or> cmd = ''--help'' then (Done, say usage w1)
                    else (UsageExit, say (''unknown command: '' @ cmd @ nl @ nl @ usage) w1))
           | _ \<Rightarrow> (UsageExit, say usage w)))"

section \<open>Properties\<close>

definition conn_name :: "('w, 's) connector \<Rightarrow> string" where
  "conn_name c = d_name (c_descriptor c)"

lemma register_fst:
  "register c r = (if conn_name c = [] then Inl (ErrMsg ''connector has empty Descriptor.Name'')
     else if conn_name c \<in> set (map fst r) then Inl (ErrMsg (''connector '' @ conn_name c @ '' already registered''))
     else Inr ((conn_name c, c) # r))"
  by (auto simp: register_def conn_name_def Let_def map_of_eq_None_iff)

lemma register_all_names:
  "case register_all cs r of
     None \<Rightarrow> [] \<in> set (map conn_name cs) \<or> \<not> distinct (map conn_name cs) \<or> set (map conn_name cs) \<inter> set (map fst r) \<noteq> {}
   | Some r' \<Rightarrow> [] \<notin> set (map conn_name cs) \<and> distinct (map conn_name cs) \<and>
       set (map conn_name cs) \<inter> set (map fst r) = {} \<and> map fst r' = rev (map conn_name cs) @ map fst r"
proof (induction cs arbitrary: r)
  case Nil
  then show ?case by simp
next
  case (Cons c cs)
  show ?case
  proof (cases "conn_name c = [] \<or> conn_name c \<in> set (map fst r)")
    case True
    then show ?thesis by (auto simp: register_fst)
  next
    case False
    with Cons [of "(conn_name c, c) # r"] show ?thesis
      by (auto simp: register_fst split: option.splits)
  qed
qed

definition names_ok :: "('w, 's) connector list \<Rightarrow> bool" where
  "names_ok cs = ([] \<notin> set (map conn_name cs) \<and> distinct (map conn_name cs))"

text \<open>C19.
  The registry a run starts from: start-up succeeds exactly if the connectors have distinct
  non-empty names; then every connector is found under its own name, nothing else is found,
  and the listing is the connectors' names in order.
\<close>

theorem init_registry:
  "case pgf_init cs of
      None \<Rightarrow> \<not> names_ok cs
    | Some reg \<Rightarrow>
        names_ok cs \<and> reg_get reg n = find (\<lambda>c. conn_name c = n) cs \<and>
        map d_name (reg_list reg) = sort (map conn_name cs)"
proof (cases "pgf_init cs")
  case None
  then show ?thesis using register_all_names [of cs "[]"] by (auto simp: pgf_init_def new_registry_def names_ok_def)
next
  case (Some reg)
  then have r: "register_all cs [] = Some reg" by (simp add: pgf_init_def new_registry_def)
  have ok: "reg_ok reg" using register_all_ok [OF _ r] reg_ok_new by (simp add: new_registry_def)
  have "map d_name (reg_list reg) = sort (rev (map conn_name cs))"
    using register_all_names [of cs "[]"] r reg_list_names [OF ok] by simp
  also have "\<dots> = sort (map conn_name cs)"
    by (rule properties_for_sort [symmetric]) simp_all
  finally have "map d_name (reg_list reg) = sort (map conn_name cs)" .
  moreover have "reg_get reg n = find (\<lambda>c. conn_name c = n) cs"
    using register_all_get [OF r, of n] by (simp add: conn_name_def reg_get_def split: option.splits)
  ultimately show ?thesis using register_all_names [of cs "[]"] Some r by (simp add: names_ok_def)
qed

text \<open>Every command, \<open>help\<close> included, needs the whole set-up: without a home directory and the variables
  that replace it the program fails before it looks at the command.
\<close>

theorem set_up_first:
  assumes "pgf_init (pf_connectors pf) = Some reg" "home_dir (c_os w) = None"
    "getenv (c_os w) ''PGF_STORE_DIR'' = []" "getenv (c_os w) ''XDG_CONFIG_HOME'' = []"
  shows "\<exists>e. pgf_main usage pf (pgf # cmd # args) rqs w = (FailExit e, w)"
  using assms by (simp add: pgf_main_def set_up_def new_cred_store_def default_store_root_def)

definition ex_platform :: "(cli, unit) platform" where
  "ex_platform = \<lparr>pf_connectors = [ex_connector], pf_enc = ex_enc, pf_dec = ex_dec, pf_seal = toy_seal,
     pf_open = toy_open, pf_read = (\<lambda>w. (Inr [], w))\<rparr>"

theorem set_up_first_witness:
  "\<exists>e. pgf_main ''usage'' ex_platform [''pgf'', ''help''] [] ex_cli = (FailExit e, ex_cli)"
proof (rule set_up_first)
  show "pgf_init (pf_connectors ex_platform) = Some [(''email'', ex_connector)]"
    by (simp add: pgf_init_def ex_platform_def new_registry_def register_def ex_connector_def Let_def)
qed (simp_all add: ex_cli_def ex_store_os_def)

end
