(* ===== verification/GoText.thy ===== *)
theory GoText
  imports Contract Codec
begin

text \<open>
  Further pieces of Go's library the connectors use: \<open>utf8.Valid\<close>, \<open>mime.ParseMediaType\<close> and the
  RFC 3339 form of a time. A time is in nanoseconds since the start of year 1.
\<close>

section \<open>UTF-8\<close>

definition cont_byte :: "char \<Rightarrow> bool" where
  "cont_byte c = (let n = (of_char c :: nat) in 128 \<le> n \<and> n < 192)"

definition byte_in :: "char \<Rightarrow> nat \<Rightarrow> nat \<Rightarrow> bool" where
  "byte_in c lo hi = (let n = of_char c in lo \<le> n \<and> n \<le> hi)"

fun utf8_valid :: "string \<Rightarrow> bool" where
  "utf8_valid [] = True"
| "utf8_valid (c # cs) =
     (let n = (of_char c :: nat)
      in if n < 128 then utf8_valid cs
         else if 194 \<le> n \<and> n \<le> 223 then
           (case cs of d # r \<Rightarrow> cont_byte d \<and> utf8_valid r | _ \<Rightarrow> False)
         else if 224 \<le> n \<and> n \<le> 239 then
           (case cs of
              d # e # r \<Rightarrow>
                byte_in d (if n = 224 then 160 else 128) (if n = 237 then 159 else 191) \<and> cont_byte e \<and> utf8_valid r
            | _ \<Rightarrow> False)
         else if 240 \<le> n \<and> n \<le> 244 then
           (case cs of
              d # e # f # r \<Rightarrow>
                byte_in d (if n = 240 then 144 else 128) (if n = 244 then 143 else 191) \<and> cont_byte e \<and> cont_byte f
                \<and> utf8_valid r
            | _ \<Rightarrow> False)
         else False)"

section \<open>Media types\<close>

definition is_token_char :: "char \<Rightarrow> bool" where
  "is_token_char c =
     (let n = (of_char c :: nat)
      in (48 \<le> n \<and> n \<le> 57) \<or> (65 \<le> n \<and> n \<le> 90) \<or> (97 \<le> n \<and> n \<le> 122) \<or>
         c \<in> set ''!#$%&*+-.^_`|~'' \<or> n = 39)"

definition consume_token :: "string \<Rightarrow> string \<times> string" where
  "consume_token s = (takeWhile is_token_char s, dropWhile is_token_char s)"

definition media_type_ok :: "string \<Rightarrow> bool" where
  "media_type_ok s =
     (let (typ, rest) = consume_token s
      in typ \<noteq> [] \<and>
         (case rest of
            [] \<Rightarrow> True
          | c # r \<Rightarrow> c = CHR ''/'' \<and> (let (sub, rest2) = consume_token r in sub \<noteq> [] \<and> rest2 = [])))"

definition trim_left_space :: "string \<Rightarrow> string" where
  "trim_left_space s = drop_spaces space_seqs s"

text \<open>A quoted value: the value and what follows the closing quote.\<close>

fun quoted_value :: "string \<Rightarrow> (string \<times> string) option" where
  "quoted_value [] = None"
| "quoted_value (c # cs) =
     (if c = CHR 0x22 then Some ([], cs)
      else if c = CHR 0x5C \<and> cs \<noteq> [] \<and> \<not> is_token_char (hd cs) then
        (case cs of
           [] \<Rightarrow> None
         | d # r \<Rightarrow> (case quoted_value r of None \<Rightarrow> None | Some (v, rest) \<Rightarrow> Some (d # v, rest)))
      else if c = CHR 0x0D \<or> c = CHR 0x0A then None
      else (case quoted_value cs of None \<Rightarrow> None | Some (v, rest) \<Rightarrow> Some (c # v, rest)))"

definition consume_value :: "string \<Rightarrow> string \<times> string" where
  "consume_value v =
     (case v of
        [] \<Rightarrow> ([], [])
      | c # r \<Rightarrow>
          if c \<noteq> CHR 0x22 then consume_token v
          else (case quoted_value r of None \<Rightarrow> ([], v) | Some p \<Rightarrow> p))"

definition consume_param :: "string \<Rightarrow> (string \<times> string \<times> string) option" where
  "consume_param v =
     (case trim_left_space v of
        [] \<Rightarrow> None
      | c # r \<Rightarrow>
          if c \<noteq> CHR '';'' then None
          else
            (let (name, r1) = consume_token (trim_left_space r); key = to_lower name
             in if key = [] then None
                else case trim_left_space r1 of
                  [] \<Rightarrow> None
                | d # r2 \<Rightarrow>
                    if d \<noteq> CHR ''='' then None
                    else
                      (let r3 = trim_left_space r2; (val, rest) = consume_value r3
                       in if val = [] \<and> rest = r3 then None else Some (key, val, rest))))"

text \<open>
  \<open>mime.ParseMediaType\<close> without its parameters: empty for a malformed type or a parameter given
  twice with different values; a malformed parameter ends the loop but keeps the type. Every step
  of the loop consumes a character, so the length of the text is enough fuel.
\<close>

fun media_params :: "nat \<Rightarrow> (string \<times> string) list \<Rightarrow> string \<Rightarrow> bool" where
  "media_params 0 ps v = True"
| "media_params (Suc n) ps v =
     (case consume_param v of
        None \<Rightarrow> True
      | Some (key, val, rest) \<Rightarrow>
          (case map_of ps key of
             Some val' \<Rightarrow> val' = val \<and> media_params n ps rest
           | None \<Rightarrow> media_params n ((key, val) # ps) rest))"

definition media_type :: "string \<Rightarrow> string" where
  "media_type s =
     (let base = fst (str_cut (CHR '';'') s); mt = trim_space (to_lower base)
      in if media_type_ok mt \<and> media_params (length s) [] (drop (length base) s) then mt else [])"

section \<open>Times\<close>

definition leap_year :: "int \<Rightarrow> bool" where
  "leap_year y = (y mod 4 = 0 \<and> (y mod 100 \<noteq> 0 \<or> y mod 400 = 0))"

definition month_lengths :: "int \<Rightarrow> int list" where
  "month_lengths y = [31, if leap_year y then 29 else 28, 31, 30, 31, 30, 31, 31, 30, 31, 30, 31]"

fun month_day :: "int \<Rightarrow> int list \<Rightarrow> int \<Rightarrow> int \<times> int" where
  "month_day m [] d = (m, d + 1)"
| "month_day m (l # ls) d = (if d < l \<or> ls = [] then (m, d + 1) else month_day (m + 1) ls (d - l))"

definition civil_date :: "int \<Rightarrow> int \<times> int \<times> int" where
  "civil_date days =
     (let n400 = days div 146097; r400 = days mod 146097;
          n100 = min 3 (r400 div 36524); r100 = r400 - n100 * 36524;
          n4 = r100 div 1461; r4 = r100 mod 1461;
          n1 = min 3 (r4 div 365); yday = r4 - n1 * 365;
          y = 400 * n400 + 100 * n100 + 4 * n4 + n1 + 1;
          (m, d) = month_day 1 (month_lengths y) yday
      in (y, m, d))"

definition pad_int :: "nat \<Rightarrow> int \<Rightarrow> string" where
  "pad_int n i = (let s = nat_str (nat i) in replicate (n - length s) (CHR ''0'') @ s)"

definition rfc3339 :: "time \<Rightarrow> string" where
  "rfc3339 t =
     (let secs = t div 1000000000; ns = t mod 1000000000;
          (y, m, d) = civil_date (secs div 86400); sod = secs mod 86400;
          frac = trim_right (pad_int 9 ns) ''0''
      in pad_int 4 y @ ''-'' @ pad_int 2 m @ ''-'' @ pad_int 2 d @ ''T'' @ pad_int 2 (sod div 3600) @ '':''
         @ pad_int 2 (sod div 60 mod 60) @ '':'' @ pad_int 2 (sod mod 60)
         @ (if frac = [] then [] else CHR ''.'' # frac) @ ''Z'')"

text \<open>\<open>Format(time.RFC3339)\<close>, which drops the fraction.\<close>

definition rfc3339_sec :: "time \<Rightarrow> string" where
  "rfc3339_sec t = rfc3339 (t div 1000000000 * 1000000000)"

section \<open>Lemmas\<close>

lemma space_seq_bytes: "\<forall>w\<in>set space_seqs. \<forall>c\<in>set w. of_char c \<le> (32 :: nat) \<or> 128 \<le> (of_char c :: nat)"
  by code_simp

lemma space_free_ascii: "\<forall>c\<in>set s. 32 < (of_char c :: nat) \<and> (of_char c :: nat) < 128 \<Longrightarrow> space_free s"
  using space_seq_bytes unfolding space_free_def by (metis not_less)

lemma hex_digit_code: "d < 16 \<Longrightarrow> 32 < (of_char (hex_digit d) :: nat) \<and> (of_char (hex_digit d) :: nat) < 128"
  by (simp add: hex_digit_def)

lemma trim_hex_encode: "trim_space (hex_encode s) = hex_encode s"
proof (rule trim_space_id, rule space_free_ascii)
  show "\<forall>c\<in>set (hex_encode s). 32 < (of_char c :: nat) \<and> (of_char c :: nat) < 128"
    by (induction s) (auto simp: hex_digit_code less_mult_imp_div_less)
qed

lemma sha256_rounds_length: "length st = 8 \<Longrightarrow> length (sha256_rounds ks w st) = 8"
  by (induction ks w st rule: sha256_rounds.induct) (auto simp: Let_def)

lemma sha256_length: "length (sha256 m) = 32"
proof -
  have "length (foldl sha256_block st bs) = 8" if "length st = 8" for st bs
    using that
  proof (induction bs arbitrary: st)
    case (Cons b bs)
    have "length (sha256_block st b) = 8"
      using sha256_rounds_length [OF Cons.prems] Cons.prems by (simp add: sha256_block_def)
    then show ?case by (simp add: Cons.IH)
  qed simp
  moreover have "length (concat (map be_bytes ws)) = 4 * length ws" for ws
    by (induction ws) (simp_all add: be_bytes_def)
  ultimately show ?thesis by (simp add: sha256_def)
qed

end
