(* ===== verification/GoTime.thy ===== *)
theory GoTime
  imports GoText Http
begin

text \<open>
  Two more pieces of Go's library: the text form of a \<open>time.Duration\<close> with its parser, and the host
  that \<open>url.Parse\<close> finds in an absolute URL.

  The fraction of a duration is computed exactly here, where Go goes through a \<open>float64\<close>.
\<close>

section \<open>Durations\<close>

definition two63 :: nat where "two63 = 9223372036854775808"

text \<open>The longest prefix of the fraction that fits, and its scale.\<close>

fun lead_fraction :: "string \<Rightarrow> nat \<Rightarrow> nat \<Rightarrow> nat \<times> nat" where
  "lead_fraction [] f sc = (f, sc)"
| "lead_fraction (c # cs) f sc =
     (if (two63 - 1) div 10 < f \<or> two63 < 10 * f + digit_val c then (f, sc)
      else lead_fraction cs (10 * f + digit_val c) (10 * sc))"

definition unit_nanos :: "string \<Rightarrow> nat option" where
  "unit_nanos u = map_of
     [(''ns'', 1), (''us'', 1000), ([CHR 0xC2, CHR 0xB5, CHR ''s''], 1000), ([CHR 0xCE, CHR 0xBC, CHR ''s''], 1000),
      (''ms'', 1000000), (''s'', 1000000000), (''m'', 60000000000), (''h'', 3600000000000)] u"

text \<open>One number with its unit: nanoseconds and the rest.\<close>

definition duration_term :: "string \<Rightarrow> (nat \<times> string) option" where
  "duration_term s =
     (let ip = takeWhile is_digit s; r = dropWhile is_digit s;
          (fp, r1) = (case r of
             c # r' \<Rightarrow> if c = CHR ''.'' then (takeWhile is_digit r', dropWhile is_digit r') else ([], r)
           | [] \<Rightarrow> ([], r));
          (f, sc) = lead_fraction fp 0 1;
          u = takeWhile (\<lambda>c. c \<noteq> CHR ''.'' \<and> \<not> is_digit c) r1;
          rest = drop (length u) r1;
          v = digits_val 0 ip
      in if (ip = [] \<and> fp = []) \<or> two63 < v then None
         else case unit_nanos u of
           None \<Rightarrow> None
         | Some n \<Rightarrow>
             (if two63 div n < v then None
              else
                (let t = v * n + f * n div sc
                 in if two63 < t then None else Some (t, rest))))"

text \<open>Each term takes at least its unit off the text, so its length is enough fuel.\<close>

fun duration_terms :: "nat \<Rightarrow> nat \<Rightarrow> string \<Rightarrow> nat option" where
  "duration_terms 0 d s = None"
| "duration_terms (Suc k) d s =
     (if s = [] then Some d
      else case duration_term s of
        None \<Rightarrow> None
      | Some (t, rest) \<Rightarrow>
          (let d' = (d + t) mod 18446744073709551616
           in if two63 < d' then None else duration_terms k d' rest))"

definition parse_duration :: "string \<Rightarrow> int res" where
  "parse_duration orig =
     (let neg = (case orig of c # _ \<Rightarrow> c = CHR ''-'' | [] \<Rightarrow> False);
          s = (case orig of c # r \<Rightarrow> if c = CHR ''-'' \<or> c = CHR ''+'' then r else orig | [] \<Rightarrow> orig);
          err = Inl (ErrExt ''duration'')
      in if s = ''0'' then Inr 0
         else if s = [] then err
         else case duration_terms (Suc (length s)) 0 s of
           None \<Rightarrow> err
         | Some d \<Rightarrow> (if neg then Inr (- int d) else if two63 - 1 < d then err else Inr (int d)))"

text \<open>\<open>Duration.String\<close>: the fraction of \<open>v\<close> with \<open>prec\<close> digits, without trailing zeros.\<close>

definition fmt_frac :: "nat \<Rightarrow> nat \<Rightarrow> string" where
  "fmt_frac v prec =
     (let ds = trim_right (pad_int prec (int (v mod 10 ^ prec))) ''0''
      in if prec = 0 \<or> ds = [] then [] else CHR ''.'' # ds)"

definition duration_str :: "int \<Rightarrow> string" where
  "duration_str d =
     (let u = nat \<bar>d\<bar>;
          body =
            (if u = 0 then ''0s''
             else if u < 1000 then nat_str u @ ''ns''
             else if u < 1000000 then nat_str (u div 1000) @ fmt_frac u 3 @ [CHR 0xC2, CHR 0xB5, CHR ''s'']
             else if u < 1000000000 then nat_str (u div 1000000) @ fmt_frac u 6 @ ''ms''
             else
               (let secs = u div 1000000000; s = nat_str (secs mod 60) @ fmt_frac u 9 @ ''s''
                in if secs < 60 then s
                   else if secs < 3600 then nat_str (secs div 60) @ ''m'' @ s
                   else nat_str (secs div 3600) @ ''h'' @ nat_str (secs div 60 mod 60) @ ''m'' @ s))
      in (if d < 0 then CHR ''-'' # body else body))"

section \<open>The host of a URL\<close>

text \<open>Bytes a host may hold as they are: \<open>shouldEscape\<close> in mode \<open>encodeHost\<close>.\<close>

definition host_char :: "char \<Rightarrow> bool" where
  "host_char c =
     (let n = (of_char c :: nat)
      in (48 \<le> n \<and> n \<le> 57) \<or> (65 \<le> n \<and> n \<le> 90) \<or> (97 \<le> n \<and> n \<le> 122) \<or> 128 \<le> n \<or>
         c \<in> set ''-_.~!$&()*+,;=:[]<>'' \<or> n = 39 \<or> n = 34)"

text \<open>Escapes are decoded in a host, but only of bytes beyond ASCII and of the percent sign.\<close>

fun host_unescape :: "string \<Rightarrow> string option" where
  "host_unescape [] = Some []"
| "host_unescape (c # cs) =
     (if c = CHR ''%'' then
        (case cs of
           a # b # r \<Rightarrow>
             (case (hex_digit_val a, hex_digit_val b) of
                (Some x, Some y) \<Rightarrow>
                  (if x < 8 \<and> [a, b] \<noteq> ''25'' then None
                   else map_option ((#) (char_of (16 * x + y))) (host_unescape r))
              | _ \<Rightarrow> None)
         | _ \<Rightarrow> None)
      else if host_char c then map_option ((#) c) (host_unescape cs)
      else None)"

definition port_ok :: "string \<Rightarrow> bool" where
  "port_ok p = (case p of [] \<Rightarrow> True | c # r \<Rightarrow> c = CHR '':'' \<and> list_all is_digit r)"

text \<open>The text from the last occurrence of a character on, and the text before it.\<close>

definition from_last :: "char \<Rightarrow> string \<Rightarrow> string" where
  "from_last c s = (if c \<in> set s then c # rev (takeWhile (\<lambda>x. x \<noteq> c) (rev s)) else [])"

definition upto_last :: "char \<Rightarrow> string \<Rightarrow> string" where
  "upto_last c s = take (length s - length (from_last c s)) s"

definition parse_host :: "string \<Rightarrow> string option" where
  "parse_host h =
     (if (case h of c # _ \<Rightarrow> c = CHR ''['' | [] \<Rightarrow> False) then
        (if from_last (CHR '']'') h = [] \<or> \<not> port_ok (tl (from_last (CHR '']'') h)) then None else host_unescape h)
      else if port_ok (from_last (CHR '':'') h) then host_unescape h
      else None)"

definition userinfo_ok :: "string \<Rightarrow> bool" where
  "userinfo_ok s =
     (list_all (\<lambda>c. let n = (of_char c :: nat) in is_digit c \<or> (65 \<le> n \<and> n \<le> 90) \<or> (97 \<le> n \<and> n \<le> 122) \<or>
        c \<in> set ''-._:~!$&()*+,;=%@'' \<or> n = 39) s)"

text \<open>
  The host of an absolute \<open>http\<close> or \<open>https\<close> URL (written in lower case), or nothing where \<open>url.Parse\<close>
  fails: control bytes, a bad host or port, a bad escape in path, fragment or user information.
\<close>

definition url_host :: "string \<Rightarrow> string option" where
  "url_host u =
     (let (main, frag, has_frag) = str_cut (CHR ''#'') u;
          (rest, raw, has_query) = str_cut (CHR ''?'') main;
          r = drop 2 (dropWhile (\<lambda>c. c \<noteq> CHR ''/'') rest);
          auth = takeWhile (\<lambda>c. c \<noteq> CHR ''/'') r;
          path = drop (length auth) r;
          user = upto_last (CHR ''@'') auth;
          host = (if CHR ''@'' \<in> set auth then tl (from_last (CHR ''@'') auth) else auth)
      in if list_all (\<lambda>c. 32 \<le> (of_char c :: nat) \<and> (of_char c :: nat) \<noteq> 127) u
            \<and> (CHR ''@'' \<in> set auth \<longrightarrow> userinfo_ok user \<and> escapes_ok user) \<and> escapes_ok path \<and> escapes_ok frag
         then parse_host host else None)"

text \<open>A parsed duration is a 64-bit one.\<close>

lemma duration_terms_bound: "duration_terms k d s = Some r \<Longrightarrow> d \<le> two63 \<Longrightarrow> r \<le> two63"
  by (induction k d s rule: duration_terms.induct) (auto simp: Let_def split: if_splits option.splits)

lemma parse_duration_bound: "parse_duration s = Inr d \<Longrightarrow> - (2 ^ 63) \<le> d \<and> d < 2 ^ 63"
  by (auto simp: parse_duration_def Let_def two63_def dest!: duration_terms_bound split: if_splits option.splits)

end
