(* ===== verification/ConnBase.thy ===== *)
theory ConnBase
  imports Cli Http StateStore GoText
begin

text \<open>
  What the connectors share: the key-value store of their instance inside the world of a command, and
  small helpers for schemas and results.
\<close>

definition st_get :: "string \<Rightarrow> string \<Rightarrow> 'm cli_scheme \<Rightarrow> string option res" where
  "st_get root key w = store_get root (c_os w) key"

definition st_put :: "string \<Rightarrow> string \<Rightarrow> string \<Rightarrow> 'm cli_scheme \<Rightarrow> unit res \<times> 'm cli_scheme" where
  "st_put root key v w = (case store_put root (c_os w) key v of (r, s) \<Rightarrow> (r, w\<lparr>c_os := s\<rparr>))"

definition st_del :: "string \<Rightarrow> string \<Rightarrow> 'm cli_scheme \<Rightarrow> unit res \<times> 'm cli_scheme" where
  "st_del root key w = (case store_delete root (c_os w) key of (r, s) \<Rightarrow> (r, w\<lparr>c_os := s\<rparr>))"

definition gstr_field :: "string \<Rightarrow> field_kind \<Rightarrow> string \<Rightarrow> field_spec" where
  "gstr_field name kind desc = (field name kind)\<lparr>f_description := desc\<rparr>"

definition mk_action :: "string \<Rightarrow> string \<Rightarrow> string \<Rightarrow> schema \<Rightarrow> ('s \<Rightarrow> vals \<Rightarrow> 'w \<Rightarrow> gval res \<times> 'w) \<Rightarrow> ('w, 's) action" where
  "mk_action name display desc sch run =
     \<lparr>a_name = name, a_display = display, a_description = desc, a_schema = sch, a_run = run\<rparr>"

text \<open>The emission of events in order; the first error ends it.\<close>

fun emit_all :: "'w sink \<Rightarrow> event list \<Rightarrow> 'w \<Rightarrow> unit res \<times> 'w" where
  "emit_all emit [] w = (Inr (), w)"
| "emit_all emit (e # es) w =
     (case emit e w of
        (Inl err, w1) \<Rightarrow> (Inl err, w1)
      | (Inr _, w1) \<Rightarrow> emit_all emit es w1)"

text \<open>A sink that leaves the files alone, as the sinks of the commands do.\<close>

definition file_neutral :: "('m cli_scheme) sink \<Rightarrow> bool" where
  "file_neutral emit = (\<forall>e w. c_os (snd (emit e w)) = c_os w)"

lemma emit_event_neutral: "file_neutral emit_event"
  by (simp add: file_neutral_def emit_event_def split: option.splits)

lemma emit_all_os: "file_neutral emit \<Longrightarrow> c_os (snd (emit_all emit es w)) = c_os w"
proof (induction es arbitrary: w)
  case (Cons e es)
  obtain r w1 where e: "emit e w = (r, w1)" by fastforce
  with Cons.prems have "c_os w1 = c_os w" by (metis file_neutral_def snd_conv)
  with Cons e show ?case by (cases r) simp_all
qed simp

lemma st_put_get:
  assumes "store_inv root (c_os w)" "st_put root key v w = (r, w')"
  shows "r = Inr () \<and> store_inv root (c_os w') \<and> st_get root key w' = Inr (Some v)"
  using fsstore.put_ok [OF assms(1)] assms(2) by (auto simp: st_put_def st_get_def split: prod.splits)

lemma st_put_other:
  assumes "store_inv root (c_os w)" "st_put root key v w = (r, w')" "sha256 key \<noteq> sha256 j"
  shows "st_get root j w' = st_get root j w"
  using fsstore.put_frame [OF assms(1)] assms(2,3) by (auto simp: st_put_def st_get_def split: prod.splits)

end
