(* ===== verification/ApiConn.thy ===== *)
theory ApiConn
  imports ConnBase Serve
begin

text \<open>
  What the connectors to HTTP services share: decoding an answer into typed fields, the way
  \<open>encoding/json\<close> fills a struct from the untyped value, and the integers it reads from a document of
  their own.

  A field is looked up without regard to case, the last one counts; null leaves the zero value; a value of
  another type is an error of the whole call. An integer inside an answer is read from the decoded double,
  which is exact below \<open>2 ^ 53\<close>.
\<close>

section \<open>Typed fields\<close>

definition jfield :: "gval \<Rightarrow> string \<Rightarrow> gval" where
  "jfield v name =
     (case v of
        GMap kvs \<Rightarrow> (case find (\<lambda>(k, _). equal_fold k name) (rev kvs) of Some (_, x) \<Rightarrow> x | None \<Rightarrow> GNil)
      | _ \<Rightarrow> GNil)"

definition dec_string :: "gval \<Rightarrow> string option" where
  "dec_string v = (case v of GNil \<Rightarrow> Some [] | GStr s \<Rightarrow> Some s | _ \<Rightarrow> None)"

definition dec_bool :: "gval \<Rightarrow> bool option" where
  "dec_bool v = (case v of GNil \<Rightarrow> Some False | GBool b \<Rightarrow> Some b | _ \<Rightarrow> None)"

text \<open>The integer a double stands for, if it is one.\<close>

definition float_int :: "float64 \<Rightarrow> int option" where
  "float_int x =
     (case x of
        FNum neg m e \<Rightarrow>
          (let a = (if 0 \<le> e then m * 2 ^ nat e else m div 2 ^ nat (- e));
               i = (if neg then - int a else int a)
           in if (0 \<le> e \<or> m mod 2 ^ nat (- e) = 0) \<and> int64_range i then Some i else None)
      | _ \<Rightarrow> None)"

definition dec_int :: "gval \<Rightarrow> int option" where
  "dec_int v =
     (case v of GNil \<Rightarrow> Some 0 | GFloat x \<Rightarrow> float_int x | GInt i \<Rightarrow> Some i | GInt64 i \<Rightarrow> Some i | _ \<Rightarrow> None)"

text \<open>A \<open>map[string]any\<close>: \<open>None\<close> inside is the nil map. A slice: null is the empty one.\<close>

definition dec_map :: "gval \<Rightarrow> (string \<times> gval) list option option" where
  "dec_map v = (case v of GNil \<Rightarrow> Some None | GMap m \<Rightarrow> Some (Some m) | _ \<Rightarrow> None)"

definition dec_list :: "(gval \<Rightarrow> 'a option) \<Rightarrow> gval \<Rightarrow> 'a list option" where
  "dec_list d v = (case v of GNil \<Rightarrow> Some [] | GList vs \<Rightarrow> all_some (map d vs) | _ \<Rightarrow> None)"

definition map_gval :: "(string \<times> gval) list option \<Rightarrow> gval" where
  "map_gval m = (case m of None \<Rightarrow> GNil | Some kvs \<Rightarrow> GMap kvs)"

definition is_object :: "gval \<Rightarrow> bool" where
  "is_object v = (case v of GNil \<Rightarrow> True | GMap _ \<Rightarrow> True | _ \<Rightarrow> False)"

definition unmarshal_error :: gerr where
  "unmarshal_error = ErrWrap ''http: unmarshal: '' (ErrExt ''json'') []"

text \<open>A call whose answer is decoded by \<open>d\<close>; the excerpt of the body in the message of a type error is left out.\<close>

definition decoded :: "(gval \<Rightarrow> 'a option) \<Rightarrow> gval res \<times> 'w \<Rightarrow> 'a res \<times> 'w" where
  "decoded d r =
     (case r of
        (Inl e, w) \<Rightarrow> (Inl e, w)
      | (Inr v, w) \<Rightarrow> (case d v of None \<Rightarrow> (Inl unmarshal_error, w) | Some x \<Rightarrow> (Inr x, w)))"

section \<open>Integers of their own\<close>

text \<open>\<open>json.Unmarshal\<close> into an \<open>int64\<close>: a number without fraction and exponent, in range; null changes nothing.\<close>

definition trim_ws :: "string \<Rightarrow> string" where
  "trim_ws s = rev (skip_ws (rev (skip_ws s)))"

definition json_int64 :: "string \<Rightarrow> int option" where
  "json_int64 s =
     (let t = trim_ws s; neg = (t \<noteq> [] \<and> hd t = CHR ''-''); ds = (if neg then tl t else t);
          i = (if neg then - int (digits_val 0 ds) else int (digits_val 0 ds))
      in if t = ''null'' then Some 0
         else if ds = [] \<or> \<not> list_all is_digit ds \<or> (hd ds = CHR ''0'' \<and> tl ds \<noteq> []) \<or> \<not> int64_range i then None
         else Some i)"


text \<open>Every 64-bit integer is read back from its decimal form.\<close>

lemma skip_ws_first: "s = [] \<or> hd s \<notin> set json_ws \<Longrightarrow> skip_ws s = s"
  unfolding skip_ws_def by (cases s) auto

lemma trim_ws_id:
  assumes "\<forall>c\<in>set s. c \<notin> set json_ws"
  shows "trim_ws s = s"
proof -
  have "skip_ws s = s" by (rule skip_ws_first) (use assms hd_in_set in blast)
  moreover have "skip_ws (rev s) = rev s"
    by (rule skip_ws_first) (use assms hd_in_set [of "rev s"] in auto)
  ultimately show ?thesis by (simp add: trim_ws_def)
qed

lemma itoa_no_ws: "c \<in> set (itoa i) \<Longrightarrow> c \<notin> set json_ws"
  using itoa_chars [of c i] by (auto simp: json_ws_def is_digit_def)

lemma nat_digits_lead: "hd (nat_digits n) = 0 \<Longrightarrow> n = 0"
proof (induction n rule: nat_digits.induct)
  case (1 n)
  then show ?case by (cases "n < 10") (simp_all add: nat_digits.simps [of n] hd_append)
qed

lemma nat_str_lead: "hd (nat_str n) = CHR ''0'' \<Longrightarrow> tl (nat_str n) = []"
proof -
  assume h: "hd (nat_str n) = CHR ''0''"
  have "hd (nat_digits n) \<in> set (nat_digits n)" by simp
  then have "hd (nat_digits n) < 10" using nat_digits_less_10 by blast
  moreover have "digit_char (hd (nat_digits n)) = CHR ''0''" using h by (simp add: nat_str_def hd_map)
  ultimately have "hd (nat_digits n) = 0" using digit_char_val [of "hd (nat_digits n)"] by (simp add: digit_val_def)
  then have "n = 0" by (rule nat_digits_lead)
  then show ?thesis by (simp add: nat_str_def nat_digits.simps [of 0])
qed

lemma json_int64_itoa: "int64_range i \<Longrightarrow> json_int64 (itoa i) = Some i"
proof -
  assume r: "int64_range i"
  have t: "trim_ws (itoa i) = itoa i" by (rule trim_ws_id) (use itoa_no_ws in blast)
  have n: "itoa i \<noteq> ''null''" using itoa_chars [of "CHR ''n''" i] by (auto simp: is_digit_def)
  show ?thesis
  proof (cases "i < 0")
    case True
    then have "int (digits_val 0 (nat_str (nat (- i)))) = - i" by (simp add: digits_val_nat_str)
    with True r t n show ?thesis
      using nat_str_lead [of "nat (- i)"] by (auto simp: json_int64_def itoa_def Let_def nat_str_digits)
  next
    case False
    then have "int (digits_val 0 (nat_str (nat i))) = i" by (simp add: digits_val_nat_str)
    with False r t n show ?thesis
      using nat_str_lead [of "nat i"] hd_nat_str [of "nat i"]
      by (auto simp: json_int64_def itoa_def Let_def nat_str_digits)
  qed
qed


section \<open>Text\<close>

text \<open>Punctuation beyond ASCII in the texts of the schemas, and quotes.\<close>

definition em_dash :: string where "em_dash = [CHR 0xE2, CHR 0x80, CHR 0x94]"
definition en_dash :: string where "en_dash = [CHR 0xE2, CHR 0x80, CHR 0x93]"
definition right_arrow :: string where "right_arrow = [CHR 0xE2, CHR 0x86, CHR 0x92]"
definition middle_dot :: string where "middle_dot = [CHR 0xC2, CHR 0xB7]"
definition dq :: string where "dq = [CHR 0x22]"
definition apos :: string where "apos = [CHR 0x27]"
definition bq :: string where "bq = [CHR 0x60]"

text \<open>The verb \<open>%q\<close>: \<open>strconv.Quote\<close> of a valid UTF-8 string whose code points beyond ASCII are printable.\<close>

definition go_escape :: "char \<Rightarrow> string" where
  "go_escape c =
     (let n = of_char c
      in if c = CHR 0x22 \<or> c = CHR 0x5C then [CHR 0x5C, c]
         else if n = 7 then [CHR 0x5C, CHR ''a''] else if n = 8 then [CHR 0x5C, CHR ''b'']
         else if n = 9 then [CHR 0x5C, CHR ''t''] else if n = 10 then [CHR 0x5C, CHR ''n'']
         else if n = 11 then [CHR 0x5C, CHR ''v''] else if n = 12 then [CHR 0x5C, CHR ''f'']
         else if n = 13 then [CHR 0x5C, CHR ''r'']
         else if n < 32 \<or> n = 127 then [CHR 0x5C, CHR ''x'', hex_char (n div 16), hex_char (n mod 16)]
         else [c])"

definition go_quote :: "string \<Rightarrow> string" where
  "go_quote s = CHR 0x22 # concat (map go_escape s) @ [CHR 0x22]"

section \<open>Calls\<close>

definition dec_any :: "gval \<Rightarrow> gval option" where
  "dec_any v = Some v"

text \<open>A struct of one field, and a \<open>map[string]any\<close> as a value again.\<close>

definition dec_field :: "string \<Rightarrow> (gval \<Rightarrow> 'a option) \<Rightarrow> gval \<Rightarrow> 'a option" where
  "dec_field name d v = (if is_object v then d (jfield v name) else None)"

definition dec_pair :: "(gval \<Rightarrow> 'a option) \<Rightarrow> (gval \<Rightarrow> 'b option) \<Rightarrow> gval \<Rightarrow> ('a \<times> 'b) option" where
  "dec_pair d e v = (case (d v, e v) of (Some x, Some y) \<Rightarrow> Some (x, y) | _ \<Rightarrow> None)"

definition dec_object :: "gval \<Rightarrow> gval option" where
  "dec_object v = map_option map_gval (dec_map v)"

definition api_get :: "'w net \<Rightarrow> http_config \<Rightarrow> (gval \<Rightarrow> 'a option) \<Rightarrow> string \<Rightarrow> url_values \<Rightarrow> 'w \<Rightarrow> 'a res \<times> 'w" where
  "api_get net cli dec path q w = decoded dec (get_json net cli path q True w)"

definition api_send :: "'w net \<Rightarrow> http_config \<Rightarrow> (gval \<Rightarrow> 'a option) \<Rightarrow> string \<Rightarrow> string \<Rightarrow> gval \<Rightarrow> 'w \<Rightarrow> 'a res \<times> 'w" where
  "api_send net cli dec meth path body w = decoded dec (send_json net cli meth path (Some body) True w)"

text \<open>Go on with a result, or fail with the error, wrapped or not.\<close>

definition and_then :: "'a res \<times> 'w \<Rightarrow> ('a \<Rightarrow> 'w \<Rightarrow> 'b res \<times> 'w) \<Rightarrow> 'b res \<times> 'w" where
  "and_then r f = (case r of (Inl e, w) \<Rightarrow> (Inl e, w) | (Inr x, w) \<Rightarrow> f x w)"

definition wrap_err :: "string \<Rightarrow> 'a res \<times> 'w \<Rightarrow> 'a res \<times> 'w" where
  "wrap_err msg r = (case r of (Inl e, w) \<Rightarrow> (Inl (ErrWrap msg e []), w) | (Inr x, w) \<Rightarrow> (Inr x, w))"

lemma and_then_simps [simp]:
  "and_then (Inl e, w) f = (Inl e, w)" "and_then (Inr x, w) f = f x w"
  by (simp_all add: and_then_def)

lemma wrap_err_simps [simp]:
  "wrap_err m (Inl e, w) = (Inl (ErrWrap m e []), w)" "wrap_err m (Inr x, w) = (Inr x, w)"
  by (simp_all add: wrap_err_def)

lemma and_then_Inr: "and_then r f = (Inr y, w2) \<longleftrightarrow> (\<exists>x w1. r = (Inr x, w1) \<and> f x w1 = (Inr y, w2))"
  by (auto simp: and_then_def split: prod.splits sum.splits)

lemma wrap_err_Inr [simp]: "wrap_err m r = (Inr y, w) \<longleftrightarrow> r = (Inr y, w)"
  by (auto simp: wrap_err_def split: prod.splits sum.splits)

text \<open>An optional entry of a body or query: left out when the string is empty.\<close>

definition opt_str :: "string \<Rightarrow> string \<Rightarrow> (string \<times> gval) list" where
  "opt_str k v = (if v = [] then [] else [(k, GStr v)])"

definition opt_query :: "string \<Rightarrow> string \<Rightarrow> url_values" where
  "opt_query k v = (if v = [] then [] else [(k, [v])])"

section \<open>Sessions, files, raw answers\<close>

text \<open>The session most API connectors open: the credential, a client, the state of the instance.\<close>

record api_session =
  sn_cred :: credential
  sn_http :: http_config
  sn_state :: string

definition open_with :: "(credential \<Rightarrow> http_config res) \<Rightarrow> credential \<Rightarrow> string \<Rightarrow> 'w \<Rightarrow> api_session res \<times> 'w" where
  "open_with client cred root w = (map_sum id (\<lambda>cli. \<lparr>sn_cred = cred, sn_http = cli, sn_state = root\<rparr>) (client cred), w)"

definition bearer :: "string \<Rightarrow> hdr" where
  "bearer token = [(''Authorization'', [''Bearer '' @ token])]"

text \<open>The boundary of the multipart body is thirty random bytes in hex; an exhausted source panics, here an error.\<close>

definition random_boundary :: "pool \<Rightarrow> string res \<times> pool" where
  "random_boundary r = (case read_full 30 r of (Inl e, r') \<Rightarrow> (Inl e, r') | (Inr b, r') \<Rightarrow> (Inr (hex_encode b), r'))"

definition api_upload :: "('m cli_scheme) net \<Rightarrow> http_config \<Rightarrow> (gval \<Rightarrow> 'a option) \<Rightarrow> string \<Rightarrow> (string \<times> string) list \<Rightarrow>
    file_field list \<Rightarrow> 'm cli_scheme \<Rightarrow> 'a res \<times> 'm cli_scheme" where
  "api_upload net cli dec path form fls w =
     (case random_boundary (c_pool w) of
        (Inl e, r) \<Rightarrow> (Inl e, w\<lparr>c_pool := r\<rparr>)
      | (Inr b, r) \<Rightarrow> decoded dec (post_multipart net cli (c_os w) b path form fls True (w\<lparr>c_pool := r\<rparr>)))"

definition raw_text :: "api_response \<Rightarrow> string" where
  "raw_text resp = (case as_body resp of Inl _ \<Rightarrow> [] | Inr b \<Rightarrow> b)"

text \<open>\<open>Client.Do\<close> with the check of the status that follows it.\<close>

definition raw_checked :: "'w net \<Rightarrow> http_config \<Rightarrow> string \<Rightarrow> string \<Rightarrow> string \<Rightarrow> 'w \<Rightarrow> api_response res \<times> 'w" where
  "raw_checked net cli meth path what w =
     and_then (do_raw net cli meth path [] [] w)
       (\<lambda>resp w1. if as_status resp div 100 \<noteq> 2
          then (Inl (ErrMsg (what @ '': http '' @ itoa (as_status resp) @ '': '' @ raw_text resp)), w1)
          else (Inr resp, w1))"

text \<open>\<open>os.Create\<close>, then \<open>io.Copy\<close> of the body: the bytes written. A body that breaks off leaves the file empty here.
  The two functions wrap the errors of creating and of copying.\<close>

definition create_and_copy :: "(gerr \<Rightarrow> gerr) \<Rightarrow> (gerr \<Rightarrow> gerr) \<Rightarrow> string \<Rightarrow> string res \<Rightarrow> 'm cli_scheme \<Rightarrow> nat res \<times> 'm cli_scheme" where
  "create_and_copy create_err copy_err out body w =
     (case os_write_file (c_os w) out [] 420 of
        Inl e \<Rightarrow> (Inl (create_err e), w)
      | Inr s1 \<Rightarrow>
          (case body of
             Inl e \<Rightarrow> (Inl (copy_err e), w\<lparr>c_os := s1\<rparr>)
           | Inr d \<Rightarrow>
               (case os_write_file s1 out d 420 of
                  Inl e \<Rightarrow> (Inl (copy_err e), w\<lparr>c_os := s1\<rparr>)
                | Inr s2 \<Rightarrow> (Inr (length d), w\<lparr>c_os := s2\<rparr>))))"

text \<open>A slice of maps.\<close>

definition dec_objects :: "gval \<Rightarrow> gval option" where
  "dec_objects v = map_option GList (dec_list dec_object v)"

text \<open>A \<open>[]any\<close>, which stays nil when it is null.\<close>

definition dec_values :: "gval \<Rightarrow> gval option" where
  "dec_values v = (case v of GNil \<Rightarrow> Some GNil | GList xs \<Rightarrow> Some (GList xs) | _ \<Rightarrow> None)"

text \<open>A slice of maps as a field that stays nil when it is absent.\<close>

definition object_slice :: "gval \<Rightarrow> gval option" where
  "object_slice v = (case v of GNil \<Rightarrow> Some GNil | _ \<Rightarrow> dec_objects v)"

text \<open>The assignment to a key of a decoded map, which panics when the answer left it nil.\<close>

definition map_set :: "string \<Rightarrow> gval \<Rightarrow> gval \<Rightarrow> gval res" where
  "map_set k x v =
     (case v of GMap kvs \<Rightarrow> Inr (GMap (obj_put k x kvs)) | _ \<Rightarrow> Inl (ErrExt ''panic: assignment to entry in nil map''))"

definition map_delete :: "string \<Rightarrow> gval \<Rightarrow> gval" where
  "map_delete k v = (case v of GMap kvs \<Rightarrow> GMap (filter (\<lambda>kv. fst kv \<noteq> k) kvs) | _ \<Rightarrow> v)"

definition map_string :: "gval \<Rightarrow> string \<Rightarrow> string" where
  "map_string v k = (case obj_get v k of Some (GStr s) \<Rightarrow> s | _ \<Rightarrow> [])"

text \<open>The Unix clock of a time.\<close>

definition unix_epoch :: time where
  "unix_epoch = 62135596800000000000"

definition unix_nano :: "time \<Rightarrow> int" where
  "unix_nano t = wrap64 (t - unix_epoch)"

section \<open>Path segments\<close>

text \<open>\<open>url.PathEscape\<close>.\<close>

definition path_octet :: "char \<Rightarrow> string" where
  "path_octet c =
     (if is_unreserved c \<or> c \<in> set ''$&+=:@'' then [c]
      else [CHR ''%'', hex_upper (of_char c div 16), hex_upper (of_char c mod 16)])"

definition path_escape :: "string \<Rightarrow> string" where
  "path_escape s =
     concat (map path_octet s)"

lemma hex_upper_val: "d < 16 \<Longrightarrow> hex_digit_val (hex_upper d) = Some d"
  by (auto simp: hex_upper_def hex_digit_val_def)

lemma hex_upper_plain: "d < 16 \<Longrightarrow> hex_upper d \<noteq> CHR ''/'' \<and> hex_upper d \<noteq> CHR ''?'' \<and> hex_upper d \<noteq> CHR ''#''"
proof -
  assume "d < 16"
  then have "(of_char (hex_upper d) :: nat) \<notin> {47, 63, 35}" by (auto simp: hex_upper_def)
  then show ?thesis by auto
qed

lemma of_char_16: "(of_char c :: nat) div 16 < 16"
  using of_char_less_256 [of c] by (simp add: less_mult_imp_div_less)

lemma path_octet_plain: "{CHR ''/'', CHR ''?'', CHR ''#''} \<inter> set (path_octet c) = {}"
proof (cases "is_unreserved c \<or> c \<in> set ''$&+=:@''")
  case True
  have "\<not> is_unreserved CHR ''/''" "\<not> is_unreserved CHR ''?''" "\<not> is_unreserved CHR ''#''" by code_simp+
  with True show ?thesis by (auto simp add: path_octet_def)
next
  case False
  have "(of_char c :: nat) mod 16 < 16" by simp
  with False show ?thesis
    using hex_upper_plain [OF of_char_16 [of c]] hex_upper_plain [of "of_char c mod 16"]
    by (simp add: path_octet_def)
qed

lemma path_escape_plain: "c \<in> {CHR ''/'', CHR ''?'', CHR ''#''} \<Longrightarrow> c \<notin> set (path_escape s)"
  using path_octet_plain by (induction s) (simp_all add: path_escape_def, blast)

section \<open>Quoted strings read back\<close>

lemma hex_char_digit:
  assumes "d < 16"
  shows "hex_digit_val (hex_char d) = Some d"
proof (cases "d < 10")
  case True
  then have "(of_char (hex_char d) :: nat) = 48 + d" by (simp add: hex_char_def)
  with True show ?thesis by (simp add: hex_digit_val_def)
next
  case False
  then have "(of_char (hex_char d) :: nat) = 87 + d" using assms by (simp add: hex_char_def)
  with False assms show ?thesis by (simp add: hex_digit_val_def)
qed

lemma hex4_octet:
  assumes "m < 256"
  shows "hex4 (CHR ''0'' # CHR ''0'' # hex_char (m div 16) # hex_char (m mod 16) # r) = Some (m, r)"
proof -
  have "m div 16 < 16" using assms by (simp add: less_mult_imp_div_less)
  moreover have "hex_digit_val CHR ''0'' = Some 0" by code_simp
  ultimately show ?thesis by (simp add: hex4_def hex_char_digit)
qed

definition plain_escape :: "char \<Rightarrow> bool" where
  "plain_escape c =
     (c \<notin> {CHR 0x22, CHR 0x5C, CHR 0x08, CHR 0x0C, CHR 0x0A, CHR 0x0D, CHR 0x09})"

lemma json_escape_octet:
  assumes "plain_escape c" "(of_char c :: nat) < 32 \<or> c \<in> {CHR ''<'', CHR ''>'', CHR ''&''}"
  shows "json_escape c =
    [CHR 0x5C, CHR ''u'', CHR ''0'', CHR ''0'', hex_char (of_char c div 16), hex_char (of_char c mod 16)]"
  using assms unfolding json_escape_def plain_escape_def Let_def by auto

lemma json_string_octet:
  assumes "(of_char c :: nat) < 128"
  shows "json_string (Suc n)
     ([CHR 0x5C, CHR ''u'', CHR ''0'', CHR ''0'', hex_char (of_char c div 16), hex_char (of_char c mod 16)] @ rest) =
   map_option (\<lambda>(x, r). (c # x, r)) (json_string n rest)"
  using assms of_char_less_256 [of c] hex4_octet [of "of_char c"] by (simp add: utf8_def byte_def)

lemma json_string_escape:
  "json_string (Suc n) (json_escape c @ rest) = map_option (\<lambda>(x, r). (c # x, r)) (json_string n rest)"
proof (cases "plain_escape c")
  case False
  then have "c \<in> {CHR 0x22, CHR 0x5C, CHR 0x08, CHR 0x0C, CHR 0x0A, CHR 0x0D, CHR 0x09}"
    unfolding plain_escape_def by simp
  then show ?thesis by (elim insertE emptyE) (simp_all add: json_escape_def simple_escape_def)
next
  case plain: True
  show ?thesis
  proof (cases "(of_char c :: nat) < 32 \<or> c \<in> {CHR ''<'', CHR ''>'', CHR ''&''}")
    case True
    then have "(of_char c :: nat) < 128" by auto
    then show ?thesis using json_escape_octet [OF plain True] json_string_octet by simp
  next
    case False
    then have "json_escape c = [c]" using plain by (simp add: json_escape_def plain_escape_def Let_def)
    then show ?thesis using plain False by (simp add: plain_escape_def)
  qed
qed

lemma json_string_quoted:
  "length s < n \<Longrightarrow> json_string n (concat (map json_escape s) @ CHR 0x22 # r) = Some (s, r)"
proof (induction s arbitrary: n)
  case Nil
  then show ?case by (cases n) simp_all
next
  case (Cons c s)
  then obtain m where "n = Suc m" "length s < m" by (cases n) auto
  with Cons.IH show ?case by (simp add: json_string_escape del: json_string.simps)
qed

lemma json_escape_length: "length s \<le> length (concat (map json_escape s))"
proof (induction s)
  case (Cons c s)
  have "1 \<le> length (json_escape c)" by (simp add: json_escape_def Let_def)
  with Cons show ?case by simp
qed simp

lemma json_unmarshal_quote: "json_unmarshal (json_quote s) = Some (GStr s)"
proof -
  let ?t = "concat (map json_escape s) @ [CHR 0x22]"
  have "length s < Suc (length ?t)" using json_escape_length [of s] by simp
  then have "json_string (Suc (length ?t)) ?t = Some (s, [])" by (rule json_string_quoted)
  moreover have "skip_ws (CHR 0x22 # ?t) = CHR 0x22 # ?t" by (simp add: skip_ws_def json_ws_def)
  moreover have "skip_ws [] = []" by (simp add: skip_ws_def)
  ultimately show ?thesis
    by (simp add: json_unmarshal_def json_decode_first_def json_quote_def del: json_string.simps)
qed

section \<open>A recorded service\<close>

text \<open>For statements about what is sent where: a service that answers each request by a fixed function and keeps a log.\<close>

record net_world = cli +
  nw_sent :: "api_request list"

definition recorded :: "(api_request \<Rightarrow> api_response res) \<Rightarrow> net_world net" where
  "recorded answer rq w = (answer rq, w\<lparr>nw_sent := nw_sent w @ [rq]\<rparr>)"

definition ok_answer :: "string \<Rightarrow> api_response res" where
  "ok_answer body = Inr \<lparr>as_status = 200, as_headers = [], as_body = Inr body\<rparr>"

definition ex_json :: "(string \<times> string) list \<Rightarrow> string" where
  "ex_json kvs = [CHR 0x7B] @ join_with '','' (map (\<lambda>(k, v). json_quote k @ '':'' @ json_quote v) kvs) @ [CHR 0x7D]"

definition ex_cli :: cli where
  "ex_cli = \<lparr>c_os = ex_store_os, c_pool = replicate 30 CHR ''r'', c_now = unix_epoch, c_stdin = [], c_tty = False, c_out = []\<rparr>"

definition ex_net_world :: net_world where
  "ex_net_world = cli.extend ex_cli \<lparr>nw_sent = []\<rparr>"

end
