(* ===== verification/WebhookConn.thy ===== *)
theory WebhookConn
  imports Serve GoText
begin

text \<open>
  The generic webhook receiver (\<open>connectors/webhook\<close>): its credential schema, the checks of a request,
  the event it emits and its configured reply.

  The payload is given in its JSON form, with the fields the encoder omits left out. Texts of
  library errors inside replies are shortened.
\<close>

section \<open>Credential\<close>

definition webhook_schema :: schema where
  "webhook_schema =
     [(field ''secret_token'' FieldSecret)\<lparr>f_label := ''API key / shared secret (optional)'',
        f_description := ''Static value compared against secret_header or ?secret_query_param=...''\<rparr>,
      (field ''secret_header'' FieldString)\<lparr>f_label := ''Header name carrying the secret'',
        f_default := Some (GStr ''X-Mw-Secret''),
        f_description := ''e.g. X-Mw-Secret, X-Telegram-Bot-Api-Secret-Token, Authorization (full value).''\<rparr>,
      (field ''secret_query_param'' FieldString)\<lparr>f_label := ''Query param carrying the secret'',
        f_default := Some (GStr ''secret'')\<rparr>,
      (field ''signature_algo'' FieldEnum)\<lparr>f_label := ''Signature algorithm'',
        f_options := [\<lparr>o_value = ''none'', o_label = ''(none)''\<rparr>,
          \<lparr>o_value = ''hmac-sha256'', o_label = ''HMAC-SHA256 '' @ em_dash @ '' plain hex (LemonSqueezy)''\<rparr>,
          \<lparr>o_value = ''hmac-sha256-prefix'',
            o_label = ''HMAC-SHA256 '' @ em_dash @ '' prefixed (GitHub: '' @ [CHR 0x27] @ ''sha256=...'' @ [CHR 0x27] @ '')''\<rparr>,
          \<lparr>o_value = ''hmac-sha1'', o_label = ''HMAC-SHA1 '' @ em_dash @ '' legacy''\<rparr>],
        f_default := Some (GStr ''none'')\<rparr>,
      (field ''signature_secret'' FieldSecret)\<lparr>f_label := ''Signature secret'',
        f_description := ''Shared HMAC key. Required when signature_algo != none.''\<rparr>,
      (field ''signature_header'' FieldString)\<lparr>f_label := ''Signature header name'',
        f_default := Some (GStr ''X-Signature''),
        f_description := ''LemonSqueezy: X-Signature. GitHub: X-Hub-Signature-256.''\<rparr>,
      (field ''signature_prefix'' FieldString)\<lparr>f_label := ''Header prefix to strip before compare'',
        f_description := ''e.g. '' @ [CHR 0x27] @ ''sha256='' @ [CHR 0x27] @ '' for GitHub. Empty for plain hex (LemonSqueezy).''\<rparr>,
      (field ''response_body'' FieldLongText)\<lparr>f_label := ''Static response body'',
        f_description := ''Returned verbatim. Ignored if response_file is set.''\<rparr>,
      (field ''response_file'' FieldString)\<lparr>f_label := ''Response file path'', f_is_path := True,
        f_description := ''Read at request time (NOT preloaded). Wins over response_body. ''
          @ ''With PGF_ALLOWED_PATHS set, must be within an allowed root.''\<rparr>,
      (field ''response_content_type'' FieldString)\<lparr>f_label := ''Response Content-Type'',
        f_default := Some (GStr ''text/plain; charset=utf-8'')\<rparr>,
      (field ''response_status'' FieldInt)\<lparr>f_label := ''Response status'', f_default := Some (GInt 200)\<rparr>,
      (field ''allowed_methods'' FieldStringList)\<lparr>f_label := ''Allowed HTTP methods'',
        f_description := ''Comma-separated. Empty = any method allowed.''\<rparr>,
      (field ''strip_headers'' FieldStringList)\<lparr>f_label := ''Strip these headers from emitted events'',
        f_default := Some (GStr ''Authorization,Cookie,Proxy-Authorization,X-Mw-Secret''),
        f_description := ''Authorization headers stay out of stdout to avoid leaking via downstream logs.''\<rparr>]"

definition webhook_defaults :: "vals \<Rightarrow> vals" where
  "webhook_defaults p =
     (case p ''response_status'' of
        Some (GStr s) \<Rightarrow>
          (let (n, ok) = atoi s in if ok then p(''response_status'' \<mapsto> GInt n) else p)
      | _ \<Rightarrow> p)"

section \<open>Checks\<close>

definition err_resp :: "int \<Rightarrow> string \<Rightarrow> webhook_response" where
  "err_resp status msg =
     \<lparr>w_status = status, w_content_type = ''text/plain; charset=utf-8'', w_headers = [], w_body = msg\<rparr>"

definition verify_signature :: "http_request \<Rightarrow> string \<Rightarrow> string \<Rightarrow> string \<Rightarrow> string \<Rightarrow> string \<Rightarrow> unit res" where
  "verify_signature rq body algo secret header_name pfx =
     (if secret = [] then Inl (ErrMsg ''signature_secret missing'')
      else if header_name = [] then Inl (ErrMsg ''signature_header missing'')
      else
        (let got = hdr_get (rq_headers rq) header_name
         in if got = [] then Inl (ErrMsg (''missing header '' @ header_name))
            else if pfx \<noteq> [] \<and> \<not> prefix pfx got then
              Inl (ErrMsg (''signature header missing required prefix '' @ json_quote pfx))
            else
              (let got' = (if pfx \<noteq> [] then trim_prefix got pfx else got)
               in case hex_decode (trim_space got') of
                    None \<Rightarrow> Inl (ErrWrap (''signature header '' @ header_name @ '' is not hex: '') (ErrExt ''hex'') [])
                  | Some mac \<Rightarrow>
                      if algo = ''hmac-sha256'' \<or> algo = ''hmac-sha256-prefix'' then
                        (if mac = hmac sha256 secret body then Inr () else Inl (ErrMsg ''signature mismatch''))
                      else if algo = ''hmac-sha1'' then
                        (if mac = hmac sha1 secret body then Inr () else Inl (ErrMsg ''signature mismatch''))
                      else Inl (ErrMsg (''unsupported signature_algo '' @ json_quote algo)))))"

definition secret_matches :: "http_request \<Rightarrow> string \<Rightarrow> string \<Rightarrow> string \<Rightarrow> bool" where
  "secret_matches rq header_name query_name want =
     (if header_name \<noteq> [] \<and> hdr_get (rq_headers rq) header_name = want then True
      else query_name \<noteq> [] \<and> q_get (rq_query rq) query_name = want)"

definition filter_headers :: "header \<Rightarrow> string list \<Rightarrow> header" where
  "filter_headers hs strip =
     (let strip_set = map (\<lambda>h. to_lower (trim_space h)) strip
      in filter (\<lambda>(k, vv). to_lower k \<notin> set strip_set) hs)"

section \<open>The event\<close>

text \<open>\<open>url.ParseQuery\<close> reports a semicolon or a bad escape, which \<open>URL.Query\<close> ignores.\<close>

definition query_ok :: "string \<Rightarrow> bool" where
  "query_ok s =
     list_all (\<lambda>part. part = [] \<or>
       (CHR '';'' \<notin> set part \<and>
        (let (k, v, _) = str_cut (CHR ''='') part
         in query_unescape k \<noteq> None \<and> query_unescape v \<noteq> None))) (split_on (CHR ''&'') s)"

definition gval_lists :: "header \<Rightarrow> gval" where
  "gval_lists kvs = GMap (map (\<lambda>(k, vs). (k, GStrs vs)) kvs)"

text \<open>\<open>parseBody\<close>: the field of the payload it sets, if any.\<close>

definition wh_parse_body :: "string \<Rightarrow> string \<Rightarrow> (string \<times> gval) list" where
  "wh_parse_body content_type body =
     (if length body = 0 then []
      else
        (let mt = media_type content_type;
             rest = (if utf8_valid body then [(''body_text'', GStr body)]
                     else [(''body_base64'', GStr (b64_encode body))])
         in if mt = ''application/json'' \<or> suffix ''+json'' mt then
              (case json_unmarshal body of
                 Some GNil \<Rightarrow> []
               | Some v \<Rightarrow> [(''body'', v)]
               | None \<Rightarrow> rest)
            else if mt = ''application/x-www-form-urlencoded'' \<and> query_ok body then
              [(''body'', gval_lists (parse_query body))]
            else rest))"

definition incoming_payload :: "http_request \<Rightarrow> vals \<Rightarrow> string \<Rightarrow> time \<Rightarrow> gval" where
  "incoming_payload rq v body now =
     (let headers = filter_headers (rq_headers rq) (v_string_list v ''strip_headers'')
      in GMap
        ([(''method'', GStr (rq_method rq)), (''path'', GStr (segment (rq_path rq))), (''url'', GStr (rq_url rq))]
         @ (if rq_query rq = [] then [] else [(''query'', gval_lists (rq_query rq))])
         @ (if headers = [] then [] else [(''headers'', gval_lists headers)])
         @ wh_parse_body (hdr_get (rq_headers rq) ''Content-Type'') body
         @ (if rq_remote rq = [] then [] else [(''remote_addr'', GStr (rq_remote rq))])
         @ [(''received_at'', GStr (rfc3339 now))]))"

definition random_id :: "pool \<Rightarrow> string \<times> pool" where
  "random_id r =
     (case read_full 12 r of (Inl _, r') \<Rightarrow> ([], r') | (Inr b, r') \<Rightarrow> (hex_encode b, r'))"

definition build_response :: "osys \<Rightarrow> vals \<Rightarrow> webhook_response" where
  "build_response s v =
     (let resp = \<lparr>w_status = v_int v ''response_status'', w_content_type = v_string v ''response_content_type'',
          w_headers = [], w_body = []\<rparr>; path = v_string v ''response_file''
      in if path \<noteq> [] then
           (case os_read_file s path of
              Inl e \<Rightarrow> err_resp 500 (''read '' @ path @ '': '' @ err_text e)
            | Inr data \<Rightarrow> resp\<lparr>w_body := data\<rparr>)
         else if v_string v ''response_body'' \<noteq> [] then resp\<lparr>w_body := v_string v ''response_body''\<rparr>
         else resp)"

section \<open>The trigger\<close>

definition method_ok :: "vals \<Rightarrow> string \<Rightarrow> bool" where
  "method_ok v meth =
     (let allowed = v_string_list v ''allowed_methods''
      in allowed = [] \<or> list_ex (\<lambda>m. equal_fold (trim_space m) meth) allowed)"

definition secret_ok :: "vals \<Rightarrow> http_request \<Rightarrow> bool" where
  "secret_ok v rq =
     (let want = v_string v ''secret_token''
      in want = [] \<or> secret_matches rq (v_string v ''secret_header'') (v_string v ''secret_query_param'') want)"

definition signature_check :: "vals \<Rightarrow> http_request \<Rightarrow> string \<Rightarrow> unit res" where
  "signature_check v rq body =
     (let algo = v_string v ''signature_algo''
      in if algo \<noteq> [] \<and> algo \<noteq> ''none'' then
           verify_signature rq body algo (v_string v ''signature_secret'') (v_string v ''signature_header'')
             (v_string v ''signature_prefix'')
         else Inr ())"

definition incoming_handle :: "credential \<Rightarrow> vals \<Rightarrow> http_request \<Rightarrow> ('m cli_scheme) sink \<Rightarrow> 'm cli_scheme \<Rightarrow>
    webhook_response option res \<times> 'm cli_scheme" where
  "incoming_handle cred params rq emit w =
     (let v = cr_values cred
      in if \<not> method_ok v (rq_method rq) then
           (Inr (Some (err_resp 405 (''method not allowed: '' @ rq_method rq))), w)
         else if \<not> secret_ok v rq then (Inr (Some (err_resp 401 ''secret mismatch'')), w)
         else case rq_body rq of
           Inl e \<Rightarrow> (Inr (Some (err_resp 400 (''read body: '' @ err_text e))), w)
         | Inr body \<Rightarrow>
             (case signature_check v rq body of
                Inl e \<Rightarrow> (Inr (Some (err_resp 401 (err_text e))), w)
              | Inr _ \<Rightarrow>
                  (let now = c_now w; (rid, r) = random_id (c_pool w);
                       ev = \<lparr>ev_id = rid, ev_type = ''request'', ev_payload = incoming_payload rq v body now, ev_time = now\<rparr>
                   in case emit ev (w\<lparr>c_pool := r\<rparr>) of
                        (Inl e, w1) \<Rightarrow> (Inr (Some (err_resp 500 (''emit: '' @ err_text e))), w1)
                      | (Inr _, w1) \<Rightarrow> (Inr (Some (build_response (c_os w1) v)), w1))))"

definition incoming_ops :: "('m cli_scheme, credential) webhook_ops" where
  "incoming_ops = \<lparr>on_enable = (\<lambda>_ _ _ w. (Inr (), w)), on_disable = (\<lambda>_ _ w. (Inr (), w)), on_handle = incoming_handle\<rparr>"

definition webhook_connector :: "('m cli_scheme, credential) connector" where
  "webhook_connector =
     \<lparr>c_descriptor = \<lparr>d_name = ''webhook'', d_display = ''Generic webhook receiver'',
        d_description = ''HTTP-in primitive. Any method, any path, captures method/query/headers/body. ''
          @ ''Optional auth + configurable response.'',
        d_version = ''0.1.0'', d_categories = [''http'', ''trigger'']\<rparr>,
      c_credential = \<lparr>cs_kind = AuthCustom, cs_schema = webhook_schema, cs_presets = [], cs_defaults = webhook_defaults,
        cs_validate = keep_values (\<lambda>_ w. (Inr (), w))\<rparr>,
      c_actions = [],
      c_triggers = [\<lparr>t_name = ''incoming'', t_display = ''Incoming HTTP request'',
        t_description = ''Receive any HTTP request. Emits a parsed Event; replies per credential config.'',
        t_schema = [], t_strategy = TriggerWebhook, t_subscribe = None, t_webhook = Some incoming_ops\<rparr>],
      c_open = (\<lambda>cred _ w. (Inr cred, w)), c_close = (\<lambda>_ w. (Inr (), w))\<rparr>"

section \<open>Properties\<close>

lemma verify_signature_sound:
  assumes "verify_signature rq body algo secret header_name pfx = Inr ()"
  shows "\<exists>mac. hex_decode (trim_space (trim_prefix (hdr_get (rq_headers rq) header_name) pfx)) = Some mac \<and>
    mac \<in> {hmac sha256 secret body, hmac sha1 secret body}"
proof -
  have "(if pfx \<noteq> [] then trim_prefix got pfx else got) = trim_prefix got pfx" for got
    by (simp add: trim_prefix_def)
  with assms show ?thesis
    by (auto simp: verify_signature_def Let_def split: if_splits option.splits)
qed


definition ex_hook_cred :: credential where
  "ex_hook_cred = new_credential ''webhook'' ''in'' [''secret_token'' \<mapsto> GStr ''s'', ''secret_header'' \<mapsto> GStr ''X-Key'']"

definition ex_hook_request :: http_request where
  "ex_hook_request = \<lparr>rq_method = ''POST'', rq_path = ''/webhook/in/incoming'', rq_url = ''/webhook/in/incoming'',
     rq_query = [], rq_headers = [(''X-Key'', [''s''])], rq_body = Inr ''hi'', rq_remote = []\<rparr>"

lemma ex_hook_get: "hdr_get (rq_headers ex_hook_request) ''X-Key'' = ''s''"
  by code_simp


text \<open>A sender that signs is let in: the hex of the HMAC-SHA256 of the body under the shared key, behind
  the configured prefix, passes the check under whatever header is configured; and anything
  that passes decodes to exactly that MAC.
\<close>

theorem signature_roundtrip:
  assumes "secret \<noteq> []" "header_name \<noteq> []"
    "hdr_get (rq_headers rq) header_name = pfx @ hex_encode (hmac sha256 secret body)"
  shows "verify_signature rq body' ''hmac-sha256'' secret header_name pfx = Inr () \<longleftrightarrow>
    hmac sha256 secret body' = hmac sha256 secret body"
proof -
  have "hmac sha256 secret body \<noteq> []"
    using sha256_length by (metis hmac_def list.size(3) zero_neq_numeral)
  then have "hex_encode (hmac sha256 secret body) \<noteq> []" by (cases "hmac sha256 secret body") simp_all
  then show ?thesis
    using assms by (auto simp: verify_signature_def trim_prefix_def trim_hex_encode hex_decode_encode Let_def)
qed

theorem signature_roundtrip_witness:
  "verify_signature (ex_hook_request\<lparr>rq_headers := [(''X-Sig'', [''sha256='' @ hex_encode (hmac sha256 ''k'' ''hi'')])]\<rparr>) ''hi''
     ''hmac-sha256'' ''k'' ''X-Sig'' ''sha256='' = Inr ()"
proof -
  have c: "canon_key ''X-Sig'' = ''X-Sig''" by code_simp
  have "hdr_get (rq_headers (ex_hook_request\<lparr>rq_headers := [(''X-Sig'', [''sha256='' @ hex_encode (hmac sha256 ''k'' ''hi'')])]\<rparr>))
      ''X-Sig'' = ''sha256='' @ hex_encode (hmac sha256 ''k'' ''hi'')"
    by (simp add: hdr_get_def c)
  from signature_roundtrip [OF _ _ this, of "''hi''"] show ?thesis by simp
qed

text \<open>What leaves in the event: a header is in the payload exactly if it was in the request and its name,
  whatever its case, is not on the strip list; its values are the request's.
\<close>

theorem stripped_headers_absent:
  "obj_get (incoming_payload rq v body now) ''headers'' =
     (let kept = filter (\<lambda>(k, vs). to_lower k \<notin> set (map (\<lambda>h. to_lower (trim_space h)) (v_string_list v ''strip_headers'')))
          (rq_headers rq)
      in if kept = [] then None else Some (GMap (map (\<lambda>(k, vs). (k, GStrs vs)) kept)))"
proof -
  have "map_of (wh_parse_body ct b) ''headers'' = None" for ct b
    by (simp add: wh_parse_body_def Let_def split: option.splits gval.splits)
  then show ?thesis
    by (simp add: incoming_payload_def obj_get_def filter_headers_def gval_lists_def Let_def)
qed

text \<open>Defaults of the schema are not filled in outside the wizard: a credential given with \<open>secret_token\<close> alone
  names neither header nor query parameter, so every request is answered 401, also one that carries
  the secret in the documented default header.
\<close>

theorem input_secret_locks_out:
  "incoming_handle (new_credential ''webhook'' name (webhook_defaults [''secret_token'' \<mapsto> GStr (c # s)])) params rq emit w =
     (Inr (Some (err_resp 401 ''secret mismatch'')), w)"
  by (simp add: incoming_handle_def new_credential_def webhook_defaults_def method_ok_def secret_ok_def secret_matches_def
      v_string_list_def v_string_def)

end
