(* ===== verification/Rss.thy ===== *)
theory Rss
  imports ConnBase
begin

text \<open>
  The feed reader (\<open>connectors/rss\<close>): fetching, identities, the watermark and the difference to it, the
  five actions and the polling trigger.

  The feed parser is a parameter \<open>parse\<close> that gives a parsed feed; its items are records. Feeds and
  items are never nil there. The network is the \<open>net\<close> of the HTTP transport.
\<close>

section \<open>Feeds\<close>

record feed_item =
  fi_guid :: string
  fi_link :: string
  fi_title :: string
  fi_published :: string
  fi_published_at :: "time option"
  fi_updated_at :: "time option"
  fi_description :: string
  fi_content :: string
  fi_authors :: "string option list"
  fi_categories :: "string list"

record feed =
  fd_title :: string
  fd_description :: string
  fd_link :: string
  fd_language :: string
  fd_type :: string
  fd_items :: "feed_item list"

type_synonym feed_parser = "string \<Rightarrow> feed res"

definition item_id :: "feed_item \<Rightarrow> string" where
  "item_id it =
     (if fi_guid it \<noteq> [] then fi_guid it
      else if fi_link it \<noteq> [] then fi_link it
      else if fi_title it \<noteq> [] \<or> fi_published it \<noteq> [] then
        ''h:'' @ hex_encode (take 8 (sha256 (fi_title it @ ''|'' @ fi_published it)))
      else [])"

definition item_time :: "time \<Rightarrow> feed_item \<Rightarrow> time" where
  "item_time now it =
     (case fi_published_at it of
        Some t \<Rightarrow> t
      | None \<Rightarrow> (case fi_updated_at it of Some t \<Rightarrow> t | None \<Rightarrow> now))"

definition flatten_item :: "feed_item \<Rightarrow> gval" where
  "flatten_item it = GMap
     ([(''id'', GStr (item_id it)), (''title'', GStr (fi_title it)), (''link'', GStr (fi_link it)),
       (''published'', GStr (case fi_published_at it of
          Some t \<Rightarrow> rfc3339_sec t
        | None \<Rightarrow> (case fi_updated_at it of Some t \<Rightarrow> rfc3339_sec t | None \<Rightarrow> [])))]
      @ (if fi_description it \<noteq> [] then [(''description'', GStr (fi_description it))] else [])
      @ (if fi_content it \<noteq> [] then [(''content'', GStr (fi_content it))] else [])
      @ (case fi_authors it of Some a # _ \<Rightarrow> [(''author'', GStr a)] | _ \<Rightarrow> [])
      @ (if length (fi_categories it) > 0 then [(''categories'', GStrs (fi_categories it))] else []))"

definition flatten_feed :: "feed \<Rightarrow> gval" where
  "flatten_feed f = GMap
     [(''title'', GStr (fd_title f)), (''description'', GStr (fd_description f)), (''link'', GStr (fd_link f)),
      (''language'', GStr (fd_language f)), (''feed_type'', GStr (fd_type f))]"

definition feed_request :: "vals \<Rightarrow> string \<Rightarrow> api_request" where
  "feed_request v url =
     (let timeout = wrap64 (v_int v ''timeout_seconds'' * second);
          ua = (if v_string v ''user_agent'' = [] then ''pantograf/0.1'' else v_string v ''user_agent'')
      in \<lparr>aq_method = ''GET'', aq_url = url,
          aq_headers = hdr_set ''Accept''
            ''application/rss+xml, application/atom+xml, application/json, application/xml;q=0.9, */*;q=0.8''
            (hdr_set ''User-Agent'' ua []),
          aq_body = [], aq_timeout = (if timeout \<le> 0 then 30 * second else timeout)\<rparr>)"

definition fetch_feed :: "'w net \<Rightarrow> feed_parser \<Rightarrow> vals \<Rightarrow> 'w \<Rightarrow> feed res \<times> 'w" where
  "fetch_feed net parse v w =
     (let url = v_string v ''feed_url''
      in if url = [] then (Inl (ErrMsg ''rss: feed_url is empty''), w)
         else if \<not> url_ok url then (Inl (ErrWrap ''rss: build request: '' (ErrExt ''url'') []), w)
         else case net (feed_request v url) w of
           (Inl e, w1) \<Rightarrow> (Inl (ErrWrap (''rss: GET '' @ url @ '': '') e []), w1)
         | (Inr resp, w1) \<Rightarrow>
             (if as_status resp div 100 \<noteq> 2 then
                (Inl (ErrMsg (''rss: GET '' @ url @ '': http '' @ itoa (as_status resp))), w1)
              else case as_body resp of
                Inl e \<Rightarrow> (Inl (ErrWrap ''rss: read body: '' e []), w1)
              | Inr body \<Rightarrow>
                  (case parse body of
                     Inl e \<Rightarrow> (Inl (ErrWrap ''rss: parse: '' e []), w1)
                   | Inr f \<Rightarrow> (Inr f, w1))))"

section \<open>The watermark\<close>

definition key_last_seen :: string where "key_last_seen = ''rss:last_seen_id''"
definition key_last_fetch :: string where "key_last_fetch = ''rss:last_fetched_at''"

definition load_watermark :: "string \<Rightarrow> 'm cli_scheme \<Rightarrow> string res" where
  "load_watermark root w =
     (case st_get root key_last_seen w of
        Inl e \<Rightarrow> Inl e
      | Inr None \<Rightarrow> Inr []
      | Inr (Some d) \<Rightarrow> Inr d)"

definition save_watermark :: "string \<Rightarrow> string \<Rightarrow> 'm cli_scheme \<Rightarrow> unit res \<times> 'm cli_scheme" where
  "save_watermark root wid w =
     (if wid = [] then (Inr (), w)
      else case st_put root key_last_seen wid w of
        (Inl e, w1) \<Rightarrow> (Inl e, w1)
      | (Inr _, w1) \<Rightarrow> st_put root key_last_fetch (json_quote (rfc3339_sec (c_now w1))) w1)"

text \<open>The feed is given by its items, newest first.\<close>

definition diff_items :: "feed_item list \<Rightarrow> string \<Rightarrow> bool \<Rightarrow> feed_item list \<times> string" where
  "diff_items items watermark include_backlog =
     (case items of
        [] \<Rightarrow> ([], watermark)
      | it # _ \<Rightarrow>
          (let newest = item_id it
           in if watermark = [] then (if include_backlog then (items, newest) else ([], newest))
              else
                (let fresh = takeWhile (\<lambda>it. item_id it \<noteq> watermark) items
                 in if fresh = [] then ([], watermark) else (fresh, newest))))"

section \<open>Actions\<close>

text \<open>A session is the credential and the root of the instance's store.\<close>

record rss_session =
  rs_cred :: credential
  rs_state :: string

definition rss_fetch_schema :: schema where
  "rss_fetch_schema = [(gstr_field ''limit'' FieldInt ''Max items to return. 0 = all.'')\<lparr>f_default := Some (GInt 0)\<rparr>]"

definition rss_fetch :: "('m cli_scheme) net \<Rightarrow> feed_parser \<Rightarrow> rss_session \<Rightarrow> vals \<Rightarrow> 'm cli_scheme \<Rightarrow> gval res \<times> 'm cli_scheme" where
  "rss_fetch net parse s params w =
     (let ps = with_defaults params rss_fetch_schema
      in case fetch_feed net parse (cr_values (rs_cred s)) w of
           (Inl e, w1) \<Rightarrow> (Inl e, w1)
         | (Inr f, w1) \<Rightarrow>
             (let limit = v_int ps ''limit'';
                  items = (if limit > 0 \<and> limit < int (length (fd_items f)) then take (nat limit) (fd_items f) else fd_items f)
              in (Inr (GMap [(''feed'', flatten_feed f), (''items'', GList (map flatten_item items)),
                     (''count'', GInt (int (length items)))]), w1)))"

definition rss_list_new_schema :: schema where
  "rss_list_new_schema = [(gstr_field ''include_backlog'' FieldBool
     ''On first run (no watermark), return ALL feed items instead of skipping backlog. Subsequent runs unaffected.'')
     \<lparr>f_default := Some (GBool False)\<rparr>]"

definition rss_list_new :: "('m cli_scheme) net \<Rightarrow> feed_parser \<Rightarrow> rss_session \<Rightarrow> vals \<Rightarrow> 'm cli_scheme \<Rightarrow> gval res \<times> 'm cli_scheme" where
  "rss_list_new net parse s params w =
     (let ps = with_defaults params rss_list_new_schema
      in case fetch_feed net parse (cr_values (rs_cred s)) w of
           (Inl e, w1) \<Rightarrow> (Inl e, w1)
         | (Inr f, w1) \<Rightarrow>
             (case load_watermark (rs_state s) w1 of
                Inl e \<Rightarrow> (Inl e, w1)
              | Inr watermark \<Rightarrow>
                  (let (new_items, new_wm) = diff_items (fd_items f) watermark (v_bool ps ''include_backlog'');
                       result = GMap [(''new_count'', GInt (int (length new_items))),
                         (''items'', GList (map flatten_item new_items)), (''watermark'', GStr new_wm)]
                   in if new_wm \<noteq> [] \<and> new_wm \<noteq> watermark then
                        (case save_watermark (rs_state s) new_wm w1 of
                           (Inl e, w2) \<Rightarrow> (Inl e, w2)
                         | (Inr _, w2) \<Rightarrow> (Inr result, w2))
                      else (Inr result, w1))))"

definition rss_mark_seen :: "('m cli_scheme) net \<Rightarrow> feed_parser \<Rightarrow> rss_session \<Rightarrow> vals \<Rightarrow> 'm cli_scheme \<Rightarrow> gval res \<times> 'm cli_scheme" where
  "rss_mark_seen net parse s params w =
     (let save = (\<lambda>wid w. case save_watermark (rs_state s) wid w of
            (Inl e, w2) \<Rightarrow> (Inl e, w2)
          | (Inr _, w2) \<Rightarrow> (Inr (GMap [(''watermark'', GStr wid)]), w2))
      in if v_string params ''id'' = [] then
           (case fetch_feed net parse (cr_values (rs_cred s)) w of
              (Inl e, w1) \<Rightarrow> (Inl e, w1)
            | (Inr f, w1) \<Rightarrow>
                (case fd_items f of
                   [] \<Rightarrow> (Inr (GMap [(''watermark'', GStr []), (''note'', GStr ''feed has no items; watermark unchanged'')]), w1)
                 | it # _ \<Rightarrow> save (item_id it) w1))
         else save (v_string params ''id'') w)"

definition rss_info :: "rss_session \<Rightarrow> vals \<Rightarrow> 'm cli_scheme \<Rightarrow> gval res \<times> 'm cli_scheme" where
  "rss_info s params w =
     (let wm = (case load_watermark (rs_state s) w of Inl _ \<Rightarrow> [] | Inr x \<Rightarrow> x)
      in (Inr (GMap
           ([(''feed_url'', GStr (v_string (cr_values (rs_cred s)) ''feed_url'')), (''watermark'', GStr wm)]
            @ (case st_get (rs_state s) key_last_fetch w of
                 Inr (Some d) \<Rightarrow>
                   [(''last_fetched_at'', GStr (case json_unmarshal d of Some (GStr t) \<Rightarrow> t | _ \<Rightarrow> []))]
               | _ \<Rightarrow> []))), w))"

definition rss_reset :: "rss_session \<Rightarrow> vals \<Rightarrow> 'm cli_scheme \<Rightarrow> gval res \<times> 'm cli_scheme" where
  "rss_reset s params w =
     (Inr (GMap [(''reset'', GBool True)]),
      snd (st_del (rs_state s) key_last_fetch (snd (st_del (rs_state s) key_last_seen w))))"

section \<open>The trigger\<close>

definition rss_trigger_schema :: schema where
  "rss_trigger_schema =
     [(gstr_field ''poll_interval'' FieldInt
        ''Seconds between polls. Be polite: 300s (5m) is a reasonable floor for most feeds.'')\<lparr>f_default := Some (GInt 300)\<rparr>,
      (gstr_field ''include_backlog'' FieldBool
        ''On first run (no watermark), emit ALL current items. Subsequent runs unaffected.'')\<lparr>f_default := Some (GBool False)\<rparr>]"

definition item_event :: "time \<Rightarrow> feed_item \<Rightarrow> event" where
  "item_event now it =
     \<lparr>ev_id = item_id it, ev_type = ''item'', ev_payload = flatten_item it, ev_time = item_time now it\<rparr>"

text \<open>One round of the loop after a successful fetch; an unreadable watermark counts as none.\<close>

definition rss_round :: "string \<Rightarrow> ('m cli_scheme) sink \<Rightarrow> bool \<Rightarrow> feed_item list \<Rightarrow> 'm cli_scheme \<Rightarrow> unit res \<times> 'm cli_scheme" where
  "rss_round root emit backlog items w =
     (let wm = (case load_watermark root w of Inl _ \<Rightarrow> [] | Inr x \<Rightarrow> x);
          (fresh, new_wm) = diff_items items wm backlog
      in case emit_all emit (map (item_event (c_now w)) (rev fresh)) w of
           (Inl e, w1) \<Rightarrow> (Inl e, w1)
         | (Inr _, w1) \<Rightarrow>
             (Inr (), if new_wm \<noteq> [] \<and> new_wm \<noteq> wm then snd (save_watermark root new_wm w1) else w1))"

text \<open>
  The loop, canceled after \<open>n\<close> rounds: its result and the waits it was given after failed fetches
  (the waits for the ticker in between leave no trace).
\<close>

fun rss_loop :: "('m cli_scheme) net \<Rightarrow> feed_parser \<Rightarrow> rss_session \<Rightarrow> ('m cli_scheme) sink \<Rightarrow> nat \<Rightarrow> bool \<Rightarrow> backoff \<Rightarrow>
    'm cli_scheme \<Rightarrow> unit res \<times> int list \<times> 'm cli_scheme" where
  "rss_loop net parse s emit 0 backlog bo w = (Inl ErrCanceled, [], w)"
| "rss_loop net parse s emit (Suc n) backlog bo w =
     (case fetch_feed net parse (cr_values (rs_cred s)) w of
        (Inl e, w1) \<Rightarrow>
          (case bo_next bo of
             (d, bo1) \<Rightarrow>
               (case rss_loop net parse s emit n backlog bo1 w1 of (r, ds, w2) \<Rightarrow> (r, d # ds, w2)))
      | (Inr f, w1) \<Rightarrow>
          (case rss_round (rs_state s) emit backlog (fd_items f) w1 of
             (Inl e, w2) \<Rightarrow> (Inl e, [], w2)
           | (Inr _, w2) \<Rightarrow> rss_loop net parse s emit n False (bo_reset bo) w2))"

definition rss_subscribe :: "('m cli_scheme) net \<Rightarrow> feed_parser \<Rightarrow> nat \<Rightarrow> rss_session \<Rightarrow> vals \<Rightarrow> ('m cli_scheme) sink \<Rightarrow>
    'm cli_scheme \<Rightarrow> unit res \<times> 'm cli_scheme" where
  "rss_subscribe net parse rounds s params emit w =
     (let ps = with_defaults params rss_trigger_schema
      in case rss_loop net parse s emit rounds (v_bool ps ''include_backlog'') (new_backoff second (300 * second)) w of
           (r, _, w1) \<Rightarrow> (r, w1))"

section \<open>The connector\<close>

definition rss_schema :: schema where
  "rss_schema =
     [(gstr_field ''feed_url'' FieldString ''RSS 2.0, RSS 1.0, Atom, or JSON Feed. e.g. https://news.ycombinator.com/rss'')
        \<lparr>f_label := ''Feed URL'', f_required := True\<rparr>,
      (field ''user_agent'' FieldString)\<lparr>f_label := ''User-Agent header'',
        f_default := Some (GStr ''pantograf/0.1 (+https://github.com/sistemica/pantograf)'')\<rparr>,
      (field ''timeout_seconds'' FieldInt)\<lparr>f_label := ''HTTP timeout (seconds)'', f_default := Some (GInt 30)\<rparr>]"

definition rss_validate :: "('m cli_scheme) net \<Rightarrow> feed_parser \<Rightarrow> credential \<Rightarrow> 'm cli_scheme \<Rightarrow> unit res \<times> 'm cli_scheme" where
  "rss_validate net parse c w =
     (if v_string (cr_values c) ''feed_url'' = [] then (Inl (ErrMsg ''feed_url is required''), w)
      else case fetch_feed net parse (cr_values c) w of
        (Inl e, w1) \<Rightarrow> (Inl e, w1)
      | (Inr f, w1) \<Rightarrow> (Inr (), if fd_title f \<noteq> [] then say (''('' @ fd_title f @ '') '') w1 else w1))"

definition rss_connector :: "('m cli_scheme) net \<Rightarrow> feed_parser \<Rightarrow> nat \<Rightarrow> ('m cli_scheme, rss_session) connector" where
  "rss_connector net parse rounds =
     \<lparr>c_descriptor = \<lparr>d_name = ''rss'', d_display = ''RSS / Atom / JSON Feed'',
        d_description = ''Stateful feed reader. Tracks last-seen item per instance; only surfaces items the consumer hasn''
          @ [CHR 0x27] @ ''t acked.'',
        d_version = ''0.1.0'', d_categories = [''news'', ''feed'']\<rparr>,
      c_credential = \<lparr>cs_kind = AuthNone, cs_schema = rss_schema, cs_presets = [], cs_defaults = (\<lambda>v. v),
        cs_validate = keep_values (rss_validate net parse)\<rparr>,
      c_actions =
        [\<lparr>a_name = ''fetch'', a_display = ''Fetch feed'',
          a_description = ''Fetch and parse the feed. Read-only '' @ em_dash @ '' does NOT advance the watermark.'',
          a_schema = rss_fetch_schema, a_run = rss_fetch net parse\<rparr>,
         \<lparr>a_name = ''list-new'', a_display = ''List new items'',
          a_description = ''Atomic read + advance: returns items above the watermark, then sets the watermark to the newest. ''
            @ ''First call (no watermark) returns [].'',
          a_schema = rss_list_new_schema, a_run = rss_list_new net parse\<rparr>,
         \<lparr>a_name = ''mark-seen'', a_display = ''Mark seen'',
          a_description = ''Set the watermark to a specific id, or to the newest item in the current feed.'',
          a_schema = [gstr_field ''id'' FieldString
            ''Specific item id to set as watermark. Omit to use newest item from current feed.''],
          a_run = rss_mark_seen net parse\<rparr>,
         \<lparr>a_name = ''info'', a_display = ''Connector state info'',
          a_description = ''Report the persisted watermark and last-fetched timestamp without touching the feed.'',
          a_schema = [], a_run = rss_info\<rparr>,
         \<lparr>a_name = ''reset'', a_display = ''Reset watermark'',
          a_description = ''Clear all persisted state. Next list-new starts fresh.'', a_schema = [], a_run = rss_reset\<rparr>],
      c_triggers = [\<lparr>t_name = ''new-items'', t_display = ''New items'',
        t_description = ''Polling trigger. Periodically fetches the feed and emits each new item as an Event. Persists watermark.'',
        t_schema = rss_trigger_schema, t_strategy = TriggerPolling,
        t_subscribe = Some (rss_subscribe net parse rounds), t_webhook = None\<rparr>],
      c_open = (\<lambda>cred root w. (Inr \<lparr>rs_cred = cred, rs_state = root\<rparr>, w)), c_close = (\<lambda>_ w. (Inr (), w))\<rparr>"

section \<open>Lemmas\<close>

text \<open>The sequence of polls of one watermark, without the store: the items emitted, in order.\<close>

fun rss_polls :: "string \<Rightarrow> feed_item list list \<Rightarrow> feed_item list" where
  "rss_polls wm [] = []"
| "rss_polls wm (items # fs) =
     (case diff_items items wm False of
        (fresh, new_wm) \<Rightarrow> rev fresh @ rss_polls (if new_wm \<noteq> [] then new_wm else wm) fs)"

text \<open>
  A publisher that puts news in front: every feed shows the news since the last one and at least
  the newest item shown before. \<open>seen\<close> is all there was so far, newest first.
\<close>

fun grows :: "feed_item list \<Rightarrow> (feed_item list \<times> nat) list \<Rightarrow> bool" where
  "grows seen [] = True"
| "grows seen ((news, n) # fs) = (length news < n \<and> grows (news @ seen) fs)"

fun shown :: "feed_item list \<Rightarrow> (feed_item list \<times> nat) list \<Rightarrow> feed_item list list" where
  "shown seen [] = []"
| "shown seen ((news, n) # fs) = take n (news @ seen) # shown (news @ seen) fs"

lemma takeWhile_news:
  assumes "distinct (map item_id (news @ it # seen))"
  shows "takeWhile (\<lambda>i. item_id i \<noteq> item_id it) (take n (news @ it # seen)) = take n news"
  using assms
proof (induction news arbitrary: n)
  case Nil
  then show ?case by (cases n) simp_all
next
  case (Cons a news)
  then show ?case by (cases n) auto
qed

lemma diff_news:
  assumes "distinct (map item_id (news @ it # seen))" "\<forall>i\<in>set (news @ it # seen). item_id i \<noteq> []" "length news < n"
  shows "diff_items (take n (news @ it # seen)) (item_id it) False = (news, item_id (hd (news @ it # seen)))"
proof (cases news)
  case Nil
  then show ?thesis using assms takeWhile_news [OF assms(1), of n] by (cases n) (simp_all add: diff_items_def)
next
  case (Cons a news')
  obtain m where n: "n = Suc m" using assms(3) by (cases n) simp_all
  have "takeWhile (\<lambda>i. item_id i \<noteq> item_id it) (take n (news @ it # seen)) = news"
    using takeWhile_news [OF assms(1), of n] assms(3) by simp
  then show ?thesis using assms(2) Cons n by (simp add: diff_items_def Let_def)
qed

lemma polls_emit_news:
  assumes "grows seen fs" "seen \<noteq> []" "distinct (map item_id (concat (rev (map fst fs)) @ seen))"
    "\<forall>i\<in>set (concat (rev (map fst fs)) @ seen). item_id i \<noteq> []"
  shows "rss_polls (item_id (hd seen)) (shown seen fs) = concat (map (\<lambda>f. rev (fst f)) fs)"
  using assms
proof (induction fs arbitrary: seen)
  case Nil
  then show ?case by simp
next
  case (Cons f fs)
  obtain news n where f: "f = (news, n)" by fastforce
  obtain it seen' where seen: "seen = it # seen'" using Cons.prems(2) by (cases seen) auto
  have d: "diff_items (take n (news @ seen)) (item_id (hd seen)) False = (news, item_id (hd (news @ seen)))"
    using diff_news [of news it seen' n] Cons.prems f seen by auto
  have "item_id (hd (news @ seen)) \<noteq> []"
    using Cons.prems(4) f seen by (cases news) auto
  moreover have "rss_polls (item_id (hd (news @ seen))) (shown (news @ seen) fs) = concat (map (\<lambda>f. rev (fst f)) fs)"
    using Cons.IH [of "news @ seen"] Cons.prems f by simp
  ultimately show ?case using d f by (simp add: comp_def cong: map_cong)
qed

section \<open>Properties\<close>


definition ex_item :: "string \<Rightarrow> feed_item" where
  "ex_item g = \<lparr>fi_guid = g, fi_link = [], fi_title = [], fi_published = [], fi_published_at = None, fi_updated_at = None,
     fi_description = [], fi_content = [], fi_authors = [], fi_categories = []\<rparr>"


text \<open>An item without guid, link, title and date has no identity: once such an item is the newest of the feed, the
  watermark no longer advances and every poll emits the items above it again.
\<close>

theorem rss_no_identity_repeats:
  assumes "item_id it = []" "wm \<noteq> []"
  shows "rss_polls wm (replicate n (it # items)) =
    concat (replicate n (rev (takeWhile (\<lambda>i. item_id i \<noteq> wm) (it # items))))"
  using assms by (induction n) (simp_all add: diff_items_def Let_def)

theorem rss_no_identity_repeats_witness:
  "rss_polls ''a'' (replicate 2 [ex_item [], ex_item ''b'', ex_item ''a'']) =
     [ex_item ''b'', ex_item [], ex_item ''b'', ex_item []]"
  using rss_no_identity_repeats [of "ex_item []" "''a''" 2 "[ex_item ''b'', ex_item ''a'']"]
  by (simp add: ex_item_def item_id_def numeral_2_eq_2)

lemma save_watermark_loads:
  assumes "store_inv root (c_os w)" "wid \<noteq> []" "save_watermark root wid w = (r, w')"
  shows "r = Inr () \<and> store_inv root (c_os w') \<and>
    (load_watermark root w' = Inr wid \<or> sha256 key_last_seen = sha256 key_last_fetch)"
proof -
  obtain r1 w1 where p1: "st_put root key_last_seen wid w = (r1, w1)" by fastforce
  note f1 = st_put_get [OF assms(1) p1]
  have p2: "st_put root key_last_fetch (json_quote (rfc3339_sec (c_now w1))) w1 = (r, w')"
    using assms(2,3) p1 f1 by (simp add: save_watermark_def)
  note f2 = st_put_get [OF f1 [THEN conjunct2, THEN conjunct1] p2]
  have "st_get root key_last_seen w' = Inr (Some wid)" if "sha256 key_last_seen \<noteq> sha256 key_last_fetch"
    using st_put_other [OF f1 [THEN conjunct2, THEN conjunct1] p2 not_sym [OF that]] f1 by simp
  then show ?thesis using f2 by (auto simp: load_watermark_def)
qed

lemma load_watermark_total: "store_inv root (c_os w) \<Longrightarrow> \<exists>wm. load_watermark root w = Inr wm"
  using fsstore.get_total [of root "c_os w" key_last_seen]
  by (auto simp: load_watermark_def st_get_def split: option.splits)

text \<open>At least once, and no gap: a round of the trigger on a sound store either fails in the sink, and then
  the watermark is what it was, so the items come again; or all fresh items went to the sink and the
  stored watermark is the one \<open>diffItems\<close> computed, or the old one when there is none (the two keys'
  digests colliding aside).
\<close>

theorem rss_round_watermark:
  assumes "store_inv root (c_os w)" "file_neutral emit" "load_watermark root w = Inr wm"
    "rss_round root emit backlog items w = (r, w')" "diff_items items wm backlog = (fresh, new_wm)"
  shows "r = fst (emit_all emit (map (item_event (c_now w)) (rev fresh)) w) \<and> store_inv root (c_os w') \<and>
    (load_watermark root w' = Inr (if isl r \<or> new_wm = [] then wm else new_wm) \<or>
     sha256 key_last_seen = sha256 key_last_fetch)"
proof -
  obtain q w1 where em: "emit_all emit (map (item_event (c_now w)) (rev fresh)) w = (q, w1)" by fastforce
  have os: "c_os w1 = c_os w" using emit_all_os [OF assms(2)] em by (metis snd_conv)
  then have wm1: "load_watermark root w1 = Inr wm" and inv1: "store_inv root (c_os w1)"
    using assms(1,3) by (simp_all add: load_watermark_def st_get_def)
  show ?thesis
  proof (cases q)
    case (Inl e)
    then show ?thesis using assms(3-5) em wm1 inv1 by (auto simp: rss_round_def)
  next
    case (Inr u)
    show ?thesis
    proof (cases "new_wm \<noteq> [] \<and> new_wm \<noteq> wm")
      case True
      obtain r2 w2 where sv: "save_watermark root new_wm w1 = (r2, w2)" by fastforce
      have "r = Inr ()" "w' = w2" using assms(3-5) em Inr True sv by (auto simp: rss_round_def)
      then show ?thesis using save_watermark_loads [OF inv1 _ sv] True em Inr by auto
    next
      case False
      then have "r = Inr ()" "w' = w1" using assms(3-5) em Inr by (auto simp: rss_round_def)
      then show ?thesis using False em Inr wm1 inv1 by auto
    qed
  qed
qed

theorem rss_round_watermark_witness:
  "\<exists>r w'. rss_round (abs_path [''s'', ''rss'', ''news'']) emit_event True [ex_item ''b'', ex_item ''a''] ex_cli = (r, w') \<and>
     store_inv (abs_path [''s'', ''rss'', ''news'']) (c_os w')"
proof -
  let ?root = "abs_path [''s'', ''rss'', ''news'']"
  have inv: "store_inv ?root (c_os ex_cli)" using ex_store_inv by (simp add: ex_cli_def)
  obtain wm where wm: "load_watermark ?root ex_cli = Inr wm" using load_watermark_total [OF inv] by blast
  obtain r w' where r: "rss_round ?root emit_event True [ex_item ''b'', ex_item ''a''] ex_cli = (r, w')" by fastforce
  obtain fresh new_wm where d: "diff_items [ex_item ''b'', ex_item ''a''] wm True = (fresh, new_wm)" by fastforce
  from rss_round_watermark [OF inv emit_event_neutral wm r d] r show ?thesis by blast
qed

end
