(* ===== verification/FileLocal.thy ===== *)
theory FileLocal
  imports ConnBase AtomicWrite
begin

text \<open>
  The local backend of the file connector (\<open>connectors/file/local.go\<close>, \<open>driver.go\<close>): keys and the root,
  the five operations, and the search.

  What the model does not compute is in \<open>file_env\<close>: modification times, the sizes of directories, the
  table of media types, and the compiler of regular expressions (a compiled one is a predicate on
  lines). New files get the mode of the usual umask.
\<close>

section \<open>Data\<close>

record entry =
  e_key :: string
  e_size :: int
  e_modified :: time
  e_is_dir :: bool
  e_ctype :: string
  e_etag :: string

record match =
  mt_key :: string
  mt_line :: int
  mt_text :: string
  mt_before :: "string list"
  mt_after :: "string list"
  mt_offset :: int

record search_opts =
  so_prefix :: string
  so_pattern :: string
  so_include :: string
  so_exclude :: string
  so_max_size :: int
  so_max_matches :: int
  so_before :: int
  so_after :: int
  so_ci :: bool

record search_result =
  sr_matches :: "match list"
  sr_count :: int
  sr_scanned :: int
  sr_skipped :: int

record file_env =
  fe_mtime :: "osys \<Rightarrow> loc \<Rightarrow> time"
  fe_dir_size :: "osys \<Rightarrow> loc \<Rightarrow> int"
  fe_mime :: "string \<Rightarrow> string"
  fe_compile :: "string \<Rightarrow> (string \<Rightarrow> bool) res"

section \<open>Keys\<close>

text \<open>A driver is its absolute root.\<close>

definition new_local_driver :: "osys \<Rightarrow> string \<Rightarrow> string res" where
  "new_local_driver s root =
     (if root = [] then Inl (ErrMsg ''local: root is required'')
      else
        (let abs = path_abs (cwd s) root
         in case os_stat s abs of
              Inl e \<Rightarrow> Inl (ErrWrap ''local: stat root: '' e [])
            | Inr (_, Dir _) \<Rightarrow> Inr abs
            | Inr _ \<Rightarrow> Inl (ErrMsg (''local: root '' @ json_quote abs @ '' is not a directory''))))"

definition resolve_key :: "osys \<Rightarrow> string \<Rightarrow> string \<Rightarrow> string res" where
  "resolve_key s root key =
     (let cl = trim_prefix key ''/''
      in if cl = [] then Inr root
         else
           (let abs = path_abs (cwd s) (path_join [root, cl])
            in case path_rel root abs of
                 Inl e \<Rightarrow> Inl e
               | Inr rel \<Rightarrow>
                   (if rel = ''..'' \<or> prefix ''../'' rel then Inl (ErrMsg (''key '' @ json_quote key @ '' escapes root''))
                    else Inr abs)))"

definition rel_key :: "string \<Rightarrow> string \<Rightarrow> string" where
  "rel_key root ap = (case path_rel root ap of Inl _ \<Rightarrow> [] | Inr rel \<Rightarrow> if rel = ''.'' then [] else rel)"

definition guess_mime :: "file_env \<Rightarrow> string \<Rightarrow> string" where
  "guess_mime fe name =
     (let ext = to_lower (path_ext name)
      in if ext = [] then []
         else if fe_mime fe ext \<noteq> [] then fe_mime fe ext
         else if ext = ''.md'' \<or> ext = ''.markdown'' then ''text/markdown''
         else if ext = ''.yaml'' \<or> ext = ''.yml'' then ''application/yaml''
         else if ext = ''.log'' then ''text/plain''
         else [])"

section \<open>Operations\<close>

definition node_size :: "file_env \<Rightarrow> osys \<Rightarrow> loc \<Rightarrow> node \<Rightarrow> int" where
  "node_size fe s l nd =
     (case nd of Reg _ d \<Rightarrow> int (length d) | Link t \<Rightarrow> int (length t) | Dir _ \<Rightarrow> fe_dir_size fe s l)"

definition node_is_dir :: "node \<Rightarrow> bool" where
  "node_is_dir nd = (case nd of Dir _ \<Rightarrow> True | _ \<Rightarrow> False)"

definition mk_entry :: "file_env \<Rightarrow> osys \<Rightarrow> string \<Rightarrow> string \<Rightarrow> loc \<Rightarrow> node \<Rightarrow> bool \<Rightarrow> entry" where
  "mk_entry fe s key name l nd isdir =
     \<lparr>e_key = key, e_size = node_size fe s l nd, e_modified = fe_mtime fe s l, e_is_dir = isdir,
      e_ctype = guess_mime fe name, e_etag = []\<rparr>"

text \<open>
  \<open>filepath.WalkDir\<close> below a directory: paths with their locations and nodes in the order of the walk,
  which does not follow links. The depth of a tree is bounded by the number of its entries, so
  that number is enough fuel.
\<close>

fun walk_below :: "nat \<Rightarrow> fs \<Rightarrow> string \<Rightarrow> loc \<Rightarrow> (string \<times> loc \<times> node) list" where
  "walk_below 0 f p l = []"
| "walk_below (Suc n) f p l =
     concat (map (\<lambda>(k, nd). (path_join [p, last k], k, nd) #
         (if node_is_dir nd then walk_below n f (path_join [p, last k]) k else []))
       (sort_key (\<lambda>(k, _). last k) (children f l)))"

text \<open>A link as the base of a walk is not entered.\<close>

definition walk_dir :: "osys \<Rightarrow> string \<Rightarrow> (string \<times> loc \<times> node) list" where
  "walk_dir s base =
     (case lresolve s base of
        Inl _ \<Rightarrow> []
      | Inr l \<Rightarrow> (case node_at (files s) l of
                   Some (Dir _) \<Rightarrow> walk_below (length (files s)) (files s) base l
                 | _ \<Rightarrow> []))"

definition take_limit :: "int \<Rightarrow> 'a list \<Rightarrow> 'a list" where
  "take_limit limit xs = (if limit > 0 then take (nat limit) xs else xs)"

definition local_list :: "file_env \<Rightarrow> osys \<Rightarrow> string \<Rightarrow> string \<Rightarrow> bool \<Rightarrow> int \<Rightarrow> entry list res" where
  "local_list fe s root pfx rec limit =
     (case resolve_key s root pfx of
        Inl e \<Rightarrow> Inl e
      | Inr base \<Rightarrow>
          (case os_stat s base of
             Inl e \<Rightarrow> (if is_not_exist e then Inr [] else Inl e)
           | Inr (l, nd) \<Rightarrow>
               (if \<not> node_is_dir nd then Inr [mk_entry fe s (rel_key root base) base l nd False]
                else
                  Inr (sort_key e_key
                    (if rec then
                       take_limit limit
                         (map (\<lambda>(p, k, n). mk_entry fe s (rel_key root p) p k n (node_is_dir n)) (walk_dir s base))
                     else
                       take_limit limit
                         (map (\<lambda>(k, n). mk_entry fe s (rel_key root (path_join [base, last k])) (last k) k n (node_is_dir n))
                           (sort_key (\<lambda>(k, _). last k) (children (files s) l))))))))"

definition local_stat :: "file_env \<Rightarrow> osys \<Rightarrow> string \<Rightarrow> string \<Rightarrow> entry res" where
  "local_stat fe s root key =
     (case resolve_key s root key of
        Inl e \<Rightarrow> Inl e
      | Inr p \<Rightarrow>
          (case os_stat s p of
             Inl e \<Rightarrow> Inl e
           | Inr (l, nd) \<Rightarrow> Inr (mk_entry fe s (rel_key root p) p l nd (node_is_dir nd))))"

text \<open>
  An open file is a reader: a function of the state at the time of the reading, since a source can be
  truncated while it is open. It reads through its path; nothing that is written meanwhile replaces it.
\<close>

type_synonym reader = "osys \<Rightarrow> string res"

definition os_open :: "osys \<Rightarrow> string \<Rightarrow> reader res" where
  "os_open s p = (case os_stat s p of Inl e \<Rightarrow> Inl e | Inr _ \<Rightarrow> Inr (\<lambda>s'. os_read_file s' p))"

definition local_get :: "osys \<Rightarrow> string \<Rightarrow> string \<Rightarrow> reader res" where
  "local_get s root key =
     (case resolve_key s root key of Inl e \<Rightarrow> Inl e | Inr p \<Rightarrow> os_open s p)"

definition local_put :: "file_env \<Rightarrow> osys \<Rightarrow> string \<Rightarrow> string \<Rightarrow> reader \<Rightarrow> entry res \<times> osys" where
  "local_put fe s root key rd =
     (case resolve_key s root key of
        Inl e \<Rightarrow> (Inl e, s)
      | Inr p \<Rightarrow>
          (case os_mkdir_all s (path_dir p) 448 of
             Inl e \<Rightarrow> (Inl e, s)
           | Inr s1 \<Rightarrow>
               (let tmp = p @ ''.tmp''
                in case os_write_file s1 tmp [] 420 of
                     Inl e \<Rightarrow> (Inl e, s1)
                   | Inr s2 \<Rightarrow>
                       (case rd s2 of
                          Inl e \<Rightarrow> (Inl e, case os_remove s2 tmp of Inl _ \<Rightarrow> s2 | Inr s3 \<Rightarrow> s3)
                        | Inr d \<Rightarrow>
                            (case os_write_file s2 tmp d 420 of
                               Inl e \<Rightarrow> (Inl e, case os_remove s2 tmp of Inl _ \<Rightarrow> s2 | Inr s3 \<Rightarrow> s3)
                             | Inr s3 \<Rightarrow>
                                 (case os_rename s3 tmp p of
                                    Inl e \<Rightarrow> (Inl e, s3)
                                  | Inr s4 \<Rightarrow> (local_stat fe s4 root (rel_key root p), s4)))))))"

text \<open>Open and read at once.\<close>

definition read_key :: "osys \<Rightarrow> string \<Rightarrow> string \<Rightarrow> string res" where
  "read_key s root key = (case local_get s root key of Inl e \<Rightarrow> Inl e | Inr rd \<Rightarrow> rd s)"

lemma read_key_path: "resolve_key s root key = Inr p \<Longrightarrow> read_key s root key = os_read_file s p"
  by (simp add: read_key_def local_get_def os_open_def os_read_file_def split: sum.splits)

definition local_delete :: "osys \<Rightarrow> string \<Rightarrow> string \<Rightarrow> unit res \<times> osys" where
  "local_delete s root key =
     (case resolve_key s root key of
        Inl e \<Rightarrow> (Inl e, s)
      | Inr p \<Rightarrow>
          (if p = root then (Inl (ErrMsg ''refusing to delete the backend root''), s)
           else case os_remove s p of
             Inl e \<Rightarrow> (if is_not_exist e then (Inr (), s) else (Inl e, s))
           | Inr s1 \<Rightarrow> (Inr (), s1)))"

section \<open>Search\<close>

text \<open>
  \<open>filepath.Match\<close> on the characters of a name, which are taken as code points of valid UTF-8. A
  malformed pattern matches nothing (its error is ignored by the caller).
\<close>

fun runes :: "string \<Rightarrow> nat list" where
  "runes [] = []"
| "runes (c # cs) =
     (let n = (of_char c :: nat)
      in if n < 128 then n # runes cs
         else if n < 224 then
           (case cs of d # r \<Rightarrow> ((n - 192) * 64 + (of_char d - 128)) # runes r | _ \<Rightarrow> [65533])
         else if n < 240 then
           (case cs of d # e # r \<Rightarrow> ((n - 224) * 4096 + (of_char d - 128) * 64 + (of_char e - 128)) # runes r | _ \<Rightarrow> [65533])
         else
           (case cs of
              d # e # f # r \<Rightarrow>
                ((n - 240) * 262144 + (of_char d - 128) * 4096 + (of_char e - 128) * 64 + (of_char f - 128)) # runes r
            | _ \<Rightarrow> [65533]))"

text \<open>One bound of a range: a character, escaped or not; 45, 93 and 92 are the dash, the bracket and the backslash.\<close>

definition range_char :: "nat list \<Rightarrow> (nat \<times> nat list) option" where
  "range_char p =
     (case p of
        [] \<Rightarrow> None
      | c # r \<Rightarrow>
          if c = 45 \<or> c = 93 then None
          else if c = 92 then (case r of [] \<Rightarrow> None | d # r' \<Rightarrow> if r' = [] then None else Some (d, r'))
          else if r = [] then None else Some (c, r))"

fun class_match :: "nat \<Rightarrow> nat \<Rightarrow> bool \<Rightarrow> bool \<Rightarrow> nat list \<Rightarrow> (bool \<times> nat list) option" where
  "class_match 0 x some hit p = None"
| "class_match (Suc n) x some hit p =
     (if some \<and> p \<noteq> [] \<and> hd p = 93 then Some (hit, tl p)
      else case range_char p of
        None \<Rightarrow> None
      | Some (lo, r) \<Rightarrow>
          (case r of
             d # r' \<Rightarrow>
               if d = 45 then
                 (case range_char r' of
                    None \<Rightarrow> None
                  | Some (hi, r2) \<Rightarrow> class_match n x True (hit \<or> (lo \<le> x \<and> x \<le> hi)) r2)
               else class_match n x True (hit \<or> x = lo) r
           | [] \<Rightarrow> None))"

fun glob_at :: "nat \<Rightarrow> nat list \<Rightarrow> nat list \<Rightarrow> bool" where
  "glob_at 0 p s = False"
| "glob_at (Suc n) p s =
     (case p of
        [] \<Rightarrow> s = []
      | c # r \<Rightarrow>
          if c = 42 then
            glob_at n r s \<or> (case s of [] \<Rightarrow> False | x # s' \<Rightarrow> x \<noteq> 47 \<and> glob_at n p s')
          else (case s of
             [] \<Rightarrow> False
           | x # s' \<Rightarrow>
               if c = 63 then x \<noteq> 47 \<and> glob_at n r s'
               else if c = 91 then
                 (let (neg, r1) = (case r of d # r' \<Rightarrow> if d = 94 then (True, r') else (False, r) | [] \<Rightarrow> (False, r))
                  in case class_match (length r1) x False False r1 of
                       None \<Rightarrow> False
                     | Some (hit, r2) \<Rightarrow> hit \<noteq> neg \<and> glob_at n r2 s')
               else if c = 92 then (case r of [] \<Rightarrow> False | d # r' \<Rightarrow> d = x \<and> glob_at n r' s')
               else c = x \<and> glob_at n r s'))"

definition path_match :: "string \<Rightarrow> string \<Rightarrow> bool" where
  "path_match pat name = glob_at (Suc (length pat + length name)) (runes pat) (runes name)"

definition is_likely_binary :: "string \<Rightarrow> bool" where
  "is_likely_binary b =
     (CHR 0x00 \<in> set b \<or>
      30 < length (filter (\<lambda>c. let n = (of_char c :: nat) in n < 9 \<or> (13 < n \<and> n < 32)) b) * 100 div length b)"

text \<open>
  \<open>bufio.Scanner\<close> with lines of at most a mebibyte: the lines before the first that is too long, and whether
  there is one. The end-of-line is a line feed with an optional carriage return before it.
\<close>

definition strip_cr :: "string \<Rightarrow> string" where
  "strip_cr l = (if l \<noteq> [] \<and> last l = CHR 0x0D then butlast l else l)"

definition max_token :: nat where "max_token = 1048576"

definition scan_text :: "string \<Rightarrow> string list \<times> bool" where
  "scan_text d =
     (let raw = split_on (CHR 0x0A) d;
          ls = (if last raw = [] then butlast raw else raw);
          ok = takeWhile (\<lambda>l. length l < max_token) ls
      in (map strip_cr ok, length ok < length ls))"

text \<open>The state of the loop over the lines.\<close>

record scan_state =
  ss_matches :: "match list"
  ss_buf :: "string list"
  ss_queued :: "match list"
  ss_offset :: int
  ss_line :: int

definition drain_queue :: "int \<Rightarrow> string \<Rightarrow> scan_state \<Rightarrow> scan_state" where
  "drain_queue after line st =
     (let q = map (\<lambda>m. m\<lparr>mt_after := mt_after m @ [line]\<rparr>) (ss_queued st);
          ready = filter (\<lambda>m. int (length (mt_after m)) \<ge> after) q
      in st\<lparr>ss_matches := ss_matches st @ ready, ss_queued := filter (\<lambda>m. int (length (mt_after m)) < after) q\<rparr>)"

definition add_match :: "string \<Rightarrow> search_opts \<Rightarrow> string \<Rightarrow> scan_state \<Rightarrow> scan_state" where
  "add_match key opts line st =
     (let m = \<lparr>mt_key = key, mt_line = ss_line st, mt_text = line,
          mt_before = (if so_before opts > 0 then ss_buf st else []), mt_after = [], mt_offset = ss_offset st\<rparr>
      in if so_after opts > 0 then st\<lparr>ss_queued := ss_queued st @ [m]\<rparr> else st\<lparr>ss_matches := ss_matches st @ [m]\<rparr>)"

definition next_line :: "search_opts \<Rightarrow> string \<Rightarrow> scan_state \<Rightarrow> scan_state" where
  "next_line opts line st =
     (let b = (if so_before opts > 0 then
                 (if int (length (ss_buf st)) = so_before opts then tl (ss_buf st) else ss_buf st) @ [line]
               else ss_buf st)
      in st\<lparr>ss_buf := b, ss_offset := ss_offset st + int (length line) + 1\<rparr>)"

fun scan_lines :: "string \<Rightarrow> (string \<Rightarrow> bool) \<Rightarrow> search_opts \<Rightarrow> string list \<Rightarrow> scan_state \<Rightarrow> scan_state" where
  "scan_lines key re opts [] st = st"
| "scan_lines key re opts (line # ls) st =
     (let st1 = drain_queue (so_after opts) line (st\<lparr>ss_line := ss_line st + 1\<rparr>)
      in if re line then
           (let st2 = add_match key opts line st1
            in if so_max_matches opts > 0 \<and> int (length (ss_matches st2) + length (ss_queued st2)) \<ge> so_max_matches opts
               then st2
               else scan_lines key re opts ls (next_line opts line st2))
         else scan_lines key re opts ls (next_line opts line st1))"

text \<open>
  \<open>scanFile\<close>: matches and whether the file was scanned. The caller drops the matches of a file with a line
  that is too long, as it does on every error; a loop left at the match limit never reads that far.
\<close>

definition reads_on :: "(string \<Rightarrow> bool) \<Rightarrow> search_opts \<Rightarrow> string list \<Rightarrow> bool" where
  "reads_on re opts ls = (so_max_matches opts \<le> 0 \<or> int (length (filter re ls)) < so_max_matches opts)"

definition scan_file :: "osys \<Rightarrow> string \<Rightarrow> string \<Rightarrow> (string \<Rightarrow> bool) \<Rightarrow> search_opts \<Rightarrow> (match list \<times> bool) res" where
  "scan_file s path key re opts =
     (case os_read_file s path of
        Inl e \<Rightarrow> Inl e
      | Inr d \<Rightarrow>
          (let peek = take 512 d
           in if peek \<noteq> [] \<and> is_likely_binary peek then Inr ([], False)
              else
                (let (ls, too_long) = scan_text d;
                     st = scan_lines key re opts ls \<lparr>ss_matches = [], ss_buf = [], ss_queued = [], ss_offset = 0, ss_line = 0\<rparr>
                 in if too_long \<and> reads_on re opts ls then Inl (ErrMsg ''bufio.Scanner: token too long'')
                    else Inr (ss_matches st @ ss_queued st, True))))"

fun search_files :: "osys \<Rightarrow> string \<Rightarrow> (string \<Rightarrow> bool) \<Rightarrow> search_opts \<Rightarrow> string list \<Rightarrow> search_result \<Rightarrow> search_result" where
  "search_files s root re opts [] r = r"
| "search_files s root re opts (fp # fps) r =
     (if so_max_matches opts > 0 \<and> sr_count r \<ge> so_max_matches opts then r
      else case scan_file s fp (rel_key root fp) re opts of
        Inl _ \<Rightarrow> search_files s root re opts fps (r\<lparr>sr_skipped := sr_skipped r + 1\<rparr>)
      | Inr (ms, scanned) \<Rightarrow>
          (if \<not> scanned then search_files s root re opts fps (r\<lparr>sr_skipped := sr_skipped r + 1\<rparr>)
           else
             (let room = take_limit (so_max_matches opts - sr_count r) ms;
                  kept = (if so_max_matches opts > 0 then room else ms)
              in search_files s root re opts fps
                   (r\<lparr>sr_matches := sr_matches r @ kept, sr_count := sr_count r + int (length kept),
                      sr_scanned := sr_scanned r + 1\<rparr>))))"

definition search_wanted :: "search_opts \<Rightarrow> string \<Rightarrow> int \<Rightarrow> bool" where
  "search_wanted opts name sz =
     ((so_include opts = [] \<or> path_match (so_include opts) name) \<and>
      (so_exclude opts = [] \<or> \<not> path_match (so_exclude opts) name) \<and>
      \<not> (so_max_size opts > 0 \<and> sz > so_max_size opts))"

definition local_search :: "file_env \<Rightarrow> osys \<Rightarrow> string \<Rightarrow> search_opts \<Rightarrow> search_result res" where
  "local_search fe s root opts =
     (let empty = \<lparr>sr_matches = [], sr_count = 0, sr_scanned = 0, sr_skipped = 0\<rparr>
      in if so_pattern opts = [] then Inl (ErrMsg ''search: pattern is required'')
         else case fe_compile fe ((if so_ci opts then ''(?i)'' else []) @ so_pattern opts) of
           Inl e \<Rightarrow> Inl (ErrWrap ''compile pattern: '' e [])
         | Inr re \<Rightarrow>
             (case resolve_key s root (so_prefix opts) of
                Inl e \<Rightarrow> Inl e
              | Inr base \<Rightarrow>
                  (case os_stat s base of
                     Inl e \<Rightarrow> (if is_not_exist e then Inr empty else Inl e)
                   | Inr (l, nd) \<Rightarrow>
                       (if node_is_dir nd then
                          (let fs = filter (\<lambda>(p, k, n). \<not> node_is_dir n) (walk_dir s base);
                               (keep, skip) = partition (\<lambda>(p, k, n). search_wanted opts (last k) (node_size fe s k n)) fs
                           in Inr (search_files s root re opts (map fst keep) (empty\<lparr>sr_skipped := int (length skip)\<rparr>)))
                        else Inr (search_files s root re opts [base] empty)))))"

section \<open>Keys stay below the root\<close>

lemma resolve_key_rooted:
  assumes "rooted root rl"
  shows "resolve_key s root key =
    (let cs = clean_stack True [] (rl @ raw_comps (trim_prefix key ''/''))
     in if trim_prefix key ''/'' = [] then Inr root
        else if prefix rl cs then Inr (abs_path cs) else Inl (ErrMsg (''key '' @ json_quote key @ '' escapes root'')))"
proof (cases "trim_prefix key ''/'' = []")
  case True
  then show ?thesis by (simp add: resolve_key_def Let_def)
next
  case False
  let ?k = "trim_prefix key ''/''"
  let ?cs = "clean_stack True [] (rl @ raw_comps ?k)"
  have root: "root = abs_path rl" and rl: "\<forall>c\<in>set rl. ok_comp c" using assms by (auto simp: rooted_def)
  have cs: "\<forall>c\<in>set ?cs. ok_comp c"
    by (rule clean_stack_ok) (use rl raw_comps_like in \<open>auto simp: ok_comp_like\<close>)
  have "path_join [root, ?k] = abs_path ?cs"
    using path_join_abs [of root "[?k]"] root rl by (simp add: raw_comps_abs_path ok_comp_like)
  then have abs: "path_abs (cwd s) (path_join [root, ?k]) = abs_path ?cs"
    using clean_abs_path [OF cs] by (simp add: path_abs_def)
  obtain rel where rel: "path_rel root (abs_path ?cs) = Inr rel"
    using path_rel_abs [OF rl cs] root by auto
  have esc: "(rel = ''..'' \<or> prefix ''../'' rel) \<longleftrightarrow> \<not> prefix rl ?cs"
    using rel_escapes_iff [OF rl cs] rel root by simp
  have "resolve_key s root key =
      (if rel = ''..'' \<or> prefix ''../'' rel then Inl (ErrMsg (''key '' @ json_quote key @ '' escapes root''))
       else Inr (abs_path ?cs))"
    unfolding resolve_key_def Let_def abs rel using False by simp
  then show ?thesis unfolding esc using False by (simp add: Let_def)
qed

lemma rel_key_below:
  assumes "rooted root rl" "\<forall>c\<in>set cs. ok_comp c" "cs \<noteq> []"
  shows "rel_key root (abs_path (rl @ cs)) = join_slash cs"
proof -
  have rl: "root = abs_path rl" "\<forall>c\<in>set rl. ok_comp c" using assms(1) by (auto simp: rooted_def)
  have ok: "\<forall>c\<in>set (rl @ cs). ok_comp c" using rl assms(2) by auto
  have sc: "strip_common rl (rl @ cs) = ([], cs)" by (induction rl) simp_all
  have ne: "join_slash cs \<noteq> ''.''"
  proof
    assume "join_slash cs = ''.''"
    then have "raw_comps (join_slash cs) = []" by (simp add: raw_comps_def)
    then show False using raw_comps_join [of cs] assms(2,3) by (simp add: ok_comp_like)
  qed
  show ?thesis using path_rel_abs [OF rl(2) ok] rl sc assms(3) ne by (simp add: rel_key_def)
qed

lemma resolve_key_plain:
  assumes "rooted root rl" "\<forall>c\<in>set cs. ok_comp c" "cs \<noteq> []"
  shows "resolve_key s root (join_slash cs) = Inr (abs_path (rl @ cs))"
proof -
  obtain c ds where c: "cs = c # ds" using assms(3) by (cases cs) auto
  then obtain x xs where x: "c = x # xs" "x \<noteq> CHR ''/''" using assms(2) by (cases c) (auto simp: ok_comp_def)
  have "\<exists>ys. join_slash cs = x # ys" using c x by (cases ds) (auto simp: join_slash_def)
  then have t: "trim_prefix (join_slash cs) ''/'' = join_slash cs" "join_slash cs \<noteq> []"
    using x by (auto simp: trim_prefix_def)
  have "\<forall>c\<in>set (rl @ cs). c \<noteq> ''..''" using assms(1,2) by (auto simp: rooted_def ok_comp_def)
  then have "clean_stack True [] (rl @ cs) = rl @ cs" by (simp add: clean_stack_plain)
  then show ?thesis
    using resolve_key_rooted [OF assms(1)] t raw_comps_join [of cs] assms(2) by (simp add: ok_comp_like)
qed

section \<open>The effect of a put\<close>

definition tmp_loc :: "loc \<Rightarrow> loc" where
  "tmp_loc l = butlast l @ [last l @ ''.tmp'']"

lemma tmp_loc_path: "l \<noteq> [] \<Longrightarrow> abs_path l @ ''.tmp'' = abs_path (tmp_loc l)"
  unfolding tmp_loc_def abs_path_snoc using abs_path_snoc [of "butlast l" "last l"] by simp

lemma tmp_comp_ok: "ok_comp c \<Longrightarrow> ok_comp (c @ ''.tmp'')"
  by (auto simp: ok_comp_def append_eq_Cons_conv)

lemma tmp_loc_simps [simp]: "tmp_loc l \<noteq> []" "butlast (tmp_loc l) = butlast l"
  by (simp_all add: tmp_loc_def)

lemma tmp_loc_neq: "l \<noteq> [] \<Longrightarrow> tmp_loc l \<noteq> l"
  unfolding tmp_loc_def by (metis append_butlast_last_id append_self_conv last_snoc list.distinct(1))

lemma tmp_loc_ok: "l \<noteq> [] \<Longrightarrow> \<forall>c\<in>set l. ok_comp c \<Longrightarrow> \<forall>c\<in>set (tmp_loc l). ok_comp c"
  by (auto simp: tmp_loc_def tmp_comp_ok dest: in_set_butlastD)

lemma not_prefix_butlast: "l \<noteq> [] \<Longrightarrow> \<not> prefix l (butlast l)"
proof
  assume "l \<noteq> []" "prefix l (butlast l)"
  then have "length l \<le> length (butlast l)" by (rule_tac prefix_length_le)
  moreover have "length (butlast l) < length l" using \<open>l \<noteq> []\<close> by (simp only: length_butlast) (cases l, simp_all)
  ultimately show False by (metis not_le)
qed

text \<open>The locations a put needs free.\<close>

definition can_put :: "fs \<Rightarrow> loc \<Rightarrow> bool" where
  "can_put f l = (plain_fs f \<and> dir_free f (butlast l) \<and> \<not> is_dir f l \<and> \<not> is_dir f (tmp_loc l))"

lemma local_put_effect:
  assumes root: "rooted root rl" and cs: "\<forall>c\<in>set cs. ok_comp c" "cs \<noteq> []"
    and key: "resolve_key s root key = Inr (abs_path (rl @ cs))" and free: "can_put (files s) (rl @ cs)"
  obtains e g where "local_put fe s root key (\<lambda>_. Inr d) = (Inr e, s\<lparr>files := g\<rparr>)" "plain_fs g"
    "e_key e = join_slash cs" "e_size e = int (length d)"
    "\<And>q. node_at g q = (if q = rl @ cs then Some (Reg (new_mode (files s) (tmp_loc (rl @ cs)) 420) d)
       else if q = tmp_loc (rl @ cs) then None
       else if node_at (files s) q = None \<and> prefix q (rl @ butlast cs) then Some (Dir 448) else node_at (files s) q)"
proof -
  let ?l = "rl @ cs" and ?t = "tmp_loc (rl @ cs)"
  have ok: "\<forall>c\<in>set ?l. ok_comp c" "?l \<noteq> []" using root cs by (auto simp: rooted_def)
  have okt: "\<forall>c\<in>set ?t. ok_comp c" by (rule tmp_loc_ok [OF ok(2,1)])
  have bl: "butlast ?l = rl @ butlast cs" using cs(2) by (simp add: butlast_append)
  have okb: "\<forall>c\<in>set (butlast ?l). ok_comp c" using ok by (meson in_set_butlastD)
  have dir: "path_dir (abs_path ?l) = abs_path (butlast ?l)"
  proof -
    have "ok_comp (last ?l)" using ok last_in_set by blast
    from path_dir_abs [OF okb this] show ?thesis using ok(2) by (simp del: last_append last_appendR)
  qed
  obtain f where f: "os_mkdir_all s (abs_path (butlast ?l)) 448 = Inr (s\<lparr>files := f\<rparr>)" "plain_fs f" "is_dir f (butlast ?l)"
    "\<And>q. node_at f q = (if node_at (files s) q = None \<and> prefix q (butlast ?l) then Some (Dir 448) else node_at (files s) q)"
    "\<And>q. is_dir f q = (prefix q (butlast ?l) \<or> is_dir (files s) q)"
    by (rule mkdir_effect [of s "butlast ?l" 448]) (use free okb in \<open>auto simp: can_put_def\<close>)
  have nd: "\<not> prefix ?l (butlast ?l)" "\<not> prefix ?t (butlast ?l)"
    using not_prefix_butlast [OF ok(2)] not_prefix_butlast [of ?t] by simp_all
  have dirs: "is_dir f (butlast ?t)" "\<not> is_dir f ?t" "\<not> is_dir f ?l"
    using f(3,5) nd free by (auto simp: can_put_def)
  obtain f1 where f1: "os_write_file (s\<lparr>files := f\<rparr>) (abs_path ?t) [] 420 = Inr (s\<lparr>files := f1\<rparr>)" "plain_fs f1"
    "\<And>q. node_at f1 q = (if q = ?t then Some (Reg (new_mode f ?t 420) []) else node_at f q)"
    "\<And>q. is_dir f1 q = is_dir f q"
    by (rule write_effect [of "s\<lparr>files := f\<rparr>" ?t "[]" 420]) (use f okt dirs in auto)
  obtain f2 g where g: "os_write_file (s\<lparr>files := f1\<rparr>) (abs_path ?t) d 420 = Inr (s\<lparr>files := f2\<rparr>)"
    "os_rename (s\<lparr>files := f2\<rparr>) (abs_path ?t) (abs_path ?l) = Inr (s\<lparr>files := g\<rparr>)"
    "plain_fs g"
    "\<And>q. node_at g q = (if q = ?l then Some (Reg (new_mode f1 ?t 420) d) else if q = ?t then None else node_at f1 q)"
    by (rule replace_effect [of "s\<lparr>files := f1\<rparr>" ?t ?l d 420])
      (use f1 f(3) ok okt dirs tmp_loc_neq [OF ok(2)] in auto)
  have mode: "new_mode f1 ?t 420 = new_mode (files s) ?t 420"
    using f(4) [of ?t] f1(3) [of ?t] nd by (simp add: new_mode_def)
  have at: "node_at g ?l = Some (Reg (new_mode f1 ?t 420) d)" using g(4) by simp
  have rk: "rel_key root (abs_path ?l) = join_slash cs" by (rule rel_key_below [OF root cs])
  have st: "os_stat (s\<lparr>files := g\<rparr>) (abs_path ?l) = Inr (?l, Reg (new_mode f1 ?t 420) d)"
    using resolve_there [of "s\<lparr>files := g\<rparr>" ?l] g(3) ok at by (simp add: os_stat_def)
  obtain e where e: "local_stat fe (s\<lparr>files := g\<rparr>) root (join_slash cs) = Inr e" "e_key e = join_slash cs"
      "e_size e = int (length d)"
    using st rk by (simp add: local_stat_def resolve_key_plain [OF root cs] mk_entry_def node_size_def)
  have "local_put fe s root key (\<lambda>_. Inr d) = (Inr e, s\<lparr>files := g\<rparr>)"
    using key f(1) f1(1) g(1,2) e(1) rk by (simp add: local_put_def dir tmp_loc_path [OF ok(2)] Let_def)
  then show thesis
    by (rule that) (use g e f(4) f1(3) mode bl in auto)
qed

section \<open>The search against its specification\<close>

text \<open>What the \<open>i\<close>-th line of a file contributes when it matches.\<close>

definition line_match :: "string \<Rightarrow> nat \<Rightarrow> nat \<Rightarrow> string list \<Rightarrow> nat \<Rightarrow> match" where
  "line_match key b a ls i =
     \<lparr>mt_key = key, mt_line = int i + 1, mt_text = ls ! i, mt_before = drop (i - b) (take i ls),
      mt_after = take a (drop (Suc i) ls), mt_offset = (\<Sum>l\<leftarrow>take i ls. int (length l) + 1)\<rparr>"

definition grep :: "string \<Rightarrow> (string \<Rightarrow> bool) \<Rightarrow> nat \<Rightarrow> nat \<Rightarrow> string list \<Rightarrow> nat list \<Rightarrow> match list" where
  "grep key re b a ls is = map (line_match key b a ls) (filter (\<lambda>i. re (ls ! i)) is)"

definition scan_inv :: "string \<Rightarrow> (string \<Rightarrow> bool) \<Rightarrow> nat \<Rightarrow> nat \<Rightarrow> string list \<Rightarrow> scan_state \<Rightarrow> bool" where
  "scan_inv key re b a xs st =
     (ss_line st = int (length xs) \<and> ss_offset st = (\<Sum>l\<leftarrow>xs. int (length l) + 1) \<and>
      ss_buf st = drop (length xs - b) xs \<and>
      ss_matches st = grep key re b a xs [0..<length xs - a] \<and>
      ss_queued st = grep key re b a xs [length xs - a..<length xs])"

lemma grep_append:
  "grep key re b a ls (is @ js) = grep key re b a ls is @ grep key re b a ls js"
  by (simp add: grep_def)

lemma line_match_snoc_done:
  "i + a < length xs \<Longrightarrow> line_match key b a (xs @ [l]) i = line_match key b a xs i"
  by (simp add: line_match_def nth_append take_append)

lemma line_match_snoc_open:
  "i < length xs \<Longrightarrow> length xs \<le> i + a \<Longrightarrow>
   line_match key b a (xs @ [l]) i = (line_match key b a xs i)\<lparr>mt_after := mt_after (line_match key b a xs i) @ [l]\<rparr>"
  by (simp add: line_match_def nth_append take_append)

lemma grep_snoc_done:
  assumes "\<forall>i\<in>set is. i + a < length xs"
  shows "grep key re b a (xs @ [l]) is = grep key re b a xs is"
  using assms by (induction "is") (auto simp: grep_def nth_append line_match_snoc_done)

lemma grep_snoc_open:
  assumes "\<forall>i\<in>set is. i < length xs \<and> length xs \<le> i + a"
  shows "grep key re b a (xs @ [l]) is = map (\<lambda>m. m\<lparr>mt_after := mt_after m @ [l]\<rparr>) (grep key re b a xs is)"
  using assms by (induction "is") (auto simp: grep_def nth_append line_match_snoc_open)

lemma filter_complete:
  fixes n a :: nat
  defines "m \<equiv> min n (Suc n - a)"
  shows "filter (\<lambda>i. i + a \<le> n) [n - a..<n] = [n - a..<m]" "filter (\<lambda>i. \<not> i + a \<le> n) [n - a..<n] = [m..<n]"
proof -
  have "n - a \<le> m" "m \<le> n" by (auto simp: m_def)
  then have u: "[n - a..<n] = [n - a..<m] @ [m..<n]" by (metis le_Suc_ex upt_add_eq_append)
  have t: "\<forall>i\<in>set [n - a..<m]. i + a \<le> n" "\<forall>i\<in>set [m..<n]. \<not> i + a \<le> n" by (auto simp: m_def)
  show "filter (\<lambda>i. i + a \<le> n) [n - a..<n] = [n - a..<m]" using t unfolding u by (simp add: filter_id_conv)
  show "filter (\<lambda>i. \<not> i + a \<le> n) [n - a..<n] = [m..<n]" using t unfolding u by (simp add: filter_id_conv)
qed

lemma filter_grep: "(\<And>i. i \<in> set is \<Longrightarrow> P (line_match key b a ls i) \<longleftrightarrow> Q i) \<Longrightarrow>
    filter P (grep key re b a ls is) = grep key re b a ls (filter Q is)"
  by (induction "is") (auto simp: grep_def)

text \<open>The context of the open matches grows by the line, the complete ones leave the queue.\<close>

lemma drain_inv:
  fixes xs :: "string list" and a :: nat
  defines "m \<equiv> min (length xs) (Suc (length xs) - a)"
  assumes "scan_inv key re b a xs st"
  shows "drain_queue (int a) line st = st\<lparr>ss_matches := grep key re b a (xs @ [line]) [0..<m],
      ss_queued := grep key re b a (xs @ [line]) [m..<length xs]\<rparr>"
proof -
  let ?n = "length xs" and ?ys = "xs @ [line]"
  have q: "map (\<lambda>m. m\<lparr>mt_after := mt_after m @ [line]\<rparr>) (ss_queued st) = grep key re b a ?ys [?n - a..<?n]"
    using assms(2) by (subst grep_snoc_open) (auto simp: scan_inv_def)
  have ms: "ss_matches st = grep key re b a ?ys [0..<?n - a]"
    using assms(2) by (subst grep_snoc_done) (auto simp: scan_inv_def)
  have len: "int (length (mt_after (line_match key b a ?ys i))) \<ge> int a \<longleftrightarrow> i + a \<le> ?n" if "i \<in> set [?n - a..<?n]" for i
    using that by (auto simp: line_match_def)
  have "filter (\<lambda>m. int (length (mt_after m)) \<ge> int a) (grep key re b a ?ys [?n - a..<?n]) =
      grep key re b a ?ys (filter (\<lambda>i. i + a \<le> ?n) [?n - a..<?n])"
    by (rule filter_grep) (use len in force)
  then have f1: "filter (\<lambda>m. int (length (mt_after m)) \<ge> int a) (grep key re b a ?ys [?n - a..<?n]) = grep key re b a ?ys [?n - a..<m]"
    using filter_complete(1) [of a ?n] by (simp add: m_def)
  have "filter (\<lambda>m. int (length (mt_after m)) < int a) (grep key re b a ?ys [?n - a..<?n]) =
      grep key re b a ?ys (filter (\<lambda>i. \<not> i + a \<le> ?n) [?n - a..<?n])"
    by (rule filter_grep) (use len in force)
  then have f2: "filter (\<lambda>m. int (length (mt_after m)) < int a) (grep key re b a ?ys [?n - a..<?n]) = grep key re b a ?ys [m..<?n]"
    using filter_complete(2) [of a ?n] by (simp add: m_def)
  have "?n - a \<le> m" by (auto simp: m_def)
  then have "[0..<m] = [0..<?n - a] @ [?n - a..<m]"
    using upt_add_eq_append [of 0 "?n - a" "m - (?n - a)"] by simp
  then have "grep key re b a ?ys [0..<?n - a] @ grep key re b a ?ys [?n - a..<m] = grep key re b a ?ys [0..<m]"
    by (simp add: grep_append)
  then show ?thesis unfolding drain_queue_def Let_def q f1 f2 ms by simp
qed

definition scan_step :: "string \<Rightarrow> (string \<Rightarrow> bool) \<Rightarrow> search_opts \<Rightarrow> string \<Rightarrow> scan_state \<Rightarrow> scan_state" where
  "scan_step key re opts line st =
     (let st1 = drain_queue (so_after opts) line (st\<lparr>ss_line := ss_line st + 1\<rparr>)
      in next_line opts line (if re line then add_match key opts line st1 else st1))"

lemma next_buf:
  "(if int b > 0 then (if int (length (drop (length xs - b) xs)) = int b then tl (drop (length xs - b) xs)
      else drop (length xs - b) xs) @ [line] else drop (length xs - b) xs)
   = drop (Suc (length xs) - b) (xs @ [line])"
  by (cases "b \<le> length xs") (auto simp: drop_Suc tl_drop Suc_diff_le not_le)

lemma scan_step_inv:
  assumes inv: "scan_inv key re b a xs st" and opts: "so_before opts = int b" "so_after opts = int a"
  shows "scan_inv key re b a (xs @ [line]) (scan_step key re opts line st)"
proof -
  let ?n = "length xs" and ?ys = "xs @ [line]"
  let ?m = "min ?n (Suc ?n - a)"
  let ?st0 = "st\<lparr>ss_line := ss_line st + 1\<rparr>"
  have comm: "drain_queue (int a) line ?st0 = (drain_queue (int a) line st)\<lparr>ss_line := ss_line st + 1\<rparr>"
    by (simp add: drain_queue_def Let_def)
  have d: "drain_queue (int a) line ?st0 = ?st0\<lparr>ss_matches := grep key re b a ?ys [0..<?m], ss_queued := grep key re b a ?ys [?m..<?n]\<rparr>"
    unfolding comm drain_inv [OF inv] by simp
  have mt: "\<lparr>mt_key = key, mt_line = int ?n + 1, mt_text = line,
      mt_before = (if int b > 0 then drop (?n - b) xs else []), mt_after = [],
      mt_offset = (\<Sum>l\<leftarrow>xs. int (length l) + 1)\<rparr> = line_match key b a ?ys ?n"
    by (simp add: line_match_def)
  have ls: "ss_line st = int ?n" "ss_offset st = (\<Sum>l\<leftarrow>xs. int (length l) + 1)" "ss_buf st = drop (?n - b) xs"
    using inv by (auto simp: scan_inv_def)
  let ?st1 = "if re line then add_match key opts line (drain_queue (int a) line ?st0) else drain_queue (int a) line ?st0"
  have add: "ss_matches ?st1 = grep key re b a ?ys [0..<Suc ?n - a] \<and> ss_queued ?st1 = grep key re b a ?ys [Suc ?n - a..<Suc ?n]
      \<and> ss_buf ?st1 = ss_buf st \<and> ss_offset ?st1 = ss_offset st \<and> ss_line ?st1 = int ?n + 1"
  proof (cases "a = 0")
    case True
    then have "?m = ?n" by simp
    then show ?thesis using True opts ls mt unfolding d add_match_def Let_def
      by (auto simp: grep_append) (auto simp: grep_def)
  next
    case False
    then have "?m = Suc ?n - a" by auto
    then show ?thesis using False opts ls mt unfolding d add_match_def Let_def
      by (auto simp: grep_append) (auto simp: grep_def)
  qed
  obtain st1 where st1: "?st1 = st1" by simp
  have step: "scan_step key re opts line st = next_line opts line st1"
    using opts st1 by (simp add: scan_step_def Let_def)
  show ?thesis
    using add opts ls next_buf [of b xs line] unfolding step scan_inv_def st1
    by (auto simp: next_line_def Let_def)
qed

lemma scan_lines_inv:
  assumes "so_max_matches opts \<le> 0" "so_before opts = int b" "so_after opts = int a" "scan_inv key re b a xs st"
  shows "scan_inv key re b a (xs @ ls) (scan_lines key re opts ls st)"
  using assms(4)
proof (induction ls arbitrary: xs st)
  case Nil
  then show ?case by simp
next
  case (Cons line ls)
  have "scan_lines key re opts (line # ls) st = scan_lines key re opts ls (scan_step key re opts line st)"
    using assms(1) by (simp add: scan_step_def Let_def)
  then show ?case
    using Cons.IH [OF scan_step_inv [OF Cons.prems assms(2,3), of line]] by simp
qed

section \<open>Properties\<close>


definition ex_env :: file_env where
  "ex_env = \<lparr>fe_mtime = (\<lambda>_ _. 0), fe_dir_size = (\<lambda>_ _. 4096), fe_mime = (\<lambda>_. []), fe_compile = (\<lambda>_. Inl (ErrMsg ''regexp''))\<rparr>"

definition ex_file_os :: osys where
  "ex_file_os = \<lparr>files = [([''d''], Dir 493), ([''d'', ''f''], Reg 420 (''a'' @ nl @ ''xb'' @ nl @ ''c''))], cwd = ''/'',
     getenv = (\<lambda>_. []), home_dir = None\<rparr>"

definition ex_opts :: search_opts where
  "ex_opts = \<lparr>so_prefix = [], so_pattern = ''x'', so_include = [], so_exclude = [], so_max_size = 0, so_max_matches = 0,
     so_before = 1, so_after = 2, so_ci = False\<rparr>"


text \<open>C24.
  Keys stay below the root: a key resolves exactly if its components, read from the root with every
  dot-dot undone, do not leave the root, and then to that location; every other key is refused.
\<close>

theorem key_stays_below_root:
  assumes "rooted root rl" "cs = clean_stack True [] (rl @ raw_comps (trim_prefix key ''/''))"
  shows "(case resolve_key s root key of
      Inr p \<Rightarrow> p = abs_path cs \<and> prefix rl cs
    | Inl _ \<Rightarrow> \<not> prefix rl cs)"
proof -
  have "\<forall>c\<in>set rl. c \<noteq> ''..''" using assms(1) by (auto simp: rooted_def ok_comp_def)
  then have "cs = rl" if "trim_prefix key ''/'' = []" using that assms(2) by (simp add: clean_stack_plain)
  then show ?thesis
    using resolve_key_rooted [OF assms(1), of s key] assms by (auto simp: Let_def rooted_def)
qed

lemma ex_rooted: "rooted ''/d'' [''d'']"
  by (simp add: rooted_def abs_path_def join_slash_def ok_comp_def)

theorem key_stays_below_root_witness:
  "(case resolve_key ex_file_os ''/d'' ''../etc'' of Inr p \<Rightarrow> False | Inl _ \<Rightarrow> True)"
proof -
  have cs: "clean_stack True [] ([''d''] @ raw_comps (trim_prefix ''../etc'' ''/'')) = [''etc'']" by code_simp
  from key_stays_below_root [OF ex_rooted refl, where s = ex_file_os and key = "''../etc''"] show ?thesis
    unfolding cs by (auto split: sum.splits)
qed

lemma resolve_key_files: "resolve_key (s\<lparr>files := g\<rparr>) = resolve_key s"
  by (simp add: resolve_key_def Let_def fun_eq_iff)

text \<open>What a put leaves behind, in one piece.\<close>

lemma put_then_read:
  assumes "rooted root rl" "\<forall>c\<in>set cs. ok_comp c" "cs \<noteq> []"
    "resolve_key s root key = Inr (abs_path (rl @ cs))" "can_put (files s) (rl @ cs)"
  obtains e g where "local_put fe s root key (\<lambda>_. Inr d) = (Inr e, s\<lparr>files := g\<rparr>)"
    "e_key e = join_slash cs" "e_size e = int (length d)" "read_key (s\<lparr>files := g\<rparr>) root key = Inr d"
    "resolve_key (s\<lparr>files := g\<rparr>) root key = Inr (abs_path (rl @ cs))"
    "\<And>q. node_at g q = (if q = rl @ cs then Some (Reg (new_mode (files s) (tmp_loc (rl @ cs)) 420) d)
       else if q = tmp_loc (rl @ cs) then None
       else if node_at (files s) q = None \<and> prefix q (rl @ butlast cs) then Some (Dir 448) else node_at (files s) q)"
proof -
  obtain e g where eg: "local_put fe s root key (\<lambda>_. Inr d) = (Inr e, s\<lparr>files := g\<rparr>)" "plain_fs g"
    "e_key e = join_slash cs" "e_size e = int (length d)"
    "\<And>q. node_at g q = (if q = rl @ cs then Some (Reg (new_mode (files s) (tmp_loc (rl @ cs)) 420) d)
       else if q = tmp_loc (rl @ cs) then None
       else if node_at (files s) q = None \<and> prefix q (rl @ butlast cs) then Some (Dir 448) else node_at (files s) q)"
    using local_put_effect [OF assms] by metis
  have ok: "\<forall>c\<in>set (rl @ cs). ok_comp c" using assms(1,2) by (auto simp: rooted_def)
  have rk: "resolve_key (s\<lparr>files := g\<rparr>) root key = Inr (abs_path (rl @ cs))"
    using assms(4) resolve_key_files by simp
  have at: "node_at g (rl @ cs) = Some (Reg (new_mode (files s) (tmp_loc (rl @ cs)) 420) d)" by (simp add: eg(5))
  have "os_read_file (s\<lparr>files := g\<rparr>) (abs_path (rl @ cs)) = Inr d"
    by (rule read_file_reg [OF _ ok]) (use eg(2) at in auto)
  then have "read_key (s\<lparr>files := g\<rparr>) root key = Inr d" using rk by (simp add: read_key_path)
  then show thesis by (rule that [OF eg(1,3,4) _ rk eg(5)])
qed

text \<open>Put then get: on a tree without links, with the target and its temporary name free of directories, a put
  succeeds, reports the key and the size, and a get of the key returns the content; every
  other entry is as before, but for the new directories and the temporary name, which is gone.
\<close>

theorem local_put_get:
  assumes "rooted root rl" "\<forall>c\<in>set cs. ok_comp c" "cs \<noteq> []"
    "resolve_key s root key = Inr (abs_path (rl @ cs))" "can_put (files s) (rl @ cs)"
  shows "\<exists>e s'. local_put fe s root key (\<lambda>_. Inr d) = (Inr e, s') \<and> e_key e = join_slash cs \<and> e_size e = int (length d) \<and>
    read_key s' root key = Inr d \<and> node_at (files s') (tmp_loc (rl @ cs)) = None \<and>
    list_all (\<lambda>q. q = rl @ cs \<or> q = tmp_loc (rl @ cs) \<or> prefix q (rl @ butlast cs) \<or>
      node_at (files s') q = node_at (files s) q) qs"
proof -
  obtain e g where eg: "local_put fe s root key (\<lambda>_. Inr d) = (Inr e, s\<lparr>files := g\<rparr>)"
    "e_key e = join_slash cs" "e_size e = int (length d)" "read_key (s\<lparr>files := g\<rparr>) root key = Inr d"
    "\<And>q. node_at g q = (if q = rl @ cs then Some (Reg (new_mode (files s) (tmp_loc (rl @ cs)) 420) d)
       else if q = tmp_loc (rl @ cs) then None
       else if node_at (files s) q = None \<and> prefix q (rl @ butlast cs) then Some (Dir 448) else node_at (files s) q)"
    using put_then_read [OF assms] by metis
  have "node_at g (tmp_loc (rl @ cs)) = None" using tmp_loc_neq [of "rl @ cs"] assms(3) by (simp add: eg(5))
  moreover have "list_all (\<lambda>q. q = rl @ cs \<or> q = tmp_loc (rl @ cs) \<or> prefix q (rl @ butlast cs) \<or>
      node_at g q = node_at (files s) q) qs"
    by (auto simp: eg(5) list_all_iff)
  ultimately show ?thesis using eg(1-4) by auto
qed

lemma ex_can_put: "can_put (files ex_file_os) [''d'', ''g'']"
  by (simp add: can_put_def ex_file_os_def plain_fs_def wf_fs_def no_links_def dir_free_def tmp_loc_def is_dir_def node_at_def
      ok_comp_def)

lemma ex_resolve: "resolve_key ex_file_os ''/d'' ''g'' = Inr (abs_path ([''d''] @ [''g'']))"
  by code_simp

theorem local_put_get_witness:
  "\<exists>e s'. local_put ex_env ex_file_os ''/d'' ''g'' (\<lambda>_. Inr ''new'') = (Inr e, s') \<and> read_key s' ''/d'' ''g'' = Inr ''new''"
proof -
  have "\<forall>c\<in>set [''g'']. ok_comp c" by (simp add: ok_comp_def)
  from local_put_get [OF ex_rooted this _ ex_resolve, of ex_env "''new''" "[]"] ex_can_put show ?thesis by auto
qed

text \<open>A put uses a neighbour as its temporary file: putting a key destroys the object stored under the same
  key with \<open>.tmp\<close> behind it, which a get finds no longer.
\<close>

theorem put_destroys_tmp_sibling:
  assumes "rooted root rl" "\<forall>c\<in>set cs. ok_comp c" "cs \<noteq> []" "can_put (files s) (rl @ cs)"
    "local_put fe s root (join_slash cs) (\<lambda>_. Inr d) = (r, s')"
  shows "\<exists>e. read_key s' root (join_slash (tmp_loc cs)) = Inl e \<and> is_not_exist e"
proof -
  have tl: "tmp_loc (rl @ cs) = rl @ tmp_loc cs" using assms(3) by (simp add: tmp_loc_def butlast_append)
  have okt: "\<forall>c\<in>set (tmp_loc cs). ok_comp c" using tmp_loc_ok assms(2,3) by blast
  obtain e g where eg: "local_put fe s root (join_slash cs) (\<lambda>_. Inr d) = (Inr e, s\<lparr>files := g\<rparr>)" "plain_fs g"
    "\<And>q. node_at g q = (if q = rl @ cs then Some (Reg (new_mode (files s) (tmp_loc (rl @ cs)) 420) d)
       else if q = tmp_loc (rl @ cs) then None
       else if node_at (files s) q = None \<and> prefix q (rl @ butlast cs) then Some (Dir 448) else node_at (files s) q)"
    using local_put_effect [OF assms(1-3) resolve_key_plain [OF assms(1-3)] assms(4)] by metis
  have ok: "\<forall>c\<in>set (rl @ tmp_loc cs). ok_comp c" using assms(1) okt by (auto simp: rooted_def)
  have gone: "node_at g (rl @ tmp_loc cs) = None" using eg(3) [of "rl @ tmp_loc cs"] tl tmp_loc_neq [of "rl @ cs"] assms(3) by simp
  have "node_at g (rl @ cs) \<noteq> None" using eg(3) by simp
  then have "is_dir g (butlast (rl @ cs))"
    using wf_fs_dir_above [of g "butlast (rl @ cs)" "[last (rl @ cs)]"] eg(2) assms(3)
    by (auto simp: plain_fs_def simp del: butlast_append last_appendR)
  then have "dir_free g (butlast (rl @ tmp_loc cs))"
    using dir_freeI eg(2) tl by (metis plain_fs_def tmp_loc_simps(2))
  then have "os_read_file (s\<lparr>files := g\<rparr>) (abs_path (rl @ tmp_loc cs)) = Inl (ErrOS ENOENT (abs_path (rl @ tmp_loc cs)))"
    using eg(2) ok gone by (intro read_file_absent) simp_all
  moreover have "resolve_key s' root (join_slash (tmp_loc cs)) = Inr (abs_path (rl @ tmp_loc cs))"
    using resolve_key_plain [OF assms(1) okt] by simp
  ultimately show ?thesis using eg(1) assms(5) by (auto simp: read_key_path is_not_exist_def)
qed

theorem put_destroys_tmp_sibling_witness:
  "\<exists>r s' e. local_put ex_env ex_file_os ''/d'' ''g'' (\<lambda>_. Inr ''x'') = (r, s') \<and> read_key s' ''/d'' ''g.tmp'' = Inl e"
proof -
  have g: "\<forall>c\<in>set [''g'']. ok_comp c" "join_slash [''g''] = ''g''" "join_slash (tmp_loc [''g'']) = ''g.tmp''"
    by (simp_all add: ok_comp_def join_slash_def tmp_loc_def)
  obtain r s' where p: "local_put ex_env ex_file_os ''/d'' (join_slash [''g'']) (\<lambda>_. Inr ''x'') = (r, s')" by fastforce
  from put_destroys_tmp_sibling [OF ex_rooted g(1) _ _ p] ex_can_put p g(2,3) show ?thesis by auto
qed

text \<open>The root itself is a key: a put to \<open>/\<close> fails, but only after it has written the content next to the root,
  outside of it, where it stays.
\<close>

theorem put_root_writes_outside:
  "(case local_put fe ex_file_os ''/d'' ''/'' (\<lambda>_. Inr ''x'') of
     (Inl e, s') \<Rightarrow> node_at (files s') [''d.tmp''] = Some (Reg 420 ''x'')
   | (Inr e, s') \<Rightarrow> False)"
  unfolding ex_file_os_def by code_simp

text \<open>The boundary is lexical: a link inside the root that points out of it is followed, so a get
  reads files outside the root.
\<close>

theorem get_follows_links_out:
  "read_key jail_os ''/jail'' ''link/passwd'' = Inr ''root'' \<and> read_key jail_os ''/jail'' ''../etc/passwd'' =
     Inl (ErrMsg (''key '' @ json_quote ''../etc/passwd'' @ '' escapes root''))"
  by code_simp

end
