(* ===== verification/FileConn.thy ===== *)
theory FileConn
  imports FileLocal GoTime
begin

text \<open>
  The file connector above its local backend (\<open>connectors/file/actions.go\<close>, \<open>credentials.go\<close>,
  \<open>connector.go\<close>, \<open>s3.go\<close>): the driver as a record of functions, the driver for S3 over a
  client that is a parameter (the \<open>minio-go\<close> package), and the seven actions.

  The struct results of the actions are given as the map of their JSON fields.
\<close>

section \<open>Drivers\<close>

text \<open>
  What a backend offers; \<open>None\<close> for the two capabilities a backend may lack. The content of an object
  comes as a reader, as in the local backend.
\<close>

record 'w driver =
  dr_list :: "string \<Rightarrow> bool \<Rightarrow> int \<Rightarrow> 'w \<Rightarrow> entry list res \<times> 'w"
  dr_stat :: "string \<Rightarrow> 'w \<Rightarrow> entry res \<times> 'w"
  dr_get :: "string \<Rightarrow> 'w \<Rightarrow> reader res \<times> 'w"
  dr_put :: "string \<Rightarrow> reader \<Rightarrow> int \<Rightarrow> string \<Rightarrow> 'w \<Rightarrow> entry res \<times> 'w"
  dr_delete :: "string \<Rightarrow> 'w \<Rightarrow> unit res \<times> 'w"
  dr_search :: "(search_opts \<Rightarrow> 'w \<Rightarrow> search_result res \<times> 'w) option"
  dr_presign :: "(string \<Rightarrow> int \<Rightarrow> string \<Rightarrow> 'w \<Rightarrow> string res \<times> 'w) option"

definition local_driver :: "file_env \<Rightarrow> string \<Rightarrow> ('m cli_scheme) driver" where
  "local_driver fe root =
     \<lparr>dr_list = (\<lambda>pfx rec limit w. (local_list fe (c_os w) root pfx rec limit, w)),
      dr_stat = (\<lambda>key w. (local_stat fe (c_os w) root key, w)),
      dr_get = (\<lambda>key w. (local_get (c_os w) root key, w)),
      dr_put = (\<lambda>key rd sz ctype w. case local_put fe (c_os w) root key rd of (r, s) \<Rightarrow> (r, w\<lparr>c_os := s\<rparr>)),
      dr_delete = (\<lambda>key w. case local_delete (c_os w) root key of (r, s) \<Rightarrow> (r, w\<lparr>c_os := s\<rparr>)),
      dr_search = Some (\<lambda>opts w. (local_search fe (c_os w) root opts, w)),
      dr_presign = None\<rparr>"

section \<open>S3\<close>

text \<open>
  The client: what the driver calls, with the bucket first. A listing is a sequence of objects or errors;
  a get gives an object whose \<open>Stat\<close> may still fail, and its content.
\<close>

record s3_object =
  ob_key :: string
  ob_size :: int
  ob_modified :: time
  ob_ctype :: string
  ob_etag :: string

record 'w s3_api =
  s3_list_objects :: "string \<Rightarrow> string \<Rightarrow> bool \<Rightarrow> int \<Rightarrow> 'w \<Rightarrow> s3_object res list \<times> 'w"
  s3_stat_object :: "string \<Rightarrow> string \<Rightarrow> 'w \<Rightarrow> s3_object res \<times> 'w"
  s3_get_object :: "string \<Rightarrow> string \<Rightarrow> 'w \<Rightarrow> (s3_object res \<times> string res) res \<times> 'w"
  s3_put_object :: "string \<Rightarrow> string \<Rightarrow> string res \<Rightarrow> int \<Rightarrow> string \<Rightarrow> 'w \<Rightarrow> s3_object res \<times> 'w"
  s3_remove_object :: "string \<Rightarrow> string \<Rightarrow> 'w \<Rightarrow> unit res \<times> 'w"
  s3_presigned_get :: "string \<Rightarrow> string \<Rightarrow> int \<Rightarrow> 'w \<Rightarrow> string res \<times> 'w"
  s3_presigned_put :: "string \<Rightarrow> string \<Rightarrow> int \<Rightarrow> 'w \<Rightarrow> string res \<times> 'w"
  s3_presigned_head :: "string \<Rightarrow> string \<Rightarrow> int \<Rightarrow> 'w \<Rightarrow> string res \<times> 'w"

text \<open>\<open>minio.New\<close>: host, access key, secret key, whether to use TLS, region.\<close>

type_synonym 'w s3_maker = "string \<Rightarrow> string \<Rightarrow> string \<Rightarrow> bool \<Rightarrow> string \<Rightarrow> 'w s3_api res"

definition parse_s3_endpoint :: "string \<Rightarrow> bool \<Rightarrow> (string \<times> bool) res" where
  "parse_s3_endpoint raw0 use_ssl =
     (let raw = trim_space raw0
      in if raw = [] then Inr (''s3.amazonaws.com'', True)
         else if prefix ''http://'' raw \<or> prefix ''https://'' raw then
           (case url_host raw of
              None \<Rightarrow> Inl (ErrWrap ''endpoint: '' (ErrExt ''url'') [])
            | Some host \<Rightarrow> Inr (host, prefix ''https://'' raw))
         else Inr (raw, use_ssl))"

definition new_s3_driver :: "'w s3_maker \<Rightarrow> string \<Rightarrow> string \<Rightarrow> string \<Rightarrow> string \<Rightarrow> string \<Rightarrow> bool \<Rightarrow> ('w s3_api \<times> string) res" where
  "new_s3_driver mk endpoint region access secret bucket use_ssl =
     (if bucket = [] then Inl (ErrMsg ''s3: bucket is required'')
      else case parse_s3_endpoint endpoint use_ssl of
        Inl e \<Rightarrow> Inl e
      | Inr (host, secure) \<Rightarrow>
          (case mk host access secret secure region of
             Inl e \<Rightarrow> Inl (ErrWrap ''s3: client: '' e [])
           | Inr api \<Rightarrow> Inr (api, bucket)))"

definition s3_entry :: "s3_object \<Rightarrow> bool \<Rightarrow> entry" where
  "s3_entry ob isdir =
     \<lparr>e_key = ob_key ob, e_size = ob_size ob, e_modified = ob_modified ob, e_is_dir = isdir,
      e_ctype = ob_ctype ob, e_etag = ob_etag ob\<rparr>"

text \<open>The loop over the listing; \<open>n\<close> entries are there already.\<close>

fun s3_collect :: "int \<Rightarrow> int \<Rightarrow> s3_object res list \<Rightarrow> entry list res" where
  "s3_collect limit n [] = Inr []"
| "s3_collect limit n (Inl e # obs) = Inl e"
| "s3_collect limit n (Inr ob # obs) =
     (let entry = s3_entry ob (suffix ''/'' (ob_key ob) \<and> ob_size ob = 0)
      in if limit > 0 \<and> n + 1 \<ge> limit then Inr [entry]
         else map_sum id ((#) entry) (s3_collect limit (n + 1) obs))"

definition s3_list :: "'w s3_api \<Rightarrow> string \<Rightarrow> string \<Rightarrow> bool \<Rightarrow> int \<Rightarrow> 'w \<Rightarrow> entry list res \<times> 'w" where
  "s3_list api bucket pfx rec limit w =
     (case s3_list_objects api bucket (trim_prefix pfx ''/'') rec (if limit > 0 then limit else 0) w of
        (obs, w1) \<Rightarrow> (s3_collect limit 0 obs, w1))"

definition s3_stat :: "'w s3_api \<Rightarrow> string \<Rightarrow> string \<Rightarrow> 'w \<Rightarrow> entry res \<times> 'w" where
  "s3_stat api bucket key w =
     (case s3_stat_object api bucket (trim_prefix key ''/'') w of
        (Inl e, w1) \<Rightarrow> (Inl e, w1)
      | (Inr info, w1) \<Rightarrow> (Inr (s3_entry info False), w1))"

definition s3_get :: "'w s3_api \<Rightarrow> string \<Rightarrow> string \<Rightarrow> 'w \<Rightarrow> reader res \<times> 'w" where
  "s3_get api bucket key w =
     (case s3_get_object api bucket (trim_prefix key ''/'') w of
        (Inl e, w1) \<Rightarrow> (Inl e, w1)
      | (Inr (Inl e, _), w1) \<Rightarrow> (Inl e, w1)
      | (Inr (Inr _, content), w1) \<Rightarrow> (Inr (\<lambda>_. content), w1))"

definition s3_put :: "'w s3_api \<Rightarrow> ('w \<Rightarrow> time) \<Rightarrow> ('w \<Rightarrow> osys) \<Rightarrow> string \<Rightarrow> string \<Rightarrow> reader \<Rightarrow> int \<Rightarrow> string \<Rightarrow> 'w \<Rightarrow> entry res \<times> 'w" where
  "s3_put api now os bucket key rd sz ctype w =
     (case s3_put_object api bucket (trim_prefix key ''/'') (rd (os w)) sz ctype w of
        (Inl e, w1) \<Rightarrow> (Inl e, w1)
      | (Inr info, w1) \<Rightarrow> (Inr ((s3_entry info False)\<lparr>e_modified := now w1, e_ctype := ctype\<rparr>), w1))"

definition hour :: int where "hour = 3600000000000"

definition clamp_expiry :: "int \<Rightarrow> int" where
  "clamp_expiry e = (let e1 = (if e \<le> 0 then hour else e) in if e1 > 7 * 24 * hour then 7 * 24 * hour else e1)"

definition s3_presign :: "'w s3_api \<Rightarrow> string \<Rightarrow> string \<Rightarrow> int \<Rightarrow> string \<Rightarrow> 'w \<Rightarrow> string res \<times> 'w" where
  "s3_presign api bucket key0 expiry0 meth w =
     (let key = trim_prefix key0 ''/''; expiry = clamp_expiry expiry0; m = to_upper meth
      in if m = [] \<or> m = ''GET'' then s3_presigned_get api bucket key expiry w
         else if m = ''PUT'' then s3_presigned_put api bucket key expiry w
         else if m = ''HEAD'' then s3_presigned_head api bucket key expiry w
         else (Inl (ErrMsg (''presign: unsupported method '' @ json_quote meth)), w))"

definition s3_driver :: "('m cli_scheme) s3_api \<Rightarrow> string \<Rightarrow> ('m cli_scheme) driver" where
  "s3_driver api bucket =
     \<lparr>dr_list = s3_list api bucket, dr_stat = s3_stat api bucket, dr_get = s3_get api bucket,
      dr_put = s3_put api c_now c_os bucket,
      dr_delete = (\<lambda>key w. s3_remove_object api bucket (trim_prefix key ''/'') w),
      dr_search = None, dr_presign = Some (s3_presign api bucket)\<rparr>"

section \<open>The credential\<close>

definition file_schema :: schema where
  "file_schema =
     (let is_s3 = (\<lambda>v. v_string v ''backend'' = ''s3''); is_local = (\<lambda>v. v_string v ''backend'' = ''local'')
      in [(field ''backend'' FieldEnum)\<lparr>f_label := ''Backend'', f_required := True, f_default := Some (GStr ''local''),
            f_options := [\<lparr>o_value = ''local'', o_label = ''Local filesystem''\<rparr>,
              \<lparr>o_value = ''s3'', o_label = ''S3 / S3-compatible (MinIO, R2, B2, ...)''\<rparr>]\<rparr>,
          (field ''root'' FieldString)\<lparr>f_label := ''Local root directory'', f_required := True, f_is_path := True,
            f_show_when := Some is_local\<rparr>,
          (field ''endpoint'' FieldString)\<lparr>f_label := ''S3 endpoint'', f_required := True, f_show_when := Some is_s3\<rparr>,
          (field ''region'' FieldString)\<lparr>f_label := ''S3 region'', f_default := Some (GStr ''us-east-1''),
            f_show_when := Some is_s3\<rparr>,
          (field ''bucket'' FieldString)\<lparr>f_label := ''S3 bucket'', f_required := True, f_show_when := Some is_s3\<rparr>,
          (field ''access_key'' FieldString)\<lparr>f_label := ''S3 access key'', f_required := True, f_show_when := Some is_s3\<rparr>,
          (field ''secret_key'' FieldSecret)\<lparr>f_label := ''S3 secret key'', f_required := True, f_show_when := Some is_s3\<rparr>,
          (field ''use_ssl'' FieldBool)\<lparr>f_label := ''Use HTTPS (when endpoint is bare host)'',
            f_default := Some (GBool True), f_show_when := Some is_s3\<rparr>])"

definition file_presets :: "preset list" where
  "file_presets =
     [\<lparr>p_name = ''Local'', p_description = ''Filesystem under a chosen root.'', p_values = [(''backend'', GStr ''local'')]\<rparr>,
      \<lparr>p_name = ''MinIO (local docker)'', p_description = ''http://localhost:9000 with default minioadmin credentials.'',
        p_values = [(''backend'', GStr ''s3''), (''endpoint'', GStr ''http://localhost:9000''), (''region'', GStr ''us-east-1''),
          (''access_key'', GStr ''minioadmin''), (''use_ssl'', GBool False)]\<rparr>,
      \<lparr>p_name = ''AWS S3'', p_description = ''Public AWS S3 over HTTPS.'',
        p_values = [(''backend'', GStr ''s3''), (''endpoint'', GStr ''s3.amazonaws.com''), (''use_ssl'', GBool True)]\<rparr>,
      \<lparr>p_name = ''Cloudflare R2'', p_description = ''R2 endpoint (account-specific).'',
        p_values = [(''backend'', GStr ''s3''), (''endpoint'', GStr ''https://<account>.r2.cloudflarestorage.com''),
          (''region'', GStr ''auto''), (''use_ssl'', GBool True)]\<rparr>,
      \<lparr>p_name = ''Custom'', p_description = ''Fill all fields manually.'', p_values = []\<rparr>]"

definition trim_field :: "string \<Rightarrow> vals \<Rightarrow> vals" where
  "trim_field k v = (case v k of Some (GStr s) \<Rightarrow> v(k \<mapsto> GStr (trim_right s ''/'')) | _ \<Rightarrow> v)"

definition file_defaults :: "vals \<Rightarrow> vals" where
  "file_defaults p = trim_field ''root'' (trim_field ''endpoint'' p)"

definition bool_default :: "vals \<Rightarrow> string \<Rightarrow> bool \<Rightarrow> bool" where
  "bool_default v key def = (if \<not> v_has v key then def else v_bool v key)"

definition build_driver :: "file_env \<Rightarrow> ('m cli_scheme) s3_maker \<Rightarrow> credential \<Rightarrow> 'm cli_scheme \<Rightarrow> ('m cli_scheme) driver res" where
  "build_driver fe mk c w =
     (let v = cr_values c; backend = v_string v ''backend''
      in if backend = ''local'' then map_sum id (local_driver fe) (new_local_driver (c_os w) (v_string v ''root''))
         else if backend = ''s3'' then
           map_sum id (\<lambda>(api, bucket). s3_driver api bucket)
             (new_s3_driver mk (v_string v ''endpoint'') (v_string v ''region'') (v_string v ''access_key'')
               (v_string v ''secret_key'') (v_string v ''bucket'') (bool_default v ''use_ssl'' True))
         else Inl (ErrMsg (''unsupported backend '' @ json_quote backend @ '' (want local|s3)'')))"

definition file_validate :: "file_env \<Rightarrow> ('m cli_scheme) s3_maker \<Rightarrow> credential \<Rightarrow> 'm cli_scheme \<Rightarrow> unit res \<times> 'm cli_scheme" where
  "file_validate fe mk c w =
     (case build_driver fe mk c w of
        Inl e \<Rightarrow> (Inl e, w)
      | Inr drv \<Rightarrow>
          (case dr_list drv [] False 5 w of
             (Inl e, w1) \<Rightarrow> (Inl (ErrWrap ''list probe: '' e []), w1)
           | (Inr entries, w1) \<Rightarrow>
               (Inr (), say (''(backend='' @ v_string (cr_values c) ''backend'' @ '', '' @ nat_str (length entries) @ '' entries) '') w1)))"

section \<open>Actions\<close>

record 'w file_session =
  fs_cred :: credential
  fs_drv :: "'w driver"
  fs_state :: string

definition entry_json :: "entry \<Rightarrow> gval" where
  "entry_json e = GMap
     ([(''key'', GStr (e_key e)), (''size'', GInt64 (e_size e)), (''last_modified'', GStr (rfc3339 (e_modified e)))]
      @ (if e_is_dir e then [(''is_dir'', GBool True)] else [])
      @ (if e_ctype e \<noteq> [] then [(''content_type'', GStr (e_ctype e))] else [])
      @ (if e_etag e \<noteq> [] then [(''etag'', GStr (e_etag e))] else []))"

definition match_json :: "match \<Rightarrow> gval" where
  "match_json m = GMap
     ([(''key'', GStr (mt_key m)), (''line'', GInt (mt_line m)), (''text'', GStr (mt_text m))]
      @ (if mt_before m \<noteq> [] then [(''before'', GStrs (mt_before m))] else [])
      @ (if mt_after m \<noteq> [] then [(''after'', GStrs (mt_after m))] else [])
      @ [(''byte_offset'', GInt64 (mt_offset m))])"

text \<open>A slice nothing was appended to is nil.\<close>

definition nil_or_list :: "gval list \<Rightarrow> gval" where
  "nil_or_list vs = (if vs = [] then GNil else GList vs)"

definition search_json :: "search_result \<Rightarrow> gval" where
  "search_json r = GMap
     [(''matches'', nil_or_list (map match_json (sr_matches r))), (''count'', GInt (sr_count r)),
      (''scanned'', GInt (sr_scanned r)), (''skipped'', GInt (sr_skipped r))]"

definition file_list_schema :: schema where
  "file_list_schema =
     [gstr_field ''prefix'' FieldString ''Path prefix (local) or key prefix (s3). Empty = root.'',
      (field ''recursive'' FieldBool)\<lparr>f_default := Some (GBool False)\<rparr>,
      (gstr_field ''limit'' FieldInt ''Cap result count. 0 = no limit.'')\<lparr>f_default := Some (GInt 0)\<rparr>]"

definition file_list :: "'w file_session \<Rightarrow> vals \<Rightarrow> 'w \<Rightarrow> gval res \<times> 'w" where
  "file_list s params w =
     (let ps = with_defaults params file_list_schema
      in case dr_list (fs_drv s) (v_string ps ''prefix'') (v_bool ps ''recursive'') (v_int ps ''limit'') w of
           (Inl e, w1) \<Rightarrow> (Inl e, w1)
         | (Inr entries, w1) \<Rightarrow>
             (Inr (GMap [(''prefix'', GStr (v_string ps ''prefix'')), (''count'', GInt (int (length entries))),
                (''entries'', nil_or_list (map entry_json entries))]), w1))"

definition file_key_schema :: "string \<Rightarrow> schema" where
  "file_key_schema desc = [(gstr_field ''key'' FieldString desc)\<lparr>f_required := True\<rparr>]"

definition file_stat :: "'w file_session \<Rightarrow> vals \<Rightarrow> 'w \<Rightarrow> gval res \<times> 'w" where
  "file_stat s params w =
     (let key = v_string params ''key''
      in if key = [] then (Inl (ErrMsg ''key is required''), w)
         else case dr_stat (fs_drv s) key w of
           (Inl e, w1) \<Rightarrow> (Inl e, w1)
         | (Inr e, w1) \<Rightarrow> (Inr (entry_json e), w1))"

definition file_get_schema :: schema where
  "file_get_schema =
     file_key_schema ''Path/key on the backend to fetch.''
     @ [(gstr_field ''out'' FieldString
          ''Local file path to write the body to. Subject to PGF_ALLOWED_PATHS. When empty, the body is returned inline in the JSON (capped at 1 MiB).'')
        \<lparr>f_is_path := True\<rparr>]"

definition inline_cap :: nat where "inline_cap = 1048576"

text \<open>To a file: the file is created before the object is read. Inline: at most one byte more than the cap is read.\<close>

definition copy_out :: "string \<Rightarrow> string \<Rightarrow> reader \<Rightarrow> 'm cli_scheme \<Rightarrow> gval res \<times> 'm cli_scheme" where
  "copy_out key out rd w =
     (case os_write_file (c_os w) out [] 420 of
        Inl e \<Rightarrow> (Inl (ErrWrap (''create '' @ out @ '': '') e []), w)
      | Inr s1 \<Rightarrow>
          (case rd s1 of
             Inl e \<Rightarrow> (Inl e, w\<lparr>c_os := s1\<rparr>)
           | Inr d \<Rightarrow>
               (case os_write_file s1 out d 420 of
                  Inl e \<Rightarrow> (Inl e, w\<lparr>c_os := s1\<rparr>)
                | Inr s2 \<Rightarrow>
                    (Inr (GMap [(''key'', GStr key), (''path'', GStr out), (''bytes'', GInt64 (int (length d)))]),
                     w\<lparr>c_os := s2\<rparr>))))"

definition copy_inline :: "string \<Rightarrow> reader \<Rightarrow> 'm cli_scheme \<Rightarrow> gval res \<times> 'm cli_scheme" where
  "copy_inline key rd w =
     (case rd (c_os w) of
        Inl e \<Rightarrow> (Inl e, w)
      | Inr d \<Rightarrow>
          (let buf = take (inline_cap + 1) d; n = length buf
           in if n > inline_cap then
                (Inl (ErrMsg (''body exceeds '' @ nat_str inline_cap @ '' bytes for inline get; pass -p out=<path>'')), w)
              else (Inr (GMap [(''key'', GStr key), (''bytes'', GInt64 (int n)), (''body'', GStr buf)]), w)))"

definition file_get :: "('m cli_scheme) file_session \<Rightarrow> vals \<Rightarrow> 'm cli_scheme \<Rightarrow> gval res \<times> 'm cli_scheme" where
  "file_get s params w =
     (let ps = with_defaults params file_get_schema; key = v_string ps ''key''
      in if key = [] then (Inl (ErrMsg ''key is required''), w)
         else case dr_get (fs_drv s) key w of
           (Inl e, w1) \<Rightarrow> (Inl e, w1)
         | (Inr rd, w1) \<Rightarrow>
             (if v_string ps ''out'' \<noteq> [] then copy_out key (v_string ps ''out'') rd w1
              else copy_inline key rd w1))"

definition file_put_schema :: schema where
  "file_put_schema =
     file_key_schema ''Destination path/key on the backend.''
     @ [(field ''src'' FieldString)\<lparr>f_is_path := True\<rparr>, field ''content'' FieldLongText,
        field ''content_type'' FieldString]"

definition file_put :: "file_env \<Rightarrow> ('m cli_scheme) file_session \<Rightarrow> vals \<Rightarrow> 'm cli_scheme \<Rightarrow> gval res \<times> 'm cli_scheme" where
  "file_put fe s params w =
     (let ps = with_defaults params file_put_schema; key = v_string ps ''key'';
          src = v_string ps ''src''; content = v_string ps ''content'';
          ctype = (if v_string ps ''content_type'' = [] then guess_mime fe key else v_string ps ''content_type'');
          put = (\<lambda>rd sz. case dr_put (fs_drv s) key rd sz ctype w of
            (Inl e, w1) \<Rightarrow> (Inl e, w1)
          | (Inr e, w1) \<Rightarrow> (Inr (entry_json e), w1))
      in if key = [] then (Inl (ErrMsg ''key is required''), w)
         else if src = [] \<and> content = [] then (Inl (ErrMsg ''either src or content is required''), w)
         else if src \<noteq> [] \<and> content \<noteq> [] then (Inl (ErrMsg ''src and content are mutually exclusive''), w)
         else if src \<noteq> [] then
           (case os_stat (c_os w) src of
              Inl e \<Rightarrow> (Inl (ErrWrap (''open '' @ src @ '': '') e []), w)
            | Inr (l, nd) \<Rightarrow> put (\<lambda>s'. os_read_file s' src) (node_size fe (c_os w) l nd))
         else put (\<lambda>_. Inr content) (int (length content)))"

definition file_delete :: "'w file_session \<Rightarrow> vals \<Rightarrow> 'w \<Rightarrow> gval res \<times> 'w" where
  "file_delete s params w =
     (let key = v_string params ''key''
      in if key = [] then (Inl (ErrMsg ''key is required''), w)
         else case dr_delete (fs_drv s) key w of
           (Inl e, w1) \<Rightarrow> (Inl e, w1)
         | (Inr _, w1) \<Rightarrow> (Inr (GMap [(''key'', GStr key), (''deleted'', GBool True)]), w1))"

definition file_search_schema :: schema where
  "file_search_schema =
     [(field ''pattern'' FieldString)\<lparr>f_required := True\<rparr>, field ''prefix'' FieldString, field ''include'' FieldString,
      field ''exclude'' FieldString, (field ''max_size'' FieldInt)\<lparr>f_default := Some (GInt 1048576)\<rparr>,
      (field ''max_matches'' FieldInt)\<lparr>f_default := Some (GInt 200)\<rparr>,
      (field ''before'' FieldInt)\<lparr>f_default := Some (GInt 0)\<rparr>, (field ''after'' FieldInt)\<lparr>f_default := Some (GInt 0)\<rparr>,
      (field ''case_insensitive'' FieldBool)\<lparr>f_default := Some (GBool False)\<rparr>]"

definition file_search :: "'w file_session \<Rightarrow> vals \<Rightarrow> 'w \<Rightarrow> gval res \<times> 'w" where
  "file_search s params w =
     (let ps = with_defaults params file_search_schema
      in case dr_search (fs_drv s) of
           None \<Rightarrow> (Inl (ErrMsg (''search: not supported by the '' @ json_quote (v_string (cr_values (fs_cred s)) ''backend'')
             @ '' backend (download with `get` and grep locally, or wire up a search service)'')), w)
         | Some search \<Rightarrow>
             (case search \<lparr>so_prefix = v_string ps ''prefix'', so_pattern = v_string ps ''pattern'',
                  so_include = v_string ps ''include'', so_exclude = v_string ps ''exclude'',
                  so_max_size = v_int ps ''max_size'', so_max_matches = v_int ps ''max_matches'',
                  so_before = v_int ps ''before'', so_after = v_int ps ''after'',
                  so_ci = v_bool ps ''case_insensitive''\<rparr> w of
                (Inl e, w1) \<Rightarrow> (Inl e, w1)
              | (Inr r, w1) \<Rightarrow> (Inr (search_json r), w1)))"

definition file_presign_schema :: schema where
  "file_presign_schema =
     file_key_schema ''Object key.''
     @ [(field ''method'' FieldEnum)\<lparr>f_default := Some (GStr ''GET''),
          f_options := [\<lparr>o_value = ''GET'', o_label = ''GET (download)''\<rparr>, \<lparr>o_value = ''PUT'', o_label = ''PUT (upload)''\<rparr>,
            \<lparr>o_value = ''HEAD'', o_label = ''HEAD (metadata)''\<rparr>]\<rparr>,
        (gstr_field ''expiry'' FieldString ''Go duration. Clamped to 7 days max (S3 limit).'')\<lparr>f_default := Some (GStr ''1h'')\<rparr>]"

definition file_presign :: "'w file_session \<Rightarrow> vals \<Rightarrow> 'w \<Rightarrow> gval res \<times> 'w" where
  "file_presign s params w =
     (let ps = with_defaults params file_presign_schema; key = v_string ps ''key''; meth = v_string ps ''method''
      in case dr_presign (fs_drv s) of
           None \<Rightarrow> (Inl (ErrMsg (''presign: not supported by the '' @ json_quote (v_string (cr_values (fs_cred s)) ''backend'')
             @ '' backend'')), w)
         | Some presign \<Rightarrow>
             (if key = [] then (Inl (ErrMsg ''key is required''), w)
              else case parse_duration (v_string ps ''expiry'') of
                Inl e \<Rightarrow> (Inl (ErrWrap ''expiry: '' e []), w)
              | Inr expiry \<Rightarrow>
                  (case presign key expiry meth w of
                     (Inl e, w1) \<Rightarrow> (Inl e, w1)
                   | (Inr u, w1) \<Rightarrow>
                       (Inr (GMap [(''key'', GStr key), (''method'', GStr meth), (''expiry'', GStr (duration_str expiry)),
                          (''url'', GStr u)]), w1))))"

section \<open>The connector\<close>

definition file_connector :: "file_env \<Rightarrow> ('m cli_scheme) s3_maker \<Rightarrow> ('m cli_scheme, ('m cli_scheme) file_session) connector" where
  "file_connector fe mk =
     \<lparr>c_descriptor = \<lparr>d_name = ''file'', d_display = ''File (pluggable backend)'',
        d_description = ''List/get/put/delete/stat/search files. Backends: local filesystem, S3-compatible (AWS, MinIO, R2, B2).'',
        d_version = ''0.1.0'', d_categories = [''storage'', ''io'']\<rparr>,
      c_credential = \<lparr>cs_kind = AuthCustom, cs_schema = file_schema, cs_presets = file_presets, cs_defaults = file_defaults,
        cs_validate = keep_values (file_validate fe mk)\<rparr>,
      c_actions =
        [mk_action ''list'' ''List entries'' ''List entries under a prefix.'' file_list_schema file_list,
         mk_action ''stat'' ''Stat one entry'' ''Single-entry metadata: size, last_modified, content_type, etag.''
           (file_key_schema ''Path (local) or key (s3) relative to the backend root.'') file_stat,
         mk_action ''get'' ''Get one entry'' ''Download a key.'' file_get_schema file_get,
         mk_action ''put'' ''Put one entry'' ''Upload to a key.'' file_put_schema (file_put fe),
         mk_action ''delete'' ''Delete one entry'' ''Remove a key.'' (file_key_schema ''Path/key to remove.'') file_delete,
         mk_action ''search'' ''Grep-like content search'' ''Regex search across file contents.'' file_search_schema file_search,
         mk_action ''presign'' ''Presign URL'' ''Generate a time-limited URL to GET/PUT/HEAD an object.''
           file_presign_schema file_presign],
      c_triggers = [],
      c_open = (\<lambda>cred root w. (map_sum id (\<lambda>drv. \<lparr>fs_cred = cred, fs_drv = drv, fs_state = root\<rparr>) (build_driver fe mk cred w), w)),
      c_close = (\<lambda>_ w. (Inr (), w))\<rparr>"

section \<open>Properties\<close>

lemma with_defaults_none: "list_all (\<lambda>f. f_default f = None) sch \<Longrightarrow> with_defaults v sch = v"
  unfolding with_defaults_def by (induction sch arbitrary: v) (auto simp: default_step_def)

lemma file_schemas_plain:
  "with_defaults v file_get_schema = v" "with_defaults v file_put_schema = v"
  by (rule with_defaults_none, simp add: file_get_schema_def file_put_schema_def file_key_schema_def gstr_field_def field_def)+

text \<open>C25.
  Put then get through the actions: on the local backend, content put under a key comes back
  unchanged from an inline get of the key, with its length, as long as it is not above the inline cap.
\<close>

theorem file_put_get:
  assumes "rooted root rl" "\<forall>c\<in>set cs. ok_comp c" "cs \<noteq> []"
    "resolve_key (c_os w) root key = Inr (abs_path (rl @ cs))" "can_put (files (c_os w)) (rl @ cs)"
    "fs_drv s = local_driver fe root" "key \<noteq> []" "d \<noteq> []" "length d \<le> inline_cap"
  shows "\<exists>e w'. file_put fe s [''key'' \<mapsto> GStr key, ''content'' \<mapsto> GStr d] w = (Inr (entry_json e), w') \<and>
    e_key e = join_slash cs \<and> e_size e = int (length d) \<and>
    file_get s [''key'' \<mapsto> GStr key] w' =
      (Inr (GMap [(''key'', GStr key), (''bytes'', GInt64 (int (length d))), (''body'', GStr d)]), w')"
proof -
  obtain e g where eg: "local_put fe (c_os w) root key (\<lambda>_. Inr d) = (Inr e, (c_os w)\<lparr>files := g\<rparr>)"
    "e_key e = join_slash cs" "e_size e = int (length d)" "read_key ((c_os w)\<lparr>files := g\<rparr>) root key = Inr d"
    using put_then_read [OF assms(1-5)] by metis
  let ?w = "w\<lparr>c_os := (c_os w)\<lparr>files := g\<rparr>\<rparr>"
  have "file_put fe s [''key'' \<mapsto> GStr key, ''content'' \<mapsto> GStr d] w = (Inr (entry_json e), ?w)"
    using eg(1) assms(6-8) by (simp add: file_put_def file_schemas_plain local_driver_def v_string_def Let_def)
  moreover have "file_get s [''key'' \<mapsto> GStr key] ?w =
      (Inr (GMap [(''key'', GStr key), (''bytes'', GInt64 (int (length d))), (''body'', GStr d)]), ?w)"
    using eg(4) assms(6,7,9)
    by (auto simp: file_get_def file_schemas_plain local_driver_def v_string_def Let_def copy_inline_def read_key_def
        split: sum.splits)
  ultimately show ?thesis using eg(2,3) by blast
qed

definition ex_file_session :: "('m cli_scheme) driver \<Rightarrow> ('m cli_scheme) file_session" where
  "ex_file_session drv = \<lparr>fs_cred = new_credential ''file'' ''d'' Map.empty, fs_drv = drv, fs_state = ''/s''\<rparr>"

theorem file_put_get_witness:
  "\<exists>r w'. file_put ex_env (ex_file_session (local_driver ex_env ''/d'')) [''key'' \<mapsto> GStr ''g'', ''content'' \<mapsto> GStr ''new'']
      (ex_cli\<lparr>c_os := ex_file_os\<rparr>) = (Inr r, w') \<and>
    file_get (ex_file_session (local_driver ex_env ''/d'')) [''key'' \<mapsto> GStr ''g''] w' =
      (Inr (GMap [(''key'', GStr ''g''), (''bytes'', GInt64 3), (''body'', GStr ''new'')]), w')"
proof -
  have g: "\<forall>c\<in>set [''g'']. ok_comp c" by (simp add: ok_comp_def)
  from file_put_get [OF ex_rooted g, where w = "ex_cli\<lparr>c_os := ex_file_os\<rparr>" and fe = ex_env and key = "''g''" and d = "''new''"
      and s = "ex_file_session (local_driver ex_env ''/d'')"] ex_can_put ex_resolve
  show ?thesis by (auto simp: ex_file_session_def inline_cap_def)
qed

text \<open>A get onto itself loses the object: with the object's own file as \<open>out\<close>, the file is truncated before it
  is read, so the get reports success with no bytes and leaves the object empty.
\<close>

theorem get_onto_itself_empties:
  assumes "plain_fs (files (c_os w))" "\<forall>c\<in>set l. ok_comp c" "l \<noteq> []" "node_at (files (c_os w)) l = Some (Reg m d)"
    "resolve_key (c_os w) root key = Inr (abs_path l)" "fs_drv s = local_driver fe root" "key \<noteq> []"
  shows "\<exists>w'. file_get s [''key'' \<mapsto> GStr key, ''out'' \<mapsto> GStr (abs_path l)] w =
      (Inr (GMap [(''key'', GStr key), (''path'', GStr (abs_path l)), (''bytes'', GInt64 0)]), w') \<and>
    node_at (files (c_os w')) l = Some (Reg m [])"
proof -
  have d: "is_dir (files (c_os w)) (butlast l)" "\<not> is_dir (files (c_os w)) l"
    using wf_fs_dir_above [of "files (c_os w)" "butlast l" "[last l]"] assms(1,3,4) by (auto simp: plain_fs_def is_dir_def)
  obtain f where f: "os_write_file (c_os w) (abs_path l) [] 420 = Inr ((c_os w)\<lparr>files := f\<rparr>)" "plain_fs f"
    "\<And>q. node_at f q = (if q = l then Some (Reg (new_mode (files (c_os w)) l 420) []) else node_at (files (c_os w)) q)"
    "\<And>q. is_dir f q = is_dir (files (c_os w)) q"
    using write_effect [OF assms(1-3) d] by metis
  let ?s = "(c_os w)\<lparr>files := f\<rparr>"
  obtain g where g: "os_write_file ?s (abs_path l) [] 420 = Inr (?s\<lparr>files := g\<rparr>)"
    "\<And>q. node_at g q = (if q = l then Some (Reg (new_mode f l 420) []) else node_at f q)"
    by (rule write_effect [of ?s l "[]" 420]) (use assms(2,3) d f in auto)
  have rd: "os_read_file (c_os w) (abs_path l) = Inr d" "os_read_file ?s (abs_path l) = Inr []"
    by (rule read_file_reg; use assms f in auto)+
  from rd(1) obtain rd' where "local_get (c_os w) root key = Inr rd'" "rd' ?s = Inr []"
    using assms(5) rd(2) by (auto simp: local_get_def os_open_def os_read_file_def split: sum.splits)
  moreover have "node_at g l = Some (Reg m [])" using g(2) f(3) assms(4) by (simp add: new_mode_def)
  ultimately show ?thesis
    using f(1) g(1) assms(6,7)
    by (simp add: file_get_def file_schemas_plain local_driver_def v_string_def Let_def copy_out_def)
qed

theorem get_onto_itself_empties_witness:
  "\<exists>w'. file_get (ex_file_session (local_driver ex_env ''/d'')) [''key'' \<mapsto> GStr ''f'', ''out'' \<mapsto> GStr ''/d/f'']
      (ex_cli\<lparr>c_os := ex_file_os\<rparr>) =
      (Inr (GMap [(''key'', GStr ''f''), (''path'', GStr ''/d/f''), (''bytes'', GInt64 0)]), w') \<and>
    node_at (files (c_os w')) [''d'', ''f''] = Some (Reg 420 [])"
proof -
  have p: "plain_fs (files ex_file_os)"
    by (simp add: ex_file_os_def plain_fs_def wf_fs_def no_links_def is_dir_def node_at_def ok_comp_def)
  have l: "\<forall>c\<in>set [''d'', ''f'']. ok_comp c" "abs_path [''d'', ''f''] = ''/d/f''"
    by (simp_all add: ok_comp_def abs_path_def join_slash_def)
  have n: "node_at (files ex_file_os) [''d'', ''f''] = Some (Reg 420 (''a'' @ nl @ ''xb'' @ nl @ ''c''))"
    by (simp add: ex_file_os_def node_at_def)
  have r: "resolve_key ex_file_os ''/d'' ''f'' = Inr (abs_path [''d'', ''f''])" by code_simp
  from get_onto_itself_empties [where w = "ex_cli\<lparr>c_os := ex_file_os\<rparr>" and l = "[''d'', ''f'']" and root = "''/d''" and key = "''f''"
      and s = "ex_file_session (local_driver ex_env ''/d'')"] p l n r
  show ?thesis by (simp add: ex_file_session_def)
qed

text \<open>A presigned URL is valid for more than zero and at most seven days: whatever expiry and method is asked for, the
  client is only ever called with such an expiry.
\<close>

theorem presign_window:
  "\<exists>x. 0 < x \<and> x \<le> 7 * 24 * hour \<and>
    s3_presign api bucket key expiry meth w \<in>
      {s3_presigned_get api bucket (trim_prefix key ''/'') x w, s3_presigned_put api bucket (trim_prefix key ''/'') x w,
       s3_presigned_head api bucket (trim_prefix key ''/'') x w,
       (Inl (ErrMsg (''presign: unsupported method '' @ json_quote meth)), w)}"
  by (rule exI [of _ "clamp_expiry expiry"]) (auto simp: s3_presign_def clamp_expiry_def hour_def Let_def)

text \<open>The answer does not show the clamping: asked for more than seven days, the action gives out a URL for seven
  days and reports the expiry that was asked for.
\<close>

theorem presign_reports_request:
  assumes "fs_drv s = s3_driver api bucket" "parse_duration x = Inr d" "7 * 24 * hour < d" "key \<noteq> []"
    "s3_presigned_get api bucket (trim_prefix key ''/'') (7 * 24 * hour) w = (Inr u, w1)"
  shows "file_presign s [''key'' \<mapsto> GStr key, ''expiry'' \<mapsto> GStr x] w =
    (Inr (GMap [(''key'', GStr key), (''method'', GStr ''GET''), (''expiry'', GStr (duration_str d)), (''url'', GStr u)]), w1)"
proof -
  have "with_defaults [''key'' \<mapsto> GStr key, ''expiry'' \<mapsto> GStr x] file_presign_schema =
      [''key'' \<mapsto> GStr key, ''expiry'' \<mapsto> GStr x, ''method'' \<mapsto> GStr ''GET'']"
    by (simp add: with_defaults_def file_presign_schema_def file_key_schema_def gstr_field_def field_def default_step_def)
  moreover have "clamp_expiry d = 7 * 24 * hour" using assms(3) by (simp add: clamp_expiry_def hour_def)
  moreover have "to_upper ''GET'' = ''GET''" by code_simp
  ultimately show ?thesis
    using assms(1,2,4,5) by (simp add: file_presign_def s3_driver_def s3_presign_def v_string_def Let_def)
qed


definition ex_s3 :: "'w s3_api" where
  "ex_s3 =
     (let no = (\<lambda>w. (Inl (ErrExt ''s3''), w)); url = (\<lambda>b k x w. (Inr (''https://'' @ b @ ''/'' @ k @ ''?'' @ itoa x), w))
      in \<lparr>s3_list_objects = (\<lambda>_ _ _ _ w. ([], w)), s3_stat_object = (\<lambda>_ _. no), s3_get_object = (\<lambda>_ _ w. (Inl (ErrExt ''s3''), w)),
          s3_put_object = (\<lambda>_ _ _ _ _. no), s3_remove_object = (\<lambda>_ _ w. (Inr (), w)), s3_presigned_get = url,
          s3_presigned_put = url, s3_presigned_head = url\<rparr>)"

theorem presign_reports_request_witness:
  "\<exists>d. d = 200 * hour \<and>
    file_presign (ex_file_session (s3_driver ex_s3 ''b'')) [''key'' \<mapsto> GStr ''k'', ''expiry'' \<mapsto> GStr ''200h''] ex_cli =
      (Inr (GMap [(''key'', GStr ''k''), (''method'', GStr ''GET''), (''expiry'', GStr (duration_str d)),
         (''url'', GStr (''https://b/k?'' @ itoa (168 * hour)))]), ex_cli)"
proof -
  have "unit_nanos ''h'' = Some 3600000000000" by (simp add: unit_nanos_def)
  moreover have "takeWhile is_digit ''200h'' = ''200''" "dropWhile is_digit ''200h'' = ''h''"
    "takeWhile (\<lambda>c. c \<noteq> CHR ''.'' \<and> \<not> is_digit c) ''h'' = ''h''" "digits_val 0 ''200'' = 200"
    by (simp_all add: is_digit_def digit_val_def)
  ultimately have "duration_term ''200h'' = Some (720000000000000, [])"
    by (simp add: duration_term_def two63_def)
  then have d: "parse_duration ''200h'' = Inr (200 * hour)"
    by (simp add: parse_duration_def two63_def hour_def)
  have k: "trim_prefix ''k'' ''/'' = ''k''" by (simp add: trim_prefix_def)
  show ?thesis
    using presign_reports_request [of "ex_file_session (s3_driver ex_s3 ''b'')" ex_s3 "''b''" "''200h''" "200 * hour" "''k''" ex_cli
        "''https://b/k?'' @ itoa (168 * hour)" ex_cli] d
    by (simp add: ex_file_session_def hour_def ex_s3_def Let_def k)
qed

end
