(* ===== verification/Telegram.thy ===== *)
theory Telegram
  imports ApiConn AllowedPaths
begin

text \<open>
  The Telegram connector (\<open>connectors/telegram\<close>): the envelope of the Bot API, the eight actions, and the
  polling trigger with its persisted offset.

  The network is the \<open>net\<close> of the HTTP transport. The trigger is stated over \<open>callGetUpdates\<close> as a function
  of its arguments and the world, which is how its properties see the service.
\<close>

section \<open>Client and envelope\<close>

record tg_session =
  tg_cred :: credential
  tg_http :: http_config
  tg_state :: string

definition tg_client :: "credential \<Rightarrow> http_config res" where
  "tg_client c =
     (let token = v_string (cr_values c) ''bot_token''; base = v_string (cr_values c) ''api_base'';
          api_base = (if base = [] then ''https://api.telegram.org'' else base)
      in if token = [] then Inl (ErrMsg ''bot_token is empty'')
         else new_client \<lparr>hc_base = api_base @ ''/bot'' @ token, hc_headers = [], hc_agent = [], hc_timeout = 0\<rparr>)"

text \<open>The four fields of the envelope; \<open>dec\<close> reads the result.\<close>

definition tg_envelope :: "(gval \<Rightarrow> 'a option) \<Rightarrow> gval \<Rightarrow> (bool \<times> string \<times> int \<times> 'a) option" where
  "tg_envelope dec v =
     (if \<not> is_object v then None
      else case (dec_bool (jfield v ''ok''), dec_string (jfield v ''description''), dec_int (jfield v ''error_code''),
                 dec (jfield v ''result'')) of
        (Some ok, Some d, Some c, Some r) \<Rightarrow> Some (ok, d, c, r)
      | _ \<Rightarrow> None)"

definition tg_answer :: "string \<Rightarrow> (bool \<times> string \<times> int \<times> 'a) res \<times> 'w \<Rightarrow> 'a res \<times> 'w" where
  "tg_answer meth r =
     (case r of
        (Inl e, w) \<Rightarrow> (Inl e, w)
      | (Inr (ok, d, c, x), w) \<Rightarrow>
          (if \<not> ok then (Inl (ErrMsg (''telegram '' @ meth @ '': '' @ d @ '' (error_code='' @ itoa c @ '')'')), w)
           else (Inr x, w)))"

definition tg_post :: "'w net \<Rightarrow> http_config \<Rightarrow> (gval \<Rightarrow> 'a option) \<Rightarrow> string \<Rightarrow> (string \<times> gval) list \<Rightarrow> 'w \<Rightarrow> 'a res \<times> 'w" where
  "tg_post net cli dec meth body w =
     tg_answer meth (decoded (tg_envelope dec) (send_json net cli ''POST'' (''/'' @ meth) (Some (GMap body)) True w))"

definition tg_post_multipart :: "('m cli_scheme) net \<Rightarrow> http_config \<Rightarrow> (gval \<Rightarrow> 'a option) \<Rightarrow> string \<Rightarrow> string \<Rightarrow>
    (string \<times> string) list \<Rightarrow> file_field list \<Rightarrow> 'm cli_scheme \<Rightarrow> 'a res \<times> 'm cli_scheme" where
  "tg_post_multipart net cli dec boundary meth form fls w =
     tg_answer meth (decoded (tg_envelope dec) (post_multipart net cli (c_os w) boundary (''/'' @ meth) form fls True w))"

definition resolve_chat_id :: "tg_session \<Rightarrow> vals \<Rightarrow> string res" where
  "resolve_chat_id s params =
     (let chat = v_string params ''chat_id'';
          chat' = (if chat = [] then v_string (cr_values (tg_cred s)) ''default_chat_id'' else chat)
      in if chat' = [] then Inl (ErrMsg ''chat_id is required (or set default_chat_id in the credential)'') else Inr chat')"

definition is_url :: "string \<Rightarrow> bool" where
  "is_url s = (prefix ''http://'' s \<or> prefix ''https://'' s)"

section \<open>Actions\<close>

record bot_user =
  bu_id :: int
  bu_is_bot :: bool
  bu_first_name :: string
  bu_username :: string

definition dec_bot_user :: "gval \<Rightarrow> bot_user option" where
  "dec_bot_user v =
     (if \<not> is_object v then None
      else case (dec_int (jfield v ''id''), dec_bool (jfield v ''is_bot''), dec_string (jfield v ''first_name''),
                 dec_string (jfield v ''username'')) of
        (Some i, Some b, Some f, Some u) \<Rightarrow> Some \<lparr>bu_id = i, bu_is_bot = b, bu_first_name = f, bu_username = u\<rparr>
      | _ \<Rightarrow> None)"

definition tg_get_me :: "'w net \<Rightarrow> tg_session \<Rightarrow> vals \<Rightarrow> 'w \<Rightarrow> gval res \<times> 'w" where
  "tg_get_me net s params w =
     (case tg_post net (tg_http s) dec_bot_user ''getMe'' [] w of
        (Inl e, w1) \<Rightarrow> (Inl e, w1)
      | (Inr b, w1) \<Rightarrow>
          (Inr (GMap [(''id'', GInt64 (bu_id b)), (''is_bot'', GBool (bu_is_bot b)),
             (''first_name'', GStr (bu_first_name b)), (''username'', GStr (bu_username b))]), w1))"

definition tg_message_schema :: schema where
  "tg_message_schema =
     [(field ''chat_id'' FieldString)\<lparr>f_label := ''Chat ID''\<rparr>,
      (field ''text'' FieldLongText)\<lparr>f_label := ''Message text'', f_required := True\<rparr>,
      (field ''parse_mode'' FieldEnum)\<lparr>f_label := ''Parse mode'',
        f_options := [\<lparr>o_value = [], o_label = ''(none)''\<rparr>, \<lparr>o_value = ''HTML'', o_label = ''HTML''\<rparr>,
          \<lparr>o_value = ''Markdown'', o_label = ''Markdown (legacy)''\<rparr>, \<lparr>o_value = ''MarkdownV2'', o_label = ''MarkdownV2''\<rparr>]\<rparr>,
      (field ''disable_notification'' FieldBool)\<lparr>f_label := ''Silent'', f_default := Some (GBool False)\<rparr>,
      (field ''reply_to_message_id'' FieldInt)\<lparr>f_label := ''Reply to message ID''\<rparr>]"

definition tg_send_message :: "'w net \<Rightarrow> tg_session \<Rightarrow> vals \<Rightarrow> 'w \<Rightarrow> gval res \<times> 'w" where
  "tg_send_message net s params0 w =
     (let params = with_defaults params0 tg_message_schema; text = v_string params ''text'';
          pm = v_string params ''parse_mode''; rid = v_int params ''reply_to_message_id''
      in case resolve_chat_id s params of
           Inl e \<Rightarrow> (Inl e, w)
         | Inr chat \<Rightarrow>
             (if text = [] then (Inl (ErrMsg ''text is required''), w)
              else
                (case tg_post net (tg_http s) dec_map ''sendMessage''
                     ([(''chat_id'', GStr chat), (''text'', GStr text),
                       (''disable_notification'', GBool (v_bool params ''disable_notification''))]
                      @ (if pm \<noteq> [] then [(''parse_mode'', GStr pm)] else [])
                      @ (if rid > 0 then [(''reply_to_message_id'', GInt rid)] else [])) w of
                   (Inl e, w1) \<Rightarrow> (Inl e, w1)
                 | (Inr msg, w1) \<Rightarrow> (Inr (map_gval msg), w1))))"

definition tg_media_schema :: "string \<Rightarrow> schema" where
  "tg_media_schema media_field =
     [(field ''chat_id'' FieldString)\<lparr>f_label := ''Chat ID''\<rparr>,
      (field media_field FieldString)\<lparr>f_label := ''File path or URL'', f_required := True\<rparr>,
      (field ''caption'' FieldString)\<lparr>f_label := ''Caption''\<rparr>,
      (field ''parse_mode'' FieldString)\<lparr>f_label := ''Parse mode''\<rparr>]"

definition tg_send_media :: "('m cli_scheme) net \<Rightarrow> tg_session \<Rightarrow> vals \<Rightarrow> string \<Rightarrow> string \<Rightarrow> 'm cli_scheme \<Rightarrow> gval res \<times> 'm cli_scheme" where
  "tg_send_media net s params meth media_field w =
     (let media = v_string params media_field; caption = v_string params ''caption''; pm = v_string params ''parse_mode'';
          answer = (\<lambda>r. case r of (Inl e, w1) \<Rightarrow> (Inl e, w1) | (Inr msg, w1) \<Rightarrow> (Inr (map_gval msg), w1))
      in case resolve_chat_id s params of
           Inl e \<Rightarrow> (Inl e, w)
         | Inr chat \<Rightarrow>
             (if media = [] then (Inl (ErrMsg (media_field @ '' is required'')), w)
              else if is_url media then
                answer (tg_post net (tg_http s) dec_map meth
                  ([(''chat_id'', GStr chat), (media_field, GStr media)]
                   @ (if caption \<noteq> [] then [(''caption'', GStr caption)] else [])
                   @ (if pm \<noteq> [] then [(''parse_mode'', GStr pm)] else [])) w)
              else case os_stat (c_os w) media of
                Inl e \<Rightarrow> (Inl (ErrWrap (''file '' @ media @ '': '') e []), w)
              | Inr _ \<Rightarrow>
                  (case random_boundary (c_pool w) of
                     (Inl e, r) \<Rightarrow> (Inl e, w\<lparr>c_pool := r\<rparr>)
                   | (Inr boundary, r) \<Rightarrow>
                       answer (tg_post_multipart net (tg_http s) dec_map boundary meth
                         ([(''chat_id'', chat)] @ (if caption \<noteq> [] then [(''caption'', caption)] else [])
                          @ (if pm \<noteq> [] then [(''parse_mode'', pm)] else []))
                         [\<lparr>ff_field = media_field, ff_path = media, ff_mime = [], ff_filename = []\<rparr>] (w\<lparr>c_pool := r\<rparr>)))))"

definition tg_send_photo :: "('m cli_scheme) net \<Rightarrow> tg_session \<Rightarrow> vals \<Rightarrow> 'm cli_scheme \<Rightarrow> gval res \<times> 'm cli_scheme" where
  "tg_send_photo net s params w =
     tg_send_media net s (with_defaults params (tg_media_schema ''photo'')) ''sendPhoto'' ''photo'' w"

definition tg_send_document :: "('m cli_scheme) net \<Rightarrow> tg_session \<Rightarrow> vals \<Rightarrow> 'm cli_scheme \<Rightarrow> gval res \<times> 'm cli_scheme" where
  "tg_send_document net s params w =
     tg_send_media net s (with_defaults params (tg_media_schema ''document'')) ''sendDocument'' ''document'' w"

text \<open>Both forms of a list parameter, trimmed and without empty entries.\<close>

definition split_csv :: "string list \<Rightarrow> string list" where
  "split_csv ss = filter (\<lambda>t. t \<noteq> []) (map trim_space (concat (map (split_on (CHR '','')) ss)))"

definition update_kinds :: string where "update_kinds = ''message,edited_message,channel_post,callback_query''"

definition tg_set_webhook_schema :: schema where
  "tg_set_webhook_schema =
     [(field ''url'' FieldString)\<lparr>f_label := ''Webhook URL (HTTPS)'', f_required := True\<rparr>,
      (field ''secret_token'' FieldString)\<lparr>f_label := ''Secret token (optional)''\<rparr>,
      (field ''allowed_updates'' FieldStringList)\<lparr>f_label := ''Filter update kinds'', f_default := Some (GStr update_kinds)\<rparr>,
      (field ''drop_pending_updates'' FieldBool)\<lparr>f_label := ''Drop queued updates'', f_default := Some (GBool False)\<rparr>]"

definition tg_set_webhook :: "'w net \<Rightarrow> tg_session \<Rightarrow> vals \<Rightarrow> 'w \<Rightarrow> gval res \<times> 'w" where
  "tg_set_webhook net s params0 w =
     (let params = with_defaults params0 tg_set_webhook_schema; url = trim_space (v_string params ''url'');
          allowed = split_csv (v_string_list params ''allowed_updates''); tok = trim_space (v_string params ''secret_token'')
      in if url = [] then (Inl (ErrMsg ''url is required''), w)
         else case tg_post net (tg_http s) dec_bool ''setWebhook''
             ([(''url'', GStr url), (''drop_pending_updates'', GBool (v_bool params ''drop_pending_updates''))]
              @ (if allowed \<noteq> [] then [(''allowed_updates'', GStrs allowed)] else [])
              @ (if tok \<noteq> [] then [(''secret_token'', GStr tok)] else [])) w of
           (Inl e, w1) \<Rightarrow> (Inl e, w1)
         | (Inr _, w1) \<Rightarrow> (Inr (GMap [(''set'', GBool True), (''url'', GStr url)]), w1))"

definition tg_delete_webhook_schema :: schema where
  "tg_delete_webhook_schema =
     [(field ''drop_pending_updates'' FieldBool)\<lparr>f_label := ''Drop queued updates'', f_default := Some (GBool False)\<rparr>]"

definition tg_delete_webhook :: "'w net \<Rightarrow> tg_session \<Rightarrow> vals \<Rightarrow> 'w \<Rightarrow> gval res \<times> 'w" where
  "tg_delete_webhook net s params0 w =
     (let params = with_defaults params0 tg_delete_webhook_schema
      in case tg_post net (tg_http s) dec_bool ''deleteWebhook''
             [(''drop_pending_updates'', GBool (v_bool params ''drop_pending_updates''))] w of
           (Inl e, w1) \<Rightarrow> (Inl e, w1)
         | (Inr _, w1) \<Rightarrow> (Inr (GMap [(''deleted'', GBool True)]), w1))"

definition tg_webhook_info :: "'w net \<Rightarrow> tg_session \<Rightarrow> vals \<Rightarrow> 'w \<Rightarrow> gval res \<times> 'w" where
  "tg_webhook_info net s params w =
     (case tg_post net (tg_http s) dec_map ''getWebhookInfo'' [] w of
        (Inl e, w1) \<Rightarrow> (Inl e, w1)
      | (Inr info, w1) \<Rightarrow> (Inr (map_gval info), w1))"


section \<open>Updates\<close>

record tg_update =
  up_id :: int
  up_message :: "(string \<times> gval) list option"
  up_edited :: "(string \<times> gval) list option"
  up_post :: "(string \<times> gval) list option"
  up_callback :: "(string \<times> gval) list option"

definition dec_update :: "gval \<Rightarrow> tg_update option" where
  "dec_update v =
     (if \<not> is_object v then None
      else case (dec_int (jfield v ''update_id''), dec_map (jfield v ''message''), dec_map (jfield v ''edited_message''),
                 dec_map (jfield v ''channel_post''), dec_map (jfield v ''callback_query'')) of
        (Some i, Some m, Some e, Some p, Some c) \<Rightarrow>
          Some \<lparr>up_id = i, up_message = m, up_edited = e, up_post = p, up_callback = c\<rparr>
      | _ \<Rightarrow> None)"

definition update_kind :: "tg_update \<Rightarrow> string \<times> gval" where
  "update_kind u =
     (case (up_message u, up_edited u, up_post u, up_callback u) of
        (Some m, _, _, _) \<Rightarrow> (''message'', GMap m)
      | (None, Some m, _, _) \<Rightarrow> (''edited_message'', GMap m)
      | (None, None, Some m, _) \<Rightarrow> (''channel_post'', GMap m)
      | (None, None, None, Some m) \<Rightarrow> (''callback_query'', GMap m)
      | _ \<Rightarrow> (''unknown'', GNil))"

definition update_json :: "tg_update \<Rightarrow> gval" where
  "update_json u =
     (let opt = (\<lambda>k m. case m of Some (x # xs) \<Rightarrow> [(k, GMap (x # xs))] | _ \<Rightarrow> [])
      in GMap ([(''update_id'', GInt64 (up_id u))] @ opt ''message'' (up_message u) @ opt ''edited_message'' (up_edited u)
        @ opt ''channel_post'' (up_post u) @ opt ''callback_query'' (up_callback u)))"

type_synonym 'w updates_call = "int \<Rightarrow> int \<Rightarrow> int \<Rightarrow> string list \<Rightarrow> 'w \<Rightarrow> tg_update list res \<times> 'w"

definition call_get_updates :: "'w net \<Rightarrow> http_config \<Rightarrow> 'w updates_call" where
  "call_get_updates net cli offset limit timeout allowed w =
     tg_post net cli (dec_list dec_update) ''getUpdates''
       ((if offset > 0 then [(''offset'', GInt64 offset)] else [])
        @ (if limit > 0 then [(''limit'', GInt limit)] else [])
        @ (if timeout > 0 then [(''timeout'', GInt timeout)] else [])
        @ (if allowed \<noteq> [] then [(''allowed_updates'', GStrs allowed)] else [])) w"

definition tg_updates_schema :: schema where
  "tg_updates_schema =
     [(field ''offset'' FieldInt)\<lparr>f_label := ''First update_id to return''\<rparr>,
      (field ''limit'' FieldInt)\<lparr>f_label := ''Max updates'', f_default := Some (GInt 100)\<rparr>,
      (field ''timeout'' FieldInt)\<lparr>f_label := ''Long-poll timeout (seconds)'', f_default := Some (GInt 0)\<rparr>,
      (field ''allowed_updates'' FieldStringList)\<lparr>f_label := ''Filter update kinds''\<rparr>]"

text \<open>An answer with an empty array prints as one, one without a result as null; both are the empty list here.\<close>

definition tg_get_updates :: "'w net \<Rightarrow> tg_session \<Rightarrow> vals \<Rightarrow> 'w \<Rightarrow> gval res \<times> 'w" where
  "tg_get_updates net s params0 w =
     (let params = with_defaults params0 tg_updates_schema
      in case call_get_updates net (tg_http s) (v_int params ''offset'') (v_int params ''limit'') (v_int params ''timeout'')
             (v_string_list params ''allowed_updates'') w of
           (Inl e, w1) \<Rightarrow> (Inl e, w1)
         | (Inr ups, w1) \<Rightarrow> (Inr (GList (map update_json ups)), w1))"

section \<open>The trigger\<close>

definition offset_key :: string where "offset_key = ''trigger:messages:offset''"

definition load_offset :: "string \<Rightarrow> 'm cli_scheme \<Rightarrow> int option res" where
  "load_offset root w =
     (case st_get root offset_key w of
        Inl e \<Rightarrow> Inl e
      | Inr None \<Rightarrow> Inr None
      | Inr (Some d) \<Rightarrow> (case json_int64 d of None \<Rightarrow> Inl (ErrExt ''json'') | Some v \<Rightarrow> Inr (Some v)))"

definition save_offset :: "string \<Rightarrow> int \<Rightarrow> 'm cli_scheme \<Rightarrow> unit res \<times> 'm cli_scheme" where
  "save_offset root offset w = st_put root offset_key (itoa offset) w"

definition update_event :: "time \<Rightarrow> tg_update \<Rightarrow> event" where
  "update_event now u =
     (let (kind, payload) = update_kind u
      in \<lparr>ev_id = itoa (up_id u), ev_type = kind, ev_payload = payload, ev_time = now\<rparr>)"

text \<open>One batch: every update is emitted, and the offset moves past it.\<close>

fun emit_updates :: "('m cli_scheme) sink \<Rightarrow> tg_update list \<Rightarrow> int \<Rightarrow> 'm cli_scheme \<Rightarrow> int res \<times> 'm cli_scheme" where
  "emit_updates emit [] offset w = (Inr offset, w)"
| "emit_updates emit (u # us) offset w =
     (case emit (update_event (c_now w) u) w of
        (Inl e, w1) \<Rightarrow> (Inl e, w1)
      | (Inr _, w1) \<Rightarrow> emit_updates emit us (if up_id u \<ge> offset then wrap64 (up_id u + 1) else offset) w1)"

text \<open>The loop, canceled after \<open>n\<close> rounds; the waits of the backoff leave no trace.\<close>

fun tg_loop :: "('m cli_scheme) updates_call \<Rightarrow> string \<Rightarrow> ('m cli_scheme) sink \<Rightarrow> int \<Rightarrow> string list \<Rightarrow> nat \<Rightarrow> int \<Rightarrow>
    'm cli_scheme \<Rightarrow> unit res \<times> 'm cli_scheme" where
  "tg_loop poll root emit timeout allowed 0 offset w = (Inl ErrCanceled, w)"
| "tg_loop poll root emit timeout allowed (Suc n) offset w =
     (case poll offset 100 timeout allowed w of
        (Inl e, w1) \<Rightarrow> tg_loop poll root emit timeout allowed n offset w1
      | (Inr ups, w1) \<Rightarrow>
          (case emit_updates emit ups offset w1 of
             (Inl e, w2) \<Rightarrow> (Inl e, w2)
           | (Inr offset1, w2) \<Rightarrow>
               tg_loop poll root emit timeout allowed n offset1
                 (if ups \<noteq> [] then snd (save_offset root offset1 w2) else w2)))"

text \<open>Where the loop starts: an offset of the caller, past the first queued update, or where the last run stopped.\<close>

definition start_offset :: "('m cli_scheme) updates_call \<Rightarrow> string \<Rightarrow> int \<Rightarrow> 'm cli_scheme \<Rightarrow> int res \<times> 'm cli_scheme" where
  "start_offset call root offset w =
     (if offset > 0 then (Inr offset, w)
      else if offset = - 1 then
        (case call 0 1 0 [] w of
           (Inl e, w1) \<Rightarrow> (Inl (ErrWrap ''drain backlog: '' e []), w1)
         | (Inr ups, w1) \<Rightarrow>
             (let o1 = (case ups of u # _ \<Rightarrow> wrap64 (up_id u + 1) | [] \<Rightarrow> offset)
              in (Inr o1, snd (call o1 1 0 [] w1))))
      else (case load_offset root w of Inr (Some p) \<Rightarrow> (Inr p, w) | _ \<Rightarrow> (Inr offset, w)))"

definition tg_trigger_schema :: schema where
  "tg_trigger_schema =
     [(field ''allowed_updates'' FieldStringList)\<lparr>f_label := ''Filter update kinds'', f_default := Some (GStr update_kinds)\<rparr>,
      (field ''long_poll_timeout'' FieldInt)\<lparr>f_label := ''Long-poll seconds'', f_default := Some (GInt 25)\<rparr>,
      (field ''start_offset'' FieldInt)\<lparr>f_label := ''Initial offset (0 = pick up where we left off, -1 = only future updates)'',
        f_default := Some (GInt 0)\<rparr>]"

definition tg_subscribe :: "('m cli_scheme) net \<Rightarrow> nat \<Rightarrow> tg_session \<Rightarrow> vals \<Rightarrow> ('m cli_scheme) sink \<Rightarrow>
    'm cli_scheme \<Rightarrow> unit res \<times> 'm cli_scheme" where
  "tg_subscribe net rounds s params0 emit w =
     (let params = with_defaults params0 tg_trigger_schema;
          allowed = split_csv (v_string_list params ''allowed_updates'');
          t = v_int params ''long_poll_timeout''; timeout = (if t \<le> 0 then 25 else t)
      in case new_client \<lparr>hc_base = hc_base (tg_http s), hc_headers = [], hc_agent = [],
             hc_timeout = wrap64 (wrap64 (timeout + 15) * second)\<rparr> of
           Inl e \<Rightarrow> (Inl e, w)
         | Inr poll \<Rightarrow>
             (case start_offset (call_get_updates net (tg_http s)) (tg_state s) (v_int params ''start_offset'') w of
                (Inl e, w1) \<Rightarrow> (Inl e, w1)
              | (Inr offset, w1) \<Rightarrow>
                  tg_loop (call_get_updates net poll) (tg_state s) emit timeout allowed rounds offset w1))"

section \<open>The connector\<close>

definition tg_schema :: schema where
  "tg_schema =
     [(gstr_field ''bot_token'' FieldSecret ''From @BotFather. Looks like 1234567890:ABC...'')
        \<lparr>f_label := ''Bot token'', f_required := True\<rparr>,
      (field ''default_chat_id'' FieldString)\<lparr>f_label := ''Default chat ID (optional)''\<rparr>,
      (gstr_field ''api_base'' FieldString ''Override only for self-hosted Bot API servers.'')
        \<lparr>f_label := ''API base URL'', f_default := Some (GStr ''https://api.telegram.org'')\<rparr>]"

definition tg_validate :: "('m cli_scheme) net \<Rightarrow> credential \<Rightarrow> 'm cli_scheme \<Rightarrow> unit res \<times> 'm cli_scheme" where
  "tg_validate net c w =
     (case tg_client c of
        Inl e \<Rightarrow> (Inl e, w)
      | Inr cli \<Rightarrow>
          (case decoded (tg_envelope dec_bot_user) (get_json net cli ''/getMe'' [] True w) of
             (Inl e, w1) \<Rightarrow> (Inl e, w1)
           | (Inr (ok, desc, _, b), w1) \<Rightarrow>
               (if \<not> ok then (Inl (ErrMsg (if desc = [] then ''Telegram returned ok=false'' else desc)), w1)
                else (Inr (), say (''(bot @'' @ bu_username b @ '') '') w1))))"

definition telegram_connector :: "('m cli_scheme) net \<Rightarrow> nat \<Rightarrow> ('m cli_scheme, tg_session) connector" where
  "telegram_connector net rounds =
     \<lparr>c_descriptor = \<lparr>d_name = ''telegram'', d_display = ''Telegram (Bot API)'',
        d_description = ''Send messages, photos, documents through a Telegram bot.'',
        d_version = ''0.1.0'', d_categories = [''messaging'']\<rparr>,
      c_credential = \<lparr>cs_kind = AuthAPIKey, cs_schema = tg_schema, cs_presets = [], cs_defaults = (\<lambda>v. v),
        cs_validate = keep_values (tg_validate net)\<rparr>,
      c_actions =
        [mk_action ''get-me'' ''Get bot info'' ''Returns the identity of the bot (id, username, first_name).'' [] (tg_get_me net),
         mk_action ''get-updates'' ''Get updates'' ''Fetch pending updates once. For continuous streaming use the messages trigger.''
           tg_updates_schema (tg_get_updates net),
         mk_action ''send-message'' ''Send message'' ''Send a text message to a chat.'' tg_message_schema (tg_send_message net),
         mk_action ''send-photo'' ''Send photo'' ''Send a photo. Accepts a local file path or an http(s) URL.''
           (tg_media_schema ''photo'') (tg_send_photo net),
         mk_action ''send-document'' ''Send document'' ''Send any file as a document. Accepts a local file path or an http(s) URL.''
           (tg_media_schema ''document'') (tg_send_document net),
         mk_action ''set-webhook'' ''Set webhook URL'' ''Tell Telegram to POST updates to the given HTTPS URL.''
           tg_set_webhook_schema (tg_set_webhook net),
         mk_action ''delete-webhook'' ''Delete webhook'' ''Clear the webhook so the bot can be polled or pointed elsewhere.''
           tg_delete_webhook_schema (tg_delete_webhook net),
         mk_action ''get-webhook-info'' ''Get webhook info'' ''Return current webhook URL and pending update count.'' []
           (tg_webhook_info net)],
      c_triggers = [\<lparr>t_name = ''messages'', t_display = ''Incoming messages'',
        t_description = ''Long-poll Telegram for new messages, channel posts, and callback queries.'',
        t_schema = tg_trigger_schema, t_strategy = TriggerPolling,
        t_subscribe = Some (tg_subscribe net rounds), t_webhook = None\<rparr>],
      c_open = (\<lambda>cred root w. (map_sum id (\<lambda>cli. \<lparr>tg_cred = cred, tg_http = cli, tg_state = root\<rparr>) (tg_client cred), w)),
      c_close = (\<lambda>_ w. (Inr (), w))\<rparr>"


section \<open>The service as the trigger sees it\<close>

text \<open>
  The documented behaviour of \<open>getUpdates\<close>: a call with an offset confirms, that is forgets, every update below it,
  and gives the first ones of the rest. The world adds the queue, the events seen and the requests sent.
\<close>

record bot_world = cli +
  bw_queue :: "tg_update list"
  bw_seen :: "event list"
  bw_sent :: "api_request list"

definition bot_poll :: "bot_world updates_call" where
  "bot_poll offset limit timeout allowed w =
     (let q = (if offset > 0 then filter (\<lambda>u. offset \<le> up_id u) (bw_queue w) else bw_queue w)
      in (Inr (take (nat limit) q), w\<lparr>bw_queue := q\<rparr>))"

definition log_sink :: "bot_world sink" where
  "log_sink e w = (Inr (), w\<lparr>bw_seen := bw_seen w @ [e]\<rparr>)"

lemma emit_log_step:
  "emit_updates log_sink (u # us) off w =
    emit_updates log_sink us (if up_id u \<ge> off then wrap64 (up_id u + 1) else off)
      (w\<lparr>bw_seen := bw_seen w @ [update_event (c_now w) u]\<rparr>)"
  by (simp only: emit_updates.simps log_sink_def prod.case sum.case)

definition up_key :: "tg_update \<Rightarrow> string" where
  "up_key u = itoa (up_id u)"

lemma update_event_id [simp]: "ev_id (update_event now u) = up_key u"
  by (simp add: update_event_def up_key_def split: prod.splits)

definition ids_ok :: "tg_update list \<Rightarrow> bool" where
  "ids_ok q = (sorted_wrt (<) (map up_id q) \<and> (\<forall>u\<in>set q. 0 < up_id u \<and> up_id u < max_int64))"

lemma ids_ok_simps [simp]:
  "ids_ok []" "ids_ok (u # q) \<longleftrightarrow> (\<forall>v\<in>set q. up_id u < up_id v) \<and> 0 < up_id u \<and> up_id u < max_int64 \<and> ids_ok q"
  by (auto simp: ids_ok_def)

lemma ids_ok_append: "ids_ok (q @ r) \<longleftrightarrow> ids_ok q \<and> ids_ok r \<and> (\<forall>u\<in>set q. \<forall>v\<in>set r. up_id u < up_id v)"
  by (auto simp: ids_ok_def sorted_wrt_append)

lemma ids_ok_filter: "ids_ok q \<Longrightarrow> ids_ok (filter P q)"
  by (induction q) auto

lemma bot_poll_eq:
  assumes "ids_ok (bw_queue w)"
  shows "bot_poll off limit t a w =
    (let q = filter (\<lambda>u. off \<le> up_id u) (bw_queue w) in (Inr (take (nat limit) q), w\<lparr>bw_queue := q\<rparr>))"
proof -
  have "filter (\<lambda>u. off \<le> up_id u) (bw_queue w) = bw_queue w" if "\<not> off > 0"
    using assms that by (fastforce simp: ids_ok_def filter_id_conv)
  then show ?thesis by (cases "off > 0") (simp_all add: bot_poll_def)
qed

text \<open>A batch with ascending ids above the offset.\<close>

lemma emit_batch:
  "ids_ok us \<Longrightarrow> \<forall>u\<in>set us. off \<le> up_id u \<Longrightarrow>
   \<exists>evs. emit_updates log_sink us off w =
     (Inr (if us = [] then off else up_id (last us) + 1), w\<lparr>bw_seen := bw_seen w @ evs\<rparr>) \<and> map ev_id evs = map up_key us"
proof (induction us arbitrary: off w)
  case Nil
  then show ?case by (auto intro: exI [of _ "[]"])
next
  case (Cons u us)
  have r: "wrap64 (up_id u + 1) = up_id u + 1"
    by (rule wrap64_id) (use Cons.prems in \<open>simp add: int64_range_def min_int64_def max_int64_def\<close>)
  let ?w = "w\<lparr>bw_seen := bw_seen w @ [update_event (c_now w) u]\<rparr>"
  obtain evs where "emit_updates log_sink us (up_id u + 1) ?w =
      (Inr (if us = [] then up_id u + 1 else up_id (last us) + 1), ?w\<lparr>bw_seen := bw_seen ?w @ evs\<rparr>)"
      "map ev_id evs = map up_key us"
    using Cons.IH [of "up_id u + 1" ?w] Cons.prems by (auto simp: zless_imp_add1_zle)
  moreover have "us = [] \<Longrightarrow> evs = []" using \<open>map ev_id evs = map up_key us\<close> by simp
  ultimately show ?case
    using Cons.prems r
    by (intro exI [of _ "update_event (c_now w) u # evs"]) (simp add: emit_log_step del: emit_updates.simps(2))
qed

lemma load_after_save:
  assumes "store_inv root (c_os w)" "int64_range off"
  shows "\<exists>s. snd (save_offset root off w) = w\<lparr>c_os := s\<rparr> \<and> store_inv root s \<and>
    load_offset root (w\<lparr>c_os := s\<rparr>) = Inr (Some off)"
proof -
  obtain r w' where p: "save_offset root off w = (r, w')" by fastforce
  from st_put_get [OF assms(1)] p have "store_inv root (c_os w')" "st_get root offset_key w' = Inr (Some (itoa off))"
    by (auto simp: save_offset_def)
  moreover have "w' = w\<lparr>c_os := c_os w'\<rparr>"
    using p by (auto simp: save_offset_def st_put_def split: prod.splits)
  ultimately show ?thesis using p json_int64_itoa [OF assms(2)]
    by (intro exI [of _ "c_os w'"]) (auto simp: load_offset_def)
qed


text \<open>The loop: what it delivers, what it leaves queued, and the offset it remembers.\<close>

definition pending :: "int \<Rightarrow> bot_world \<Rightarrow> tg_update list" where
  "pending off w = filter (\<lambda>u. off \<le> up_id u) (bw_queue w)"

lemma pending_after:
  assumes "ids_ok q" "b = take n q" "b \<noteq> []"
  shows "filter (\<lambda>u. up_id (last b) + 1 \<le> up_id u) q = drop n q"
proof -
  have q: "q = b @ drop n q" using assms(2) by simp
  have ok: "ids_ok (b @ drop n q)" using assms(1) q by simp
  have "\<forall>u\<in>set b. up_id u \<le> up_id (last b)"
  proof
    fix u assume u: "u \<in> set b"
    have "ids_ok (butlast b @ [last b])" using ok assms(3) by (simp add: ids_ok_append)
    moreover have "u \<in> set (butlast b) \<or> u = last b" using u assms(3) by (metis append_butlast_last_id in_set_conv_decomp rotate1.simps(2) set_ConsD set_rotate1)
    ultimately show "up_id u \<le> up_id (last b)" by (auto simp: ids_ok_append)
  qed
  then have "filter (\<lambda>u. up_id (last b) + 1 \<le> up_id u) b = []" by (auto simp: filter_empty_conv)
  moreover have "filter (\<lambda>u. up_id (last b) + 1 \<le> up_id u) (drop n q) = drop n q"
  proof (rule filter_True)
    have "\<forall>v\<in>set (drop n q). up_id (last b) < up_id v" using ok assms(3) by (auto simp: ids_ok_append)
    then show "\<forall>v\<in>set (drop n q). up_id (last b) + 1 \<le> up_id v" by auto
  qed
  ultimately show ?thesis by (subst q) simp
qed

lemma tg_loop_delivers:
  assumes "store_inv root (c_os w)" "ids_ok (bw_queue w)"
  shows "\<exists>w'. tg_loop bot_poll root log_sink t a n off w = (Inl ErrCanceled, w') \<and>
    map ev_id (bw_seen w') = map ev_id (bw_seen w) @ map up_key (take (100 * n) (pending off w)) \<and>
    store_inv root (c_os w') \<and> ids_ok (bw_queue w') \<and> set (bw_queue w') \<subseteq> set (bw_queue w) \<and>
    (if take (100 * n) (pending off w) = []
     then c_os w' = c_os w \<and> pending off w' = pending off w
     else \<exists>u\<in>set (bw_queue w). load_offset root w' = Inr (Some (up_id u + 1)) \<and>
       pending (up_id u + 1) w' = drop (100 * n) (pending off w))"
  using assms
proof (induction n arbitrary: off w)
  case 0
  then show ?case by simp
next
  case (Suc n)
  let ?q = "pending off w" and ?w1 = "w\<lparr>bw_queue := pending off w\<rparr>"
  have okq: "ids_ok ?q" using Suc.prems(2) by (simp add: pending_def ids_ok_filter)
  have poll: "bot_poll off 100 t a w = (Inr (take 100 ?q), ?w1)"
    using bot_poll_eq [OF Suc.prems(2), of off 100 t a] by (simp add: pending_def Let_def)
  show ?case
  proof (cases "?q = []")
    case True
    have "pending off ?w1 = []" using True by (simp add: pending_def)
    with Suc.IH [of ?w1 off] Suc.prems(1) True poll show ?thesis by (auto simp: pending_def)
  next
    case False
    let ?b = "take 100 ?q" and ?o = "up_id (last (take 100 ?q)) + 1"
    have b: "?b \<noteq> []" using False by simp
    have okb: "ids_ok ?b" using okq by (metis append_take_drop_id ids_ok_append)
    have "\<forall>u\<in>set ?b. off \<le> up_id u" by (auto simp: pending_def dest: in_set_takeD)
    then obtain evs where ev: "emit_updates log_sink ?b off ?w1 = (Inr ?o, ?w1\<lparr>bw_seen := bw_seen w @ evs\<rparr>)"
      "map ev_id evs = map up_key ?b"
      using emit_batch [OF okb, of off ?w1] b by auto
    have "last ?b \<in> set ?b" using b by (rule last_in_set)
    then have "0 < up_id (last ?b)" "up_id (last ?b) < max_int64" using okb unfolding ids_ok_def by blast+
    then have r: "int64_range ?o" by (simp add: int64_range_def min_int64_def max_int64_def)
    obtain s where s: "snd (save_offset root ?o (?w1\<lparr>bw_seen := bw_seen w @ evs\<rparr>)) = ?w1\<lparr>bw_seen := bw_seen w @ evs, c_os := s\<rparr>"
      "store_inv root s" "load_offset root (?w1\<lparr>bw_seen := bw_seen w @ evs, c_os := s\<rparr>) = Inr (Some ?o)"
      using load_after_save [of root "?w1\<lparr>bw_seen := bw_seen w @ evs\<rparr>", OF _ r] Suc.prems(1) by auto
    let ?w2 = "?w1\<lparr>bw_seen := bw_seen w @ evs, c_os := s\<rparr>"
    have p2: "pending ?o ?w2 = drop 100 ?q" using pending_after [OF okq refl b] by (simp add: pending_def)
    have step: "tg_loop bot_poll root log_sink t a (Suc n) off w = tg_loop bot_poll root log_sink t a n ?o ?w2"
      using poll ev(1) b s(1) by simp
    have ld: "load_offset root w' = Inr (Some ?o)" if "c_os w' = s" for w' :: bot_world
      using s(3) that by (simp add: load_offset_def st_get_def)
    obtain w' where w': "tg_loop bot_poll root log_sink t a n ?o ?w2 = (Inl ErrCanceled, w')"
      "map ev_id (bw_seen w') = map ev_id (bw_seen ?w2) @ map up_key (take (100 * n) (drop 100 ?q))"
      "store_inv root (c_os w')" "ids_ok (bw_queue w')" "set (bw_queue w') \<subseteq> set (bw_queue ?w2)"
      "if take (100 * n) (drop 100 ?q) = [] then c_os w' = c_os ?w2 \<and> pending ?o w' = drop 100 ?q
       else \<exists>u\<in>set (bw_queue ?w2). load_offset root w' = Inr (Some (up_id u + 1)) \<and>
         pending (up_id u + 1) w' = drop (100 * n) (drop 100 ?q)"
    proof -
      have i: "store_inv root (c_os ?w2)" "ids_ok (bw_queue ?w2)" using s(2) okq by simp_all
      show thesis using Suc.IH [OF i, of ?o, unfolded p2] that by blast
    qed
    have "map ev_id (bw_seen w') = map ev_id (bw_seen w) @ map up_key (take (100 * Suc n) ?q)"
      using w'(2) ev(2) by (simp add: take_add)
    moreover have "last ?b \<in> set (bw_queue w)" using \<open>last ?b \<in> set ?b\<close> by (auto simp: pending_def dest: in_set_takeD)
    then have "\<exists>u\<in>set (bw_queue w). load_offset root w' = Inr (Some (up_id u + 1)) \<and>
        pending (up_id u + 1) w' = drop (100 * Suc n) ?q"
    proof (cases "take (100 * n) (drop 100 ?q) = []")
      case True
      then have "drop 100 ?q = drop (100 * n) (drop 100 ?q)" by (metis append_Nil append_take_drop_id)
      with True w'(6) ld \<open>last ?b \<in> set (bw_queue w)\<close> show ?thesis by (auto simp: add.commute)
    next
      case False
      with w'(6) show ?thesis by (auto simp: add.commute pending_def)
    qed
    moreover have "set (bw_queue w') \<subseteq> set (bw_queue w)" using w'(5) by (auto simp: pending_def)
    moreover have "take (100 * Suc n) ?q \<noteq> []" using \<open>?q \<noteq> []\<close> by simp
    ultimately show ?thesis using step w'(1,3,4) by auto
  qed
qed


text \<open>
  A history of the trigger: updates arrive, a run starts from the remembered offset and is stopped after some
  rounds, more updates arrive, and so on.
\<close>

fun bot_runs :: "string \<Rightarrow> (tg_update list \<times> nat) list \<Rightarrow> bot_world \<Rightarrow> bot_world" where
  "bot_runs root [] w = w"
| "bot_runs root ((news, n) # rs) w =
     (case start_offset bot_poll root 0 (w\<lparr>bw_queue := bw_queue w @ news\<rparr>) of
        (Inl _, w1) \<Rightarrow> w1
      | (Inr off, w1) \<Rightarrow> bot_runs root rs (snd (tg_loop bot_poll root log_sink 25 [] n off w1)))"

text \<open>What is remembered between two runs: everything but the pending rest of the updates so far was seen.\<close>

definition resumable :: "string \<Rightarrow> tg_update list \<Rightarrow> bot_world \<Rightarrow> tg_update list \<Rightarrow> bool" where
  "resumable root arrived w rest =
     (store_inv root (c_os w) \<and> ids_ok (bw_queue w) \<and> set (bw_queue w) \<subseteq> set arrived \<and>
      map ev_id (bw_seen w) @ map up_key rest = map up_key arrived \<and>
      (\<exists>off. (load_offset root w = Inr (Some off) \<or> (load_offset root w = Inr None \<and> off = 0)) \<and>
        (off = 0 \<or> (\<exists>u\<in>set arrived. off = up_id u + 1)) \<and> pending off w = rest))"

lemma run_resumable:
  assumes "resumable root arrived w rest" "ids_ok (arrived @ news)"
  defines "w1 \<equiv> w\<lparr>bw_queue := bw_queue w @ news\<rparr>"
  shows "\<exists>off. start_offset bot_poll root 0 w1 = (Inr off, w1) \<and>
    resumable root (arrived @ news) (snd (tg_loop bot_poll root log_sink t a n off w1)) (drop (100 * n) (rest @ news))"
proof -
  obtain off where off: "load_offset root w = Inr (Some off) \<or> (load_offset root w = Inr None \<and> off = 0)"
      "off = 0 \<or> (\<exists>u\<in>set arrived. off = up_id u + 1)" "pending off w = rest"
    using assms(1) by (auto simp: resumable_def)
  have st: "store_inv root (c_os w1)" "load_offset root w1 = load_offset root w"
    using assms(1) by (simp_all add: resumable_def w1_def load_offset_def st_get_def)
  then have start: "start_offset bot_poll root 0 w1 = (Inr off, w1)" using off(1) by (auto simp: start_offset_def)
  have "\<forall>v\<in>set news. off \<le> up_id v"
  proof
    fix v assume "v \<in> set news"
    then have "\<forall>u\<in>set arrived. up_id u < up_id v" "ids_ok news" using assms(2) unfolding ids_ok_append by blast+
    moreover have "0 < up_id v" using \<open>ids_ok news\<close> \<open>v \<in> set news\<close> unfolding ids_ok_def by blast
    ultimately have "0 < up_id v" "\<forall>u\<in>set arrived. up_id u < up_id v" by blast+
    then show "off \<le> up_id v" using off(2) by auto
  qed
  then have pend: "pending off w1 = rest @ news" using off(3) by (simp add: pending_def w1_def)
  have q: "ids_ok (bw_queue w1)" "set (bw_queue w1) \<subseteq> set (arrived @ news)"
    using assms(1,2) by (auto simp: resumable_def w1_def ids_ok_append)
  obtain w' where w': "tg_loop bot_poll root log_sink t a n off w1 = (Inl ErrCanceled, w')"
    "map ev_id (bw_seen w') = map ev_id (bw_seen w1) @ map up_key (take (100 * n) (rest @ news))"
    "store_inv root (c_os w')" "ids_ok (bw_queue w')" "set (bw_queue w') \<subseteq> set (bw_queue w1)"
    "if take (100 * n) (rest @ news) = [] then c_os w' = c_os w1 \<and> pending off w' = rest @ news
     else \<exists>u\<in>set (bw_queue w1). load_offset root w' = Inr (Some (up_id u + 1)) \<and>
       pending (up_id u + 1) w' = drop (100 * n) (rest @ news)"
    using tg_loop_delivers [OF st(1) q(1), of t a n off] unfolding pend by blast
  have "map ev_id (bw_seen w') @ map up_key (drop (100 * n) (rest @ news)) =
      map ev_id (bw_seen w1) @ map up_key (take (100 * n) (rest @ news) @ drop (100 * n) (rest @ news))"
    using w'(2) by (simp only: map_append append_assoc)
  also have "\<dots> = map up_key (arrived @ news)"
    using assms(1) by (simp only: append_take_drop_id) (simp add: resumable_def w1_def)
  finally have seen: "map ev_id (bw_seen w') @ map up_key (drop (100 * n) (rest @ news)) = map up_key (arrived @ news)" .
  have "\<exists>o'. (load_offset root w' = Inr (Some o') \<or> (load_offset root w' = Inr None \<and> o' = 0)) \<and>
      (o' = 0 \<or> (\<exists>u\<in>set (arrived @ news). o' = up_id u + 1)) \<and> pending o' w' = drop (100 * n) (rest @ news)"
  proof (cases "take (100 * n) (rest @ news) = []")
    case True
    then have "c_os w' = c_os w1" "pending off w' = drop (100 * n) (rest @ news)"
      using w'(6) by (auto simp: append_take_drop_id dest: arg_cong [of _ "[]" "\<lambda>x. x @ drop (100 * n) (rest @ news)"])
    then show ?thesis using off st(2) by (intro exI [of _ off]) (auto simp: load_offset_def st_get_def)
  next
    case False
    then obtain u where "u \<in> set (bw_queue w1)" "load_offset root w' = Inr (Some (up_id u + 1))"
      "pending (up_id u + 1) w' = drop (100 * n) (rest @ news)" using w'(6) by auto
    then show ?thesis using q(2) by (intro exI [of _ "up_id u + 1"]) auto
  qed
  then have "resumable root (arrived @ news) w' (drop (100 * n) (rest @ news))"
    using w'(3-5) q(2) seen unfolding resumable_def by blast
  then show ?thesis using start w'(1) by auto
qed

text \<open>What a history leaves undelivered: a run of \<open>n\<close> rounds takes at most a hundred updates per round.\<close>

fun backlog :: "tg_update list \<Rightarrow> (tg_update list \<times> nat) list \<Rightarrow> tg_update list" where
  "backlog rest [] = rest"
| "backlog rest ((news, n) # rs) = backlog (drop (100 * n) (rest @ news)) rs"

lemma runs_resumable:
  "resumable root arrived w rest \<Longrightarrow> ids_ok (arrived @ concat (map fst rs)) \<Longrightarrow>
   resumable root (arrived @ concat (map fst rs)) (bot_runs root rs w) (backlog rest rs)"
proof (induction rs arbitrary: arrived w rest)
  case Nil
  then show ?case by simp
next
  case (Cons r rs)
  obtain news n where r: "r = (news, n)" by fastforce
  have ok: "ids_ok (arrived @ news)" using Cons.prems(2) r by (auto simp: ids_ok_append)
  from run_resumable [OF Cons.prems(1) ok, of 25 "[]" n] Cons.IH [of "arrived @ news"] Cons.prems(2) r
  show ?case by auto
qed

section \<open>Properties\<close>



definition ex_update :: "int \<Rightarrow> tg_update" where
  "ex_update i = \<lparr>up_id = i, up_message = Some [], up_edited = None, up_post = None, up_callback = None\<rparr>"

definition ex_bot :: "tg_update list \<Rightarrow> bot_world" where
  "ex_bot q = \<lparr>c_os = ex_store_os, c_pool = replicate 30 CHR ''r'', c_now = 7, c_stdin = [], c_tty = False, c_out = [],
     bw_queue = q, bw_seen = [], bw_sent = []\<rparr>"

definition ex_root :: string where "ex_root = abs_path [''s'', ''rss'', ''news'']"

lemma ex_bot_store: "store_inv ex_root (c_os (ex_bot q))" "load_offset ex_root (ex_bot q) = Inr None"
proof -
  show "store_inv ex_root (c_os (ex_bot q))" using ex_store_inv by (simp add: ex_bot_def ex_root_def)
  have "store_get ex_root ex_store_os offset_key = Inr (slot ex_store_os (loc_of [''s'', ''rss'', ''news''] offset_key ''.bin''))"
    unfolding ex_root_def
    by (rule store_get_slot)
      (simp_all add: rooted_def ok_comp_def ex_store_os_def plain_fs_def wf_fs_def no_links_def dir_free_def node_at_def
        is_dir_def loc_of_def)
  moreover have "slot ex_store_os (loc_of [''s'', ''rss'', ''news''] offset_key ''.bin'') = None"
    by (simp add: slot_def node_at_def ex_store_os_def loc_of_def)
  ultimately show "load_offset ex_root (ex_bot q) = Inr None"
    by (simp add: load_offset_def st_get_def ex_bot_def)
qed


text \<open>A start offset of -1 does not drain the backlog: it skips the first queued update only, and the run
  delivers all the others as if they were new.
\<close>

theorem tg_drain_skips_one:
  assumes "store_inv root (c_os w)" "bw_queue w = u # us" "ids_ok (u # us)" "length us \<le> 100 * n"
    "start_offset bot_poll root (- 1) w = (r, w1)"
  shows "r = Inr (up_id u + 1) \<and>
    map ev_id (bw_seen (snd (tg_loop bot_poll root log_sink t a n (up_id u + 1) w1))) = map ev_id (bw_seen w) @ map up_key us"
proof -
  have o: "wrap64 (up_id u + 1) = up_id u + 1"
    by (rule wrap64_id) (use assms(3) in \<open>simp add: int64_range_def min_int64_def max_int64_def\<close>)
  have f: "filter (\<lambda>v. up_id u + 1 \<le> up_id v) (u # us) = us"
    using pending_after [OF assms(3), of "[u]" 1] by simp
  have p: "bot_poll 0 1 0 [] w = (Inr [u], w)" using assms(2) by (simp add: bot_poll_def)
  have "0 < up_id u" using assms(3) by simp
  then have q: "bot_poll (up_id u + 1) 1 0 [] w = (Inr (take 1 us), w\<lparr>bw_queue := us\<rparr>)"
    using f assms(2) by (simp add: bot_poll_def Let_def)
  have s: "r = Inr (up_id u + 1)" "w1 = w\<lparr>bw_queue := us\<rparr>"
    using assms(5) p q o by (auto simp: start_offset_def Let_def)
  have i: "store_inv root (c_os w1)" "ids_ok (bw_queue w1)" using assms(1,3) s(2) by simp_all
  have "pending (up_id u + 1) w1 = us" using f s(2) by (simp add: pending_def split: if_splits)
  moreover have "take (100 * n) us = us" using assms(4) by simp
  ultimately obtain w' where "tg_loop bot_poll root log_sink t a n (up_id u + 1) w1 = (Inl ErrCanceled, w')"
    "map ev_id (bw_seen w') = map ev_id (bw_seen w1) @ map up_key us"
    using tg_loop_delivers [OF i, of t a n "up_id u + 1"] by metis
  then show ?thesis using s by simp
qed

theorem tg_drain_skips_one_witness:
  "\<exists>w1. start_offset bot_poll ex_root (- 1) (ex_bot [ex_update 5, ex_update 9, ex_update 12]) = (Inr 6, w1) \<and>
     map ev_id (bw_seen (snd (tg_loop bot_poll ex_root log_sink 25 [] 1 6 w1))) = [''9'', ''12'']"
proof -
  let ?w = "ex_bot [ex_update 5, ex_update 9, ex_update 12]"
  obtain r w1 where s: "start_offset bot_poll ex_root (- 1) ?w = (r, w1)" by fastforce
  have k: "map up_key [ex_update 9, ex_update 12] = [''9'', ''12'']" by code_simp
  have q: "bw_queue ?w = ex_update 5 # [ex_update 9, ex_update 12]" "bw_seen ?w = []" by (simp_all add: ex_bot_def)
  have ids: "ids_ok (ex_update 5 # [ex_update 9, ex_update 12])" by (simp add: ex_update_def max_int64_def)
  from tg_drain_skips_one [OF ex_bot_store(1) q(1) ids _ s, of 1 25 "[]"] s k q(2)
  show ?thesis by (simp add: ex_update_def)
qed


lemma sublist_behind: "sublist d b \<Longrightarrow> sublist d (a @ b)" "sublist d b \<Longrightarrow> sublist d (c # b)"
  by (simp_all add: sublist_append sublist_Cons_right)

lemma multipart_one_file:
  "os_read_file s (ff_path f) = Inr d \<Longrightarrow> \<exists>body. multipart_files s b [f] acc = Inr body \<and> sublist d body"
  by (simp add: Let_def) (intro sublist_append_rightI sublist_behind conjI impI)

text \<open>A net that records what it is sent and never answers.\<close>

definition tap :: "bot_world net" where
  "tap rq w = (Inl (ErrExt ''net''), w\<lparr>bw_sent := bw_sent w @ [rq]\<rparr>)"

text \<open>The whitelist does not know the media parameters: no value of \<open>photo\<close> or \<open>document\<close> is ever refused by the path
  check, and a file that can be read is sent, whatever PGF_ALLOWED_PATHS says.
\<close>

theorem media_upload_unchecked:
  assumes "os_read_file (c_os w) media = Inr d" "media \<noteq> []" "\<not> is_url media" "chat \<noteq> []" "30 \<le> length (c_pool w)"
    "url_ok (trim_right (hc_base (tg_http s)) ''/'' @ ''/sendDocument'')"
  shows "validate_paths os (tg_media_schema ''document'') [''chat_id'' \<mapsto> GStr chat, ''document'' \<mapsto> GStr media] label = Inr () \<and>
    (\<exists>e w' rq. tg_send_document tap s [''chat_id'' \<mapsto> GStr chat, ''document'' \<mapsto> GStr media] w = (Inl e, w') \<and>
       bw_sent w' = bw_sent w @ [rq] \<and> sublist d (aq_body rq))"
proof -
  let ?p = "[''chat_id'' \<mapsto> GStr chat, ''document'' \<mapsto> GStr media]"
  have v: "validate_paths os (tg_media_schema ''document'') ?p label = Inr ()"
    by (simp add: validate_paths_def tg_media_schema_def field_def Let_def)
  have ps: "with_defaults ?p (tg_media_schema ''document'') = ?p"
    by (simp add: with_defaults_def tg_media_schema_def field_def default_step_def)
  have st: "os_stat (c_os w) media \<noteq> Inl e" for e using assms(1) by (auto simp: os_read_file_def)
  let ?b = "hex_encode (take 30 (c_pool w))"
  let ?f = "\<lparr>ff_field = ''document'', ff_path = media, ff_mime = [], ff_filename = []\<rparr>"
  obtain body where body: "multipart_files (c_os w) ?b [?f] (multipart_fields ?b [(''chat_id'', chat)]) = Inr body" "sublist d body"
    using multipart_one_file [of "c_os w" ?f d] assms(1) by auto
  obtain rq where rq: "new_request (tg_http s) ''POST'' ''/sendDocument'' [] body (''multipart/form-data; boundary='' @ ?b) = Inr rq"
    "aq_body rq = body"
    using assms(6) by (auto simp: new_request_def resolve_url_def Let_def trim_left_def)
  let ?w = "w\<lparr>c_pool := drop 30 (c_pool w)\<rparr>"
  obtain rq' where tapped: "do_json tap rq True ?w = (Inl (ErrExt ''net''), ?w\<lparr>bw_sent := bw_sent ?w @ [rq']\<rparr>)"
    "aq_body rq' = aq_body rq"
    by (auto simp: do_json_def tap_def Let_def)
  have "random_boundary (c_pool w) = (Inr ?b, drop 30 (c_pool w))"
    using assms(5) by (simp add: random_boundary_def read_full_def)
  moreover have "post_multipart tap (tg_http s) (c_os ?w) ?b ''/sendDocument'' [(''chat_id'', chat)] [?f] True ?w =
      (Inl (ErrExt ''net''), ?w\<lparr>bw_sent := bw_sent ?w @ [rq']\<rparr>)"
    using body rq tapped(1) by (simp add: post_multipart_def del: multipart_files.simps)
  ultimately have "tg_send_document tap s ?p w = (Inl (ErrExt ''net''), ?w\<lparr>bw_sent := bw_sent ?w @ [rq']\<rparr>)"
    using ps st assms(2-4)
    by (auto simp: tg_send_document_def tg_send_media_def resolve_chat_id_def v_string_def Let_def tg_post_multipart_def
        tg_answer_def decoded_def split: sum.splits)
  then show ?thesis using v body(2) rq(2) tapped(2) by simp
qed


theorem media_upload_unchecked_witness:
  "allowed_paths jail_os = [''/jail''] \<and>
   (\<exists>e w' rq. tg_send_document tap \<lparr>tg_cred = new_credential ''telegram'' ''b'' Map.empty,
        tg_http = \<lparr>hc_base = ''https://t/bot1'', hc_headers = [], hc_agent = [], hc_timeout = 1\<rparr>, tg_state = ex_root\<rparr>
        [''chat_id'' \<mapsto> GStr ''42'', ''document'' \<mapsto> GStr ''/etc/passwd''] ((ex_bot [])\<lparr>c_os := jail_os\<rparr>) = (Inl e, w') \<and>
     bw_sent w' = [rq] \<and> sublist ''root'' (aq_body rq))"
proof -
  let ?s = "\<lparr>tg_cred = new_credential ''telegram'' ''b'' Map.empty,
    tg_http = \<lparr>hc_base = ''https://t/bot1'', hc_headers = [], hc_agent = [], hc_timeout = 1\<rparr>, tg_state = ex_root\<rparr>"
  let ?w = "(ex_bot [])\<lparr>c_os := jail_os\<rparr>"
  have r: "os_read_file jail_os ''/etc/passwd'' = Inr ''root''" by code_simp
  have u: "\<not> is_url ''/etc/passwd''" "url_ok (trim_right ''https://t/bot1'' ''/'' @ ''/sendDocument'')" by code_simp+
  have w: "os_read_file (c_os ?w) ''/etc/passwd'' = Inr ''root''" "30 \<le> length (c_pool ?w)" "bw_sent ?w = []"
    using r by (simp_all add: ex_bot_def)
  show ?thesis
    using media_upload_unchecked [of ?w "''/etc/passwd''" "''root''" "''42''" ?s jail_os "[]"] w u jail_allowed by simp
qed

end
