(* ===== verification/Matrix.thy ===== *)
theory Matrix
  imports ApiConn GoTime
begin

text \<open>
  The Matrix connector (\<open>connectors/matrix\<close>): resolving room aliases, the ten actions, a credential whose
  validation logs in and rewrites the values, and the trigger on \<open>/sync\<close> with its persisted token.

  The counter of the transaction ids is a field of the open session: here a function on the world that
  gives the next number. The keys of a decoded map come in the order of the document, which Go does not
  promise.
\<close>

section \<open>Session and client\<close>

record mx_session =
  mx_cred :: credential
  mx_http :: http_config
  mx_state :: string

definition mx_client :: "credential \<Rightarrow> http_config res" where
  "mx_client c =
     (let hs = trim_right (v_string (cr_values c) ''homeserver_url'') ''/''; token = v_string (cr_values c) ''access_token''
      in if hs = [] \<or> token = [] then Inl (ErrMsg ''homeserver_url and access_token are required'')
         else new_client \<lparr>hc_base = hs, hc_headers = bearer token, hc_agent = [], hc_timeout = 0\<rparr>)"

definition mx_api :: string where "mx_api = ''/_matrix/client/v3''"

definition room_path :: "string \<Rightarrow> string" where
  "room_path room = mx_api @ ''/rooms/'' @ path_escape room"

text \<open>A room id stays, an alias is looked up in the directory of the server.\<close>

definition resolve_room_id :: "'w net \<Rightarrow> http_config \<Rightarrow> string \<Rightarrow> 'w \<Rightarrow> string res \<times> 'w" where
  "resolve_room_id net cli ref w =
     (if ref = [] then (Inl (ErrMsg ''room id/alias required''), w)
      else if prefix ''!'' ref then (Inr ref, w)
      else if \<not> prefix ''#'' ref then
        (Inl (ErrMsg (''room reference must start with '' @ [CHR 0x27, CHR 0x21, CHR 0x27] @ '' or ''
           @ [CHR 0x27, CHR 0x23, CHR 0x27] @ '', got '' @ go_quote ref)), w)
      else
        wrap_err (''resolve alias '' @ go_quote ref @ '': '')
          (api_get net cli (dec_field ''room_id'' dec_string) (mx_api @ ''/directory/room/'' @ path_escape ref) [] w))"

section \<open>Reading\<close>

definition mx_whoami :: "'w net \<Rightarrow> mx_session \<Rightarrow> vals \<Rightarrow> 'w \<Rightarrow> gval res \<times> 'w" where
  "mx_whoami net s params w = api_get net (mx_http s) dec_object (mx_api @ ''/account/whoami'') [] w"

text \<open>Name and canonical alias of a room; whatever fails counts as empty.\<close>

definition or_empty :: "string res \<times> 'w \<Rightarrow> string \<times> 'w" where
  "or_empty r = (case r of (Inl _, w) \<Rightarrow> ([], w) | (Inr x, w) \<Rightarrow> (x, w))"

definition lookup_room_name_alias :: "'w net \<Rightarrow> http_config \<Rightarrow> string \<Rightarrow> 'w \<Rightarrow> (string \<times> string) \<times> 'w" where
  "lookup_room_name_alias net cli room w =
     (case or_empty (api_get net cli (dec_field ''name'' dec_string) (room_path room @ ''/state/m.room.name/'') [] w) of
        (name, w1) \<Rightarrow>
          (case or_empty (api_get net cli (dec_field ''alias'' dec_string)
                  (room_path room @ ''/state/m.room.canonical_alias/'') [] w1) of
             (alias, w2) \<Rightarrow> ((name, alias), w2)))"

fun enrich_rooms :: "'w net \<Rightarrow> http_config \<Rightarrow> string list \<Rightarrow> 'w \<Rightarrow> gval list \<times> 'w" where
  "enrich_rooms net cli [] w = ([], w)"
| "enrich_rooms net cli (room # rooms) w =
     (case lookup_room_name_alias net cli room w of
        ((name, alias), w1) \<Rightarrow>
          (let e = GMap ([(''room_id'', GStr room)]
                     @ (if name \<noteq> [] \<or> alias \<noteq> [] then [(''name'', GStr name), (''alias'', GStr alias)] else []))
           in case enrich_rooms net cli rooms w1 of (es, w2) \<Rightarrow> (e # es, w2)))"

definition mx_list_rooms_schema :: schema where
  "mx_list_rooms_schema =
     [(field ''enrich'' FieldBool)\<lparr>f_default := Some (GBool True),
        f_description := ''Look up room name and canonical alias for each. Costs 1 HTTP/room. Disable for raw IDs only.''\<rparr>]"

definition mx_list_rooms :: "'w net \<Rightarrow> mx_session \<Rightarrow> vals \<Rightarrow> 'w \<Rightarrow> gval res \<times> 'w" where
  "mx_list_rooms net s params0 w =
     (let params = with_defaults params0 mx_list_rooms_schema
      in and_then (api_get net (mx_http s) (dec_field ''joined_rooms'' (dec_list dec_string)) (mx_api @ ''/joined_rooms'') [] w)
           (\<lambda>rooms w1.
              if \<not> v_bool params ''enrich'' then (Inr (GStrs rooms), w1)
              else case enrich_rooms net (mx_http s) rooms w1 of (es, w2) \<Rightarrow> (Inr (GList es), w2)))"

text \<open>The state events that are there.\<close>

fun room_states :: "'w net \<Rightarrow> http_config \<Rightarrow> string \<Rightarrow> string list \<Rightarrow> 'w \<Rightarrow> (string \<times> gval) list \<times> 'w" where
  "room_states net cli room [] w = ([], w)"
| "room_states net cli room (ev # evs) w =
     (case api_get net cli dec_object (room_path room @ ''/state/'' @ path_escape ev @ ''/'') [] w of
        (Inl _, w1) \<Rightarrow> room_states net cli room evs w1
      | (Inr raw, w1) \<Rightarrow> (case room_states net cli room evs w1 of (kvs, w2) \<Rightarrow> ((ev, raw) # kvs, w2)))"

definition state_events :: "string list" where
  "state_events = [''m.room.name'', ''m.room.topic'', ''m.room.canonical_alias'', ''m.room.encryption'', ''m.room.create'']"

definition mx_get_room_schema :: schema where
  "mx_get_room_schema =
     [(field ''room'' FieldString)\<lparr>f_required := True,
        f_description := ''Room id (!...) or alias (#...).''\<rparr>]"

definition mx_get_room :: "'w net \<Rightarrow> mx_session \<Rightarrow> vals \<Rightarrow> 'w \<Rightarrow> gval res \<times> 'w" where
  "mx_get_room net s params w =
     and_then (resolve_room_id net (mx_http s) (v_string params ''room'') w)
       (\<lambda>room w1. case room_states net (mx_http s) room state_events w1 of
          (kvs, w2) \<Rightarrow>
            (case api_get net (mx_http s) (dec_field ''joined'' dec_map) (room_path room @ ''/joined_members'') [] w2 of
               (Inl _, w3) \<Rightarrow> (Inr (GMap ((''room_id'', GStr room) # kvs)), w3)
             | (Inr joined, w3) \<Rightarrow>
                 (let ids = map fst (case joined of None \<Rightarrow> [] | Some m \<Rightarrow> m)
                  in (Inr (GMap ((''room_id'', GStr room) # kvs
                        @ [(''joined_members_count'', GInt (int (length ids))), (''joined_members'', GStrs ids)])), w3))))"

definition mx_get_messages_schema :: schema where
  "mx_get_messages_schema =
     [(field ''room'' FieldString)\<lparr>f_required := True\<rparr>,
      (field ''limit'' FieldInt)\<lparr>f_default := Some (GInt 20), f_description := ''Max events to return.''\<rparr>,
      (field ''dir'' FieldEnum)\<lparr>f_default := Some (GStr ''b''),
        f_options := [\<lparr>o_value = ''b'', o_label = ''Backward (newest first)''\<rparr>,
          \<lparr>o_value = ''f'', o_label = ''Forward (oldest first)''\<rparr>]\<rparr>,
      (field ''from'' FieldString)\<lparr>
        f_description := ''Pagination cursor; pass '' @ bq @ ''end'' @ bq @ '' from a previous response.''\<rparr>]"

definition mx_get_messages :: "'w net \<Rightarrow> mx_session \<Rightarrow> vals \<Rightarrow> 'w \<Rightarrow> gval res \<times> 'w" where
  "mx_get_messages net s params0 w =
     (let params = with_defaults params0 mx_get_messages_schema
      in and_then (resolve_room_id net (mx_http s) (v_string params ''room'') w)
           (\<lambda>room w1. api_get net (mx_http s) dec_object (room_path room @ ''/messages'')
              ([(''dir'', [v_string params ''dir'']), (''limit'', [itoa (v_int params ''limit'')])]
               @ opt_query ''from'' (v_string params ''from'')) w1))"

section \<open>Writing\<close>

definition txn_id :: "time \<Rightarrow> nat \<Rightarrow> string" where
  "txn_id now n = ''pgf-'' @ itoa (unix_nano now) @ ''-'' @ nat_str n"

definition mx_send_message_schema :: schema where
  "mx_send_message_schema =
     [(field ''room'' FieldString)\<lparr>f_required := True,
        f_description := ''Room id (!...) or alias (#...).''\<rparr>,
      (field ''body'' FieldLongText)\<lparr>f_required := True,
        f_description := ''Plain-text body (also used as fallback for HTML clients).''\<rparr>,
      (field ''html'' FieldLongText)\<lparr>
        f_description := ''Optional HTML body. When set, msgtype becomes m.text with format org.matrix.custom.html.''\<rparr>,
      (field ''msgtype'' FieldString)\<lparr>f_default := Some (GStr ''m.text''),
        f_description := ''m.text | m.notice | m.emote.''\<rparr>]"

definition mx_send_message :: "('m cli_scheme) net \<Rightarrow> ('m cli_scheme \<Rightarrow> nat \<times> 'm cli_scheme) \<Rightarrow> mx_session \<Rightarrow> vals \<Rightarrow>
    'm cli_scheme \<Rightarrow> gval res \<times> 'm cli_scheme" where
  "mx_send_message net next_txn s params0 w =
     (let params = with_defaults params0 mx_send_message_schema
      in and_then (resolve_room_id net (mx_http s) (v_string params ''room'') w)
           (\<lambda>room w1.
              let body = v_string params ''body''; html = v_string params ''html''
              in if body = [] then (Inl (ErrMsg ''body is required''), w1)
                 else case next_txn w1 of
                   (n, w2) \<Rightarrow>
                     and_then (api_send net (mx_http s) (dec_field ''event_id'' dec_string) ''PUT''
                         (room_path room @ ''/send/m.room.message/'' @ path_escape (txn_id (c_now w2) n))
                         (GMap ([(''msgtype'', GStr (v_string params ''msgtype'')), (''body'', GStr body)]
                            @ (if html \<noteq> [] then [(''format'', GStr ''org.matrix.custom.html''), (''formatted_body'', GStr html)]
                               else []))) w2)
                       (\<lambda>ev w3. (Inr (GMap [(''event_id'', GStr ev), (''room_id'', GStr room)]), w3))))"

definition mx_set_typing_schema :: schema where
  "mx_set_typing_schema =
     [(field ''room'' FieldString)\<lparr>f_required := True,
        f_description := ''Room id (!...) or alias (#...).''\<rparr>,
      (field ''typing'' FieldBool)\<lparr>f_default := Some (GBool True),
        f_description := ''true = show indicator, false = clear.''\<rparr>,
      (field ''timeout_ms'' FieldInt)\<lparr>f_default := Some (GInt 30000),
        f_description := ''How long the indicator should display in milliseconds. Only honored when typing=true.''\<rparr>]"

definition mx_set_typing :: "'w net \<Rightarrow> mx_session \<Rightarrow> vals \<Rightarrow> 'w \<Rightarrow> gval res \<times> 'w" where
  "mx_set_typing net s params0 w =
     (let params = with_defaults params0 mx_set_typing_schema
      in and_then (resolve_room_id net (mx_http s) (v_string params ''room'') w)
           (\<lambda>room w1.
              let user = v_string (cr_values (mx_cred s)) ''user_id''; typing = v_bool params ''typing'';
                  t = v_int params ''timeout_ms''; timeout = (if t \<le> 0 then 30000 else t)
              in if user = [] then
                   (Inl (ErrMsg (''user_id missing from credential '' @ em_dash @ '' re-validate the instance'')), w1)
                 else
                   and_then (send_json net (mx_http s) ''PUT'' (room_path room @ ''/typing/'' @ path_escape user)
                       (Some (GMap ([(''typing'', GBool typing)] @ (if typing then [(''timeout'', GInt timeout)] else [])))) False w1)
                     (\<lambda>_ w2. (Inr (GMap [(''room_id'', GStr room), (''typing'', GBool typing)]), w2))))"

text \<open>The body of \<open>/createRoom\<close>, for rooms and spaces.\<close>

definition build_create_room_body :: "vals \<Rightarrow> bool \<Rightarrow> gval" where
  "build_create_room_body params is_space =
     (let invites = v_string_list params ''invite''; html = v_string params ''topic_html'';
          encryption = (if \<not> is_space \<and> v_bool params ''encrypted'' then
            [GMap [(''type'', GStr ''m.room.encryption''), (''state_key'', GStr []),
               (''content'', GMap [(''algorithm'', GStr ''m.megolm.v1.aes-sha2'')])]] else []);
          topic = (if html \<noteq> [] then
            [GMap [(''type'', GStr ''m.room.topic''), (''state_key'', GStr []),
               (''content'', GMap [(''topic'', GStr (v_string params ''topic'')), (''format'', GStr ''org.matrix.custom.html''),
                  (''formatted_body'', GStr html)])]] else [])
      in GMap ([(''preset'', GStr (v_string params ''preset''))] @ opt_str ''name'' (v_string params ''name'')
           @ opt_str ''topic'' (v_string params ''topic'') @ opt_str ''room_alias_name'' (v_string params ''alias'')
           @ (if invites \<noteq> [] then [(''invite'', GStrs invites)] else [])
           @ (if is_space then [(''creation_content'', GMap [(''type'', GStr ''m.space'')])] else [])
           @ (if encryption @ topic \<noteq> [] then [(''initial_state'', GList (encryption @ topic))] else [])))"

definition dec_created :: "gval \<Rightarrow> (string \<times> string) option" where
  "dec_created = dec_pair (dec_field ''room_id'' dec_string) (dec_field ''room_alias'' dec_string)"

definition mx_create_room_schema :: schema where
  "mx_create_room_schema =
     [(field ''name'' FieldString)\<lparr>
        f_description := ''Display name for the room. Optional but recommended.''\<rparr>,
      (field ''topic'' FieldString)\<lparr>f_description := ''Room topic / description shown in clients.''\<rparr>,
      (field ''alias'' FieldString)\<lparr>
        f_description := ''Local part of the room alias (just the bit before the colon). Becomes #<alias>:<homeserver>.''\<rparr>,
      (field ''preset'' FieldEnum)\<lparr>f_default := Some (GStr ''private_chat''),
        f_options := [\<lparr>o_value = ''private_chat'', o_label = ''Private chat '' @ em_dash @ '' invite-only, history off''\<rparr>,
          \<lparr>o_value = ''trusted_private_chat'', o_label = ''Trusted private chat '' @ em_dash @ '' invite-only, all invitees get power level 100''\<rparr>,
          \<lparr>o_value = ''public_chat'', o_label = ''Public chat '' @ em_dash @ '' anyone can join, history on''\<rparr>],
        f_description := ''Convenience for visibility + join-rule + history-visibility combos.''\<rparr>,
      (field ''invite'' FieldStringList)\<lparr>
        f_description := ''Matrix user IDs to invite at creation. e.g. @alice:matrix.example.com,@bob:matrix.example.com.''\<rparr>,
      (field ''encrypted'' FieldBool)\<lparr>f_default := Some (GBool False),
        f_description := ''Enable E2EE on the room at creation. Once enabled it cannot be turned off.''\<rparr>,
      (field ''topic_html'' FieldString)\<lparr>
        f_description := ''Optional HTML-formatted topic. Ignored by older clients.''\<rparr>]"

definition mx_create_room :: "'w net \<Rightarrow> mx_session \<Rightarrow> vals \<Rightarrow> 'w \<Rightarrow> gval res \<times> 'w" where
  "mx_create_room net s params0 w =
     (let params = with_defaults params0 mx_create_room_schema
      in and_then (api_send net (mx_http s) dec_created ''POST'' (mx_api @ ''/createRoom'') (build_create_room_body params False) w)
           (\<lambda>(room, alias) w1. (Inr (GMap ([(''room_id'', GStr room)] @ opt_str ''room_alias'' alias)), w1)))"

definition mx_create_space_schema :: schema where
  "mx_create_space_schema =
     [(field ''name'' FieldString)\<lparr>f_description := ''Display name for the space.''\<rparr>,
      (field ''topic'' FieldString)\<lparr>f_description := ''Description shown in clients.''\<rparr>,
      (field ''alias'' FieldString)\<lparr>
        f_description := ''Local part of the alias. Becomes #<alias>:<homeserver>.''\<rparr>,
      (field ''preset'' FieldEnum)\<lparr>f_default := Some (GStr ''private_chat''),
        f_options := [\<lparr>o_value = ''private_chat'', o_label = ''Private '' @ em_dash @ '' invite-only''\<rparr>,
          \<lparr>o_value = ''public_chat'', o_label = ''Public '' @ em_dash @ '' joinable by anyone on the homeserver''\<rparr>],
        f_description := ''Same as create-room but limited to the two meaningful options for spaces.''\<rparr>,
      (field ''invite'' FieldStringList)\<lparr>f_description := ''User IDs to invite at creation.''\<rparr>]"

definition mx_create_space :: "'w net \<Rightarrow> mx_session \<Rightarrow> vals \<Rightarrow> 'w \<Rightarrow> gval res \<times> 'w" where
  "mx_create_space net s params0 w =
     (let params = with_defaults params0 mx_create_space_schema
      in and_then (api_send net (mx_http s) dec_created ''POST'' (mx_api @ ''/createRoom'') (build_create_room_body params True) w)
           (\<lambda>(room, alias) w1.
              (Inr (GMap ([(''space_id'', GStr room), (''type'', GStr ''m.space'')] @ opt_str ''space_alias'' alias)), w1)))"

definition mx_invite_user_schema :: schema where
  "mx_invite_user_schema =
     [(field ''room'' FieldString)\<lparr>f_required := True,
        f_description := ''Room id (!...) or alias (#...). Same accepting shape as send-message.''\<rparr>,
      (field ''user'' FieldString)\<lparr>f_required := True,
        f_description := ''Full Matrix user id. e.g. @alice:matrix.example.com.''\<rparr>,
      (field ''reason'' FieldLongText)\<lparr>
        f_description := ''Optional reason shown to the invitee in supporting clients.''\<rparr>]"

definition mx_invite_user :: "'w net \<Rightarrow> mx_session \<Rightarrow> vals \<Rightarrow> 'w \<Rightarrow> gval res \<times> 'w" where
  "mx_invite_user net s params0 w =
     (let params = with_defaults params0 mx_invite_user_schema
      in and_then (resolve_room_id net (mx_http s) (v_string params ''room'') w)
           (\<lambda>room w1.
              let user = v_string params ''user''
              in if user = [] then (Inl (ErrMsg ''user is required''), w1)
                 else
                   and_then (send_json net (mx_http s) ''POST'' (room_path room @ ''/invite'')
                       (Some (GMap ([(''user_id'', GStr user)] @ opt_str ''reason'' (v_string params ''reason'')))) False w1)
                     (\<lambda>_ w2. (Inr (GMap [(''room_id'', GStr room), (''user'', GStr user), (''invited'', GBool True)]), w2))))"

text \<open>The servers through which a child room is reached: given, or what follows the last colon of its id.\<close>

definition via_servers :: "string list \<Rightarrow> string \<Rightarrow> string list" where
  "via_servers via room =
     (if via \<noteq> [] then via
      else if CHR '':'' \<in> set room \<and> upto_last (CHR '':'') room \<noteq> [] then [tl (from_last (CHR '':'') room)]
      else [])"

definition mx_add_room_to_space_schema :: schema where
  "mx_add_room_to_space_schema =
     [(field ''space'' FieldString)\<lparr>f_required := True, f_description := ''Space id or alias.''\<rparr>,
      (field ''room'' FieldString)\<lparr>f_required := True, f_description := ''Child room id or alias.''\<rparr>,
      (field ''via'' FieldStringList)\<lparr>
        f_description := ''Comma-separated homeserver hostnames that can route the child room. Default: derived from the room''
          @ apos @ ''s id suffix.''\<rparr>,
      (field ''suggested'' FieldBool)\<lparr>f_default := Some (GBool False),
        f_description := ''Mark as suggested '' @ em_dash @ '' clients may highlight it in the space.''\<rparr>,
      (field ''order'' FieldString)\<lparr>
        f_description := ''Sort key (string). Lower lex sorts first. Optional.''\<rparr>]"

definition mx_add_room_to_space :: "'w net \<Rightarrow> mx_session \<Rightarrow> vals \<Rightarrow> 'w \<Rightarrow> gval res \<times> 'w" where
  "mx_add_room_to_space net s params0 w =
     (let params = with_defaults params0 mx_add_room_to_space_schema
      in and_then (wrap_err ''space: '' (resolve_room_id net (mx_http s) (v_string params ''space'') w))
           (\<lambda>space w1. and_then (wrap_err ''room: '' (resolve_room_id net (mx_http s) (v_string params ''room'') w1))
              (\<lambda>room w2.
                 let via = via_servers (v_string_list params ''via'') room
                 in if via = [] then
                      (Inl (ErrMsg (''via is required (couldn'' @ apos @ ''t derive from room id)'')), w2)
                    else
                      and_then (api_send net (mx_http s) (dec_field ''event_id'' dec_string) ''PUT''
                          (room_path space @ ''/state/m.space.child/'' @ path_escape room)
                          (GMap ([(''via'', GStrs via)]
                             @ (if v_bool params ''suggested'' then [(''suggested'', GBool True)] else [])
                             @ opt_str ''order'' (v_string params ''order''))) w2)
                        (\<lambda>ev w3. (Inr (GMap [(''space_id'', GStr space), (''room_id'', GStr room), (''event_id'', GStr ev),
                           (''via'', GStrs via), (''linked'', GBool True)]), w3)))))"

section \<open>The credential\<close>

definition mx_cred_schema :: schema where
  "mx_cred_schema =
     [(field ''homeserver_url'' FieldString)\<lparr>f_label := ''Homeserver URL'', f_required := True,
        f_description := ''Matrix Client-Server endpoint root, e.g. https://matrix.nextmind.team''\<rparr>,
      (field ''access_token'' FieldSecret)\<lparr>f_label := ''Access token (recommended)'',
        f_description := ''Element '' @ right_arrow @ '' Settings '' @ right_arrow @ '' Help & About '' @ right_arrow
          @ '' Advanced '' @ right_arrow
          @ '' Access Token. If empty, login_user + login_password will be used to mint one at Validate.''\<rparr>,
      (field ''login_user'' FieldString)\<lparr>f_label := ''Login username (fallback if no access_token)'',
        f_description := ''Bare local part '' @ em_dash @ '' e.g. '' @ apos @ ''claudia'' @ apos
          @ '' (without the @ or :server).''\<rparr>,
      (field ''login_password'' FieldSecret)\<lparr>f_label := ''Login password (fallback)'',
        f_description := ''Used only at Validate to mint an access_token. Discarded after; not persisted.''\<rparr>,
      (field ''user_id'' FieldString)\<lparr>f_label := ''User ID (auto-set on login)'',
        f_description := ''Filled by Validate. e.g. @claudia:matrix.nextmind.team''\<rparr>]"

definition mx_defaults :: "vals \<Rightarrow> vals" where
  "mx_defaults p =
     (case p ''homeserver_url'' of Some (GStr u) \<Rightarrow> p(''homeserver_url'' \<mapsto> GStr (trim_right u ''/'')) | _ \<Rightarrow> p)"

text \<open>Logging in: the token goes into the values, the password leaves them.\<close>

definition mx_login :: "('m cli_scheme) net \<Rightarrow> http_config \<Rightarrow> vals \<Rightarrow> 'm cli_scheme \<Rightarrow> vals res \<times> 'm cli_scheme" where
  "mx_login net cli v w =
     (let user = v_string v ''login_user''; pass = v_string v ''login_password''
      in if user = [] \<or> pass = [] then
           (Inl (ErrMsg ''either access_token, or login_user + login_password, is required''), w)
         else
           and_then (wrap_err ''login: ''
               (api_send net cli (dec_pair (dec_field ''access_token'' dec_string) (dec_field ''user_id'' dec_string)) ''POST''
                 (mx_api @ ''/login'')
                 (GMap [(''type'', GStr ''m.login.password''), (''user'', GStr user), (''password'', GStr pass),
                    (''device_id'', GStr ''pantograf''), (''initial_device_display_name'', GStr ''pantograf'')]) w))
             (\<lambda>(token, uid) w1.
                if token = [] then (Inl (ErrMsg ''login: server returned no access_token''), w1)
                else (Inr (v(''access_token'' \<mapsto> GStr token, ''user_id'' \<mapsto> GStr uid, ''login_password'' := None)), w1)))"

definition mx_probe :: "('m cli_scheme) net \<Rightarrow> string \<Rightarrow> vals \<Rightarrow> 'm cli_scheme \<Rightarrow> vals res \<times> 'm cli_scheme" where
  "mx_probe net hs v w =
     (case new_client \<lparr>hc_base = hs, hc_headers = bearer (v_string v ''access_token''), hc_agent = [], hc_timeout = 0\<rparr> of
        Inl e \<Rightarrow> (Inl e, w)
      | Inr cli \<Rightarrow>
          and_then (wrap_err ''whoami probe: ''
              (api_get net cli (dec_field ''user_id'' dec_string) (mx_api @ ''/account/whoami'') [] w))
            (\<lambda>uid w1. if uid \<noteq> [] then (Inr (v(''user_id'' \<mapsto> GStr uid)), say (''(as '' @ uid @ '') '') w1) else (Inr v, w1)))"

definition mx_validate :: "('m cli_scheme) net \<Rightarrow> credential \<Rightarrow> 'm cli_scheme \<Rightarrow> vals res \<times> 'm cli_scheme" where
  "mx_validate net c w =
     (let v = cr_values c; hs = v_string v ''homeserver_url''
      in if hs = [] then (Inl (ErrMsg ''homeserver_url is required''), w)
         else case new_client \<lparr>hc_base = hs, hc_headers = [], hc_agent = [], hc_timeout = 0\<rparr> of
           Inl e \<Rightarrow> (Inl e, w)
         | Inr cli \<Rightarrow>
             and_then (if v_string v ''access_token'' = [] then mx_login net cli v w else (Inr v, w)) (mx_probe net hs))"

section \<open>The trigger\<close>

record sync_event =
  se_id :: string
  se_type :: string
  se_sender :: string
  se_ts :: int
  se_content :: "(string \<times> gval) list option"

record sync_resp =
  sr_next :: string
  sr_rooms :: "(string \<times> sync_event list) list"

definition dec_sync_event :: "gval \<Rightarrow> sync_event option" where
  "dec_sync_event v =
     (if \<not> is_object v then None
      else case (dec_string (jfield v ''event_id''), dec_string (jfield v ''type''), dec_string (jfield v ''sender''),
                 dec_int (jfield v ''origin_server_ts''), dec_map (jfield v ''content'')) of
        (Some i, Some t, Some s, Some ts, Some c) \<Rightarrow>
          Some \<lparr>se_id = i, se_type = t, se_sender = s, se_ts = ts, se_content = c\<rparr>
      | _ \<Rightarrow> None)"

text \<open>The timeline of a joined room; its two fields nobody reads must have their types all the same.\<close>

definition dec_timeline :: "gval \<Rightarrow> sync_event list option" where
  "dec_timeline v =
     (if \<not> is_object v then None
      else case (dec_string (jfield v ''prev_batch''), dec_bool (jfield v ''limited'')) of
        (Some _, Some _) \<Rightarrow> dec_list dec_sync_event (jfield v ''events'')
      | _ \<Rightarrow> None)"

definition dec_room :: "string \<times> gval \<Rightarrow> (string \<times> sync_event list) option" where
  "dec_room kv = map_option (Pair (fst kv)) (dec_field ''timeline'' dec_timeline (snd kv))"

definition dec_join :: "gval \<Rightarrow> (string \<times> sync_event list) list option" where
  "dec_join v =
     (case dec_map v of None \<Rightarrow> None | Some None \<Rightarrow> Some [] | Some (Some kvs) \<Rightarrow> all_some (map dec_room kvs))"

definition dec_sync :: "gval \<Rightarrow> sync_resp option" where
  "dec_sync v =
     (case dec_pair (dec_field ''next_batch'' dec_string) (dec_field ''rooms'' (dec_field ''join'' dec_join)) v of
        None \<Rightarrow> None
      | Some (nb, rooms) \<Rightarrow> Some \<lparr>sr_next = nb, sr_rooms = rooms\<rparr>)"

definition seed_filter :: string where
  "seed_filter =
     [CHR 0x7B] @ dq @ ''room'' @ dq @ '':'' @ [CHR 0x7B] @ dq @ ''timeline'' @ dq @ '':'' @ [CHR 0x7B] @ dq @ ''limit'' @ dq
       @ '':0'' @ [CHR 0x7D, CHR 0x7D, CHR 0x7D]"

type_synonym 'w sync_call = "string \<Rightarrow> int \<Rightarrow> bool \<Rightarrow> 'w \<Rightarrow> sync_resp res \<times> 'w"

definition call_sync :: "'w net \<Rightarrow> http_config \<Rightarrow> 'w sync_call" where
  "call_sync net cli since timeout seed w =
     api_get net cli dec_sync (mx_api @ ''/sync'')
       (opt_query ''since'' since @ (if timeout > 0 then [(''timeout'', [itoa timeout])] else [])
        @ (if seed then [(''filter'', [seed_filter])] else [])) w"

definition next_batch_key :: string where "next_batch_key = ''trigger:messages:next_batch''"

text \<open>A token stored as it is, by an older version, is read as it is; so is anything that is not a JSON string.\<close>

definition load_next_batch :: "string \<Rightarrow> 'm cli_scheme \<Rightarrow> string res" where
  "load_next_batch root w =
     (case st_get root next_batch_key w of
        Inl e \<Rightarrow> Inl e
      | Inr None \<Rightarrow> Inr []
      | Inr (Some d) \<Rightarrow>
          (case json_unmarshal d of
             Some v \<Rightarrow> (case dec_string v of Some s \<Rightarrow> Inr s | None \<Rightarrow> Inr d)
           | None \<Rightarrow> Inr d))"

definition save_next_batch :: "string \<Rightarrow> string \<Rightarrow> 'm cli_scheme \<Rightarrow> unit res \<times> 'm cli_scheme" where
  "save_next_batch root v w = (if v = [] then (Inr (), w) else st_put root next_batch_key (json_quote v) w)"

definition sync_payload :: "string \<Rightarrow> sync_event \<Rightarrow> gval" where
  "sync_payload room e =
     GMap [(''room_id'', GStr room), (''event_id'', GStr (se_id e)), (''type'', GStr (se_type e)),
       (''sender'', GStr (se_sender e)), (''origin_server_ts'', GInt64 (se_ts e)), (''content'', map_gval (se_content e))]"

definition sync_item :: "string \<Rightarrow> sync_event \<Rightarrow> event" where
  "sync_item room e =
     \<lparr>ev_id = se_id e, ev_type = se_type e, ev_payload = sync_payload room e, ev_time = unix_epoch + se_ts e * 1000000\<rparr>"

text \<open>What a response is worth to the sink.\<close>

definition sync_items :: "string list \<Rightarrow> sync_resp \<Rightarrow> event list" where
  "sync_items types r =
     concat (map (\<lambda>(room, evs). map (sync_item room) (filter (\<lambda>e. types = [] \<or> se_type e \<in> set types) evs)) (sr_rooms r))"

text \<open>The loop, canceled after \<open>n\<close> rounds; the waits of the backoff leave no trace.\<close>

fun mx_loop :: "('m cli_scheme) sync_call \<Rightarrow> string \<Rightarrow> ('m cli_scheme) sink \<Rightarrow> int \<Rightarrow> string list \<Rightarrow> nat \<Rightarrow> string \<Rightarrow>
    'm cli_scheme \<Rightarrow> unit res \<times> 'm cli_scheme" where
  "mx_loop call root emit timeout types 0 nb w = (Inl ErrCanceled, w)"
| "mx_loop call root emit timeout types (Suc n) nb w =
     (case call nb (wrap64 (timeout * 1000)) False w of
        (Inl e, w1) \<Rightarrow> mx_loop call root emit timeout types n nb w1
      | (Inr resp, w1) \<Rightarrow>
          (case emit_all emit (sync_items types resp) w1 of
             (Inl e, w2) \<Rightarrow> (Inl e, w2)
           | (Inr _, w2) \<Rightarrow>
               mx_loop call root emit timeout types n (sr_next resp) (snd (save_next_batch root (sr_next resp) w2))))"

text \<open>Where the loop starts: the stored token, or a fresh one from a sync that skips the backlog.\<close>

definition start_batch :: "('m cli_scheme) sync_call \<Rightarrow> string \<Rightarrow> 'm cli_scheme \<Rightarrow> string res \<times> 'm cli_scheme" where
  "start_batch call root w =
     (let nb = (case load_next_batch root w of Inr s \<Rightarrow> s | Inl _ \<Rightarrow> [])
      in if nb \<noteq> [] then (Inr nb, w)
         else and_then (wrap_err ''seed sync: '' (call [] 0 True w))
           (\<lambda>seed w1. (Inr (sr_next seed), snd (save_next_batch root (sr_next seed) w1))))"

definition mx_messages_schema :: schema where
  "mx_messages_schema =
     [(field ''filter_types'' FieldStringList)\<lparr>f_default := Some (GStr ''m.room.message''),
        f_description := ''Comma-separated event types to emit. Empty = all (member joins, typing, etc.).''\<rparr>,
      (field ''long_poll_timeout'' FieldInt)\<lparr>f_default := Some (GInt 30),
        f_description := ''Server-side wait, seconds. Higher = fewer requests; lower = more responsive shutdown.''\<rparr>,
      (field ''start_offset'' FieldInt)\<lparr>f_default := Some (GInt 0),
        f_description := ''0 = resume from persisted next_batch (first run skips backlog). -1 = same as 0. Reserved for future ''
          @ ''modes.''\<rparr>]"

definition poll_seconds :: "vals \<Rightarrow> int" where
  "poll_seconds params = (let t = v_int params ''long_poll_timeout'' in if t \<le> 0 then 30 else t)"

definition csv_entries :: "string list \<Rightarrow> string list" where
  "csv_entries ss = concat (map split_trim ss)"

definition mx_subscribe :: "('m cli_scheme) net \<Rightarrow> nat \<Rightarrow> mx_session \<Rightarrow> vals \<Rightarrow> ('m cli_scheme) sink \<Rightarrow>
    'm cli_scheme \<Rightarrow> unit res \<times> 'm cli_scheme" where
  "mx_subscribe net rounds s params0 emit w =
     (let params = with_defaults params0 mx_messages_schema; types = csv_entries (v_string_list params ''filter_types'');
          timeout = poll_seconds params
      in case new_client \<lparr>hc_base = hc_base (mx_http s), hc_headers = hc_headers (mx_http s), hc_agent = [],
             hc_timeout = wrap64 (wrap64 (timeout + 15) * second)\<rparr> of
           Inl e \<Rightarrow> (Inl e, w)
         | Inr cli \<Rightarrow>
             and_then (start_batch (call_sync net cli) (mx_state s) w)
               (\<lambda>nb w1. mx_loop (call_sync net cli) (mx_state s) emit timeout types rounds nb w1))"

section \<open>The connector\<close>

definition mx_whoami_action where
  "mx_whoami_action net =
     mk_action ''whoami'' ''Who am I''
       ''Identity of the bound access token: user_id + device_id.''
       [] (mx_whoami net)"

definition mx_list_rooms_action where
  "mx_list_rooms_action net =
     mk_action ''list-rooms'' ''List joined rooms''
       ''Rooms this account has joined. Optionally enriched with name and alias.''
       mx_list_rooms_schema (mx_list_rooms net)"

definition mx_get_room_action where
  "mx_get_room_action net =
     mk_action ''get-room'' ''Get room info''
       ''Room state: name, topic, alias, members, encryption status.''
       mx_get_room_schema (mx_get_room net)"

definition mx_send_message_action where
  "mx_send_message_action net next_txn =
     mk_action ''send-message'' ''Send message''
       ''Send a text message to a room. Supports plain or HTML (formatted) body.''
       mx_send_message_schema (mx_send_message net next_txn)"

definition mx_set_typing_action where
  "mx_set_typing_action net =
     mk_action ''set-typing'' ''Set typing indicator''
       (''Show or clear the '' @ apos @ ''agent is typing'' @ ellipsis @ apos
              @ '' indicator in a room. Send typing=true with a timeout while a long response is being prepared; ''
              @ ''typing=false to clear early.'')
       mx_set_typing_schema (mx_set_typing net)"

definition mx_get_messages_action where
  "mx_get_messages_action net =
     mk_action ''get-messages'' ''Get room messages''
       ''Recent messages in a room (timeline, default newest-first).''
       mx_get_messages_schema (mx_get_messages net)"

definition mx_create_room_action where
  "mx_create_room_action net =
     mk_action ''create-room'' ''Create a room''
       (''Create a new Matrix room. Optionally invite users at creation time. Preset shorthand for the common ''
              @ ''visibility/join-rule combinations.'')
       mx_create_room_schema (mx_create_room net)"

definition mx_create_space_action where
  "mx_create_space_action net =
     mk_action ''create-space'' ''Create a space''
       (''Create a Matrix space (a room with type=m.space). Use add-room-to-space afterwards to attach existing ''
              @ ''rooms as children.'')
       mx_create_space_schema (mx_create_space net)"

definition mx_invite_user_action where
  "mx_invite_user_action net =
     mk_action ''invite-user'' ''Invite user to room''
       (''Send a Matrix invite to a user. Works for both regular rooms and spaces. Requires the inviting ''
              @ ''account to have the right power level (default: any member can invite).'')
       mx_invite_user_schema (mx_invite_user net)"

definition mx_add_room_to_space_action where
  "mx_add_room_to_space_action net =
     mk_action ''add-room-to-space'' ''Add room as space child''
       (''Link an existing room as a child of a space. Writes an m.space.child state event on the space; ''
              @ ''clients then list the room under the space.'')
       mx_add_room_to_space_schema (mx_add_room_to_space net)"

definition matrix_connector :: "('m cli_scheme) net \<Rightarrow> ('m cli_scheme \<Rightarrow> nat \<times> 'm cli_scheme) \<Rightarrow> nat \<Rightarrow>
    ('m cli_scheme, mx_session) connector" where
  "matrix_connector net next_txn rounds =
     \<lparr>c_descriptor = \<lparr>d_name = ''matrix'', d_display = ''Matrix (Client-Server API)'',
        d_description = ''Send + read messages, list rooms. Bearer auth, login-fallback for token minting.'',
        d_version = ''0.1.0'', d_categories = [''messaging'']\<rparr>,
      c_credential = \<lparr>cs_kind = AuthAPIKey, cs_schema = mx_cred_schema, cs_presets = [], cs_defaults = mx_defaults,
        cs_validate = mx_validate net\<rparr>,
      c_actions =
        [mx_whoami_action net, mx_list_rooms_action net, mx_get_room_action net, mx_send_message_action net next_txn,
         mx_set_typing_action net, mx_get_messages_action net, mx_create_room_action net, mx_create_space_action net,
         mx_invite_user_action net, mx_add_room_to_space_action net],
      c_triggers = [\<lparr>t_name = ''messages'', t_display = ''Incoming messages'',
        t_description = ''Long-poll Matrix /sync. Emits timeline events as they arrive. Filter by event type.'',
        t_schema = mx_messages_schema, t_strategy = TriggerPolling,
        t_subscribe = Some (mx_subscribe net rounds), t_webhook = None\<rparr>],
      c_open = (\<lambda>cred root w. (map_sum id (\<lambda>cli. \<lparr>mx_cred = cred, mx_http = cli, mx_state = root\<rparr>) (mx_client cred), w)),
      c_close = (\<lambda>_ w. (Inr (), w))\<rparr>"

end
