(* ===== verification/MatrixSpec.thy ===== *)
theory MatrixSpec
  imports Matrix
begin

text \<open>
  What the Matrix connector promises: what validation does to the values of a credential, that the sends of a
  session never share a transaction id, and that the trigger loses no event when the network, the consumer or
  the process fails.
\<close>

section \<open>Validation\<close>

lemma mx_login_values:
  "mx_login net cli v w = (Inr v', w') \<Longrightarrow>
   \<exists>t u. t \<noteq> [] \<and> v' = v(''access_token'' \<mapsto> GStr t, ''user_id'' \<mapsto> GStr u, ''login_password'' := None)"
  by (auto simp: mx_login_def Let_def and_then_Inr split: if_splits)

lemma mx_probe_values:
  "mx_probe net hs v w = (Inr v', w') \<Longrightarrow> v' = v \<or> (\<exists>u. v' = v(''user_id'' \<mapsto> GStr u))"
  by (auto simp: mx_probe_def Let_def and_then_Inr split: if_splits sum.splits)

text \<open>C29.
  A validated credential has an access token. When validation had to log in for it, the login password is gone from
  the values that are stored; when a token was given, a password given with it stays. Nothing but the
  token, the user id and the password is touched.
\<close>

theorem mx_validate_values:
  assumes "mx_validate net c w = (Inr v', w')"
  shows "v_string v' ''access_token'' \<noteq> [] \<and>
    v' ''login_password'' = (if v_string (cr_values c) ''access_token'' = [] then None else cr_values c ''login_password'') \<and>
    (\<forall>k. k \<notin> {''access_token'', ''user_id'', ''login_password''} \<longrightarrow> v' k = cr_values c k)"
proof -
  let ?v = "cr_values c"
  obtain cli v1 w1 where v1: "(if v_string ?v ''access_token'' = [] then mx_login net cli ?v w else (Inr ?v, w)) = (Inr v1, w1)"
    and p: "mx_probe net (v_string ?v ''homeserver_url'') v1 w1 = (Inr v', w')"
    using assms by (auto simp: mx_validate_def Let_def and_then_Inr split: if_splits sum.splits)
  have m: "v_string v' ''access_token'' = v_string v1 ''access_token'' \<and> v' ''login_password'' = v1 ''login_password'' \<and>
      (\<forall>k. k \<noteq> ''user_id'' \<longrightarrow> v' k = v1 k)"
    using mx_probe_values [OF p] by (elim disjE exE) (simp_all add: v_string_def)
  show ?thesis
  proof (cases "v_string ?v ''access_token'' = []")
    case True
    with v1 obtain t u where t: "t \<noteq> []"
      "v1 = ?v(''access_token'' \<mapsto> GStr t, ''user_id'' \<mapsto> GStr u, ''login_password'' := None)"
      using mx_login_values [of net cli ?v w v1 w1] by auto
    then have "v_string v1 ''access_token'' = t" "v1 ''login_password'' = None" by (simp_all add: v_string_def)
    moreover have "v1 k = ?v k" if "k \<notin> {''access_token'', ''user_id'', ''login_password''}" for k
      using that by (simp add: t(2))
    ultimately show ?thesis using True m t(1) by simp
  next
    case False
    with v1 m show ?thesis by simp
  qed
qed

definition ex_home :: "'w net" where
  "ex_home rq w =
     (Inr \<lparr>as_status = 200, as_headers = [],
        as_body = Inr (if suffix ''/login'' (aq_url rq) then ex_json [(''access_token'', ''t0''), (''user_id'', ''@a:h'')]
                       else ex_json [(''user_id'', ''@a:h'')])\<rparr>, w)"

definition ex_login :: "(string \<times> gval) list \<Rightarrow> credential" where
  "ex_login kvs = new_credential ''matrix'' ''a''
     (map_of ([(''homeserver_url'', GStr ''https://h''), (''login_user'', GStr ''a''), (''login_password'', GStr ''pw'')] @ kvs))"

theorem mx_validate_values_witness:
  "\<exists>v1 v2 w1 w2. mx_validate ex_home (ex_login []) ex_cli = (Inr v1, w1) \<and> v1 ''login_password'' = None \<and>
     mx_validate ex_home (ex_login [(''access_token'', GStr ''t1'')]) ex_cli = (Inr v2, w2) \<and>
     v2 ''login_password'' = Some (GStr ''pw'')"
proof -
  have runs: "case mx_validate ex_home (ex_login []) ex_cli of (Inr _, _) \<Rightarrow> True | _ \<Rightarrow> False"
    "case mx_validate ex_home (ex_login [(''access_token'', GStr ''t1'')]) ex_cli of (Inr _, _) \<Rightarrow> True | _ \<Rightarrow> False"
    by code_simp+
  then obtain v1 w1 v2 w2 where r: "mx_validate ex_home (ex_login []) ex_cli = (Inr v1, w1)"
    "mx_validate ex_home (ex_login [(''access_token'', GStr ''t1'')]) ex_cli = (Inr v2, w2)"
    by (auto split: prod.splits sum.splits)
  from mx_validate_values [OF r(1)] mx_validate_values [OF r(2)] r show ?thesis
    by (auto simp: ex_login_def new_credential_def)
qed

section \<open>Transaction ids\<close>

text \<open>
  A session with its counter, the requests it sent, and a service that answers and lets the clock move as it likes.
\<close>

record send_world = cli +
  sw_count :: int
  sw_sent :: "api_request list"

definition txn_add :: "send_world \<Rightarrow> nat \<times> send_world" where
  "txn_add w = (let n = (sw_count w + 1) mod 2 ^ 64 in (nat n, w\<lparr>sw_count := n\<rparr>))"

definition logged :: "(api_request \<Rightarrow> api_response res) \<Rightarrow> (api_request list \<Rightarrow> time) \<Rightarrow> send_world net" where
  "logged answer clock rq w =
     (let sent = sw_sent w @ [rq] in (answer rq, w\<lparr>sw_sent := sent, c_now := clock sent\<rparr>))"

fun send_all :: "(api_request \<Rightarrow> api_response res) \<Rightarrow> (api_request list \<Rightarrow> time) \<Rightarrow> mx_session \<Rightarrow> vals list \<Rightarrow> send_world \<Rightarrow> send_world" where
  "send_all answer clock s [] w = w"
| "send_all answer clock s (p # ps) w =
     send_all answer clock s ps (snd (mx_send_message (logged answer clock) txn_add s p w))"

lemma nat_str_no_dash: "CHR ''-'' \<notin> set (nat_str n)"
proof
  assume "CHR ''-'' \<in> set (nat_str n)"
  then have "is_digit CHR ''-''" using nat_str_digits [of n] unfolding list_all_iff by blast
  then show False by (simp add: is_digit_def)
qed

lemma after_last_sep:
  assumes "x @ c # a = y @ c # b" "c \<notin> set a" "c \<notin> set b"
  shows "a = b"
proof -
  have "takeWhile (\<lambda>d. d \<noteq> c) (rev (z @ c # l)) = rev l" if "c \<notin> set l" for z l
    using that by (induction l rule: rev_induct) auto
  from this [OF assms(2), of x] this [OF assms(3), of y] show ?thesis using assms(1) by simp
qed

lemma txn_id_inj: "txn_id t m = txn_id t' n \<Longrightarrow> m = n"
proof -
  assume "txn_id t m = txn_id t' n"
  then have "itoa (unix_nano t) @ CHR ''-'' # nat_str m = itoa (unix_nano t') @ CHR ''-'' # nat_str n"
    by (simp add: txn_id_def)
  then have "nat_str m = nat_str n" by (rule after_last_sep) (simp_all add: nat_str_no_dash)
  then have "digits_val 0 (nat_str m) = digits_val 0 (nat_str n)" by (rule arg_cong)
  then show ?thesis by (simp only: digits_val_nat_str)
qed

lemma txn_id_chars: "c \<in> set (txn_id t n) \<Longrightarrow> is_unreserved c"
proof -
  assume "c \<in> set (txn_id t n)"
  then have "c \<in> set ''pgf-'' \<or> is_digit c"
    using itoa_chars [of c "unix_nano t"] nat_str_digits [of n] by (auto simp: txn_id_def list_all_iff)
  moreover have "list_all is_unreserved ''pgf-''" by code_simp
  ultimately show ?thesis by (auto simp: list_all_iff is_unreserved_def is_digit_def)
qed

lemma path_escape_id: "\<forall>c\<in>set s. is_unreserved c \<Longrightarrow> path_escape s = s"
  by (induction s) (simp_all add: path_escape_def path_octet_def)

text \<open>The last segment of the URL a request is sent to.\<close>

lemma new_request_url:
  "new_request c m (CHR ''/'' # p) [] b t = Inr rq \<Longrightarrow> \<exists>x. aq_url rq = x @ CHR ''/'' # trim_left p ''/'' \<and> aq_method rq = m"
  by (auto simp: new_request_def resolve_url_def trim_left_def Let_def split: if_splits)

lemma send_json_logged:
  "\<exists>rqs. (let w' = snd (send_json (logged answer clock) c m (CHR ''/'' # p) b out w)
      in sw_sent w' = sw_sent w @ rqs \<and> sw_count w' = sw_count w) \<and> length rqs \<le> 1 \<and>
     (\<forall>rq\<in>set rqs. aq_method rq = m \<and> (\<exists>x. aq_url rq = x @ CHR ''/'' # trim_left p ''/''))"
proof (cases "case b of None \<Rightarrow> Some [] | Some v \<Rightarrow> json_encode v")
  case None
  then show ?thesis by (intro exI [of _ "[]"]) (simp add: send_json_def)
next
  case (Some buf)
  show ?thesis
  proof (cases "new_request c m (CHR ''/'' # p) [] buf ''application/json''")
    case (Inl e)
    with Some show ?thesis by (intro exI [of _ "[]"]) (simp add: send_json_def)
  next
    case (Inr rq)
    let ?rq = "if hdr_get (aq_headers rq) ''Accept'' = []
      then rq\<lparr>aq_headers := hdr_set ''Accept'' ''application/json'' (aq_headers rq)\<rparr> else rq"
    have "sw_sent (snd (do_json (logged answer clock) rq out w)) = sw_sent w @ [?rq] \<and>
        sw_count (snd (do_json (logged answer clock) rq out w)) = sw_count w"
      by (simp add: do_json_def logged_def Let_def split: sum.splits option.splits)
    with Some Inr new_request_url [OF Inr] show ?thesis
      by (intro exI [of _ "[?rq]"]) (simp add: send_json_def)
  qed
qed

lemma do_json_logged:
  "\<exists>rq'. sw_sent (snd (do_json (logged answer clock) rq out w)) = sw_sent w @ [rq'] \<and> aq_method rq' = aq_method rq \<and>
     sw_count (snd (do_json (logged answer clock) rq out w)) = sw_count w"
  by (simp add: do_json_def logged_def Let_def split: sum.splits option.splits)

lemma get_json_logged:
  "\<exists>rqs. sw_sent (snd (get_json (logged answer clock) c p q out w)) = sw_sent w @ rqs \<and>
     sw_count (snd (get_json (logged answer clock) c p q out w)) = sw_count w \<and> (\<forall>rq\<in>set rqs. aq_method rq = ''GET'')"
proof (cases "new_request c ''GET'' p q [] []")
  case (Inl e)
  then show ?thesis by (simp add: get_json_def)
next
  case (Inr rq)
  then have "aq_method rq = ''GET''" by (auto simp: new_request_def Let_def split: sum.splits if_splits)
  with Inr do_json_logged [of answer clock rq out w] show ?thesis by (auto simp: get_json_def)
qed

lemma decoded_world [simp]: "snd (decoded d r) = snd r"
  by (simp add: decoded_def split: prod.splits sum.splits option.splits)

lemma and_then_world [simp]: "snd (and_then r (\<lambda>x w. (g x, w))) = snd r"
  by (simp add: and_then_def split: prod.splits sum.splits)

lemma wrap_err_world [simp]: "snd (wrap_err m r) = snd r"
  by (simp add: wrap_err_def split: prod.splits sum.splits)

lemma resolve_logged:
  "\<exists>rqs. sw_sent (snd (resolve_room_id (logged answer clock) cli ref w)) = sw_sent w @ rqs \<and>
     sw_count (snd (resolve_room_id (logged answer clock) cli ref w)) = sw_count w \<and> (\<forall>rq\<in>set rqs. aq_method rq = ''GET'')"
  using get_json_logged [of answer clock cli] by (simp add: resolve_room_id_def api_get_def)

definition puts :: "api_request list \<Rightarrow> api_request list" where
  "puts rqs = filter (\<lambda>rq. aq_method rq = ''PUT'') rqs"

lemma puts_simps [simp]: "puts [] = []" "puts (a @ b) = puts a @ puts b"
  by (simp_all add: puts_def)

lemma puts_gets: "\<forall>rq\<in>set rqs. aq_method rq = ''GET'' \<Longrightarrow> puts rqs = []"
  by (simp add: puts_def filter_empty_conv)

text \<open>What a request to send message \<open>n\<close> looks like, and one send of a session.\<close>

definition txn_request :: "nat \<Rightarrow> api_request \<Rightarrow> bool" where
  "txn_request n rq = (\<exists>x t. aq_url rq = x @ CHR ''/'' # txn_id t n)"

lemma path_escape_txn [simp]: "path_escape (txn_id t n) = txn_id t n"
  using txn_id_chars by (intro path_escape_id) blast

lemma send_step:
  assumes w': "w' = snd (mx_send_message (logged answer clock) txn_add s p w)"
  shows "(sw_count w' = sw_count w \<and> puts (sw_sent w') = puts (sw_sent w)) \<or>
    (sw_count w' = (sw_count w + 1) mod 2 ^ 64 \<and>
      (\<exists>rqs. puts (sw_sent w') = puts (sw_sent w) @ rqs \<and> length rqs \<le> 1 \<and> list_all (txn_request (nat (sw_count w'))) rqs))"
proof -
  let ?p = "with_defaults p mx_send_message_schema"
  obtain r w1 where r: "resolve_room_id (logged answer clock) (mx_http s) (v_string ?p ''room'') w = (r, w1)" by fastforce
  then have w1: "sw_count w1 = sw_count w" "puts (sw_sent w1) = puts (sw_sent w)"
    using resolve_logged [of answer clock "mx_http s" "v_string ?p ''room''" w] puts_gets by auto
  show ?thesis
  proof (cases "(\<exists>e. r = Inl e) \<or> v_string ?p ''body'' = []")
    case True
    then have "w' = w1" using r by (cases r) (auto simp: w' mx_send_message_def Let_def)
    with w1 show ?thesis by simp
  next
    case False
    then obtain room where room: "r = Inr room" "v_string ?p ''body'' \<noteq> []" by (cases r) auto
    define n where "n = (sw_count w1 + 1) mod 2 ^ 64"
    define front where "front = ''_matrix/client/v3/rooms/'' @ path_escape room @ ''/send/m.room.message''"
    let ?path = "front @ CHR ''/'' # txn_id (c_now w1) (nat n)"
    obtain b where "w' = snd (send_json (logged answer clock) (mx_http s) ''PUT'' (CHR ''/'' # ?path) b True (w1\<lparr>sw_count := n\<rparr>))"
      using r room
      by (simp add: w' mx_send_message_def Let_def api_send_def txn_add_def room_path_def mx_api_def n_def front_def)
    then obtain rqs where rqs: "sw_sent w' = sw_sent w1 @ rqs" "sw_count w' = n" "length rqs \<le> 1"
      "\<forall>rq\<in>set rqs. aq_method rq = ''PUT'' \<and> (\<exists>x. aq_url rq = x @ CHR ''/'' # trim_left ?path ''/'')"
      using send_json_logged [of answer clock "mx_http s" "''PUT''" ?path b True "w1\<lparr>sw_count := n\<rparr>"] by (auto simp: Let_def)
    have tl: "trim_left ?path ''/'' = ?path" by (simp add: trim_left_def front_def)
    have "txn_request (nat n) rq" if rq: "rq \<in> set rqs" for rq
    proof -
      obtain x where "aq_url rq = x @ CHR ''/'' # ?path" using rqs(4) rq tl by auto
      then have "aq_url rq = (x @ CHR ''/'' # front) @ CHR ''/'' # txn_id (c_now w1) (nat n)" by simp
      then show ?thesis unfolding txn_request_def by blast
    qed
    then have "list_all (txn_request (nat (sw_count w'))) rqs" using rqs(2) by (simp add: list_all_iff)
    moreover have "puts rqs = rqs" using rqs(4) by (simp add: puts_def filter_id_conv)
    ultimately show ?thesis using rqs(1-3) w1 n_def by auto
  qed
qed

definition numbered :: "nat list \<Rightarrow> api_request list \<Rightarrow> bool" where
  "numbered ns rqs = list_all2 txn_request ns rqs"

lemma numbered_distinct:
  assumes "numbered ns rqs" "distinct ns"
  shows "distinct (map aq_url rqs)"
proof -
  have "ns ! i = ns ! j" if ij: "i < length rqs" "j < length rqs" "aq_url (rqs ! i) = aq_url (rqs ! j)" for i j
  proof -
    have no_slash: "CHR ''/'' \<notin> set (txn_id t n)" for t n
      using txn_id_chars [of "CHR ''/''" t n] by (auto simp: is_unreserved_def)
    obtain x t y t' where u: "aq_url (rqs ! i) = x @ CHR ''/'' # txn_id t (ns ! i)" "aq_url (rqs ! j) = y @ CHR ''/'' # txn_id t' (ns ! j)"
      using assms(1) ij(1,2) by (fastforce simp: numbered_def list_all2_conv_all_nth txn_request_def)
    then have "x @ CHR ''/'' # txn_id t (ns ! i) = y @ CHR ''/'' # txn_id t' (ns ! j)" using ij(3) by simp
    then have "txn_id t (ns ! i) = txn_id t' (ns ! j)" by (rule after_last_sep) (rule no_slash)+
    then show ?thesis by (rule txn_id_inj)
  qed
  moreover have "length ns = length rqs" using assms(1) by (simp add: numbered_def list_all2_lengthD)
  ultimately show ?thesis using assms(2) unfolding distinct_conv_nth by (metis length_map nth_map)
qed

lemma sends_numbered:
  "numbered ns (puts (sw_sent w)) \<Longrightarrow> distinct ns \<Longrightarrow> \<forall>n\<in>set ns. int n \<le> sw_count w \<Longrightarrow>
   0 \<le> sw_count w \<Longrightarrow> sw_count w + int (length ps) < 2 ^ 64 \<Longrightarrow> \<exists>ns'. numbered ns' (puts (sw_sent (send_all answer clock s ps w))) \<and> distinct ns'"
proof (induction ps arbitrary: w ns)
  case Nil
  then show ?case by auto
next
  case (Cons p ps)
  define w' where "w' = snd (mx_send_message (logged answer clock) txn_add s p w)"
  have small: "(sw_count w + 1) mod 2 ^ 64 = sw_count w + 1" using Cons.prems(4,5) by (intro mod_pos_pos_trivial) simp_all
  consider "sw_count w' = sw_count w" "puts (sw_sent w') = puts (sw_sent w)"
    | rqs where "sw_count w' = sw_count w + 1" "puts (sw_sent w') = puts (sw_sent w) @ rqs" "length rqs \<le> 1"
        "list_all (txn_request (nat (sw_count w'))) rqs"
    using send_step [OF w'_def] unfolding small by blast
  then have "\<exists>ns1. numbered ns1 (puts (sw_sent w')) \<and> distinct ns1 \<and> (\<forall>n\<in>set ns1. int n \<le> sw_count w') \<and>
      0 \<le> sw_count w' \<and> sw_count w' + int (length ps) < 2 ^ 64"
  proof cases
    case 1
    with Cons.prems show ?thesis by (intro exI [of _ ns]) simp
  next
    case (2 rqs)
    show ?thesis
    proof (cases rqs)
      case Nil
      with 2 Cons.prems show ?thesis by (intro exI [of _ ns]) auto
    next
      case (Cons rq rest)
      then have rqs: "rqs = [rq]" using 2(3) by simp
      have "nat (sw_count w') \<notin> set ns" using bspec [OF Cons.prems(3), of "nat (sw_count w')"] Cons.prems(4) 2(1) by auto
      moreover have "numbered (ns @ [nat (sw_count w')]) (puts (sw_sent w'))"
        using Cons.prems(1) 2(2,4) rqs by (simp add: numbered_def list_all2_appendI)
      ultimately show ?thesis using Cons.prems 2(1) by (intro exI [of _ "ns @ [nat (sw_count w')]"]) auto
    qed
  qed
  with Cons.IH show ?case unfolding w'_def by auto
qed


definition ex_session :: mx_session where
  "ex_session = \<lparr>mx_cred = ex_login [],
     mx_http = \<lparr>hc_base = ''https://h'', hc_headers = [], hc_agent = [], hc_timeout = 1\<rparr>,
     mx_state = abs_path [''s'', ''rss'', ''news'']\<rparr>"

definition ex_send :: vals where
  "ex_send = [''room'' \<mapsto> GStr ''!r:h'', ''body'' \<mapsto> GStr ''hi'']"

definition ex_sender :: send_world where
  "ex_sender = cli.extend ex_cli \<lparr>sw_count = 0, sw_sent = []\<rparr>"


section \<open>The trigger against a homeserver\<close>

text \<open>
  A homeserver as the sequence of its batches: batch \<open>k\<close> follows the token of \<open>k\<close>, and the seed sync gives the token of
  the batch the server is at. The world has the events seen, and scripts of what the network and the consumer do next.
\<close>

record sync_world = cli +
  yw_seen :: "event list"
  yw_net :: "bool list"
  yw_sink :: "bool list"

type_synonym batches = "nat \<Rightarrow> (string \<times> sync_event list) list"

definition batch_token :: "nat \<Rightarrow> string" where
  "batch_token k = CHR ''s'' # nat_str k"

definition batch_of :: "string \<Rightarrow> nat" where
  "batch_of s = digits_val 0 (drop 1 s)"

lemma batch_of_token [simp]: "batch_of (batch_token k) = k" "batch_token k \<noteq> []"
  by (simp_all add: batch_of_def batch_token_def digits_val_nat_str)

definition home_call :: "batches \<Rightarrow> nat \<Rightarrow> sync_world sync_call" where
  "home_call rooms now since timeout seed w =
     (let w1 = w\<lparr>yw_net := drop 1 (yw_net w)\<rparr>; k = batch_of since
      in if yw_net w \<noteq> [] \<and> \<not> hd (yw_net w) then (Inl (ErrExt ''net''), w1)
         else if seed then (Inr \<lparr>sr_next = batch_token now, sr_rooms = []\<rparr>, w1)
         else (Inr \<lparr>sr_next = batch_token (Suc k), sr_rooms = rooms k\<rparr>, w1))"

definition script_sink :: "sync_world sink" where
  "script_sink e w =
     (let w1 = w\<lparr>yw_sink := drop 1 (yw_sink w)\<rparr>
      in if yw_sink w \<noteq> [] \<and> \<not> hd (yw_sink w) then (Inl (ErrExt ''sink''), w1)
         else (Inr (), w1\<lparr>yw_seen := yw_seen w @ [e]\<rparr>))"

definition batch_items :: "string list \<Rightarrow> batches \<Rightarrow> nat \<Rightarrow> event list" where
  "batch_items types rooms k = sync_items types \<lparr>sr_next = batch_token (Suc k), sr_rooms = rooms k\<rparr>"

definition delivered :: "string list \<Rightarrow> batches \<Rightarrow> nat \<Rightarrow> nat \<Rightarrow> event list" where
  "delivered types rooms i j = concat (map (batch_items types rooms) [i..<j])"

fun mx_runs :: "batches \<Rightarrow> nat \<Rightarrow> string \<Rightarrow> int \<Rightarrow> string list \<Rightarrow> nat list \<Rightarrow> sync_world \<Rightarrow> sync_world" where
  "mx_runs rooms now root timeout types [] w = w"
| "mx_runs rooms now root timeout types (n # ns) w =
     (case start_batch (home_call rooms now) root w of
        (Inl _, w1) \<Rightarrow> mx_runs rooms now root timeout types ns w1
      | (Inr nb, w1) \<Rightarrow>
          mx_runs rooms now root timeout types ns
            (snd (mx_loop (home_call rooms now) root script_sink timeout types n nb w1)))"

lemma home_call_at:
  "home_call rooms now (batch_token k) timeout False w =
     (if yw_net w \<noteq> [] \<and> \<not> hd (yw_net w) then (Inl (ErrExt ''net''), w\<lparr>yw_net := drop 1 (yw_net w)\<rparr>)
      else (Inr \<lparr>sr_next = batch_token (Suc k), sr_rooms = rooms k\<rparr>, w\<lparr>yw_net := drop 1 (yw_net w)\<rparr>))"
  by (simp add: home_call_def Let_def)

lemma emit_script:
  "emit_all script_sink es w = (r, w') \<Longrightarrow>
   \<exists>pre. prefix pre es \<and> yw_seen w' = yw_seen w @ pre \<and> (r = Inr () \<longrightarrow> pre = es) \<and> c_os w' = c_os w"
proof (induction es arbitrary: w)
  case Nil
  then show ?case by simp
next
  case (Cons e es)
  show ?case
  proof (cases "yw_sink w \<noteq> [] \<and> \<not> hd (yw_sink w)")
    case True
    with Cons.prems show ?thesis by (auto simp: script_sink_def Let_def intro!: exI [of _ "[]"])
  next
    case False
    let ?w1 = "w\<lparr>yw_sink := drop 1 (yw_sink w), yw_seen := yw_seen w @ [e]\<rparr>"
    have "script_sink e w = (Inr (), ?w1)" using False by (auto simp: script_sink_def Let_def)
    then have "emit_all script_sink es ?w1 = (r, w')" using Cons.prems by simp
    from Cons.IH [OF this] obtain pre where "prefix pre es" "yw_seen w' = yw_seen ?w1 @ pre" "r = Inr () \<longrightarrow> pre = es"
      "c_os w' = c_os ?w1" by blast
    then show ?thesis by (intro exI [of _ "e # pre"]) auto
  qed
qed

text \<open>The stored token, which only \<open>c_os\<close> decides.\<close>

definition at_batch :: "string \<Rightarrow> nat \<Rightarrow> sync_world \<Rightarrow> bool" where
  "at_batch root k w = (store_inv root (c_os w) \<and> load_next_batch root w = Inr (batch_token k))"

lemma at_batch_cong: "c_os w = c_os w' \<Longrightarrow> at_batch root k w = at_batch root k w'"
  by (simp add: at_batch_def load_next_batch_def st_get_def)

lemma save_next_batch_at:
  fixes w :: sync_world and k :: nat and root :: string
  assumes "store_inv root (c_os w)"
  defines "w' \<equiv> snd (save_next_batch root (batch_token k) w)"
  shows "at_batch root k w'" "yw_seen w' = yw_seen w"
proof -
  obtain r where p: "st_put root next_batch_key (json_quote (batch_token k)) w = (r, w')"
    by (simp add: w'_def save_next_batch_def) (metis prod.collapse)
  from st_put_get [OF assms(1) p] show "at_batch root k w'"
    by (simp add: at_batch_def load_next_batch_def json_unmarshal_quote dec_string_def)
  show "yw_seen w' = yw_seen w" using p by (auto simp: st_put_def split: prod.splits)
qed

lemma mx_loop_step:
  "mx_loop call root emit t types (Suc n) nb w =
   (case call nb (wrap64 (t * 1000)) False w of
      (Inl e, w1) \<Rightarrow> mx_loop call root emit t types n nb w1
    | (Inr resp, w1) \<Rightarrow>
        (case emit_all emit (sync_items types resp) w1 of
           (Inl e, w2) \<Rightarrow> (Inl e, w2)
         | (Inr _, w2) \<Rightarrow> mx_loop call root emit t types n (sr_next resp) (snd (save_next_batch root (sr_next resp) w2))))"
  by simp

lemma mx_loop_delivers:
  "at_batch root k w \<Longrightarrow> w' = snd (mx_loop (home_call rooms now) root script_sink t types n (batch_token k) w) \<Longrightarrow>
   \<exists>j pre. k \<le> j \<and> at_batch root j w' \<and> prefix pre (batch_items types rooms j) \<and>
     yw_seen w' = yw_seen w @ delivered types rooms k j @ pre"
proof (induction n arbitrary: k w)
  case 0
  then show ?case by (intro exI [of _ k] exI [of _ "[]"]) (simp add: delivered_def)
next
  case (Suc n)
  let ?w1 = "w\<lparr>yw_net := drop 1 (yw_net w)\<rparr>"
  have at1: "at_batch root k ?w1" using Suc.prems(1) at_batch_cong [of ?w1 w root k] by simp
  show ?case
  proof (cases "yw_net w \<noteq> [] \<and> \<not> hd (yw_net w)")
    case True
    then have "w' = snd (mx_loop (home_call rooms now) root script_sink t types n (batch_token k) ?w1)"
      using Suc.prems(2) by (simp add: home_call_at)
    from Suc.IH [OF at1 this] show ?thesis by simp
  next
    case False
    have call: "home_call rooms now (batch_token k) (wrap64 (t * 1000)) False w =
        (Inr \<lparr>sr_next = batch_token (Suc k), sr_rooms = rooms k\<rparr>, ?w1)"
      using False by (auto simp: home_call_at)
    obtain r w2 where em: "emit_all script_sink (batch_items types rooms k) ?w1 = (r, w2)" by fastforce
    from emit_script [OF em] obtain pre where pre: "prefix pre (batch_items types rooms k)" "yw_seen w2 = yw_seen w @ pre"
      "r = Inr () \<longrightarrow> pre = batch_items types rooms k" "c_os w2 = c_os w" by auto
    have at2: "at_batch root k w2" using Suc.prems(1) pre(4) at_batch_cong by blast
    show ?thesis
    proof (cases r)
      case (Inl e)
      then have "w' = w2" using call em Suc.prems(2) by (simp add: batch_items_def mx_loop_step del: mx_loop.simps)
      then show ?thesis using at2 pre(1,2) by (intro exI [of _ k] exI [of _ pre]) (simp add: delivered_def)
    next
      case (Inr u)
      let ?w3 = "snd (save_next_batch root (batch_token (Suc k)) w2)"
      have at3: "at_batch root (Suc k) ?w3" "yw_seen ?w3 = yw_seen w2"
        using save_next_batch_at [of root w2 "Suc k"] at2 by (simp_all add: at_batch_def)
      have "w' = snd (mx_loop (home_call rooms now) root script_sink t types n (batch_token (Suc k)) ?w3)"
        using Inr call em Suc.prems(2) by (simp add: batch_items_def mx_loop_step del: mx_loop.simps)
      from Suc.IH [OF at3(1) this] obtain j p where j: "Suc k \<le> j" "at_batch root j w'" "prefix p (batch_items types rooms j)"
        "yw_seen w' = yw_seen ?w3 @ delivered types rooms (Suc k) j @ p" by blast
      moreover have "delivered types rooms k j = batch_items types rooms k @ delivered types rooms (Suc k) j"
        using j(1) by (simp add: delivered_def upt_conv_Cons)
      ultimately show ?thesis using at3(2) pre(2,3) Inr by (intro exI [of _ j] exI [of _ p]) simp
    qed
  qed
qed

text \<open>
  Between two runs: batch \<open>j\<close> is the next one, everything before it was seen in order, and nothing but events of
  these batches and of the one begun.
\<close>

definition caught_up :: "string \<Rightarrow> string list \<Rightarrow> batches \<Rightarrow> nat \<Rightarrow> nat \<Rightarrow> sync_world \<Rightarrow> bool" where
  "caught_up root types rooms now j w =
     (at_batch root j w \<and> now \<le> j \<and> subseq (delivered types rooms now j) (yw_seen w) \<and>
      set (yw_seen w) \<subseteq> set (delivered types rooms now (Suc j)))"

lemma delivered_split: "i \<le> j \<Longrightarrow> j \<le> k \<Longrightarrow> delivered types rooms i k = delivered types rooms i j @ delivered types rooms j k"
proof -
  assume "i \<le> j" "j \<le> k"
  then have "[i..<k] = [i..<j] @ [j..<k]" using upt_add_eq_append [of i j "k - j"] by simp
  then show ?thesis by (simp add: delivered_def)
qed

lemma run_caught_up:
  assumes "caught_up root types rooms now k w"
    "w' = snd (mx_loop (home_call rooms now) root script_sink t types n (batch_token k) w)"
  shows "\<exists>j. k \<le> j \<and> caught_up root types rooms now j w'"
proof -
  obtain j pre where j: "k \<le> j" "at_batch root j w'" "prefix pre (batch_items types rooms j)"
    "yw_seen w' = yw_seen w @ delivered types rooms k j @ pre"
    using mx_loop_delivers [OF _ assms(2)] assms(1) by (auto simp: caught_up_def)
  have now: "now \<le> k" using assms(1) by (simp add: caught_up_def)
  have d: "delivered types rooms now j = delivered types rooms now k @ delivered types rooms k j"
    by (rule delivered_split) (use now j(1) in simp_all)
  have dj: "delivered types rooms now (Suc j) = delivered types rooms now j @ batch_items types rooms j"
    "delivered types rooms now (Suc k) = delivered types rooms now k @ batch_items types rooms k"
    using now j(1) by (simp_all add: delivered_def)
  have "subseq (delivered types rooms now j) (yw_seen w')"
    using assms(1) unfolding d j(4) caught_up_def
    by (metis append_assoc list_emb_append2 list_emb_append_mono list_emb_prefix subseq_order.order_refl prefix_imp_subseq prefixI)
  moreover have "set (yw_seen w') \<subseteq> set (delivered types rooms now (Suc j))"
  proof -
    have "set (delivered types rooms now (Suc k)) \<subseteq> set (delivered types rooms now (Suc j))"
      using delivered_split [of now "Suc k" "Suc j" types rooms] now j(1) by simp
    moreover have "set pre \<subseteq> set (batch_items types rooms j)" using j(3) by (meson set_mono_prefix)
    ultimately show ?thesis using assms(1) unfolding j(4) dj(1) d caught_up_def by auto
  qed
  ultimately show ?thesis using j(1,2) now by (auto simp: caught_up_def)
qed

lemma start_caught_up:
  assumes "caught_up root types rooms now k w"
  shows "start_batch (home_call rooms now) root w = (Inr (batch_token k), w)"
  using assms by (simp add: start_batch_def caught_up_def at_batch_def)

lemma runs_caught_up:
  "caught_up root types rooms now k w \<Longrightarrow>
   \<exists>j. caught_up root types rooms now j (mx_runs rooms now root t types ns w)"
proof (induction ns arbitrary: k w)
  case (Cons n ns)
  from run_caught_up [OF Cons.prems refl, of t n] Cons.IH
  obtain j where "caught_up root types rooms now j
      (mx_runs rooms now root t types ns (snd (mx_loop (home_call rooms now) root script_sink t types n (batch_token k) w)))"
    by blast
  then show ?case by (auto simp: start_caught_up [OF Cons.prems])
qed auto

definition unseeded :: "string \<Rightarrow> sync_world \<Rightarrow> bool" where
  "unseeded root w = (store_inv root (c_os w) \<and> load_next_batch root w = Inr [] \<and> yw_seen w = [])"

lemma unseeded_cong: "c_os w = c_os w' \<Longrightarrow> yw_seen w = yw_seen w' \<Longrightarrow> unseeded root w = unseeded root w'"
  by (simp add: unseeded_def load_next_batch_def st_get_def)

lemma seed_run:
  assumes "unseeded root w" "start_batch (home_call rooms now) root w = (r, w1)"
  shows "(r = Inr (batch_token now) \<and> caught_up root types rooms now now w1) \<or> ((\<exists>e. r = Inl e) \<and> unseeded root w1)"
proof -
  let ?w1 = "w\<lparr>yw_net := drop 1 (yw_net w)\<rparr>"
  have u: "unseeded root ?w1" using assms(1) unseeded_cong [of ?w1 w root] by simp
  show ?thesis
  proof (cases "yw_net w \<noteq> [] \<and> \<not> hd (yw_net w)")
    case True
    then have "w1 = ?w1" "\<exists>e. r = Inl e"
      using assms by (auto simp: start_batch_def home_call_def unseeded_def)
    with u show ?thesis by simp
  next
    case False
    then have "home_call rooms now [] 0 True w = (Inr \<lparr>sr_next = batch_token now, sr_rooms = []\<rparr>, ?w1)"
      by (auto simp: home_call_def Let_def)
    then have r: "r = Inr (batch_token now)" "w1 = snd (save_next_batch root (batch_token now) ?w1)"
      using assms by (auto simp: start_batch_def unseeded_def)
    have "at_batch root now w1" "yw_seen w1 = []"
      using save_next_batch_at [of root ?w1 now] u r(2) by (auto simp: unseeded_def)
    then show ?thesis using r(1) by (simp add: caught_up_def delivered_def)
  qed
qed


definition ex_sync_event :: "string \<Rightarrow> sync_event" where
  "ex_sync_event i = \<lparr>se_id = i, se_type = ''m.room.message'', se_sender = ''@b:h'', se_ts = 0, se_content = None\<rparr>"

definition ex_syncer :: "bool list \<Rightarrow> sync_world" where
  "ex_syncer bs = cli.extend ex_cli \<lparr>yw_seen = [], yw_net = [True, False], yw_sink = bs\<rparr>"

definition ex_rooms :: batches where
  "ex_rooms k = [(''!r:h'', [ex_sync_event (nat_str k), ex_sync_event (nat_str k @ ''+'')])]"

lemma ex_syncer_store:
  "store_inv (mx_state ex_session) (c_os (ex_syncer bs))" "load_next_batch (mx_state ex_session) (ex_syncer bs) = Inr []"
proof -
  show "store_inv (mx_state ex_session) (c_os (ex_syncer bs))"
    using ex_store_inv by (simp add: ex_syncer_def ex_cli_def ex_session_def cli.defs)
  have "store_get (mx_state ex_session) ex_store_os next_batch_key =
      Inr (slot ex_store_os (loc_of [''s'', ''rss'', ''news''] next_batch_key ''.bin''))"
    unfolding ex_session_def mx_session.simps
    by (rule store_get_slot)
      (simp_all add: rooted_def ok_comp_def ex_store_os_def plain_fs_def wf_fs_def no_links_def dir_free_def node_at_def
        is_dir_def loc_of_def)
  moreover have "slot ex_store_os (loc_of [''s'', ''rss'', ''news''] next_batch_key ''.bin'') = None"
    by (simp add: slot_def node_at_def ex_store_os_def loc_of_def)
  ultimately show "load_next_batch (mx_state ex_session) (ex_syncer bs) = Inr []"
    by (simp add: load_next_batch_def st_get_def ex_syncer_def ex_cli_def cli.defs)
qed


end
