(* ===== verification/YouTrack.thy ===== *)
theory YouTrack
  imports ApiConn
begin

text \<open>
  The YouTrack connector (\<open>connectors/youtrack\<close>): resolving project keys, logins and article ids, its twenty-eight
  actions over the REST interface, and the walk down a tree of articles.

  A slice prints as a JSON array here also where Go has the nil slice, which prints as null. Assigning to a nil
  map, which panics in Go, is an error of its own.
\<close>

section \<open>Client and fields\<close>

definition yt_client :: "credential \<Rightarrow> http_config res" where
  "yt_client c =
     (let token = v_string (cr_values c) ''token''; base = trim_right (v_string (cr_values c) ''base_url'') ''/''
      in if token = [] then Inl (ErrMsg ''token is empty'')
         else if base = [] then Inl (ErrMsg ''base_url is empty'')
         else new_client \<lparr>hc_base = base, hc_headers = bearer token, hc_agent = [], hc_timeout = 0\<rparr>)"

definition user_fields :: string where
  "user_fields = ''id,login,fullName,email,banned,guest,online,ringId''"

definition project_fields :: string where
  "project_fields = ''id,name,shortName,description,leader(id,login,fullName),archived,ringId''"

definition issue_fields :: string where
  "issue_fields =
     ''id,idReadable,summary,description,project(id,shortName,name),reporter(login,fullName),created,updated,''
     @ ''resolved,customFields(name,value(login,name,fullName,id))''"

definition article_fields :: string where
  "article_fields =
     ''id,idReadable,summary,content,project(id,shortName,name),parentArticle(id,idReadable,summary),ordinal,created,''
     @ ''updated,reporter(login,fullName),tags(name),hasChildren,childArticles(idReadable,summary,hasChildren,ordinal),''
     @ ''visibility($type)''"

text \<open>An id of YouTrack is numbers with dashes between them.\<close>

definition looks_like_id :: "string \<Rightarrow> bool" where
  "looks_like_id s =
     (let parts = split_on (CHR ''-'') s in 2 \<le> length parts \<and> list_all (\<lambda>p. p \<noteq> [] \<and> list_all is_digit p) parts)"

section \<open>Resolving names\<close>

definition dec_named :: "string \<Rightarrow> gval \<Rightarrow> (string \<times> string) option" where
  "dec_named key = dec_pair (dec_field ''id'' dec_string) (dec_field key dec_string)"

definition pick_id :: "string \<Rightarrow> (string \<times> string) list \<Rightarrow> string option" where
  "pick_id name xs = map_option fst (find (\<lambda>(i, n). equal_fold n name) xs)"

definition resolve_project_id :: "'w net \<Rightarrow> http_config \<Rightarrow> string \<Rightarrow> 'w \<Rightarrow> string res \<times> 'w" where
  "resolve_project_id net cli ref w =
     (if ref = [] \<or> looks_like_id ref then (Inr ref, w)
      else and_then (wrap_err (''lookup project '' @ go_quote ref @ '': '')
          (api_get net cli (dec_list (dec_named ''shortName'')) ''/api/admin/projects''
            [(''fields'', [''id,shortName'']), (''query'', [ref])] w))
        (\<lambda>ps w1. case pick_id ref ps of
           Some i \<Rightarrow> (Inr i, w1)
         | None \<Rightarrow> (Inl (ErrMsg (''no project with shortName '' @ go_quote ref)), w1)))"

definition resolve_user_id :: "'w net \<Rightarrow> http_config \<Rightarrow> string \<Rightarrow> 'w \<Rightarrow> string res \<times> 'w" where
  "resolve_user_id net cli ref w =
     (if ref = [] \<or> looks_like_id ref then (Inr ref, w)
      else and_then (wrap_err (''lookup user '' @ go_quote ref @ '': '')
          (api_get net cli (dec_list (dec_named ''login'')) ''/api/users'' [(''fields'', [''id,login'']), (''query'', [ref])] w))
        (\<lambda>us w1. case pick_id ref us of
           Some i \<Rightarrow> (Inr i, w1)
         | None \<Rightarrow> (Inl (ErrMsg (''no user with login '' @ go_quote ref)), w1)))"

definition resolve_article_id :: "'w net \<Rightarrow> http_config \<Rightarrow> string \<Rightarrow> 'w \<Rightarrow> string res \<times> 'w" where
  "resolve_article_id net cli ref w =
     (if ref = [] then (Inl (ErrMsg ''article id required''), w)
      else if looks_like_id ref then (Inr ref, w)
      else and_then (wrap_err (''lookup article '' @ go_quote ref @ '': '')
          (api_get net cli (dec_field ''id'' dec_string) (''/api/articles/'' @ path_escape ref) [(''fields'', [''id''])] w))
        (\<lambda>i w1. if i = [] then (Inl (ErrMsg (''article '' @ go_quote ref @ '' has no internal id'')), w1) else (Inr i, w1)))"

text \<open>The Hub's id of the YouTrack service.\<close>

definition dec_service :: "gval \<Rightarrow> (string \<times> string) option" where
  "dec_service v =
     map_option fst (dec_pair (dec_named ''applicationName'') (dec_field ''name'' dec_string) v)"

definition resolve_service_id :: "'w net \<Rightarrow> http_config \<Rightarrow> 'w \<Rightarrow> string res \<times> 'w" where
  "resolve_service_id net cli w =
     and_then (api_get net cli (dec_field ''services'' (dec_list dec_service)) ''/hub/api/rest/services''
         [(''fields'', [''id,name,applicationName'']), (''$top'', [''100''])] w)
       (\<lambda>ss w1. case find (\<lambda>(i, app). app = ''YouTrack'') ss of
          Some (i, _) \<Rightarrow> (Inr i, w1)
        | None \<Rightarrow> (Inl (ErrMsg ''no Hub service with applicationName=YouTrack''), w1))"

definition dec_ring :: "gval \<Rightarrow> (string \<times> string) option" where
  "dec_ring = dec_pair (dec_field ''login'' dec_string) (dec_field ''ringId'' dec_string)"

definition resolve_ring_id :: "'w net \<Rightarrow> http_config \<Rightarrow> string \<Rightarrow> 'w \<Rightarrow> string res \<times> 'w" where
  "resolve_ring_id net cli ref w =
     (let flds = [(''fields'', [''id,login,ringId''])]
      in if ref = [] then (Inl (ErrMsg ''user is required''), w)
         else if looks_like_id ref then
           and_then (wrap_err ''lookup user: '' (api_get net cli dec_ring (''/api/users/'' @ path_escape ref) flds w))
             (\<lambda>(_, ring) w1.
                if ring = [] then (Inl (ErrMsg (''user '' @ go_quote ref @ '' has no ringId'')), w1) else (Inr ring, w1))
         else
           and_then (wrap_err ''lookup user: ''
               (api_get net cli (dec_list dec_ring) ''/api/users'' (flds @ [(''query'', [ref])]) w))
             (\<lambda>us w1. case find (\<lambda>(login, ring). equal_fold login ref \<and> ring \<noteq> []) us of
                Some (_, ring) \<Rightarrow> (Inr ring, w1)
              | None \<Rightarrow> (Inl (ErrMsg (''no user with login '' @ go_quote ref @ '' (or no ringId)'')), w1)))"

section \<open>Users and projects\<close>

definition yt_paging :: "vals \<Rightarrow> url_values" where
  "yt_paging params =
     (''$top'', [itoa (v_int params ''top'')])
     # (if v_int params ''skip'' > 0 then [(''$skip'', [itoa (v_int params ''skip'')])] else [])"

definition yt_fields :: "vals \<Rightarrow> url_values" where
  "yt_fields params = [(''fields'', [v_string params ''fields''])]"

text \<open>A path with the fields of the answer in its query.\<close>

definition with_fields :: "string \<Rightarrow> string \<Rightarrow> string" where
  "with_fields path flds = path @ ''?'' @ q_encode [(''fields'', [flds])]"

definition yt_me :: "'w net \<Rightarrow> api_session \<Rightarrow> vals \<Rightarrow> 'w \<Rightarrow> gval res \<times> 'w" where
  "yt_me net s params w = api_get net (sn_http s) dec_object ''/api/users/me'' [(''fields'', [user_fields])] w"

definition yt_list_users_schema :: schema where
  "yt_list_users_schema =
     [(field ''query'' FieldString)\<lparr>
        f_description := ''YouTrack user query (login, fullName, banned, etc.)''\<rparr>,
      (field ''top'' FieldInt)\<lparr>f_default := Some (GInt 100), f_description := ''Max results.''\<rparr>,
      (field ''skip'' FieldInt)\<lparr>f_default := Some (GInt 0)\<rparr>,
      (field ''fields'' FieldString)\<lparr>
        f_default := Some (GStr ''id,login,fullName,email,banned,guest,online,ringId'')\<rparr>]"

definition yt_list_users :: "'w net \<Rightarrow> api_session \<Rightarrow> vals \<Rightarrow> 'w \<Rightarrow> gval res \<times> 'w" where
  "yt_list_users net s params0 w =
     (let params = with_defaults params0 yt_list_users_schema
      in api_get net (sn_http s) dec_objects ''/api/users''
           (yt_fields params @ opt_query ''query'' (v_string params ''query'') @ yt_paging params) w)"

definition yt_get_user_schema :: schema where
  "yt_get_user_schema =
     [(field ''user'' FieldString)\<lparr>f_required := True,
        f_description := ''Login or YouTrack id (e.g. '' @ apos @ ''1-2'' @ apos @ '').''\<rparr>,
      (field ''fields'' FieldString)\<lparr>
        f_default := Some (GStr ''id,login,fullName,email,banned,guest,online,ringId'')\<rparr>]"

definition yt_get_user :: "'w net \<Rightarrow> api_session \<Rightarrow> vals \<Rightarrow> 'w \<Rightarrow> gval res \<times> 'w" where
  "yt_get_user net s params0 w =
     (let params = with_defaults params0 yt_get_user_schema; user = v_string params ''user''
      in if user = [] then (Inl (ErrMsg ''user is required''), w)
         else and_then (resolve_user_id net (sn_http s) user w)
           (\<lambda>i. api_get net (sn_http s) dec_object (''/api/users/'' @ path_escape i) (yt_fields params)))"

definition yt_create_user_schema :: schema where
  "yt_create_user_schema =
     [(field ''login'' FieldString)\<lparr>f_required := True\<rparr>,
      (field ''email'' FieldString)\<lparr>f_required := True\<rparr>,
      (field ''full_name'' FieldString)\<lparr>f_description := ''Display name.''\<rparr>,
      (field ''password'' FieldSecret)\<lparr>f_required := True,
        f_description := ''Initial password. Required on most self-hosted instances; some cloud installs allow omitting if ''
          @ ''SMTP reset is configured.''\<rparr>,
      (field ''force_change_password'' FieldBool)\<lparr>f_default := Some (GBool False)\<rparr>]"

definition yt_create_user :: "'w net \<Rightarrow> api_session \<Rightarrow> vals \<Rightarrow> 'w \<Rightarrow> gval res \<times> 'w" where
  "yt_create_user net s params0 w =
     (let params = with_defaults params0 yt_create_user_schema; login = v_string params ''login''; email = v_string params ''email''
      in if login = [] \<or> email = [] then (Inl (ErrMsg ''login and email are required''), w)
         else api_send net (sn_http s) dec_object ''POST'' (with_fields ''/api/users'' user_fields)
           (GMap ([(''login'', GStr login), (''email'', GStr email),
               (''forceChangePassword'', GBool (v_bool params ''force_change_password''))]
             @ opt_str ''fullName'' (v_string params ''full_name'') @ opt_str ''password'' (v_string params ''password''))) w)"

definition yt_list_projects_schema :: schema where
  "yt_list_projects_schema =
     [(field ''query'' FieldString)\<lparr>
        f_description := ''YouTrack project search (matches name + shortName).''\<rparr>,
      (field ''top'' FieldInt)\<lparr>f_default := Some (GInt 100)\<rparr>,
      (field ''skip'' FieldInt)\<lparr>f_default := Some (GInt 0)\<rparr>,
      (field ''fields'' FieldString)\<lparr>
        f_default := Some (GStr ''id,name,shortName,description,leader(id,login,fullName),archived,ringId'')\<rparr>]"

definition yt_list_projects :: "'w net \<Rightarrow> api_session \<Rightarrow> vals \<Rightarrow> 'w \<Rightarrow> gval res \<times> 'w" where
  "yt_list_projects net s params0 w =
     (let params = with_defaults params0 yt_list_projects_schema
      in api_get net (sn_http s) dec_objects ''/api/admin/projects''
           (yt_fields params @ opt_query ''query'' (v_string params ''query'') @ yt_paging params) w)"

definition yt_get_project_schema :: schema where
  "yt_get_project_schema =
     [(field ''project'' FieldString)\<lparr>f_required := True, f_description := ''shortName or id''\<rparr>,
      (field ''fields'' FieldString)\<lparr>
        f_default := Some (GStr ''id,name,shortName,description,leader(id,login,fullName),archived,ringId'')\<rparr>]"

definition yt_get_project :: "'w net \<Rightarrow> api_session \<Rightarrow> vals \<Rightarrow> 'w \<Rightarrow> gval res \<times> 'w" where
  "yt_get_project net s params0 w =
     (let params = with_defaults params0 yt_get_project_schema
      in and_then (resolve_project_id net (sn_http s) (v_string params ''project'') w)
           (\<lambda>i. api_get net (sn_http s) dec_object (''/api/admin/projects/'' @ path_escape i) (yt_fields params)))"

definition yt_create_project_schema :: schema where
  "yt_create_project_schema =
     [(field ''key'' FieldString)\<lparr>f_required := True, f_description := ''Project shortName (e.g. MW).''\<rparr>,
      (field ''name'' FieldString)\<lparr>f_required := True, f_description := ''Display name.''\<rparr>,
      (field ''lead'' FieldString)\<lparr>f_description := ''Project lead login or id. Defaults to /me.''\<rparr>,
      field ''description'' FieldLongText]"

definition default_lead :: "'w net \<Rightarrow> http_config \<Rightarrow> string \<Rightarrow> 'w \<Rightarrow> string res \<times> 'w" where
  "default_lead net cli lead w =
     (if lead \<noteq> [] then (Inr lead, w)
      else wrap_err ''resolve default lead: '' (api_get net cli (dec_field ''id'' dec_string) ''/api/users/me?fields=id'' [] w))"

definition yt_create_project :: "'w net \<Rightarrow> api_session \<Rightarrow> vals \<Rightarrow> 'w \<Rightarrow> gval res \<times> 'w" where
  "yt_create_project net s params0 w =
     (let params = with_defaults params0 yt_create_project_schema; key = v_string params ''key''; name = v_string params ''name''
      in if key = [] \<or> name = [] then (Inl (ErrMsg ''key and name are required''), w)
         else and_then (resolve_user_id net (sn_http s) (v_string params ''lead'') w)
           (\<lambda>lead0 w1. and_then (default_lead net (sn_http s) lead0 w1)
              (\<lambda>lead. api_send net (sn_http s) dec_object ''POST'' (with_fields ''/api/admin/projects'' project_fields)
                 (GMap ([(''name'', GStr name), (''shortName'', GStr key), (''leader'', GMap [(''id'', GStr lead)])]
                    @ opt_str ''description'' (v_string params ''description''))))))"

definition yt_create_token_schema :: schema where
  "yt_create_token_schema =
     [(field ''user'' FieldString)\<lparr>f_required := True,
        f_description := ''Login or id of the user to mint a token for.''\<rparr>,
      (field ''name'' FieldString)\<lparr>f_default := Some (GStr ''pantograf''),
        f_description := ''Display name of the token in the user'' @ apos @ ''s settings.''\<rparr>,
      (field ''scope_id'' FieldString)\<lparr>
        f_description := ''Hub service id. Empty = auto-resolve YouTrack app service. Override only for non-default scopes ''
          @ ''(e.g. YouTrack Mobile).''\<rparr>]"

definition yt_create_token :: "'w net \<Rightarrow> api_session \<Rightarrow> vals \<Rightarrow> 'w \<Rightarrow> gval res \<times> 'w" where
  "yt_create_token net s params0 w =
     (let params = with_defaults params0 yt_create_token_schema; user = v_string params ''user''; scope0 = v_string params ''scope_id''
      in if user = [] then (Inl (ErrMsg ''user is required''), w)
         else and_then (resolve_ring_id net (sn_http s) user w)
           (\<lambda>ring w1.
              and_then (if scope0 = [] then wrap_err ''auto-resolve scope: '' (resolve_service_id net (sn_http s) w1) else (Inr scope0, w1))
                (\<lambda>scope. api_send net (sn_http s) dec_object ''POST''
                   (with_fields (''/hub/api/rest/users/'' @ path_escape ring @ ''/permanenttokens'') ''id,name,token,scope(id,name)'')
                   (GMap [(''name'', GStr (v_string params ''name'')), (''scope'', GList [GMap [(''id'', GStr scope)]])]))))"

definition yt_list_project_team_schema :: schema where
  "yt_list_project_team_schema =
     [(field ''project'' FieldString)\<lparr>f_required := True, f_description := ''shortName or id.''\<rparr>]"

definition yt_list_project_team :: "'w net \<Rightarrow> api_session \<Rightarrow> vals \<Rightarrow> 'w \<Rightarrow> gval res \<times> 'w" where
  "yt_list_project_team net s params w =
     and_then (resolve_project_id net (sn_http s) (v_string params ''project'') w)
       (\<lambda>i. api_get net (sn_http s) (dec_field ''users'' dec_objects) (''/api/admin/projects/'' @ path_escape i @ ''/team'')
          [(''fields'', [''users(id,login,fullName,email,banned)''])])"

section \<open>Issues\<close>

text \<open>Project and query as one query.\<close>

definition yt_search :: "vals \<Rightarrow> url_values" where
  "yt_search params =
     (let pk = v_string params ''project_key''; q = v_string params ''query'';
          bits = (if pk \<noteq> [] then [''project: '' @ pk] else []) @ (if q \<noteq> [] then [q] else [])
      in if bits = [] then [] else [(''query'', [join_with '' '' bits])])"

definition yt_list_issues_schema :: schema where
  "yt_list_issues_schema =
     [(field ''project_key'' FieldString)\<lparr>f_description := ''Filter to a single project shortName.''\<rparr>,
      (field ''query'' FieldString)\<lparr>f_description := ''YouTrack query (e.g. '' @ apos @ ''for: me #Open'' @ apos
          @ ''). Combined with project filter if both present.''\<rparr>,
      (field ''top'' FieldInt)\<lparr>f_default := Some (GInt 100)\<rparr>,
      (field ''skip'' FieldInt)\<lparr>f_default := Some (GInt 0)\<rparr>,
      (field ''fields'' FieldString)\<lparr>
        f_default := Some (GStr ''id,idReadable,summary,description,project(id,shortName,name),reporter(login,fullName),created,updated,resolved,customFields(name,value(login,name,fullName,id))'')\<rparr>]"

definition yt_list_issues :: "'w net \<Rightarrow> api_session \<Rightarrow> vals \<Rightarrow> 'w \<Rightarrow> gval res \<times> 'w" where
  "yt_list_issues net s params0 w =
     (let params = with_defaults params0 yt_list_issues_schema
      in api_get net (sn_http s) dec_objects ''/api/issues'' (yt_fields params @ yt_search params @ yt_paging params) w)"

definition yt_get_issue_schema :: schema where
  "yt_get_issue_schema =
     [(field ''id'' FieldString)\<lparr>f_required := True, f_description := ''MW-123 or the internal id.''\<rparr>,
      (field ''fields'' FieldString)\<lparr>
        f_default := Some (GStr ''id,idReadable,summary,description,project(id,shortName,name),reporter(login,fullName),created,updated,resolved,customFields(name,value(login,name,fullName,id))'')\<rparr>]"

definition yt_get_issue :: "'w net \<Rightarrow> api_session \<Rightarrow> vals \<Rightarrow> 'w \<Rightarrow> gval res \<times> 'w" where
  "yt_get_issue net s params0 w =
     (let params = with_defaults params0 yt_get_issue_schema; i = v_string params ''id''
      in if i = [] then (Inl (ErrMsg ''id is required''), w)
         else api_get net (sn_http s) dec_object (''/api/issues/'' @ path_escape i) (yt_fields params) w)"

definition issue_ref :: "string \<Rightarrow> gval" where
  "issue_ref i = GMap [(''idReadable'', GStr i)]"

definition yt_apply_command_schema :: schema where
  "yt_apply_command_schema =
     [(field ''command'' FieldString)\<lparr>f_required := True,
        f_description := ''YouTrack command-bar syntax. e.g. '' @ apos @ ''Priority Critical'' @ apos @ '' or '' @ apos
          @ ''Assignee katharina Due 2026-12-31'' @ apos @ ''.''\<rparr>,
      (field ''issues'' FieldStringList)\<lparr>f_required := True,
        f_description := ''One or more issue ids (readable form like PGFT-1, or internal). Comma-separate or repeat -p.''\<rparr>,
      (field ''comment'' FieldLongText)\<lparr>
        f_description := ''Optional comment to add alongside the command.''\<rparr>,
      (field ''silent'' FieldBool)\<lparr>f_default := Some (GBool False),
        f_description := ''Suppress notification emails.''\<rparr>]"

definition yt_apply_command :: "'w net \<Rightarrow> api_session \<Rightarrow> vals \<Rightarrow> 'w \<Rightarrow> gval res \<times> 'w" where
  "yt_apply_command net s params0 w =
     (let params = with_defaults params0 yt_apply_command_schema; cmd = v_string params ''command'';
          issues = v_string_list params ''issues''
      in if cmd = [] \<or> issues = [] then (Inl (ErrMsg ''command and issues are required''), w)
         else and_then (api_send net (sn_http s) dec_object ''POST'' ''/api/commands''
             (GMap ([(''query'', GStr cmd), (''issues'', GList (map issue_ref issues)), (''silent'', GBool (v_bool params ''silent''))]
                @ opt_str ''comment'' (v_string params ''comment''))) w)
           (\<lambda>out w1. (Inr (GMap [(''applied'', GStr cmd), (''issues'', GStrs issues), (''result'', out)]), w1)))"

definition yt_set_assignee_schema :: schema where
  "yt_set_assignee_schema =
     [(field ''issue'' FieldString)\<lparr>f_required := True,
        f_description := ''Issue id (PGFT-1) or comma-list.''\<rparr>,
      (field ''login'' FieldString)\<lparr>f_required := True,
        f_description := ''User login. Use '' @ apos @ ''Unassigned'' @ apos @ '' to clear.''\<rparr>,
      (field ''silent'' FieldBool)\<lparr>f_default := Some (GBool False)\<rparr>]"

definition yt_set_assignee :: "'w net \<Rightarrow> api_session \<Rightarrow> vals \<Rightarrow> 'w \<Rightarrow> gval res \<times> 'w" where
  "yt_set_assignee net s params0 w =
     (let params = with_defaults params0 yt_set_assignee_schema; issue = v_string params ''issue''; login = v_string params ''login''
      in if issue = [] \<or> login = [] then (Inl (ErrMsg ''issue and login are required''), w)
         else and_then (api_send net (sn_http s) dec_object ''POST'' ''/api/commands''
             (GMap [(''query'', GStr (''Assignee '' @ login)), (''issues'', GList [issue_ref issue]),
                (''silent'', GBool (v_bool params ''silent''))]) w)
           (\<lambda>_ w1. (Inr (GMap [(''issue'', GStr issue), (''assignee'', GStr login)]), w1)))"

definition yt_list_attachments_schema :: schema where
  "yt_list_attachments_schema =
     [(field ''issue'' FieldString)\<lparr>f_required := True\<rparr>]"

definition yt_list_attachments :: "'w net \<Rightarrow> api_session \<Rightarrow> vals \<Rightarrow> 'w \<Rightarrow> gval res \<times> 'w" where
  "yt_list_attachments net s params w =
     (let issue = v_string params ''issue''
      in if issue = [] then (Inl (ErrMsg ''issue is required''), w)
         else api_get net (sn_http s) dec_objects (''/api/issues/'' @ path_escape issue @ ''/attachments'')
           [(''fields'', [''id,name,size,mimeType,url,author(login,fullName),created''])] w)"

definition yt_attach_file_schema :: schema where
  "yt_attach_file_schema =
     [(field ''issue'' FieldString)\<lparr>f_required := True\<rparr>,
      (field ''file'' FieldString)\<lparr>f_required := True, f_is_path := True,
        f_description := ''Local file path.''\<rparr>]"

definition yt_attach_file :: "('m cli_scheme) net \<Rightarrow> api_session \<Rightarrow> vals \<Rightarrow> 'm cli_scheme \<Rightarrow> gval res \<times> 'm cli_scheme" where
  "yt_attach_file net s params w =
     (let issue = v_string params ''issue''; f = v_string params ''file''
      in if issue = [] \<or> f = [] then (Inl (ErrMsg ''issue and file are required''), w)
         else case os_stat (c_os w) f of
           Inl e \<Rightarrow> (Inl (ErrWrap ''attach: '' e []), w)
         | Inr _ \<Rightarrow>
             api_upload net (sn_http s) dec_any
               (with_fields (''/api/issues/'' @ path_escape issue @ ''/attachments'') ''id,name,size,mimeType,url'') []
               [\<lparr>ff_field = ''file'', ff_path = f, ff_mime = [], ff_filename = []\<rparr>] w)"

definition dec_attachment :: "gval \<Rightarrow> (string \<times> string) option" where
  "dec_attachment v =
     (case (dec_pair (dec_field ''url'' dec_string) (dec_field ''name'' dec_string) v,
            dec_pair (dec_field ''id'' dec_string) (dec_field ''size'' dec_int) v) of
        (Some p, Some _) \<Rightarrow> Some p
      | _ \<Rightarrow> None)"

definition yt_download_attachment_schema :: schema where
  "yt_download_attachment_schema =
     [(field ''issue'' FieldString)\<lparr>f_required := True\<rparr>,
      (field ''attachment_id'' FieldString)\<lparr>f_required := True,
        f_description := ''From list-attachments.''\<rparr>,
      (field ''out'' FieldString)\<lparr>f_required := True, f_is_path := True,
        f_description := ''Output file path.''\<rparr>]"

definition yt_download_attachment :: "('m cli_scheme) net \<Rightarrow> api_session \<Rightarrow> vals \<Rightarrow> 'm cli_scheme \<Rightarrow> gval res \<times> 'm cli_scheme" where
  "yt_download_attachment net s params w =
     (let issue = v_string params ''issue''; aid = v_string params ''attachment_id''; out = v_string params ''out''
      in if issue = [] \<or> aid = [] \<or> out = [] then (Inl (ErrMsg ''issue, attachment_id and out are required''), w)
         else and_then (api_get net (sn_http s) dec_attachment
             (''/api/issues/'' @ path_escape issue @ ''/attachments/'' @ path_escape aid)
             [(''fields'', [''id,name,url,size,mimeType''])] w)
           (\<lambda>(url, name) w1.
              if url = [] then (Inl (ErrMsg ''attachment has no url''), w1)
              else and_then (wrap_err ''download: '' (do_raw net (sn_http s) ''GET'' url [] [] w1))
                (\<lambda>resp w2.
                   if as_status resp div 100 \<noteq> 2 then
                     (Inl (ErrMsg (''download: http '' @ itoa (as_status resp) @ '': '' @ raw_text resp)), w2)
                   else and_then (create_and_copy id (\<lambda>e. ErrWrap ''write: '' e []) out (as_body resp) w2)
                     (\<lambda>n w3. (Inr (GMap [(''saved'', GBool True), (''path'', GStr out), (''size'', GInt64 (int n)),
                        (''name'', GStr name)]), w3)))))"

definition link_phrases :: "(string \<times> (string \<times> string) list) list" where
  "link_phrases =
     [(''Subtask'', [(''OUTWARD'', ''parent for''), (''INWARD'', ''subtask of'')]),
      (''Depend'', [(''OUTWARD'', ''is required for''), (''INWARD'', ''depends on'')]),
      (''Duplicate'', [(''OUTWARD'', ''is duplicated by''), (''INWARD'', ''duplicates'')]),
      (''Relates'', [(''OUTWARD'', ''relates to''), (''INWARD'', ''relates to''), (''BOTH'', ''relates to'')])]"

definition link_command_phrase :: "string \<Rightarrow> string \<Rightarrow> string res" where
  "link_command_phrase typ dir =
     (case map_of link_phrases typ of
        None \<Rightarrow> Inl (ErrMsg (''unknown link_type '' @ go_quote typ @ '' (expected Subtask|Depend|Duplicate|Relates)''))
      | Some dirs \<Rightarrow>
          (case map_of dirs dir of
             None \<Rightarrow> Inl (ErrMsg (''unsupported direction '' @ go_quote dir @ '' for link_type '' @ go_quote typ))
           | Some ph \<Rightarrow> Inr ph))"

definition yt_link_issues_schema :: schema where
  "yt_link_issues_schema =
     [(field ''issue'' FieldString)\<lparr>f_required := True, f_description := ''Source issue id.''\<rparr>,
      (field ''target'' FieldString)\<lparr>f_required := True, f_description := ''Target issue id.''\<rparr>,
      (field ''link_type'' FieldString)\<lparr>f_default := Some (GStr ''Subtask''),
        f_description := ''Subtask | Relates | Depend | Duplicate (singular, as YouTrack names them).''\<rparr>,
      (field ''direction'' FieldEnum)\<lparr>f_default := Some (GStr ''OUTWARD''),
        f_options := [\<lparr>o_value = ''OUTWARD'', o_label = ''Outward (source is parent / is required for / is duplicated by)''\<rparr>,
          \<lparr>o_value = ''INWARD'', o_label = ''Inward (source is child / depends on / duplicates)''\<rparr>,
          \<lparr>o_value = ''BOTH'', o_label = ''Both (Relates is symmetric)''\<rparr>]\<rparr>]"

definition yt_link_issues :: "'w net \<Rightarrow> api_session \<Rightarrow> vals \<Rightarrow> 'w \<Rightarrow> gval res \<times> 'w" where
  "yt_link_issues net s params0 w =
     (let params = with_defaults params0 yt_link_issues_schema; issue = v_string params ''issue''; target = v_string params ''target'';
          typ = v_string params ''link_type''; dir = v_string params ''direction''
      in if issue = [] \<or> target = [] then (Inl (ErrMsg ''issue and target are required''), w)
         else case link_command_phrase typ dir of
           Inl e \<Rightarrow> (Inl e, w)
         | Inr ph \<Rightarrow>
             and_then (api_send net (sn_http s) dec_object ''POST'' ''/api/commands''
                 (GMap [(''query'', GStr (ph @ '' '' @ target)), (''issues'', GList [issue_ref issue]), (''silent'', GBool True)]) w)
               (\<lambda>_ w1. (Inr (GMap [(''source'', GStr issue), (''target'', GStr target), (''link_type'', GStr typ),
                  (''direction'', GStr dir), (''command'', GStr (ph @ '' '' @ target))]), w1)))"

definition yt_update_issue_schema :: schema where
  "yt_update_issue_schema =
     [(field ''id'' FieldString)\<lparr>f_required := True,
        f_description := ''Readable id (e.g. AGT-13) or internal id.''\<rparr>,
      (field ''summary'' FieldString)\<lparr>f_description := ''New summary. Omit to leave unchanged.''\<rparr>,
      (field ''description'' FieldLongText)\<lparr>
        f_description := ''New description. Omit to leave unchanged.''\<rparr>,
      (field ''uses_markdown'' FieldBool)\<lparr>f_default := Some (GBool True),
        f_description := ''Whether the description uses Markdown. Only applied when description is supplied.''\<rparr>]"

definition yt_update_issue :: "'w net \<Rightarrow> api_session \<Rightarrow> vals \<Rightarrow> 'w \<Rightarrow> gval res \<times> 'w" where
  "yt_update_issue net s params0 w =
     (let params = with_defaults params0 yt_update_issue_schema; i = v_string params ''id''; desc = v_string params ''description'';
          body = opt_str ''summary'' (v_string params ''summary'')
            @ (if desc \<noteq> [] then [(''description'', GStr desc), (''usesMarkdown'', GBool (v_bool params ''uses_markdown''))] else [])
      in if i = [] then (Inl (ErrMsg ''id is required''), w)
         else if body = [] then (Inl (ErrMsg ''supply at least one of summary or description''), w)
         else api_send net (sn_http s) dec_object ''POST'' (with_fields (''/api/issues/'' @ path_escape i) issue_fields) (GMap body) w)"

definition yt_list_issue_links_schema :: schema where
  "yt_list_issue_links_schema =
     [(field ''issue'' FieldString)\<lparr>f_required := True\<rparr>]"

definition yt_list_issue_links :: "'w net \<Rightarrow> api_session \<Rightarrow> vals \<Rightarrow> 'w \<Rightarrow> gval res \<times> 'w" where
  "yt_list_issue_links net s params w =
     (let issue = v_string params ''issue''
      in if issue = [] then (Inl (ErrMsg ''issue is required''), w)
         else api_get net (sn_http s) dec_objects (''/api/issues/'' @ path_escape issue @ ''/links'')
           [(''fields'', [''id,direction,linkType(name,sourceToTarget,targetToSource),issues(idReadable,summary)''])] w)"

definition yt_add_comment_schema :: schema where
  "yt_add_comment_schema =
     [(field ''issue'' FieldString)\<lparr>f_required := True,
        f_description := ''Readable id (PGFT-1) or internal id.''\<rparr>,
      (field ''text'' FieldLongText)\<lparr>f_required := True\<rparr>,
      (field ''uses_markdown'' FieldBool)\<lparr>f_default := Some (GBool True)\<rparr>]"

definition yt_add_comment :: "'w net \<Rightarrow> api_session \<Rightarrow> vals \<Rightarrow> 'w \<Rightarrow> gval res \<times> 'w" where
  "yt_add_comment net s params0 w =
     (let params = with_defaults params0 yt_add_comment_schema; issue = v_string params ''issue''; text = v_string params ''text''
      in if issue = [] \<or> text = [] then (Inl (ErrMsg ''issue and text are required''), w)
         else api_send net (sn_http s) dec_object ''POST''
           (with_fields (''/api/issues/'' @ path_escape issue @ ''/comments'')
              ''id,text,usesMarkdown,created,updated,author(login,fullName)'')
           (GMap [(''text'', GStr text), (''usesMarkdown'', GBool (v_bool params ''uses_markdown''))]) w)"

text \<open>Linking a new issue below its parent: the outcome is noted in the answer of the creation.\<close>

definition link_parent :: "'w net \<Rightarrow> http_config \<Rightarrow> string \<Rightarrow> gval \<Rightarrow> 'w \<Rightarrow> gval res \<times> 'w" where
  "link_parent net cli parent out w =
     (let readable = map_string out ''idReadable''; new_id = (if readable = [] then map_string out ''id'' else readable)
      in case api_send net cli dec_object ''POST'' (''/api/issues/'' @ path_escape parent @ ''/links'')
             (GMap [(''linkType'', GMap [(''name'', GStr ''Subtask'')]), (''direction'', GStr ''OUTWARD''),
                (''issues'', GList [issue_ref new_id])]) w of
           (Inl e, w1) \<Rightarrow> (map_set ''_link_error'' (GStr (err_text e)) out, w1)
         | (Inr _, w1) \<Rightarrow> (map_set ''_parent_issue'' (GStr parent) out, w1))"

definition yt_create_issue_schema :: schema where
  "yt_create_issue_schema =
     [(field ''project_key'' FieldString)\<lparr>f_required := True,
        f_description := ''Project shortName (e.g. MW) or id.''\<rparr>,
      (field ''summary'' FieldString)\<lparr>f_required := True\<rparr>,
      field ''description'' FieldLongText,
      (field ''assignee_login'' FieldString)\<lparr>
        f_description := ''Set the Assignee custom field by user login.''\<rparr>,
      (field ''parent_issue'' FieldString)\<lparr>
        f_description := ''If set, the new issue is created and then linked as a Subtask of this parent (e.g. PGFT-9).''\<rparr>]"

definition issue_body :: "string \<Rightarrow> vals \<Rightarrow> gval" where
  "issue_body project params =
     (let assignee = v_string params ''assignee_login''
      in GMap ([(''project'', GMap [(''id'', GStr project)]), (''summary'', GStr (v_string params ''summary''))]
           @ opt_str ''description'' (v_string params ''description'')
           @ (if assignee \<noteq> [] then
                [(''customFields'', GList [GMap [(''name'', GStr ''Assignee''), (''$type'', GStr ''SingleUserIssueCustomField''),
                    (''value'', GMap [(''login'', GStr assignee)])]])]
              else [])))"

definition yt_create_issue :: "'w net \<Rightarrow> api_session \<Rightarrow> vals \<Rightarrow> 'w \<Rightarrow> gval res \<times> 'w" where
  "yt_create_issue net s params0 w =
     (let params = with_defaults params0 yt_create_issue_schema; pk = v_string params ''project_key'';
          parent = v_string params ''parent_issue''
      in if pk = [] \<or> v_string params ''summary'' = [] then (Inl (ErrMsg ''project_key and summary are required''), w)
         else and_then (resolve_project_id net (sn_http s) pk w)
           (\<lambda>project w1.
              and_then (api_send net (sn_http s) dec_object ''POST'' (with_fields ''/api/issues'' issue_fields) (issue_body project params) w1)
                (\<lambda>out w2. if parent = [] then (Inr out, w2) else link_parent net (sn_http s) parent out w2)))"

section \<open>Articles\<close>

definition yt_list_articles_schema :: schema where
  "yt_list_articles_schema =
     [(field ''project_key'' FieldString)\<lparr>f_description := ''Filter to a project shortName.''\<rparr>,
      (field ''query'' FieldString)\<lparr>f_description := ''Additional YouTrack query string.''\<rparr>,
      (field ''top'' FieldInt)\<lparr>f_default := Some (GInt 100)\<rparr>,
      (field ''skip'' FieldInt)\<lparr>f_default := Some (GInt 0)\<rparr>,
      (field ''fields'' FieldString)\<lparr>
        f_default := Some (GStr ''id,idReadable,summary,content,project(id,shortName,name),parentArticle(id,idReadable,summary),ordinal,created,updated,reporter(login,fullName),tags(name),hasChildren,childArticles(idReadable,summary,hasChildren,ordinal),visibility($type)'')\<rparr>]"

definition yt_list_articles :: "'w net \<Rightarrow> api_session \<Rightarrow> vals \<Rightarrow> 'w \<Rightarrow> gval res \<times> 'w" where
  "yt_list_articles net s params0 w =
     (let params = with_defaults params0 yt_list_articles_schema
      in api_get net (sn_http s) dec_objects ''/api/articles'' (yt_fields params @ yt_search params @ yt_paging params) w)"

definition yt_get_article_schema :: schema where
  "yt_get_article_schema =
     [(field ''id'' FieldString)\<lparr>f_required := True\<rparr>,
      (field ''fields'' FieldString)\<lparr>
        f_default := Some (GStr ''id,idReadable,summary,content,project(id,shortName,name),parentArticle(id,idReadable,summary),ordinal,created,updated,reporter(login,fullName),tags(name),hasChildren,childArticles(idReadable,summary,hasChildren,ordinal),visibility($type)'')\<rparr>]"

definition yt_get_article :: "'w net \<Rightarrow> api_session \<Rightarrow> vals \<Rightarrow> 'w \<Rightarrow> gval res \<times> 'w" where
  "yt_get_article net s params0 w =
     (let params = with_defaults params0 yt_get_article_schema; i = v_string params ''id''
      in if i = [] then (Inl (ErrMsg ''id is required''), w)
         else api_get net (sn_http s) dec_object (''/api/articles/'' @ path_escape i) (yt_fields params) w)"

text \<open>The walk down the articles: the children of an article, those that have children with theirs, to a depth.\<close>

datatype article_node = ArticleNode (an_id: string) (an_summary: string) (an_children: "article_node list")

fun node_json :: "article_node \<Rightarrow> gval" where
  "node_json (ArticleNode i summary kids) =
     GMap ([(''id'', GStr i), (''summary'', GStr summary)]
       @ (if kids = [] then [] else [(''children'', GList (map node_json kids))]))"

record child_article =
  ca_id :: string
  ca_summary :: string
  ca_has_children :: bool

definition dec_child :: "gval \<Rightarrow> child_article option" where
  "dec_child v =
     (if \<not> is_object v then None
      else case (dec_string (jfield v ''idReadable''), dec_string (jfield v ''summary''), dec_bool (jfield v ''hasChildren'')) of
        (Some i, Some t, Some h) \<Rightarrow> Some \<lparr>ca_id = i, ca_summary = t, ca_has_children = h\<rparr>
      | _ \<Rightarrow> None)"

type_synonym 'w children_call = "string \<Rightarrow> 'w \<Rightarrow> child_article list res \<times> 'w"

definition call_children :: "'w net \<Rightarrow> http_config \<Rightarrow> 'w children_call" where
  "call_children net cli parent w =
     wrap_err (''walk '' @ parent @ '': '')
       (api_get net cli (dec_list dec_child) (''/api/articles/'' @ path_escape parent @ ''/childArticles'')
          [(''fields'', [''idReadable,summary,hasChildren'']), (''$top'', [''500''])] w)"

function walk_children :: "'w children_call \<Rightarrow> nat \<Rightarrow> string \<Rightarrow> 'w \<Rightarrow> article_node list res \<times> 'w"
  and walk_list :: "'w children_call \<Rightarrow> nat \<Rightarrow> child_article list \<Rightarrow> 'w \<Rightarrow> article_node list res \<times> 'w" where
  "walk_children call 0 parent w = (Inr [], w)"
| "walk_children call (Suc d) parent w = and_then (call parent w) (walk_list call d)"
| "walk_list call d [] w = (Inr [], w)"
| "walk_list call d (c # cs) w =
     and_then (if ca_has_children c then walk_children call d (ca_id c) w else (Inr [], w))
       (\<lambda>kids w1. and_then (walk_list call d cs w1)
          (\<lambda>rest w2. (Inr (ArticleNode (ca_id c) (ca_summary c) kids # rest), w2)))"
  by pat_completeness auto
termination
  by (relation "measures [\<lambda>x. case x of Inl (call, d, parent, w) \<Rightarrow> d | Inr (call, d, cs, w) \<Rightarrow> d,
    \<lambda>x. case x of Inl (call, d, parent, w) \<Rightarrow> 0 | Inr (call, d, cs, w) \<Rightarrow> Suc (length cs)]") auto

definition yt_get_article_tree_schema :: schema where
  "yt_get_article_tree_schema =
     [(field ''id'' FieldString)\<lparr>f_required := True\<rparr>,
      (field ''depth'' FieldInt)\<lparr>f_default := Some (GInt 10),
        f_description := ''Recursion cap. 0 = unlimited.''\<rparr>]"

definition walk_depth :: "int \<Rightarrow> nat" where
  "walk_depth d = nat (if d = 0 then 2 ^ 30 else d)"

definition yt_get_article_tree :: "'w net \<Rightarrow> api_session \<Rightarrow> vals \<Rightarrow> 'w \<Rightarrow> gval res \<times> 'w" where
  "yt_get_article_tree net s params0 w =
     (let params = with_defaults params0 yt_get_article_tree_schema; i = v_string params ''id''
      in if i = [] then (Inl (ErrMsg ''id is required''), w)
         else and_then (api_get net (sn_http s) dec_object (''/api/articles/'' @ path_escape i) [(''fields'', [article_fields])] w)
           (\<lambda>root w1. and_then (walk_children (call_children net (sn_http s)) (walk_depth (v_int params ''depth'')) i w1)
              (\<lambda>tree w2. (map_set ''children'' (GList (map node_json tree)) (map_delete ''childArticles'' root), w2))))"

definition yt_list_child_articles_schema :: schema where
  "yt_list_child_articles_schema =
     [(field ''id'' FieldString)\<lparr>f_required := True, f_description := ''Parent article id.''\<rparr>,
      (field ''fields'' FieldString)\<lparr>
        f_default := Some (GStr ''id,idReadable,summary,content,project(id,shortName,name),parentArticle(id,idReadable,summary),ordinal,created,updated,reporter(login,fullName),tags(name),hasChildren,childArticles(idReadable,summary,hasChildren,ordinal),visibility($type)'')\<rparr>]"

definition yt_list_child_articles :: "'w net \<Rightarrow> api_session \<Rightarrow> vals \<Rightarrow> 'w \<Rightarrow> gval res \<times> 'w" where
  "yt_list_child_articles net s params0 w =
     (let params = with_defaults params0 yt_list_child_articles_schema; i = v_string params ''id''
      in if i = [] then (Inl (ErrMsg ''id is required''), w)
         else api_get net (sn_http s) dec_objects (''/api/articles/'' @ path_escape i @ ''/childArticles'')
           (yt_fields params @ [(''$top'', [''200''])]) w)"

definition yt_create_article_schema :: schema where
  "yt_create_article_schema =
     [(field ''project_key'' FieldString)\<lparr>f_required := True,
        f_description := ''Project shortName or id.''\<rparr>,
      (field ''summary'' FieldString)\<lparr>f_required := True, f_description := ''Title.''\<rparr>,
      (field ''content'' FieldLongText)\<lparr>f_description := ''Markdown body.''\<rparr>,
      (field ''parent_article'' FieldString)\<lparr>
        f_description := ''Parent article id (readable or internal) '' @ em_dash @ '' makes this a sub-article.''\<rparr>]"

definition yt_create_article :: "'w net \<Rightarrow> api_session \<Rightarrow> vals \<Rightarrow> 'w \<Rightarrow> gval res \<times> 'w" where
  "yt_create_article net s params0 w =
     (let params = with_defaults params0 yt_create_article_schema; pk = v_string params ''project_key'';
          summary = v_string params ''summary''; parent = v_string params ''parent_article''
      in if pk = [] \<or> summary = [] then (Inl (ErrMsg ''project_key and summary are required''), w)
         else and_then (resolve_project_id net (sn_http s) pk w)
           (\<lambda>project w1.
              and_then (if parent = [] then (Inr [], w1)
                        else and_then (wrap_err ''parent_article: '' (resolve_article_id net (sn_http s) parent w1))
                          (\<lambda>i w2. (Inr [(''parentArticle'', GMap [(''id'', GStr i)])], w2)))
                (\<lambda>extra. api_send net (sn_http s) dec_object ''POST'' (with_fields ''/api/articles'' article_fields)
                   (GMap ([(''project'', GMap [(''id'', GStr project)]), (''summary'', GStr summary)]
                      @ opt_str ''content'' (v_string params ''content'') @ extra)))))"

definition yt_update_article_schema :: schema where
  "yt_update_article_schema =
     [(field ''id'' FieldString)\<lparr>f_required := True\<rparr>,
      (field ''summary'' FieldString)\<lparr>f_description := ''New title (omit to leave unchanged).''\<rparr>,
      (field ''content'' FieldLongText)\<lparr>f_description := ''New markdown body (omit to leave unchanged).''\<rparr>]"

definition yt_update_article :: "'w net \<Rightarrow> api_session \<Rightarrow> vals \<Rightarrow> 'w \<Rightarrow> gval res \<times> 'w" where
  "yt_update_article net s params w =
     (let i = v_string params ''id'';
          body = opt_str ''summary'' (v_string params ''summary'') @ opt_str ''content'' (v_string params ''content'')
      in if i = [] then (Inl (ErrMsg ''id is required''), w)
         else if body = [] then (Inl (ErrMsg ''at least one of summary or content must be set''), w)
         else api_send net (sn_http s) dec_object ''POST'' (with_fields (''/api/articles/'' @ path_escape i) article_fields) (GMap body) w)"

definition yt_delete_article_schema :: schema where
  "yt_delete_article_schema =
     [(field ''id'' FieldString)\<lparr>f_required := True\<rparr>]"

definition yt_delete_article :: "'w net \<Rightarrow> api_session \<Rightarrow> vals \<Rightarrow> 'w \<Rightarrow> gval res \<times> 'w" where
  "yt_delete_article net s params w =
     (let i = v_string params ''id''
      in if i = [] then (Inl (ErrMsg ''id is required''), w)
         else and_then (raw_checked net (sn_http s) ''DELETE'' (''/api/articles/'' @ path_escape i) ''delete'' w)
           (\<lambda>_ w1. (Inr (GMap [(''deleted'', GBool True), (''id'', GStr i)]), w1)))"

section \<open>The connector\<close>

definition yt_cred_schema :: schema where
  "yt_cred_schema =
     [(field ''token'' FieldSecret)\<lparr>f_label := ''Permanent token'', f_required := True,
        f_description := ''From YouTrack '' @ right_arrow @ '' Profile '' @ right_arrow @ '' Authentication '' @ right_arrow
          @ '' New token. Looks like '' @ apos @ ''perm-...'' @ apos
          @ '' (or perm-base64.NDEtMA==.suffix). Sent as '' @ bq @ ''Authorization: Bearer <token>'' @ bq @ ''.''\<rparr>,
      (field ''base_url'' FieldString)\<lparr>f_label := ''YouTrack base URL'', f_required := True,
        f_description := ''e.g. https://tasks.sistemica.cloud '' @ em_dash @ '' without trailing /api.''\<rparr>]"

definition yt_defaults :: "vals \<Rightarrow> vals" where
  "yt_defaults p = (case p ''base_url'' of Some (GStr u) \<Rightarrow> p(''base_url'' \<mapsto> GStr (trim_right u ''/'')) | _ \<Rightarrow> p)"

definition dec_me :: "gval \<Rightarrow> (string \<times> string) option" where
  "dec_me v =
     map_option fst
       (dec_pair (dec_pair (dec_field ''login'' dec_string) (dec_field ''fullName'' dec_string)) (dec_field ''email'' dec_string) v)"

definition yt_validate :: "('m cli_scheme) net \<Rightarrow> credential \<Rightarrow> 'm cli_scheme \<Rightarrow> unit res \<times> 'm cli_scheme" where
  "yt_validate net c w =
     (case yt_client c of
        Inl e \<Rightarrow> (Inl e, w)
      | Inr cli \<Rightarrow>
          and_then (wrap_err ''users/me probe: '' (api_get net cli dec_me ''/api/users/me?fields=login,fullName,email'' [] w))
            (\<lambda>(login, full) w1.
               (Inr (), if login = [] then w1
                        else say ('' '') (if full = [] then say (''(as '' @ login @ '')'') w1
                                         else say ('' '' @ full) (say (''(as '' @ login @ '')'') w1)))))"

definition yt_me_action where
  "yt_me_action net =
     mk_action ''me'' ''Get my user''
       ''Return the user the bound token belongs to. Cheapest validate.''
       [] (yt_me net)"

definition yt_list_users_action where
  "yt_list_users_action net =
     mk_action ''list-users'' ''List users''
       (''List users. Optional query filter (YouTrack syntax e.g. '' @ apos @ ''banned: false'' @ apos @ '').'')
       yt_list_users_schema (yt_list_users net)"

definition yt_get_user_action where
  "yt_get_user_action net =
     mk_action ''get-user'' ''Get user''
       ''Fetch one user by login or id.''
       yt_get_user_schema (yt_get_user net)"

definition yt_create_user_action where
  "yt_create_user_action net =
     mk_action ''create-user'' ''Create user''
       (''Admin: create a YouTrack user. Password optional '' @ em_dash
              @ '' without it the user gets a reset email (if SMTP is configured).'')
       yt_create_user_schema (yt_create_user net)"

definition yt_list_projects_action where
  "yt_list_projects_action net =
     mk_action ''list-projects'' ''List projects''
       ''List all projects visible to this token.''
       yt_list_projects_schema (yt_list_projects net)"

definition yt_get_project_action where
  "yt_get_project_action net =
     mk_action ''get-project'' ''Get project''
       ''Fetch one project by shortName (e.g. MW) or id.''
       yt_get_project_schema (yt_get_project net)"

definition yt_create_project_action where
  "yt_create_project_action net =
     mk_action ''create-project'' ''Create project''
       (''Admin: create a project. lead is required by YouTrack '' @ em_dash
              @ '' defaults to the bound user if omitted.'')
       yt_create_project_schema (yt_create_project net)"

definition yt_list_issues_action where
  "yt_list_issues_action net =
     mk_action ''list-issues'' ''List issues''
       ''Search issues. Optional project filter (shortName/id) plus YouTrack query language.''
       yt_list_issues_schema (yt_list_issues net)"

definition yt_get_issue_action where
  "yt_get_issue_action net =
     mk_action ''get-issue'' ''Get issue''
       (''Fetch one issue. Accepts the human-readable id (e.g. '' @ apos @ ''MW-123'' @ apos @ '').'')
       yt_get_issue_schema (yt_get_issue net)"

definition yt_create_issue_action where
  "yt_create_issue_action net =
     mk_action ''create-issue'' ''Create issue''
       (''Create an issue. Pass project_key (resolved internally) plus summary; description and assignee_login ''
              @ ''optional.'')
       yt_create_issue_schema (yt_create_issue net)"

definition yt_update_issue_action where
  "yt_update_issue_action net =
     mk_action ''update-issue'' ''Update issue''
       ''Modify summary and/or description on an existing issue. Only the supplied fields are changed.''
       yt_update_issue_schema (yt_update_issue net)"

definition yt_add_comment_action where
  "yt_add_comment_action net =
     mk_action ''add-comment'' ''Add comment''
       ''Add a comment to an issue. Issue id can be the readable form (e.g. PGFT-1).''
       yt_add_comment_schema (yt_add_comment net)"

definition yt_apply_command_action where
  "yt_apply_command_action net =
     mk_action ''apply-command'' ''Apply YouTrack command''
       ''Run a YouTrack command (Assignee/Priority/Type/State/Due/...) against one or more issues.''
       yt_apply_command_schema (yt_apply_command net)"

definition yt_set_assignee_action where
  "yt_set_assignee_action net =
     mk_action ''set-assignee'' ''Set assignee''
       ''Assign one or more issues to a user. Convenience over apply-command.''
       yt_set_assignee_schema (yt_set_assignee net)"

definition yt_list_attachments_action where
  "yt_list_attachments_action net =
     mk_action ''list-attachments'' ''List attachments''
       ''List files attached to an issue.''
       yt_list_attachments_schema (yt_list_attachments net)"

definition yt_attach_file_action where
  "yt_attach_file_action net =
     mk_action ''attach-file'' ''Attach file''
       ''Upload a local file as an attachment on an issue.''
       yt_attach_file_schema (yt_attach_file net)"

definition yt_download_attachment_action where
  "yt_download_attachment_action net =
     mk_action ''download-attachment'' ''Download attachment''
       ''Stream an issue attachment to a local file.''
       yt_download_attachment_schema (yt_download_attachment net)"

definition yt_create_token_action where
  "yt_create_token_action net =
     mk_action ''create-token'' ''Create permanent token''
       (''Admin: mint a permanent token for a user (Hub API). Token is returned only once '' @ em_dash
              @ '' save it immediately.'')
       yt_create_token_schema (yt_create_token net)"

definition yt_list_project_team_action where
  "yt_list_project_team_action net =
     mk_action ''list-project-team'' ''List project team''
       (''List users who belong to a project'' @ apos @ ''s team (have any role in the project).'')
       yt_list_project_team_schema (yt_list_project_team net)"

definition yt_list_articles_action where
  "yt_list_articles_action net =
     mk_action ''list-articles'' ''List articles''
       ''List knowledge-base articles. Filter by project + YouTrack query.''
       yt_list_articles_schema (yt_list_articles net)"

definition yt_get_article_action where
  "yt_get_article_action net =
     mk_action ''get-article'' ''Get article''
       (''Fetch one knowledge-base article by id (readable like '' @ apos @ ''MW-A-1'' @ apos
              @ '' or internal).'')
       yt_get_article_schema (yt_get_article net)"

definition yt_get_article_tree_action where
  "yt_get_article_tree_action net =
     mk_action ''get-article-tree'' ''Get article + descendant tree''
       (''Root article in full + a short {id, summary, children[]} tree of all descendants. For polling-and-diff ''
              @ ''workflows.'')
       yt_get_article_tree_schema (yt_get_article_tree net)"

definition yt_list_child_articles_action where
  "yt_list_child_articles_action net =
     mk_action ''list-child-articles'' ''List child articles''
       ''Sub-articles of an article (one level).''
       yt_list_child_articles_schema (yt_list_child_articles net)"

definition yt_create_article_action where
  "yt_create_article_action net =
     mk_action ''create-article'' ''Create article''
       ''Create a knowledge-base article. parent_article makes it a sub-article.''
       yt_create_article_schema (yt_create_article net)"

definition yt_update_article_action where
  "yt_update_article_action net =
     mk_action ''update-article'' ''Update article''
       ''Modify summary and/or content. Only the supplied fields are changed.''
       yt_update_article_schema (yt_update_article net)"

definition yt_delete_article_action where
  "yt_delete_article_action net =
     mk_action ''delete-article'' ''Delete article''
       ''Permanently delete an article. Children are deleted too.''
       yt_delete_article_schema (yt_delete_article net)"

definition yt_link_issues_action where
  "yt_link_issues_action net =
     mk_action ''link-issues'' ''Link issues''
       ''Create a link between two issues. Default Subtask/OUTWARD makes target a child of source.''
       yt_link_issues_schema (yt_link_issues net)"

definition yt_list_issue_links_action where
  "yt_list_issue_links_action net =
     mk_action ''list-issue-links'' ''List issue links''
       ''All links on an issue: subtasks, parents, relates, depends, duplicates.''
       yt_list_issue_links_schema (yt_list_issue_links net)"

definition youtrack_connector :: "('m cli_scheme) net \<Rightarrow> ('m cli_scheme, api_session) connector" where
  "youtrack_connector net =
     \<lparr>c_descriptor = \<lparr>d_name = ''youtrack'', d_display = ''YouTrack (JetBrains)'',
        d_description = ''Issues, projects, users. Bearer (permanent token) auth.'',
        d_version = ''0.1.0'', d_categories = [''issues'', ''collab'']\<rparr>,
      c_credential = \<lparr>cs_kind = AuthAPIKey, cs_schema = yt_cred_schema, cs_presets = [], cs_defaults = yt_defaults,
        cs_validate = keep_values (yt_validate net)\<rparr>,
      c_actions =
        [yt_me_action net, yt_list_users_action net, yt_get_user_action net, yt_create_user_action net,
         yt_list_projects_action net, yt_get_project_action net, yt_create_project_action net,
         yt_list_issues_action net, yt_get_issue_action net, yt_create_issue_action net, yt_update_issue_action net,
         yt_add_comment_action net, yt_apply_command_action net, yt_set_assignee_action net,
         yt_list_attachments_action net, yt_attach_file_action net, yt_download_attachment_action net,
         yt_create_token_action net, yt_list_project_team_action net, yt_list_articles_action net,
         yt_get_article_action net, yt_get_article_tree_action net, yt_list_child_articles_action net,
         yt_create_article_action net, yt_update_article_action net, yt_delete_article_action net,
         yt_link_issues_action net, yt_list_issue_links_action net],
      c_triggers = [],
      c_open = open_with yt_client,
      c_close = (\<lambda>_ w. (Inr (), w))\<rparr>"

section \<open>What the walk finds\<close>

text \<open>A tree of articles as the service holds it, and a service that answers for each of them.\<close>

datatype article = Article (at_id: string) (at_summary: string) (at_kids: "article list")

fun node_of :: "article \<Rightarrow> article_node" where
  "node_of (Article i t kids) = ArticleNode i t (map node_of kids)"

fun tree_height :: "article \<Rightarrow> nat" where
  "tree_height (Article i t kids) = (if kids = [] then 0 else Suc (Max (set (map tree_height kids))))"

definition child_of :: "article \<Rightarrow> child_article" where
  "child_of a = \<lparr>ca_id = at_id a, ca_summary = at_summary a, ca_has_children = (at_kids a \<noteq> [])\<rparr>"

lemma child_of_sel [simp]:
  "ca_id (child_of a) = at_id a" "ca_summary (child_of a) = at_summary a" "ca_has_children (child_of a) \<longleftrightarrow> at_kids a \<noteq> []"
  by (simp_all add: child_of_def)

lemma node_of_sel: "node_of a = ArticleNode (at_id a) (at_summary a) (map node_of (at_kids a))"
  by (cases a) simp

fun serves :: "'w children_call \<Rightarrow> article \<Rightarrow> bool" where
  "serves call (Article i t kids) =
     ((\<forall>w. \<exists>w'. call i w = (Inr (map child_of kids), w')) \<and> list_all (serves call) kids)"

lemma child_height: "k \<in> set kids \<Longrightarrow> tree_height (Article i t kids) \<le> Suc d \<Longrightarrow> tree_height k \<le> d"
proof -
  assume k: "k \<in> set kids" and h: "tree_height (Article i t kids) \<le> Suc d"
  then have "Max (tree_height ` set kids) \<le> d" by (auto split: if_splits)
  moreover have "tree_height k \<le> Max (tree_height ` set kids)" using k by (intro Max_ge) auto
  ultimately show ?thesis by simp
qed

lemma walk_both:
  "\<forall>a w. serves call a \<longrightarrow> tree_height a \<le> d \<longrightarrow> (\<exists>w'. walk_children call d (at_id a) w = (Inr (map node_of (at_kids a)), w'))"
proof (induction d)
  case 0
  have "at_kids a = []" if "tree_height a \<le> 0" for a using that by (cases a) (auto split: if_splits)
  then show ?case by auto
next
  case (Suc d)
  have list: "list_all (serves call) ks \<Longrightarrow> \<forall>k\<in>set ks. tree_height k \<le> d \<Longrightarrow>
      \<exists>w'. walk_list call d (map child_of ks) w = (Inr (map node_of ks), w')" for ks w
  proof (induction ks arbitrary: w)
    case Nil
    then show ?case by simp
  next
    case (Cons k ks)
    have "\<exists>w1. walk_children call d (at_id k) w = (Inr (map node_of (at_kids k)), w1)"
      by (rule Suc.IH [rule_format]) (use Cons.prems in simp_all)
    then obtain w1 where w1:
      "(if at_kids k \<noteq> [] then walk_children call d (at_id k) w else (Inr [], w)) = (Inr (map node_of (at_kids k)), w1)"
      by (cases "at_kids k = []") auto
    obtain w2 where "walk_list call d (map child_of ks) w1 = (Inr (map node_of ks), w2)"
      using Cons.IH [of w1] Cons.prems by auto
    with w1 show ?case using node_of_sel [of k] by (auto split: if_splits)
  qed
  show ?case
  proof (intro allI impI)
    fix a w assume a: "serves call a" "tree_height a \<le> Suc d"
    obtain i t kids where art: "a = Article i t kids" by (cases a)
    obtain w1 where "call i w = (Inr (map child_of kids), w1)" using a(1) art by fastforce
    moreover have "\<forall>k\<in>set kids. tree_height k \<le> d" using child_height a(2) art by blast
    moreover have "list_all (serves call) kids" using a(1) art by simp
    ultimately show "\<exists>w'. walk_children call (Suc d) (at_id a) w = (Inr (map node_of (at_kids a)), w')"
      using list [of kids w1] art by simp
  qed
qed


definition ex_tree :: article where
  "ex_tree = Article ''A'' ''root'' [Article ''B'' ''b'' [Article ''C'' ''c'' []], Article ''D'' ''d'' []]"

definition ex_children :: "unit children_call" where
  "ex_children i w =
     (Inr (if i = ''A'' then map child_of (at_kids ex_tree) else if i = ''B'' then [child_of (Article ''C'' ''c'' [])] else []), w)"


section \<open>Where the token goes\<close>

lemma absolute_request:
  assumes "prefix ''https://'' url" "url_ok url"
  shows "\<exists>rq. new_request c m url [] b [] = Inr rq \<and> aq_url rq = url \<and>
    aq_headers rq = (let h = foldl (\<lambda>h (k, vs). foldl (\<lambda>h v. hdr_add k v h) h vs) [] (hc_headers c)
      in if hc_agent c \<noteq> [] then hdr_set ''User-Agent'' (hc_agent c) h else h)"
  using assms by (simp add: new_request_def resolve_url_def Let_def)

lemma bearer_header:
  "hc_headers c = bearer token \<Longrightarrow>
   map_of (let h = foldl (\<lambda>h (k, vs). foldl (\<lambda>h v. hdr_add k v h) h vs) [] (hc_headers c)
      in if hc_agent c \<noteq> [] then hdr_set ''User-Agent'' (hc_agent c) h else h) ''Authorization'' = Some [''Bearer '' @ token]"
proof -
  assume h: "hc_headers c = bearer token"
  have k: "canon_key ''Authorization'' = ''Authorization''" "canon_key ''User-Agent'' = ''User-Agent''" by code_simp+
  show ?thesis by (simp add: h bearer_def hdr_add_def hdr_set_def k Let_def update_conv)
qed

text \<open>C33.
  Downloading an attachment sends the token of the instance to whatever host the URL in the attachment's metadata names:
  an absolute URL is requested as it is, with the Authorization header.
\<close>

theorem download_sends_token:
  assumes "api_get (recorded answer) (sn_http s) dec_attachment
      (''/api/issues/'' @ path_escape issue @ ''/attachments/'' @ path_escape aid) [(''fields'', [''id,name,url,size,mimeType''])] w
      = (Inr (url, name), w1)"
    "issue \<noteq> []" "aid \<noteq> []" "out \<noteq> []" "prefix ''https://'' url" "url_ok url" "hc_headers (sn_http s) = bearer token"
    "yt_download_attachment (recorded answer) s [''issue'' \<mapsto> GStr issue, ''attachment_id'' \<mapsto> GStr aid, ''out'' \<mapsto> GStr out] w = (r, w2)"
  shows "\<exists>rq. nw_sent w2 = nw_sent w1 @ [rq] \<and> aq_url rq = url \<and> map_of (aq_headers rq) ''Authorization'' = Some [''Bearer '' @ token]"
proof -
  obtain rq where rq: "new_request (sn_http s) ''GET'' url [] [] [] = Inr rq" "aq_url rq = url"
    "map_of (aq_headers rq) ''Authorization'' = Some [''Bearer '' @ token]"
    using absolute_request [OF assms(5,6), of "sn_http s" "''GET''" "[]"] bearer_header [OF assms(7)] by auto
  let ?w2 = "w1\<lparr>nw_sent := nw_sent w1 @ [rq]\<rparr>"
  have raw: "do_raw (recorded answer) (sn_http s) ''GET'' url [] [] w1 = (answer rq, ?w2)"
    using rq(1) by (simp add: do_raw_def recorded_def)
  have url: "url \<noteq> []" using assms(5) by auto
  have sent: "nw_sent (snd (create_and_copy ce we f b v)) = nw_sent v" for ce we f b and v :: net_world
    by (simp add: create_and_copy_def split: sum.splits)
  have "nw_sent w2 = nw_sent ?w2"
  proof (cases "answer rq")
    case (Inl e)
    then show ?thesis using assms(1-4,8) raw url by (simp add: yt_download_attachment_def Let_def v_string_def)
  next
    case (Inr resp)
    then show ?thesis
      using assms(1-4,8) raw url sent [of id "\<lambda>e. ErrWrap ''write: '' e []" out "as_body resp" ?w2]
      by (auto simp: yt_download_attachment_def Let_def v_string_def and_then_def split: if_splits prod.splits sum.splits)
  qed
  then show ?thesis using rq by simp
qed

definition ex_yt :: api_session where
  "ex_yt = \<lparr>sn_cred = new_credential ''youtrack'' ''a'' Map.empty,
     sn_http = \<lparr>hc_base = ''https://yt'', hc_headers = bearer ''perm'', hc_agent = [], hc_timeout = 1\<rparr>, sn_state = ''/s''\<rparr>"

definition ex_meta :: "api_request \<Rightarrow> api_response res" where
  "ex_meta rq = ok_answer (ex_json [(''name'', ''f''), (''url'', ''https://other/f'')])"

theorem download_sends_token_witness:
  "\<exists>rq (w1 :: net_world) w2 r. yt_download_attachment (recorded ex_meta) ex_yt
      [''issue'' \<mapsto> GStr ''P-1'', ''attachment_id'' \<mapsto> GStr ''8-1'', ''out'' \<mapsto> GStr ''/f''] ex_net_world = (r, w2) \<and>
    nw_sent w2 = nw_sent w1 @ [rq] \<and> aq_url rq = ''https://other/f'' \<and>
    map_of (aq_headers rq) ''Authorization'' = Some [''Bearer perm'']"
proof -
  let ?get = "api_get (recorded ex_meta) (sn_http ex_yt) dec_attachment
    (''/api/issues/'' @ path_escape ''P-1'' @ ''/attachments/'' @ path_escape ''8-1'')
    [(''fields'', [''id,name,url,size,mimeType''])] ex_net_world"
  have "case ?get of (Inr (u, n), _) \<Rightarrow> u = ''https://other/f'' \<and> n = ''f'' | _ \<Rightarrow> False" by code_simp
  then obtain w1 where get: "?get = (Inr (''https://other/f'', ''f''), w1)"
    by (auto split: prod.splits sum.splits)
  obtain r w2 where run: "yt_download_attachment (recorded ex_meta) ex_yt
      [''issue'' \<mapsto> GStr ''P-1'', ''attachment_id'' \<mapsto> GStr ''8-1'', ''out'' \<mapsto> GStr ''/f''] ex_net_world = (r, w2)"
    by fastforce
  have "url_ok ''https://other/f''" by code_simp
  with download_sends_token [OF get _ _ _ _ _ _ run, of "''perm''"] obtain rq where "nw_sent w2 = nw_sent w1 @ [rq]"
    "aq_url rq = ''https://other/f''" "map_of (aq_headers rq) ''Authorization'' = Some [''Bearer perm'']"
    by (auto simp: ex_yt_def)
  with run show ?thesis by (intro exI conjI)
qed

end
