(* ===== verification/Bunny.thy ===== *)
theory Bunny
  imports ApiConn "HOL-Library.Monad_Syntax"
begin

text \<open>
  The Bunny connector (\<open>connectors/bunny\<close>): DNS zones and records, pull zones with their host names. Record types
  are names to the caller and numbers to the service.
\<close>

section \<open>Record types\<close>

definition record_type_names :: "string list" where
  "record_type_names =
     [''A'', ''AAAA'', ''CNAME'', ''TXT'', ''MX'', ''Redirect'', ''Flatten'', ''PullZone'', ''SRV'', ''CAA'', ''PTR'',
      ''Script'', ''NS'', ''SVCB'', ''HTTPS'', ''TLSA'']"

text \<open>The position of the first name that matches.\<close>

fun index_where :: "('a \<Rightarrow> bool) \<Rightarrow> 'a list \<Rightarrow> nat option" where
  "index_where p [] = None"
| "index_where p (x # xs) = (if p x then Some 0 else map_option Suc (index_where p xs))"

definition record_type_from_name :: "string \<Rightarrow> int res" where
  "record_type_from_name s0 =
     (let s = trim_space s0; (n, ok) = atoi s
      in if ok then
           (if 0 \<le> n \<and> n < int (length record_type_names) then Inr n
            else Inl (ErrMsg (''record type '' @ itoa n @ '' out of range (0..'' @ nat_str (length record_type_names - 1) @ '')'')))
         else case index_where (\<lambda>name. to_upper name = to_upper s) record_type_names of
           Some i \<Rightarrow> Inr (int i)
         | None \<Rightarrow>
             Inl (ErrMsg (''unknown record type '' @ go_quote s @ '' (want one of '' @ join_with '', '' record_type_names @ '')'')))"

definition record_type_name :: "int \<Rightarrow> string" where
  "record_type_name n =
     (if 0 \<le> n \<and> n < int (length record_type_names) then record_type_names ! nat n else ''Type'' @ itoa n)"

section \<open>Wire types and views\<close>

record dns_record =
  dr_id :: int
  dr_type :: int
  dr_ttl :: int
  dr_value :: string
  dr_name :: string
  dr_weight :: int
  dr_priority :: int
  dr_port :: int
  dr_flags :: int
  dr_tag :: string
  dr_disabled :: bool
  dr_comment :: string

record dns_zone =
  dz_id :: int
  dz_domain :: string
  dz_records :: "dns_record list"
  dz_modified :: string
  dz_created :: string
  dz_detected :: bool
  dz_custom :: bool
  dz_dnssec :: bool

record 'a bn_page =
  bp_items :: "'a list"
  bp_current :: int
  bp_total :: int
  bp_more :: bool

definition dec_record :: "gval \<Rightarrow> dns_record option" where
  "dec_record v =
     (if \<not> is_object v then None
      else do {
        i \<leftarrow> dec_int (jfield v ''Id'');
        t \<leftarrow> dec_int (jfield v ''Type'');
        ttl \<leftarrow> dec_int (jfield v ''Ttl'');
        val \<leftarrow> dec_string (jfield v ''Value'');
        name \<leftarrow> dec_string (jfield v ''Name'');
        weight \<leftarrow> dec_int (jfield v ''Weight'');
        prio \<leftarrow> dec_int (jfield v ''Priority'');
        port \<leftarrow> dec_int (jfield v ''Port'');
        flags \<leftarrow> dec_int (jfield v ''Flags'');
        tag \<leftarrow> dec_string (jfield v ''Tag'');
        dis \<leftarrow> dec_bool (jfield v ''Disabled'');
        com \<leftarrow> dec_string (jfield v ''Comment'');
        Some \<lparr>dr_id = i, dr_type = t, dr_ttl = ttl, dr_value = val, dr_name = name, dr_weight = weight, dr_priority = prio,
          dr_port = port, dr_flags = flags, dr_tag = tag, dr_disabled = dis, dr_comment = com\<rparr>
      })"

definition dec_zone :: "gval \<Rightarrow> dns_zone option" where
  "dec_zone v =
     (if \<not> is_object v then None
      else do {
        i \<leftarrow> dec_int (jfield v ''Id'');
        dom \<leftarrow> dec_string (jfield v ''Domain'');
        recs \<leftarrow> dec_list dec_record (jfield v ''Records'');
        modi \<leftarrow> dec_string (jfield v ''DateModified'');
        crea \<leftarrow> dec_string (jfield v ''DateCreated'');
        det \<leftarrow> dec_bool (jfield v ''NameserversDetected'');
        cus \<leftarrow> dec_bool (jfield v ''CustomNameserversEnabled'');
        sec \<leftarrow> dec_bool (jfield v ''DnsSecEnabled'');
        Some \<lparr>dz_id = i, dz_domain = dom, dz_records = recs, dz_modified = modi, dz_created = crea, dz_detected = det,
          dz_custom = cus, dz_dnssec = sec\<rparr>
      })"

definition dec_page :: "(gval \<Rightarrow> 'a option) \<Rightarrow> gval \<Rightarrow> 'a bn_page option" where
  "dec_page d v =
     (if \<not> is_object v then None
      else do {
        items \<leftarrow> dec_list d (jfield v ''Items'');
        cur \<leftarrow> dec_int (jfield v ''CurrentPage'');
        tot \<leftarrow> dec_int (jfield v ''TotalItems'');
        more \<leftarrow> dec_bool (jfield v ''HasMoreItems'');
        Some \<lparr>bp_items = items, bp_current = cur, bp_total = tot, bp_more = more\<rparr>
      })"

definition opt_int :: "string \<Rightarrow> int \<Rightarrow> (string \<times> gval) list" where
  "opt_int k i = (if i \<noteq> 0 then [(k, GInt i)] else [])"

definition opt_true :: "string \<Rightarrow> bool \<Rightarrow> (string \<times> gval) list" where
  "opt_true k b = (if b then [(k, GBool True)] else [])"

definition record_view :: "dns_record \<Rightarrow> gval" where
  "record_view r =
     GMap ([(''id'', GInt64 (dr_id r)), (''type'', GStr (record_type_name (dr_type r))), (''type_code'', GInt (dr_type r)),
        (''name'', GStr (dr_name r)), (''value'', GStr (dr_value r)), (''ttl'', GInt (dr_ttl r))]
       @ opt_int ''weight'' (dr_weight r) @ opt_int ''priority'' (dr_priority r) @ opt_int ''port'' (dr_port r)
       @ opt_int ''flags'' (dr_flags r) @ opt_str ''tag'' (dr_tag r) @ opt_str ''comment'' (dr_comment r)
       @ opt_true ''disabled'' (dr_disabled r))"

definition zone_view :: "dns_zone \<Rightarrow> gval" where
  "zone_view z =
     GMap ([(''id'', GInt64 (dz_id z)), (''domain'', GStr (dz_domain z))]
       @ opt_str ''date_created'' (dz_created z) @ opt_str ''date_modified'' (dz_modified z)
       @ opt_true ''nameservers_detected'' (dz_detected z) @ opt_true ''custom_nameservers'' (dz_custom z)
       @ opt_true ''dnssec'' (dz_dnssec z)
       @ (if dz_records z = [] then []
          else [(''records'', GList (map record_view (dz_records z))), (''record_count'', GInt (int (length (dz_records z))))]))"

section \<open>Client and zones\<close>

definition bn_client :: "credential \<Rightarrow> http_config res" where
  "bn_client c =
     (let key = v_string (cr_values c) ''api_key''; base = v_string (cr_values c) ''api_base''
      in if key = [] then Inl (ErrMsg ''api_key is required'')
         else new_client \<lparr>hc_base = (if base = [] then ''https://api.bunny.net'' else base),
           hc_headers = [(''AccessKey'', [key])], hc_agent = [], hc_timeout = 0\<rparr>)"

text \<open>The query of a listing, and the frame of its answer.\<close>

definition bn_list_query :: "vals \<Rightarrow> string" where
  "bn_list_query params =
     q_encode ([(''page'', [itoa (v_int params ''page'')]), (''perPage'', [itoa (v_int params ''per_page'')])]
       @ opt_query ''search'' (v_string params ''search''))"

definition page_view :: "string \<Rightarrow> ('a \<Rightarrow> gval) \<Rightarrow> 'a bn_page \<Rightarrow> gval" where
  "page_view key f p =
     GMap [(''page'', GInt (bp_current p)), (''total'', GInt (bp_total p)), (''has_more'', GBool (bp_more p)),
       (''count'', GInt (int (length (bp_items p)))), (key, GList (map f (bp_items p)))]"

definition view_of :: "('a \<Rightarrow> gval) \<Rightarrow> 'a res \<times> 'w \<Rightarrow> gval res \<times> 'w" where
  "view_of f r = and_then r (\<lambda>x w. (Inr (f x), w))"

definition bn_path :: "string \<Rightarrow> int \<Rightarrow> string \<Rightarrow> string" where
  "bn_path kind i rest = ''/'' @ kind @ ''/'' @ itoa i @ rest"

definition bn_list_zones_schema :: schema where
  "bn_list_zones_schema =
     [(field ''search'' FieldString)\<lparr>f_description := ''Filter zones by substring of the domain.''\<rparr>,
      (field ''page'' FieldInt)\<lparr>f_default := Some (GInt 1), f_description := ''1-indexed page.''\<rparr>,
      (field ''per_page'' FieldInt)\<lparr>f_default := Some (GInt 100),
        f_description := ''Items per page. Max 1000.''\<rparr>]"

definition bn_list_zones :: "'w net \<Rightarrow> api_session \<Rightarrow> vals \<Rightarrow> 'w \<Rightarrow> gval res \<times> 'w" where
  "bn_list_zones net s params w =
     view_of (page_view ''zones'' (\<lambda>z. GMap [(''id'', GInt64 (dz_id z)), (''domain'', GStr (dz_domain z))]))
       (api_get net (sn_http s) (dec_page dec_zone) (''/dnszone?'' @ bn_list_query (with_defaults params bn_list_zones_schema)) [] w)"

definition bn_get_zone_schema :: schema where
  "bn_get_zone_schema =
     [(field ''id'' FieldInt)\<lparr>f_required := True, f_description := ''Numeric zone id from list-zones.''\<rparr>,
      (field ''raw'' FieldBool)\<lparr>f_default := Some (GBool False),
        f_description := ''Return the full Bunny response instead of the simplified view.''\<rparr>]"

text \<open>Look something up by its number: as it is, or in the view of the connector.\<close>

definition bn_get :: "'w net \<Rightarrow> http_config \<Rightarrow> (gval \<Rightarrow> 'a option) \<Rightarrow> ('a \<Rightarrow> gval) \<Rightarrow> string \<Rightarrow> vals \<Rightarrow> 'w \<Rightarrow> gval res \<times> 'w" where
  "bn_get net cli dec view kind params w =
     (let i = v_int params ''id''
      in if i = 0 then (Inl (ErrMsg ''id is required''), w)
         else if v_bool params ''raw'' then api_get net cli dec_object (bn_path kind i []) [] w
         else view_of view (api_get net cli dec (bn_path kind i []) [] w))"

definition bn_get_zone :: "'w net \<Rightarrow> api_session \<Rightarrow> vals \<Rightarrow> 'w \<Rightarrow> gval res \<times> 'w" where
  "bn_get_zone net s params w =
     bn_get net (sn_http s) dec_zone zone_view ''dnszone'' (with_defaults params bn_get_zone_schema) w"

definition bn_create_zone_schema :: schema where
  "bn_create_zone_schema =
     [(field ''domain'' FieldString)\<lparr>f_required := True,
        f_description := ''Domain to host. e.g. example.com (no protocol).''\<rparr>]"

definition bn_create_zone :: "'w net \<Rightarrow> api_session \<Rightarrow> vals \<Rightarrow> 'w \<Rightarrow> gval res \<times> 'w" where
  "bn_create_zone net s params w =
     (let domain = trim_space (v_string params ''domain'')
      in if domain = [] then (Inl (ErrMsg ''domain is required''), w)
         else view_of zone_view (api_send net (sn_http s) dec_zone ''POST'' ''/dnszone'' (GMap [(''Domain'', GStr domain)]) w))"

text \<open>A call whose answer is not read.\<close>

definition bn_call :: "'w net \<Rightarrow> http_config \<Rightarrow> string \<Rightarrow> string \<Rightarrow> gval option \<Rightarrow> gval \<Rightarrow> 'w \<Rightarrow> gval res \<times> 'w" where
  "bn_call net cli meth path body answer w = and_then (send_json net cli meth path body False w) (\<lambda>_ w1. (Inr answer, w1))"

definition bn_delete_zone_schema :: schema where
  "bn_delete_zone_schema =
     [(field ''id'' FieldInt)\<lparr>f_required := True, f_description := ''Numeric zone id.''\<rparr>]"

definition bn_delete_zone :: "'w net \<Rightarrow> api_session \<Rightarrow> vals \<Rightarrow> 'w \<Rightarrow> gval res \<times> 'w" where
  "bn_delete_zone net s params w =
     (let i = v_int params ''id''
      in if i = 0 then (Inl (ErrMsg ''id is required''), w)
         else bn_call net (sn_http s) ''DELETE'' (bn_path ''dnszone'' i []) None
           (GMap [(''id'', GInt i), (''deleted'', GBool True)]) w)"

definition bn_check_zone_availability_schema :: schema where
  "bn_check_zone_availability_schema =
     [(field ''name'' FieldString)\<lparr>f_required := True, f_description := ''Domain to check.''\<rparr>]"

definition bn_check_zone_availability :: "'w net \<Rightarrow> api_session \<Rightarrow> vals \<Rightarrow> 'w \<Rightarrow> gval res \<times> 'w" where
  "bn_check_zone_availability net s params w =
     (let name = trim_space (v_string params ''name'')
      in if name = [] then (Inl (ErrMsg ''name is required''), w)
         else api_send net (sn_http s) dec_object ''POST'' ''/dnszone/checkavailability'' (GMap [(''Name'', GStr name)]) w)"

definition bn_export_zone_schema :: schema where
  "bn_export_zone_schema =
     [(field ''id'' FieldInt)\<lparr>f_required := True, f_description := ''Numeric zone id.''\<rparr>,
      (field ''out'' FieldString)\<lparr>f_required := True, f_is_path := True,
        f_description := ''Destination file path. Subject to PGF_ALLOWED_PATHS.''\<rparr>]"

definition bn_export_zone :: "('m cli_scheme) net \<Rightarrow> api_session \<Rightarrow> vals \<Rightarrow> 'm cli_scheme \<Rightarrow> gval res \<times> 'm cli_scheme" where
  "bn_export_zone net s params w =
     (let i = v_int params ''id''; out = v_string params ''out''
      in if i = 0 \<or> out = [] then (Inl (ErrMsg ''id and out are required''), w)
         else and_then (do_raw net (sn_http s) ''GET'' (bn_path ''dnszone'' i ''/export'') [] [] w)
           (\<lambda>resp w1.
              if as_status resp div 100 \<noteq> 2 then (Inl (ErrMsg (''export: http '' @ itoa (as_status resp))), w1)
              else and_then (create_and_copy (\<lambda>e. ErrWrap (''create '' @ out @ '': '') e []) id out (as_body resp) w1)
                (\<lambda>n w2. (Inr (GMap [(''zone_id'', GInt i), (''path'', GStr out), (''bytes'', GInt64 (int n))]), w2))))"

section \<open>Records\<close>

text \<open>The options of the type field, and when its dependent fields are shown.\<close>

definition opts :: "enum_option list" where
  "opts =
     map (\<lambda>(i, name). \<lparr>o_value = name, o_label = name @ '' (code '' @ nat_str i @ '')''\<rparr>) (enumerate 0 record_type_names)"

definition isSRV :: "vals \<Rightarrow> bool" where
  "isSRV v = equal_fold (v_string v ''type'') ''SRV''"

definition isMXOrSRV :: "vals \<Rightarrow> bool" where
  "isMXOrSRV v = (let t = to_upper (v_string v ''type'') in t = ''MX'' \<or> t = ''SRV'')"

definition isCAA :: "vals \<Rightarrow> bool" where
  "isCAA v = equal_fold (v_string v ''type'') ''CAA''"

definition bn_add_record_schema :: schema where
  "bn_add_record_schema =
     [(field ''zone_id'' FieldInt)\<lparr>f_required := True,
        f_description := ''Numeric zone id (from list-zones).''\<rparr>,
      (field ''type'' FieldEnum)\<lparr>f_required := True, f_default := Some (GStr ''A''), f_options := opts,
        f_description := ''Record type. Common: A, AAAA, CNAME, TXT, MX, NS, SRV, CAA.''\<rparr>,
      (field ''name'' FieldString)\<lparr>f_required := True,
        f_description := ''Record name. '' @ bq @ ''@'' @ bq @ '' or empty = apex. '' @ bq @ ''www'' @ bq
          @ '' = www.example.com when zone is example.com.''\<rparr>,
      (field ''value'' FieldString)\<lparr>f_required := True,
        f_description := ''Record target. e.g. IP for A/AAAA; hostname for CNAME/NS; text for TXT; '' @ apos @ ''0 issue '' @ dq
          @ ''letsencrypt.org'' @ dq @ apos @ '' for CAA.''\<rparr>,
      (field ''ttl'' FieldInt)\<lparr>f_default := Some (GInt 3600),
        f_description := ''Time-to-live in seconds. Bunny minimum varies by record type.''\<rparr>,
      (field ''priority'' FieldInt)\<lparr>f_show_when := Some isMXOrSRV,
        f_description := ''MX/SRV only. Lower = preferred.''\<rparr>,
      (field ''weight'' FieldInt)\<lparr>f_show_when := Some isSRV,
        f_description := ''SRV only. Selection weight among same-priority targets.''\<rparr>,
      (field ''port'' FieldInt)\<lparr>f_show_when := Some isSRV,
        f_description := ''SRV only. Service port number.''\<rparr>,
      (field ''flags'' FieldInt)\<lparr>f_show_when := Some isCAA,
        f_description := ''CAA only. 0 (non-critical) or 128 (critical).''\<rparr>,
      (field ''tag'' FieldString)\<lparr>f_show_when := Some isCAA,
        f_description := ''CAA only. e.g. '' @ bq @ ''issue'' @ bq @ '', '' @ bq @ ''issuewild'' @ bq @ '', '' @ bq @ ''iodef'' @ bq
          @ ''.''\<rparr>,
      (field ''comment'' FieldString)\<lparr>f_description := ''Free-form note shown in the Bunny dashboard.''\<rparr>,
      (field ''disabled'' FieldBool)\<lparr>f_default := Some (GBool False),
        f_description := ''Create the record in a disabled state (won'' @ apos @ ''t resolve).''\<rparr>]"

definition add_record_body :: "int \<Rightarrow> vals \<Rightarrow> gval" where
  "add_record_body code params =
     GMap ([(''Type'', GInt code), (''Name'', GStr (v_string params ''name'')), (''Value'', GStr (v_string params ''value'')),
        (''Ttl'', GInt (v_int params ''ttl''))]
       @ opt_int ''Priority'' (v_int params ''priority'') @ opt_int ''Weight'' (v_int params ''weight'')
       @ opt_int ''Port'' (v_int params ''port'') @ opt_int ''Flags'' (v_int params ''flags'')
       @ opt_str ''Tag'' (v_string params ''tag'') @ opt_str ''Comment'' (v_string params ''comment'')
       @ opt_true ''Disabled'' (v_bool params ''disabled''))"

definition bn_add_record :: "'w net \<Rightarrow> api_session \<Rightarrow> vals \<Rightarrow> 'w \<Rightarrow> gval res \<times> 'w" where
  "bn_add_record net s params0 w =
     (let params = with_defaults params0 bn_add_record_schema; zone = v_int params ''zone_id''
      in if zone = 0 then (Inl (ErrMsg ''zone_id is required''), w)
         else case record_type_from_name (v_string params ''type'') of
           Inl e \<Rightarrow> (Inl e, w)
         | Inr code \<Rightarrow>
             (if v_string params ''value'' = [] then (Inl (ErrMsg ''value is required''), w)
              else view_of record_view
                (api_send net (sn_http s) dec_record ''PUT'' (bn_path ''dnszone'' zone ''/records'') (add_record_body code params) w)))"

definition bn_update_record_schema :: schema where
  "bn_update_record_schema =
     [(field ''zone_id'' FieldInt)\<lparr>f_required := True, f_description := ''Numeric zone id.''\<rparr>,
      (field ''record_id'' FieldInt)\<lparr>f_required := True,
        f_description := ''Numeric record id (visible in get-zone'' @ apos @ ''s records list).''\<rparr>,
      (field ''value'' FieldString)\<lparr>f_description := ''New value. Omit to keep current.''\<rparr>,
      (field ''ttl'' FieldInt)\<lparr>f_description := ''New TTL. Omit to keep current.''\<rparr>,
      (field ''priority'' FieldInt)\<lparr>f_description := ''MX/SRV priority. Omit to keep current.''\<rparr>,
      (field ''weight'' FieldInt)\<lparr>f_description := ''SRV weight.''\<rparr>,
      (field ''port'' FieldInt)\<lparr>f_description := ''SRV port.''\<rparr>,
      (field ''flags'' FieldInt)\<lparr>f_description := ''CAA flags.''\<rparr>,
      (field ''tag'' FieldString)\<lparr>f_description := ''CAA tag.''\<rparr>,
      (field ''comment'' FieldString)\<lparr>f_description := ''Update comment.''\<rparr>,
      (field ''disabled'' FieldBool)\<lparr>
        f_description := ''Enable / disable the record without deleting it.''\<rparr>]"

text \<open>The body of a partial update: an entry for each parameter that is there.\<close>

definition given_str :: "vals \<Rightarrow> string \<Rightarrow> string \<Rightarrow> (string \<times> gval) list" where
  "given_str v k name = (if v_has v k then [(name, GStr (v_string v k))] else [])"

definition given_int :: "vals \<Rightarrow> string \<Rightarrow> string \<Rightarrow> (string \<times> gval) list" where
  "given_int v k name = (if v_has v k then [(name, GInt (v_int v k))] else [])"

definition given_bool :: "vals \<Rightarrow> string \<Rightarrow> string \<Rightarrow> (string \<times> gval) list" where
  "given_bool v k name = (if v_has v k then [(name, GBool (v_bool v k))] else [])"

definition update_record_body :: "vals \<Rightarrow> (string \<times> gval) list" where
  "update_record_body v =
     given_str v ''value'' ''Value'' @ given_int v ''ttl'' ''Ttl'' @ given_int v ''priority'' ''Priority''
     @ given_int v ''weight'' ''Weight'' @ given_int v ''port'' ''Port'' @ given_int v ''flags'' ''Flags''
     @ given_str v ''tag'' ''Tag'' @ given_str v ''comment'' ''Comment'' @ given_bool v ''disabled'' ''Disabled''"

definition bn_update_record :: "'w net \<Rightarrow> api_session \<Rightarrow> vals \<Rightarrow> 'w \<Rightarrow> gval res \<times> 'w" where
  "bn_update_record net s params0 w =
     (let params = with_defaults params0 bn_update_record_schema; zone = v_int params ''zone_id''; i = v_int params ''record_id'';
          body = update_record_body params
      in if zone = 0 \<or> i = 0 then (Inl (ErrMsg ''zone_id and record_id are required''), w)
         else if body = [] then (Inl (ErrMsg ''at least one field to update is required''), w)
         else bn_call net (sn_http s) ''POST'' (bn_path ''dnszone'' zone (''/records/'' @ itoa i)) (Some (GMap body))
           (GMap [(''zone_id'', GInt zone), (''record_id'', GInt i), (''updated'', GBool True), (''fields'', GMap body)]) w)"

definition bn_delete_record_schema :: schema where
  "bn_delete_record_schema =
     [(field ''zone_id'' FieldInt)\<lparr>f_required := True, f_description := ''Numeric zone id.''\<rparr>,
      (field ''record_id'' FieldInt)\<lparr>f_required := True, f_description := ''Numeric record id.''\<rparr>]"

definition bn_delete_record :: "'w net \<Rightarrow> api_session \<Rightarrow> vals \<Rightarrow> 'w \<Rightarrow> gval res \<times> 'w" where
  "bn_delete_record net s params w =
     (let zone = v_int params ''zone_id''; i = v_int params ''record_id''
      in if zone = 0 \<or> i = 0 then (Inl (ErrMsg ''zone_id and record_id are required''), w)
         else bn_call net (sn_http s) ''DELETE'' (bn_path ''dnszone'' zone (''/records/'' @ itoa i)) None
           (GMap [(''zone_id'', GInt zone), (''record_id'', GInt i), (''deleted'', GBool True)]) w)"

section \<open>Pull zones\<close>

record pull_host =
  ph_id :: int
  ph_value :: string
  ph_force_ssl :: bool
  ph_system :: bool
  ph_certificate :: bool

record pull_zone =
  pz_id :: int
  pz_name :: string
  pz_origin :: string
  pz_type :: int
  pz_cname :: string
  pz_enabled :: bool
  pz_suspended :: bool
  pz_hosts :: "pull_host list"

definition dec_host :: "gval \<Rightarrow> pull_host option" where
  "dec_host v =
     (if \<not> is_object v then None
      else do {
        i \<leftarrow> dec_int (jfield v ''Id'');
        val \<leftarrow> dec_string (jfield v ''Value'');
        ssl \<leftarrow> dec_bool (jfield v ''ForceSSL'');
        sys \<leftarrow> dec_bool (jfield v ''IsSystemHostname'');
        cert \<leftarrow> dec_bool (jfield v ''HasCertificate'');
        Some \<lparr>ph_id = i, ph_value = val, ph_force_ssl = ssl, ph_system = sys, ph_certificate = cert\<rparr>
      })"

definition dec_pull_zone :: "gval \<Rightarrow> pull_zone option" where
  "dec_pull_zone v =
     (if \<not> is_object v then None
      else do {
        i \<leftarrow> dec_int (jfield v ''Id'');
        name \<leftarrow> dec_string (jfield v ''Name'');
        orig \<leftarrow> dec_string (jfield v ''OriginUrl'');
        t \<leftarrow> dec_int (jfield v ''Type'');
        cn \<leftarrow> dec_string (jfield v ''CnameDomain'');
        en \<leftarrow> dec_bool (jfield v ''Enabled'');
        sus \<leftarrow> dec_bool (jfield v ''Suspended'');
        hosts \<leftarrow> dec_list dec_host (jfield v ''Hostnames'');
        Some \<lparr>pz_id = i, pz_name = name, pz_origin = orig, pz_type = t, pz_cname = cn, pz_enabled = en, pz_suspended = sus,
          pz_hosts = hosts\<rparr>
      })"

definition pull_zone_type_name :: "int \<Rightarrow> string" where
  "pull_zone_type_name t = (if t = 0 then ''Premium'' else if t = 1 then ''Volume'' else ''Type'' @ itoa t)"

definition hostname_view :: "pull_host \<Rightarrow> gval" where
  "hostname_view h =
     GMap [(''id'', GInt64 (ph_id h)), (''value'', GStr (ph_value h)), (''force_ssl'', GBool (ph_force_ssl h)),
       (''system'', GBool (ph_system h)), (''has_certificate'', GBool (ph_certificate h))]"

definition pull_zone_view :: "pull_zone \<Rightarrow> gval" where
  "pull_zone_view p =
     GMap [(''id'', GInt64 (pz_id p)), (''name'', GStr (pz_name p)), (''origin_url'', GStr (pz_origin p)),
       (''type'', GStr (pull_zone_type_name (pz_type p))), (''type_code'', GInt (pz_type p)), (''cname_domain'', GStr (pz_cname p)),
       (''enabled'', GBool (pz_enabled p)), (''suspended'', GBool (pz_suspended p)),
       (''hostnames'', GList (map hostname_view (pz_hosts p))), (''host_count'', GInt (int (length (pz_hosts p))))]"

definition bn_list_pullzones_schema :: schema where
  "bn_list_pullzones_schema =
     [(field ''search'' FieldString)\<lparr>f_description := ''Filter by name substring.''\<rparr>,
      (field ''page'' FieldInt)\<lparr>f_default := Some (GInt 1), f_description := ''1-indexed page.''\<rparr>,
      (field ''per_page'' FieldInt)\<lparr>f_default := Some (GInt 100),
        f_description := ''Items per page. Max 1000.''\<rparr>]"

definition bn_list_pullzones :: "'w net \<Rightarrow> api_session \<Rightarrow> vals \<Rightarrow> 'w \<Rightarrow> gval res \<times> 'w" where
  "bn_list_pullzones net s params w =
     view_of (page_view ''pullzones'' (\<lambda>p. GMap [(''id'', GInt64 (pz_id p)), (''name'', GStr (pz_name p)),
         (''origin_url'', GStr (pz_origin p)), (''cname_domain'', GStr (pz_cname p)),
         (''type'', GStr (pull_zone_type_name (pz_type p))), (''hostnames'', GInt (int (length (pz_hosts p))))]))
       (api_get net (sn_http s) (dec_page dec_pull_zone)
         (''/pullzone?'' @ bn_list_query (with_defaults params bn_list_pullzones_schema)) [] w)"

definition bn_get_pullzone_schema :: schema where
  "bn_get_pullzone_schema =
     [(field ''id'' FieldInt)\<lparr>f_required := True, f_description := ''Pull Zone id.''\<rparr>,
      (field ''raw'' FieldBool)\<lparr>f_default := Some (GBool False), f_description := ''Return Bunny'' @ apos
          @ ''s full PullZoneModel (cache rules, WAF, edge scripts, ...) instead of the simplified view.''\<rparr>]"

definition bn_get_pullzone :: "'w net \<Rightarrow> api_session \<Rightarrow> vals \<Rightarrow> 'w \<Rightarrow> gval res \<times> 'w" where
  "bn_get_pullzone net s params w =
     bn_get net (sn_http s) dec_pull_zone pull_zone_view ''pullzone'' (with_defaults params bn_get_pullzone_schema) w"

text \<open>The origin settings both kinds of changes accept.\<close>

definition origin_settings :: "vals \<Rightarrow> (string \<times> gval) list" where
  "origin_settings v =
     given_int v ''origin_type'' ''OriginType''
     @ (if v_has v ''origin_link_value'' then [(''OriginLinkValue'', GStr (trim_space (v_string v ''origin_link_value'')))] else [])
     @ given_bool v ''add_host_header'' ''AddHostHeader''"

definition bn_create_pullzone_schema :: schema where
  "bn_create_pullzone_schema =
     [(field ''name'' FieldString)\<lparr>f_required := True,
        f_description := ''Globally-unique pull zone name. Becomes <name>.b-cdn.net. Lowercase, hyphens ok, no dots.''\<rparr>,
      (field ''origin_url'' FieldString)\<lparr>f_required := True,
        f_description := ''Origin URL the zone fetches from. e.g. https://sistemica.de. Scheme + host.''\<rparr>,
      (field ''type'' FieldEnum)\<lparr>f_default := Some (GStr ''Premium''),
        f_options := [\<lparr>o_value = ''Premium'', o_label = ''Premium (code 0) '' @ em_dash @ '' global, more PoPs''\<rparr>,
          \<lparr>o_value = ''Volume'', o_label = ''Volume (code 1) '' @ em_dash @ '' cheaper, fewer PoPs''\<rparr>],
        f_description := ''Pull Zone tier. Volume is ~1/3 the price for higher-egress sites with lower latency sensitivity.''\<rparr>,
      (field ''origin_type'' FieldInt)\<lparr>
        f_description := ''Bunny origin type. 0 = OriginUrl (default). 1 = Hostname (IP-based, set origin_link_value to bare ''
          @ ''IP).''\<rparr>,
      (field ''origin_link_value'' FieldString)\<lparr>
        f_description := ''For origin_type=1, the bare hostname or IP (e.g. 94.16.109.30) without scheme or port.''\<rparr>,
      (field ''add_host_header'' FieldBool)\<lparr>f_description := ''Forward the request'' @ apos
          @ ''s Host header to origin. Required for virtual-host routing (Traefik, nginx vhosts).''\<rparr>]"

definition bn_create_pullzone :: "'w net \<Rightarrow> api_session \<Rightarrow> vals \<Rightarrow> 'w \<Rightarrow> gval res \<times> 'w" where
  "bn_create_pullzone net s params0 w =
     (let params = with_defaults params0 bn_create_pullzone_schema; name = trim_space (v_string params ''name'');
          orig = trim_space (v_string params ''origin_url'');
          code = (if equal_fold (v_string params ''type'') ''Volume'' then 1 else 0)
      in if name = [] \<or> orig = [] then (Inl (ErrMsg ''name and origin_url are required''), w)
         else view_of pull_zone_view
           (api_send net (sn_http s) dec_pull_zone ''POST'' ''/pullzone''
             (GMap ([(''Name'', GStr name), (''OriginUrl'', GStr orig), (''Type'', GInt code)] @ origin_settings params)) w))"

definition bn_update_pullzone_schema :: schema where
  "bn_update_pullzone_schema =
     [(field ''id'' FieldInt)\<lparr>f_required := True, f_description := ''Pull Zone id.''\<rparr>,
      (field ''origin_url'' FieldString)\<lparr>f_description := ''New origin URL. Omit to leave unchanged.''\<rparr>,
      (field ''enabled'' FieldBool)\<lparr>f_description := ''Enable / disable the zone.''\<rparr>,
      (field ''type'' FieldEnum)\<lparr>f_options := [\<lparr>o_value = [], o_label = ''(unchanged)''\<rparr>,
          \<lparr>o_value = ''Premium'', o_label = ''Premium''\<rparr>,
          \<lparr>o_value = ''Volume'', o_label = ''Volume''\<rparr>],
        f_description := ''Switch tier.''\<rparr>,
      (field ''origin_type'' FieldInt)\<lparr>
        f_description := ''Bunny origin type. 0 = OriginUrl. 1 = Hostname (IP-based).''\<rparr>,
      (field ''origin_link_value'' FieldString)\<lparr>
        f_description := ''For origin_type=1, the bare hostname or IP without scheme or port.''\<rparr>,
      (field ''add_host_header'' FieldBool)\<lparr>
        f_description := ''Forward the request'' @ apos @ ''s Host header to origin.''\<rparr>]"

definition update_pullzone_body :: "vals \<Rightarrow> (string \<times> gval) list" where
  "update_pullzone_body v =
     (let t = to_lower (v_string v ''type'')
      in given_str v ''origin_url'' ''OriginUrl'' @ given_bool v ''enabled'' ''Enabled''
         @ (if t = ''premium'' then [(''Type'', GInt 0)] else if t = ''volume'' then [(''Type'', GInt 1)] else [])
         @ origin_settings v)"

definition bn_update_pullzone :: "'w net \<Rightarrow> api_session \<Rightarrow> vals \<Rightarrow> 'w \<Rightarrow> gval res \<times> 'w" where
  "bn_update_pullzone net s params0 w =
     (let params = with_defaults params0 bn_update_pullzone_schema; i = v_int params ''id''; body = update_pullzone_body params
      in if i = 0 then (Inl (ErrMsg ''id is required''), w)
         else if body = [] then (Inl (ErrMsg ''at least one field to update is required''), w)
         else bn_call net (sn_http s) ''POST'' (bn_path ''pullzone'' i []) (Some (GMap body))
           (GMap [(''id'', GInt i), (''updated'', GBool True), (''fields'', GMap body)]) w)"

definition bn_delete_pullzone_schema :: schema where
  "bn_delete_pullzone_schema =
     [(field ''id'' FieldInt)\<lparr>f_required := True, f_description := ''Pull Zone id.''\<rparr>]"

definition bn_delete_pullzone :: "'w net \<Rightarrow> api_session \<Rightarrow> vals \<Rightarrow> 'w \<Rightarrow> gval res \<times> 'w" where
  "bn_delete_pullzone net s params w =
     (let i = v_int params ''id''
      in if i = 0 then (Inl (ErrMsg ''id is required''), w)
         else bn_call net (sn_http s) ''DELETE'' (bn_path ''pullzone'' i []) None
           (GMap [(''id'', GInt i), (''deleted'', GBool True)]) w)"

text \<open>The host actions: pull zone and trimmed host name, or an error.\<close>

definition with_host :: "vals \<Rightarrow> (int \<Rightarrow> string \<Rightarrow> 'w \<Rightarrow> gval res \<times> 'w) \<Rightarrow> 'w \<Rightarrow> gval res \<times> 'w" where
  "with_host params f w =
     (let i = v_int params ''pullzone_id''; host = trim_space (v_string params ''hostname'')
      in if i = 0 \<or> host = [] then (Inl (ErrMsg ''pullzone_id and hostname are required''), w) else f i host w)"

definition bn_add_hostname_schema :: schema where
  "bn_add_hostname_schema =
     [(field ''pullzone_id'' FieldInt)\<lparr>f_required := True, f_description := ''Pull Zone id.''\<rparr>,
      (field ''hostname'' FieldString)\<lparr>f_required := True,
        f_description := ''Custom hostname to attach. e.g. sistemica.io, www.example.com.''\<rparr>]"

definition bn_add_hostname :: "'w net \<Rightarrow> api_session \<Rightarrow> vals \<Rightarrow> 'w \<Rightarrow> gval res \<times> 'w" where
  "bn_add_hostname net s params w =
     with_host params
       (\<lambda>i host. bn_call net (sn_http s) ''POST'' (bn_path ''pullzone'' i ''/addHostname'') (Some (GMap [(''Hostname'', GStr host)]))
          (GMap [(''pullzone_id'', GInt i), (''hostname'', GStr host), (''attached'', GBool True)])) w"

definition bn_remove_hostname_schema :: schema where
  "bn_remove_hostname_schema =
     [(field ''pullzone_id'' FieldInt)\<lparr>f_required := True, f_description := ''Pull Zone id.''\<rparr>,
      (field ''hostname'' FieldString)\<lparr>f_required := True, f_description := ''Hostname to detach.''\<rparr>]"

definition bn_remove_hostname :: "'w net \<Rightarrow> api_session \<Rightarrow> vals \<Rightarrow> 'w \<Rightarrow> gval res \<times> 'w" where
  "bn_remove_hostname net s params w =
     with_host params
       (\<lambda>i host. bn_call net (sn_http s) ''DELETE'' (bn_path ''pullzone'' i ''/removeHostname'') (Some (GMap [(''Hostname'', GStr host)]))
          (GMap [(''pullzone_id'', GInt i), (''hostname'', GStr host), (''detached'', GBool True)])) w"

definition bn_load_free_certificate_schema :: schema where
  "bn_load_free_certificate_schema =
     [(field ''hostname'' FieldString)\<lparr>f_required := True,
        f_description := ''Custom hostname (must already be attached to a Pull Zone).''\<rparr>]"

definition bn_load_free_certificate :: "'w net \<Rightarrow> api_session \<Rightarrow> vals \<Rightarrow> 'w \<Rightarrow> gval res \<times> 'w" where
  "bn_load_free_certificate net s params w =
     (let host = trim_space (v_string params ''hostname'')
      in if host = [] then (Inl (ErrMsg ''hostname is required''), w)
         else and_then (get_json net (sn_http s) (''/pullzone/loadFreeCertificate?'' @ q_encode [(''hostname'', [host])]) [] False w)
           (\<lambda>_ w1. (Inr (GMap [(''hostname'', GStr host), (''provisioned'', GBool True)]), w1)))"

definition bn_set_force_ssl_schema :: schema where
  "bn_set_force_ssl_schema =
     [(field ''pullzone_id'' FieldInt)\<lparr>f_required := True, f_description := ''Pull Zone id.''\<rparr>,
      (field ''hostname'' FieldString)\<lparr>f_required := True, f_description := ''Hostname to update.''\<rparr>,
      (field ''force_ssl'' FieldBool)\<lparr>f_required := True,
        f_description := ''true = redirect HTTP'' @ right_arrow @ ''HTTPS; false = serve both.''\<rparr>]"

definition bn_set_force_ssl :: "'w net \<Rightarrow> api_session \<Rightarrow> vals \<Rightarrow> 'w \<Rightarrow> gval res \<times> 'w" where
  "bn_set_force_ssl net s params w =
     (let ssl = GBool (v_bool params ''force_ssl'')
      in with_host params
           (\<lambda>i host. bn_call net (sn_http s) ''POST'' (bn_path ''pullzone'' i ''/setForceSSL'')
              (Some (GMap [(''Hostname'', GStr host), (''ForceSSL'', ssl)]))
              (GMap [(''pullzone_id'', GInt i), (''hostname'', GStr host), (''force_ssl'', ssl), (''updated'', GBool True)])) w)"

section \<open>The connector\<close>

definition bn_cred_schema :: schema where
  "bn_cred_schema =
     [(field ''api_key'' FieldSecret)\<lparr>f_label := ''Bunny.net API key'', f_required := True,
        f_description := ''From https://dash.bunny.net/account/api-key. Sent as '' @ bq @ ''AccessKey: <key>'' @ bq
          @ '' header (not Bearer).''\<rparr>,
      (field ''api_base'' FieldString)\<lparr>f_label := ''API base URL'',
        f_default := Some (GStr ''https://api.bunny.net''),
        f_description := ''Override only for testing. Default https://api.bunny.net.''\<rparr>]"

definition bn_validate :: "('m cli_scheme) net \<Rightarrow> credential \<Rightarrow> 'm cli_scheme \<Rightarrow> unit res \<times> 'm cli_scheme" where
  "bn_validate net c w =
     (case bn_client c of
        Inl e \<Rightarrow> (Inl e, w)
      | Inr cli \<Rightarrow>
          and_then (wrap_err ''dnszone probe: '' (api_get net cli (dec_page dec_zone) ''/dnszone?page=1&perPage=5'' [] w))
            (\<lambda>p w1. (Inr (), say (''('' @ itoa (bp_total p) @ '' zones) '') w1)))"

definition bn_list_zones_action where
  "bn_list_zones_action net =
     mk_action ''list-zones'' ''List DNS zones''
       ''Paginated list of DNS zones on the account. Optional search filters by domain substring.''
       bn_list_zones_schema (bn_list_zones net)"

definition bn_get_zone_action where
  "bn_get_zone_action net =
     mk_action ''get-zone'' ''Get DNS zone details''
       (''Full zone shape including all records. Records are returned with friendly type names (A, CNAME, ''
              @ ellipsis @ '') alongside Bunny'' @ apos @ ''s numeric type codes.'')
       bn_get_zone_schema (bn_get_zone net)"

definition bn_create_zone_action where
  "bn_create_zone_action net =
     mk_action ''create-zone'' ''Create DNS zone''
       (''Register a new DNS zone for a domain. Bunny returns the new zone id; update your registrar to use ''
              @ ''Bunny nameservers afterwards.'')
       bn_create_zone_schema (bn_create_zone net)"

definition bn_delete_zone_action where
  "bn_delete_zone_action net =
     mk_action ''delete-zone'' ''Delete DNS zone''
       ''Permanently removes the zone and all its records. Irreversible.''
       bn_delete_zone_schema (bn_delete_zone net)"

definition bn_check_zone_availability_action where
  "bn_check_zone_availability_action net =
     mk_action ''check-zone-availability'' ''Check if a domain is available to register as a Bunny zone''
       ''Verify a domain can be added to this account (no conflict with an existing zone).''
       bn_check_zone_availability_schema (bn_check_zone_availability net)"

definition bn_export_zone_action where
  "bn_export_zone_action net =
     mk_action ''export-zone'' ''Export zone as BIND file''
       (''Dump the zone in standard BIND zone-file format. Writes to '' @ bq @ ''out'' @ bq
              @ '' (path on disk).'')
       bn_export_zone_schema (bn_export_zone net)"

definition bn_add_record_action where
  "bn_add_record_action net =
     mk_action ''add-record'' ''Add DNS record''
       (''Create a new DNS record in a zone. Pass type as string (A, AAAA, CNAME, MX, SRV, CAA, TXT, NS, ''
              @ ''...); the connector translates to Bunny'' @ apos @ ''s numeric type codes.'')
       bn_add_record_schema (bn_add_record net)"

definition bn_update_record_action where
  "bn_update_record_action net =
     mk_action ''update-record'' ''Update DNS record''
       (''Partial update '' @ em_dash
              @ '' only the fields you pass are changed. Use get-zone first if you need the current record state.'')
       bn_update_record_schema (bn_update_record net)"

definition bn_delete_record_action where
  "bn_delete_record_action net =
     mk_action ''delete-record'' ''Delete DNS record''
       ''Remove a single record from a zone.''
       bn_delete_record_schema (bn_delete_record net)"

definition bn_list_pullzones_action where
  "bn_list_pullzones_action net =
     mk_action ''list-pullzones'' ''List Pull Zones''
       (''Paginated list of CDN Pull Zones on the account. Pull Zones front a single origin (your sistemica.de) ''
              @ ''and serve it through Bunny'' @ apos @ ''s edge under your chosen hostnames.'')
       bn_list_pullzones_schema (bn_list_pullzones net)"

definition bn_get_pullzone_action where
  "bn_get_pullzone_action net =
     mk_action ''get-pullzone'' ''Get Pull Zone details''
       ''Full Pull Zone shape including the hostnames attached to it.''
       bn_get_pullzone_schema (bn_get_pullzone net)"

definition bn_create_pullzone_action where
  "bn_create_pullzone_action net =
     mk_action ''create-pullzone'' ''Create Pull Zone''
       (''Create a CDN Pull Zone with a single origin. Bunny issues a *.b-cdn.net hostname; add custom hostnames ''
              @ ''after creation via add-hostname.'')
       bn_create_pullzone_schema (bn_create_pullzone net)"

definition bn_update_pullzone_action where
  "bn_update_pullzone_action net =
     mk_action ''update-pullzone'' ''Update Pull Zone''
       (''Partial update '' @ em_dash
              @ '' change origin URL, type, or enable/disable. For deeper config (cache rules, WAF, edge scripts) ''
              @ ''use raw JSON via --input.'')
       bn_update_pullzone_schema (bn_update_pullzone net)"

definition bn_delete_pullzone_action where
  "bn_delete_pullzone_action net =
     mk_action ''delete-pullzone'' ''Delete Pull Zone''
       ''Permanently remove a Pull Zone and detach all its hostnames.''
       bn_delete_pullzone_schema (bn_delete_pullzone net)"

definition bn_add_hostname_action where
  "bn_add_hostname_action net =
     mk_action ''add-hostname'' ''Attach custom hostname to Pull Zone''
       (''Attach a custom domain (e.g. sistemica.io) to a Pull Zone. After attaching, point that domain'' @ apos
              @ ''s A records at Bunny'' @ apos @ ''s edge IPs or CNAME to <pullzone>.b-cdn.net.'')
       bn_add_hostname_schema (bn_add_hostname net)"

definition bn_remove_hostname_action where
  "bn_remove_hostname_action net =
     mk_action ''remove-hostname'' ''Detach custom hostname from Pull Zone''
       (''Detach a hostname. The zone'' @ apos
              @ ''s *.b-cdn.net system hostname stays; only custom hostnames can be removed.'')
       bn_remove_hostname_schema (bn_remove_hostname net)"

definition bn_load_free_certificate_action where
  "bn_load_free_certificate_action net =
     mk_action ''load-free-certificate'' (''Provision free Let'' @ apos @ ''s Encrypt cert'')
       (''Bunny obtains a free Let'' @ apos
              @ ''s Encrypt certificate for the hostname via HTTP-01 challenge. Requires the hostname'' @ apos
              @ ''s DNS to already resolve to Bunny'' @ apos @ ''s edge (so the ACME challenge can land).'')
       bn_load_free_certificate_schema (bn_load_free_certificate net)"

definition bn_set_force_ssl_action where
  "bn_set_force_ssl_action net =
     mk_action ''set-force-ssl'' ''Set Force-SSL on a Pull Zone hostname''
       ''Toggle mandatory HTTPS redirect for one hostname on a Pull Zone.''
       bn_set_force_ssl_schema (bn_set_force_ssl net)"

definition bunny_connector :: "('m cli_scheme) net \<Rightarrow> ('m cli_scheme, api_session) connector" where
  "bunny_connector net =
     \<lparr>c_descriptor = \<lparr>d_name = ''bunny'', d_display = ''Bunny.net (DNS)'',
        d_description = ''Manage Bunny.net DNS zones and records. List/create/delete zones; add/update/delete records of any ''
          @ ''type (A, AAAA, CNAME, MX, SRV, CAA, TXT, NS, '' @ ellipsis @ '').'',
        d_version = ''0.1.0'', d_categories = [''dns'', ''infra'']\<rparr>,
      c_credential = \<lparr>cs_kind = AuthAPIKey, cs_schema = bn_cred_schema, cs_presets = [], cs_defaults = (\<lambda>v. v),
        cs_validate = keep_values (bn_validate net)\<rparr>,
      c_actions =
        [bn_list_zones_action net, bn_get_zone_action net, bn_create_zone_action net, bn_delete_zone_action net,
         bn_check_zone_availability_action net, bn_export_zone_action net, bn_add_record_action net,
         bn_update_record_action net, bn_delete_record_action net, bn_list_pullzones_action net,
         bn_get_pullzone_action net, bn_create_pullzone_action net, bn_update_pullzone_action net,
         bn_delete_pullzone_action net, bn_add_hostname_action net, bn_remove_hostname_action net,
         bn_load_free_certificate_action net, bn_set_force_ssl_action net],
      c_triggers = [],
      c_open = open_with bn_client,
      c_close = (\<lambda>_ w. (Inr (), w))\<rparr>"

section \<open>Properties\<close>

definition letters :: "string \<Rightarrow> bool" where
  "letters s = (s \<noteq> [] \<and> list_all (\<lambda>c. let n = (of_char c :: nat) in 65 \<le> n \<and> n \<le> 122) s)"

lemma letters_space_free: "letters s \<Longrightarrow> space_free s"
proof -
  have seqs: "list_all (list_all (\<lambda>c. let n = (of_char c :: nat) in n < 65 \<or> 122 < n)) space_seqs" by code_simp
  assume "letters s"
  then show ?thesis using seqs unfolding letters_def space_free_def list_all_iff Let_def by fastforce
qed

lemma itoa_space_free: "space_free (itoa i)"
proof -
  have seqs: "list_all (list_all (\<lambda>c. let n = (of_char c :: nat) in n < 45 \<or> 57 < n)) space_seqs" by code_simp
  have "45 \<le> (of_char c :: nat) \<and> (of_char c :: nat) \<le> 57" if "c \<in> set (itoa i)" for c
    using itoa_chars [OF that] by (auto simp: is_digit_def)
  then show ?thesis using seqs unfolding space_free_def list_all_iff Let_def by fastforce
qed

lemma letters_atoi: "letters s \<Longrightarrow> snd (atoi s) = False"
proof -
  assume "letters s"
  then obtain c r where s: "s = c # r" "65 \<le> (of_char c :: nat)" by (cases s) (auto simp: letters_def Let_def)
  then have "\<not> is_digit c" "c \<noteq> CHR ''-''" "c \<noteq> CHR ''+''" by (auto simp: is_digit_def)
  then show ?thesis by (simp add: atoi_def s(1) Let_def)
qed

lemma upper_lower: "to_upper (to_lower s) = to_upper s"
proof -
  have "upper_char (lower_char c) = upper_char c" for c
    by (simp add: upper_char_def lower_char_def Let_def)
  then show ?thesis by (simp add: to_upper_def to_lower_def)
qed

lemma letters_lower: "letters s \<Longrightarrow> letters (to_lower s)"
  by (auto simp: letters_def to_lower_def list_all_iff lower_char_def Let_def)

lemma index_where_nth:
  "distinct (map f xs) \<Longrightarrow> i < length xs \<Longrightarrow> index_where (\<lambda>x. f x = f (xs ! i)) xs = Some i"
proof (induction xs arbitrary: i)
  case (Cons x xs)
  show ?case
  proof (cases i)
    case 0
    then show ?thesis by simp
  next
    case (Suc j)
    with Cons.prems have "f x \<noteq> f (xs ! j)" by (auto simp: image_iff)
    with Suc Cons show ?thesis by simp
  qed
qed simp

lemma record_type_by_name:
  assumes "letters s" "to_upper s = to_upper (record_type_names ! i)" "i < length record_type_names"
  shows "record_type_from_name s = Inr (int i)"
proof -
  have d: "distinct (map to_upper record_type_names)" by code_simp
  obtain n where "atoi s = (n, False)" using letters_atoi [OF assms(1)] by (metis prod.collapse)
  moreover have "trim_space s = s" by (rule trim_space_id) (rule letters_space_free [OF assms(1)])
  ultimately show ?thesis
    using index_where_nth [OF d assms(3)] by (simp add: record_type_from_name_def assms(2))
qed



lemma given_at [simp]:
  "map_of (given_str v k name) n = (if n = name \<and> v_has v k then Some (GStr (v_string v k)) else None)"
  "map_of (given_int v k name) n = (if n = name \<and> v_has v k then Some (GInt (v_int v k)) else None)"
  "map_of (given_bool v k name) n = (if n = name \<and> v_has v k then Some (GBool (v_bool v k)) else None)"
  by (simp_all add: given_str_def given_int_def given_bool_def)

lemma opt_at [simp]:
  "map_of (opt_str k s) n = (if n = k \<and> s \<noteq> [] then Some (GStr s) else None)"
  "map_of (opt_int k i) n = (if n = k \<and> i \<noteq> 0 then Some (GInt i) else None)"
  "map_of (opt_true k b) n = (if n = k \<and> b then Some (GBool True) else None)"
  by (simp_all add: opt_str_def opt_int_def opt_true_def)


end
