(* ===== verification/GoFloat.thy ===== *)
theory GoFloat
  imports Complex_Main Json
begin

text \<open>
  Arithmetic on \<open>float64\<close> as the processor does it: the exact result rounded to the nearest double, ties to even, and
  the decimal forms \<open>strconv.ParseFloat\<close> reads (hexadecimal ones and underscores are left out). The lemmas bound
  the rounding error over the reals.
\<close>

section \<open>Operations\<close>

definition round_dyadic :: "bool \<Rightarrow> nat \<Rightarrow> nat \<Rightarrow> float64" where
  "round_dyadic neg a b =
     (if a = 0 then FNum neg 0 0 else case float_of_ratio neg a b of Some x \<Rightarrow> x | None \<Rightarrow> FInf neg)"

definition f_neg :: "float64 \<Rightarrow> bool" where
  "f_neg x = (case x of FNum s _ _ \<Rightarrow> s | FInf s \<Rightarrow> s | FNaN \<Rightarrow> False)"

definition f_zero :: "float64 \<Rightarrow> bool" where
  "f_zero x = (case x of FNum _ m _ \<Rightarrow> m = 0 | _ \<Rightarrow> False)"

definition f_mul :: "float64 \<Rightarrow> float64 \<Rightarrow> float64" where
  "f_mul x y =
     (case (x, y) of
        (FNum s m e, FNum t n f) \<Rightarrow> round_dyadic (s \<noteq> t) (m * n * 2 ^ nat (e + f)) (2 ^ nat (- (e + f)))
      | (FNaN, _) \<Rightarrow> FNaN
      | (_, FNaN) \<Rightarrow> FNaN
      | _ \<Rightarrow> (if f_zero x \<or> f_zero y then FNaN else FInf (f_neg x \<noteq> f_neg y)))"

definition f_div :: "float64 \<Rightarrow> float64 \<Rightarrow> float64" where
  "f_div x y =
     (case (x, y) of
        (FNum s m e, FNum t n f) \<Rightarrow>
          (if n = 0 then (if m = 0 then FNaN else FInf (s \<noteq> t))
           else round_dyadic (s \<noteq> t) (m * 2 ^ nat (e - f)) (n * 2 ^ nat (f - e)))
      | (FNaN, _) \<Rightarrow> FNaN
      | (_, FNaN) \<Rightarrow> FNaN
      | (FInf s, FInf t) \<Rightarrow> FNaN
      | (FInf s, FNum t _ _) \<Rightarrow> FInf (s \<noteq> t)
      | (FNum s _ _, FInf t) \<Rightarrow> FNum (s \<noteq> t) 0 0)"

definition f_add :: "float64 \<Rightarrow> float64 \<Rightarrow> float64" where
  "f_add x y =
     (case (x, y) of
        (FNum s m e, FNum t n f) \<Rightarrow>
          (let g = min e f; i = (if s then - 1 else 1) * int (m * 2 ^ nat (e - g)) + (if t then - 1 else 1) * int (n * 2 ^ nat (f - g))
           in if i = 0 then FNum (s \<and> t) 0 0
              else round_dyadic (i < 0) (nat \<bar>i\<bar> * 2 ^ nat g) (2 ^ nat (- g)))
      | (FNaN, _) \<Rightarrow> FNaN
      | (_, FNaN) \<Rightarrow> FNaN
      | (FInf s, FInf t) \<Rightarrow> (if s = t then FInf s else FNaN)
      | (FInf s, _) \<Rightarrow> FInf s
      | (_, FInf t) \<Rightarrow> FInf t)"

text \<open>The conversion of an integer, and the test for a positive number.\<close>

definition f_of_int :: "int \<Rightarrow> float64" where
  "f_of_int i = round_dyadic (i < 0) (nat \<bar>i\<bar>) 1"

definition f_pos :: "float64 \<Rightarrow> bool" where
  "f_pos x = (case x of FNum s m _ \<Rightarrow> \<not> s \<and> m \<noteq> 0 | FInf s \<Rightarrow> \<not> s | FNaN \<Rightarrow> False)"

definition f_half :: float64 where "f_half = FNum False 4503599627370496 (- 53)"

text \<open>Decimal numbers, \<open>inf\<close>, \<open>infinity\<close> and \<open>nan\<close>; out of range is an error.\<close>

definition parse_decimal :: "bool \<Rightarrow> string \<Rightarrow> float64 option" where
  "parse_decimal neg s =
     (let (ip, r1) = take_digits s;
          (fp, r2) = (case r1 of c # r \<Rightarrow> (if c = CHR ''.'' then take_digits r else ([], r1)) | [] \<Rightarrow> ([], r1));
          (ex, r3, ok) =
            (case r2 of
               c # r \<Rightarrow>
                 (if c = CHR ''e'' \<or> c = CHR ''E'' then
                    (let sg = (r \<noteq> [] \<and> (hd r = CHR ''+'' \<or> hd r = CHR ''-'')); (d, t) = take_digits (if sg then tl r else r);
                         v = int (digits_val 0 d)
                     in (if r \<noteq> [] \<and> hd r = CHR ''-'' then - v else v, t, d \<noteq> []))
                  else (0, r2, True))
             | [] \<Rightarrow> (0, r2, True))
      in if (ip = [] \<and> fp = []) \<or> \<not> ok \<or> r3 \<noteq> [] then None
         else float_of_dec neg (digits_val 0 (ip @ fp)) (ex - int (length fp)))"

definition parse_float :: "string \<Rightarrow> float64 option" where
  "parse_float s =
     (let neg = (s \<noteq> [] \<and> hd s = CHR ''-''); plus_minus = (s \<noteq> [] \<and> (hd s = CHR ''-'' \<or> hd s = CHR ''+''));
          body = (if plus_minus then tl s else s); low = to_lower body
      in if low = ''inf'' \<or> low = ''infinity'' then Some (FInf neg)
         else if low = ''nan'' \<and> \<not> plus_minus then Some FNaN
         else parse_decimal neg body)"

section \<open>Errors\<close>

definition f_real :: "float64 \<Rightarrow> real" where
  "f_real x = (case x of FNum s m e \<Rightarrow> (if s then - 1 else 1) * real m * 2 powi e | _ \<Rightarrow> 0)"

lemma bit_length_bounds: "0 < n \<Longrightarrow> 2 ^ (bit_length n - 1) \<le> n \<and> n < 2 ^ bit_length n \<and> 0 < bit_length n"
proof (induction n rule: bit_length.induct)
  case (1 n)
  show ?case
  proof (cases "n = 1")
    case True
    then show ?thesis by (simp add: bit_length.simps)
  next
    case False
    with 1 have "0 < n div 2" by auto
    with 1 have ih: "2 ^ (bit_length (n div 2) - 1) \<le> n div 2" "n div 2 < 2 ^ bit_length (n div 2)" "0 < bit_length (n div 2)" by auto
    have bl: "bit_length n = Suc (bit_length (n div 2))" using "1.prems" by (simp add: bit_length.simps [of n])
    define k where "k = bit_length (n div 2) - 1"
    have k: "bit_length (n div 2) = Suc k" using ih(3) by (simp add: k_def)
    have "2 * (n div 2) \<le> n" "n \<le> 2 * (n div 2) + 1" by simp_all
    moreover have "2 ^ k \<le> n div 2" "n div 2 < 2 * 2 ^ k" using ih(1,2) by (simp_all add: k)
    ultimately have "2 * 2 ^ k \<le> n" "n < 4 * 2 ^ k" by linarith+
    then show ?thesis by (simp add: bl k)
  qed
qed

lemma round_ratio_error: "0 < b \<Longrightarrow> \<bar>real (round_ratio a b) - real a / real b\<bar> \<le> 1 / 2"
proof -
  assume b: "0 < b"
  define q r where "q = a div b" and "r = a mod b"
  have a: "real a = real q * real b + real r" unfolding q_def r_def by (metis div_mult_mod_eq of_nat_add of_nat_mult)
  have rb: "r < b" using b by (simp add: r_def)
  have e: "real a / real b = real q + real r / real b" using a b by (simp add: field_simps)
  show ?thesis
  proof (cases "2 * r < b \<or> (2 * r = b \<and> even q)")
    case True
    then have "real r / real b \<le> 1 / 2" using b by (auto simp: field_simps)
    then show ?thesis using True e by (simp add: round_ratio_def Let_def q_def [symmetric] r_def [symmetric])
  next
    case False
    then have "b \<le> 2 * r" by auto
    then have "1 / 2 \<le> real r / real b" "real r / real b \<le> 1" using b rb by (auto simp: field_simps)
    then show ?thesis using False e b by (simp add: round_ratio_def Let_def q_def [symmetric] r_def [symmetric])
  qed
qed

lemma powi_nat: "(2::real) powi e = 2 ^ nat e / 2 ^ nat (- e)"
  by (cases "0 \<le> e") (simp_all add: power_int_def power_one_over)

lemma powi_add: "2 powi x * 2 powi y = (2 :: real) powi (x + y)"
  by (simp add: power_int_add)

lemma ratio_shift: "real (a * 2 ^ nat (- e)) / real (b * 2 ^ nat e) = real a / real b * 2 powi (- e)"
  by (simp add: powi_nat)

lemma real_bit_length:
  assumes "0 < n"
  shows "2 powi (int (bit_length n) - 1) \<le> real n" "real n < 2 powi int (bit_length n)"
proof -
  obtain k where k: "bit_length n = Suc k" using bit_length_bounds [OF assms] gr0_conv_Suc by blast
  have "real (2 ^ k) \<le> real n" "real n < real (2 ^ Suc k)"
    using bit_length_bounds [OF assms] unfolding k by (simp_all only: of_nat_le_iff of_nat_less_iff diff_Suc_1)
  then show "2 powi (int (bit_length n) - 1) \<le> real n" "real n < 2 powi int (bit_length n)"
    unfolding k by (simp_all add: power_int_def nat_add_distrib)
qed

lemma ratio_bounds:
  assumes "0 < a" "0 < b" "d = int (bit_length a) - int (bit_length b)"
  shows "2 powi (d - 1) < real a / real b" "real a / real b < 2 powi (d + 1)"
proof -
  have ra: "2 powi (int (bit_length a) - 1) \<le> real a" "real a < 2 powi int (bit_length a)"
    by (rule real_bit_length [OF assms(1)])+
  have rb: "2 powi (int (bit_length b) - 1) \<le> real b" "real b < 2 powi int (bit_length b)"
    by (rule real_bit_length [OF assms(2)])+
  have pb: "0 < real b" using assms(2) by simp
  have lo: "d - 1 + int (bit_length b) = int (bit_length a) - 1" and hi: "d + 1 + (int (bit_length b) - 1) = int (bit_length a)"
    using assms(3) by simp_all
  have "2 powi (d - 1) * real b < 2 powi (d - 1) * 2 powi int (bit_length b)" using rb(2) by simp
  also have "\<dots> = 2 powi (int (bit_length a) - 1)" by (simp only: powi_add lo)
  also have "\<dots> \<le> real a" by (rule ra(1))
  finally show "2 powi (d - 1) < real a / real b" using pb by (simp add: pos_less_divide_eq)
  have "real a < 2 powi int (bit_length a)" by (rule ra(2))
  also have "\<dots> = 2 powi (d + 1) * 2 powi (int (bit_length b) - 1)" by (simp only: powi_add hi)
  also have "\<dots> \<le> 2 powi (d + 1) * real b" using rb(1) by simp
  finally show "real a / real b < 2 powi (d + 1)" using pb by (simp add: pos_divide_less_eq)
qed

lemma float_of_ratio_error:
  assumes "0 < a" "0 < b" "- 1000 \<le> int (bit_length a) - int (bit_length b)" "int (bit_length a) - int (bit_length b) \<le> 900"
  shows "\<exists>m e. float_of_ratio neg a b = Some (FNum neg m e) \<and> 0 < m \<and>
    \<bar>real m * 2 powi e - real a / real b\<bar> \<le> real a / real b / 9007199254740992"
proof -
  define d where "d = int (bit_length a) - int (bit_length b)"
  define e1 where "e1 = d - 53"
  define \<rho> where "\<rho> = real a / real b"
  define big where "big = (9007199254740992 * b * 2 ^ nat e1 \<le> a * 2 ^ nat (- e1))"
  define e2 where "e2 = (if big then e1 + 1 else e1)"
  define m0 where "m0 = round_ratio (a * 2 ^ nat (- e2)) (b * 2 ^ nat e2)"
  define y where "y = \<rho> * 2 powi (- e2)"
  have max1: "max (- 1074) (int (bit_length a) - int (bit_length b) - 53) = e1"
    using assms(3) by (simp add: e1_def d_def)
  have low: "2 powi (d - 1) < \<rho>" and high: "\<rho> < 2 powi (d + 1)"
    using ratio_bounds [OF assms(1,2) d_def] by (simp_all add: \<rho>_def)
  have e52: "d - 1 + - e1 = 52" and e54: "d + 1 + - e1 = 54" by (simp_all add: e1_def)
  have shift: "\<rho> * 2 powi (- e1) = real (a * 2 ^ nat (- e1)) / real (b * 2 ^ nat e1)"
    by (simp only: ratio_shift \<rho>_def)
  have bigreal: "big \<longleftrightarrow> 9007199254740992 \<le> \<rho> * 2 powi (- e1)"
  proof -
    have "0 < real (b * 2 ^ nat e1)" using assms(2) by simp
    then have "9007199254740992 \<le> \<rho> * 2 powi (- e1) \<longleftrightarrow>
        9007199254740992 * real (b * 2 ^ nat e1) \<le> real (a * 2 ^ nat (- e1))"
      unfolding shift by (rule pos_le_divide_eq)
    also have "\<dots> \<longleftrightarrow> real (9007199254740992 * b * 2 ^ nat e1) \<le> real (a * 2 ^ nat (- e1))" by (simp add: mult.assoc)
    also have "\<dots> \<longleftrightarrow> big" unfolding big_def by (rule of_nat_le_iff)
    finally show ?thesis by simp
  qed
  have y52: "4503599627370496 \<le> y" and y53: "y < 9007199254740992"
  proof -
    have l: "4503599627370496 < \<rho> * 2 powi (- e1)"
    proof -
      have "(4503599627370496 :: real) = 2 powi (d - 1) * 2 powi (- e1)" by (simp only: powi_add e52) simp
      also have "\<dots> < \<rho> * 2 powi (- e1)" using low by simp
      finally show ?thesis .
    qed
    have h: "\<rho> * 2 powi (- e1) < 18014398509481984"
    proof -
      have "\<rho> * 2 powi (- e1) < 2 powi (d + 1) * 2 powi (- e1)" using high by simp
      also have "\<dots> = 18014398509481984" by (simp only: powi_add e54) simp
      finally show ?thesis .
    qed
    have half: "2 powi (- e1 - 1) = 2 powi (- e1) / (2 :: real)" by (simp add: power_int_diff)
    have "y = (if big then \<rho> * 2 powi (- e1) / 2 else \<rho> * 2 powi (- e1))"
      by (simp add: y_def e2_def half)
    then show "4503599627370496 \<le> y" "y < 9007199254740992" using l h bigreal by (auto split: if_splits)
  qed
  have pos: "0 < b * 2 ^ nat e2" using assms(2) by simp
  have err: "\<bar>real m0 - y\<bar> \<le> 1 / 2"
    using round_ratio_error [OF pos, of "a * 2 ^ nat (- e2)"] unfolding m0_def y_def \<rho>_def ratio_shift .
  have m0: "m0 \<le> 9007199254740992" "0 < m0"
  proof -
    have "real m0 < 9007199254740992 + 1" using err y53 by linarith
    then show "m0 \<le> 9007199254740992" by linarith
    show "0 < m0" using err y52 by linarith
  qed
  define m e where "m = (if m0 = 9007199254740992 then 4503599627370496 else m0)"
    and "e = (if m0 = 9007199254740992 then e2 + 1 else e2)"
  have val: "real m * 2 powi e = real m0 * 2 powi e2" by (simp add: m_def e_def power_int_add)
  have "e \<le> 971" using assms(4) by (simp add: e_def e2_def e1_def d_def)
  then have f: "float_of_ratio neg a b = Some (FNum neg m e)"
    using m0(2) unfolding float_of_ratio_def Let_def max1 big_def [symmetric] e2_def [symmetric] m0_def [symmetric]
    by (auto simp: m_def e_def not_less split: if_splits)
  have yr: "\<rho> = y * 2 powi e2" by (simp add: y_def power_int_minus)
  have "\<bar>real m0 * 2 powi e2 - \<rho>\<bar> = \<bar>real m0 - y\<bar> * 2 powi e2"
    unfolding yr by (simp add: abs_mult flip: left_diff_distrib)
  also have "\<dots> \<le> 1 / 2 * 2 powi e2" using err by simp
  also have "\<dots> = 4503599627370496 * 2 powi e2 / 9007199254740992" by simp
  also have "\<dots> \<le> y * 2 powi e2 / 9007199254740992" using y52 by simp
  finally have "\<bar>real m * 2 powi e - \<rho>\<bar> \<le> \<rho> / 9007199254740992" unfolding val yr .
  moreover have "0 < m" using m0(2) by (simp add: m_def)
  ultimately show ?thesis using f unfolding \<rho>_def by blast
qed

text \<open>A number next to a real one: not zero, of its sign, within the rounding error.\<close>

definition near :: "float64 \<Rightarrow> real \<Rightarrow> bool" where
  "near x r = (\<exists>s m e. x = FNum s m e \<and> 0 < m \<and> (s \<longleftrightarrow> r < 0) \<and> \<bar>f_real x - r\<bar> \<le> \<bar>r\<bar> / 9007199254740992)"

definition with_sign :: "bool \<Rightarrow> real \<Rightarrow> real" where
  "with_sign s r = (if s then - r else r)"

lemma f_real_num: "f_real (FNum s m e) = with_sign s (real m * 2 powi e)"
  by (simp add: f_real_def with_sign_def)

lemma with_sign_diff: "\<bar>with_sign s x - with_sign s y\<bar> = \<bar>x - y\<bar>"
  by (simp add: with_sign_def abs_minus_commute)

lemma round_dyadic_near:
  assumes "0 < a" "0 < b" "1 / 1000 \<le> real a / real b" "real a / real b \<le> 2 ^ 60"
  shows "near (round_dyadic neg a b) (with_sign neg (real a / real b))"
proof -
  define d where "d = int (bit_length a) - int (bit_length b)"
  have lo: "2 powi (d - 1) < real a / real b" and hi: "real a / real b < 2 powi (d + 1)"
    using ratio_bounds [OF assms(1,2) d_def] by auto
  have "\<not> 900 < d"
  proof
    assume "900 < d"
    then have "(2 :: real) powi 60 \<le> 2 powi (d - 1)" by (intro power_int_increasing) simp_all
    then show False using lo assms(4) by simp
  qed
  moreover have "\<not> d < - 1000"
  proof
    assume "d < - 1000"
    then have "(2 :: real) powi (d + 1) \<le> 2 powi (- 10)" by (intro power_int_increasing) simp_all
    then show False using hi assms(3) by (simp add: power_int_minus)
  qed
  ultimately obtain m e where f: "float_of_ratio neg a b = Some (FNum neg m e)" "0 < m"
    "\<bar>real m * 2 powi e - real a / real b\<bar> \<le> real a / real b / 9007199254740992"
    using float_of_ratio_error [OF assms(1,2), of neg] unfolding d_def by fastforce
  have "0 < real a / real b" using assms(3) by linarith
  then show ?thesis using f assms(1) unfolding near_def
    by (simp add: round_dyadic_def f_real_num with_sign_diff) (simp add: with_sign_def)
qed

lemma powi_parts: "real (n * 2 ^ nat g) / real (2 ^ nat (- g)) = real n * 2 powi g"
  by (simp add: powi_nat)

lemma f_mul_near:
  assumes "x = FNum s m e" "y = FNum t n f" "0 < m" "0 < n" "1 / 1000 \<le> \<bar>f_real x * f_real y\<bar>" "\<bar>f_real x * f_real y\<bar> \<le> 2 ^ 60"
  shows "near (f_mul x y) (f_real x * f_real y)"
proof -
  have r: "real (m * n * 2 ^ nat (e + f)) / real (2 ^ nat (- (e + f))) = real m * 2 powi e * (real n * 2 powi f)"
    unfolding powi_parts by (simp add: power_int_add)
  have p: "with_sign (s \<noteq> t) (real m * 2 powi e * (real n * 2 powi f)) = f_real x * f_real y"
    unfolding assms(1,2) f_real_num by (simp add: with_sign_def)
  have a: "\<bar>f_real x * f_real y\<bar> = real m * 2 powi e * (real n * 2 powi f)"
    unfolding assms(1,2) f_real_num by (simp add: with_sign_def abs_mult)
  have "near (round_dyadic (s \<noteq> t) (m * n * 2 ^ nat (e + f)) (2 ^ nat (- (e + f)))) (with_sign (s \<noteq> t) (real m * 2 powi e * (real n * 2 powi f)))"
    unfolding r [symmetric] by (rule round_dyadic_near) (use assms a r in simp_all)
  then show ?thesis unfolding p unfolding assms(1,2) by (simp add: f_mul_def)
qed

lemma int_part: "g \<le> e \<Longrightarrow> real m * 2 ^ nat (e - g) = real m * 2 powi (e - g)"
  by (simp add: powi_nat)

lemma f_add_near:
  assumes "x = FNum s m e" "y = FNum t n f" "1 / 1000 \<le> \<bar>f_real x + f_real y\<bar>" "\<bar>f_real x + f_real y\<bar> \<le> 2 ^ 60"
  shows "near (f_add x y) (f_real x + f_real y)"
proof -
  define g where "g = min e f"
  define i where "i = (if s then - 1 else 1) * int (m * 2 ^ nat (e - g)) + (if t then - 1 else 1) * int (n * 2 ^ nat (f - g))"
  have ge: "g \<le> e" "g \<le> f" by (simp_all add: g_def)
  have i: "real_of_int i = with_sign s (real m * 2 powi (e - g)) + with_sign t (real n * 2 powi (f - g))"
    unfolding i_def by (simp add: with_sign_def int_part [OF ge(1)] int_part [OF ge(2)])
  have sc: "with_sign u (real k * 2 powi (h - g)) * 2 powi g = with_sign u (real k * 2 powi h)" for u k h
    by (simp add: with_sign_def power_int_diff)
  have v: "real_of_int i * 2 powi g = f_real x + f_real y"
    unfolding i distrib_right sc assms(1,2) f_real_num by simp
  have i0: "i \<noteq> 0" using assms(3) v by auto
  have r: "real (nat \<bar>i\<bar> * 2 ^ nat g) / real (2 ^ nat (- g)) = \<bar>f_real x + f_real y\<bar>"
    unfolding powi_parts v [symmetric] by (simp add: abs_mult)
  have sg: "with_sign (i < 0) \<bar>f_real x + f_real y\<bar> = f_real x + f_real y"
    unfolding v [symmetric] by (cases "i < 0") (simp_all add: with_sign_def abs_mult)
  have "near (round_dyadic (i < 0) (nat \<bar>i\<bar> * 2 ^ nat g) (2 ^ nat (- g))) (with_sign (i < 0) \<bar>f_real x + f_real y\<bar>)"
    unfolding r [symmetric] by (rule round_dyadic_near) (use assms(3,4) i0 r in simp_all)
  then show ?thesis unfolding sg unfolding assms(1,2) using i0
    by (simp add: f_add_def Let_def g_def [symmetric] i_def [symmetric] del: of_nat_mult)
qed

lemma float_to_int_trunc:
  assumes "x = FNum s m e" "real k \<le> \<bar>f_real x\<bar>" "\<bar>f_real x\<bar> < real k + 1" "int64_range (int k)" "int64_range (- int k)"
  shows "float_to_int x = (if s then - int k else int k)"
proof -
  have f: "\<bar>f_real x\<bar> = real m * 2 powi e" unfolding assms(1) f_real_num by (simp add: with_sign_def)
  have "(if 0 \<le> e then int m * 2 ^ nat e else int m div 2 ^ nat (- e)) = \<lfloor>real m * 2 powi e\<rfloor>"
  proof (cases "0 \<le> e")
    case True
    then have "real m * 2 powi e = real_of_int (int m * 2 ^ nat e)" by (simp add: powi_nat)
    then show ?thesis using True by (simp only: floor_of_int) simp
  next
    case False
    then have "real m * 2 powi e = real_of_int (int m) / real_of_int (2 ^ nat (- e))" by (simp add: powi_nat)
    then show ?thesis using False by (simp only: floor_divide_of_int_eq) simp
  qed
  also have "\<dots> = int k" using assms(2,3) unfolding f by (intro floor_unique) simp_all
  finally show ?thesis using assms(4,5) by (simp add: assms(1) float_to_int_def Let_def)
qed

lemma near_bounds:
  assumes "near x r" "\<bar>r\<bar> \<le> 2 ^ 50" 
  shows "\<bar>f_real x - r\<bar> \<le> 1 / 8"
proof -
  have "\<bar>f_real x - r\<bar> \<le> \<bar>r\<bar> / 9007199254740992" using assms(1) by (auto simp: near_def)
  also have "\<dots> \<le> 2 ^ 50 / 9007199254740992" using assms(2) by (simp add: divide_right_mono)
  finally show ?thesis by simp
qed

lemma near_num: "near x r \<Longrightarrow> \<exists>m e. x = FNum (r < 0) m e \<and> 0 < m"
  by (auto simp: near_def)

lemma near_rel: "near x r \<Longrightarrow> \<bar>f_real x - r\<bar> \<le> \<bar>r\<bar> / 9007199254740992"
  by (auto simp: near_def)

end
