(* ===== verification/Lexoffice.thy ===== *)
theory Lexoffice
  imports ApiConn GoFloat
begin

text \<open>
  The Lexware Office connector (\<open>connectors/lexoffice\<close>): profile, contacts, vouchers with the endpoint that owns
  them, the file of a voucher, and purchase vouchers with their amounts in floating point. Every call is tried again
  on status 429; the waits in between leave no trace here, and cancellation is not modelled. The session type is the
  one of \<open>ApiConn\<close>.
\<close>

section \<open>Amounts\<close>

definition f_hundred :: float64 where "f_hundred = FNum False 7036874417766400 (- 46)"

definition round2 :: "float64 \<Rightarrow> float64" where
  "round2 v = f_div (f_of_int (float_to_int (f_add (f_mul v f_hundred) f_half))) f_hundred"

text \<open>Net, gross, tax, rate and the type of the tax.\<close>

definition compute_amounts :: "float64 \<Rightarrow> float64 \<Rightarrow> float64 \<Rightarrow> float64 \<Rightarrow> bool \<Rightarrow>
    float64 \<times> float64 \<times> float64 \<times> float64 \<times> string" where
  "compute_amounts net0 gross0 tax0 rate0 reverse =
     (let rate = (if f_zero rate0 then f_of_int 19 else rate0)
      in if reverse then
           (let amt = (if f_zero net0 then gross0 else net0) in (round2 amt, round2 amt, f_of_int 0, rate, ''gross''))
         else
           (let net = (if f_zero net0 \<and> f_pos gross0 then f_div gross0 (f_add (f_of_int 1) (f_div rate f_hundred)) else net0);
                tax = (if f_zero tax0 then f_div (f_mul net rate) f_hundred else tax0);
                gross = (if f_zero gross0 then f_add net tax else gross0)
            in (round2 net, round2 gross, round2 tax, rate, ''net'')))"

definition amount :: "vals \<Rightarrow> string \<Rightarrow> float64 res" where
  "amount p key =
     (let s = trim_space (v_string p key)
      in if s = [] then Inr (f_of_int 0)
         else case parse_float s of
           None \<Rightarrow> Inl (ErrMsg (key @ '': '' @ go_quote s @ '' is not a number''))
         | Some f \<Rightarrow> Inr f)"

section \<open>Client\<close>

definition lx_cred_schema :: schema where
  "lx_cred_schema =
     [(field ''api_key'' FieldSecret)\<lparr>f_label := ''API key'', f_required := True,
        f_description := ''Lexoffice '' @ right_arrow @ '' Einstellungen '' @ right_arrow @ '' '' @ [CHR 0xC3, CHR 0x96]
          @ ''ffentliche API. Sent as '' @ bq @ ''Authorization: Bearer <key>'' @ bq @ ''.''\<rparr>,
      (field ''api_base'' FieldString)\<lparr>f_label := ''API base URL'',
        f_default := Some (GStr ''https://api.lexware.io''),
        f_description := ''Default since the rebrand; legacy api.lexoffice.io was retired Dec 2025.''\<rparr>]"

definition lx_client :: "credential \<Rightarrow> http_config res" where
  "lx_client c =
     (let key = v_string (cr_values c) ''api_key''; base0 = v_string (cr_values c) ''api_base'';
          base = (if base0 = [] then ''https://api.lexware.io'' else base0)
      in if key = [] then Inl (ErrMsg ''api_key is empty'') 
         else new_client \<lparr>hc_base = base, hc_headers = bearer key, hc_agent = [], hc_timeout = 0\<rparr>)"

definition lx_validate :: "('m cli_scheme) net \<Rightarrow> credential \<Rightarrow> 'm cli_scheme \<Rightarrow> unit res \<times> 'm cli_scheme" where
  "lx_validate net c w =
     (case lx_client c of
        Inl e \<Rightarrow> (Inl e, w)
      | Inr cli \<Rightarrow>
          and_then (wrap_err ''profile probe: '' (api_get net cli dec_object ''/v1/profile'' [] w))
            (\<lambda>profile w1. let name = map_string profile ''companyName''
              in (Inr (), if name = [] then w1 else say (''(company: '' @ name @ '') '') w1)))"

text \<open>A call that leaves its result in a variable, again on 429; \<open>x0\<close> is what the variable holds before.\<close>

definition retry_on_429 :: "'a \<Rightarrow> ('w \<Rightarrow> 'a res \<times> 'w) \<Rightarrow> 'w \<Rightarrow> 'a res \<times> 'w" where
  "retry_on_429 x0 call w =
     (case retry_on (\<lambda>(x, w). case call w of (Inl e, w1) \<Rightarrow> (Inl e, (x, w1)) | (Inr y, w1) \<Rightarrow> (Inr (), (y, w1)))
         (\<lambda>d xw. (False, xw)) [429] (x0, w) of
        (Inl e, (_, w1)) \<Rightarrow> (Inl e, w1)
      | (Inr _, (x, w1)) \<Rightarrow> (Inr x, w1))"

definition lx_get :: "'w net \<Rightarrow> api_session \<Rightarrow> string \<Rightarrow> url_values \<Rightarrow> 'w \<Rightarrow> gval res \<times> 'w" where
  "lx_get net s path q w = retry_on_429 GNil (api_get net (sn_http s) dec_object path q) w"

definition api_status :: "gerr \<Rightarrow> int option" where
  "api_status e = (case err_root e of ErrAPI st _ _ \<Rightarrow> Some st | _ \<Rightarrow> None)"

section \<open>Endpoints\<close>

definition voucher_endpoint :: "string \<Rightarrow> string" where
  "voucher_endpoint t =
     (if t = ''salesinvoice'' \<or> t = ''invoice'' then ''/v1/invoices''
      else if t = ''salescreditnote'' then ''/v1/credit-notes''
      else if t = ''downpaymentinvoice'' then ''/v1/down-payment-invoices''
      else if t = ''quotation'' then ''/v1/quotations''
      else if t = ''orderconfirmation'' then ''/v1/order-confirmations''
      else if t = ''deliverynote'' then ''/v1/delivery-notes''
      else if t = ''dunning'' then ''/v1/dunnings''
      else ''/v1/vouchers'')"

definition supports_rendered :: "string \<Rightarrow> bool" where
  "supports_rendered t =
     (t \<in> {''salesinvoice'', ''invoice'', ''salescreditnote'', ''downpaymentinvoice'', ''quotation'', ''orderconfirmation'',
        ''deliverynote'', ''dunning''})"

definition voucher_path :: "string \<Rightarrow> string" where
  "voucher_path i = ''/v1/vouchers/'' @ path_escape i"

section \<open>Reading\<close>

definition lx_get_profile :: "'w net \<Rightarrow> api_session \<Rightarrow> vals \<Rightarrow> 'w \<Rightarrow> gval res \<times> 'w" where
  "lx_get_profile net s _ w = lx_get net s ''/v1/profile'' [] w"

definition lx_list_contacts_schema :: schema where
  "lx_list_contacts_schema =
     [(field ''email'' FieldString)\<lparr>f_description := ''Filter by email.''\<rparr>,
      (field ''name'' FieldString)\<lparr>f_description := ''Filter by company / contact name.''\<rparr>,
      (field ''number'' FieldString)\<lparr>f_description := ''Filter by customer/vendor number.''\<rparr>,
      (field ''customer'' FieldBool)\<lparr>f_description := ''Only customers.''\<rparr>,
      (field ''vendor'' FieldBool)\<lparr>f_description := ''Only vendors.''\<rparr>,
      (field ''size'' FieldInt)\<lparr>f_default := Some (GInt 25), f_description := ''Page size, max 250.''\<rparr>,
      (field ''page'' FieldInt)\<lparr>f_default := Some (GInt 0)\<rparr>]"

text \<open>The page of a listing: its size always, its number when it is not the first.\<close>

definition lx_page :: "vals \<Rightarrow> url_values" where
  "lx_page p =
     (''size'', [itoa (v_int p ''size'')]) # (if 0 < v_int p ''page'' then [(''page'', [itoa (v_int p ''page'')])] else [])"

definition lx_list_contacts :: "'w net \<Rightarrow> api_session \<Rightarrow> vals \<Rightarrow> 'w \<Rightarrow> gval res \<times> 'w" where
  "lx_list_contacts net s params w =
     (let p = with_defaults params lx_list_contacts_schema
      in lx_get net s ''/v1/contacts''
           (concat (map (\<lambda>k. opt_query k (v_string p k)) [''email'', ''name'', ''number''])
            @ (if v_bool p ''customer'' then [(''customer'', [''true''])] else [])
            @ (if v_bool p ''vendor'' then [(''vendor'', [''true''])] else []) @ lx_page p) w)"

definition lx_get_contact_schema :: schema where
  "lx_get_contact_schema =
     [(field ''id'' FieldString)\<lparr>f_required := True\<rparr>]"

definition lx_get_contact :: "'w net \<Rightarrow> api_session \<Rightarrow> vals \<Rightarrow> 'w \<Rightarrow> gval res \<times> 'w" where
  "lx_get_contact net s params w =
     (let i = v_string params ''id''
      in if i = [] then (Inl (ErrMsg ''id is required''), w) else lx_get net s (''/v1/contacts/'' @ path_escape i) [] w)"

definition lx_list_vouchers_schema :: schema where
  "lx_list_vouchers_schema =
     [(field ''voucher_type'' FieldEnum)\<lparr>f_required := True,
        f_options := [\<lparr>o_value = ''salesinvoice'', o_label = ''Outgoing invoice''\<rparr>,
          \<lparr>o_value = ''salescreditnote'', o_label = ''Outgoing credit note''\<rparr>,
          \<lparr>o_value = ''purchaseinvoice'', o_label = ''Incoming invoice''\<rparr>,
          \<lparr>o_value = ''purchasecreditnote'', o_label = ''Incoming credit note''\<rparr>,
          \<lparr>o_value = ''invoice'', o_label = ''Invoice (legacy alias)''\<rparr>,
          \<lparr>o_value = ''downpaymentinvoice'', o_label = ''Down-payment invoice''\<rparr>,
          \<lparr>o_value = ''quotation'', o_label = ''Quotation''\<rparr>,
          \<lparr>o_value = ''orderconfirmation'', o_label = ''Order confirmation''\<rparr>,
          \<lparr>o_value = ''deliverynote'', o_label = ''Delivery note''\<rparr>,
          \<lparr>o_value = ''dunning'', o_label = ''Dunning''\<rparr>]\<rparr>,
      (field ''voucher_status'' FieldString)\<lparr>f_default := Some (GStr ''any''),
        f_description := ''any | open | paid | paidoff | voided | transferred | sepadebit | overdue. Required by API; default ''
          @ apos @ ''any'' @ apos @ '' disables filter.''\<rparr>,
      field ''contact_id'' FieldString,
      (field ''voucher_date_from'' FieldString)\<lparr>f_description := ''ISO date e.g. 2026-01-01''\<rparr>,
      field ''voucher_date_to'' FieldString,
      (field ''size'' FieldInt)\<lparr>f_default := Some (GInt 25), f_description := ''Page size, max 250.''\<rparr>,
      (field ''page'' FieldInt)\<lparr>f_default := Some (GInt 0)\<rparr>,
      (field ''sort'' FieldString)\<lparr>f_default := Some (GStr ''voucherDate,DESC'')\<rparr>]"

definition lx_list_vouchers :: "'w net \<Rightarrow> api_session \<Rightarrow> vals \<Rightarrow> 'w \<Rightarrow> gval res \<times> 'w" where
  "lx_list_vouchers net s params w =
     (let p = with_defaults params lx_list_vouchers_schema; vt = v_string p ''voucher_type''
      in if vt = [] then (Inl (ErrMsg ''voucher_type is required''), w)
         else lx_get net s ''/v1/voucherlist''
           ([(''voucherType'', [vt])] @ opt_query ''voucherStatus'' (v_string p ''voucher_status'')
            @ opt_query ''contactId'' (v_string p ''contact_id'') @ opt_query ''voucherDateFrom'' (v_string p ''voucher_date_from'')
            @ opt_query ''voucherDateTo'' (v_string p ''voucher_date_to'') @ lx_page p @ opt_query ''sort'' (v_string p ''sort'')) w)"

definition lx_get_voucher_schema :: schema where
  "lx_get_voucher_schema =
     [(field ''id'' FieldString)\<lparr>f_required := True\<rparr>,
      (field ''voucher_type'' FieldString)\<lparr>f_required := True,
        f_description := ''From the voucherlist row'' @ apos @ ''s voucherType field. e.g. salesinvoice, purchaseinvoice.''\<rparr>]"

definition set_all :: "(string \<times> string) list \<Rightarrow> gval \<Rightarrow> gval res" where
  "set_all kvs v = foldl (\<lambda>r (k, x). case r of Inl e \<Rightarrow> Inl e | Inr m \<Rightarrow> map_set k (GStr x) m) (Inr v) kvs"

definition lx_get_voucher :: "'w net \<Rightarrow> api_session \<Rightarrow> vals \<Rightarrow> 'w \<Rightarrow> gval res \<times> 'w" where
  "lx_get_voucher net s params w =
     (let i = v_string params ''id''; vt = v_string params ''voucher_type''; primary = voucher_endpoint vt @ ''/'' @ path_escape i;
          fallback = voucher_path i
      in if i = [] \<or> vt = [] then (Inl (ErrMsg ''id and voucher_type are required''), w)
         else case lx_get net s primary [] w of
           (Inr out, w1) \<Rightarrow> (set_all [(''_source_endpoint'', primary)] out, w1)
         | (Inl e, w1) \<Rightarrow>
             (if api_status e = Some 404 \<and> primary \<noteq> fallback then
                (case lx_get net s fallback [] w1 of
                   (Inr out, w2) \<Rightarrow> (set_all [(''_source_endpoint'', fallback), (''_fell_back_from'', primary)] out, w2)
                 | (Inl _, w2) \<Rightarrow> (Inl e, w2))
              else (Inl e, w1)))"

section \<open>The file of a voucher\<close>

text \<open>The first attached file: its id as a text, or in an object.\<close>

definition first_file :: "gval \<Rightarrow> string res" where
  "first_file v =
     (case obj_get v ''files'' of
        Some (GList (f # _)) \<Rightarrow>
          (let i = (case f of GStr x \<Rightarrow> x | GMap _ \<Rightarrow> map_string f ''id'' | _ \<Rightarrow> [])
           in if i = [] then Inl (ErrMsg (''voucher'' @ apos @ ''s first file has no id'')) else Inr i)
      | _ \<Rightarrow> Inl (ErrMsg ''voucher has no attached files''))"

definition attached_file :: "'w net \<Rightarrow> api_session \<Rightarrow> string \<Rightarrow> 'w \<Rightarrow> (string \<times> string) res \<times> 'w" where
  "attached_file net s i w =
     and_then (wrap_err ''resolve voucher: '' (lx_get net s (voucher_path i) [] w))
       (\<lambda>v w1. (map_sum id (\<lambda>f. (f, voucher_path i @ ''#files[0]'')) (first_file v), w1))"

definition resolve_file_id :: "'w net \<Rightarrow> api_session \<Rightarrow> string \<Rightarrow> string \<Rightarrow> 'w \<Rightarrow> (string \<times> string) res \<times> 'w" where
  "resolve_file_id net s i vt w =
     (if supports_rendered vt then
        (let path = voucher_endpoint vt @ ''/'' @ path_escape i @ ''/document''
         in case retry_on_429 [] (api_get net (sn_http s) (dec_field ''documentFileId'' dec_string) path []) w of
              (Inr f, w1) \<Rightarrow> (if f \<noteq> [] then (Inr (f, path), w1) else attached_file net s i w1)
            | (Inl e, w1) \<Rightarrow> (if api_status e = Some 404 then attached_file net s i w1 else (Inl e, w1)))
      else attached_file net s i w)"

text \<open>One attempt of the download. The address in the error is the one asked for.\<close>

definition fetch_file :: "('m cli_scheme) net \<Rightarrow> api_session \<Rightarrow> string \<Rightarrow> string \<Rightarrow> 'm cli_scheme \<Rightarrow> nat res \<times> 'm cli_scheme" where
  "fetch_file net s path out w =
     (case new_request (sn_http s) ''GET'' path [] [] [] of
        Inl e \<Rightarrow> (Inl e, w)
      | Inr rq \<Rightarrow>
          and_then (net rq w)
            (\<lambda>resp w1.
               if as_status resp = 429 then (Inl (ErrAPI 429 (aq_url rq) (raw_text resp)), w1)
               else if as_status resp div 100 \<noteq> 2 then
                 (Inl (ErrMsg (''file download: http '' @ itoa (as_status resp) @ '': '' @ raw_text resp)), w1)
               else create_and_copy id id out (as_body resp) w1))"

definition lx_download_voucher_pdf_schema :: schema where
  "lx_download_voucher_pdf_schema =
     [(field ''id'' FieldString)\<lparr>f_required := True\<rparr>,
      (field ''voucher_type'' FieldString)\<lparr>f_required := True,
        f_description := ''From the voucherlist row'' @ apos @ ''s voucherType field.''\<rparr>,
      (field ''out'' FieldString)\<lparr>f_required := True, f_is_path := True,
        f_description := ''Output file path.''\<rparr>]"

definition lx_download_voucher_pdf :: "('m cli_scheme) net \<Rightarrow> api_session \<Rightarrow> vals \<Rightarrow> 'm cli_scheme \<Rightarrow> gval res \<times> 'm cli_scheme" where
  "lx_download_voucher_pdf net s params w =
     (let i = v_string params ''id''; vt = v_string params ''voucher_type''; out = v_string params ''out''
      in if i = [] \<or> vt = [] \<or> out = [] then (Inl (ErrMsg ''id, voucher_type, and out are required''), w)
         else and_then (resolve_file_id net s i vt w)
           (\<lambda>(f, src) w1. and_then (retry_on_429 0 (fetch_file net s (''/v1/files/'' @ path_escape f) out) w1)
             (\<lambda>n w2. (Inr (GMap [(''saved'', GBool True), (''path'', GStr out), (''size'', GInt64 (int n)), (''file_id'', GStr f),
                (''source'', GStr src)]), w2))))"

section \<open>Writing\<close>

definition lx_list_categories_schema :: schema where
  "lx_list_categories_schema =
     [(field ''search'' FieldString)\<lparr>f_label := ''Name contains''\<rparr>,
      (field ''type'' FieldEnum)\<lparr>f_label := ''Type filter'',
        f_options := [\<lparr>o_value = ''income'', o_label = ''income''\<rparr>,
          \<lparr>o_value = ''outgo'', o_label = ''outgo''\<rparr>,
          \<lparr>o_value = ''receivable'', o_label = ''receivable''\<rparr>,
          \<lparr>o_value = ''payable'', o_label = ''payable''\<rparr>]\<rparr>]"

definition sprint_key :: "gval \<Rightarrow> string \<Rightarrow> string" where
  "sprint_key v k = sprint (case obj_get v k of Some x \<Rightarrow> x | None \<Rightarrow> GNil)"

definition lx_list_categories :: "'w net \<Rightarrow> api_session \<Rightarrow> vals \<Rightarrow> 'w \<Rightarrow> gval res \<times> 'w" where
  "lx_list_categories net s params w =
     (let p = with_defaults params lx_list_categories_schema; search = to_lower (trim_space (v_string p ''search''));
          kind = to_lower (trim_space (v_string p ''type''))
      in and_then (retry_on_429 GNil (api_get net (sn_http s) object_slice ''/v1/posting-categories'' []) w)
           (\<lambda>cats w1. (Inr (if search = [] \<and> kind = [] then cats
              else GList (filter (\<lambda>c. (search = [] \<or> sublist search (to_lower (sprint_key c ''name'')))
                                   \<and> (kind = [] \<or> equal_fold (sprint_key c ''type'') kind)) (case cats of GList cs \<Rightarrow> cs | _ \<Rightarrow> []))), w1)))"

text \<open>The body of an upload: the form field, then the file.\<close>

definition voucher_file_body :: "string \<Rightarrow> 'm cli_scheme \<Rightarrow> (string \<times> string) res \<times> 'm cli_scheme" where
  "voucher_file_body file w =
     (case os_read_file (c_os w) file of
        Inl e \<Rightarrow> (Inl (ErrWrap (''open '' @ file @ '': '') e []), w)
      | Inr _ \<Rightarrow>
          (case random_boundary (c_pool w) of
             (Inl e, r) \<Rightarrow> (Inl e, w\<lparr>c_pool := r\<rparr>)
           | (Inr b, r) \<Rightarrow>
               (map_sum id (\<lambda>body. (body, ''multipart/form-data; boundary='' @ b))
                  (multipart_files (c_os w) b [\<lparr>ff_field = ''file'', ff_path = file, ff_mime = [], ff_filename = []\<rparr>]
                     (multipart_fields b [(''type'', ''voucher'')])), w\<lparr>c_pool := r\<rparr>)))"

text \<open>At most 64 KiB of the answer are read.\<close>

definition attach_voucher_file :: "('m cli_scheme) net \<Rightarrow> api_session \<Rightarrow> string \<Rightarrow> string \<Rightarrow> 'm cli_scheme \<Rightarrow> gval res \<times> 'm cli_scheme" where
  "attach_voucher_file net s vid file w =
     and_then (voucher_file_body file w)
       (\<lambda>(body, ctype) w1. and_then (do_raw net (sn_http s) ''POST'' (voucher_path vid @ ''/files'') body ctype w1)
         (\<lambda>resp w2.
            let raw = trim_space (take 65536 (raw_text resp))
            in if 400 \<le> as_status resp then (Inl (ErrMsg (''attach: HTTP '' @ itoa (as_status resp) @ '': '' @ raw)), w2)
               else case Option.bind (json_unmarshal raw) dec_object of
                 None \<Rightarrow> (Inl (ErrWrap ''attach: decode response: '' (ErrExt ''json'') ('' (body: '' @ raw @ '')'')), w2)
               | Some v \<Rightarrow> (Inr v, w2)))"

definition lx_create_purchase_voucher_schema :: schema where
  "lx_create_purchase_voucher_schema =
     [(field ''contact_id'' FieldString)\<lparr>f_label := ''Vendor contact id'', f_required := True\<rparr>,
      (field ''category_id'' FieldString)\<lparr>f_label := ''Posting category id'', f_required := True,
        f_description := ''From list-categories.''\<rparr>,
      (field ''number'' FieldString)\<lparr>f_label := ''Vendor invoice number'', f_required := True\<rparr>,
      (field ''date'' FieldString)\<lparr>f_label := ''Invoice date (YYYY-MM-DD)'', f_required := True\<rparr>,
      (field ''due'' FieldString)\<lparr>f_label := ''Due date (YYYY-MM-DD)''\<rparr>,
      (field ''net'' FieldString)\<lparr>f_label := ''Net amount'', f_description := ''Decimal, e.g. 1230.00''\<rparr>,
      (field ''gross'' FieldString)\<lparr>f_label := ''Gross amount'',
        f_description := ''Decimal; derived from net if omitted.''\<rparr>,
      (field ''tax'' FieldString)\<lparr>f_label := ''Tax amount'',
        f_description := ''Decimal; derived from net*rate if omitted.''\<rparr>,
      (field ''rate'' FieldString)\<lparr>f_label := ''Tax rate (percent)'', f_default := Some (GStr ''19'')\<rparr>,
      (field ''remark'' FieldString)\<lparr>f_label := ''Remark''\<rparr>,
      (field ''reverse_charge'' FieldBool)\<lparr>f_label := [CHR 0xC2, CHR 0xA7] @ ''13b reverse charge'',
        f_default := Some (GBool False)\<rparr>,
      (field ''pdf'' FieldString)\<lparr>f_label := ''PDF to attach after creation'', f_is_path := True\<rparr>]"

definition voucher_body :: "vals \<Rightarrow> float64 \<times> float64 \<times> float64 \<times> float64 \<times> string \<Rightarrow> gval" where
  "voucher_body p a =
     (let (net, gross, tax, rate, tt) = a; txt = (\<lambda>k. trim_space (v_string p k))
      in GMap ([(''type'', GStr ''purchaseinvoice''), (''voucherNumber'', GStr (txt ''number'')), (''voucherDate'', GStr (txt ''date'')),
          (''totalGrossAmount'', GFloat gross), (''totalTaxAmount'', GFloat tax), (''taxType'', GStr tt),
          (''useCollectiveContact'', GBool False), (''contactId'', GStr (txt ''contact_id'')), (''remark'', GStr (v_string p ''remark'')),
          (''voucherItems'', GList [GMap [(''amount'', GFloat net), (''taxAmount'', GFloat tax), (''taxRatePercent'', GFloat rate),
             (''categoryId'', GStr (txt ''category_id''))]])] @ opt_str ''dueDate'' (txt ''due'')))"

definition voucher_amounts :: "vals \<Rightarrow> (float64 \<times> float64 \<times> float64 \<times> float64 \<times> string) res" where
  "voucher_amounts p =
     (case amount p ''net'' of Inl e \<Rightarrow> Inl e | Inr net \<Rightarrow>
      (case amount p ''gross'' of Inl e \<Rightarrow> Inl e | Inr gross \<Rightarrow>
      (case amount p ''tax'' of Inl e \<Rightarrow> Inl e | Inr tax \<Rightarrow>
      (case amount p ''rate'' of Inl e \<Rightarrow> Inl e | Inr rate \<Rightarrow>
        Inr (compute_amounts net gross tax rate (v_bool p ''reverse_charge''))))))"

definition voucher_result :: "string \<Rightarrow> vals \<Rightarrow> float64 \<times> float64 \<times> float64 \<times> float64 \<times> string \<Rightarrow> (string \<times> gval) list" where
  "voucher_result vid p a =
     (let (net, gross, tax, _, tt) = a
      in [(''id'', GStr vid), (''voucherNumber'', GStr (trim_space (v_string p ''number''))), (''net'', GFloat net), (''tax'', GFloat tax),
          (''gross'', GFloat gross), (''taxType'', GStr tt)])"

definition lx_create_purchase_voucher :: "('m cli_scheme) net \<Rightarrow> api_session \<Rightarrow> vals \<Rightarrow> 'm cli_scheme \<Rightarrow> gval res \<times> 'm cli_scheme" where
  "lx_create_purchase_voucher net s params w =
     (let p = with_defaults params lx_create_purchase_voucher_schema; pdf = trim_space (v_string p ''pdf'')
      in if list_ex (\<lambda>k. trim_space (v_string p k) = []) [''contact_id'', ''category_id'', ''number'', ''date''] then
           (Inl (ErrMsg ''contact_id, category_id, number, and date are required''), w)
         else case voucher_amounts p of
           Inl e \<Rightarrow> (Inl e, w)
         | Inr a \<Rightarrow>
             and_then (retry_on_429 GNil (api_send net (sn_http s) dec_object ''POST'' ''/v1/vouchers'' (voucher_body p a)) w)
               (\<lambda>resp w1.
                  let vid = map_string resp ''id''; result = voucher_result vid p a
                  in if pdf = [] then (Inr (GMap result), w1)
                     else if vid = [] then
                       (Inl (ErrMsg (''voucher created but response had no id '' @ em_dash @ '' cannot attach PDF'')), w1)
                     else case attach_voucher_file net s vid pdf w1 of
                       (Inl e, w2) \<Rightarrow> (Inr (GMap (result @ [(''attach_error'', GStr (err_text e))])), w2)
                     | (Inr fr, w2) \<Rightarrow>
                         (Inr (GMap (result @ [(''attached_file_id'', case obj_get fr ''id'' of Some x \<Rightarrow> x | None \<Rightarrow> GNil)])), w2)))"

definition lx_attach_voucher_file_schema :: schema where
  "lx_attach_voucher_file_schema =
     [(field ''voucher_id'' FieldString)\<lparr>f_label := ''Voucher id'', f_required := True\<rparr>,
      (field ''file'' FieldString)\<lparr>f_label := ''File to attach'', f_required := True, f_is_path := True\<rparr>]"

definition lx_attach_voucher_file :: "('m cli_scheme) net \<Rightarrow> api_session \<Rightarrow> vals \<Rightarrow> 'm cli_scheme \<Rightarrow> gval res \<times> 'm cli_scheme" where
  "lx_attach_voucher_file net s params w =
     (let vid = trim_space (v_string params ''voucher_id''); file = trim_space (v_string params ''file'')
      in if vid = [] \<or> file = [] then (Inl (ErrMsg ''voucher_id and file are required''), w)
         else attach_voucher_file net s vid file w)"

section \<open>The connector\<close>

definition lx_get_profile_action where
  "lx_get_profile_action net =
     mk_action ''get-profile'' ''Get profile''
       ''Return the bound organisation: companyName, organizationId, taxType, businessFeatures, etc.''
       [] (lx_get_profile net)"

definition lx_list_contacts_action where
  "lx_list_contacts_action net =
     mk_action ''list-contacts'' ''List contacts''
       ''Search contacts. All filters optional.''
       lx_list_contacts_schema (lx_list_contacts net)"

definition lx_get_contact_action where
  "lx_get_contact_action net =
     mk_action ''get-contact'' ''Get contact''
       ''Fetch one contact by ID.''
       lx_get_contact_schema (lx_get_contact net)"

definition lx_list_categories_action where
  "lx_list_categories_action net =
     mk_action ''list-categories'' ''List posting categories''
       (''List posting categories (the categoryId values voucher items reference). Optional name substring ''
              @ ''+ type filter (income / outgo / receivable / payable).'')
       lx_list_categories_schema (lx_list_categories net)"

definition lx_list_vouchers_action where
  "lx_list_vouchers_action net =
     mk_action ''list-vouchers'' ''List vouchers''
       ''Unified search across invoices / credit notes / vouchers / quotations / etc. via /v1/voucherlist.''
       lx_list_vouchers_schema (lx_list_vouchers net)"

definition lx_get_voucher_action where
  "lx_get_voucher_action net =
     mk_action ''get-voucher'' ''Get voucher (any kind)''
       ''Fetch one voucherlist row by id + type. Falls back to /v1/vouchers/{id} on 404.''
       lx_get_voucher_schema (lx_get_voucher net)"

definition lx_download_voucher_pdf_action where
  "lx_download_voucher_pdf_action net =
     mk_action ''download-voucher-pdf'' ''Download voucher PDF''
       (''Resolve voucher '' @ right_arrow @ '' file id '' @ right_arrow @ '' download bytes to a local path.'')
       lx_download_voucher_pdf_schema (lx_download_voucher_pdf net)"

definition lx_create_purchase_voucher_action where
  "lx_create_purchase_voucher_action net =
     mk_action ''create-purchase-voucher'' ''Create purchase voucher''
       (''Create a purchaseinvoice voucher (Eingangsrechnung) and optionally attach a PDF. Net/tax math: ''
              @ ''give net (tax=net*rate, gross=net+tax) OR gross (net derived); tax overrides. reverse_charge=true ''
              @ ''books '' @ [CHR 0xC2, CHR 0xA7] @ ''13b (gross=net, tax 0, taxType gross) '' @ em_dash
              @ '' pass the '' @ [CHR 0xC2, CHR 0xA7] @ ''13b category.'')
       lx_create_purchase_voucher_schema (lx_create_purchase_voucher net)"

definition lx_attach_voucher_file_action where
  "lx_attach_voucher_file_action net =
     mk_action ''attach-voucher-file'' ''Attach file to voucher''
       (''Attach a PDF (or other file) to an existing voucher via POST /v1/vouchers/{id}/files. Returns the ''
              @ ''new file id.'')
       lx_attach_voucher_file_schema (lx_attach_voucher_file net)"

definition lexoffice_connector :: "('m cli_scheme) net \<Rightarrow> ('m cli_scheme, api_session) connector" where
  "lexoffice_connector net =
     \<lparr>c_descriptor = \<lparr>d_name = ''lexoffice'', d_display = ''Lexware Office (formerly Lexoffice)'',
        d_description = ''German accounting (Lexware Office). Read profile, contacts, vouchers, invoices, posting categories, ''
          @ ''PDFs; create purchase-invoice vouchers and attach files.'',
        d_version = ''0.1.0'', d_categories = [''accounting'', ''invoicing'']\<rparr>,
      c_credential = \<lparr>cs_kind = AuthAPIKey, cs_schema = lx_cred_schema, cs_presets = [], cs_defaults = (\<lambda>v. v),
        cs_validate = keep_values (lx_validate net)\<rparr>,
      c_actions =
        [lx_get_profile_action net, lx_list_contacts_action net, lx_get_contact_action net, lx_list_categories_action net,
         lx_list_vouchers_action net, lx_get_voucher_action net, lx_download_voucher_pdf_action net,
         lx_create_purchase_voucher_action net, lx_attach_voucher_file_action net],
      c_triggers = [],
      c_open = open_with lx_client,
      c_close = (\<lambda>_ w. (Inr (), w))\<rparr>"

section \<open>Properties\<close>

lemma hundred_num: "f_hundred = FNum False 7036874417766400 (- 46)"
  by (rule f_hundred_def)

lemma half_num: "f_half = FNum False 4503599627370496 (- 53)"
  by (rule f_half_def)

lemma hundred_real: "f_real f_hundred = 100" "f_real f_half = 1 / 2"
  by (simp_all add: hundred_num half_num f_real_def power_int_minus)

text \<open>The double next to a decimal with two places.\<close>

lemma cents_near:
  assumes "float_of_dec neg k (- 2) = Some v" "0 < k" "k < 2 ^ 40"
  shows "near v (with_sign neg (real k / 100))"
proof -
  have "near (round_dyadic neg k 100) (with_sign neg (real k / real 100))"
    by (rule round_dyadic_near) (use assms(2,3) in simp_all)
  moreover have "round_dyadic neg k 100 = v"
    using assms by (simp add: round_dyadic_def float_of_dec_def split: if_splits)
  ultimately show ?thesis by simp
qed

text \<open>The sum before the truncation: half a cent above the amount in cents.\<close>

lemma cents_sum:
  assumes "float_of_dec neg k (- 2) = Some v" "0 < k" "k < 2 ^ 40"
  shows "\<exists>m e. f_add (f_mul v f_hundred) f_half = FNum neg m e \<and>
    \<bar>f_real (f_add (f_mul v f_hundred) f_half) - (with_sign neg (real k) + 1 / 2)\<bar> \<le> 1 / 4"
proof -
  define c where "c = real k"
  have c: "1 \<le> c" "c < 1099511627776" using assms(2,3) by (simp_all add: c_def)
  have v: "near v (with_sign neg (c / 100))" using cents_near [OF assms] by (simp add: c_def)
  obtain m e where vm: "v = FNum neg m e" "0 < m" using near_num [OF v] c by (auto simp: with_sign_def)
  have va: "\<bar>f_real v * 100 - with_sign neg c\<bar> \<le> c / 9007199254740992"
  proof -
    have "f_real v * 100 - with_sign neg c = 100 * (f_real v - with_sign neg (c / 100))" by (simp add: with_sign_def)
    then have "\<bar>f_real v * 100 - with_sign neg c\<bar> = 100 * \<bar>f_real v - with_sign neg (c / 100)\<bar>" by (simp only: abs_mult abs_numeral)
    also have "\<dots> \<le> 100 * (\<bar>with_sign neg (c / 100)\<bar> / 9007199254740992)" using near_rel [OF v] by simp
    also have "\<dots> = c / 9007199254740992" using c by (simp add: with_sign_def)
    finally show ?thesis .
  qed
  have w: "\<bar>with_sign neg c\<bar> = c" using c by (simp add: with_sign_def)
  then have "1 / 1000 \<le> \<bar>f_real v * 100\<bar>" "\<bar>f_real v * 100\<bar> \<le> 2 ^ 60" using va c by (simp_all, linarith+)
  then have p: "near (f_mul v f_hundred) (f_real v * 100)"
    using f_mul_near [OF vm(1) hundred_num vm(2)] unfolding hundred_real by simp
  define q where "q = f_real (f_mul v f_hundred)"
  have qa: "\<bar>q - with_sign neg c\<bar> \<le> 1 / 8"
  proof -
    have "\<bar>q - f_real v * 100\<bar> \<le> \<bar>f_real v * 100\<bar> / 9007199254740992" unfolding q_def by (rule near_rel [OF p])
    then show ?thesis using va c w by linarith
  qed
  obtain m1 e1 s1 where pm: "f_mul v f_hundred = FNum s1 m1 e1" using near_num [OF p] by auto
  have lo: "1 / 1000 \<le> \<bar>q + 1 / 2\<bar>" using qa c w by linarith
  have "\<bar>q + 1 / 2\<bar> \<le> 1152921504606846976" using qa c w by linarith
  then have s: "near (f_add (f_mul v f_hundred) f_half) (q + 1 / 2)"
    using f_add_near [OF pm half_num] lo unfolding hundred_real q_def [symmetric] by simp
  obtain m2 e2 where sm: "f_add (f_mul v f_hundred) f_half = FNum (q + 1 / 2 < 0) m2 e2" using near_num [OF s] by auto
  have "q \<le> with_sign neg c + 1 / 8" "with_sign neg c - 1 / 8 \<le> q" using qa by linarith+
  then have sg: "q + 1 / 2 < 0 \<longleftrightarrow> neg" using c by (cases neg) (simp_all add: with_sign_def)
  have sb: "\<bar>f_real (f_add (f_mul v f_hundred) f_half) - (q + 1 / 2)\<bar> \<le> 1 / 8"
  proof -
    have "\<bar>q + 1 / 2\<bar> \<le> 1125899906842624" using qa c w by linarith
    then show ?thesis by (intro near_bounds [OF s]) simp
  qed
  have "\<bar>f_real (f_add (f_mul v f_hundred) f_half) - (with_sign neg c + 1 / 2)\<bar> \<le> 1 / 4" using sb qa by linarith
  then show ?thesis using sm sg unfolding c_def by simp
qed

text \<open>C36.
  Rounding to cents is exact for amounts above zero, and off by one cent for every amount below: of the double read from a
  decimal of \<open>k\<close> cents, for any \<open>k\<close> below \<open>2 ^ 40\<close>, \<open>round2\<close> makes \<open>k\<close> hundredths when it is positive, and \<open>k - 1\<close>
  hundredths when it is negative.
\<close>

theorem round2_cents:
  assumes "float_of_dec neg k (- 2) = Some v" "0 < k" "k < 2 ^ 40"
  shows "round2 v = f_div (f_of_int (if neg then - int (k - 1) else int k)) f_hundred"
proof -
  define c where "c = real k"
  obtain m e where sm: "f_add (f_mul v f_hundred) f_half = FNum neg m e"
    and sb: "\<bar>f_real (f_add (f_mul v f_hundred) f_half) - (with_sign neg c + 1 / 2)\<bar> \<le> 1 / 4"
    using cents_sum [OF assms] unfolding c_def by blast
  have c: "1 \<le> c" using assms(2) by (simp add: c_def)
  have i: "float_to_int (f_add (f_mul v f_hundred) f_half) = (if neg then - int (k - 1) else int k)"
  proof (cases neg)
    case True
    have k: "real (k - 1) = c - 1" using assms(2) by (simp add: c_def)
    have "with_sign neg c = - c" using True by (simp add: with_sign_def)
    then have "c - 1 \<le> \<bar>f_real (f_add (f_mul v f_hundred) f_half)\<bar>" "\<bar>f_real (f_add (f_mul v f_hundred) f_half)\<bar> < c - 1 + 1"
      using sb c by linarith+
    then show ?thesis
      using float_to_int_trunc [OF sm, of "k - 1"] k True assms(3)
      by (simp add: with_sign_def int64_range_def min_int64_def max_int64_def)
  next
    case False
    then have "with_sign neg c = c" by (simp add: with_sign_def)
    then have "c \<le> \<bar>f_real (f_add (f_mul v f_hundred) f_half)\<bar>" "\<bar>f_real (f_add (f_mul v f_hundred) f_half)\<bar> < c + 1"
      using sb c by linarith+
    then show ?thesis
      using float_to_int_trunc [OF sm, of k] False assms(3)
      by (simp add: with_sign_def int64_range_def min_int64_def max_int64_def c_def)
  qed
  show ?thesis unfolding round2_def i by simp
qed

theorem round2_cents_witness:
  "round2 (the (parse_float ''-12.34'')) = f_div (f_of_int (- 1233)) f_hundred \<and>
   round2 (the (parse_float ''12.34'')) = f_div (f_of_int 1234) f_hundred"
proof -
  have "\<exists>m e. float_of_ratio neg 1234 100 = Some (FNum neg m e)" for neg
    using float_of_ratio_error [of 1234 100 neg] by (fastforce simp: bit_length.simps)
  then obtain v u where vu: "float_of_dec True 1234 (- 2) = Some v" "float_of_dec False 1234 (- 2) = Some u"
    by (fastforce simp: float_of_dec_def nat_digits.simps)
  have d: "take_digits ''12.34'' = (''12'', ''.34'')" "take_digits ''34'' = (''34'', [])" "digits_val 0 ''1234'' = 1234"
    "to_lower ''12.34'' = ''12.34''"
    by code_simp+
  moreover have "parse_float ''-12.34'' = float_of_dec True 1234 (- 2)" "parse_float ''12.34'' = float_of_dec False 1234 (- 2)"
    by (simp_all add: parse_float_def parse_decimal_def d digit_val_def)
  ultimately show ?thesis using vu round2_cents [OF vu(1)] round2_cents [OF vu(2)] by simp
qed

end
