(* ===== verification/GoSniff.thy ===== *)
theory GoSniff
  imports Prelude
begin

text \<open>
  \<open>net/http.DetectContentType\<close>: the media type of a file from its first 512 bytes, by the signatures of the MIME
  sniffing standard, in their order.
\<close>

definition is_ws :: "char \<Rightarrow> bool" where
  "is_ws c = ((of_char c :: nat) \<in> {9, 10, 12, 13, 32})"

text \<open>A signature: bytes, of which \<open>None\<close> stands for any.\<close>

type_synonym pattern = "char option list"

fun sig_match :: "pattern \<Rightarrow> string \<Rightarrow> bool" where
  "sig_match [] d = True"
| "sig_match (p # ps) [] = False"
| "sig_match (p # ps) (c # d) = ((case p of None \<Rightarrow> True | Some x \<Rightarrow> x = c) \<and> sig_match ps d)"

definition lit :: "string \<Rightarrow> pattern" where "lit s = map Some s"
definition gap :: "nat \<Rightarrow> pattern" where "gap n = replicate n None"
definition octets :: "nat list \<Rightarrow> string" where "octets ns = map char_of ns"

definition html_tags :: "string list" where
  "html_tags =
     [''<!DOCTYPE HTML'', ''<HTML'', ''<HEAD'', ''<SCRIPT'', ''<IFRAME'', ''<H1'', ''<DIV'', ''<FONT'', ''<TABLE'', ''<A'', ''<STYLE'',
      ''<TITLE'', ''<B'', ''<BODY'', ''<BR'', ''<P'', ''<!--'']"

text \<open>A tag in either case, with a blank or \<open>>\<close> behind it.\<close>

definition html_match :: "string \<Rightarrow> string \<Rightarrow> bool" where
  "html_match d tag =
     (length tag < length d \<and> list_all2 (\<lambda>t c. t = upper_char c \<or> t = c) tag (take (length tag) d)
      \<and> (d ! length tag = CHR '' '' \<or> d ! length tag = CHR ''>''))"

definition signatures_first :: "(pattern \<times> string) list" where
  "signatures_first =
     [(lit ''%PDF-'', ''application/pdf''), (lit ''%!PS-Adobe-'', ''application/postscript''),
      (lit (octets [254, 255]) @ gap 2, ''text/plain; charset=utf-16be''),
      (lit (octets [255, 254]) @ gap 2, ''text/plain; charset=utf-16le''),
      (lit (octets [239, 187, 191]) @ gap 1, ''text/plain; charset=utf-8''),
      (lit (octets [0, 0, 1, 0]), ''image/x-icon''), (lit (octets [0, 0, 2, 0]), ''image/x-icon''),
      (lit ''BM'', ''image/bmp''), (lit ''GIF87a'', ''image/gif''), (lit ''GIF89a'', ''image/gif''),
      (lit ''RIFF'' @ gap 4 @ lit ''WEBPVP'', ''image/webp''), (lit (octets [137] @ ''PNG'' @ octets [13, 10, 26, 10]), ''image/png''),
      (lit (octets [255, 216, 255]), ''image/jpeg''),
      (lit ''FORM'' @ gap 4 @ lit ''AIFF'', ''audio/aiff''), (lit ''ID3'', ''audio/mpeg''),
      (lit (''OggS'' @ octets [0]), ''application/ogg''), (lit (''MThd'' @ octets [0, 0, 0, 6]), ''audio/midi''),
      (lit ''RIFF'' @ gap 4 @ lit ''AVI '', ''video/avi''), (lit ''RIFF'' @ gap 4 @ lit ''WAVE'', ''audio/wave'')]"

definition signatures_last :: "(pattern \<times> string) list" where
  "signatures_last =
     [(lit (octets [26, 69, 223, 163]), ''video/webm''), (gap 34 @ lit ''LP'', ''application/vnd.ms-fontobject''),
      (lit (octets [0, 1, 0, 0]), ''font/ttf''), (lit ''OTTO'', ''font/otf''), (lit ''ttcf'', ''font/collection''),
      (lit ''wOFF'', ''font/woff''), (lit ''wOF2'', ''font/woff2''),
      (lit (octets [31, 139, 8]), ''application/x-gzip''), (lit (''PK'' @ octets [3, 4]), ''application/zip''),
      (lit (''Rar!'' @ octets [26, 7, 0]), ''application/x-rar-compressed''),
      (lit (''Rar!'' @ octets [26, 7, 1, 0]), ''application/x-rar-compressed''),
      (lit (octets [0, 97, 115, 109]), ''application/wasm'')]"

text \<open>An MP4 box: its size in the first four bytes, a brand that begins with \<open>mp4\<close> at a multiple of four, not at 12.\<close>

definition mp4_match :: "string \<Rightarrow> bool" where
  "mp4_match d =
     (12 \<le> length d \<and>
      (let box = foldl (\<lambda>n c. 256 * n + of_char c) (0 :: nat) (take 4 d)
       in box \<le> length d \<and> box mod 4 = 0 \<and> take 4 (drop 4 d) = ''ftyp''
          \<and> list_ex (\<lambda>i. i \<noteq> 3 \<and> take 3 (drop (4 * i) d) = ''mp4'') [2..<box div 4]))"

definition text_byte :: "char \<Rightarrow> bool" where
  "text_byte c = (let n = (of_char c :: nat) in \<not> (n \<le> 8 \<or> n = 11 \<or> 14 \<le> n \<and> n \<le> 26 \<or> 28 \<le> n \<and> n \<le> 31))"

definition detect_content_type :: "string \<Rightarrow> string" where
  "detect_content_type data =
     (let d = take 512 data; rest = dropWhile is_ws d
      in if list_ex (html_match rest) html_tags then ''text/html; charset=utf-8''
         else if sig_match (lit ''<?xml'') rest then ''text/xml; charset=utf-8''
         else case find (\<lambda>(p, _). sig_match p d) signatures_first of
           Some (_, ct) \<Rightarrow> ct
         | None \<Rightarrow>
             (if mp4_match d then ''video/mp4''
              else case find (\<lambda>(p, _). sig_match p d) signatures_last of
                Some (_, ct) \<Rightarrow> ct
              | None \<Rightarrow> (if list_all text_byte rest then ''text/plain; charset=utf-8'' else ''application/octet-stream'')))"

end
