(* ===== verification/Paperless.thy ===== *)
theory Paperless
  imports ApiConn GoSniff
begin

text \<open>
  The Paperless-ngx connector (\<open>connectors/paperless\<close>): documents, their files, the taxonomy, and the token that is
  exchanged for user name and password. An upload names the type of its file, which is sniffed from the first bytes
  the way \<open>net/http.DetectContentType\<close> does. Sessions are always of the connector's own type.
\<close>

section \<open>Client\<close>

definition pl_cred_schema :: schema where
  "pl_cred_schema =
     [(field ''url'' FieldString)\<lparr>f_label := ''Base URL'', f_required := True,
        f_description := ''Paperless-ngx root, e.g. https://paperless.example.org '' @ em_dash
          @ '' no trailing slash, no /api suffix.''\<rparr>,
      (field ''token'' FieldSecret)\<lparr>f_label := ''API token'',
        f_description := ''Personal API token (Settings '' @ right_arrow @ '' My Profile '' @ right_arrow
          @ '' API Token). Leave blank to derive one from username+password at connect.''\<rparr>,
      (field ''username'' FieldString)\<lparr>f_label := ''Username'',
        f_description := ''Only needed when no token is given '' @ em_dash
          @ '' exchanged for a token at connect via /api/token/, then discarded is NOT done (kept for re-login).''\<rparr>,
      (field ''password'' FieldSecret)\<lparr>f_label := ''Password'',
        f_description := ''Paired with username for the token exchange. Encrypted at rest.''\<rparr>]"

definition pl_defaults :: "vals \<Rightarrow> vals" where
  "pl_defaults p = (case p ''url'' of Some (GStr u) \<Rightarrow> p(''url'' \<mapsto> GStr (trim_right (trim_space u) ''/'')) | _ \<Rightarrow> p)"

definition exchange_token :: "'w net \<Rightarrow> string \<Rightarrow> string \<Rightarrow> string \<Rightarrow> 'w \<Rightarrow> string res \<times> 'w" where
  "exchange_token net base user pass w =
     (case new_client \<lparr>hc_base = base, hc_headers = [], hc_agent = [], hc_timeout = 30 * second\<rparr> of
        Inl e \<Rightarrow> (Inl e, w)
      | Inr cli \<Rightarrow>
          and_then (wrap_err ''token exchange: '' (api_send net cli (dec_field ''token'' dec_string) ''POST'' ''/api/token/''
              (GMap [(''username'', GStr user), (''password'', GStr pass)]) w))
            (\<lambda>t w1. (if t = [] then Inl (ErrMsg ''token exchange: empty token in response (bad credentials?)'') else Inr t, w1)))"

text \<open>The client, and the values of the credential, to which an exchanged token is added.\<close>

definition pl_client :: "'w net \<Rightarrow> vals \<Rightarrow> 'w \<Rightarrow> (vals \<times> http_config) res \<times> 'w" where
  "pl_client net v w =
     (let base = trim_right (trim_space (v_string v ''url'')) ''/''; token = trim_space (v_string v ''token'');
          user = v_string v ''username''; pass = v_string v ''password'';
          client = (\<lambda>v' t w'. (map_sum id (\<lambda>cli. (v', cli))
             (new_client \<lparr>hc_base = base, hc_headers = [(''Authorization'', [''Token '' @ t])], hc_agent = [], hc_timeout = 60 * second\<rparr>), w'))
      in if base = [] then (Inl (ErrMsg ''url is required''), w)
         else if token \<noteq> [] then client v token w
         else if user = [] \<or> pass = [] then (Inl (ErrMsg ''provide either token, or username + password''), w)
         else and_then (exchange_token net base user pass w) (\<lambda>t w1. client (v(''token'' \<mapsto> GStr t)) t w1))"

text \<open>The envelope of a listing.\<close>

definition dec_nullable :: "gval \<Rightarrow> gval option" where
  "dec_nullable v = (case v of GNil \<Rightarrow> Some GNil | GStr s \<Rightarrow> Some (GStr s) | _ \<Rightarrow> None)"

definition list_page :: "gval \<Rightarrow> gval option" where
  "list_page v =
     (case (dec_field ''count'' dec_int v, dec_field ''next'' dec_nullable v, dec_field ''previous'' dec_nullable v,
            dec_field ''results'' dec_values v) of
        (Some c, Some n, Some p, Some r) \<Rightarrow> Some (GMap [(''count'', GInt c), (''next'', n), (''previous'', p), (''results'', r)])
      | _ \<Rightarrow> None)"

definition get_list :: "'w net \<Rightarrow> http_config \<Rightarrow> string \<Rightarrow> url_values \<Rightarrow> 'w \<Rightarrow> gval res \<times> 'w" where
  "get_list net cli path q w = api_get net cli list_page path q w"

definition page_count :: "gval \<Rightarrow> int" where
  "page_count v = (case obj_get v ''count'' of Some (GInt n) \<Rightarrow> n | _ \<Rightarrow> 0)"

definition pl_validate :: "('m cli_scheme) net \<Rightarrow> credential \<Rightarrow> 'm cli_scheme \<Rightarrow> vals res \<times> 'm cli_scheme" where
  "pl_validate net c w =
     and_then (pl_client net (cr_values c) w)
       (\<lambda>(v, cli) w1. and_then (wrap_err ''probe /api/documents/: '' (get_list net cli ''/api/documents/'' [(''page_size'', [''1''])] w1))
         (\<lambda>page w2. (Inr v, say (''('' @ itoa (page_count page) @ '' documents) '') w2)))"

text \<open>The session shares its values with the credential it was opened on.\<close>

definition pl_open :: "'w net \<Rightarrow> credential \<Rightarrow> string \<Rightarrow> 'w \<Rightarrow> api_session res \<times> 'w" where
  "pl_open net c root w =
     and_then (pl_client net (cr_values c) w)
       (\<lambda>(v, cli) w1. (Inr \<lparr>sn_cred = c\<lparr>cr_values := v\<rparr>, sn_http = cli, sn_state = root\<rparr>, w1))"

section \<open>Documents\<close>

fun to_int_list :: "string list \<Rightarrow> int list res" where
  "to_int_list [] = Inr []"
| "to_int_list (v # vs) =
     (let t = trim_space v
      in if t = [] then to_int_list vs
         else if snd (atoi t) then map_sum id ((#) (fst (atoi t))) (to_int_list vs)
         else Inl (ErrMsg (''not an integer id: '' @ go_quote t)))"

definition opt_text :: "vals \<Rightarrow> string \<Rightarrow> string \<Rightarrow> (string \<times> string) list" where
  "opt_text p key name = (let v = trim_space (v_string p key) in if v = [] then [] else [(name, v)])"

definition opt_id :: "vals \<Rightarrow> string \<Rightarrow> string \<Rightarrow> (string \<times> string) list" where
  "opt_id p key name = (if 0 < v_int p key then [(name, itoa (v_int p key))] else [])"

definition as_query :: "(string \<times> string) list \<Rightarrow> url_values" where
  "as_query = map (\<lambda>(k, v). (k, [v]))"

definition doc_path :: "int \<Rightarrow> string \<Rightarrow> string" where
  "doc_path i rest = ''/api/documents/'' @ itoa i @ ''/'' @ rest"

definition with_id :: "vals \<Rightarrow> (int \<Rightarrow> 'w \<Rightarrow> 'a res \<times> 'w) \<Rightarrow> 'w \<Rightarrow> 'a res \<times> 'w" where
  "with_id p f w = (if v_int p ''id'' \<le> 0 then (Inl (ErrMsg ''id is required''), w) else f (v_int p ''id'') w)"

definition pl_list_documents_schema :: schema where
  "pl_list_documents_schema =
     [(field ''query'' FieldString)\<lparr>f_label := ''Full-text query'',
        f_description := ''Searches OCR content + metadata via the Paperless index.''\<rparr>,
      (field ''title'' FieldString)\<lparr>f_label := ''Title contains''\<rparr>,
      (field ''correspondent'' FieldInt)\<lparr>f_label := ''Correspondent id''\<rparr>,
      (field ''document_type'' FieldInt)\<lparr>f_label := ''Document type id''\<rparr>,
      (field ''tags'' FieldStringList)\<lparr>f_label := ''Tag ids (all must match)''\<rparr>,
      (field ''ordering'' FieldString)\<lparr>f_label := ''Ordering'', f_default := Some (GStr ''-created''),
        f_description := ''Field to sort by; prefix - for descending. e.g. created, -added, title.''\<rparr>,
      (field ''page'' FieldInt)\<lparr>f_label := ''Page'', f_default := Some (GInt 1)\<rparr>,
      (field ''page_size'' FieldInt)\<lparr>f_label := ''Page size'', f_default := Some (GInt 25)\<rparr>]"

definition pl_list_documents :: "'w net \<Rightarrow> api_session \<Rightarrow> vals \<Rightarrow> 'w \<Rightarrow> gval res \<times> 'w" where
  "pl_list_documents net s params w =
     (let p = with_defaults params pl_list_documents_schema; tags = v_string_list p ''tags''
      in case (if tags = [] then Inr [] else map_sum id (\<lambda>ids. [(''tags__id__all'', join_with '','' (map itoa ids))]) (to_int_list tags)) of
           Inl e \<Rightarrow> (Inl e, w)
         | Inr ts \<Rightarrow>
             get_list net (sn_http s) ''/api/documents/''
               (as_query (opt_text p ''query'' ''query'' @ opt_text p ''title'' ''title__icontains'' @ opt_id p ''correspondent'' ''correspondent__id''
                 @ opt_id p ''document_type'' ''document_type__id'' @ ts
                 @ [(''ordering'', v_string p ''ordering''), (''page'', itoa (v_int p ''page'')), (''page_size'', itoa (v_int p ''page_size''))])) w)"

definition pl_get_document_schema :: schema where
  "pl_get_document_schema =
     [(field ''id'' FieldInt)\<lparr>f_label := ''Document id'', f_required := True\<rparr>,
      (field ''metadata'' FieldBool)\<lparr>f_label := ''Include file metadata'',
        f_default := Some (GBool False)\<rparr>]"

definition pl_get_document :: "'w net \<Rightarrow> api_session \<Rightarrow> vals \<Rightarrow> 'w \<Rightarrow> gval res \<times> 'w" where
  "pl_get_document net s params w =
     (let p = with_defaults params pl_get_document_schema
      in with_id p (\<lambda>i w. and_then (api_get net (sn_http s) dec_object (doc_path i []) [] w)
           (\<lambda>doc w1.
              if v_bool p ''metadata'' then
                (case api_get net (sn_http s) dec_any (doc_path i ''metadata/'') [] w1 of
                   (Inr meta, w2) \<Rightarrow> (map_set ''metadata'' meta doc, w2)
                 | (Inl _, w2) \<Rightarrow> (Inr doc, w2))
              else (Inr doc, w1))) w)"

definition pl_download_document_schema :: schema where
  "pl_download_document_schema =
     [(field ''id'' FieldInt)\<lparr>f_label := ''Document id'', f_required := True\<rparr>,
      (field ''out'' FieldString)\<lparr>f_label := ''Output file path'', f_required := True, f_is_path := True\<rparr>,
      (field ''original'' FieldBool)\<lparr>f_label := ''Fetch original (not archived)'',
        f_default := Some (GBool False)\<rparr>]"

definition pl_download_document :: "('m cli_scheme) net \<Rightarrow> api_session \<Rightarrow> vals \<Rightarrow> 'm cli_scheme \<Rightarrow> gval res \<times> 'm cli_scheme" where
  "pl_download_document net s params w =
     (let p = with_defaults params pl_download_document_schema; out = v_string p ''out''
      in with_id p (\<lambda>i w.
           if out = [] then (Inl (ErrMsg ''out is required''), w)
           else and_then (do_raw net (sn_http s) ''GET'' (doc_path i (''download/'' @ (if v_bool p ''original'' then ''?original=true'' else []))) [] [] w)
             (\<lambda>resp w1.
                if as_status resp \<noteq> 200 then
                  (Inl (ErrMsg (''download: HTTP '' @ itoa (as_status resp) @ '': '' @ trim_space (take 2048 (raw_text resp)))), w1)
                else and_then (create_and_copy id id out (as_body resp) w1)
                  (\<lambda>n w2. (Inr (GMap [(''saved'', GBool True), (''out'', GStr out), (''bytes'', GInt64 (int n)),
                     (''content_type'', GStr (hdr_get (as_headers resp) ''Content-Type''))]), w2)))) w)"

text \<open>The body of an upload: the file with its sniffed type, then the form fields (here in one order of their map).\<close>

definition build_upload :: "string \<Rightarrow> (string \<times> string) list \<Rightarrow> 'm cli_scheme \<Rightarrow> (string \<times> string) res \<times> 'm cli_scheme" where
  "build_upload path form w =
     (case os_read_file (c_os w) path of
        Inl e \<Rightarrow> (Inl e, w)
      | Inr d \<Rightarrow>
          (case random_boundary (c_pool w) of
             (Inl e, r) \<Rightarrow> (Inl e, w\<lparr>c_pool := r\<rparr>)
           | (Inr b, r) \<Rightarrow>
               (Inr (''--'' @ b @ crlf @ ''Content-Disposition: form-data; name='' @ dq @ ''document'' @ dq @ ''; filename=''
                   @ go_quote (path_base path) @ crlf @ ''Content-Type: '' @ detect_content_type d @ crlf @ crlf @ d
                   @ concat (map (\<lambda>kv. crlf @ multipart_fields b [kv]) form) @ crlf @ ''--'' @ b @ ''--'' @ crlf,
                   ''multipart/form-data; boundary='' @ b), w\<lparr>c_pool := r\<rparr>)))"

definition pl_upload_document_schema :: schema where
  "pl_upload_document_schema =
     [(field ''file'' FieldString)\<lparr>f_label := ''File to upload'', f_required := True, f_is_path := True\<rparr>,
      (field ''title'' FieldString)\<lparr>f_label := ''Title''\<rparr>,
      (field ''created'' FieldString)\<lparr>f_label := ''Created date (YYYY-MM-DD)''\<rparr>,
      (field ''correspondent'' FieldInt)\<lparr>f_label := ''Correspondent id''\<rparr>,
      (field ''document_type'' FieldInt)\<lparr>f_label := ''Document type id''\<rparr>,
      (field ''archive_serial_number'' FieldInt)\<lparr>f_label := ''Archive serial number''\<rparr>]"

definition upload_form :: "vals \<Rightarrow> (string \<times> string) list" where
  "upload_form p =
     opt_text p ''title'' ''title'' @ opt_text p ''created'' ''created'' @ opt_id p ''correspondent'' ''correspondent''
     @ opt_id p ''document_type'' ''document_type'' @ opt_id p ''archive_serial_number'' ''archive_serial_number''"

definition task_of :: "string \<Rightarrow> string" where
  "task_of raw =
     (case Option.bind (json_unmarshal (trim_space raw)) dec_string of
        Some t \<Rightarrow> t
      | None \<Rightarrow> trim_right (trim_left (trim_space raw) dq) dq)"

definition pl_upload_document :: "('m cli_scheme) net \<Rightarrow> api_session \<Rightarrow> vals \<Rightarrow> 'm cli_scheme \<Rightarrow> gval res \<times> 'm cli_scheme" where
  "pl_upload_document net s params w =
     (let p = with_defaults params pl_upload_document_schema; file = v_string p ''file''
      in if file = [] then (Inl (ErrMsg ''file is required''), w)
         else case os_stat (c_os w) file of
           Inl e \<Rightarrow> (Inl (ErrWrap ''file: '' e []), w)
         | Inr _ \<Rightarrow>
             and_then (build_upload file (upload_form p) w)
               (\<lambda>(body, ctype) w1. and_then (do_raw net (sn_http s) ''POST'' ''/api/documents/post_document/'' body ctype w1)
                 (\<lambda>resp w2.
                    let raw = take 65536 (raw_text resp)
                    in if as_status resp \<noteq> 200 then
                         (Inl (ErrMsg (''upload: HTTP '' @ itoa (as_status resp) @ '': '' @ trim_space raw)), w2)
                       else (Inr (GMap [(''task_id'', GStr (task_of raw)), (''status'', GStr ''queued'')]), w2))))"

definition pl_update_document_schema :: schema where
  "pl_update_document_schema =
     [(field ''id'' FieldInt)\<lparr>f_label := ''Document id'', f_required := True\<rparr>,
      (field ''title'' FieldString)\<lparr>f_label := ''Title''\<rparr>,
      (field ''correspondent'' FieldInt)\<lparr>f_label := ''Correspondent id''\<rparr>,
      (field ''document_type'' FieldInt)\<lparr>f_label := ''Document type id''\<rparr>,
      (field ''tags'' FieldStringList)\<lparr>f_label := ''Tag ids (replaces all)''\<rparr>,
      (field ''archive_serial_number'' FieldInt)\<lparr>f_label := ''Archive serial number''\<rparr>,
      (field ''created'' FieldString)\<lparr>f_label := ''Created date (YYYY-MM-DD)''\<rparr>]"

definition update_document_body :: "vals \<Rightarrow> (string \<times> gval) list res" where
  "update_document_body p =
     (let text = (\<lambda>k. if v_has p k then [(k, GStr (v_string p k))] else []); num = (\<lambda>k. if v_has p k then [(k, GInt (v_int p k))] else []);
          plain = text ''title'' @ num ''correspondent'' @ num ''document_type'' @ num ''archive_serial_number'' @ text ''created''
      in if v_has p ''tags'' then
           map_sum id (\<lambda>ids. plain @ [(''tags'', GList (map GInt ids))]) (to_int_list (v_string_list p ''tags''))
         else Inr plain)"

definition pl_update_document :: "'w net \<Rightarrow> api_session \<Rightarrow> vals \<Rightarrow> 'w \<Rightarrow> gval res \<times> 'w" where
  "pl_update_document net s params w =
     (let p = with_defaults params pl_update_document_schema
      in with_id p (\<lambda>i w.
           case update_document_body p of
             Inl e \<Rightarrow> (Inl e, w)
           | Inr body \<Rightarrow>
               (if body = [] then (Inl (ErrMsg (''nothing to update '' @ em_dash @ '' pass at least one field'')), w)
                else api_send net (sn_http s) dec_object ''PATCH'' (doc_path i []) (GMap body) w)) w)"

definition pl_delete_document_schema :: schema where
  "pl_delete_document_schema =
     [(field ''id'' FieldInt)\<lparr>f_label := ''Document id'', f_required := True\<rparr>]"

definition pl_delete_document :: "'w net \<Rightarrow> api_session \<Rightarrow> vals \<Rightarrow> 'w \<Rightarrow> gval res \<times> 'w" where
  "pl_delete_document net s params w =
     (let p = with_defaults params pl_delete_document_schema
      in with_id p (\<lambda>i w. and_then (do_raw net (sn_http s) ''DELETE'' (doc_path i []) [] [] w)
           (\<lambda>resp w1.
              if as_status resp \<noteq> 204 \<and> as_status resp \<noteq> 200 then
                (Inl (ErrMsg (''delete: HTTP '' @ itoa (as_status resp) @ '': '' @ trim_space (take 2048 (raw_text resp)))), w1)
              else (Inr (GMap [(''deleted'', GBool True), (''id'', GInt i)]), w1))) w)"

section \<open>Taxonomy\<close>

definition taxonomy_schema :: schema where
  "taxonomy_schema =
     [(field ''name'' FieldString)\<lparr>f_label := ''Name contains''\<rparr>,
      (field ''page_size'' FieldInt)\<lparr>f_label := ''Page size'', f_default := Some (GInt 200)\<rparr>]"

definition taxonomy_list :: "string \<Rightarrow> 'w net \<Rightarrow> api_session \<Rightarrow> vals \<Rightarrow> 'w \<Rightarrow> gval res \<times> 'w" where
  "taxonomy_list path net s params w =
     (let p = with_defaults params taxonomy_schema
      in get_list net (sn_http s) path
           (as_query ([(''ordering'', ''name''), (''page_size'', itoa (v_int p ''page_size''))] @ opt_text p ''name'' ''name__icontains'')) w)"

definition taxonomy_list_action :: "string \<Rightarrow> string \<Rightarrow> string \<Rightarrow> 'w net \<Rightarrow> ('w, api_session) action" where
  "taxonomy_list_action name label path net =
     mk_action name (''List '' @ label)
       (''List '' @ label @ '' (name + id), sorted by name. Use the ids to filter list-documents or set on update-document.'')
       taxonomy_schema (taxonomy_list path net)"

definition create_named :: "'w net \<Rightarrow> api_session \<Rightarrow> string \<Rightarrow> vals \<Rightarrow> (string \<times> gval) list \<Rightarrow> 'w \<Rightarrow> gval res \<times> 'w" where
  "create_named net s path p extra w =
     (let name = trim_space (v_string p ''name'')
      in if name = [] then (Inl (ErrMsg ''name is required''), w)
         else api_send net (sn_http s) dec_object ''POST'' path (GMap ((''name'', GStr name) # extra)) w)"

definition pl_create_tag_schema :: schema where
  "pl_create_tag_schema =
     [(field ''name'' FieldString)\<lparr>f_label := ''Name'', f_required := True\<rparr>,
      (field ''color'' FieldString)\<lparr>f_label := ''Color (hex)''\<rparr>,
      (field ''is_inbox_tag'' FieldBool)\<lparr>f_label := ''Inbox tag'', f_default := Some (GBool False)\<rparr>]"

definition pl_create_tag :: "'w net \<Rightarrow> api_session \<Rightarrow> vals \<Rightarrow> 'w \<Rightarrow> gval res \<times> 'w" where
  "pl_create_tag net s params w =
     (let p = with_defaults params pl_create_tag_schema
      in create_named net s ''/api/tags/'' p
           (opt_str ''color'' (trim_space (v_string p ''color''))
            @ (if v_bool p ''is_inbox_tag'' then [(''is_inbox_tag'', GBool True)] else [])) w)"

definition pl_create_correspondent_schema :: schema where
  "pl_create_correspondent_schema =
     [(field ''name'' FieldString)\<lparr>f_label := ''Name'', f_required := True\<rparr>]"

definition pl_create_correspondent :: "'w net \<Rightarrow> api_session \<Rightarrow> vals \<Rightarrow> 'w \<Rightarrow> gval res \<times> 'w" where
  "pl_create_correspondent net s params w = create_named net s ''/api/correspondents/'' params [] w"

definition pl_create_document_type_schema :: schema where
  "pl_create_document_type_schema =
     [(field ''name'' FieldString)\<lparr>f_label := ''Name'', f_required := True\<rparr>]"

definition pl_create_document_type :: "'w net \<Rightarrow> api_session \<Rightarrow> vals \<Rightarrow> 'w \<Rightarrow> gval res \<times> 'w" where
  "pl_create_document_type net s params w = create_named net s ''/api/document_types/'' params [] w"

section \<open>Tasks and statistics\<close>

definition pl_task_status_schema :: schema where
  "pl_task_status_schema =
     [(field ''task_id'' FieldString)\<lparr>f_label := ''Task UUID'', f_required := True\<rparr>]"

definition pl_task_status :: "'w net \<Rightarrow> api_session \<Rightarrow> vals \<Rightarrow> 'w \<Rightarrow> gval res \<times> 'w" where
  "pl_task_status net s params w =
     (let tid = trim_space (v_string params ''task_id'')
      in if tid = [] then (Inl (ErrMsg ''task_id is required''), w)
         else and_then (api_get net (sn_http s) (dec_list dec_any) ''/api/tasks/'' [(''task_id'', [tid])] w)
           (\<lambda>tasks w1.
              case tasks of
                [] \<Rightarrow> (Inl (ErrMsg (''no task found for '' @ tid @ '' (it may have expired)'')), w1)
              | t # _ \<Rightarrow> (Inr t, w1)))"

definition pl_statistics :: "'w net \<Rightarrow> api_session \<Rightarrow> vals \<Rightarrow> 'w \<Rightarrow> gval res \<times> 'w" where
  "pl_statistics net s _ w = api_get net (sn_http s) dec_any ''/api/statistics/'' [] w"

section \<open>The connector\<close>

definition pl_list_documents_action where
  "pl_list_documents_action net =
     mk_action ''list-documents'' ''List / search documents''
       (''List documents with optional full-text search and filters. query runs Paperless'' @ apos
              @ ''s full-text index; title/correspondent/document_type/tags filter the result set.'')
       pl_list_documents_schema (pl_list_documents net)"

definition pl_get_document_action where
  "pl_get_document_action net =
     mk_action ''get-document'' ''Get document''
       (''Fetch one document by id. With metadata=true also returns the file metadata (media size, mime, ''
              @ ''archive checksum, original filename).'')
       pl_get_document_schema (pl_get_document net)"

definition pl_download_document_action where
  "pl_download_document_action net =
     mk_action ''download-document'' ''Download document''
       (''Download a document'' @ apos
              @ ''s file to disk. By default the archived PDF; original=true fetches the originally-consumed file ''
              @ ''(e.g. the source scan).'')
       pl_download_document_schema (pl_download_document net)"

definition pl_upload_document_action where
  "pl_upload_document_action net =
     mk_action ''upload-document'' ''Upload document''
       (''Upload a file for OCR + consumption. Asynchronous '' @ em_dash
              @ '' returns a task UUID; poll task-status to get the resulting document id. Tags can'' @ apos
              @ ''t be set here (multipart limitation); set them via update-document after consumption.'')
       pl_upload_document_schema (pl_upload_document net)"

definition pl_update_document_action where
  "pl_update_document_action net =
     mk_action ''update-document'' ''Update document''
       (''Patch a document'' @ apos
              @ ''s metadata. Only the fields you pass change. tags REPLACES the full tag set (pass all desired tag ''
              @ ''ids).'')
       pl_update_document_schema (pl_update_document net)"

definition pl_delete_document_action where
  "pl_delete_document_action net =
     mk_action ''delete-document'' ''Delete document''
       (''Permanently delete a document (moves to the trash on recent Paperless, then auto-purges). Irreversible ''
              @ ''from the API.'')
       pl_delete_document_schema (pl_delete_document net)"

definition pl_create_tag_action where
  "pl_create_tag_action net =
     mk_action ''create-tag'' ''Create tag''
       ''Create a tag. Optional color (hex, e.g. #a6cee3) and is_inbox_tag.''
       pl_create_tag_schema (pl_create_tag net)"

definition pl_create_correspondent_action where
  "pl_create_correspondent_action net =
     mk_action ''create-correspondent'' ''Create correspondent''
       ''Create a correspondent by name.''
       pl_create_correspondent_schema (pl_create_correspondent net)"

definition pl_create_document_type_action where
  "pl_create_document_type_action net =
     mk_action ''create-document-type'' ''Create document type''
       ''Create a document type by name.''
       pl_create_document_type_schema (pl_create_document_type net)"

definition pl_task_status_action where
  "pl_task_status_action net =
     mk_action ''task-status'' ''Task status''
       (''Look up a consume task by the UUID returned from upload-document. Reports SUCCESS/FAILURE/PENDING ''
              @ ''and, on success, the resulting document id.'')
       pl_task_status_schema (pl_task_status net)"

definition pl_statistics_action where
  "pl_statistics_action net =
     mk_action ''statistics'' ''Statistics''
       ''Instance-wide counts: total documents, documents in inbox, total characters, file-type breakdown.''
       [] (pl_statistics net)"

definition paperless_connector :: "('m cli_scheme) net \<Rightarrow> ('m cli_scheme, api_session) connector" where
  "paperless_connector net =
     \<lparr>c_descriptor = \<lparr>d_name = ''paperless'', d_display = ''Paperless-ngx'',
        d_description = ''Search, read, upload, download, and organise documents in a Paperless-ngx instance. Token auth (or ''
          @ ''username+password exchange). Tags / correspondents / document-types CRUD.'',
        d_version = ''0.1.0'', d_categories = [''documents'', ''dms'']\<rparr>,
      c_credential = \<lparr>cs_kind = AuthAPIKey, cs_schema = pl_cred_schema, cs_presets = [], cs_defaults = pl_defaults,
        cs_validate = pl_validate net\<rparr>,
      c_actions =
        [pl_list_documents_action net, pl_get_document_action net, pl_download_document_action net, pl_upload_document_action net,
         pl_update_document_action net, pl_delete_document_action net,
         taxonomy_list_action ''list-tags'' ''tags'' ''/api/tags/'' net,
         taxonomy_list_action ''list-correspondents'' ''correspondents'' ''/api/correspondents/'' net,
         taxonomy_list_action ''list-document-types'' ''document types'' ''/api/document_types/'' net,
         pl_create_tag_action net, pl_create_correspondent_action net, pl_create_document_type_action net,
         pl_task_status_action net, pl_statistics_action net],
      c_triggers = [],
      c_open = pl_open net,
      c_close = (\<lambda>_ w. (Inr (), w))\<rparr>"

section \<open>Properties\<close>

lemma client_token:
  "token = trim_space (v_string v ''token'') \<Longrightarrow> token \<noteq> [] \<Longrightarrow> base = trim_right (trim_space (v_string v ''url'')) ''/'' \<Longrightarrow> base \<noteq> [] \<Longrightarrow>
   pl_client net v w = (map_sum id (\<lambda>cli. (v, cli))
     (new_client \<lparr>hc_base = base, hc_headers = [(''Authorization'', [''Token '' @ token])], hc_agent = [], hc_timeout = 60 * second\<rparr>), w)"
  by (simp add: pl_client_def Let_def)

lemma client_values:
  assumes "pl_client net v0 w = (Inr (v, cli), w1)"
  shows "hc_base cli = trim_right (trim_space (v_string v0 ''url'')) ''/'' \<and> hc_base cli \<noteq> [] \<and> url_ok (hc_base cli) \<and> hc_timeout cli = 60 * second \<and>
    (if trim_space (v_string v0 ''token'') = [] then \<exists>t. t \<noteq> [] \<and> v = v0(''token'' \<mapsto> GStr t) else v = v0 \<and> w1 = w)"
  using assms
  by (auto simp: pl_client_def Let_def new_client_def exchange_token_def and_then_Inr split: if_splits sum.splits)


definition ex_paperless :: "net_world net" where
  "ex_paperless = recorded (\<lambda>rq.
     if aq_method rq = ''POST'' then ok_answer (ex_json [(''token'', ''t1'')]) else ok_answer (ex_json []))"

definition ex_pl_cred :: credential where
  "ex_pl_cred = new_credential ''paperless'' ''p''
     [''url'' \<mapsto> GStr ''https://p/'', ''username'' \<mapsto> GStr ''u'', ''password'' \<mapsto> GStr ''pw'']"


end
