(* ===== verification/Infisical.thy ===== *)
theory Infisical
  imports ApiConn
begin

text \<open>
  The Infisical connector (\<open>connectors/infisical\<close>): projects, environments, folders, secrets, and the members of
  organisations and projects. Every session logs in first; the parameters that place a secret fall back to the
  credential.
\<close>

section \<open>Client\<close>

definition default_api_base :: string where
  "default_api_base = ''https://app.infisical.com''"

definition inf_cred_schema :: schema where
  "inf_cred_schema =
     [(field ''api_base'' FieldString)\<lparr>f_label := ''API base URL'', f_required := True,
        f_default := Some (GStr ''https://app.infisical.com''),
        f_description := ''Without /api suffix. e.g. https://app.infisical.com, https://eu.infisical.com, or your self-hosted ''
          @ ''https://infisical.example.com.''\<rparr>,
      (field ''client_id'' FieldString)\<lparr>f_label := ''Universal Auth Client ID'', f_required := True,
        f_description := ''From Infisical '' @ right_arrow @ '' Organization '' @ right_arrow @ '' Identities '' @ right_arrow
          @ '' <identity> '' @ right_arrow @ '' Universal Auth '' @ right_arrow
          @ '' Client ID. Pair this with the matching client_secret.''\<rparr>,
      (field ''client_secret'' FieldSecret)\<lparr>f_label := ''Universal Auth Client Secret'', f_required := True,
        f_description := ''From the same identity. The secret can only be displayed at creation '' @ em_dash
          @ '' generate a new one if you lost it.''\<rparr>,
      (field ''default_project_id'' FieldString)\<lparr>f_label := ''Default project ID (optional)'',
        f_description := ''Pre-fills the project_id param on every action when omitted. e.g. 6f3a... Find it in the project'' @ apos
          @ ''s URL or settings.''\<rparr>,
      (field ''default_environment'' FieldString)\<lparr>f_label := ''Default environment slug (optional)'',
        f_default := Some (GStr ''dev''),
        f_description := ''Pre-fills the environment param. Common values: dev, staging, prod.''\<rparr>,
      (field ''default_org_id'' FieldString)\<lparr>f_label := ''Default org ID (optional)'',
        f_description := ''Used by org-level actions (list-org-members, etc.). Universal Auth identities are bound to one ''
          @ ''org '' @ em_dash @ '' find the id under Organization Settings '' @ right_arrow @ '' General.''\<rparr>]"

definition inf_presets :: "preset list" where
  "inf_presets =
     [\<lparr>p_name = ''Infisical Cloud (US)'', p_description = ''Default https://app.infisical.com.'',
        p_values = [(''api_base'', GStr default_api_base)]\<rparr>,
      \<lparr>p_name = ''Infisical Cloud (EU)'', p_description = ''https://eu.infisical.com '' @ em_dash @ '' EU data-residency tier.'',
        p_values = [(''api_base'', GStr ''https://eu.infisical.com'')]\<rparr>,
      \<lparr>p_name = ''Self-hosted'', p_description = ''Enter the base URL of your own Infisical instance.'', p_values = []\<rparr>]"

definition inf_defaults :: "vals \<Rightarrow> vals" where
  "inf_defaults p = (case p ''api_base'' of Some (GStr u) \<Rightarrow> p(''api_base'' \<mapsto> GStr (trim_right u ''/'')) | _ \<Rightarrow> p)"

text \<open>Of the answer to a login all four fields are decoded, and the token is used.\<close>

definition login_response :: "gval \<Rightarrow> string option" where
  "login_response v =
     map_option fst (dec_pair (dec_field ''accessToken'' dec_string)
       (dec_pair (dec_field ''expiresIn'' dec_int) (dec_pair (dec_field ''accessTokenMaxTTL'' dec_int) (dec_field ''tokenType'' dec_string))) v)"

definition authed_client :: "'w net \<Rightarrow> credential \<Rightarrow> 'w \<Rightarrow> http_config res \<times> 'w" where
  "authed_client net c w =
     (let v = cr_values c; base0 = trim_right (v_string v ''api_base'') ''/''; base = (if base0 = [] then default_api_base else base0);
          cid = v_string v ''client_id''; secret = v_string v ''client_secret''
      in if cid = [] \<or> secret = [] then (Inl (ErrMsg ''client_id and client_secret are required''), w)
         else case new_client \<lparr>hc_base = base, hc_headers = [], hc_agent = [], hc_timeout = 30 * second\<rparr> of
           Inl e \<Rightarrow> (Inl e, w)
         | Inr cli \<Rightarrow>
             and_then (wrap_err ''universal-auth login: '' (decoded login_response
                 (post_form net cli ''/api/v1/auth/universal-auth/login'' [(''clientId'', [cid]), (''clientSecret'', [secret])] True w)))
               (\<lambda>t w1. if t = [] then (Inl (ErrMsg ''universal-auth login: empty access token in response''), w1)
                  else (new_client \<lparr>hc_base = base, hc_headers = bearer t, hc_agent = [], hc_timeout = 0\<rparr>, w1)))"

definition inf_validate :: "('m cli_scheme) net \<Rightarrow> credential \<Rightarrow> 'm cli_scheme \<Rightarrow> unit res \<times> 'm cli_scheme" where
  "inf_validate net c w =
     and_then (authed_client net c w) (\<lambda>_ w1. (Inr (), say ''(logged in as Universal Auth identity) '' w1))"

definition inf_open :: "'w net \<Rightarrow> credential \<Rightarrow> string \<Rightarrow> 'w \<Rightarrow> api_session res \<times> 'w" where
  "inf_open net cred root w =
     and_then (authed_client net cred w) (\<lambda>cli w1. (Inr \<lparr>sn_cred = cred, sn_http = cli, sn_state = root\<rparr>, w1))"

section \<open>Scopes\<close>

record scope =
  sc_project :: string
  sc_environment :: string
  sc_path :: string

text \<open>A parameter, or else the credential's default.\<close>

definition cred_or :: "api_session \<Rightarrow> vals \<Rightarrow> string \<Rightarrow> string \<Rightarrow> string" where
  "cred_or s params k d = (if v_string params k = [] then v_string (cr_values (sn_cred s)) d else v_string params k)"

definition project_id_or :: "api_session \<Rightarrow> vals \<Rightarrow> string" where
  "project_id_or s params = cred_or s params ''project_id'' ''default_project_id''"

definition org_id_or :: "api_session \<Rightarrow> vals \<Rightarrow> string" where
  "org_id_or s params = cred_or s params ''org_id'' ''default_org_id''"

definition resolve_scope :: "api_session \<Rightarrow> vals \<Rightarrow> scope res" where
  "resolve_scope s params =
     (let sc = \<lparr>sc_project = project_id_or s params, sc_environment = cred_or s params ''environment'' ''default_environment'',
            sc_path = (if v_string params ''secret_path'' = [] then ''/'' else v_string params ''secret_path'')\<rparr>
      in if sc_project sc = [] then Inl (ErrMsg ''project_id is required (or set default_project_id on the credential)'')
         else if sc_environment sc = [] then Inl (ErrMsg ''environment is required (or set default_environment on the credential)'')
         else Inr sc)"

definition scope_query :: "scope \<Rightarrow> url_values" where
  "scope_query sc =
     [(''workspaceId'', [sc_project sc]), (''environment'', [sc_environment sc]), (''secretPath'', [sc_path sc])]"

definition scope_fields :: schema where
  "scope_fields =
     [(field ''project_id'' FieldString)\<lparr>f_description := ''Project id. Falls back to default_project_id on the credential.''\<rparr>,
      (field ''environment'' FieldString)\<lparr>
        f_description := ''Environment slug (dev/staging/prod). Falls back to default_environment.''\<rparr>,
      (field ''secret_path'' FieldString)\<lparr>f_default := Some (GStr ''/''),
        f_description := ''Folder path. e.g. /, /backend, /backend/db.''\<rparr>]"

text \<open>What the answers of folder and secret actions begin with, and what their bodies carry.\<close>

definition scope_view :: "scope \<Rightarrow> (string \<times> gval) list" where
  "scope_view sc =
     [(''project_id'', GStr (sc_project sc)), (''environment'', GStr (sc_environment sc)), (''secret_path'', GStr (sc_path sc))]"

definition scope_body :: "string \<Rightarrow> scope \<Rightarrow> (string \<times> gval) list" where
  "scope_body path_key sc =
     [(''workspaceId'', GStr (sc_project sc)), (''environment'', GStr (sc_environment sc)), (path_key, GStr (sc_path sc))]"

definition in_scope :: "schema \<Rightarrow> (vals \<Rightarrow> scope \<Rightarrow> 'w \<Rightarrow> gval res \<times> 'w) \<Rightarrow> api_session \<Rightarrow> vals \<Rightarrow> 'w \<Rightarrow> gval res \<times> 'w" where
  "in_scope sch run s params w =
     (let p = with_defaults params sch
      in case resolve_scope s p of Inl e \<Rightarrow> (Inl e, w) | Inr sc \<Rightarrow> run p sc w)"

text \<open>A call that answers with the decoded object, and one whose answer is not read.\<close>

definition inf_call :: "'w net \<Rightarrow> api_session \<Rightarrow> string \<Rightarrow> string \<Rightarrow> gval option \<Rightarrow> 'w \<Rightarrow> gval res \<times> 'w" where
  "inf_call net s meth path body w = decoded dec_object (send_json net (sn_http s) meth path body True w)"

definition inf_do :: "'w net \<Rightarrow> api_session \<Rightarrow> string \<Rightarrow> string \<Rightarrow> gval option \<Rightarrow> (string \<times> gval) list \<Rightarrow> 'w \<Rightarrow> gval res \<times> 'w" where
  "inf_do net s meth path body result w =
     and_then (send_json net (sn_http s) meth path body False w) (\<lambda>_ w1. (Inr (GMap result), w1))"

text \<open>A listing: the head of the answer, the number of objects and the objects under their name.\<close>

definition counted :: "(string \<times> gval) list \<Rightarrow> string \<Rightarrow> gval \<Rightarrow> gval" where
  "counted head name xs =
     GMap (head @ [(''count'', GInt (int (case xs of GList ys \<Rightarrow> length ys | _ \<Rightarrow> 0))), (name, xs)])"

definition inf_list :: "'w net \<Rightarrow> api_session \<Rightarrow> string \<Rightarrow> string \<Rightarrow> (string \<times> gval) list \<Rightarrow> string \<Rightarrow> 'w \<Rightarrow> gval res \<times> 'w" where
  "inf_list net s path key head name w =
     and_then (api_get net (sn_http s) (dec_field key object_slice) path [] w) (\<lambda>xs w1. (Inr (counted head name xs), w1))"

section \<open>Projects\<close>

definition inf_list_projects :: "'w net \<Rightarrow> api_session \<Rightarrow> vals \<Rightarrow> 'w \<Rightarrow> gval res \<times> 'w" where
  "inf_list_projects net s _ w = inf_list net s ''/api/v1/workspace'' ''workspaces'' [] ''projects'' w"

definition inf_create_project_schema :: schema where
  "inf_create_project_schema =
     [(field ''name'' FieldString)\<lparr>f_required := True,
        f_description := ''Project display name. e.g. '' @ apos @ ''noesis-backend'' @ apos @ ''.''\<rparr>,
      (field ''slug'' FieldString)\<lparr>f_description := ''Optional slug. Inferred from name if omitted.''\<rparr>,
      (field ''description'' FieldString)\<lparr>f_description := ''Optional description shown in the UI.''\<rparr>,
      (field ''create_default_envs'' FieldBool)\<lparr>f_default := Some (GBool True),
        f_description := ''Pre-create dev/staging/prod environments. Disable if you want to define environments yourself via ''
          @ ''create-environment.''\<rparr>,
      (field ''type'' FieldEnum)\<lparr>f_default := Some (GStr ''secret-manager''),
        f_options := [\<lparr>o_value = ''secret-manager'', o_label = ''Secret manager (default)''\<rparr>,
          \<lparr>o_value = ''cert-manager'', o_label = ''Certificate manager''\<rparr>,
          \<lparr>o_value = ''kms'', o_label = ''KMS''\<rparr>,
          \<lparr>o_value = ''ssh'', o_label = ''SSH''\<rparr>],
        f_description := ''Project type. Most projects are secret-manager; cert-manager / kms / ssh are specialised.''\<rparr>]"

definition inf_create_project :: "'w net \<Rightarrow> api_session \<Rightarrow> vals \<Rightarrow> 'w \<Rightarrow> gval res \<times> 'w" where
  "inf_create_project net s params w =
     (let p = with_defaults params inf_create_project_schema; name = trim_space (v_string p ''name'')
      in if name = [] then (Inl (ErrMsg ''name is required''), w)
         else inf_call net s ''POST'' ''/api/v2/workspace'' (Some (GMap
           ([(''projectName'', GStr name), (''shouldCreateDefaultEnvs'', GBool (v_bool p ''create_default_envs'')),
             (''type'', GStr (v_string p ''type''))]
            @ opt_str ''slug'' (v_string p ''slug'') @ opt_str ''projectDescription'' (v_string p ''description'')))) w)"

definition workspace_path :: "string \<Rightarrow> string \<Rightarrow> string" where
  "workspace_path pid rest = ''/api/v1/workspace/'' @ path_escape pid @ rest"

definition with_project :: "api_session \<Rightarrow> vals \<Rightarrow> (string \<Rightarrow> 'w \<Rightarrow> 'a res \<times> 'w) \<Rightarrow> 'w \<Rightarrow> 'a res \<times> 'w" where
  "with_project s p f w =
     (let pid = project_id_or s p in if pid = [] then (Inl (ErrMsg ''project_id is required''), w) else f pid w)"

definition inf_get_project_schema :: schema where
  "inf_get_project_schema =
     [(field ''project_id'' FieldString)\<lparr>
        f_description := ''Project id. Falls back to default_project_id on the credential.''\<rparr>]"

definition inf_get_project :: "'w net \<Rightarrow> api_session \<Rightarrow> vals \<Rightarrow> 'w \<Rightarrow> gval res \<times> 'w" where
  "inf_get_project net s params w =
     with_project s params (\<lambda>pid. api_get net (sn_http s) dec_object (workspace_path pid []) []) w"

definition inf_update_project_schema :: schema where
  "inf_update_project_schema =
     [(field ''project_id'' FieldString)\<lparr>
        f_description := ''Project id. Falls back to default_project_id.''\<rparr>,
      (field ''name'' FieldString)\<lparr>f_description := ''New display name.''\<rparr>,
      (field ''slug'' FieldString)\<lparr>f_description := ''New slug. Must be unique within the org.''\<rparr>,
      (field ''description'' FieldString)\<lparr>f_description := ''Update description.''\<rparr>,
      (field ''auto_capitalization'' FieldBool)\<lparr>
        f_description := ''Toggle auto-capitalisation of secret keys on input.''\<rparr>,
      (field ''delete_protection'' FieldBool)\<lparr>
        f_description := ''Toggle delete-protection. With protection on, delete-project will be refused until you turn it ''
          @ ''off.''\<rparr>,
      (field ''secret_sharing'' FieldBool)\<lparr>f_description := ''Toggle secret-sharing feature.''\<rparr>]"

definition opt_bool :: "vals \<Rightarrow> string \<Rightarrow> string \<Rightarrow> (string \<times> gval) list" where
  "opt_bool p k name = (if v_has p k then [(name, GBool (v_bool p k))] else [])"

definition project_update :: "vals \<Rightarrow> (string \<times> gval) list" where
  "project_update p =
     opt_str ''name'' (v_string p ''name'') @ opt_str ''slug'' (v_string p ''slug'')
     @ opt_str ''description'' (v_string p ''description'')
     @ opt_bool p ''auto_capitalization'' ''autoCapitalization'' @ opt_bool p ''delete_protection'' ''hasDeleteProtection''
     @ opt_bool p ''secret_sharing'' ''secretSharing''"

definition inf_update_project :: "'w net \<Rightarrow> api_session \<Rightarrow> vals \<Rightarrow> 'w \<Rightarrow> gval res \<times> 'w" where
  "inf_update_project net s params w =
     with_project s params (\<lambda>pid w.
       let body = project_update params
       in if body = [] then (Inl (ErrMsg ''at least one field to update is required''), w)
          else inf_call net s ''PATCH'' (workspace_path pid []) (Some (GMap body)) w) w"

definition inf_delete_project_schema :: schema where
  "inf_delete_project_schema =
     [(field ''project_id'' FieldString)\<lparr>f_required := True,
        f_description := ''Project id. NOT pulled from default_project_id '' @ em_dash
          @ '' destructive operations require an explicit id so the agent can'' @ apos
          @ ''t accidentally drop your default project.''\<rparr>]"

definition inf_delete_project :: "'w net \<Rightarrow> api_session \<Rightarrow> vals \<Rightarrow> 'w \<Rightarrow> gval res \<times> 'w" where
  "inf_delete_project net s params w =
     (let pid = v_string params ''project_id''
      in if pid = [] then (Inl (ErrMsg ''project_id is required''), w)
         else and_then (inf_call net s ''DELETE'' (workspace_path pid []) None w)
           (\<lambda>resp w1. (Inr (GMap [(''project_id'', GStr pid), (''deleted'', GBool True), (''workspace'', resp)]), w1)))"

section \<open>Environments\<close>

definition inf_list_environments_schema :: schema where
  "inf_list_environments_schema =
     [(field ''project_id'' FieldString)\<lparr>
        f_description := ''Project / workspace id. Falls back to default_project_id on the credential.''\<rparr>]"

definition dec_workspace :: "gval \<Rightarrow> (string \<times> gval) option" where
  "dec_workspace v =
     dec_field ''workspace'' (dec_pair (dec_field ''name'' dec_string) (dec_field ''environments'' object_slice)) v"

definition inf_list_environments :: "'w net \<Rightarrow> api_session \<Rightarrow> vals \<Rightarrow> 'w \<Rightarrow> gval res \<times> 'w" where
  "inf_list_environments net s params w =
     with_project s params (\<lambda>pid w. and_then (api_get net (sn_http s) dec_workspace (workspace_path pid []) [] w)
       (\<lambda>(name, envs) w1. (Inr (counted [(''project_id'', GStr pid), (''project_name'', GStr name)] ''environments'' envs), w1))) w"

definition inf_create_environment_schema :: schema where
  "inf_create_environment_schema =
     [(field ''project_id'' FieldString)\<lparr>
        f_description := ''Project id. Falls back to default_project_id.''\<rparr>,
      (field ''name'' FieldString)\<lparr>f_required := True,
        f_description := ''Display name. e.g. '' @ apos @ ''Production'' @ apos @ ''.''\<rparr>,
      (field ''slug'' FieldString)\<lparr>f_required := True,
        f_description := ''Url-safe slug. e.g. '' @ apos @ ''prod'' @ apos
          @ ''. This is what secret-list / get-secret use to identify the environment.''\<rparr>,
      (field ''position'' FieldInt)\<lparr>
        f_description := ''Sort position. Lower = earlier in the UI. Default = end of list.''\<rparr>]"

definition opt_position :: "vals \<Rightarrow> (string \<times> gval) list" where
  "opt_position p = (if v_has p ''position'' then [(''position'', GInt (v_int p ''position''))] else [])"

definition inf_create_environment :: "'w net \<Rightarrow> api_session \<Rightarrow> vals \<Rightarrow> 'w \<Rightarrow> gval res \<times> 'w" where
  "inf_create_environment net s params w =
     with_project s params (\<lambda>pid w.
       let name = trim_space (v_string params ''name''); slug = trim_space (v_string params ''slug'')
       in if name = [] \<or> slug = [] then (Inl (ErrMsg ''name and slug are required''), w)
          else inf_call net s ''POST'' (workspace_path pid ''/environments'')
            (Some (GMap ([(''name'', GStr name), (''slug'', GStr slug)] @ opt_position params))) w) w"

definition environment_path :: "string \<Rightarrow> string \<Rightarrow> string" where
  "environment_path pid env = workspace_path pid (''/environments/'' @ path_escape env)"

definition inf_update_environment_schema :: schema where
  "inf_update_environment_schema =
     [(field ''project_id'' FieldString)\<lparr>
        f_description := ''Project id. Falls back to default_project_id.''\<rparr>,
      (field ''environment_id'' FieldString)\<lparr>f_required := True,
        f_description := ''Internal id of the environment (NOT the slug). Get it from get-project '' @ right_arrow
          @ '' environments[].id.''\<rparr>,
      (field ''name'' FieldString)\<lparr>f_description := ''New display name.''\<rparr>,
      (field ''slug'' FieldString)\<lparr>
        f_description := ''New slug. Use sparingly '' @ em_dash @ '' breaks callers.''\<rparr>,
      (field ''position'' FieldInt)\<lparr>f_description := ''New sort position.''\<rparr>]"

definition inf_update_environment :: "'w net \<Rightarrow> api_session \<Rightarrow> vals \<Rightarrow> 'w \<Rightarrow> gval res \<times> 'w" where
  "inf_update_environment net s params w =
     (let pid = project_id_or s params; env = v_string params ''environment_id'';
          body = opt_str ''name'' (v_string params ''name'') @ opt_str ''slug'' (v_string params ''slug'') @ opt_position params
      in if pid = [] \<or> env = [] then (Inl (ErrMsg ''project_id and environment_id are required''), w)
         else if body = [] then (Inl (ErrMsg ''at least one of name / slug / position is required''), w)
         else inf_call net s ''PATCH'' (environment_path pid env) (Some (GMap body)) w)"

definition inf_delete_environment_schema :: schema where
  "inf_delete_environment_schema =
     [(field ''project_id'' FieldString)\<lparr>f_required := True,
        f_description := ''Project id. Explicit '' @ em_dash @ '' no fallback for destructive ops.''\<rparr>,
      (field ''environment_id'' FieldString)\<lparr>f_required := True,
        f_description := ''Internal id of the environment to delete.''\<rparr>]"

definition inf_delete_environment :: "'w net \<Rightarrow> api_session \<Rightarrow> vals \<Rightarrow> 'w \<Rightarrow> gval res \<times> 'w" where
  "inf_delete_environment net s params w =
     (let pid = v_string params ''project_id''; env = v_string params ''environment_id''
      in if pid = [] \<or> env = [] then (Inl (ErrMsg ''project_id and environment_id are required''), w)
         else and_then (inf_call net s ''DELETE'' (environment_path pid env) None w)
           (\<lambda>_ w1. (Inr (GMap [(''project_id'', GStr pid), (''environment_id'', GStr env), (''deleted'', GBool True)]), w1)))"

section \<open>Folders\<close>

definition inf_list_folders_schema :: schema where
  "inf_list_folders_schema =
     scope_fields"

definition inf_list_folders :: "'w net \<Rightarrow> api_session \<Rightarrow> vals \<Rightarrow> 'w \<Rightarrow> gval res \<times> 'w" where
  "inf_list_folders net s =
     in_scope inf_list_folders_schema (\<lambda>p sc.
       inf_list net s (''/api/v1/folders?'' @ q_encode (scope_query sc)) ''folders'' (scope_view sc) ''folders'') s"

definition inf_create_folder_schema :: schema where
  "inf_create_folder_schema =
     scope_fields @
     [(field ''name'' FieldString)\<lparr>f_required := True,
        f_description := ''Folder name (the leaf, not the full path).''\<rparr>]"

definition inf_create_folder :: "'w net \<Rightarrow> api_session \<Rightarrow> vals \<Rightarrow> 'w \<Rightarrow> gval res \<times> 'w" where
  "inf_create_folder net s =
     in_scope inf_create_folder_schema (\<lambda>p sc w.
       let name = trim_space (v_string p ''name'')
       in if name = [] then (Inl (ErrMsg ''name is required''), w)
          else inf_call net s ''POST'' ''/api/v1/folders'' (Some (GMap (scope_body ''path'' sc @ [(''name'', GStr name)]))) w) s"

definition inf_delete_folder_schema :: schema where
  "inf_delete_folder_schema =
     scope_fields @
     [(field ''name'' FieldString)\<lparr>f_required := True,
        f_description := ''Folder name to delete (leaf, not full path).''\<rparr>]"

definition inf_delete_folder :: "'w net \<Rightarrow> api_session \<Rightarrow> vals \<Rightarrow> 'w \<Rightarrow> gval res \<times> 'w" where
  "inf_delete_folder net s =
     in_scope inf_delete_folder_schema (\<lambda>p sc w.
       let name = trim_space (v_string p ''name'')
       in if name = [] then (Inl (ErrMsg ''name is required''), w)
          else inf_do net s ''DELETE'' (''/api/v1/folders/'' @ path_escape name) (Some (GMap (scope_body ''path'' sc)))
            (scope_view sc @ [(''name'', GStr name), (''deleted'', GBool True)]) w) s"

section \<open>Secrets\<close>

definition secret_path :: "string \<Rightarrow> string" where
  "secret_path name = ''/api/v3/secrets/raw/'' @ path_escape name"

definition inf_list_secrets_schema :: schema where
  "inf_list_secrets_schema =
     scope_fields @
     [(field ''include_imports'' FieldBool)\<lparr>f_default := Some (GBool False),
        f_description := ''Include secrets imported from referenced environments / folders.''\<rparr>,
      (field ''recursive'' FieldBool)\<lparr>f_default := Some (GBool False),
        f_description := ''Walk subfolders. Default false (only secrets directly at secret_path).''\<rparr>]"

definition inf_list_secrets :: "'w net \<Rightarrow> api_session \<Rightarrow> vals \<Rightarrow> 'w \<Rightarrow> gval res \<times> 'w" where
  "inf_list_secrets net s =
     in_scope inf_list_secrets_schema (\<lambda>p sc w.
       let q = scope_query sc @ (if v_bool p ''include_imports'' then [(''include_imports'', [''true''])] else [])
             @ (if v_bool p ''recursive'' then [(''recursive'', [''true''])] else [])
       in and_then (api_get net (sn_http s) (dec_pair (dec_field ''secrets'' object_slice) (dec_field ''imports'' object_slice))
              (''/api/v3/secrets/raw?'' @ q_encode q) [] w)
            (\<lambda>(secrets, imports) w1.
               (Inr (case counted (scope_view sc) ''secrets'' secrets of
                  GMap m \<Rightarrow> GMap (m @ (case imports of GList (x # xs) \<Rightarrow> [(''imports'', imports)] | _ \<Rightarrow> []))
                | v \<Rightarrow> v), w1))) s"

text \<open>The actions on one secret: its name is required.\<close>

definition on_secret :: "schema \<Rightarrow> (vals \<Rightarrow> scope \<Rightarrow> string \<Rightarrow> 'w \<Rightarrow> gval res \<times> 'w) \<Rightarrow> api_session \<Rightarrow> vals \<Rightarrow> 'w \<Rightarrow> gval res \<times> 'w" where
  "on_secret sch run =
     in_scope sch (\<lambda>p sc w.
       let name = v_string p ''name'' in if name = [] then (Inl (ErrMsg ''name is required''), w) else run p sc name w)"

definition inf_get_secret_schema :: schema where
  "inf_get_secret_schema =
     scope_fields @
     [(field ''name'' FieldString)\<lparr>f_required := True,
        f_description := ''Secret key name. e.g. STRIPE_API_KEY.''\<rparr>,
      (field ''type'' FieldEnum)\<lparr>f_default := Some (GStr ''shared''),
        f_options := [\<lparr>o_value = ''shared'', o_label = ''Shared (default '' @ em_dash @ '' visible to whole project)''\<rparr>,
          \<lparr>o_value = ''personal'', o_label = ''Personal (overrides shared, only your identity sees)''\<rparr>],
        f_description := ''Secret type. Personal secrets shadow the shared value for the calling identity.''\<rparr>]"

definition inf_get_secret :: "'w net \<Rightarrow> api_session \<Rightarrow> vals \<Rightarrow> 'w \<Rightarrow> gval res \<times> 'w" where
  "inf_get_secret net s =
     on_secret inf_get_secret_schema (\<lambda>p sc name.
       api_get net (sn_http s) dec_object
         (secret_path name @ ''?'' @ q_encode (scope_query sc @ [(''type'', [v_string p ''type''])])) []) s"

definition inf_create_secret_schema :: schema where
  "inf_create_secret_schema =
     scope_fields @
     [(field ''name'' FieldString)\<lparr>f_required := True,
        f_description := ''Secret key (uppercase + underscores conventionally).''\<rparr>,
      (field ''value'' FieldSecret)\<lparr>f_required := True,
        f_description := ''Plaintext value. The connector sends it over TLS; Infisical encrypts at rest.''\<rparr>,
      (field ''comment'' FieldString)\<lparr>
        f_description := ''Optional description shown in the Infisical UI.''\<rparr>,
      (field ''type'' FieldEnum)\<lparr>f_default := Some (GStr ''shared''),
        f_options := [\<lparr>o_value = ''shared'', o_label = ''Shared''\<rparr>,
          \<lparr>o_value = ''personal'', o_label = ''Personal (overrides shared for this identity)''\<rparr>]\<rparr>]"

definition inf_create_secret :: "'w net \<Rightarrow> api_session \<Rightarrow> vals \<Rightarrow> 'w \<Rightarrow> gval res \<times> 'w" where
  "inf_create_secret net s =
     on_secret inf_create_secret_schema (\<lambda>p sc name.
       inf_call net s ''POST'' (secret_path name) (Some (GMap (scope_body ''secretPath'' sc
         @ [(''secretValue'', GStr (v_string p ''value'')), (''type'', GStr (v_string p ''type''))]
         @ opt_str ''secretComment'' (v_string p ''comment''))))) s"

definition inf_update_secret_schema :: schema where
  "inf_update_secret_schema =
     scope_fields @
     [(field ''name'' FieldString)\<lparr>f_required := True, f_description := ''Existing secret key.''\<rparr>,
      (field ''value'' FieldSecret)\<lparr>f_description := ''New value. Omit to leave unchanged.''\<rparr>,
      (field ''comment'' FieldString)\<lparr>f_description := ''Update the comment.''\<rparr>,
      (field ''type'' FieldEnum)\<lparr>f_default := Some (GStr ''shared''),
        f_options := [\<lparr>o_value = ''shared'', o_label = ''Shared''\<rparr>,
          \<lparr>o_value = ''personal'', o_label = ''Personal''\<rparr>]\<rparr>]"

definition inf_update_secret :: "'w net \<Rightarrow> api_session \<Rightarrow> vals \<Rightarrow> 'w \<Rightarrow> gval res \<times> 'w" where
  "inf_update_secret net s =
     on_secret inf_update_secret_schema (\<lambda>p sc name w.
       let body = scope_body ''secretPath'' sc @ [(''type'', GStr (v_string p ''type''))]
             @ (if v_has p ''value'' then [(''secretValue'', GStr (v_string p ''value''))] else [])
             @ (if v_has p ''comment'' then [(''secretComment'', GStr (v_string p ''comment''))] else [])
       in if length body \<le> 4 then (Inl (ErrMsg ''at least one of value or comment must be supplied''), w)
          else inf_call net s ''PATCH'' (secret_path name) (Some (GMap body)) w) s"

definition inf_delete_secret_schema :: schema where
  "inf_delete_secret_schema =
     scope_fields @
     [(field ''name'' FieldString)\<lparr>f_required := True, f_description := ''Secret key to delete.''\<rparr>,
      (field ''type'' FieldEnum)\<lparr>f_default := Some (GStr ''shared''),
        f_options := [\<lparr>o_value = ''shared'', o_label = ''Shared''\<rparr>,
          \<lparr>o_value = ''personal'', o_label = ''Personal''\<rparr>]\<rparr>]"

definition inf_delete_secret :: "'w net \<Rightarrow> api_session \<Rightarrow> vals \<Rightarrow> 'w \<Rightarrow> gval res \<times> 'w" where
  "inf_delete_secret net s =
     on_secret inf_delete_secret_schema (\<lambda>p sc name.
       inf_do net s ''DELETE'' (secret_path name)
         (Some (GMap (scope_body ''secretPath'' sc @ [(''type'', GStr (v_string p ''type''))])))
         (scope_view sc @ [(''name'', GStr name), (''deleted'', GBool True)])) s"

section \<open>Members of the organisation\<close>

definition org_path :: "string \<Rightarrow> string \<Rightarrow> string" where
  "org_path org rest = ''/api/v2/organizations/'' @ path_escape org @ ''/memberships'' @ rest"

definition inf_list_org_members_schema :: schema where
  "inf_list_org_members_schema =
     [(field ''org_id'' FieldString)\<lparr>f_description := ''Organization id. Falls back to default_org_id.''\<rparr>]"

definition inf_list_org_members :: "'w net \<Rightarrow> api_session \<Rightarrow> vals \<Rightarrow> 'w \<Rightarrow> gval res \<times> 'w" where
  "inf_list_org_members net s params w =
     (let org = org_id_or s params
      in if org = [] then (Inl (ErrMsg ''org_id is required (or set default_org_id on the credential)''), w)
         else inf_list net s (org_path org []) ''memberships'' [(''org_id'', GStr org)] ''memberships'' w)"

definition inf_update_org_member_role_schema :: schema where
  "inf_update_org_member_role_schema =
     [(field ''org_id'' FieldString)\<lparr>f_description := ''Organization id. Falls back to default_org_id.''\<rparr>,
      (field ''membership_id'' FieldString)\<lparr>f_required := True,
        f_description := ''Membership id (NOT the user id). Get it from list-org-members '' @ right_arrow @ '' memberships[].id.''\<rparr>,
      (field ''role'' FieldString)\<lparr>
        f_description := ''New role slug. Built-ins: admin, member, no-access. Custom roles are also supported by slug.''\<rparr>,
      (field ''is_active'' FieldBool)\<lparr>
        f_description := ''Toggle the membership active state. Deactivated users can'' @ apos
          @ ''t sign in but their data is preserved.''\<rparr>]"

definition inf_update_org_member_role :: "'w net \<Rightarrow> api_session \<Rightarrow> vals \<Rightarrow> 'w \<Rightarrow> gval res \<times> 'w" where
  "inf_update_org_member_role net s params w =
     (let org = org_id_or s params; mid = v_string params ''membership_id'';
          body = opt_str ''role'' (v_string params ''role'') @ opt_bool params ''is_active'' ''isActive''
      in if org = [] \<or> mid = [] then (Inl (ErrMsg ''org_id and membership_id are required''), w)
         else if body = [] then (Inl (ErrMsg ''at least one of role or is_active is required''), w)
         else inf_call net s ''PATCH'' (org_path org (''/'' @ path_escape mid)) (Some (GMap body)) w)"

definition inf_remove_org_member_schema :: schema where
  "inf_remove_org_member_schema =
     [(field ''org_id'' FieldString)\<lparr>f_required := True,
        f_description := ''Organization id. Explicit '' @ em_dash @ '' no fallback for destructive ops.''\<rparr>,
      (field ''membership_id'' FieldString)\<lparr>f_required := True,
        f_description := ''Membership id from list-org-members.''\<rparr>]"

definition inf_remove_org_member :: "'w net \<Rightarrow> api_session \<Rightarrow> vals \<Rightarrow> 'w \<Rightarrow> gval res \<times> 'w" where
  "inf_remove_org_member net s params w =
     (let org = v_string params ''org_id''; mid = v_string params ''membership_id''
      in if org = [] \<or> mid = [] then (Inl (ErrMsg ''org_id and membership_id are required''), w)
         else inf_do net s ''DELETE'' (org_path org (''/'' @ path_escape mid)) None
           [(''org_id'', GStr org), (''membership_id'', GStr mid), (''removed'', GBool True)] w)"

section \<open>Members of a project\<close>

definition workspace2_path :: "string \<Rightarrow> string \<Rightarrow> string" where
  "workspace2_path pid rest = ''/api/v2/workspace/'' @ path_escape pid @ rest"

definition inf_list_project_members_schema :: schema where
  "inf_list_project_members_schema =
     [(field ''project_id'' FieldString)\<lparr>
        f_description := ''Project id. Falls back to default_project_id.''\<rparr>]"

definition inf_list_project_members :: "'w net \<Rightarrow> api_session \<Rightarrow> vals \<Rightarrow> 'w \<Rightarrow> gval res \<times> 'w" where
  "inf_list_project_members net s params w =
     with_project s params (\<lambda>pid. inf_list net s (workspace_path pid ''/memberships'') ''memberships'' [(''project_id'', GStr pid)] ''memberships'') w"

definition inf_add_project_member_schema :: schema where
  "inf_add_project_member_schema =
     [(field ''project_id'' FieldString)\<lparr>
        f_description := ''Project id. Falls back to default_project_id.''\<rparr>,
      (field ''emails'' FieldStringList)\<lparr>
        f_description := ''Comma-separated emails. e.g. alice@example.com,bob@example.com. Mutually exclusive with usernames.''\<rparr>,
      (field ''usernames'' FieldStringList)\<lparr>
        f_description := ''Comma-separated usernames. Mutually exclusive with emails. Use whichever your org'' @ apos
          @ ''s user identifier is.''\<rparr>,
      (field ''roles'' FieldStringList)\<lparr>f_default := Some (GStr ''member''),
        f_description := ''Role slugs to assign on the new project membership. Default '' @ apos @ ''member'' @ apos
          @ ''. Other built-ins: admin, viewer, no-access. Custom roles also work by slug.''\<rparr>]"

text \<open>Emails or user names: one of the two, not both; the entry of the body that carries them.\<close>

definition people :: "string \<Rightarrow> string list \<Rightarrow> string list \<Rightarrow> (string \<times> gval) res" where
  "people both emails users =
     (if emails = [] \<and> users = [] then Inl (ErrMsg ''either emails or usernames is required'')
      else if emails \<noteq> [] \<and> users \<noteq> [] then Inl (ErrMsg both)
      else if emails \<noteq> [] then Inr (''emails'', GStrs emails)
      else Inr (''usernames'', GStrs users))"

definition roles_or_member :: "vals \<Rightarrow> string list" where
  "roles_or_member p = (let roles = v_string_list p ''roles'' in if roles = [] then [''member''] else roles)"

definition inf_add_project_member :: "'w net \<Rightarrow> api_session \<Rightarrow> vals \<Rightarrow> 'w \<Rightarrow> gval res \<times> 'w" where
  "inf_add_project_member net s params w =
     (let p = with_defaults params inf_add_project_member_schema
      in with_project s p (\<lambda>pid w.
           case people (''emails and usernames are mutually exclusive '' @ em_dash @ '' pick one'')
               (v_string_list p ''emails'') (v_string_list p ''usernames'') of
             Inl e \<Rightarrow> (Inl e, w)
           | Inr who \<Rightarrow>
               inf_call net s ''POST'' (workspace2_path pid ''/memberships'')
                 (Some (GMap [(''roleSlugs'', GStrs (roles_or_member p)), who])) w) w)"

definition inf_update_project_member_role_schema :: schema where
  "inf_update_project_member_role_schema =
     [(field ''project_id'' FieldString)\<lparr>
        f_description := ''Project id. Falls back to default_project_id.''\<rparr>,
      (field ''membership_id'' FieldString)\<lparr>f_required := True,
        f_description := ''Membership id from list-project-members (NOT the user id).''\<rparr>,
      (field ''roles'' FieldStringList)\<lparr>f_required := True,
        f_description := ''Comma-separated role slugs. e.g. admin or admin,viewer. Replaces the current role set entirely.''\<rparr>]"

definition role_objects :: "string list \<Rightarrow> gval" where
  "role_objects roles =
     GList (map (\<lambda>r. GMap [(''role'', GStr r)]) (filter (\<lambda>r. r \<noteq> []) (map trim_space roles)))"

definition inf_update_project_member_role :: "'w net \<Rightarrow> api_session \<Rightarrow> vals \<Rightarrow> 'w \<Rightarrow> gval res \<times> 'w" where
  "inf_update_project_member_role net s params w =
     (let pid = project_id_or s params; mid = v_string params ''membership_id''; roles = v_string_list params ''roles''
      in if pid = [] \<or> mid = [] \<or> roles = [] then
           (Inl (ErrMsg ''project_id, membership_id, and at least one role are required''), w)
         else inf_call net s ''PATCH'' (workspace_path pid (''/memberships/'' @ path_escape mid))
           (Some (GMap [(''roles'', role_objects roles)])) w)"

definition inf_remove_project_member_schema :: schema where
  "inf_remove_project_member_schema =
     [(field ''project_id'' FieldString)\<lparr>f_required := True,
        f_description := ''Project id. Explicit '' @ em_dash @ '' no fallback for destructive ops.''\<rparr>,
      (field ''emails'' FieldStringList)\<lparr>
        f_description := ''Comma-separated emails to remove. Mutually exclusive with usernames.''\<rparr>,
      (field ''usernames'' FieldStringList)\<lparr>
        f_description := ''Comma-separated usernames to remove. Mutually exclusive with emails.''\<rparr>]"

definition inf_remove_project_member :: "'w net \<Rightarrow> api_session \<Rightarrow> vals \<Rightarrow> 'w \<Rightarrow> gval res \<times> 'w" where
  "inf_remove_project_member net s params w =
     (let pid = v_string params ''project_id''
      in if pid = [] then (Inl (ErrMsg ''project_id is required''), w)
         else case people ''emails and usernames are mutually exclusive''
             (v_string_list params ''emails'') (v_string_list params ''usernames'') of
           Inl e \<Rightarrow> (Inl e, w)
         | Inr who \<Rightarrow>
             inf_do net s ''DELETE'' (workspace2_path pid ''/memberships'') (Some (GMap [who]))
               [(''project_id'', GStr pid), (''removed'', GBool True), who] w)"

section \<open>Machine identities\<close>

definition identity_path :: "string \<Rightarrow> string \<Rightarrow> string" where
  "identity_path pid iid = workspace2_path pid (''/identity-memberships/'' @ path_escape iid)"

definition inf_list_project_identities_schema :: schema where
  "inf_list_project_identities_schema =
     [(field ''project_id'' FieldString)\<lparr>
        f_description := ''Project id. Falls back to default_project_id.''\<rparr>]"

definition inf_list_project_identities :: "'w net \<Rightarrow> api_session \<Rightarrow> vals \<Rightarrow> 'w \<Rightarrow> gval res \<times> 'w" where
  "inf_list_project_identities net s params w =
     with_project s params (\<lambda>pid. api_get net (sn_http s) dec_object (workspace2_path pid ''/identity-memberships'') []) w"

definition inf_add_project_identity_schema :: schema where
  "inf_add_project_identity_schema =
     [(field ''project_id'' FieldString)\<lparr>
        f_description := ''Project id. Falls back to default_project_id.''\<rparr>,
      (field ''identity_id'' FieldString)\<lparr>f_required := True,
        f_description := ''Identity id (from the Infisical UI, or a future list-identities action).''\<rparr>,
      (field ''roles'' FieldStringList)\<lparr>f_default := Some (GStr ''member''),
        f_description := ''Role slugs to assign. Default '' @ apos @ ''member'' @ apos @ ''. e.g. admin, viewer.''\<rparr>]"

definition inf_add_project_identity :: "'w net \<Rightarrow> api_session \<Rightarrow> vals \<Rightarrow> 'w \<Rightarrow> gval res \<times> 'w" where
  "inf_add_project_identity net s params w =
     (let p = with_defaults params inf_add_project_identity_schema; pid = project_id_or s p; iid = v_string p ''identity_id''
      in if pid = [] \<or> iid = [] then (Inl (ErrMsg ''project_id and identity_id are required''), w)
         else inf_call net s ''POST'' (identity_path pid iid) (Some (GMap [(''roles'', role_objects (roles_or_member p))])) w)"

definition inf_remove_project_identity_schema :: schema where
  "inf_remove_project_identity_schema =
     [(field ''project_id'' FieldString)\<lparr>f_required := True,
        f_description := ''Project id. Explicit '' @ em_dash @ '' no fallback for destructive ops.''\<rparr>,
      (field ''identity_id'' FieldString)\<lparr>f_required := True,
        f_description := ''Identity id whose project access should be revoked.''\<rparr>]"

definition inf_remove_project_identity :: "'w net \<Rightarrow> api_session \<Rightarrow> vals \<Rightarrow> 'w \<Rightarrow> gval res \<times> 'w" where
  "inf_remove_project_identity net s params w =
     (let pid = v_string params ''project_id''; iid = v_string params ''identity_id''
      in if pid = [] \<or> iid = [] then (Inl (ErrMsg ''project_id and identity_id are required''), w)
         else inf_do net s ''DELETE'' (identity_path pid iid) None
           [(''project_id'', GStr pid), (''identity_id'', GStr iid), (''removed'', GBool True)] w)"

section \<open>The connector\<close>

definition inf_list_projects_action where
  "inf_list_projects_action net =
     mk_action ''list-projects'' ''List projects (workspaces)''
       (''Every project the bound identity can see. Same noun as Infisical'' @ apos
              @ ''s UI; the API still uses '' @ apos @ ''workspace'' @ apos @ '' in places.'')
       [] (inf_list_projects net)"

definition inf_create_project_action where
  "inf_create_project_action net =
     mk_action ''create-project'' ''Create project (workspace)''
       (''Create a new Infisical project. Optionally pre-creates default dev/staging/prod environments ''
              @ em_dash @ '' recommended for new projects so secrets have somewhere to land immediately.'')
       inf_create_project_schema (inf_create_project net)"

definition inf_get_project_action where
  "inf_get_project_action net =
     mk_action ''get-project'' ''Get project details''
       (''Full project shape: name, slug, description, environments, settings (auto-capitalisation, delete-protection, ''
              @ ''...).'')
       inf_get_project_schema (inf_get_project net)"

definition inf_update_project_action where
  "inf_update_project_action net =
     mk_action ''update-project'' ''Update project metadata''
       (''Partial update '' @ em_dash
              @ '' only the fields passed are changed. Useful for renaming, description, enabling delete-protection.'')
       inf_update_project_schema (inf_update_project net)"

definition inf_delete_project_action where
  "inf_delete_project_action net =
     mk_action ''delete-project'' ''Delete project''
       (''Permanently remove a project and all its secrets, environments, folders. Refused when delete-protection ''
              @ ''is enabled '' @ em_dash @ '' turn it off via update-project first.'')
       inf_delete_project_schema (inf_delete_project net)"

definition inf_list_environments_action where
  "inf_list_environments_action net =
     mk_action ''list-environments'' ''List environments in a project''
       ''Returns the environment slugs (dev/staging/prod/...) configured on the project.''
       inf_list_environments_schema (inf_list_environments net)"

definition inf_create_environment_action where
  "inf_create_environment_action net =
     mk_action ''create-environment'' ''Add environment to a project''
       (''Create a new environment (slug = url-safe name used in secret-list calls). Lowest '' @ apos
              @ ''position'' @ apos @ '' value is the project'' @ apos @ ''s default environment in the UI.'')
       inf_create_environment_schema (inf_create_environment net)"

definition inf_update_environment_action where
  "inf_update_environment_action net =
     mk_action ''update-environment'' ''Update environment''
       (''Rename or reorder an environment. Changing the slug requires all callers (CI/CD, agent scripts) ''
              @ ''to use the new slug '' @ em_dash @ '' handle with care.'')
       inf_update_environment_schema (inf_update_environment net)"

definition inf_delete_environment_action where
  "inf_delete_environment_action net =
     mk_action ''delete-environment'' ''Delete environment''
       (''Remove an environment from a project. All secrets in that environment are deleted permanently. ''
              @ ''Refused if the environment is the project'' @ apos @ ''s only one.'')
       inf_delete_environment_schema (inf_delete_environment net)"

definition inf_list_folders_action where
  "inf_list_folders_action net =
     mk_action ''list-folders'' ''List folders at a path''
       (''Direct subfolders of secret_path in the given environment. Folders are organisational containers; ''
              @ ''they don'' @ apos @ ''t carry secrets themselves.'')
       inf_list_folders_schema (inf_list_folders net)"

definition inf_create_folder_action where
  "inf_create_folder_action net =
     mk_action ''create-folder'' ''Create folder''
       ''Create a folder under secret_path with the given name. The new folder lives at <secret_path>/<name>.''
       inf_create_folder_schema (inf_create_folder net)"

definition inf_delete_folder_action where
  "inf_delete_folder_action net =
     mk_action ''delete-folder'' ''Delete folder''
       (''Delete a folder. Refuses if the folder contains secrets unless the API is force-deleted in the ''
              @ ''UI (the API itself will refuse non-empty folders on most versions).'')
       inf_delete_folder_schema (inf_delete_folder net)"

definition inf_list_secrets_action where
  "inf_list_secrets_action net =
     mk_action ''list-secrets'' ''List secrets at a path''
       (''Every secret at <secret_path> in <environment>. Uses the /raw endpoint so values are returned in ''
              @ ''plaintext (server-side decryption). Requires the workspace to have E2EE disabled.'')
       inf_list_secrets_schema (inf_list_secrets net)"

definition inf_get_secret_action where
  "inf_get_secret_action net =
     mk_action ''get-secret'' ''Get one secret''
       (''Single secret by name. The plaintext value is in '' @ bq @ ''secret.secretValue'' @ bq
              @ '' of the response.'')
       inf_get_secret_schema (inf_get_secret net)"

definition inf_create_secret_action where
  "inf_create_secret_action net =
     mk_action ''create-secret'' ''Create a secret''
       (''Add a new secret at <secret_path>. Fails if a secret of that name already exists; use update-secret ''
              @ ''to overwrite.'')
       inf_create_secret_schema (inf_create_secret net)"

definition inf_update_secret_action where
  "inf_update_secret_action net =
     mk_action ''update-secret'' ''Update a secret''
       (''Change value / comment of an existing secret. Use rename via the UI '' @ em_dash @ '' there'' @ apos
              @ ''s no rename op in the raw API.'')
       inf_update_secret_schema (inf_update_secret net)"

definition inf_delete_secret_action where
  "inf_delete_secret_action net =
     mk_action ''delete-secret'' ''Delete a secret''
       ''Remove a secret. Irreversible (no soft delete).''
       inf_delete_secret_schema (inf_delete_secret net)"

definition inf_list_org_members_action where
  "inf_list_org_members_action net =
     mk_action ''list-org-members'' ''List org members (users)''
       (''User accounts in the organization. Use this to find membership ids needed by update-org-member-role ''
              @ ''/ remove-org-member.'')
       inf_list_org_members_schema (inf_list_org_members net)"

definition inf_update_org_member_role_action where
  "inf_update_org_member_role_action net =
     mk_action ''update-org-member-role'' ''Update org member role''
       (''Change a user'' @ apos
              @ ''s org role (admin / member / no-access / custom-role slug). Use the membership id from list-org-members.'')
       inf_update_org_member_role_schema (inf_update_org_member_role net)"

definition inf_remove_org_member_action where
  "inf_remove_org_member_action net =
     mk_action ''remove-org-member'' ''Remove user from org''
       (''Detach a user from the organization. The user'' @ apos @ ''s account on the homeserver stays ''
              @ em_dash @ '' they just lose access to this org'' @ apos @ ''s resources.'')
       inf_remove_org_member_schema (inf_remove_org_member net)"

definition inf_list_project_members_action where
  "inf_list_project_members_action net =
     mk_action ''list-project-members'' ''List project members (users)''
       (''Users with access to a specific project. Use the membership id from this list with update-project-member-role ''
              @ ''/ remove-project-member.'')
       inf_list_project_members_schema (inf_list_project_members net)"

definition inf_add_project_member_action where
  "inf_add_project_member_action net =
     mk_action ''add-project-member'' ''Add existing org users to a project''
       (''Grant project access to one or more existing organization members. Users must already exist in ''
              @ ''the org (created via web-UI invite). Pass either emails OR usernames, plus the role slugs.'')
       inf_add_project_member_schema (inf_add_project_member net)"

definition inf_update_project_member_role_action where
  "inf_update_project_member_role_action net =
     mk_action ''update-project-member-role'' (''Update project member'' @ apos @ ''s role(s)'')
       (''Replace the role set on a project membership. Roles is a list '' @ em_dash
              @ '' Infisical supports stacking multiple roles per user.'')
       inf_update_project_member_role_schema (inf_update_project_member_role net)"

definition inf_remove_project_member_action where
  "inf_remove_project_member_action net =
     mk_action ''remove-project-member'' ''Remove user(s) from project''
       (''Detach users from a project. Pass either emails OR usernames. Users keep their org membership and ''
              @ ''other projects.'')
       inf_remove_project_member_schema (inf_remove_project_member net)"

definition inf_list_project_identities_action where
  "inf_list_project_identities_action net =
     mk_action ''list-project-identities'' ''List machine identities with project access''
       (''Every machine identity (Universal Auth, AWS, K8s, ...) granted access to the project. Distinct ''
              @ ''from list-project-members which lists user accounts.'')
       inf_list_project_identities_schema (inf_list_project_identities net)"

definition inf_add_project_identity_action where
  "inf_add_project_identity_action net =
     mk_action ''add-project-identity'' ''Grant machine identity access to a project''
       (''Authorize an existing machine identity on a project with one or more role slugs. The identity itself ''
              @ ''must already exist (created in the Infisical UI'' @ apos @ ''s Identities settings).'')
       inf_add_project_identity_schema (inf_add_project_identity net)"

definition inf_remove_project_identity_action where
  "inf_remove_project_identity_action net =
     mk_action ''remove-project-identity'' ''Revoke machine identity from project''
       (''Remove a machine identity'' @ apos
              @ ''s access to a project. The identity itself stays (use the Infisical UI to delete the identity entirely).'')
       inf_remove_project_identity_schema (inf_remove_project_identity net)"

definition infisical_connector :: "('m cli_scheme) net \<Rightarrow> ('m cli_scheme, api_session) connector" where
  "infisical_connector net =
     \<lparr>c_descriptor = \<lparr>d_name = ''infisical'', d_display = ''Infisical (secrets management)'',
        d_description = ''Read/write secrets and folders in an Infisical workspace via Universal Auth. Self-hosted-friendly.'',
        d_version = ''0.1.0'', d_categories = [''secrets'', ''infra'']\<rparr>,
      c_credential = \<lparr>cs_kind = AuthAPIKey, cs_schema = inf_cred_schema, cs_presets = inf_presets, cs_defaults = inf_defaults,
        cs_validate = keep_values (inf_validate net)\<rparr>,
      c_actions =
[inf_list_projects_action net, inf_create_project_action net, inf_get_project_action net,
         inf_update_project_action net, inf_delete_project_action net, inf_list_environments_action net,
         inf_create_environment_action net, inf_update_environment_action net, inf_delete_environment_action net,
         inf_list_folders_action net, inf_create_folder_action net, inf_delete_folder_action net,
         inf_list_secrets_action net, inf_get_secret_action net, inf_create_secret_action net,
         inf_update_secret_action net, inf_delete_secret_action net, inf_list_org_members_action net,
         inf_update_org_member_role_action net, inf_remove_org_member_action net,
         inf_list_project_members_action net, inf_add_project_member_action net,
         inf_update_project_member_role_action net, inf_remove_project_member_action net,
         inf_list_project_identities_action net, inf_add_project_identity_action net,
         inf_remove_project_identity_action net],
      c_triggers = [],
      c_open = inf_open net,
      c_close = (\<lambda>_ w. (Inr (), w))\<rparr>"

section \<open>Properties\<close>

text \<open>What a destructive action does without a project: deleting a project or an environment and removing a member or an
  identity from a project fail before any request, whatever the credential's defaults; but deleting a secret or a folder by
  its name alone goes to the credential's default project and environment, at the root.
\<close>

theorem inf_destructive_defaults:
  assumes "v_string params ''project_id'' = []"
    "v_string (cr_values (sn_cred s)) ''default_project_id'' = d" "d \<noteq> []"
    "v_string (cr_values (sn_cred s)) ''default_environment'' = env" "env \<noteq> []" "name \<noteq> []" "trim_space name = name"
  shows "list_all (\<lambda>act. \<exists>e. act net s params w = (Inl e, w))
      [inf_delete_project, inf_delete_environment, inf_remove_project_member, inf_remove_project_identity] \<and>
    inf_delete_secret net s [''name'' \<mapsto> GStr name] w =
      inf_do net s ''DELETE'' (''/api/v3/secrets/raw/'' @ path_escape name)
        (Some (GMap [(''workspaceId'', GStr d), (''environment'', GStr env), (''secretPath'', GStr ''/''), (''type'', GStr ''shared'')]))
        [(''project_id'', GStr d), (''environment'', GStr env), (''secret_path'', GStr ''/''), (''name'', GStr name), (''deleted'', GBool True)] w \<and>
    inf_delete_folder net s [''name'' \<mapsto> GStr name] w =
      inf_do net s ''DELETE'' (''/api/v1/folders/'' @ path_escape name)
        (Some (GMap [(''workspaceId'', GStr d), (''environment'', GStr env), (''path'', GStr ''/'')]))
        [(''project_id'', GStr d), (''environment'', GStr env), (''secret_path'', GStr ''/''), (''name'', GStr name), (''deleted'', GBool True)] w"
proof -
  have guarded: "list_all (\<lambda>act. \<exists>e. act net s params w = (Inl e, w))
      [inf_delete_project, inf_delete_environment, inf_remove_project_member, inf_remove_project_identity]"
    using assms(1)
    by (simp add: inf_delete_project_def inf_delete_environment_def inf_remove_project_member_def inf_remove_project_identity_def)
  have at: "v_string (with_defaults [''name'' \<mapsto> GStr name] sch) k = v_string (\<lambda>_. if k = ''name'' then Some (GStr name) else first_default sch k) k"
    for sch k by (simp add: v_string_def with_defaults_at split: option.splits)
  have scope: "resolve_scope s (with_defaults [''name'' \<mapsto> GStr name] sch) = Inr \<lparr>sc_project = d, sc_environment = env, sc_path = ''/''\<rparr>"
    if "first_default sch ''project_id'' = None" "first_default sch ''environment'' = None" "first_default sch ''secret_path'' = Some (GStr ''/'')"
    for sch
    using that assms(2-5) by (simp add: resolve_scope_def project_id_or_def cred_or_def at Let_def)
  show ?thesis using guarded assms(6,7)
    by (simp add: inf_delete_secret_def inf_delete_folder_def on_secret_def in_scope_def Let_def scope inf_delete_secret_schema_def
          inf_delete_folder_schema_def scope_fields_def field_def secret_path_def scope_body_def scope_view_def at)
qed

definition ex_inf :: api_session where
  "ex_inf =
     \<lparr>sn_cred = new_credential ''infisical'' ''i'' [''default_project_id'' \<mapsto> GStr ''p1'', ''default_environment'' \<mapsto> GStr ''dev''],
      sn_http = \<lparr>hc_base = ''https://i'', hc_headers = bearer ''t'', hc_agent = [], hc_timeout = 0\<rparr>, sn_state = ''/s''\<rparr>"

theorem inf_destructive_defaults_witness:
  "(\<exists>e. inf_delete_project (recorded (\<lambda>_. ok_answer [])) ex_inf (\<lambda>_. None) ex_net_world = (Inl e, ex_net_world)) \<and>
   map (\<lambda>rq. (aq_method rq, aq_url rq)) (nw_sent (snd (inf_delete_secret (recorded (\<lambda>_. ok_answer [])) ex_inf [''name'' \<mapsto> GStr ''K''] ex_net_world)))
     = [(''DELETE'', ''https://i/api/v3/secrets/raw/K'')]"
proof -
  let ?net = "recorded (\<lambda>_. ok_answer [])"
  have d: "v_string (cr_values (sn_cred ex_inf)) ''default_project_id'' = ''p1''"
    "v_string (cr_values (sn_cred ex_inf)) ''default_environment'' = ''dev''"
    by (simp_all add: ex_inf_def new_credential_def v_string_def)
  have t: "trim_space ''K'' = ''K''" by code_simp
  have sent: "map (\<lambda>rq. (aq_method rq, aq_url rq)) (nw_sent (snd (inf_do ?net ex_inf ''DELETE'' (''/api/v3/secrets/raw/'' @ path_escape ''K'')
        (Some (GMap [(''workspaceId'', GStr ''p1''), (''environment'', GStr ''dev''), (''secretPath'', GStr ''/''), (''type'', GStr ''shared'')]))
        [(''project_id'', GStr ''p1''), (''environment'', GStr ''dev''), (''secret_path'', GStr ''/''), (''name'', GStr ''K''), (''deleted'', GBool True)]
        ex_net_world))) = [(''DELETE'', ''https://i/api/v3/secrets/raw/K'')]"
    by code_simp
  from inf_destructive_defaults [of "\<lambda>_. None" ex_inf "''p1''" "''dev''" "''K''" ?net ex_net_world] d t sent
  show ?thesis by (simp add: v_string_def)
qed

end
