(* ===== verification/Synapse.thy ===== *)
theory Synapse
  imports ApiConn
begin

text \<open>
  The Synapse connector (\<open>connectors/synapse\<close>): the admin API of a homeserver. User names are completed with the server
  name of the admin, which the validation asks for.
\<close>

section \<open>Client\<close>

definition syn_cred_schema :: schema where
  "syn_cred_schema =
     [(field ''homeserver_url'' FieldString)\<lparr>f_label := ''Homeserver URL'', f_required := True,
        f_description := ''Synapse C-S endpoint root, e.g. https://chat.sistemica.cloud. Same value as the matching matrix ''
          @ ''connector instance.''\<rparr>,
      (field ''access_token'' FieldSecret)\<lparr>f_label := ''Admin access token'', f_required := True,
        f_description := ''Token belonging to an admin-flagged user. Get one from Element (Settings '' @ right_arrow @ '' Help ''
          @ right_arrow @ '' Advanced '' @ right_arrow @ '' Access Token) '' @ em_dash
          @ '' the same token used by your matrix/<name> instance works IF that user has admin. Validate probes ''
          @ ''admin status at connect and refuses non-admin tokens.''\<rparr>,
      (field ''admin_user_id'' FieldString)\<lparr>f_label := ''Admin user ID (auto-set)'',
        f_description := ''Filled by Validate from /_matrix/client/v3/account/whoami. Used internally; safe to leave blank ''
          @ ''during connect.''\<rparr>]"

definition syn_defaults :: "vals \<Rightarrow> vals" where
  "syn_defaults p = (case p ''homeserver_url'' of Some (GStr u) \<Rightarrow> p(''homeserver_url'' \<mapsto> GStr (trim_right u ''/'')) | _ \<Rightarrow> p)"

definition syn_client :: "credential \<Rightarrow> http_config res" where
  "syn_client c =
     (let hs = trim_right (v_string (cr_values c) ''homeserver_url'') ''/''; token = v_string (cr_values c) ''access_token''
      in if hs = [] \<or> token = [] then Inl (ErrMsg ''homeserver_url and access_token are required'')
         else new_client \<lparr>hc_base = hs, hc_headers = bearer token, hc_agent = [], hc_timeout = 0\<rparr>)"

text \<open>An error between two texts.\<close>

definition wrap_around :: "string \<Rightarrow> string \<Rightarrow> 'a res \<times> 'w \<Rightarrow> 'a res \<times> 'w" where
  "wrap_around pre post r = (case r of (Inl e, w) \<Rightarrow> (Inl (ErrWrap pre e post), w) | (Inr x, w) \<Rightarrow> (Inr x, w))"

definition not_admin :: "string \<Rightarrow> gerr" where
  "not_admin uid =
     ErrMsg (uid @ '' is not an admin on this homeserver '' @ em_dash @ '' grant admin first (e.g. '' @ bq
       @ ''UPDATE users SET admin=1 WHERE name='' @ apos @ uid @ apos @ bq @ '' on the Synapse db) then re-run'')"

text \<open>The three checks; the values get the user id.\<close>

definition syn_validate :: "('m cli_scheme) net \<Rightarrow> credential \<Rightarrow> 'm cli_scheme \<Rightarrow> vals res \<times> 'm cli_scheme" where
  "syn_validate net c w =
     (case syn_client c of
        Inl e \<Rightarrow> (Inl e, w)
      | Inr cli \<Rightarrow>
          and_then (wrap_err ''whoami: '' (api_get net cli (dec_field ''user_id'' dec_string) ''/_matrix/client/v3/account/whoami'' [] w))
            (\<lambda>uid w1.
               if uid = [] then (Inl (ErrMsg ''whoami: empty user_id (token invalid?)''), w1)
               else and_then (wrap_around ''/_synapse/admin/v1/server_version: '' '' (homeserver may not be Synapse)''
                   (api_get net cli (dec_pair (dec_field ''server_version'' dec_string) (dec_field ''python_version'' dec_string))
                      ''/_synapse/admin/v1/server_version'' [] w1))
                 (\<lambda>(ver, _) w2. and_then (wrap_around ''admin probe: '' ('' (token doesn'' @ apos @ ''t carry admin privileges?)'')
                     (api_get net cli (dec_field ''admin'' dec_bool) (''/_synapse/admin/v1/users/'' @ path_escape uid @ ''/admin'') [] w2))
                   (\<lambda>adm w3.
                      if \<not> adm then (Inl (not_admin uid), w3)
                      else (Inr ((cr_values c)(''admin_user_id'' \<mapsto> GStr uid)),
                        say (''(synapse '' @ ver @ '', admin '' @ uid @ '') '') w3)))))"

section \<open>User ids\<close>

text \<open>What is behind the last colon, if that is not the first character.\<close>

definition server_name :: "string \<Rightarrow> string" where
  "server_name uid =
     (let rest = takeWhile (\<lambda>c. c \<noteq> CHR '':'') (rev uid)
      in if CHR '':'' \<in> set uid \<and> Suc (length rest) < length uid then rev rest else [])"

definition qualify_user_id :: "string \<Rightarrow> string \<Rightarrow> string" where
  "qualify_user_id admin raw0 =
     (let raw = trim_space raw0
      in if raw = [] then []
         else if prefix ''@'' raw \<and> CHR '':'' \<in> set raw then raw
         else if server_name admin = [] then ''@'' @ trim_prefix raw ''@''
         else ''@'' @ trim_prefix raw ''@'' @ '':'' @ server_name admin)"

definition user_of :: "api_session \<Rightarrow> vals \<Rightarrow> string" where
  "user_of s p = qualify_user_id (v_string (cr_values (sn_cred s)) ''admin_user_id'') (v_string p ''user'')"

definition syn_call :: "'w net \<Rightarrow> api_session \<Rightarrow> string \<Rightarrow> string \<Rightarrow> (string \<times> gval) list \<Rightarrow> 'w \<Rightarrow> gval res \<times> 'w" where
  "syn_call net s meth path body w = api_send net (sn_http s) dec_object meth path (GMap body) w"

definition slice_length :: "gval \<Rightarrow> int" where
  "slice_length xs = (case xs of GList ys \<Rightarrow> int (length ys) | _ \<Rightarrow> 0)"

section \<open>Users\<close>

definition syn_server_version :: "'w net \<Rightarrow> api_session \<Rightarrow> vals \<Rightarrow> 'w \<Rightarrow> gval res \<times> 'w" where
  "syn_server_version net s _ w = api_get net (sn_http s) dec_object ''/_synapse/admin/v1/server_version'' [] w"

text \<open>The part of the query that both listings share.\<close>

definition syn_paging :: "vals \<Rightarrow> url_values" where
  "syn_paging p =
     [(''from'', [itoa (v_int p ''from'')]), (''limit'', [itoa (v_int p ''limit'')]), (''order_by'', [v_string p ''order_by'']),
      (''dir'', [v_string p ''direction''])]"

definition syn_list_users_schema :: schema where
  "syn_list_users_schema =
     [(field ''name'' FieldString)\<lparr>f_description := ''Filter by local part substring.''\<rparr>,
      (field ''guests'' FieldBool)\<lparr>f_default := Some (GBool True),
        f_description := ''Include guest accounts.''\<rparr>,
      (field ''deactivated'' FieldBool)\<lparr>f_default := Some (GBool False),
        f_description := ''Include deactivated accounts.''\<rparr>,
      (field ''admins'' FieldString)\<lparr>f_default := Some (GStr []),
        f_description := apos @ ''true'' @ apos @ '' = admins only, '' @ apos @ ''false'' @ apos @ '' = non-admins only, '' @ apos
          @ apos @ '' = both.''\<rparr>,
      (field ''from'' FieldInt)\<lparr>f_default := Some (GInt 0), f_description := ''Offset for pagination.''\<rparr>,
      (field ''limit'' FieldInt)\<lparr>f_default := Some (GInt 100),
        f_description := ''Page size. Max 100 (Synapse cap).''\<rparr>,
      (field ''order_by'' FieldEnum)\<lparr>f_default := Some (GStr ''name''),
        f_options := [\<lparr>o_value = ''name'', o_label = ''Local part''\<rparr>,
          \<lparr>o_value = ''is_guest'', o_label = ''Guest flag''\<rparr>,
          \<lparr>o_value = ''admin'', o_label = ''Admin flag''\<rparr>,
          \<lparr>o_value = ''user_type'', o_label = ''Type''\<rparr>,
          \<lparr>o_value = ''deactivated'', o_label = ''Deactivated flag''\<rparr>,
          \<lparr>o_value = ''shadow_banned'', o_label = ''Shadow ban''\<rparr>,
          \<lparr>o_value = ''creation_ts'', o_label = ''Creation time''\<rparr>,
          \<lparr>o_value = ''last_seen_ts'', o_label = ''Last seen''\<rparr>],
        f_description := ''Sort key.''\<rparr>,
      (field ''direction'' FieldEnum)\<lparr>f_default := Some (GStr ''f''),
        f_options := [\<lparr>o_value = ''f'', o_label = ''Forward (ascending)''\<rparr>,
          \<lparr>o_value = ''b'', o_label = ''Backward (descending)''\<rparr>],
        f_description := ''Sort direction.''\<rparr>]"

definition dec_users :: "gval \<Rightarrow> (gval \<times> int \<times> string) option" where
  "dec_users = dec_pair (dec_field ''users'' object_slice) (dec_pair (dec_field ''total'' dec_int) (dec_field ''next_token'' dec_string))"

definition syn_list_users :: "'w net \<Rightarrow> api_session \<Rightarrow> vals \<Rightarrow> 'w \<Rightarrow> gval res \<times> 'w" where
  "syn_list_users net s params w =
     (let p = with_defaults params syn_list_users_schema;
          q = opt_query ''name'' (v_string p ''name'') @ [(''guests'', [bool_str (v_bool p ''guests'')]),
                (''deactivated'', [bool_str (v_bool p ''deactivated'')])] @ opt_query ''admins'' (v_string p ''admins'') @ syn_paging p
      in and_then (api_get net (sn_http s) dec_users (''/_synapse/admin/v2/users?'' @ q_encode q) [] w)
           (\<lambda>(users, all, next) w1.
              (Inr (GMap [(''total'', GInt all), (''count'', GInt (slice_length users)), (''users'', users), (''next_token'', GStr next)]), w1)))"

definition syn_get_user_schema :: schema where
  "syn_get_user_schema =
     [(field ''user'' FieldString)\<lparr>f_required := True,
        f_description := ''Local part (alice) or full Matrix id (@alice:host).''\<rparr>]"

definition syn_get_user :: "'w net \<Rightarrow> api_session \<Rightarrow> vals \<Rightarrow> 'w \<Rightarrow> gval res \<times> 'w" where
  "syn_get_user net s params w =
     (let uid = user_of s params
      in if uid = [] then (Inl (ErrMsg ''user is required''), w)
         else api_get net (sn_http s) dec_object (''/_synapse/admin/v2/users/'' @ path_escape uid) [] w)"

definition syn_create_user_schema :: schema where
  "syn_create_user_schema =
     [(field ''user'' FieldString)\<lparr>f_required := True,
        f_description := ''Local part or full @user:host. Local part will be qualified with the homeserver domain automatically.''\<rparr>,
      (field ''password'' FieldSecret)\<lparr>
        f_description := ''Initial password. Omit to create a passwordless account (e.g. for SSO-only users) or to leave unchanged ''
          @ ''on update.''\<rparr>,
      (field ''displayname'' FieldString)\<lparr>f_description := ''Display name shown in clients.''\<rparr>,
      (field ''admin'' FieldBool)\<lparr>f_default := Some (GBool False),
        f_description := ''Grant homeserver-admin role. Use sparingly.''\<rparr>,
      (field ''deactivated'' FieldBool)\<lparr>f_default := Some (GBool False),
        f_description := ''Create as deactivated. Rare '' @ em_dash @ '' usually you create active then deactivate later.''\<rparr>,
      (field ''email'' FieldString)\<lparr>
        f_description := ''Attach an email threepid. Used for password reset + identity discovery.''\<rparr>,
      (field ''logout_devices'' FieldBool)\<lparr>f_default := Some (GBool False),
        f_description := ''On update with a new password: log out the user from every existing device. No effect on create.''\<rparr>]"

definition create_user_body :: "vals \<Rightarrow> (string \<times> gval) list" where
  "create_user_body p =
     [(''admin'', GBool (v_bool p ''admin'')), (''deactivated'', GBool (v_bool p ''deactivated''))]
     @ opt_str ''password'' (v_string p ''password'') @ opt_str ''displayname'' (v_string p ''displayname'')
     @ (if v_string p ''email'' = [] then []
        else [(''threepids'', GList [GMap [(''medium'', GStr ''email''), (''address'', GStr (v_string p ''email''))]])])
     @ (if v_bool p ''logout_devices'' then [(''logout_devices'', GBool True)] else [])"

definition syn_create_user :: "'w net \<Rightarrow> api_session \<Rightarrow> vals \<Rightarrow> 'w \<Rightarrow> gval res \<times> 'w" where
  "syn_create_user net s params w =
     (let p = with_defaults params syn_create_user_schema; uid = user_of s p
      in if uid = [] then (Inl (ErrMsg ''user is required''), w)
         else syn_call net s ''PUT'' (''/_synapse/admin/v2/users/'' @ path_escape uid) (create_user_body p) w)"

definition syn_set_password_schema :: schema where
  "syn_set_password_schema =
     [(field ''user'' FieldString)\<lparr>f_required := True,
        f_description := ''Target user (local part or full id).''\<rparr>,
      (field ''password'' FieldSecret)\<lparr>f_required := True, f_description := ''New password.''\<rparr>,
      (field ''logout_devices'' FieldBool)\<lparr>f_default := Some (GBool True),
        f_description := ''Default true '' @ em_dash @ '' best practice for password reset to force re-login on every device.''\<rparr>]"

definition syn_set_password :: "'w net \<Rightarrow> api_session \<Rightarrow> vals \<Rightarrow> 'w \<Rightarrow> gval res \<times> 'w" where
  "syn_set_password net s params w =
     (let p = with_defaults params syn_set_password_schema; uid = user_of s p; pw = v_string p ''password''
      in if uid = [] \<or> pw = [] then (Inl (ErrMsg ''user and password are required''), w)
         else and_then (send_json net (sn_http s) ''POST'' (''/_synapse/admin/v1/reset_password/'' @ path_escape uid)
             (Some (GMap [(''new_password'', GStr pw), (''logout_devices'', GBool (v_bool p ''logout_devices''))])) False w)
           (\<lambda>_ w1. (Inr (GMap [(''user'', GStr uid), (''password_reset'', GBool True),
              (''logout_devices'', GBool (v_bool p ''logout_devices''))]), w1)))"

definition syn_deactivate_user_schema :: schema where
  "syn_deactivate_user_schema =
     [(field ''user'' FieldString)\<lparr>f_required := True, f_description := ''Target user.''\<rparr>,
      (field ''erase'' FieldBool)\<lparr>f_default := Some (GBool False),
        f_description := ''GDPR erase: clear display name + avatar, return empty for federated requests.''\<rparr>]"

definition syn_deactivate_user :: "'w net \<Rightarrow> api_session \<Rightarrow> vals \<Rightarrow> 'w \<Rightarrow> gval res \<times> 'w" where
  "syn_deactivate_user net s params w =
     (let p = with_defaults params syn_deactivate_user_schema; uid = user_of s p
      in if uid = [] then (Inl (ErrMsg ''user is required''), w)
         else and_then (syn_call net s ''POST'' (''/_synapse/admin/v1/deactivate/'' @ path_escape uid) [(''erase'', GBool (v_bool p ''erase''))] w)
           (\<lambda>out w1. (Inr (GMap [(''user'', GStr uid), (''deactivated'', GBool True), (''erased'', GBool (v_bool p ''erase'')),
              (''id_server_unbind_result'', case obj_get out ''id_server_unbind_result'' of Some x \<Rightarrow> x | None \<Rightarrow> GNil)]), w1)))"

section \<open>Rooms\<close>

definition syn_list_rooms_schema :: schema where
  "syn_list_rooms_schema =
     [(field ''search'' FieldString)\<lparr>
        f_description := ''Filter by name / alias / canonical alias substring.''\<rparr>,
      (field ''from'' FieldInt)\<lparr>f_default := Some (GInt 0), f_description := ''Pagination offset.''\<rparr>,
      (field ''limit'' FieldInt)\<lparr>f_default := Some (GInt 100), f_description := ''Page size. Max 100.''\<rparr>,
      (field ''order_by'' FieldEnum)\<lparr>f_default := Some (GStr ''name''),
        f_options := [\<lparr>o_value = ''name'', o_label = ''Name''\<rparr>,
          \<lparr>o_value = ''canonical_alias'', o_label = ''Canonical alias''\<rparr>,
          \<lparr>o_value = ''joined_members'', o_label = ''Joined members''\<rparr>,
          \<lparr>o_value = ''joined_local_members'', o_label = ''Local joined members''\<rparr>,
          \<lparr>o_value = ''version'', o_label = ''Room version''\<rparr>,
          \<lparr>o_value = ''creator'', o_label = ''Creator''\<rparr>,
          \<lparr>o_value = ''encryption'', o_label = ''Encryption algo''\<rparr>,
          \<lparr>o_value = ''federatable'', o_label = ''Federatable''\<rparr>,
          \<lparr>o_value = ''public'', o_label = ''Publicness''\<rparr>,
          \<lparr>o_value = ''join_rules'', o_label = ''Join rules''\<rparr>,
          \<lparr>o_value = ''guest_access'', o_label = ''Guest access''\<rparr>,
          \<lparr>o_value = ''history_visibility'', o_label = ''History visibility''\<rparr>,
          \<lparr>o_value = ''state_events'', o_label = ''State event count''\<rparr>]\<rparr>,
      (field ''direction'' FieldEnum)\<lparr>f_default := Some (GStr ''f''),
        f_options := [\<lparr>o_value = ''f'', o_label = ''Ascending''\<rparr>,
          \<lparr>o_value = ''b'', o_label = ''Descending''\<rparr>]\<rparr>]"

definition dec_rooms :: "gval \<Rightarrow> (gval \<times> int \<times> int \<times> int \<times> int) option" where
  "dec_rooms =
     dec_pair (dec_field ''rooms'' object_slice) (dec_pair (dec_field ''offset'' dec_int) (dec_pair (dec_field ''total_rooms'' dec_int)
       (dec_pair (dec_field ''next_batch'' dec_int) (dec_field ''prev_batch'' dec_int))))"

definition syn_list_rooms :: "'w net \<Rightarrow> api_session \<Rightarrow> vals \<Rightarrow> 'w \<Rightarrow> gval res \<times> 'w" where
  "syn_list_rooms net s params w =
     (let p = with_defaults params syn_list_rooms_schema
      in and_then (api_get net (sn_http s) dec_rooms (''/_synapse/admin/v1/rooms?'' @ q_encode (opt_query ''search_term'' (v_string p ''search'') @ syn_paging p)) [] w)
           (\<lambda>(rooms, off, all, next, _) w1.
              (Inr (GMap [(''total'', GInt all), (''offset'', GInt off), (''count'', GInt (slice_length rooms)), (''rooms'', rooms),
                 (''next_batch'', GInt next)]), w1)))"

definition syn_delete_room_schema :: schema where
  "syn_delete_room_schema =
     [(field ''room'' FieldString)\<lparr>f_required := True,
        f_description := ''Full room id (!abc:host) '' @ em_dash @ '' admin v2 takes the id directly.''\<rparr>,
      (field ''block'' FieldBool)\<lparr>f_default := Some (GBool False),
        f_description := ''Block the room from being recreated. Use for abusive rooms.''\<rparr>,
      (field ''purge'' FieldBool)\<lparr>f_default := Some (GBool True),
        f_description := ''Also delete every event from the database (default). false leaves the room in place but kicks all ''
          @ ''local users.''\<rparr>,
      (field ''message'' FieldLongText)\<lparr>
        f_description := ''Message sent to room members before kicking. Optional.''\<rparr>,
      (field ''room_name'' FieldString)\<lparr>
        f_description := ''Replacement room name shown to kicked members. Optional.''\<rparr>]"

definition syn_delete_room :: "'w net \<Rightarrow> api_session \<Rightarrow> vals \<Rightarrow> 'w \<Rightarrow> gval res \<times> 'w" where
  "syn_delete_room net s params w =
     (let p = with_defaults params syn_delete_room_schema; room = v_string p ''room''
      in if room = [] then (Inl (ErrMsg ''room is required''), w)
         else syn_call net s ''DELETE'' (''/_synapse/admin/v2/rooms/'' @ path_escape room)
           ([(''block'', GBool (v_bool p ''block'')), (''purge'', GBool (v_bool p ''purge''))] @ opt_str ''message'' (v_string p ''message'')
            @ opt_str ''room_name'' (v_string p ''room_name'')) w)"

definition syn_purge_history_schema :: schema where
  "syn_purge_history_schema =
     [(field ''room'' FieldString)\<lparr>f_required := True, f_description := ''Room id to purge from.''\<rparr>,
      (field ''purge_up_to_ts'' FieldInt)\<lparr>f_required := True,
        f_description := ''Unix ms timestamp; events older than this go. e.g. (epoch ms 30 days ago).''\<rparr>,
      (field ''delete_local_events'' FieldBool)\<lparr>f_default := Some (GBool False),
        f_description := ''Also drop events from local copy. Default false (kept for federation re-fetch).''\<rparr>]"

definition syn_purge_history :: "'w net \<Rightarrow> api_session \<Rightarrow> vals \<Rightarrow> 'w \<Rightarrow> gval res \<times> 'w" where
  "syn_purge_history net s params w =
     (let p = with_defaults params syn_purge_history_schema; room = v_string p ''room''; ts = v_int p ''purge_up_to_ts''
      in if room = [] \<or> ts = 0 then (Inl (ErrMsg ''room and purge_up_to_ts are required''), w)
         else syn_call net s ''POST'' (''/_synapse/admin/v1/purge_history/'' @ path_escape room)
           [(''purge_up_to_ts'', GInt ts), (''delete_local_events'', GBool (v_bool p ''delete_local_events''))] w)"

section \<open>The connector\<close>

definition syn_server_version_action where
  "syn_server_version_action net =
     mk_action ''server-version'' ''Synapse server version''
       ''Returns the Synapse + Python versions. Cheapest probe; used by Validate.''
       [] (syn_server_version net)"

definition syn_list_users_action where
  "syn_list_users_action net =
     mk_action ''list-users'' ''List users on the homeserver''
       (''All users registered locally on this Synapse. Different from '' @ bq @ ''matrix list-rooms'' @ bq
              @ '' etc. '' @ em_dash @ '' this is the admin-scope view, every user the server knows about.'')
       syn_list_users_schema (syn_list_users net)"

definition syn_get_user_action where
  "syn_get_user_action net =
     mk_action ''get-user'' ''Get user details''
       (''Full user record: name, displayname, admin flag, deactivated, creation_ts, last_seen_ts, threepids, ''
              @ ''devices count, room count.'')
       syn_get_user_schema (syn_get_user net)"

definition syn_create_user_action where
  "syn_create_user_action net =
     mk_action ''create-user'' ''Create or update a user''
       (''Idempotent PUT '' @ em_dash
              @ '' creates if missing, updates if present. Set password to register a usable account; set admin=true ''
              @ ''to grant homeserver-admin privileges; threepids attaches email/msisdn identifiers.'')
       syn_create_user_schema (syn_create_user net)"

definition syn_set_password_action where
  "syn_set_password_action net =
     mk_action ''set-password'' ''Force-reset user password''
       ''Set a new password. Optionally invalidates every device session so the user must re-login everywhere.''
       syn_set_password_schema (syn_set_password net)"

definition syn_deactivate_user_action where
  "syn_deactivate_user_action net =
     mk_action ''deactivate-user'' ''Deactivate user account''
       (''Mark account deactivated. With erase=true the user is GDPR-style erased '' @ em_dash
              @ '' display name and avatar are removed, future federated lookups return empty. Profile rooms remain ''
              @ ''but membership leaves.'')
       syn_deactivate_user_schema (syn_deactivate_user net)"

definition syn_list_rooms_action where
  "syn_list_rooms_action net =
     mk_action ''list-rooms'' ''List ALL rooms on the homeserver''
       (''Admin scope '' @ em_dash
              @ '' every room the server knows about, not just rooms the admin has joined (which is what '' @ bq
              @ ''matrix list-rooms'' @ bq @ '' returns). Filterable by name + member count.'')
       syn_list_rooms_schema (syn_list_rooms net)"

definition syn_delete_room_action where
  "syn_delete_room_action net =
     mk_action ''delete-room'' ''Delete a room (admin purge)''
       (''Forcibly remove a room from the homeserver. Block=true also prevents re-creation by anyone other ''
              @ ''than admin. PurgeRoom is async '' @ em_dash
              @ '' Synapse returns a delete_id you can poll for status.'')
       syn_delete_room_schema (syn_delete_room net)"

definition syn_purge_history_action where
  "syn_purge_history_action net =
     mk_action ''purge-history'' ''Purge old message history''
       (''Drop events before a timestamp (delete_local_events=true also removes local copy). Use to reclaim ''
              @ ''disk space; events are gone forever '' @ em_dash @ '' no undo.'')
       syn_purge_history_schema (syn_purge_history net)"

definition synapse_connector :: "('m cli_scheme) net \<Rightarrow> ('m cli_scheme, api_session) connector" where
  "synapse_connector net =
     \<lparr>c_descriptor = \<lparr>d_name = ''synapse'', d_display = ''Synapse (admin API)'',
        d_description = ''Manage users, rooms, server-wide state on a Synapse-flavoured Matrix homeserver. Requires an ''
          @ ''admin-flagged access token. Distinct from '' @ bq @ ''matrix'' @ bq
          @ '' (which is the standard Client-Server API any homeserver implements).'',
        d_version = ''0.1.0'', d_categories = [''matrix'', ''admin'']\<rparr>,
      c_credential = \<lparr>cs_kind = AuthAPIKey, cs_schema = syn_cred_schema, cs_presets = [], cs_defaults = syn_defaults,
        cs_validate = syn_validate net\<rparr>,
      c_actions =
[syn_server_version_action net, syn_list_users_action net, syn_get_user_action net,
         syn_create_user_action net, syn_set_password_action net, syn_deactivate_user_action net,
         syn_list_rooms_action net, syn_delete_room_action net, syn_purge_history_action net],
      c_triggers = [],
      c_open = open_with syn_client,
      c_close = (\<lambda>_ w. (Inr (), w))\<rparr>"

section \<open>Properties\<close>

lemma server_name_split:
  assumes "CHR '':'' \<notin> set server" "pre \<noteq> []"
  shows "server_name (pre @ CHR '':'' # server) = server"
proof -
  have "takeWhile (\<lambda>c. c \<noteq> CHR '':'') (rev (pre @ CHR '':'' # server)) = rev server"
  proof -
    have "\<forall>x\<in>set (rev server). x \<noteq> CHR '':''" using assms(1) by auto
    then have "takeWhile (\<lambda>c. c \<noteq> CHR '':'') (rev server @ rev (pre @ [CHR '':''])) =
        rev server @ takeWhile (\<lambda>c. c \<noteq> CHR '':'') (rev (pre @ [CHR '':'']))"
      by (intro takeWhile_append2) auto
    then show ?thesis by simp
  qed
  then show ?thesis using assms(2) by (simp add: server_name_def)
qed

text \<open>Names are completed with the server name of the admin: on a server without a port in its name, a local part, with or
  without its \<open>@\<close>, becomes the full id, and completing again changes nothing; but with the name \<open>host:port\<close> the id is
  completed with the port alone.
\<close>

theorem qualify_user_id_spec:
  assumes "CHR '':'' \<notin> set host" "host \<noteq> []" "CHR '':'' \<notin> set port" "port \<noteq> []"
    "l \<noteq> []" "CHR '':'' \<notin> set l" "\<not> prefix ''@'' l" "space_free (''@'' @ l @ '':'' @ host)"
  shows "qualify_user_id (''@'' @ a @ '':'' @ host) l = ''@'' @ l @ '':'' @ host \<and>
    qualify_user_id (''@'' @ a @ '':'' @ host) (''@'' @ l) = ''@'' @ l @ '':'' @ host \<and>
    qualify_user_id admin (''@'' @ l @ '':'' @ host) = ''@'' @ l @ '':'' @ host \<and>
    qualify_user_id (''@'' @ a @ '':'' @ host @ '':'' @ port) l = ''@'' @ l @ '':'' @ port"
proof -
  have sub: "space_free t" if "set t \<subseteq> set (''@'' @ l @ '':'' @ host)" for t
    using that assms(8) unfolding space_free_def by blast
  have sf: "space_free l" "space_free (CHR ''@'' # l)" by (rule sub, auto)+
  note t = trim_space_id [OF sf(1)] trim_space_id [OF sf(2)] trim_space_id [OF assms(8)]
  have n: "server_name (CHR ''@'' # a @ CHR '':'' # host) = host"
    using server_name_split [OF assms(1), of "CHR ''@'' # a"] by simp
  have m: "server_name (CHR ''@'' # a @ CHR '':'' # host @ CHR '':'' # port) = port"
    using server_name_split [OF assms(3), of "CHR ''@'' # a @ CHR '':'' # host"] by simp
  show ?thesis
    using assms t n m by (simp_all add: qualify_user_id_def Let_def trim_prefix_def)
qed

theorem qualify_user_id_spec_witness:
  "qualify_user_id ''@admin:h.org'' ''bob'' = ''@bob:h.org'' \<and> qualify_user_id ''@admin:h.org:8448'' ''bob'' = ''@bob:8448''"
proof -
  have sf: "space_free ''@bob:h.org''" by code_simp
  show ?thesis
    using qualify_user_id_spec [of "''h.org''" "''8448''" "''bob''" "''admin''"] sf by simp
qed

text \<open>An update of an existing user always sets the two flags: whatever parameters are given, the body of \<open>create-user\<close> carries
  \<open>admin\<close> and \<open>deactivated\<close>, and both are false unless they are given; the other entries are there exactly when they are
  given. So changing the display name of an admin takes the admin role away, and reactivates a deactivated user.
\<close>

theorem create_user_resets_flags:
  "let b = map_of (create_user_body (with_defaults params syn_create_user_schema))
   in b ''admin'' = Some (GBool (v_bool params ''admin'')) \<and> b ''deactivated'' = Some (GBool (v_bool params ''deactivated'')) \<and>
      (b ''password'' = (if v_string params ''password'' = [] then None else Some (GStr (v_string params ''password'')))) \<and>
      (b ''displayname'' = (if v_string params ''displayname'' = [] then None else Some (GStr (v_string params ''displayname'')))) \<and>
      (b ''logout_devices'' = (if v_bool params ''logout_devices'' then Some (GBool True) else None))"
proof -
  let ?p = "with_defaults params syn_create_user_schema"
  have s: "v_string ?p k = v_string params k" if "first_default syn_create_user_schema k = None" for k
    using that by (simp add: v_string_def with_defaults_at split: option.splits)
  have b: "v_bool ?p k = v_bool params k" if "first_default syn_create_user_schema k = Some (GBool False)" for k
    using that by (simp add: v_bool_def with_defaults_at split: option.splits)
  have d: "v_string ?p ''password'' = v_string params ''password''" "v_string ?p ''displayname'' = v_string params ''displayname''"
    "v_bool ?p ''admin'' = v_bool params ''admin''" "v_bool ?p ''deactivated'' = v_bool params ''deactivated''"
    "v_bool ?p ''logout_devices'' = v_bool params ''logout_devices''"
    by (rule s b, simp add: syn_create_user_schema_def field_def)+
  show ?thesis by (simp add: create_user_body_def d opt_str_def Let_def map_add_def)
qed

end
