(* ===== verification/Llm.thy ===== *)
theory Llm
  imports ApiConn GoFloat GoSniff
begin

text \<open>
  The LLM connector (\<open>connectors/llm\<close>): chat with text, images and audio, embeddings and transcription over an endpoint of
  the OpenAI shape, and what its answers are reduced to.
\<close>

section \<open>Client\<close>

definition llm_cred_schema :: schema where
  "llm_cred_schema =
     [(field ''api_key'' FieldSecret)\<lparr>f_label := ''API key'', f_required := True,
        f_description := ''Sent as '' @ bq @ ''Authorization: Bearer <key>'' @ bq @ ''.''\<rparr>,
      (field ''api_base'' FieldString)\<lparr>f_label := ''API base URL'', f_required := True,
        f_description := ''OpenAI-compatible '' @ bq @ ''/v1'' @ bq
          @ '' root. e.g. http://192.168.1.125:4000/v1, https://api.openai.com/v1.''\<rparr>]"

definition llm_presets :: "preset list" where
  "llm_presets =
     [\<lparr>p_name = ''Local LLM proxy'', p_description = ''http://192.168.1.125:4000/v1 '' @ em_dash
          @ '' Strix Halo + Mac Studio aggregate (qwen36-27b / nemotron / etc.)'',
        p_values = [(''api_base'', GStr ''http://192.168.1.125:4000/v1'')]\<rparr>,
      \<lparr>p_name = ''OpenAI'', p_description = ''https://api.openai.com/v1 '' @ em_dash @ '' official'',
        p_values = [(''api_base'', GStr ''https://api.openai.com/v1'')]\<rparr>,
      \<lparr>p_name = ''Custom'', p_description = ''Enter base URL manually (e.g. Together, Groq, Ollama, vLLM)'', p_values = []\<rparr>]"

definition llm_defaults :: "vals \<Rightarrow> vals" where
  "llm_defaults p = (case p ''api_base'' of Some (GStr u) \<Rightarrow> p(''api_base'' \<mapsto> GStr (trim_right u ''/'')) | _ \<Rightarrow> p)"

definition llm_client :: "credential \<Rightarrow> http_config res" where
  "llm_client c =
     (let key = v_string (cr_values c) ''api_key''; base = trim_right (v_string (cr_values c) ''api_base'') ''/''
      in if key = [] then Inl (ErrMsg ''api_key is empty'')
         else if base = [] then Inl (ErrMsg ''api_base is empty'')
         else new_client \<lparr>hc_base = base, hc_headers = bearer key, hc_agent = [], hc_timeout = 600 * second\<rparr>)"

text \<open>The ids of the models of an answer; the probe shows their number and the first.\<close>

definition dec_models :: "gval \<Rightarrow> string list option" where
  "dec_models = dec_field ''data'' (dec_list (dec_field ''id'' dec_string))"

definition probe_models :: "('m cli_scheme) net \<Rightarrow> http_config res \<Rightarrow> 'm cli_scheme \<Rightarrow> unit res \<times> 'm cli_scheme" where
  "probe_models net client w =
     (case client of
        Inl e \<Rightarrow> (Inl e, w)
      | Inr cli \<Rightarrow>
          and_then (wrap_err ''models probe: '' (api_get net cli dec_models ''/models'' [] w))
            (\<lambda>ids w1. (Inr (), case ids of [] \<Rightarrow> w1
               | i # _ \<Rightarrow> say (''('' @ nat_str (length ids) @ '' models, first: '' @ i @ '') '') w1)))"

definition llm_validate :: "('m cli_scheme) net \<Rightarrow> credential \<Rightarrow> 'm cli_scheme \<Rightarrow> unit res \<times> 'm cli_scheme" where
  "llm_validate net c = probe_models net (llm_client c)"

definition llm_list_models :: "'w net \<Rightarrow> api_session \<Rightarrow> vals \<Rightarrow> 'w \<Rightarrow> gval res \<times> 'w" where
  "llm_list_models net s _ w = api_get net (sn_http s) dec_object ''/models'' [] w"

section \<open>Answers\<close>

definition at_key :: "gval \<Rightarrow> string \<Rightarrow> gval" where
  "at_key v k = (case obj_get v k of Some x \<Rightarrow> x | None \<Rightarrow> GNil)"

text \<open>The first of the keys that holds a text.\<close>

fun first_text :: "gval \<Rightarrow> string list \<Rightarrow> string" where
  "first_text v [] = []"
| "first_text v (k # ks) = (if map_string v k \<noteq> [] then map_string v k else first_text v ks)"

definition message_view :: "gval \<Rightarrow> (string \<times> gval) list" where
  "message_view msg =
     opt_str ''text'' (map_string msg ''content'')
     @ opt_str ''reasoning'' (first_text msg [''reasoning_content'', ''reasoning'', ''thinking''])
     @ (if at_key msg ''tool_calls'' = GNil then [] else [(''tool_calls'', at_key msg ''tool_calls'')])"

definition simplify_response :: "gval \<Rightarrow> gval" where
  "simplify_response resp =
     (let out = [(''model'', at_key resp ''model''), (''usage'', at_key resp ''usage'')]
      in GMap (case at_key resp ''choices'' of
           GList (first # _) \<Rightarrow>
             (case first of
                GMap _ \<Rightarrow>
                  out @ [(''finish_reason'', at_key first ''finish_reason'')]
                  @ (case at_key first ''message'' of GMap m \<Rightarrow> message_view (GMap m) | _ \<Rightarrow> [])
              | _ \<Rightarrow> out)
         | _ \<Rightarrow> out))"

section \<open>Chat\<close>

definition role_message :: "string \<Rightarrow> gval \<Rightarrow> gval" where
  "role_message role content = GMap [(''role'', GStr role), (''content'', content)]"

text \<open>A system message if there is one, and a message of the user.\<close>

definition prompt_messages :: "vals \<Rightarrow> gval \<Rightarrow> gval" where
  "prompt_messages p content =
     GList ((if v_string p ''system'' = [] then [] else [role_message ''system'' (GStr (v_string p ''system''))])
            @ [role_message ''user'' content])"

definition chat_messages :: "vals \<Rightarrow> gval res" where
  "chat_messages p =
     (if v_string p ''messages'' \<noteq> [] then
        (case Option.bind (json_unmarshal (v_string p ''messages'')) object_slice of
           None \<Rightarrow> Inl (ErrWrap ''messages JSON: '' (ErrExt ''json'') [])
         | Some ms \<Rightarrow> Inr ms)
      else if v_string p ''prompt'' = [] then
        Inl (ErrMsg (''either '' @ bq @ ''prompt'' @ bq @ '' or '' @ bq @ ''messages'' @ bq @ '' is required''))
      else Inr (prompt_messages p (GStr (v_string p ''prompt''))))"

definition temperature_entry :: "vals \<Rightarrow> (string \<times> gval) list res" where
  "temperature_entry p =
     (if v_string p ''temperature'' = [] then Inr []
      else case parse_float (v_string p ''temperature'') of
        None \<Rightarrow> Inl (ErrWrap ''temperature: '' (ErrExt ''strconv.ParseFloat'') [])
      | Some f \<Rightarrow> Inr [(''temperature'', GFloat f)])"

definition tools_entry :: "vals \<Rightarrow> (string \<times> gval) list res" where
  "tools_entry p =
     (if v_string p ''tools'' = [] then Inr []
      else case Option.bind (json_unmarshal (v_string p ''tools'')) dec_values of
        None \<Rightarrow> Inl (ErrWrap ''tools JSON: '' (ErrExt ''json'') [])
      | Some ts \<Rightarrow> Inr [(''tools'', ts)])"

text \<open>A tool choice is JSON, or else the text itself.\<close>

definition tool_choice_entry :: "vals \<Rightarrow> (string \<times> gval) list" where
  "tool_choice_entry p =
     (let tc = v_string p ''tool_choice''
      in if tc = [] then [] else [(''tool_choice'', case json_unmarshal tc of Some v \<Rightarrow> v | None \<Rightarrow> GStr tc)])"

definition thinking_entry :: "vals \<Rightarrow> (string \<times> gval) list" where
  "thinking_entry p =
     (if v_bool p ''enable_thinking'' then [(''chat_template_kwargs'', GMap [(''enable_thinking'', GBool True)])] else [])"

definition chat_body :: "vals \<Rightarrow> gval res" where
  "chat_body p =
     (case chat_messages p of Inl e \<Rightarrow> Inl e | Inr ms \<Rightarrow>
      (case temperature_entry p of Inl e \<Rightarrow> Inl e | Inr t \<Rightarrow>
      (case tools_entry p of Inl e \<Rightarrow> Inl e | Inr ts \<Rightarrow>
        Inr (GMap ([(''model'', GStr (v_string p ''model'')), (''messages'', ms)] @ t @ ts @ tool_choice_entry p @ thinking_entry p)))))"

text \<open>The call, and its answer as it is or reduced.\<close>

definition raw_or :: "vals \<Rightarrow> (gval \<Rightarrow> gval) \<Rightarrow> gval res \<times> 'w \<Rightarrow> gval res \<times> 'w" where
  "raw_or p simplify r = and_then r (\<lambda>resp w. (Inr (if v_bool p ''raw'' then resp else simplify resp), w))"

definition post_chat :: "'w net \<Rightarrow> api_session \<Rightarrow> vals \<Rightarrow> gval \<Rightarrow> 'w \<Rightarrow> gval res \<times> 'w" where
  "post_chat net s p body w = raw_or p simplify_response (api_send net (sn_http s) dec_object ''POST'' ''/chat/completions'' body w)"

definition llm_chat_completion_schema :: schema where
  "llm_chat_completion_schema =
     [(field ''model'' FieldString)\<lparr>f_required := True,
        f_description := ''Model id. e.g. qwen36-27b, nemotron-omni-30b, gpt-4o.''\<rparr>,
      (field ''prompt'' FieldLongText)\<lparr>
        f_description := ''Shortcut: single user message. Use '' @ bq @ ''messages'' @ bq @ '' for richer histories.''\<rparr>,
      (field ''system'' FieldLongText)\<lparr>
        f_description := ''Optional system prompt prepended to prompt shortcut.''\<rparr>,
      (field ''messages'' FieldLongText)\<lparr>
        f_description := ''Full OpenAI messages array as JSON, e.g. '' @ apos @ ''[{'' @ dq @ ''role'' @ dq @ '':'' @ dq @ ''user''
          @ dq @ '','' @ dq @ ''content'' @ dq @ '':'' @ dq @ ''hi'' @ dq @ ''}]'' @ apos
          @ ''. Overrides prompt+system.''\<rparr>,
      (field ''temperature'' FieldString)\<lparr>
        f_description := ''0.0'' @ en_dash @ ''2.0. Empty = backend default.''\<rparr>,
      (field ''tools'' FieldLongText)\<lparr>
        f_description := ''OpenAI tools array as JSON. e.g. '' @ apos @ ''[{'' @ dq @ ''type'' @ dq @ '':'' @ dq @ ''function'' @ dq
          @ '','' @ dq @ ''function'' @ dq @ '':{'' @ dq @ ''name'' @ dq @ '':'' @ dq @ ''...'' @ dq @ '','' @ dq
          @ ''description'' @ dq @ '':'' @ dq @ ''...'' @ dq @ '','' @ dq @ ''parameters'' @ dq @ '':{...}}}]''
          @ apos @ ''.''\<rparr>,
      (field ''tool_choice'' FieldString)\<lparr>
        f_description := ''auto | none | required | {type:function,function:{name:...}} as JSON.''\<rparr>,
      (field ''enable_thinking'' FieldBool)\<lparr>f_default := Some (GBool False),
        f_description := ''Pass '' @ bq @ ''enable_thinking: true'' @ bq @ '' in '' @ bq @ ''chat_template_kwargs'' @ bq
          @ '' (Qwen/vLLM extension). Other backends ignore.''\<rparr>,
      (field ''raw'' FieldBool)\<lparr>f_default := Some (GBool False),
        f_description := ''Return the full backend response instead of {text, reasoning, tool_calls, ...}.''\<rparr>]"

definition llm_chat_completion :: "'w net \<Rightarrow> api_session \<Rightarrow> vals \<Rightarrow> 'w \<Rightarrow> gval res \<times> 'w" where
  "llm_chat_completion net s params w =
     (let p = with_defaults params llm_chat_completion_schema
      in if v_string p ''model'' = [] then (Inl (ErrMsg ''model is required''), w)
         else case chat_body p of Inl e \<Rightarrow> (Inl e, w) | Inr body \<Rightarrow> post_chat net s p body w)"

section \<open>Images and audio\<close>

definition image_mime :: "string \<Rightarrow> string \<Rightarrow> string option" where
  "image_mime path data =
     (let mime = detect_content_type data; ext = to_lower (path_ext path)
      in if prefix ''image/'' mime then Some mime
         else if ext = ''.png'' then Some ''image/png''
         else if ext = ''.jpg'' \<or> ext = ''.jpeg'' then Some ''image/jpeg''
         else if ext = ''.gif'' then Some ''image/gif''
         else if ext = ''.webp'' then Some ''image/webp''
         else None)"

definition image_to_data_url :: "osys \<Rightarrow> string \<Rightarrow> string res" where
  "image_to_data_url s path =
     (case os_read_file s path of
        Inl e \<Rightarrow> Inl (ErrWrap ''read image: '' e [])
      | Inr data \<Rightarrow>
          (case image_mime path data of
             None \<Rightarrow> Inl (ErrMsg (''image: unsupported type (sniffed '' @ go_quote (detect_content_type data) @ '')''))
           | Some mime \<Rightarrow> Inr (''data:'' @ mime @ '';base64,'' @ b64_encode data)))"

definition text_part :: "vals \<Rightarrow> gval" where
  "text_part p = GMap [(''type'', GStr ''text''), (''text'', GStr (v_string p ''prompt''))]"

definition llm_chat_with_image_schema :: schema where
  "llm_chat_with_image_schema =
     [(field ''model'' FieldString)\<lparr>f_required := True,
        f_description := ''Vision-capable model id. e.g. gpt-4o, qwen2.5-vl-7b, llava-1.6.''\<rparr>,
      (field ''prompt'' FieldLongText)\<lparr>f_required := True,
        f_description := ''The question or instruction about the image.''\<rparr>,
      (field ''image'' FieldString)\<lparr>f_required := True, f_is_path := True,
        f_description := ''Local path to image (jpg/png/webp/gif). MIME sniffed from contents. Subject to PGF_ALLOWED_PATHS.''\<rparr>,
      (field ''system'' FieldLongText)\<lparr>f_description := ''Optional system prompt.''\<rparr>,
      (field ''detail'' FieldEnum)\<lparr>f_default := Some (GStr ''auto''),
        f_options := [\<lparr>o_value = ''low'', o_label = ''Low (fast, ~85 tokens)''\<rparr>,
          \<lparr>o_value = ''high'', o_label = ''High (full resolution)''\<rparr>,
          \<lparr>o_value = ''auto'', o_label = ''Auto (backend decides)''\<rparr>],
        f_description := ''Vision detail hint. Many local backends ignore.''\<rparr>,
      (field ''temperature'' FieldString)\<lparr>
        f_description := ''0.0'' @ en_dash @ ''2.0. Empty = backend default.''\<rparr>,
      (field ''raw'' FieldBool)\<lparr>f_default := Some (GBool False),
        f_description := ''Return full backend response instead of simplified {text, ...}.''\<rparr>]"

definition image_body :: "vals \<Rightarrow> string \<Rightarrow> (string \<times> gval) list" where
  "image_body p url =
     [(''model'', GStr (v_string p ''model'')), (''messages'', prompt_messages p (GList [text_part p,
        GMap [(''type'', GStr ''image_url''), (''image_url'', GMap [(''url'', GStr url), (''detail'', GStr (v_string p ''detail''))])]]))]"

definition llm_chat_with_image :: "('m cli_scheme) net \<Rightarrow> api_session \<Rightarrow> vals \<Rightarrow> 'm cli_scheme \<Rightarrow> gval res \<times> 'm cli_scheme" where
  "llm_chat_with_image net s params w =
     (let p = with_defaults params llm_chat_with_image_schema
      in if list_ex (\<lambda>k. v_string p k = []) [''model'', ''prompt'', ''image''] then
           (Inl (ErrMsg ''model, prompt, and image are required''), w)
         else case image_to_data_url (c_os w) (v_string p ''image'') of
           Inl e \<Rightarrow> (Inl e, w)
         | Inr url \<Rightarrow>
             (case temperature_entry p of
                Inl e \<Rightarrow> (Inl e, w)
              | Inr t \<Rightarrow> post_chat net s p (GMap (image_body p url @ t)) w))"

definition audio_format :: "string \<Rightarrow> string" where
  "audio_format path =
     (let ext = to_lower (path_ext path)
      in if ext \<in> {''.wav'', ''.mp3'', ''.m4a'', ''.mp4'', ''.ogg'', ''.opus'', ''.flac'', ''.webm''} then tl ext else [])"

definition llm_chat_with_audio_schema :: schema where
  "llm_chat_with_audio_schema =
     [(field ''model'' FieldString)\<lparr>f_required := True,
        f_description := ''Audio-capable multimodal model id. e.g. nemotron-omni-30b, gpt-4o-audio-preview, qwen2-audio-7b.''\<rparr>,
      (field ''prompt'' FieldLongText)\<lparr>f_required := True,
        f_description := ''Instruction about the audio. Anything: transcribe verbatim, summarize, classify, extract action ''
          @ ''items.''\<rparr>,
      (field ''audio'' FieldString)\<lparr>f_required := True, f_is_path := True,
        f_description := ''Local path to audio file. Format auto-detected from extension. Subject to PGF_ALLOWED_PATHS.''\<rparr>,
      (field ''format'' FieldString)\<lparr>
        f_description := ''Override format hint. Empty = auto from file extension. Common values: wav, mp3, m4a, ogg, flac, ''
          @ ''webm.''\<rparr>,
      (field ''system'' FieldLongText)\<lparr>f_description := ''Optional system prompt.''\<rparr>,
      (field ''temperature'' FieldString)\<lparr>
        f_description := ''0.0'' @ en_dash @ ''2.0. Empty = backend default.''\<rparr>,
      (field ''enable_thinking'' FieldBool)\<lparr>f_default := Some (GBool False),
        f_description := ''Pass '' @ bq @ ''enable_thinking: true'' @ bq @ '' in '' @ bq @ ''chat_template_kwargs'' @ bq
          @ '' (Qwen/vLLM extension).''\<rparr>,
      (field ''raw'' FieldBool)\<lparr>f_default := Some (GBool False),
        f_description := ''Return full backend response instead of simplified {text, ...}.''\<rparr>]"

definition audio_body :: "vals \<Rightarrow> string \<Rightarrow> string \<Rightarrow> (string \<times> gval) list" where
  "audio_body p data fmt =
     [(''model'', GStr (v_string p ''model'')), (''messages'', prompt_messages p (GList [text_part p,
        GMap [(''type'', GStr ''input_audio''), (''input_audio'', GMap [(''data'', GStr (b64_encode data)), (''format'', GStr fmt)])]]))]"

definition llm_chat_with_audio :: "('m cli_scheme) net \<Rightarrow> api_session \<Rightarrow> vals \<Rightarrow> 'm cli_scheme \<Rightarrow> gval res \<times> 'm cli_scheme" where
  "llm_chat_with_audio net s params w =
     (let p = with_defaults params llm_chat_with_audio_schema; audio = v_string p ''audio'';
          fmt = (if v_string p ''format'' = [] then audio_format audio else v_string p ''format'')
      in if list_ex (\<lambda>k. v_string p k = []) [''model'', ''prompt'', ''audio''] then
           (Inl (ErrMsg ''model, prompt, and audio are required''), w)
         else case os_read_file (c_os w) audio of
           Inl e \<Rightarrow> (Inl (ErrWrap ''read audio: '' e []), w)
         | Inr data \<Rightarrow>
             (if fmt = [] then
                (Inl (ErrMsg (''audio: cannot infer format from extension '' @ go_quote (path_ext audio) @ ''; pass -p format=...'')), w)
              else case temperature_entry p of
                Inl e \<Rightarrow> (Inl e, w)
              | Inr t \<Rightarrow> post_chat net s p (GMap (audio_body p data fmt @ t @ thinking_entry p)) w))"

section \<open>Embeddings\<close>

definition llm_embed_schema :: schema where
  "llm_embed_schema =
     [(field ''model'' FieldString)\<lparr>f_required := True,
        f_description := ''Embedding model id. e.g. qwen3-embed, nomic-embed, text-embedding-3-small.''\<rparr>,
      (field ''input'' FieldLongText)\<lparr>f_required := True,
        f_description := ''Text to embed. For batch, pass JSON array as a string.''\<rparr>,
      (field ''raw'' FieldBool)\<lparr>f_default := Some (GBool False),
        f_description := ''Return full backend response instead of {model, dim, embeddings[]}.''\<rparr>]"

text \<open>A JSON array of texts is a batch, anything else one text.\<close>

definition embed_input :: "string \<Rightarrow> gval" where
  "embed_input raw =
     (case json_unmarshal raw of
        Some GNil \<Rightarrow> GNil
      | Some (GList vs) \<Rightarrow> (case all_some (map dec_string vs) of Some ts \<Rightarrow> GStrs ts | None \<Rightarrow> GStr raw)
      | _ \<Rightarrow> GStr raw)"

text \<open>The vectors of the rows; a row without one counts as nil. The dimension is that of the first that is not empty.\<close>

definition embeddings_of :: "gval \<Rightarrow> gval list" where
  "embeddings_of resp =
     (case at_key resp ''data'' of
        GList ds \<Rightarrow>
          map (\<lambda>d. case at_key d ''embedding'' of GList xs \<Rightarrow> GList xs | _ \<Rightarrow> GNil)
            (filter (\<lambda>d. case d of GMap _ \<Rightarrow> True | _ \<Rightarrow> False) ds)
      | _ \<Rightarrow> [])"

definition dimension :: "gval list \<Rightarrow> nat" where
  "dimension vs = foldl (\<lambda>n v. if n = 0 then (case v of GList xs \<Rightarrow> length xs | _ \<Rightarrow> 0) else n) 0 vs"

definition embed_view :: "gval \<Rightarrow> gval" where
  "embed_view resp =
     (let vs = embeddings_of resp
      in GMap [(''model'', at_key resp ''model''), (''usage'', at_key resp ''usage''), (''dim'', GInt (int (dimension vs))),
           (''embeddings'', GList vs), (''count'', GInt (int (length vs)))])"

definition llm_embed :: "'w net \<Rightarrow> api_session \<Rightarrow> vals \<Rightarrow> 'w \<Rightarrow> gval res \<times> 'w" where
  "llm_embed net s params w =
     (let p = with_defaults params llm_embed_schema; model = v_string p ''model''; inp = v_string p ''input''
      in if model = [] then (Inl (ErrMsg ''model is required''), w)
         else if inp = [] then (Inl (ErrMsg ''input is required''), w)
         else raw_or p embed_view (api_send net (sn_http s) dec_object ''POST'' ''/embeddings''
           (GMap [(''model'', GStr model), (''input'', embed_input inp)]) w))"

section \<open>Transcription\<close>

text \<open>The fields of a transcription that are kept.\<close>

definition transcript_view :: "gval \<Rightarrow> gval" where
  "transcript_view resp =
     GMap ((case obj_get resp ''text'' of Some (GStr t) \<Rightarrow> [(''text'', GStr t)] | _ \<Rightarrow> [])
           @ concat (map (\<lambda>k. case obj_get resp k of Some v \<Rightarrow> [(k, v)] | None \<Rightarrow> [])
               [''language'', ''duration'', ''segments'', ''words'']))"

definition opt_form :: "vals \<Rightarrow> string \<Rightarrow> (string \<times> string) list" where
  "opt_form p k = (if v_string p k = [] then [] else [(k, v_string p k)])"

definition speech_form :: "vals \<Rightarrow> string \<Rightarrow> string list \<Rightarrow> (string \<times> string) list" where
  "speech_form p model ks =
     [(''model'', model), (''response_format'', if v_bool p ''verbose'' then ''verbose_json'' else ''json'')]
     @ concat (map (opt_form p) ks)"

definition post_audio :: "('m cli_scheme) net \<Rightarrow> api_session \<Rightarrow> vals \<Rightarrow> string \<Rightarrow> (string \<times> string) list \<Rightarrow> 'm cli_scheme \<Rightarrow>
    gval res \<times> 'm cli_scheme" where
  "post_audio net s p path form w =
     raw_or p transcript_view (api_upload net (sn_http s) dec_object path form
       [\<lparr>ff_field = ''file'', ff_path = v_string p ''audio'', ff_mime = [], ff_filename = []\<rparr>] w)"

definition llm_transcribe_schema :: schema where
  "llm_transcribe_schema =
     [(field ''model'' FieldString)\<lparr>f_required := True, f_default := Some (GStr ''whisper-1''),
        f_description := ''Whisper-family model id. e.g. whisper-1 (OpenAI), Systran/faster-whisper-large-v3 (local).''\<rparr>,
      (field ''audio'' FieldString)\<lparr>f_required := True, f_is_path := True,
        f_description := ''Local path to audio file (mp3/wav/m4a/ogg/webm/flac). Subject to PGF_ALLOWED_PATHS.''\<rparr>,
      (field ''language'' FieldString)\<lparr>
        f_description := ''ISO-639-1 hint (en, de, fr, ...). Empty = auto-detect.''\<rparr>,
      (field ''prompt'' FieldLongText)\<lparr>
        f_description := ''Optional context to prime the model (proper nouns, jargon).''\<rparr>,
      (field ''temperature'' FieldString)\<lparr>
        f_description := ''0.0'' @ en_dash @ ''1.0. Empty = backend default.''\<rparr>,
      (field ''verbose'' FieldBool)\<lparr>f_default := Some (GBool False),
        f_description := ''When true, request verbose_json (segments + word timestamps when supported).''\<rparr>,
      (field ''raw'' FieldBool)\<lparr>f_default := Some (GBool False),
        f_description := ''Return the full backend response instead of {text, ...}.''\<rparr>]"

definition llm_transcribe :: "('m cli_scheme) net \<Rightarrow> api_session \<Rightarrow> vals \<Rightarrow> 'm cli_scheme \<Rightarrow> gval res \<times> 'm cli_scheme" where
  "llm_transcribe net s params w =
     (let p = with_defaults params llm_transcribe_schema; model = v_string p ''model''
      in if model = [] \<or> v_string p ''audio'' = [] then (Inl (ErrMsg ''model and audio are required''), w)
         else post_audio net s p ''/audio/transcriptions'' (speech_form p model [''language'', ''prompt'', ''temperature'']) w)"

section \<open>The connector\<close>

definition llm_list_models_action where
  "llm_list_models_action net =
     mk_action ''list-models'' ''List models''
       ''Available models on this endpoint.''
       [] (llm_list_models net)"

definition llm_chat_completion_action where
  "llm_chat_completion_action net =
     mk_action ''chat-completion'' ''Chat completion''
       (''OpenAI-compatible chat. Supports thinking-channel models (qwen, etc.) and tool calls (function ''
              @ ''calling).'')
       llm_chat_completion_schema (llm_chat_completion net)"

definition llm_chat_with_image_action where
  "llm_chat_with_image_action net =
     mk_action ''chat-with-image'' ''Chat with image''
       ''Multimodal chat. Reads a local image file and asks the model about it via OpenAI vision shape.''
       llm_chat_with_image_schema (llm_chat_with_image net)"

definition llm_chat_with_audio_action where
  "llm_chat_with_audio_action net =
     mk_action ''chat-with-audio'' ''Chat with audio''
       (''Multimodal chat. Reads a local audio file and asks the model about it via OpenAI input_audio shape. ''
              @ ''Backend must accept audio in chat-completions (nemotron-omni, gpt-4o-audio, qwen2-audio, ...).'')
       llm_chat_with_audio_schema (llm_chat_with_audio net)"

definition llm_embed_action where
  "llm_embed_action net =
     mk_action ''embed'' ''Embeddings''
       ''Convert text to embedding vectors via the OpenAI /embeddings shape.''
       llm_embed_schema (llm_embed net)"

definition llm_transcribe_action where
  "llm_transcribe_action net =
     mk_action ''transcribe'' ''Transcribe audio''
       ''Speech-to-text via the OpenAI /audio/transcriptions shape. Multipart upload of an audio file.''
       llm_transcribe_schema (llm_transcribe net)"

definition llm_connector :: "('m cli_scheme) net \<Rightarrow> ('m cli_scheme, api_session) connector" where
  "llm_connector net =
     \<lparr>c_descriptor = \<lparr>d_name = ''llm'', d_display = ''LLM (OpenAI-compatible)'',
        d_description = ''Chat completions + embeddings + model list against any OpenAI-compatible endpoint.'',
        d_version = ''0.1.0'', d_categories = [''ai'']\<rparr>,
      c_credential = \<lparr>cs_kind = AuthAPIKey, cs_schema = llm_cred_schema, cs_presets = llm_presets, cs_defaults = llm_defaults,
        cs_validate = keep_values (llm_validate net)\<rparr>,
      c_actions =
[llm_list_models_action net, llm_chat_completion_action net, llm_chat_with_image_action net,
         llm_chat_with_audio_action net, llm_embed_action net, llm_transcribe_action net],
      c_triggers = [],
      c_open = open_with llm_client,
      c_close = (\<lambda>_ w. (Inr (), w))\<rparr>"

section \<open>Properties\<close>

text \<open>C35.
  A data URL holds the file: if a local image is turned into one, it is the media type of an image, and the text behind the
  comma decodes to the content of the file; anything that neither looks nor is named like an image is refused.
\<close>

theorem data_url_holds_file:
  "case image_to_data_url s path of
     Inr u \<Rightarrow>
       (\<exists>d mime e. os_read_file s path = Inr d \<and> image_mime path d = Some mime \<and> prefix ''image/'' mime \<and>
          u = ''data:'' @ mime @ '';base64,'' @ e \<and> b64_decode e = Some d)
   | Inl _ \<Rightarrow> (case os_read_file s path of Inl _ \<Rightarrow> True | Inr d \<Rightarrow> image_mime path d = None)"
proof (cases "os_read_file s path")
  case (Inl e)
  then show ?thesis by (simp add: image_to_data_url_def)
next
  case (Inr d)
  show ?thesis
  proof (cases "image_mime path d")
    case None
    then show ?thesis using Inr by (simp add: image_to_data_url_def)
  next
    case (Some mime)
    then have "prefix ''image/'' mime" by (auto simp: image_mime_def Let_def split: if_splits)
    then show ?thesis using Inr Some by (auto simp: image_to_data_url_def b64_decode_encode)
  qed
qed

end
