(* ===== verification/Whisper.thy ===== *)
theory Whisper
  imports Llm
begin

text \<open>
  The Whisper connector (\<open>connectors/whisper\<close>): transcription and translation of audio files by a dedicated server. The
  code repeats the upload and the reduced answer of \<open>connectors/llm\<close>, so they are shared here.
\<close>

definition wh_cred_schema :: schema where
  "wh_cred_schema =
     [(field ''api_base'' FieldString)\<lparr>f_label := ''API base URL'', f_required := True,
        f_description := ''/v1-rooted base URL of the Whisper server. e.g. http://192.168.1.125:8000/v1, https://api.openai.com/v1.''\<rparr>,
      (field ''api_key'' FieldSecret)\<lparr>f_label := ''API key (optional)'',
        f_description := ''Bearer token, if the server requires one. Most local servers (faster-whisper-server with defaults) ''
          @ ''don'' @ apos @ ''t.''\<rparr>,
      (field ''default_model'' FieldString)\<lparr>f_label := ''Default model (optional)'',
        f_description := ''Pre-fills the model param on transcribe/translate when omitted. e.g. Systran/faster-whisper-large-v3.''\<rparr>]"

definition wh_presets :: "preset list" where
  "wh_presets =
     [\<lparr>p_name = ''faster-whisper-server (local)'',
        p_description = ''http://localhost:8000/v1 '' @ em_dash @ '' Systran/faster-whisper-server default.'',
        p_values = [(''api_base'', GStr ''http://localhost:8000/v1'')]\<rparr>,
      \<lparr>p_name = ''OpenAI Whisper'', p_description = ''https://api.openai.com/v1 '' @ em_dash @ '' official; needs api_key.'',
        p_values = [(''api_base'', GStr ''https://api.openai.com/v1'')]\<rparr>,
      \<lparr>p_name = ''Custom'', p_description = ''Enter the server URL manually.'', p_values = []\<rparr>]"

definition wh_defaults :: "vals \<Rightarrow> vals" where
  "wh_defaults p = (case p ''api_base'' of Some (GStr u) \<Rightarrow> p(''api_base'' \<mapsto> GStr (trim_right u ''/'')) | _ \<Rightarrow> p)"

definition wh_client :: "credential \<Rightarrow> http_config res" where
  "wh_client c =
     (let base = trim_right (v_string (cr_values c) ''api_base'') ''/''; key = v_string (cr_values c) ''api_key''
      in if base = [] then Inl (ErrMsg ''api_base is empty'')
         else new_client \<lparr>hc_base = base, hc_headers = (if key = [] then [] else bearer key), hc_agent = [], hc_timeout = 600 * second\<rparr>)"

definition wh_validate :: "('m cli_scheme) net \<Rightarrow> credential \<Rightarrow> 'm cli_scheme \<Rightarrow> unit res \<times> 'm cli_scheme" where
  "wh_validate net c = probe_models net (wh_client c)"

definition wh_list_models :: "'w net \<Rightarrow> api_session \<Rightarrow> vals \<Rightarrow> 'w \<Rightarrow> gval res \<times> 'w" where
  "wh_list_models net s _ w = api_get net (sn_http s) dec_object ''/models'' [] w"

definition resolve_model :: "api_session \<Rightarrow> vals \<Rightarrow> string" where
  "resolve_model s p =
     (if v_string p ''model'' = [] then v_string (cr_values (sn_cred s)) ''default_model'' else v_string p ''model'')"

definition speech_action :: "('m cli_scheme) net \<Rightarrow> api_session \<Rightarrow> vals \<Rightarrow> string \<Rightarrow> string list \<Rightarrow> (string \<times> string) list \<Rightarrow> 'm cli_scheme \<Rightarrow>
    gval res \<times> 'm cli_scheme" where
  "speech_action net s p path ks extra w =
     (let model = resolve_model s p
      in if v_string p ''audio'' = [] then (Inl (ErrMsg ''audio is required''), w)
         else if model = [] then (Inl (ErrMsg ''model is required (or set default_model in the credential)''), w)
         else post_audio net s p path (speech_form p model ks @ extra) w)"

definition wh_transcribe_schema :: schema where
  "wh_transcribe_schema =
     [(field ''model'' FieldString)\<lparr>
        f_description := ''Model id. Defaults to default_model from the credential, if set.''\<rparr>,
      (field ''audio'' FieldString)\<lparr>f_required := True, f_is_path := True,
        f_description := ''Local path to audio file (mp3/wav/m4a/ogg/webm/flac). Subject to PGF_ALLOWED_PATHS.''\<rparr>,
      (field ''language'' FieldString)\<lparr>
        f_description := ''ISO-639-1 hint (en, de, fr, ...). Empty = auto-detect.''\<rparr>,
      (field ''prompt'' FieldLongText)\<lparr>
        f_description := ''Optional context to prime the model (proper nouns, jargon).''\<rparr>,
      (field ''temperature'' FieldString)\<lparr>
        f_description := ''0.0'' @ en_dash @ ''1.0. Empty = backend default.''\<rparr>,
      (field ''vad_filter'' FieldBool)\<lparr>f_default := Some (GBool False),
        f_description := ''faster-whisper-server extension: skip non-speech segments. OpenAI ignores.''\<rparr>,
      (field ''verbose'' FieldBool)\<lparr>f_default := Some (GBool False),
        f_description := ''Request verbose_json: segments + word timestamps when the backend supports.''\<rparr>,
      (field ''raw'' FieldBool)\<lparr>f_default := Some (GBool False),
        f_description := ''Return the full backend response instead of {text, ...}.''\<rparr>]"

definition wh_transcribe :: "('m cli_scheme) net \<Rightarrow> api_session \<Rightarrow> vals \<Rightarrow> 'm cli_scheme \<Rightarrow> gval res \<times> 'm cli_scheme" where
  "wh_transcribe net s params w =
     (let p = with_defaults params wh_transcribe_schema
      in speech_action net s p ''/audio/transcriptions'' [''language'', ''prompt'', ''temperature'']
           (if v_bool p ''vad_filter'' then [(''vad_filter'', ''true'')] else []) w)"

definition wh_translate_schema :: schema where
  "wh_translate_schema =
     [(field ''model'' FieldString)\<lparr>
        f_description := ''Model id. Defaults to default_model from the credential.''\<rparr>,
      (field ''audio'' FieldString)\<lparr>f_required := True, f_is_path := True,
        f_description := ''Local path to audio file. Subject to PGF_ALLOWED_PATHS.''\<rparr>,
      (field ''prompt'' FieldLongText)\<lparr>f_description := ''Optional priming context (English).''\<rparr>,
      (field ''temperature'' FieldString)\<lparr>
        f_description := ''0.0'' @ en_dash @ ''1.0. Empty = backend default.''\<rparr>,
      (field ''verbose'' FieldBool)\<lparr>f_default := Some (GBool False),
        f_description := ''Request verbose_json.''\<rparr>,
      (field ''raw'' FieldBool)\<lparr>f_default := Some (GBool False),
        f_description := ''Return the full backend response.''\<rparr>]"

definition wh_translate :: "('m cli_scheme) net \<Rightarrow> api_session \<Rightarrow> vals \<Rightarrow> 'm cli_scheme \<Rightarrow> gval res \<times> 'm cli_scheme" where
  "wh_translate net s params w =
     (let p = with_defaults params wh_translate_schema
      in speech_action net s p ''/audio/translations'' [''prompt'', ''temperature''] [] w)"

definition wh_list_models_action where
  "wh_list_models_action net =
     mk_action ''list-models'' ''List models''
       ''Available STT models on this endpoint.''
       [] (wh_list_models net)"

definition wh_transcribe_action where
  "wh_transcribe_action net =
     mk_action ''transcribe'' ''Transcribe audio''
       ''Speech-to-text. Multipart upload of an audio file to /audio/transcriptions.''
       wh_transcribe_schema (wh_transcribe net)"

definition wh_translate_action where
  "wh_translate_action net =
     mk_action ''translate'' ''Translate audio to English''
       ''Speech-to-English-text. Source language auto-detected. Multipart upload to /audio/translations.''
       wh_translate_schema (wh_translate net)"

definition whisper_connector :: "('m cli_scheme) net \<Rightarrow> ('m cli_scheme, api_session) connector" where
  "whisper_connector net =
     \<lparr>c_descriptor = \<lparr>d_name = ''whisper'', d_display = ''Whisper (speech-to-text)'',
        d_description = ''Dedicated STT connector for standalone Whisper servers (faster-whisper-server, whisper.cpp, ''
          @ ''vLLM-Whisper). OpenAI-shape /audio/transcriptions.'',
        d_version = ''0.1.0'', d_categories = [''ai'', ''audio'']\<rparr>,
      c_credential = \<lparr>cs_kind = AuthAPIKey, cs_schema = wh_cred_schema, cs_presets = wh_presets, cs_defaults = wh_defaults,
        cs_validate = keep_values (wh_validate net)\<rparr>,
      c_actions =
[wh_list_models_action net, wh_transcribe_action net, wh_translate_action net],
      c_triggers = [],
      c_open = open_with wh_client,
      c_close = (\<lambda>_ w. (Inr (), w))\<rparr>"

end
