(* ===== verification/GoDate.thy ===== *)
theory GoDate
  imports GoTime ApiConn
begin

text \<open>
  The text form of a \<open>time.Time\<close> inside JSON: RFC 3339 with nanoseconds, its parser, and the round trip for
  every time of the years 1 to 9999. The parser is the strict one; the deviations \<open>time.Parse\<close> tolerates
  (an hour of one digit, a comma before the fraction) are not read.
\<close>

section \<open>Dates\<close>

definition days_before_year :: "int \<Rightarrow> int" where
  "days_before_year y = 365 * (y - 1) + (y - 1) div 4 - (y - 1) div 100 + (y - 1) div 400"

definition civil_days :: "int \<Rightarrow> int \<Rightarrow> int \<Rightarrow> int" where
  "civil_days y m d = days_before_year y + sum_list (take (nat (m - 1)) (month_lengths y)) + d - 1"

lemma year_parts:
  assumes "0 \<le> b" "b \<le> 3" "0 \<le> c" "c \<le> 24" "0 \<le> e" "e \<le> 3"
  shows "days_before_year (400 * a + 100 * b + 4 * c + e + 1) = 146097 * a + 36524 * b + 1461 * c + 365 * (e :: int)"
proof -
  define z where "z = 400 * a + 100 * b + 4 * c + e"
  have "z = 4 * (100 * a + 25 * b + c) + e" "z = 100 * (4 * a + b) + (4 * c + e)" "z = 400 * a + (100 * b + 4 * c + e)"
    by (simp_all add: z_def)
  then have "z div 4 = 100 * a + 25 * b + c" "z div 100 = 4 * a + b" "z div 400 = a"
    using assms by simp_all
  then show ?thesis by (simp add: days_before_year_def z_def [symmetric]) (simp add: z_def)
qed

lemma civil_parts:
  assumes "r = days mod 146097" "b = min 3 (r div 36524)" "r100 = r - b * 36524" "c = r100 div 1461"
    and "r4 = r100 mod 1461" "e = min 3 (r4 div 365)" "yd = r4 - e * 365"
  shows "0 \<le> b \<and> b \<le> 3 \<and> 0 \<le> c \<and> c \<le> 24 \<and> 0 \<le> e \<and> e \<le> (3 :: int) \<and> 0 \<le> yd \<and> yd \<le> 365 \<and>
    r = 36524 * b + 1461 * c + 365 * e + yd \<and> (yd = 365 \<longrightarrow> e = 3 \<and> (c = 24 \<longrightarrow> b = 3))"
proof -
  have r: "0 \<le> r" "r \<le> 146096" using assms(1) by simp_all
  have b: "0 \<le> b" "b \<le> 3" using r assms(2) by (simp_all add: pos_imp_zdiv_nonneg_iff)
  have r100: "0 \<le> r100" "r100 \<le> 36524" "b < 3 \<longrightarrow> r100 \<le> 36523"
    using assms(2,3) r by (auto simp: min_def minus_div_mult_eq_mod split: if_splits)
  have r4: "r100 = 1461 * c + r4" "0 \<le> r4" "r4 \<le> 1460" using assms(4,5) by simp_all
  have c: "0 \<le> c" "c \<le> 24" using r4 r100 by linarith+
  have e: "0 \<le> e" "e \<le> 3" "e < 3 \<longrightarrow> e = r4 div 365" "e = 3 \<longrightarrow> 1095 \<le> r4"
    using assms(6) r4(2) by (auto simp: min_def pos_imp_zdiv_nonneg_iff split: if_splits)
  have yd: "0 \<le> yd" "yd \<le> 365" "yd = 365 \<longrightarrow> e = 3 \<and> r4 = 1460"
  proof -
    have m: "r4 = 365 * (r4 div 365) + r4 mod 365" "0 \<le> r4 mod 365" "r4 mod 365 \<le> 364" by simp_all
    have "e = 3 \<and> 1095 \<le> r4 \<or> e < 3 \<and> e = r4 div 365" using e by linarith
    then have "0 \<le> yd \<and> yd \<le> 365 \<and> (yd = 365 \<longrightarrow> e = 3 \<and> r4 = 1460)"
    proof
      assume "e = 3 \<and> 1095 \<le> r4"
      then show ?thesis using assms(7) r4(3) by simp
    next
      assume h: "e < 3 \<and> e = r4 div 365"
      then have "yd = r4 mod 365" using assms(7) m(1) by linarith
      with m h show ?thesis by simp
    qed
    then show "0 \<le> yd" "yd \<le> 365" "yd = 365 \<longrightarrow> e = 3 \<and> r4 = 1460" by blast+
  qed
  have "c = 24 \<longrightarrow> r4 = 1460 \<longrightarrow> b = 3" using r100 r4 b by linarith
  then show ?thesis using b c e(1,2) yd r4(1) assms(3,7) by (intro conjI) (linarith | blast)+
qed

lemma month_day_sum:
  assumes "0 \<le> d" "d < sum_list ls" "ls \<noteq> []" "month_day k ls d = (m, x)"
  shows "k \<le> m \<and> m < k + int (length ls) \<and> sum_list (take (nat (m - k)) ls) + x - 1 = d \<and> 1 \<le> x \<and> x \<le> ls ! nat (m - k)"
  using assms
proof (induction ls arbitrary: k d)
  case (Cons l ls)
  show ?case
  proof (cases "d < l")
    case True
    with Cons.prems show ?thesis by auto
  next
    case False
    then have ne: "ls \<noteq> []" using Cons.prems by auto
    with False Cons.prems have "month_day (k + 1) ls (d - l) = (m, x)" by simp
    then have ih: "k + 1 \<le> m \<and> m < k + 1 + int (length ls) \<and> sum_list (take (nat (m - (k + 1))) ls) + x - 1 = d - l \<and>
        1 \<le> x \<and> x \<le> ls ! nat (m - (k + 1))"
      using Cons.IH [of "d - l" "k + 1"] Cons.prems False ne by simp
    then have "nat (m - k) = Suc (nat (m - (k + 1)))" by arith
    with ih show ?thesis by simp
  qed
qed simp

text \<open>The date of a day, and the day of the date.\<close>

lemma civil_days_date:
  assumes "civil_date days = (y, m, d)"
  shows "civil_days y m d = days \<and> 1 \<le> m \<and> m \<le> 12 \<and> 1 \<le> d \<and> d \<le> month_lengths y ! nat (m - 1)"
proof -
  define r b r100 where "r = days mod 146097" and "b = min 3 (r div 36524)" and "r100 = r - b * 36524"
  define c r4 e where "c = r100 div 1461" and "r4 = r100 mod 1461" and "e = min 3 (r4 div 365)"
  define yd where "yd = r4 - e * 365"
  note p = civil_parts [OF r_def b_def r100_def c_def r4_def e_def yd_def]
  have y: "y = 400 * (days div 146097) + 100 * b + 4 * c + e + 1" and md: "month_day 1 (month_lengths y) yd = (m, d)"
    using assms unfolding civil_date_def Let_def r_def [symmetric] b_def [symmetric] r100_def [symmetric] c_def [symmetric]
      r4_def [symmetric] e_def [symmetric] yd_def [symmetric] by (auto split: prod.splits)
  have dy: "days_before_year y = 146097 * (days div 146097) + 36524 * b + 1461 * c + 365 * e"
    unfolding y by (rule year_parts) (use p in blast)+
  have leap: "yd = 365 \<longrightarrow> leap_year y"
  proof
    assume "yd = 365"
    then have e: "e = 3" "c = 24 \<longrightarrow> b = 3" using p by blast+
    have y4: "y = 4 * (100 * (days div 146097) + 25 * b + c + 1)" using e(1) y by simp
    have "y mod 100 \<noteq> 0 \<or> y mod 400 = 0"
    proof (cases "c = 24")
      case True
      then have "y = 400 * (days div 146097 + 1)" using e y by simp
      then show ?thesis by simp
    next
      case False
      then have c: "0 < 4 * c + 4" "4 * c + 4 < 100" using p by linarith+
      have yy: "y = (4 * c + 4) + (4 * (days div 146097) + b) * 100" using e(1) y by simp
      have "y mod 100 = 4 * c + 4" unfolding yy mod_mult_self1 using c by simp
      then show ?thesis using c by simp
    qed
    then show "leap_year y" using y4 by (simp add: leap_year_def)
  qed
  have len: "length (month_lengths y) = 12" and total: "sum_list (month_lengths y) = (if leap_year y then 366 else 365)"
    by (simp_all add: month_lengths_def)
  have yd: "0 \<le> yd" "yd \<le> 365" "days mod 146097 = 36524 * b + 1461 * c + 365 * e + yd" using p unfolding r_def by blast+
  have "yd < sum_list (month_lengths y)" using yd(1,2) leap by (cases "yd = 365") (simp_all add: total)
  then have "1 \<le> m \<and> m < 1 + int (length (month_lengths y)) \<and> sum_list (take (nat (m - 1)) (month_lengths y)) + d - 1 = yd \<and>
      1 \<le> d \<and> d \<le> month_lengths y ! nat (m - 1)"
    using month_day_sum [OF yd(1) _ _ md] len by force
  moreover have "days = 146097 * (days div 146097) + days mod 146097" by simp
  then have "days_before_year y + yd = days" using yd(3) dy by linarith
  ultimately show ?thesis unfolding civil_days_def len by linarith
qed

section \<open>The parser\<close>

definition time_field :: "string \<Rightarrow> int \<Rightarrow> int \<Rightarrow> int option" where
  "time_field t lo hi =
     (let v = int (digits_val 0 t) in if list_all is_digit t \<and> lo \<le> v \<and> v \<le> hi then Some v else None)"

definition nano_fraction :: "string \<Rightarrow> int \<times> string" where
  "nano_fraction s =
     (case s of
        c # t \<Rightarrow>
          (let ds = takeWhile is_digit t; ds9 = take 9 ds
           in if c = CHR ''.'' \<and> ds \<noteq> [] then (int (digits_val 0 ds9) * 10 ^ (9 - length ds9), dropWhile is_digit t) else (0, s))
      | [] \<Rightarrow> (0, s))"

text \<open>The offset of the zone in seconds; what is in place of its sign and colon has been compared with the template.\<close>

definition zone_offset :: "string \<Rightarrow> int option" where
  "zone_offset s =
     (if s = ''Z'' then Some 0
      else if length s \<noteq> 6 then None
      else case (time_field (take 2 (drop 1 s)) 0 23, time_field (drop 4 s) 0 59) of
        (Some hr, Some mm) \<Rightarrow>
          (if s ! 3 \<noteq> CHR '':'' then None
           else if s ! 0 = CHR ''-'' then Some (- (60 * (60 * hr + mm)))
           else if s ! 0 = CHR ''+'' then Some (60 * (60 * hr + mm)) else None)
      | _ \<Rightarrow> None)"

definition parse_rfc3339 :: "string \<Rightarrow> time option" where
  "parse_rfc3339 s =
     (if length s < 19 then None
      else case (time_field (take 4 s) 0 9999, time_field (take 2 (drop 5 s)) 1 12, time_field (take 2 (drop 11 s)) 0 23,
                 time_field (take 2 (drop 14 s)) 0 59, time_field (take 2 (drop 17 s)) 0 59) of
        (Some y, Some mo, Some h, Some mi, Some sec) \<Rightarrow>
          (case time_field (take 2 (drop 8 s)) 1 (month_lengths y ! nat (mo - 1)) of
             None \<Rightarrow> None
           | Some d \<Rightarrow>
               (if [s ! 4, s ! 7, s ! 10, s ! 13, s ! 16] \<noteq> ''--T::'' then None
                else
                  (let (ns, z) = nano_fraction (drop 19 s)
                   in map_option
                        (\<lambda>off. ((civil_days y mo d * 86400 + h * 3600 + mi * 60 + sec) - off) * 1000000000 + ns)
                        (zone_offset z))))
      | _ \<Rightarrow> None)"

text \<open>\<open>Time.MarshalJSON\<close> fails on a year of more than four digits, \<open>UnmarshalJSON\<close> leaves the zero time on null.\<close>

definition time_json :: "time \<Rightarrow> string option" where
  "time_json t =
     (let y = fst (civil_date (t div 1000000000 div 86400)) in if 0 \<le> y \<and> y \<le> 9999 then Some (json_quote (rfc3339 t)) else None)"

definition dec_time :: "gval \<Rightarrow> time option" where
  "dec_time v = (case v of GNil \<Rightarrow> Some 0 | GStr s \<Rightarrow> parse_rfc3339 s | _ \<Rightarrow> None)"

section \<open>The round trip\<close>

lemma pad_int_props:
  assumes "0 \<le> i" "i < 10 ^ n" "0 < n"
  shows "length (pad_int n i) = n \<and> list_all is_digit (pad_int n i) \<and> digits_val 0 (pad_int n i) = nat i"
proof -
  let ?k = "length (nat_digits (nat i))"
  have "?k \<le> n"
  proof (cases "nat i = 0")
    case True
    then show ?thesis using assms(3) by (simp add: nat_digits.simps [of 0])
  next
    case False
    have "nat i < 10 ^ n" using assms by (simp add: nat_less_iff)
    then have "10 ^ (?k - 1) < (10 :: nat) ^ n" using nat_digits_length [of "nat i"] False by linarith
    then show ?thesis by (simp add: power_strict_increasing_iff)
  qed
  moreover have "digits_val 0 (replicate k (CHR ''0'') @ t) = digits_val 0 t" for k t
    by (induction k) (simp_all add: digit_val_def)
  moreover have "is_digit (CHR ''0'')" by (simp add: is_digit_def)
  ultimately show ?thesis
    using nat_str_digits [of "nat i"]
    by (auto simp: pad_int_def Let_def nat_str_def digits_val_nat_str [unfolded nat_str_def] list_all_iff)
qed

lemma pad2: "0 \<le> i \<Longrightarrow> i < 100 \<Longrightarrow> \<exists>a b. pad_int 2 i = [a, b] \<and> is_digit a \<and> is_digit b \<and> digits_val 0 [a, b] = nat i"
  using pad_int_props [of i 2] by (auto simp: numeral_2_eq_2 length_Suc_conv simp del: digits_val.simps)

lemma pad4:
  assumes "0 \<le> i" "i < 10000"
  shows "\<exists>a b c d. pad_int 4 i = [a, b, c, d] \<and> list_all is_digit [a, b, c, d] \<and> digits_val 0 [a, b, c, d] = nat i"
proof -
  have p: "length (pad_int 4 i) = Suc (Suc (Suc (Suc 0))) \<and> list_all is_digit (pad_int 4 i) \<and> digits_val 0 (pad_int 4 i) = nat i"
    using pad_int_props [of i 4] assms by simp
  then obtain a b c d where "pad_int 4 i = [a, b, c, d]" by (auto simp: length_Suc_conv)
  with p show ?thesis by metis
qed

lemma time_field_some: "list_all is_digit t \<Longrightarrow> digits_val 0 t = nat i \<Longrightarrow> lo \<le> i \<Longrightarrow> i \<le> hi \<Longrightarrow> 0 \<le> i \<Longrightarrow> time_field t lo hi = Some i"
  by (simp add: time_field_def)

text \<open>The fraction without its trailing zeros.\<close>

lemma trim_zeros: "trim_right s ''0'' @ replicate (length s - length (trim_right s ''0'')) (CHR ''0'') = s"
proof -
  define P where "P = (\<lambda>c. c \<in> set ''0'')"
  define zs where "zs = takeWhile P (rev s)"
  have t: "trim_right s ''0'' = rev (dropWhile P (rev s))" by (simp add: trim_right_def P_def)
  have split: "trim_right s ''0'' @ rev zs = s"
    unfolding t zs_def by (simp add: rev_append [symmetric] del: rev_append)
  then have len: "length s - length (trim_right s ''0'') = length zs" by (metis add_diff_cancel_left' length_append length_rev)
  have "rev zs = replicate (length zs) (CHR ''0'')"
    by (rule replicate_eqI) (auto simp: zs_def P_def dest: set_takeWhileD)
  then show ?thesis using split len by simp
qed

lemma digits_zeros: "digits_val 0 (ds @ replicate k (CHR ''0'')) = digits_val 0 ds * 10 ^ k"
proof -
  have "digits_val a (replicate k (CHR ''0'')) = a * 10 ^ k" for a
    by (induction k arbitrary: a) (simp_all add: digit_val_def)
  then show ?thesis by (simp add: digits_val_append)
qed

lemma nano_fraction_trim:
  assumes "0 \<le> ns" "ns < 1000000000"
  shows "nano_fraction ((if trim_right (pad_int 9 ns) ''0'' = [] then [] else CHR ''.'' # trim_right (pad_int 9 ns) ''0'') @ ''Z'') = (ns, ''Z'')"
proof -
  let ?p = "pad_int 9 ns" and ?f = "trim_right (pad_int 9 ns) ''0''"
  have p: "length ?p = 9" "list_all is_digit ?p" "digits_val 0 ?p = nat ns" using pad_int_props [of ns 9] assms by simp_all
  have split: "?f @ replicate (9 - length ?f) (CHR ''0'') = ?p" using trim_zeros [of ?p] p(1) by simp
  have len: "length ?f \<le> 9" using prefix_length_le [OF trim_right_prefix [of ?p]] p(1) by simp
  have dig: "list_all is_digit ?f" using p(2) split by (metis list_all_append)
  have val: "int (digits_val 0 ?f) * 10 ^ (9 - length ?f) = ns"
  proof -
    have "digits_val 0 ?f * 10 ^ (9 - length ?f) = nat ns" using digits_zeros [of ?f "9 - length ?f"] split p(3) by simp
    then have "int (digits_val 0 ?f * 10 ^ (9 - length ?f)) = ns" using assms by simp
    then show ?thesis by simp
  qed
  have z: "\<not> is_digit (CHR ''Z'')" by (simp add: is_digit_def)
  show ?thesis
  proof (cases "?f = []")
    case True
    then show ?thesis using val by (simp add: nano_fraction_def)
  next
    case False
    have "takeWhile is_digit (?f @ ''Z'') = ?f" "dropWhile is_digit (?f @ ''Z'') = ''Z''"
      using dig z by (simp_all add: list_all_iff)
    with False val len show ?thesis by (simp add: nano_fraction_def Let_def)
  qed
qed

text \<open>The last instant of the year 9999 and the first of the year 1 bound the times with a text.\<close>

definition text_time :: "time \<Rightarrow> bool" where
  "text_time t = (let y = fst (civil_date (t div 1000000000 div 86400)) in 0 \<le> y \<and> y \<le> 9999)"

lemma parse_rfc3339_fields:
  assumes "time_field [y1, y2, y3, y4] 0 9999 = Some y" "time_field [a1, a2] 1 12 = Some mo"
    and "time_field [b1, b2] 1 (month_lengths y ! nat (mo - 1)) = Some d" "time_field [c1, c2] 0 23 = Some h"
    and "time_field [d1, d2] 0 59 = Some mi" "time_field [e1, e2] 0 59 = Some sec"
    and "nano_fraction z = (ns, ''Z'')"
  shows "parse_rfc3339 ([y1, y2, y3, y4] @ ''-'' @ [a1, a2] @ ''-'' @ [b1, b2] @ ''T'' @ [c1, c2] @ '':'' @ [d1, d2] @ '':'' @ [e1, e2] @ z)
    = Some ((civil_days y mo d * 86400 + h * 3600 + mi * 60 + sec) * 1000000000 + ns)"
  using assms by (simp add: parse_rfc3339_def zone_offset_def)

lemma time_split:
  fixes t :: int
  assumes "s = t div 1000000000" "sod = s mod 86400"
  shows "(s div 86400 * 86400 + sod div 3600 * 3600 + sod div 60 mod 60 * 60 + sod mod 60) * 1000000000 + t mod 1000000000 = t"
proof -
  have "sod = 60 * (sod div 60) + sod mod 60" "sod div 60 = 60 * (sod div 60 div 60) + sod div 60 mod 60" by simp_all
  moreover have "sod div 60 div 60 = sod div 3600" using zdiv_zmult2_eq [of 60 sod 60] by simp
  ultimately have "sod = sod div 3600 * 3600 + sod div 60 mod 60 * 60 + sod mod 60" by linarith
  moreover have "s = s div 86400 * 86400 + sod" by (simp add: assms(2))
  moreover have "t = s * 1000000000 + t mod 1000000000" by (simp add: assms(1))
  ultimately have "s div 86400 * 86400 + sod div 3600 * 3600 + sod div 60 mod 60 * 60 + sod mod 60 = s" by linarith
  then show ?thesis using \<open>t = s * 1000000000 + t mod 1000000000\<close> by simp
qed

lemma month_length_bound: "0 \<le> k \<Longrightarrow> k < 12 \<Longrightarrow> month_lengths y ! nat k \<le> 31"
proof -
  assume k: "0 \<le> k" "k < 12"
  have "length (month_lengths y) = 12" "\<forall>x\<in>set (month_lengths y). x \<le> 31" by (simp_all add: month_lengths_def)
  moreover from this k have "month_lengths y ! nat k \<in> set (month_lengths y)" by (intro nth_mem) simp
  ultimately show ?thesis by blast
qed

theorem parse_rfc3339_text:
  assumes "text_time t"
  shows "parse_rfc3339 (rfc3339 t) = Some t"
proof -
  define s sod ns where "s = t div 1000000000" and "sod = s mod 86400" and "ns = t mod 1000000000"
  obtain y m d where c: "civil_date (s div 86400) = (y, m, d)" by (cases "civil_date (s div 86400)") auto
  have y: "0 \<le> y" "y \<le> 9999" using assms c by (auto simp: text_time_def s_def Let_def)
  have md: "civil_days y m d = s div 86400" "1 \<le> m" "m \<le> 12" "1 \<le> d" "d \<le> month_lengths y ! nat (m - 1)"
    using civil_days_date [OF c] by simp_all
  have d31: "d \<le> 31" using md month_length_bound [of "m - 1" y] by linarith
  have sod: "0 \<le> sod" "sod < 86400" and ns: "0 \<le> ns" "ns < 1000000000" by (simp_all add: sod_def ns_def)
  have hr: "0 \<le> sod div 3600" "sod div 3600 \<le> 23" using sod by (simp_all add: pos_imp_zdiv_nonneg_iff)
  have mi: "0 \<le> sod div 60 mod 60" "sod div 60 mod 60 \<le> 59" and se: "0 \<le> sod mod 60" "sod mod 60 \<le> 59" by simp_all
  obtain y1 y2 y3 y4 where Y: "pad_int 4 y = [y1, y2, y3, y4]" "list_all is_digit [y1, y2, y3, y4]" "digits_val 0 [y1, y2, y3, y4] = nat y"
    using pad4 [of y] y by auto
  have two: "\<exists>a b. pad_int 2 i = [a, b] \<and> (\<forall>lo hi. lo \<le> i \<longrightarrow> i \<le> hi \<longrightarrow> time_field [a, b] lo hi = Some i)"
    if i: "0 \<le> i" "i < 100" for i
  proof -
    obtain a b where "pad_int 2 i = [a, b]" "is_digit a" "is_digit b" "digits_val 0 [a, b] = nat i"
      using pad2 [OF i] by blast
    then show ?thesis using i(1) time_field_some [of "[a, b]" i] by (intro exI [of _ a] exI [of _ b]) (simp del: digits_val.simps)
  qed
  obtain a1 a2 where A: "pad_int 2 m = [a1, a2]" "time_field [a1, a2] 1 12 = Some m" using two [of m] md by auto
  obtain b1 b2 where B: "pad_int 2 d = [b1, b2]" "time_field [b1, b2] 1 (month_lengths y ! nat (m - 1)) = Some d"
    using two [of d] md d31 by auto
  obtain c1 c2 where C: "pad_int 2 (sod div 3600) = [c1, c2]" "time_field [c1, c2] 0 23 = Some (sod div 3600)" using two [of "sod div 3600"] hr by auto
  obtain d1 d2 where D: "pad_int 2 (sod div 60 mod 60) = [d1, d2]" "time_field [d1, d2] 0 59 = Some (sod div 60 mod 60)"
    using two [of "sod div 60 mod 60"] mi by auto
  obtain e1 e2 where E: "pad_int 2 (sod mod 60) = [e1, e2]" "time_field [e1, e2] 0 59 = Some (sod mod 60)" using two [of "sod mod 60"] se by auto
  have F: "time_field [y1, y2, y3, y4] 0 9999 = Some y" by (rule time_field_some) (use Y y in auto)
  have "parse_rfc3339 (rfc3339 t) =
      Some ((civil_days y m d * 86400 + sod div 3600 * 3600 + sod div 60 mod 60 * 60 + sod mod 60) * 1000000000 + ns)"
    using parse_rfc3339_fields [OF F A(2) B(2) C(2) D(2) E(2) nano_fraction_trim [OF ns]]
    by (simp add: rfc3339_def Let_def s_def [symmetric] sod_def [symmetric] ns_def [symmetric] c Y(1) A(1) B(1) C(1) D(1) E(1))
  then show ?thesis using time_split [OF s_def sod_def] by (simp add: md(1) ns_def)
qed

end
