(* ===== verification/JsonText.thy ===== *)
theory JsonText
  imports ApiConn GoFloat
begin

text \<open>
  The text \<open>json.Marshal\<close> gives a struct, which lists its fields in their order, and the proof that the
  decoder reads such a text back: a relation between texts and values with a rule for each form of value,
  so that a client shows with a few rules that what it wrote can be read.
\<close>

section \<open>Structs as text\<close>

definition json_fields :: "(string \<times> string) list \<Rightarrow> string" where
  "json_fields kts = join_with '','' (map (\<lambda>(k, t). json_quote k @ '':'' @ t) kts)"

definition json_object :: "(string \<times> string) list \<Rightarrow> string" where
  "json_object kts = [CHR 0x7B] @ json_fields kts @ [CHR 0x7D]"

definition json_array :: "string list \<Rightarrow> string" where
  "json_array ts = ''['' @ join_with '','' ts @ '']''"

text \<open>A field with \<open>omitempty\<close>; a nil slice is null.\<close>

definition omit_empty :: "string \<Rightarrow> string \<Rightarrow> (string \<times> string) list" where
  "omit_empty k s = (if s = [] then [] else [(k, json_quote s)])"

section \<open>Reading back\<close>

definition value_end :: "string \<Rightarrow> bool" where
  "value_end r = (case r of [] \<Rightarrow> True | c # _ \<Rightarrow> c = CHR '','' \<or> c = CHR '']'' \<or> c = CHR 0x7D)"

definition json_reads :: "string \<Rightarrow> gval \<Rightarrow> bool" where
  "json_reads t v =
     (t \<noteq> [] \<and> hd t \<notin> set (CHR '']'' # CHR 0x7D # json_ws) \<and>
      (\<forall>n r. length t \<le> n \<longrightarrow> value_end r \<longrightarrow> json_value n (t @ r) = Some (v, r)))"

lemma skip_ws_plain: "c \<notin> set json_ws \<Longrightarrow> skip_ws (c # s) = c # s"
  by (simp add: skip_ws_def)

lemma skip_ws_marks [simp]:
  "skip_ws (CHR '','' # s) = CHR '','' # s" "skip_ws (CHR '']'' # s) = CHR '']'' # s"
  "skip_ws (CHR 0x7D # s) = CHR 0x7D # s" "skip_ws (CHR '':'' # s) = CHR '':'' # s"
  "skip_ws (CHR 0x22 # s) = CHR 0x22 # s" "skip_ws (CHR ''['' # s) = CHR ''['' # s" "skip_ws (CHR 0x7B # s) = CHR 0x7B # s"
  "skip_ws (CHR ''t'' # s) = CHR ''t'' # s" "skip_ws (CHR ''f'' # s) = CHR ''f'' # s" "skip_ws (CHR ''n'' # s) = CHR ''n'' # s"
  by (simp_all add: skip_ws_def json_ws_def)

lemma json_readsI:
  assumes "t \<noteq> []" "hd t \<notin> set (CHR '']'' # CHR 0x7D # json_ws)"
    and "\<And>n r. length t \<le> Suc n \<Longrightarrow> value_end r \<Longrightarrow> json_value (Suc n) (t @ r) = Some (v, r)"
  shows "json_reads t v"
  unfolding json_reads_def
proof (intro conjI allI impI)
  fix n r assume "length t \<le> n" "value_end r"
  with assms(1) obtain m where "n = Suc m" by (cases n) auto
  with assms(3) \<open>length t \<le> n\<close> \<open>value_end r\<close> show "json_value n (t @ r) = Some (v, r)" by blast
qed (use assms in auto)

lemma json_readsD: "json_reads t v \<Longrightarrow> length t \<le> n \<Longrightarrow> value_end r \<Longrightarrow> json_value n (t @ r) = Some (v, r)"
  by (simp add: json_reads_def)

lemma json_reads_head:
  assumes "json_reads t v"
  obtains c cs where "t = c # cs" "c \<noteq> CHR '']''" "c \<noteq> CHR 0x7D" "\<And>s. skip_ws (c # s) = c # s"
  using assms by (cases t) (auto simp: json_reads_def skip_ws_def)

lemma json_quote_read:
  "json_string (Suc (length (concat (map json_escape s) @ CHR 0x22 # r))) (concat (map json_escape s) @ CHR 0x22 # r) = Some (s, r)"
  by (rule json_string_quoted) (use json_escape_length [of s] in simp)

lemma json_reads_quote: "json_reads (json_quote s) (GStr s)"
proof (rule json_readsI)
  fix n r
  show "json_value (Suc n) (json_quote s @ r) = Some (GStr s, r)"
    using json_quote_read [of s r] by (simp add: json_quote_def del: json_string.simps)
qed (simp_all add: json_quote_def json_ws_def)

lemma json_reads_bool: "json_reads (bool_str b) (GBool b)"
  by (rule json_readsI; cases b) (simp_all add: bool_str_def json_ws_def)

lemma json_reads_null: "json_reads ''null'' GNil"
  by (rule json_readsI) (simp_all add: json_ws_def)

section \<open>Numbers\<close>

lemma take_digits_end:
  assumes "list_all is_digit ds" "value_end r"
  shows "take_digits (ds @ r) = (ds, r)"
proof -
  have "takeWhile is_digit r = [] \<and> dropWhile is_digit r = r"
    using assms(2) by (cases r) (auto simp: value_end_def is_digit_def)
  then show ?thesis using assms(1) by (simp add: take_digits_def takeWhile_append2 dropWhile_append2 list_all_iff)
qed

lemma float_of_dec_exists:
  assumes "n < 2 ^ 900"
  shows "\<exists>x. float_of_dec neg n 0 = Some x"
proof (cases "n = 0")
  case False
  then have n: "0 < n" by simp
  have "2 ^ (bit_length n - 1) < (2::nat) ^ 900"
    using bit_length_bounds [OF n] assms by (meson le_less_trans)
  then have "bit_length n \<le> 900" by (simp only: power_strict_increasing_iff)
  moreover have "bit_length 1 = 1" by (simp add: bit_length.simps)
  ultimately have "\<exists>m e. float_of_ratio neg n 1 = Some (FNum neg m e) \<and> 0 < m \<and>
      \<bar>real m * 2 powi e - real n / real (1::nat)\<bar> \<le> real n / real (1::nat) / 9007199254740992"
    by (intro float_of_ratio_error) (use n in simp_all)
  with False show ?thesis by (auto simp: float_of_dec_def)
qed (simp add: float_of_dec_def)

text \<open>Integers below \<open>2 ^ 53\<close> are doubles, so they are read back exactly.\<close>

lemma float_of_dec_small:
  assumes "0 < n" "n < 2 ^ 53"
  shows "\<exists>k. float_of_dec neg n 0 = Some (FNum neg (n * 2 ^ k) (- int k))"
proof -
  define L where "L = bit_length n"
  have L: "2 ^ (L - 1) \<le> n" "n < 2 ^ L" "0 < L" using bit_length_bounds [OF assms(1)] by (simp_all add: L_def)
  have "(2::nat) ^ (L - 1) < 2 ^ 53" using L(1) assms(2) by linarith
  then have "L - 1 < 53" by (rule power_less_imp_less_exp [rotated]) simp
  then have L53: "L \<le> 53" by simp
  have one: "bit_length 1 = 1" by (simp add: bit_length.simps)
  have e1: "max (- 1074) (int L - int (bit_length 1) - 53) = int L - 54" using L53 L(3) one by simp
  have "(2::nat) ^ 53 = 2 ^ (L - 1) * 2 ^ (54 - L)" using L53 L(3) by (simp add: power_add [symmetric])
  moreover have "2 ^ (L - 1) * 2 ^ (54 - L) \<le> n * 2 ^ (54 - L)" using L(1) by (rule mult_le_mono1)
  ultimately have big: "(9007199254740992::nat) \<le> n * 2 ^ (54 - L)" by simp
  have "n * 2 ^ (53 - L) < 2 ^ L * 2 ^ (53 - L)" using L(2) by simp
  also have "\<dots> = 2 ^ 53" using L53 by (simp add: power_add [symmetric])
  finally have m: "n * 2 ^ (53 - L) \<noteq> 9007199254740992" "n * 2 ^ (53 - L) \<noteq> 0" using assms(1) by simp_all
  define g where "g = 53 - L"
  have h: "int L - 54 + 1 = - int g" "- (int L - 54) = 1 + int g" "nat (int L - 54) = 0" "54 - L = Suc g" "53 - L = g"
    using L53 by (simp_all add: g_def)
  have big': "9007199254740992 * 1 * 2 ^ nat (int L - 54) \<le> n * 2 ^ nat (- (int L - 54))"
    using big unfolding h(2-4) by (simp add: nat_add_distrib)
  have mm: "round_ratio (n * 2 ^ nat (- (int L - 54 + 1))) (1 * 2 ^ nat (int L - 54 + 1)) = n * 2 ^ (53 - L)"
    unfolding h(1,5) by (simp add: round_ratio_def)
  have lim: "\<not> 971 < int L - 54 + 1" using L53 by simp
  have "float_of_ratio neg n 1 = Some (FNum neg (n * 2 ^ (53 - L)) (int L - 54 + 1))"
    unfolding float_of_ratio_def L_def [symmetric] Let_def
    by (simp only: e1 if_P [OF big'] mm m if_False prod.case lim)
  then have "float_of_ratio neg n 1 = Some (FNum neg (n * 2 ^ (53 - L)) (- int (53 - L)))" unfolding h .
  with assms(1) show ?thesis by (auto simp: float_of_dec_def)
qed

lemma float_int_dec:
  assumes "n < 2 ^ 53" "float_of_dec neg n 0 = Some x"
  shows "float_int x = Some (if neg then - int n else int n)"
proof (cases "n = 0")
  case True
  with assms(2) show ?thesis by (auto simp: float_of_dec_def float_int_def int64_range_def min_int64_def max_int64_def)
next
  case False
  then obtain k where x: "x = FNum neg (n * 2 ^ k) (- int k)" using float_of_dec_small [of n neg] assms by auto
  have "int64_range (- int n)" "int64_range (int n)"
    using assms(1) by (simp_all add: int64_range_def min_int64_def max_int64_def)
  then show ?thesis by (cases "k = 0") (simp_all add: x float_int_def Let_def)
qed

lemma json_reads_digits:
  assumes "ds \<noteq> []" "list_all is_digit ds" "hd ds = CHR ''0'' \<longrightarrow> tl ds = []"
    and "float_of_dec neg (digits_val 0 ds) 0 = Some x"
  shows "json_reads ((if neg then ''-'' else []) @ ds) (GFloat x)"
proof (rule json_readsI)
  obtain d ds' where ds: "ds = d # ds'" using assms(1) by (cases ds) auto
  then have d: "is_digit d" using assms(2) by simp
  then have ne: "d \<noteq> CHR ''-''" "d \<notin> set json_ws" "d \<noteq> CHR 0x22" "d \<noteq> CHR ''[''" "d \<noteq> CHR 0x7B"
    "d \<noteq> CHR ''t''" "d \<noteq> CHR ''f''" "d \<noteq> CHR ''n''" "d \<noteq> CHR '']''" "d \<noteq> CHR 0x7D"
    by (auto simp: is_digit_def json_ws_def)
  show "hd ((if neg then ''-'' else []) @ ds) \<notin> set (CHR '']'' # CHR 0x7D # json_ws)"
    using ne by (auto simp: ds json_ws_def)
  fix n r assume "value_end r"
  then have t: "take_digits (ds @ r) = (ds, r)" by (rule take_digits_end [OF assms(2)])
  have num: "json_number ((if neg then ''-'' else []) @ ds @ r) = Some (GFloat x, r)"
  proof (cases r)
    case Nil
    with ne(1) assms t show ?thesis by (cases neg) (simp_all add: json_number_def ds)
  next
    case (Cons c r')
    with \<open>value_end r\<close> have "c \<noteq> CHR ''.''" "c \<noteq> CHR ''e''" "c \<noteq> CHR ''E''" by (auto simp: value_end_def)
    with Cons ne(1) assms t show ?thesis by (cases neg) (simp_all add: json_number_def ds)
  qed
  show "json_value (Suc n) (((if neg then ''-'' else []) @ ds) @ r) = Some (GFloat x, r)"
  proof (cases neg)
    case True
    have "skip_ws (CHR ''-'' # s) = CHR ''-'' # s" for s by (simp add: skip_ws_def json_ws_def)
    with True num show ?thesis by (simp del: json_string.simps)
  next
    case False
    with num ne show ?thesis by (simp add: ds skip_ws_plain del: json_string.simps)
  qed
qed (use assms in simp)

lemma json_reads_itoa:
  assumes "\<bar>i\<bar> < 2 ^ 900"
  shows "\<exists>x. json_reads (itoa i) (GFloat x)"
proof -
  have "nat \<bar>i\<bar> < 2 ^ 900" using assms by (simp add: nat_less_iff)
  then obtain x where x: "float_of_dec (i < 0) (nat \<bar>i\<bar>) 0 = Some x" using float_of_dec_exists by blast
  have "json_reads ((if i < 0 then ''-'' else []) @ nat_str (nat \<bar>i\<bar>)) (GFloat x)"
    by (rule json_reads_digits)
      (use x nat_str_lead [of "nat \<bar>i\<bar>"] in \<open>simp_all add: digits_val_nat_str nat_str_digits\<close>)
  then show ?thesis by (auto simp: itoa_def split: if_splits)
qed

lemma json_reads_int:
  assumes "\<bar>i\<bar> < 2 ^ 53"
  shows "\<exists>x. json_reads (itoa i) (GFloat x) \<and> float_int x = Some i"
proof -
  have n: "nat \<bar>i\<bar> < 2 ^ 53" using assms by (simp add: nat_less_iff)
  have "nat \<bar>i\<bar> < 2 ^ 900" using n by (rule less_trans) simp
  then obtain x where x: "float_of_dec (i < 0) (nat \<bar>i\<bar>) 0 = Some x" using float_of_dec_exists by blast
  have "json_reads ((if i < 0 then ''-'' else []) @ nat_str (nat \<bar>i\<bar>)) (GFloat x)"
    by (rule json_reads_digits)
      (use x nat_str_lead [of "nat \<bar>i\<bar>"] in \<open>simp_all add: digits_val_nat_str nat_str_digits\<close>)
  then show ?thesis using float_int_dec [OF n x] by (auto simp: itoa_def split: if_splits)
qed

section \<open>Arrays and objects\<close>

lemma json_items_reads:
  assumes "list_all2 json_reads ts vs" "ts \<noteq> []"
  shows "length (join_with '','' ts) < n \<Longrightarrow> json_items n acc (join_with '','' ts @ CHR '']'' # r) = Some (GList (acc @ vs), r)"
  using assms
proof (induction ts vs arbitrary: n acc rule: list_all2_induct)
  case (Cons t ts v vs)
  obtain m where n: "n = Suc m" using Cons.prems(1) by (cases n) auto
  show ?case
  proof (cases "ts = []")
    case True
    then have "vs = []" using Cons.hyps(2) by simp
    have "json_value m (t @ CHR '']'' # r) = Some (v, CHR '']'' # r)"
      by (rule json_readsD [OF Cons.hyps(1)]) (use Cons.prems n True in \<open>simp_all add: value_end_def\<close>)
    with True n \<open>vs = []\<close> show ?thesis by simp
  next
    case False
    let ?rest = "join_with '','' ts @ CHR '']'' # r"
    have "json_value m (t @ CHR '','' # ?rest) = Some (v, CHR '','' # ?rest)"
      by (rule json_readsD [OF Cons.hyps(1)]) (use Cons.prems n False in \<open>simp_all add: value_end_def join_with_Cons\<close>)
    moreover have "json_items m (acc @ [v]) ?rest = Some (GList ((acc @ [v]) @ vs), r)"
      by (rule Cons.IH) (use Cons.prems n False in \<open>simp_all add: join_with_Cons\<close>)
    ultimately show ?thesis using False n by (simp add: join_with_Cons)
  qed
qed simp

lemma json_reads_array:
  assumes "list_all2 json_reads ts vs"
  shows "json_reads (json_array ts) (GList vs)"
proof (rule json_readsI)
  fix n r assume l: "length (json_array ts) \<le> Suc n" and "value_end r"
  show "json_value (Suc n) (json_array ts @ r) = Some (GList vs, r)"
  proof (cases "ts = []")
    case True
    with assms show ?thesis by (simp add: json_array_def)
  next
    case False
    then obtain t ts' v vs' where ts: "ts = t # ts'" "vs = v # vs'" "json_reads t v"
      using assms by (cases ts; cases vs) auto
    obtain c cs where t: "t = c # cs" "c \<noteq> CHR '']''" "\<And>s. skip_ws (c # s) = c # s"
      using json_reads_head [OF ts(3)] by metis
    have "json_items n [] (join_with '','' ts @ CHR '']'' # r) = Some (GList ([] @ vs), r)"
      by (rule json_items_reads [OF assms False]) (use l in \<open>simp add: json_array_def\<close>)
    moreover have "\<exists>x. join_with '','' ts = c # x" using ts t by (cases ts') simp_all
    ultimately show ?thesis using t by (auto simp: json_array_def)
  qed
qed (simp_all add: json_array_def json_ws_def)

lemma json_members_field:
  assumes "json_reads t v" "length (json_quote k @ '':'' @ t) \<le> Suc m" "value_end r"
  shows "json_members (Suc m) acc (json_quote k @ '':'' @ t @ r) =
    (case skip_ws r of
       d # ds \<Rightarrow> (if d = CHR '','' then json_members m (obj_put k v acc) ds
                 else if d = CHR 0x7D then Some (GMap (obj_put k v acc), ds) else None)
     | [] \<Rightarrow> None)"
proof -
  have "json_value m (t @ r) = Some (v, r)"
    by (rule json_readsD [OF assms(1)]) (use assms(2,3) in \<open>simp_all add: json_quote_def\<close>)
  moreover have "json_quote k @ '':'' @ t @ r = CHR 0x22 # concat (map json_escape k) @ CHR 0x22 # CHR '':'' # t @ r"
    by (simp add: json_quote_def)
  ultimately show ?thesis
    using json_quote_read [of k "CHR '':'' # t @ r"] by (simp del: json_string.simps)
qed

lemma obj_put_new: "k \<notin> fst ` set acc \<Longrightarrow> obj_put k v acc = acc @ [(k, v)]"
  by (simp add: obj_put_def)

definition field_reads :: "string \<times> string \<Rightarrow> string \<times> gval \<Rightarrow> bool" where
  "field_reads kt kv = (fst kt = fst kv \<and> json_reads (snd kt) (snd kv))"

lemma json_fields_Cons:
  "ts \<noteq> [] \<Longrightarrow> json_fields ((k, t) # ts) = json_quote k @ '':'' @ t @ '','' @ json_fields ts"
  by (simp add: json_fields_def join_with_Cons)

lemma json_members_reads:
  assumes "list_all2 field_reads kts kvs" "kts \<noteq> []"
  shows "length (json_fields kts) < n \<Longrightarrow> distinct (map fst kvs) \<Longrightarrow> fst ` set acc \<inter> fst ` set kvs = {} \<Longrightarrow>
    json_members n acc (json_fields kts @ CHR 0x7D # r) = Some (GMap (acc @ kvs), r)"
  using assms
proof (induction kts kvs arbitrary: n acc rule: list_all2_induct)
  case (Cons kt kts kv kvs)
  obtain m where n: "n = Suc m" using Cons.prems(1) by (cases n) auto
  obtain k t v where kt: "kt = (k, t)" "kv = (k, v)" "json_reads t v"
    using Cons.hyps(1) by (cases kt; cases kv) (auto simp: field_reads_def)
  have new: "obj_put k v acc = acc @ [(k, v)]" using Cons.prems(3) kt by (simp add: obj_put_new)
  show ?case
  proof (cases "kts = []")
    case True
    then have "kvs = []" using Cons.hyps(2) by simp
    with True kt n new Cons.prems(1) show ?thesis
      using json_members_field [OF kt(3), of k m "CHR 0x7D # r" acc] by (simp add: json_fields_def value_end_def)
  next
    case False
    let ?rest = "json_fields kts @ CHR 0x7D # r"
    have "json_members m (acc @ [(k, v)]) ?rest = Some (GMap ((acc @ [(k, v)]) @ kvs), r)"
      by (rule Cons.IH) (use Cons.prems n False kt in \<open>auto simp: json_fields_Cons\<close>)
    then show ?thesis
      using False kt n new Cons.prems(1) json_members_field [OF kt(3), of k m "CHR '','' # ?rest" acc]
      by (simp add: json_fields_Cons value_end_def)
  qed
qed simp

lemma json_reads_object:
  assumes "list_all2 field_reads kts kvs" "distinct (map fst kvs)"
  shows "json_reads (json_object kts) (GMap kvs)"
proof (rule json_readsI)
  fix n r assume l: "length (json_object kts) \<le> Suc n" and "value_end r"
  show "json_value (Suc n) (json_object kts @ r) = Some (GMap kvs, r)"
  proof (cases "kts = []")
    case True
    with assms show ?thesis by (simp add: json_object_def json_fields_def)
  next
    case False
    have "json_members n [] (json_fields kts @ CHR 0x7D # r) = Some (GMap ([] @ kvs), r)"
      by (rule json_members_reads [OF assms(1) False]) (use l assms(2) in \<open>simp_all add: json_object_def\<close>)
    moreover have "\<exists>x. json_fields kts = CHR 0x22 # x"
      using False by (cases kts; cases "tl kts") (auto simp: json_fields_def json_quote_def)
    ultimately show ?thesis by (auto simp: json_object_def)
  qed
qed (simp_all add: json_object_def json_ws_def)

lemma json_reads_unmarshal:
  assumes "json_reads t v"
  shows "json_unmarshal t = Some v"
proof -
  have "json_value (2 * length t + 2) (t @ []) = Some (v, [])"
    by (rule json_readsD [OF assms]) (simp_all add: value_end_def)
  moreover have "skip_ws [] = []" by (simp add: skip_ws_def)
  ultimately show ?thesis by (simp add: json_unmarshal_def json_decode_first_def)
qed

lemma json_reads_length: "json_reads t v \<Longrightarrow> t \<noteq> []"
  by (simp add: json_reads_def)

text \<open>Every text of a list is readable, so the list is read as some list of values.\<close>

lemma json_reads_some: "\<forall>t\<in>set ts. \<exists>v. json_reads t v \<Longrightarrow> \<exists>vs. list_all2 json_reads ts vs"
proof (induction ts)
  case (Cons t ts)
  then obtain v vs where "json_reads t v" "list_all2 json_reads ts vs" by auto
  then have "list_all2 json_reads (t # ts) (v # vs)" by simp
  then show ?case by blast
qed (auto intro: exI [of _ "[]"])

lemma json_fields_some:
  "\<forall>kt\<in>set kts. \<exists>v. json_reads (snd kt) v \<Longrightarrow> \<exists>kvs. list_all2 field_reads kts kvs \<and> map fst kvs = map fst kts"
proof (induction kts)
  case (Cons kt kts)
  then obtain v kvs where "json_reads (snd kt) v" "list_all2 field_reads kts kvs" "map fst kvs = map fst kts" by auto
  then have "list_all2 field_reads (kt # kts) ((fst kt, v) # kvs)" "map fst ((fst kt, v) # kvs) = map fst (kt # kts)"
    by (simp_all add: field_reads_def)
  then show ?case by blast
qed simp

lemma json_array_some: "\<forall>t\<in>set ts. \<exists>v. json_reads t v \<Longrightarrow> \<exists>v. json_reads (json_array ts) v"
  using json_reads_some json_reads_array by blast

lemma json_object_some:
  assumes "\<forall>kt\<in>set kts. \<exists>v. json_reads (snd kt) v" "distinct (map fst kts)"
  shows "\<exists>v. json_reads (json_object kts) v"
  using json_fields_some [OF assms(1)] assms(2) json_reads_object by metis

lemma json_quote_some: "\<exists>v. json_reads (json_quote s) v" using json_reads_quote by blast
lemma json_bool_some: "\<exists>v. json_reads (bool_str b) v" using json_reads_bool by blast

lemmas json_some = json_quote_some json_bool_some json_array_some json_object_some

section \<open>What the decoder yields\<close>

text \<open>A decoded value holds no integer: every number is a double.\<close>

fun json_plain :: "gval \<Rightarrow> bool" where
  "json_plain (GInt _) = False"
| "json_plain (GInt64 _) = False"
| "json_plain (GStrs _) = False"
| "json_plain (GList vs) = list_all json_plain vs"
| "json_plain (GMap kvs) = list_all json_plain (map snd kvs)"
| "json_plain _ = True"

lemma json_number_plain: "json_number s = Some (v, r) \<Longrightarrow> json_plain v"
  by (auto simp: json_number_def Let_def split: if_splits prod.splits list.splits)

lemma obj_put_plain: "json_plain v \<Longrightarrow> list_all json_plain (map snd acc) \<Longrightarrow> list_all json_plain (map snd (obj_put k v acc))"
  by (auto simp: obj_put_def list_all_iff split: if_splits)

lemma json_value_plain:
  "json_value n s = Some (v, r) \<Longrightarrow> json_plain v"
  "list_all json_plain acc \<Longrightarrow> json_items n acc s = Some (v, r) \<Longrightarrow> json_plain v"
  "list_all json_plain (map snd macc) \<Longrightarrow> json_members n macc s = Some (v, r) \<Longrightarrow> json_plain v"
proof (induction n s and n acc s and n macc s arbitrary: v r and v r and v r rule: json_value_json_items_json_members.induct)
  case (2 n s)
  obtain c cs where s: "skip_ws s = c # cs" using "2.prems" by (cases "skip_ws s") auto
  consider "c = CHR 0x22" | "c = CHR ''[''" | "c = CHR 0x7B" | "c \<notin> {CHR 0x22, CHR ''['', CHR 0x7B}" by blast
  then show ?case
  proof cases
    case 1
    with "2.prems" s show ?thesis by (auto simp del: json_string.simps)
  next
    case 2
    with "2.prems" "2.IH"(1) [OF s] s show ?thesis by (auto split: list.splits if_splits simp del: json_string.simps)
  next
    case 3
    with "2.prems" "2.IH"(2) [OF s] s show ?thesis by (auto split: list.splits if_splits simp del: json_string.simps)
  next
    case 4
    then have "json_value (Suc n) s =
        (if prefix ''true'' (c # cs) then Some (GBool True, drop 4 (c # cs))
         else if prefix ''false'' (c # cs) then Some (GBool False, drop 5 (c # cs))
         else if prefix ''null'' (c # cs) then Some (GNil, drop 4 (c # cs))
         else json_number (c # cs))" using s by (simp del: json_string.simps)
    with "2.prems" show ?thesis using json_number_plain by (metis json_plain.simps(6,8) option.inject prod.inject)
  qed
next
  case (4 n acc s)
  obtain x t where x: "json_value n s = Some (x, t)" using "4.prems" by (auto split: option.splits)
  obtain d ds where d: "skip_ws t = d # ds" using "4.prems" x by (auto split: list.splits)
  have px: "list_all json_plain (acc @ [x])" using "4.IH"(1) [OF x] "4.prems"(1) by simp
  show ?case
  proof (cases "d = CHR '',''")
    case True
    then show ?thesis using "4.IH"(2) [OF x _ d True px] "4.prems"(2) x d by simp
  next
    case False
    then show ?thesis using "4.prems"(2) x d px by (auto split: if_splits)
  qed
next
  case (6 n acc s)
  obtain q qs where s: "skip_ws s = q # qs" "q = CHR 0x22" using "6.prems" by (auto split: list.splits if_splits simp del: json_string.simps)
  obtain k t where k: "json_string (Suc (length qs)) qs = Some (k, t)"
    using "6.prems" s by (auto split: option.splits simp del: json_string.simps)
  obtain c cs where c: "skip_ws t = c # cs" "c = CHR '':''"
    using "6.prems" s k by (auto split: list.splits if_splits simp del: json_string.simps)
  obtain x t2 where x: "json_value n cs = Some (x, t2)"
    using "6.prems" s k c by (auto split: option.splits simp del: json_string.simps)
  obtain d ds where d: "skip_ws t2 = d # ds"
    using "6.prems" s k c x by (auto split: list.splits simp del: json_string.simps)
  have px: "list_all json_plain (map snd (obj_put k x acc))"
    by (rule obj_put_plain) (use "6.IH"(1) [OF s(1) _ k _ c(1) _ x] s c "6.prems"(1) in simp_all)
  show ?case
  proof (cases "d = CHR '',''")
    case True
    then show ?thesis
      using "6.IH"(2) [OF s(1) _ k _ c(1) _ x _ d True px] "6.prems"(2) s k c x d by (simp del: json_string.simps)
  next
    case False
    then show ?thesis using "6.prems"(2) s k c x d px by (auto split: if_splits simp del: json_string.simps)
  qed
qed simp_all

lemma json_unmarshal_plain: "json_unmarshal t = Some v \<Longrightarrow> json_plain v"
  using json_value_plain(1) by (auto simp: json_unmarshal_def json_decode_first_def split: option.splits if_splits simp del: json_value.simps)

end
