(* ===== verification/TtlCache.thy ===== *)
theory TtlCache
  imports GoDate JsonText
begin

text \<open>
  The cache that \<open>connectors/jina\<close> and \<open>connectors/web\<close> keep in the state of their instance: an entry is a JSON text
  with the time of the fetch, looked up with a time to live. What a caller may rely on is the locale
  \<open>ttl_cache\<close>; both connectors interpret it on their own lookup and store.
\<close>

section \<open>Lookup and store\<close>

text \<open>\<open>time.Since\<close> of a time without a monotonic reading: the difference of the clocks, saturated.\<close>

definition time_since :: "time \<Rightarrow> time \<Rightarrow> int" where
  "time_since now t = max min_int64 (min max_int64 (now - t))"

text \<open>A blank time to live is the default, a negative or malformed one turns the cache off.\<close>

definition parse_ttl :: "int \<Rightarrow> string \<Rightarrow> int" where
  "parse_ttl def s =
     (if s = [] then def
      else case parse_duration s of Inl _ \<Rightarrow> 0 | Inr d \<Rightarrow> (if d < 0 then 0 else d))"

definition cache_lookup :: "(gval \<Rightarrow> 'e option) \<Rightarrow> ('e \<Rightarrow> time) \<Rightarrow> string \<Rightarrow> string \<Rightarrow> int \<Rightarrow> 'm cli_scheme \<Rightarrow> 'e option" where
  "cache_lookup dec fetched rt key ttl w =
     (if ttl \<le> 0 then None
      else case st_get rt key w of
        Inr (Some raw) \<Rightarrow>
          (case json_unmarshal raw of
             None \<Rightarrow> None
           | Some v \<Rightarrow>
               (case dec v of
                  None \<Rightarrow> None
                | Some e \<Rightarrow> (if ttl < time_since (c_now w) (fetched e) then None else Some e)))
      | _ \<Rightarrow> None)"

text \<open>An entry that cannot be marshalled is not stored; a failing store is ignored.\<close>

definition cache_store :: "string \<Rightarrow> string \<Rightarrow> string option \<Rightarrow> 'm cli_scheme \<Rightarrow> 'm cli_scheme" where
  "cache_store rt key text w = (case text of None \<Rightarrow> w | Some t \<Rightarrow> snd (st_put rt key t w))"

text \<open>Answer from the cache, or fetch and store; the flag tells which.\<close>

definition cached_call :: "('w \<Rightarrow> 'v option) \<Rightarrow> ('w \<Rightarrow> 'e res \<times> 'w) \<Rightarrow> ('e \<Rightarrow> 'w \<Rightarrow> 'w) \<Rightarrow> ('e \<Rightarrow> 'v) \<Rightarrow> 'w \<Rightarrow> ('v \<times> bool) res \<times> 'w" where
  "cached_call lookup fetch store shown w =
     (case lookup w of
        Some v \<Rightarrow> (Inr (v, True), w)
      | None \<Rightarrow> and_then (fetch w) (\<lambda>e w1. (Inr (shown e, False), store e w1)))"

section \<open>The interface\<close>

text \<open>
  \<open>keeps w w'\<close> says that the worlds agree on the stored entries, so that only the clock moved; \<open>shown\<close> is the view of
  an entry after it went through its text, \<open>fetched\<close> the time it was fetched.
\<close>

locale ttl_cache =
  fixes inv :: "'w \<Rightarrow> bool"
    and now :: "'w \<Rightarrow> time"
    and keeps :: "'w \<Rightarrow> 'w \<Rightarrow> bool"
    and lookup :: "'k \<Rightarrow> int \<Rightarrow> 'w \<Rightarrow> 'v option"
    and store :: "'k \<Rightarrow> 'e \<Rightarrow> 'w \<Rightarrow> 'w"
    and storable :: "'w \<Rightarrow> 'e \<Rightarrow> bool"
    and shown :: "'e \<Rightarrow> 'v"
    and fetched :: "'w \<Rightarrow> 'e \<Rightarrow> time"
  assumes store_inv: "inv w \<Longrightarrow> inv (store k e w)"
    and lookup_off: "ttl \<le> 0 \<Longrightarrow> lookup k ttl w = None"
    and lookup_fresh: "inv w \<Longrightarrow> storable w e \<Longrightarrow> keeps (store k e w) w' \<Longrightarrow> 0 < ttl \<Longrightarrow>
      now w' - fetched w e \<le> ttl \<Longrightarrow> lookup k ttl w' = Some (shown e)"
    and lookup_stale: "inv w \<Longrightarrow> storable w e \<Longrightarrow> keeps (store k e w) w' \<Longrightarrow> ttl < max_int64 \<Longrightarrow>
      ttl < now w' - fetched w e \<Longrightarrow> lookup k ttl w' = None"

context ttl_cache begin

abbreviation call :: "'k \<Rightarrow> int \<Rightarrow> ('w \<Rightarrow> 'e res \<times> 'w) \<Rightarrow> 'w \<Rightarrow> ('v \<times> bool) res \<times> 'w" where
  "call k ttl fetch \<equiv> cached_call (lookup k ttl) fetch (store k) shown"

text \<open>A call that misses leaves its entry: a later one inside the time to live answers the same and does not fetch.\<close>

lemma call_again:
  assumes "lookup k ttl w = None" "fetch w = (Inr e, w1)" "inv w1" "storable w1 e" "0 < ttl'"
    and "keeps (snd (call k ttl fetch w)) w2" "now w2 - fetched w1 e \<le> ttl'"
  shows "call k ttl fetch w = (Inr (shown e, False), store k e w1)"
    and "call k ttl' fetch' w2 = (Inr (shown e, True), w2)"
proof -
  show c: "call k ttl fetch w = (Inr (shown e, False), store k e w1)" using assms(1,2) by (simp add: cached_call_def)
  have "lookup k ttl' w2 = Some (shown e)" by (rule lookup_fresh [OF assms(3,4)]) (use assms c in simp_all)
  then show "call k ttl' fetch' w2 = (Inr (shown e, True), w2)" by (simp add: cached_call_def)
qed

text \<open>After it the call fetches again.\<close>

lemma call_stale:
  assumes "lookup k ttl w = None" "fetch w = (Inr e, w1)" "inv w1" "storable w1 e" "ttl' < max_int64"
    and "keeps (snd (call k ttl fetch w)) w2" "ttl' < now w2 - fetched w1 e"
  shows "call k ttl' fetch' w2 = and_then (fetch' w2) (\<lambda>e w3. (Inr (shown e, False), store k e w3))"
proof -
  have c: "call k ttl fetch w = (Inr (shown e, False), store k e w1)" using assms(1,2) by (simp add: cached_call_def)
  have "lookup k ttl' w2 = None" by (rule lookup_stale [OF assms(3,4)]) (use assms c in simp_all)
  then show ?thesis by (simp add: cached_call_def)
qed

lemma call_off: "ttl \<le> 0 \<Longrightarrow> call k ttl fetch w = and_then (fetch w) (\<lambda>e w1. (Inr (shown e, False), store k e w1))"
  by (simp add: cached_call_def lookup_off)

end

section \<open>The shared store\<close>

text \<open>The laws for any entry whose text is read back: what each interpretation discharges with.\<close>

lemma cache_lookup_stored:
  assumes "store_inv rt (c_os w)" "c_os w' = c_os (cache_store rt key (Some t) w)"
    and "json_reads t v" "dec v = Some e"
  shows "cache_lookup dec fetched rt key ttl w' =
    (if ttl \<le> 0 \<or> ttl < time_since (c_now w') (fetched e) then None else Some e)"
proof -
  obtain r w1 where p: "st_put rt key t w = (r, w1)" by fastforce
  then have "st_get rt key w1 = Inr (Some t)" using st_put_get [OF assms(1)] by blast
  then have "st_get rt key w' = Inr (Some t)" using assms(2) p by (simp add: st_get_def cache_store_def)
  then show ?thesis using json_reads_unmarshal [OF assms(3)] assms(4) by (simp add: cache_lookup_def)
qed

lemma cache_store_inv: "store_inv rt (c_os w) \<Longrightarrow> store_inv rt (c_os (cache_store rt key text w))"
proof (cases "text")
  case (Some t)
  assume i: "store_inv rt (c_os w)"
  obtain r w1 where "st_put rt key t w = (r, w1)" by fastforce
  then show ?thesis using Some st_put_get [OF i] by (simp add: cache_store_def)
qed (simp add: cache_store_def)

lemma time_since_fresh: "now - t \<le> ttl \<Longrightarrow> 0 < ttl \<Longrightarrow> \<not> ttl < time_since now t"
  by (simp add: time_since_def min_int64_def)

lemma time_since_stale: "ttl < now - t \<Longrightarrow> ttl < max_int64 \<Longrightarrow> ttl < time_since now t"
  by (simp add: time_since_def less_max_iff_disj)

lemma parse_ttl_range: "0 \<le> def \<Longrightarrow> 0 \<le> parse_ttl def s"
  by (simp add: parse_ttl_def split: sum.splits)

definition minute :: int where "minute = 60000000000"

text \<open>An instance without entries, for the witnesses.\<close>

definition ex_instance :: string where "ex_instance = abs_path [''s'', ''rss'', ''news'']"

lemma ex_instance_empty:
  assumes "c_os w = ex_store_os"
  shows "store_inv ex_instance (c_os w)" "cache_lookup dec fetched ex_instance key ttl w = None"
proof -
  show "store_inv ex_instance (c_os w)" using ex_store_inv assms by (simp add: ex_instance_def)
  have "store_get ex_instance ex_store_os key = Inr (slot ex_store_os (loc_of [''s'', ''rss'', ''news''] key ''.bin''))"
    unfolding ex_instance_def
    by (rule store_get_slot)
      (simp_all add: rooted_def ok_comp_def ex_store_os_def plain_fs_def wf_fs_def no_links_def dir_free_def node_at_def
        is_dir_def loc_of_def)
  moreover have "slot ex_store_os (loc_of [''s'', ''rss'', ''news''] key ''.bin'') = None"
    by (simp add: slot_def node_at_def ex_store_os_def loc_of_def)
  ultimately show "cache_lookup dec fetched ex_instance key ttl w = None"
    using assms by (simp add: cache_lookup_def st_get_def)
qed

end
