(* ===== verification/Jina.thy ===== *)
theory Jina
  imports TtlCache
begin

text \<open>
  The Jina connector (\<open>connectors/jina\<close>): reading a page, searching and grounding through a hosted service, each with a
  cache in the state of the instance. A response is decoded into a struct and marshalled again before it is stored,
  so both the answer and the cached answer are views of that text.
\<close>

section \<open>Responses\<close>

text \<open>
  \<open>json.Unmarshal\<close> into a struct: a field of the wrong type is left zero and makes the whole call an error; the
  other fields are filled all the same.
\<close>

definition lax :: "(gval \<Rightarrow> 'a option) \<Rightarrow> 'a \<Rightarrow> gval \<Rightarrow> 'a" where
  "lax dec z v = (case dec v of Some x \<Rightarrow> x | None \<Rightarrow> z)"

definition dec_float :: "gval \<Rightarrow> float64 option" where
  "dec_float v = (case v of GNil \<Rightarrow> Some (FNum False 0 0) | GFloat x \<Rightarrow> Some x | _ \<Rightarrow> None)"

definition strict_fields :: "gval \<Rightarrow> (string \<times> (gval \<Rightarrow> bool)) list \<Rightarrow> bool" where
  "strict_fields v fs = (is_object v \<and> list_all (\<lambda>(k, ok). ok (jfield v k)) fs)"

definition is_string :: "gval \<Rightarrow> bool" where "is_string v = (dec_string v \<noteq> None)"
definition is_bool :: "gval \<Rightarrow> bool" where "is_bool v = (dec_bool v \<noteq> None)"
definition is_int :: "gval \<Rightarrow> bool" where "is_int v = (dec_int v \<noteq> None)"
definition is_float :: "gval \<Rightarrow> bool" where "is_float v = (dec_float v \<noteq> None)"
definition is_slice :: "(gval \<Rightarrow> bool) \<Rightarrow> gval \<Rightarrow> bool" where
  "is_slice ok v = (case v of GNil \<Rightarrow> True | GList vs \<Rightarrow> list_all ok vs | _ \<Rightarrow> False)"

definition str_at :: "gval \<Rightarrow> string \<Rightarrow> string" where "str_at v k = lax dec_string [] (jfield v k)"
definition int_at :: "gval \<Rightarrow> string \<Rightarrow> int" where "int_at v k = lax dec_int 0 (jfield v k)"
definition bool_at :: "gval \<Rightarrow> string \<Rightarrow> bool" where "bool_at v k = lax dec_bool False (jfield v k)"
definition float_at :: "gval \<Rightarrow> string \<Rightarrow> float64" where "float_at v k = lax dec_float (FNum False 0 0) (jfield v k)"

text \<open>A slice that is absent or null stays nil.\<close>

definition slice_at :: "(gval \<Rightarrow> 'a) \<Rightarrow> gval \<Rightarrow> string \<Rightarrow> 'a list option" where
  "slice_at f v k = (case jfield v k of GList vs \<Rightarrow> Some (map f vs) | _ \<Rightarrow> None)"

definition is_usage :: "gval \<Rightarrow> bool" where
  "is_usage v = strict_fields v [(''tokens'', is_int)]"

definition tokens_at :: "gval \<Rightarrow> int" where
  "tokens_at v = int_at (jfield v ''usage'') ''tokens''"

definition usage_json :: "int \<Rightarrow> string \<times> string" where
  "usage_json n = (''usage'', json_object [(''tokens'', itoa n)])"

record reader_response =
  rr_code :: int
  rr_title :: string
  rr_url :: string
  rr_description :: string
  rr_content :: string
  rr_published :: string
  rr_warning :: string
  rr_tokens :: int

definition reader_ok :: "gval \<Rightarrow> bool" where
  "reader_ok v = strict_fields v
     [(''code'', is_int),
      (''data'', \<lambda>d. strict_fields d
         [(''title'', is_string), (''url'', is_string), (''description'', is_string), (''content'', is_string),
          (''publishedTime'', is_string), (''warning'', is_string), (''usage'', is_usage)])]"

definition reader_fields :: "gval \<Rightarrow> reader_response" where
  "reader_fields v =
     (let d = jfield v ''data''
      in \<lparr>rr_code = int_at v ''code'', rr_title = str_at d ''title'', rr_url = str_at d ''url'',
          rr_description = str_at d ''description'', rr_content = str_at d ''content'',
          rr_published = str_at d ''publishedTime'', rr_warning = str_at d ''warning'', rr_tokens = tokens_at d\<rparr>)"

definition reader_json :: "reader_response \<Rightarrow> string option" where
  "reader_json r =
     Some (json_object
       [(''code'', itoa (rr_code r)),
        (''data'', json_object
           ([(''title'', json_quote (rr_title r)), (''url'', json_quote (rr_url r))]
            @ omit_empty ''description'' (rr_description r) @ [(''content'', json_quote (rr_content r))]
            @ omit_empty ''publishedTime'' (rr_published r) @ omit_empty ''warning'' (rr_warning r)
            @ [usage_json (rr_tokens r)]))])"

record search_hit =
  sh_title :: string
  sh_url :: string
  sh_description :: string
  sh_content :: string
  sh_tokens :: int

record search_response =
  sr_code :: int
  sr_data :: "search_hit list option"

definition hit_ok :: "gval \<Rightarrow> bool" where
  "hit_ok v = strict_fields v
     [(''title'', is_string), (''url'', is_string), (''description'', is_string), (''content'', is_string), (''usage'', is_usage)]"

definition hit_fields :: "gval \<Rightarrow> search_hit" where
  "hit_fields v =
     \<lparr>sh_title = str_at v ''title'', sh_url = str_at v ''url'', sh_description = str_at v ''description'',
      sh_content = str_at v ''content'', sh_tokens = tokens_at v\<rparr>"

definition search_ok :: "gval \<Rightarrow> bool" where
  "search_ok v = strict_fields v [(''code'', is_int), (''data'', is_slice hit_ok)]"

definition search_fields :: "gval \<Rightarrow> search_response" where
  "search_fields v = \<lparr>sr_code = int_at v ''code'', sr_data = slice_at hit_fields v ''data''\<rparr>"

definition slice_json :: "('a \<Rightarrow> string) \<Rightarrow> 'a list option \<Rightarrow> string" where
  "slice_json f xs = (case xs of None \<Rightarrow> ''null'' | Some ys \<Rightarrow> json_array (map f ys))"

definition hit_json :: "search_hit \<Rightarrow> string" where
  "hit_json h =
     json_object ([(''title'', json_quote (sh_title h)), (''url'', json_quote (sh_url h))]
       @ omit_empty ''description'' (sh_description h) @ omit_empty ''content'' (sh_content h) @ [usage_json (sh_tokens h)])"

definition jn_search_json :: "search_response \<Rightarrow> string option" where
  "jn_search_json r = Some (json_object [(''code'', itoa (sr_code r)), (''data'', slice_json hit_json (sr_data r))])"

record ground_ref =
  gr_url :: string
  gr_quote :: string
  gr_supportive :: bool

record ground_response =
  gd_code :: int
  gd_factuality :: float64
  gd_result :: bool
  gd_reason :: string
  gd_references :: "ground_ref list option"
  gd_tokens :: int

definition ref_ok :: "gval \<Rightarrow> bool" where
  "ref_ok v = strict_fields v [(''url'', is_string), (''keyQuote'', is_string), (''isSupportive'', is_bool)]"

definition ref_fields :: "gval \<Rightarrow> ground_ref" where
  "ref_fields v = \<lparr>gr_url = str_at v ''url'', gr_quote = str_at v ''keyQuote'', gr_supportive = bool_at v ''isSupportive''\<rparr>"

definition ground_ok :: "gval \<Rightarrow> bool" where
  "ground_ok v = strict_fields v
     [(''code'', is_int),
      (''data'', \<lambda>d. strict_fields d
         [(''factuality'', is_float), (''result'', is_bool), (''reason'', is_string), (''references'', is_slice ref_ok),
          (''usage'', is_usage)])]"

definition ground_fields :: "gval \<Rightarrow> ground_response" where
  "ground_fields v =
     (let d = jfield v ''data''
      in \<lparr>gd_code = int_at v ''code'', gd_factuality = float_at d ''factuality'', gd_result = bool_at d ''result'',
          gd_reason = str_at d ''reason'', gd_references = slice_at ref_fields d ''references'', gd_tokens = tokens_at d\<rparr>)"

definition ref_json :: "ground_ref \<Rightarrow> string" where
  "ref_json r =
     json_object [(''url'', json_quote (gr_url r)), (''keyQuote'', json_quote (gr_quote r)),
       (''isSupportive'', bool_str (gr_supportive r))]"

definition ground_json :: "ground_response \<Rightarrow> string option" where
  "ground_json r =
     map_option (\<lambda>f. json_object
       [(''code'', itoa (gd_code r)),
        (''data'', json_object
           [(''factuality'', f), (''result'', bool_str (gd_result r)), (''reason'', json_quote (gd_reason r)),
            (''references'', slice_json ref_json (gd_references r)), usage_json (gd_tokens r)])])
       (json_float (gd_factuality r))"

section \<open>Client\<close>

definition jn_client_at :: "credential \<Rightarrow> string \<Rightarrow> string \<Rightarrow> http_config res" where
  "jn_client_at c base0 fallback =
     (let base = trim_right (if base0 = [] then fallback else base0) ''/''; key = v_string (cr_values c) ''api_key''
      in new_client \<lparr>hc_base = base, hc_headers = (if key = [] then [] else bearer key), hc_agent = [], hc_timeout = 90 * second\<rparr>)"

definition jn_reader_client :: "credential \<Rightarrow> http_config res" where
  "jn_reader_client c = jn_client_at c (v_string (cr_values c) ''reader_base'') ''https://r.jina.ai''"

definition jn_search_client :: "credential \<Rightarrow> http_config res" where
  "jn_search_client c = jn_client_at c (v_string (cr_values c) ''search_base'') ''https://s.jina.ai''"

definition jn_ground_client :: "credential \<Rightarrow> http_config res" where
  "jn_ground_client c = jn_client_at c (v_string (cr_values c) ''ground_base'') ''https://g.jina.ai''"

definition jn_cred_schema :: schema where
  "jn_cred_schema =
     [(field ''api_key'' FieldSecret)\<lparr>
        f_label := ''Jina API key (optional for read, REQUIRED for search/ground)'',
        f_description := ''Sent as '' @ bq @ ''Authorization: Bearer <key>'' @ bq @ ''. Empty = anonymous tier '' @ em_dash @ '' ''
          @ bq @ ''read'' @ bq @ '' works at 20 RPM, but '' @ bq @ ''search'' @ bq @ '' and '' @ bq @ ''ground'' @ bq
          @ '' return 401 with no key. Free key from jina.ai unlocks 500 RPM and the gated endpoints.''\<rparr>,
      (field ''default_engine'' FieldEnum)\<lparr>f_label := ''Default engine (optional)'',
        f_options := [\<lparr>o_value = [], o_label = ''Jina default (direct fetch)''\<rparr>,
          \<lparr>o_value = ''browser'', o_label = ''Browser '' @ em_dash @ '' render JS-heavy pages''\<rparr>,
          \<lparr>o_value = ''direct'', o_label = ''Direct '' @ em_dash @ '' fast, no browser''\<rparr>,
          \<lparr>o_value = ''cf-browser-rendering'', o_label = ''Cloudflare rendering''\<rparr>],
        f_description := ''Default for the '' @ bq @ ''engine'' @ bq
          @ '' param on read/search. Per-call override is always possible.''\<rparr>,
      (field ''reader_base'' FieldString)\<lparr>f_label := ''Reader endpoint'',
        f_default := Some (GStr ''https://r.jina.ai''),
        f_description := ''Override only for a self-hosted Reader mirror. Default https://r.jina.ai.''\<rparr>,
      (field ''search_base'' FieldString)\<lparr>f_label := ''Search endpoint'',
        f_default := Some (GStr ''https://s.jina.ai''),
        f_description := ''Override only for self-hosted. Default https://s.jina.ai.''\<rparr>,
      (field ''ground_base'' FieldString)\<lparr>f_label := ''Grounding endpoint'',
        f_default := Some (GStr ''https://g.jina.ai''),
        f_description := ''Override only for self-hosted. Default https://g.jina.ai.''\<rparr>]"

definition jn_presets :: "preset list" where
  "jn_presets =
     [\<lparr>p_name = ''Jina hosted (free or keyed)'',
        p_description = ''Default '' @ em_dash @ '' point at https://{r,s,g}.jina.ai. Works without key on the free tier.'',
        p_values = [(''reader_base'', GStr ''https://r.jina.ai''), (''search_base'', GStr ''https://s.jina.ai''),
          (''ground_base'', GStr ''https://g.jina.ai'')]\<rparr>,
      \<lparr>p_name = ''Self-hosted'', p_description = ''Enter your own Reader mirror URLs.'', p_values = []\<rparr>]"

definition trim_base :: "string \<Rightarrow> vals \<Rightarrow> vals" where
  "trim_base k p = (case p k of Some (GStr u) \<Rightarrow> p(k \<mapsto> GStr (trim_right u ''/'')) | _ \<Rightarrow> p)"

definition jn_defaults :: "vals \<Rightarrow> vals" where
  "jn_defaults p = trim_base ''ground_base'' (trim_base ''search_base'' (trim_base ''reader_base'' p))"

definition jn_key_status :: "credential \<Rightarrow> string" where
  "jn_key_status c = (if v_string (cr_values c) ''api_key'' = [] then ''anonymous'' else ''present'')"

definition dec_reader :: "gval \<Rightarrow> reader_response option" where
  "dec_reader v = (if reader_ok v then Some (reader_fields v) else None)"

definition jn_validate :: "('m cli_scheme) net \<Rightarrow> credential \<Rightarrow> 'm cli_scheme \<Rightarrow> unit res \<times> 'm cli_scheme" where
  "jn_validate net c w =
     (case jn_reader_client c of
        Inl e \<Rightarrow> (Inl e, w)
      | Inr cli \<Rightarrow>
          and_then (wrap_err ''reader probe: '' (api_get net cli dec_reader ''/https://example.com'' [] w))
            (\<lambda>r w1. if rr_title r = [] then (Inl (ErrMsg ''reader probe: unexpected empty title''), w1)
               else (Inr (), say (''(reader ok, key '' @ jn_key_status c @ '') '') w1)))"

section \<open>Requests\<close>

definition opt_header :: "string \<Rightarrow> string \<Rightarrow> hdr \<Rightarrow> hdr" where
  "opt_header k v h = (if v = [] then h else hdr_set k v h)"

definition flag_header :: "string \<Rightarrow> bool \<Rightarrow> hdr \<Rightarrow> hdr" where
  "flag_header k b h = (if b then hdr_set k ''true'' h else h)"

definition jn_request_headers :: "api_session \<Rightarrow> vals \<Rightarrow> hdr" where
  "jn_request_headers s p =
     (let engine = (if v_string p ''engine'' = [] then v_string (cr_values (sn_cred s)) ''default_engine'' else v_string p ''engine'');
          h1 = hdr_set ''Accept'' ''application/json'' [];
          h2 = opt_header ''X-Engine'' engine h1;
          h3 = opt_header ''X-Locale'' (v_string p ''locale'') h2;
          h4 = flag_header ''X-No-Cache'' (v_bool p ''no_cache'') h3;
          h5 = flag_header ''X-With-Links-Summary'' (v_bool p ''with_links_summary'') h4;
          h6 = flag_header ''X-With-Images-Summary'' (v_bool p ''with_images_summary'') h5;
          h7 = flag_header ''X-With-Generated-Alt'' (v_bool p ''with_generated_alt'') h6;
          h8 = opt_header ''X-Respond-With'' (v_string p ''respond_with'') h7
      in opt_header ''X-Json-Schema'' (v_string p ''json_schema'') h8)"

text \<open>\<open>doWithHeaders\<close>, which nothing calls: the request is sent without the headers and its answer dropped.\<close>

definition jn_do_with_headers :: "'w net \<Rightarrow> http_config \<Rightarrow> string \<Rightarrow> 'w \<Rightarrow> unit res \<times> 'w" where
  "jn_do_with_headers net cli path w =
     and_then (do_raw net cli ''GET'' path [] [] w)
       (\<lambda>_ w1. (Inl (ErrMsg (''doWithHeaders: should not reach here '' @ em_dash @ '' use doGet'')), w1))"

definition read_all_limited :: "string res \<Rightarrow> int \<Rightarrow> string res" where
  "read_all_limited body limit =
     (case body of
        Inl e \<Rightarrow> Inl e
      | Inr b \<Rightarrow>
          (if limit < int (length b) then Inl (ErrMsg (''response body exceeds '' @ itoa limit @ '' bytes'')) else Inr b))"

definition jn_limit :: int where "jn_limit = 16 * 1024 * 1024"

definition merge_headers :: "hdr \<Rightarrow> hdr \<Rightarrow> hdr" where
  "merge_headers base extra =
     foldl (\<lambda>h (k, vs). foldl (\<lambda>h v. hdr_set k v h) h vs)
       (foldl (\<lambda>h (k, vs). foldl (\<lambda>h v. hdr_add k v h) h vs) [] base) extra"

text \<open>The request of \<open>doGet\<close> goes out through a client of its own, without a timeout.\<close>

definition jn_do_get :: "'w net \<Rightarrow> http_config \<Rightarrow> string \<Rightarrow> hdr \<Rightarrow> (gval \<Rightarrow> bool) \<Rightarrow> 'w \<Rightarrow> gval res \<times> 'w" where
  "jn_do_get net cli path extra ok w =
     (let full = hc_base cli @ path
      in if \<not> url_ok full then (Inl (ErrExt ''url''), w)
         else
           and_then (net \<lparr>aq_method = ''GET'', aq_url = full, aq_headers = merge_headers (hc_headers cli) extra,
                       aq_body = [], aq_timeout = 0\<rparr> w)
             (\<lambda>resp w1.
               (case read_all_limited (as_body resp) jn_limit of
                  Inl e \<Rightarrow> (Inl e, w1)
                | Inr body \<Rightarrow>
                    (if as_status resp div 100 \<noteq> 2
                     then (Inl (ErrMsg (''jina: http '' @ itoa (as_status resp) @ '': '' @ truncate_bytes body 240)), w1)
                     else
                       (let err = ErrWrap ''jina: parse response: '' (ErrExt ''json'') ('' (body='' @ truncate_bytes body 240 @ '')'')
                        in case json_unmarshal body of
                             None \<Rightarrow> (Inl err, w1)
                           | Some v \<Rightarrow> (if ok v then (Inr v, w1) else (Inl err, w1)))))))"

section \<open>The cache\<close>

definition jn_cache_key :: "string \<Rightarrow> string \<Rightarrow> string" where
  "jn_cache_key action payload = ''jina:'' @ take 32 (hex_encode (sha256 (action @ [CHR 0x00] @ payload)))"

text \<open>An entry read back: the time and the body, a \<open>json.RawMessage\<close> the callers only decode again.\<close>

definition jn_dec_entry :: "gval \<Rightarrow> (time \<times> gval) option" where
  "jn_dec_entry v =
     (if is_object v then
        (case (dec_time (jfield v ''fetched_at''), dec_string (jfield v ''action'')) of
           (Some t, Some _) \<Rightarrow> Some (t, jfield v ''body'')
         | _ \<Rightarrow> None)
      else None)"

definition jn_cache_read :: "string \<Rightarrow> string \<Rightarrow> int \<Rightarrow> 'm cli_scheme \<Rightarrow> gval option" where
  "jn_cache_read rt key ttl w = map_option snd (cache_lookup jn_dec_entry fst rt key ttl w)"

definition jn_entry_json :: "time \<Rightarrow> string \<Rightarrow> string \<Rightarrow> string option" where
  "jn_entry_json now action body =
     map_option (\<lambda>t. json_object [(''fetched_at'', t), (''action'', json_quote action), (''body'', body)]) (time_json now)"

text \<open>The second argument is the action with the marshalled response.\<close>

definition jn_cache_write :: "string \<Rightarrow> string \<Rightarrow> string \<times> string \<Rightarrow> 'm cli_scheme \<Rightarrow> 'm cli_scheme" where
  "jn_cache_write rt key e w = cache_store rt key (jn_entry_json (c_now w) (fst e) (snd e)) w"

definition serialize_headers :: "hdr \<Rightarrow> string" where
  "serialize_headers h =
     concat (map (\<lambda>(k, vs). k @ '':'' @ join_with '','' vs @ '';'') (sort_key fst (filter (\<lambda>kv. fst kv \<noteq> ''Accept'') h)))"

section \<open>Actions\<close>

definition body_value :: "string \<Rightarrow> gval" where
  "body_value t = (case json_unmarshal t of Some v \<Rightarrow> v | None \<Rightarrow> GNil)"

text \<open>
  The three actions share their steps: the lookup, the request, the marshalling of the decoded response (nothing when it
  fails), the store.
\<close>

definition jn_fetch :: "'w net \<Rightarrow> http_config \<Rightarrow> string \<Rightarrow> hdr \<Rightarrow> (gval \<Rightarrow> bool) \<Rightarrow> (gval \<Rightarrow> string option) \<Rightarrow> string \<Rightarrow> 'w \<Rightarrow>
    (string \<times> string) res \<times> 'w" where
  "jn_fetch net cli path headers ok marshal action w =
     and_then (jn_do_get net cli path headers ok w)
       (\<lambda>v w1. (Inr (action, case marshal v of Some t \<Rightarrow> t | None \<Rightarrow> []), w1))"

definition jn_cached :: "('m cli_scheme) net \<Rightarrow> http_config \<Rightarrow> string \<Rightarrow> string \<Rightarrow> int \<Rightarrow> string \<Rightarrow> hdr \<Rightarrow> (gval \<Rightarrow> bool) \<Rightarrow>
    (gval \<Rightarrow> string option) \<Rightarrow> string \<Rightarrow> 'm cli_scheme \<Rightarrow> (gval \<times> bool) res \<times> 'm cli_scheme" where
  "jn_cached net cli rt key ttl path headers ok marshal action =
     cached_call (jn_cache_read rt key ttl) (jn_fetch net cli path headers ok marshal action) (jn_cache_write rt key)
       (\<lambda>e. body_value (snd e))"

definition with_flag :: "bool \<Rightarrow> (string \<times> gval) list \<Rightarrow> gval" where
  "with_flag from_cache kvs = GMap (obj_put ''from_cache'' (GBool from_cache) kvs)"

definition decode_reader :: "gval \<Rightarrow> bool \<Rightarrow> bool \<Rightarrow> gval" where
  "decode_reader v raw from_cache =
     (if raw then
        (case v of GMap m \<Rightarrow> with_flag from_cache m | _ \<Rightarrow> GMap [(''raw'', v), (''from_cache'', GBool from_cache)])
      else
        (let r = reader_fields v
         in GMap [(''title'', GStr (rr_title r)), (''url'', GStr (rr_url r)), (''description'', GStr (rr_description r)),
              (''content'', GStr (rr_content r)), (''published_time'', GStr (rr_published r)),
              (''warning'', GStr (rr_warning r)), (''tokens'', GInt (rr_tokens r)), (''from_cache'', GBool from_cache)]))"

definition jn_read_schema :: schema where
  "jn_read_schema =
     [(field ''url'' FieldString)\<lparr>f_required := True, f_description := ''Absolute http(s) URL to fetch.''\<rparr>,
      (field ''engine'' FieldString)\<lparr>
        f_description := ''Override default_engine: '' @ apos @ apos @ '' (Jina default) | direct | browser | cf-browser-rendering.''\<rparr>,
      (field ''locale'' FieldString)\<lparr>f_description := ''Browser locale hint, e.g. en-US, de-DE.''\<rparr>,
      (field ''no_cache'' FieldBool)\<lparr>f_default := Some (GBool False),
        f_description := ''Bypass Jina'' @ apos @ ''s own cache. Local pgf cache is separate (cache_ttl).''\<rparr>,
      (field ''with_links_summary'' FieldBool)\<lparr>f_default := Some (GBool False),
        f_description := ''Append a deduplicated link list at the end of the markdown.''\<rparr>,
      (field ''with_images_summary'' FieldBool)\<lparr>f_default := Some (GBool False),
        f_description := ''Append an images list at the end.''\<rparr>,
      (field ''with_generated_alt'' FieldBool)\<lparr>f_default := Some (GBool False),
        f_description := ''Generate alt text for images that lack one.''\<rparr>,
      (field ''respond_with'' FieldString)\<lparr>
        f_description := ''Set to '' @ apos @ ''readerlm-v2'' @ apos @ '' to use Jina'' @ apos
          @ ''s specialised reader model (slower, higher quality).''\<rparr>,
      (field ''json_schema'' FieldLongText)\<lparr>
        f_description := ''JSON schema for structured extraction. When set, Jina returns content shaped to match.''\<rparr>,
      (field ''cache_ttl'' FieldString)\<lparr>
        f_description := ''Local pgf cache TTL. Go duration; 0 to disable. Default 5m.''\<rparr>,
      (field ''raw'' FieldBool)\<lparr>f_default := Some (GBool False),
        f_description := ''Return Jina'' @ apos @ ''s full envelope instead of the simplified {title, url, content, ...}.''\<rparr>]"

definition jn_read :: "('m cli_scheme) net \<Rightarrow> api_session \<Rightarrow> vals \<Rightarrow> 'm cli_scheme \<Rightarrow> gval res \<times> 'm cli_scheme" where
  "jn_read net s params w =
     (let p = with_defaults params jn_read_schema; target = trim_space (v_string p ''url'')
      in if target = [] then (Inl (ErrMsg ''url is required''), w)
         else if \<not> url_ok target then (Inl (ErrWrap ''url: '' (ErrExt ''url'') []), w)
         else
           (let headers = jn_request_headers s p; ttl = parse_ttl (5 * minute) (v_string p ''cache_ttl'');
                key = jn_cache_key ''read'' (target @ ''|'' @ serialize_headers headers)
            in and_then (jn_cached net (sn_http s) (sn_state s) key ttl (''/'' @ target) headers reader_ok
                   (\<lambda>v. reader_json (reader_fields v)) ''read'' w)
                 (\<lambda>(v, from_cache) w1. (Inr (decode_reader v (v_bool p ''raw'') from_cache), w1))))"

definition decode_search :: "gval \<Rightarrow> bool \<Rightarrow> bool \<Rightarrow> gval" where
  "decode_search v raw from_cache =
     (case (raw, v) of
        (True, GMap m) \<Rightarrow> with_flag from_cache m
      | _ \<Rightarrow>
          (let hits = (case sr_data (search_fields v) of Some hs \<Rightarrow> hs | None \<Rightarrow> [])
           in GMap [(''engine'', GStr ''jina''), (''count'', GInt (int (length hits))),
                (''results'', GList (map (\<lambda>h. GMap [(''title'', GStr (sh_title h)), (''url'', GStr (sh_url h)),
                   (''description'', GStr (sh_description h)), (''content'', GStr (sh_content h)),
                   (''tokens'', GInt (sh_tokens h))]) hits)),
                (''from_cache'', GBool from_cache)]))"

definition jn_search_schema :: schema where
  "jn_search_schema =
     [(field ''query'' FieldString)\<lparr>f_required := True,
        f_description := ''Search query string. Free-form; supports site: and other Google-like operators.''\<rparr>,
      (field ''engine'' FieldString)\<lparr>
        f_description := ''Override default_engine for the underlying page fetches.''\<rparr>,
      (field ''locale'' FieldString)\<lparr>f_description := ''Locale hint.''\<rparr>,
      (field ''no_cache'' FieldBool)\<lparr>f_default := Some (GBool False),
        f_description := ''Bypass Jina'' @ apos @ ''s cache.''\<rparr>,
      (field ''cache_ttl'' FieldString)\<lparr>f_description := ''Local cache TTL. Go duration; default 10m.''\<rparr>,
      (field ''raw'' FieldBool)\<lparr>f_default := Some (GBool False),
        f_description := ''Return Jina'' @ apos @ ''s full response.''\<rparr>]"

definition jn_search :: "('m cli_scheme) net \<Rightarrow> api_session \<Rightarrow> vals \<Rightarrow> 'm cli_scheme \<Rightarrow> gval res \<times> 'm cli_scheme" where
  "jn_search net s params w =
     (let p = with_defaults params jn_search_schema; q = trim_space (v_string p ''query'')
      in if q = [] then (Inl (ErrMsg ''query is required''), w)
         else case jn_search_client (sn_cred s) of
           Inl e \<Rightarrow> (Inl e, w)
         | Inr cli \<Rightarrow>
             (let headers = jn_request_headers s p; ttl = parse_ttl (10 * minute) (v_string p ''cache_ttl'');
                  key = jn_cache_key ''search'' (q @ ''|'' @ serialize_headers headers)
              in and_then (jn_cached net cli (sn_state s) key ttl (''/?q='' @ query_escape q) headers search_ok
                     (\<lambda>v. jn_search_json (search_fields v)) ''search'' w)
                   (\<lambda>(v, from_cache) w1. (Inr (decode_search v (v_bool p ''raw'') from_cache), w1))))"

definition decode_ground :: "gval \<Rightarrow> bool \<Rightarrow> bool \<Rightarrow> gval" where
  "decode_ground v raw from_cache =
     (case (raw, v) of
        (True, GMap m) \<Rightarrow> with_flag from_cache m
      | _ \<Rightarrow>
          (let r = ground_fields v; refs = (case gd_references r of Some rs \<Rightarrow> rs | None \<Rightarrow> [])
           in GMap [(''factuality'', GFloat (gd_factuality r)), (''result'', GBool (gd_result r)),
                (''reason'', GStr (gd_reason r)),
                (''references'', GList (map (\<lambda>f. GMap [(''url'', GStr (gr_url f)), (''key_quote'', GStr (gr_quote f)),
                   (''is_supportive'', GBool (gr_supportive f))]) refs)),
                (''from_cache'', GBool from_cache)]))"

definition jn_ground_schema :: schema where
  "jn_ground_schema =
     [(field ''statement'' FieldLongText)\<lparr>f_required := True,
        f_description := ''The claim to fact-check, in plain English. e.g. '' @ apos @ ''Go 1.22 added range-over-func.'' @ apos\<rparr>,
      (field ''no_cache'' FieldBool)\<lparr>f_default := Some (GBool False),
        f_description := ''Bypass Jina'' @ apos @ ''s cache.''\<rparr>,
      (field ''cache_ttl'' FieldString)\<lparr>f_description := ''Local cache TTL. Go duration; default 1h.''\<rparr>,
      (field ''raw'' FieldBool)\<lparr>f_default := Some (GBool False),
        f_description := ''Return Jina'' @ apos @ ''s full response.''\<rparr>]"

definition jn_ground :: "('m cli_scheme) net \<Rightarrow> api_session \<Rightarrow> vals \<Rightarrow> 'm cli_scheme \<Rightarrow> gval res \<times> 'm cli_scheme" where
  "jn_ground net s params w =
     (let p = with_defaults params jn_ground_schema; stmt = trim_space (v_string p ''statement'')
      in if stmt = [] then (Inl (ErrMsg ''statement is required''), w)
         else case jn_ground_client (sn_cred s) of
           Inl e \<Rightarrow> (Inl e, w)
         | Inr cli \<Rightarrow>
             (let headers = jn_request_headers s p; ttl = parse_ttl (60 * minute) (v_string p ''cache_ttl'');
                  key = jn_cache_key ''ground'' stmt
              in and_then (jn_cached net cli (sn_state s) key ttl (''/'' @ path_escape stmt) headers ground_ok
                     (\<lambda>v. ground_json (ground_fields v)) ''ground'' w)
                   (\<lambda>(v, from_cache) w1. (Inr (decode_ground v (v_bool p ''raw'') from_cache), w1))))"

section \<open>The connector\<close>

definition jn_read_action where
  "jn_read_action net =
     mk_action ''read'' (''Read URL '' @ right_arrow @ '' markdown'')
       (''Hand a URL to Jina Reader; get back clean LLM-friendly markdown plus title + metadata. Bot-detection ''
              @ ''resilient via Jina'' @ apos @ ''s hosted browser fleet.'')
       jn_read_schema (jn_read net)"

definition jn_search_action where
  "jn_search_action net =
     mk_action ''search'' ''Web search (Jina)''
       (''Jina'' @ apos
              @ ''s hosted web search. Returns top N results with title + URL + cleaned content snippet. Each result ''
              @ ''also costs tokens.'')
       jn_search_schema (jn_search net)"

definition jn_ground_action where
  "jn_ground_action net =
     mk_action ''ground'' ''Ground / fact-check a statement''
       (''Submit a factual statement; Jina searches the web for evidence and returns a factuality score + ''
              @ ''supportive/refuting references.'')
       jn_ground_schema (jn_ground net)"

definition jina_connector :: "('m cli_scheme) net \<Rightarrow> ('m cli_scheme, api_session) connector" where
  "jina_connector net =
     \<lparr>c_descriptor = \<lparr>d_name = ''jina'', d_display = ''Jina AI (Reader + Search + Grounding)'',
        d_description = ''Hosted browser/SaaS for URL'' @ right_arrow @ ''markdown, web search, and statement grounding. Robust ''
          @ ''against bot blocking; useful when the local web connector fails.'',
        d_version = ''0.1.0'', d_categories = [''scrape'', ''ai'']\<rparr>,
      c_credential = \<lparr>cs_kind = AuthAPIKey, cs_schema = jn_cred_schema, cs_presets = jn_presets, cs_defaults = jn_defaults,
        cs_validate = keep_values (jn_validate net)\<rparr>,
      c_actions = [jn_read_action net, jn_search_action net, jn_ground_action net],
      c_triggers = [],
      c_open = open_with jn_reader_client,
      c_close = (\<lambda>_ w. (Inr (), w))\<rparr>"

section \<open>Properties\<close>

text \<open>The integers of a decoded response fit 64 bits, so every marshalled response is read back.\<close>

lemma jfield_plain: "json_plain v \<Longrightarrow> json_plain (jfield v k)"
proof -
  assume p: "json_plain v"
  show ?thesis
  proof (cases v)
    case (GMap kvs)
    have "find P xs = Some (k', x) \<Longrightarrow> (k', x) \<in> set xs" for P k' x and xs :: "(string \<times> gval) list"
      by (metis find_Some_iff nth_mem)
    then show ?thesis using p GMap by (force simp: jfield_def list_all_iff split: option.splits)
  qed (simp_all add: jfield_def)
qed

lemma int_at_bound: "json_plain v \<Longrightarrow> \<bar>int_at v k\<bar> < 2 ^ 900"
proof -
  assume "json_plain v"
  then have p: "json_plain (jfield v k)" by (rule jfield_plain)
  have "int64_range i \<Longrightarrow> \<bar>i\<bar> < 2 ^ 900" for i
  proof -
    assume "int64_range i"
    then have "\<bar>i\<bar> < 2 ^ 64" by (simp add: int64_range_def min_int64_def max_int64_def abs_less_iff)
    also have "(2::int) ^ 64 < 2 ^ 900" by (rule power_strict_increasing) simp_all
    finally show ?thesis .
  qed
  moreover have "float_int x = Some i \<Longrightarrow> int64_range i" for x i
    by (auto simp: float_int_def Let_def split: float64.splits if_splits)
  ultimately show ?thesis
    using p by (cases "jfield v k") (auto simp: int_at_def lax_def dec_int_def split: option.splits)
qed

lemma itoa_some: "\<bar>i\<bar> < 2 ^ 900 \<Longrightarrow> \<exists>v. json_reads (itoa i) v"
  using json_reads_itoa by blast

lemma tokens_bound: "json_plain v \<Longrightarrow> \<bar>tokens_at v\<bar> < 2 ^ 900"
  unfolding tokens_at_def by (rule int_at_bound) (rule jfield_plain)

lemma omit_some: "\<forall>kt\<in>set (omit_empty k s). \<exists>v. json_reads (snd kt) v"
  using json_quote_some by (simp add: omit_empty_def)

lemma usage_some: "\<bar>n\<bar> < 2 ^ 900 \<Longrightarrow> \<exists>v. json_reads (snd (usage_json n)) v"
  unfolding usage_json_def snd_conv by (rule json_object_some) (use itoa_some in simp_all)

lemma reader_json_some:
  assumes "json_plain v"
  shows "\<exists>t. reader_json (reader_fields v) = Some t \<and> (\<exists>u. json_reads t u)"
proof -
  let ?r = "reader_fields v"
  have b: "\<bar>rr_code ?r\<bar> < 2 ^ 900" "\<bar>rr_tokens ?r\<bar> < 2 ^ 900"
    using int_at_bound [OF assms] tokens_bound [OF jfield_plain [OF assms]] by (simp_all add: reader_fields_def Let_def)
  have data: "\<exists>u. json_reads (json_object
           ([(''title'', json_quote (rr_title ?r)), (''url'', json_quote (rr_url ?r))]
            @ omit_empty ''description'' (rr_description ?r) @ [(''content'', json_quote (rr_content ?r))]
            @ omit_empty ''publishedTime'' (rr_published ?r) @ omit_empty ''warning'' (rr_warning ?r)
            @ [usage_json (rr_tokens ?r)])) u"
    by (rule json_object_some)
      (use json_quote_some omit_some usage_some [OF b(2)] in \<open>auto simp: omit_empty_def usage_json_def\<close>)
  show ?thesis
    unfolding reader_json_def option.inject simp_thms
    by (rule json_object_some) (use itoa_some [OF b(1)] data in auto)
qed

text \<open>Likewise for a search.\<close>

lemma slice_some: "(\<And>x. x \<in> set (case xs of Some ys \<Rightarrow> ys | None \<Rightarrow> []) \<Longrightarrow> \<exists>u. json_reads (f x) u) \<Longrightarrow> \<exists>u. json_reads (slice_json f xs) u"
proof (cases xs)
  case None
  then show ?thesis using json_reads_null by (auto simp: slice_json_def)
next
  case (Some ys)
  assume "\<And>x. x \<in> set (case xs of Some ys \<Rightarrow> ys | None \<Rightarrow> []) \<Longrightarrow> \<exists>u. json_reads (f x) u"
  with Some have "\<forall>t\<in>set (map f ys). \<exists>u. json_reads t u" by auto
  then show ?thesis using json_array_some Some by (simp add: slice_json_def)
qed

lemma hit_json_some: "json_plain v \<Longrightarrow> \<exists>u. json_reads (hit_json (hit_fields v)) u"
  unfolding hit_json_def
  by (rule json_object_some)
    (use json_quote_some omit_some usage_some tokens_bound in \<open>auto simp: omit_empty_def usage_json_def hit_fields_def\<close>)

lemma jn_search_json_some:
  assumes "json_plain v"
  shows "\<exists>t. jn_search_json (search_fields v) = Some t \<and> (\<exists>u. json_reads t u)"
proof -
  let ?r = "search_fields v"
  have b: "\<bar>sr_code ?r\<bar> < 2 ^ 900" using int_at_bound [OF assms] by (simp add: search_fields_def)
  have p: "json_plain (jfield v ''data'')" by (rule jfield_plain [OF assms])
  have data: "\<exists>u. json_reads (slice_json hit_json (sr_data ?r)) u"
  proof (rule slice_some)
    fix h assume "h \<in> set (case sr_data ?r of Some ys \<Rightarrow> ys | None \<Rightarrow> [])"
    then obtain vs x where "jfield v ''data'' = GList vs" "x \<in> set vs" "h = hit_fields x"
      by (auto simp: search_fields_def slice_at_def split: gval.splits)
    with p show "\<exists>u. json_reads (hit_json h) u" using hit_json_some [of x] by (auto simp: list_all_iff)
  qed
  show ?thesis
    unfolding jn_search_json_def option.inject simp_thms
    by (rule json_object_some) (use itoa_some [OF b] data in auto)
qed

section \<open>The cache as promised\<close>

lemma entry_fields:
  "jfield (GMap [(''fetched_at'', a), (''action'', b), (''body'', c)]) ''fetched_at'' = a"
  "jfield (GMap [(''fetched_at'', a), (''action'', b), (''body'', c)]) ''action'' = b"
  "jfield (GMap [(''fetched_at'', a), (''action'', b), (''body'', c)]) ''body'' = c"
proof -
  have "\<not> equal_fold ''body'' ''fetched_at'' \<and> \<not> equal_fold ''action'' ''fetched_at'' \<and> \<not> equal_fold ''body'' ''action''"
    by code_simp
  moreover have "equal_fold s s" for s by (simp add: equal_fold_def)
  ultimately show
    "jfield (GMap [(''fetched_at'', a), (''action'', b), (''body'', c)]) ''fetched_at'' = a"
    "jfield (GMap [(''fetched_at'', a), (''action'', b), (''body'', c)]) ''action'' = b"
    "jfield (GMap [(''fetched_at'', a), (''action'', b), (''body'', c)]) ''body'' = c"
    by (simp_all add: jfield_def)
qed

lemma jn_entry_reads:
  assumes "text_time t" "json_reads body v"
  shows "\<exists>x g. jn_entry_json t action body = Some x \<and> json_reads x g \<and> jn_dec_entry g = Some (t, v)"
proof -
  have t: "time_json t = Some (json_quote (rfc3339 t))" using assms(1) by (simp add: time_json_def text_time_def Let_def)
  let ?g = "GMap [(''fetched_at'', GStr (rfc3339 t)), (''action'', GStr action), (''body'', v)]"
  have "json_reads (json_object [(''fetched_at'', json_quote (rfc3339 t)), (''action'', json_quote action), (''body'', body)]) ?g"
    by (rule json_reads_object) (use json_reads_quote assms(2) in \<open>simp_all add: field_reads_def\<close>)
  moreover have "jn_dec_entry ?g = Some (t, v)"
    using parse_rfc3339_text [OF assms(1)]
    by (simp add: jn_dec_entry_def entry_fields dec_time_def dec_string_def is_object_def)
  ultimately show ?thesis using t by (auto simp: jn_entry_json_def)
qed

interpretation jn_cache: ttl_cache "\<lambda>w. store_inv rt (c_os w)" c_now "\<lambda>w w'. c_os w' = c_os w" "jn_cache_read rt"
    "jn_cache_write rt" "\<lambda>w e. text_time (c_now w) \<and> (\<exists>v. json_reads (snd e) v)" "\<lambda>e. body_value (snd e)" "\<lambda>w e. c_now w"
proof
  fix w :: "'m cli_scheme" and k e
  assume "store_inv rt (c_os w)"
  then show "store_inv rt (c_os (jn_cache_write rt k e w))" by (simp add: jn_cache_write_def cache_store_inv)
next
  fix ttl :: int and k and w :: "'m cli_scheme"
  assume "ttl \<le> 0"
  then show "jn_cache_read rt k ttl w = None" by (simp add: jn_cache_read_def cache_lookup_def)
next
  fix w w' :: "'m cli_scheme" and k ttl and e :: "string \<times> string"
  assume i: "store_inv rt (c_os w)" and s: "text_time (c_now w) \<and> (\<exists>v. json_reads (snd e) v)"
    and os: "c_os w' = c_os (jn_cache_write rt k e w)"
  from s obtain v x g where v: "json_reads (snd e) v" and x: "jn_entry_json (c_now w) (fst e) (snd e) = Some x"
    "json_reads x g" "jn_dec_entry g = Some (c_now w, v)" using jn_entry_reads by blast
  have l: "cache_lookup jn_dec_entry fst rt k ttl w' =
      (if ttl \<le> 0 \<or> ttl < time_since (c_now w') (fst (c_now w, v)) then None else Some (c_now w, v))"
    by (rule cache_lookup_stored [where t = x and v = g, OF i]) (use os x in \<open>simp_all add: jn_cache_write_def\<close>)
  have b: "body_value (snd e) = v" using json_reads_unmarshal [OF v] by (simp add: body_value_def)
  {
    assume "0 < ttl" "c_now w' - c_now w \<le> ttl"
    then show "jn_cache_read rt k ttl w' = Some (body_value (snd e))"
      using l b time_since_fresh [of "c_now w'" "c_now w" ttl] by (simp add: jn_cache_read_def)
  }
  {
    assume "ttl < max_int64" "ttl < c_now w' - c_now w"
    then show "jn_cache_read rt k ttl w' = None"
      using l time_since_stale [of ttl "c_now w'" "c_now w"] by (simp add: jn_cache_read_def)
  }
qed

text \<open>A network that leaves the files of the world alone.\<close>

definition quiet_net :: "('m cli_scheme) net \<Rightarrow> bool" where
  "quiet_net net = (\<forall>rq w. c_os (snd (net rq w)) = c_os w)"

definition marshals :: "(gval \<Rightarrow> string option) \<Rightarrow> bool" where
  "marshals f = (\<forall>v. json_plain v \<longrightarrow> (\<exists>t. f v = Some t \<and> (\<exists>u. json_reads t u)))"

lemma read_marshals: "marshals (\<lambda>v. reader_json (reader_fields v))" "marshals (\<lambda>v. jn_search_json (search_fields v))"
  using reader_json_some jn_search_json_some by (simp_all add: marshals_def)

lemma jn_do_get_plain:
  assumes "jn_do_get net cli path extra ok w = (Inr v, w1)"
  shows "json_plain v \<and> (quiet_net net \<longrightarrow> c_os w1 = c_os w)"
proof -
  define rq where "rq = \<lparr>aq_method = ''GET'', aq_url = hc_base cli @ path, aq_headers = merge_headers (hc_headers cli) extra,
      aq_body = [], aq_timeout = 0\<rparr>"
  have ok: "url_ok (hc_base cli @ path)" using assms by (auto simp: jn_do_get_def Let_def split: if_splits)
  obtain a w2 where n: "net rq w = (a, w2)" by fastforce
  obtain resp where a: "a = Inr resp" using assms ok n by (cases a) (simp_all add: jn_do_get_def rq_def)
  obtain body where b: "read_all_limited (as_body resp) jn_limit = Inr body"
    using assms ok n a by (cases "read_all_limited (as_body resp) jn_limit") (simp_all add: jn_do_get_def rq_def)
  have "json_unmarshal body = Some v" "w2 = w1"
    using assms ok n a b by (auto simp: jn_do_get_def rq_def Let_def split: if_splits option.splits)
  moreover from this n a have "quiet_net net \<longrightarrow> c_os w1 = c_os w" by (metis quiet_net_def snd_conv)
  ultimately show ?thesis using json_unmarshal_plain by blast
qed

lemma jn_fetch_text:
  assumes "jn_fetch net cli path headers ok marshal action w = (Inr e, w1)" "marshals marshal" "quiet_net net"
  shows "(\<exists>u. json_reads (snd e) u) \<and> c_os w1 = c_os w"
proof -
  obtain v where v: "jn_do_get net cli path headers ok w = (Inr v, w1)"
    "e = (action, case marshal v of Some t \<Rightarrow> t | None \<Rightarrow> [])"
    using assms(1) by (auto simp: jn_fetch_def and_then_Inr)
  have p: "json_plain v" "c_os w1 = c_os w" using jn_do_get_plain [OF v(1)] assms(3) by simp_all
  then obtain t where "marshal v = Some t" "\<exists>u. json_reads t u" using assms(2) unfolding marshals_def by blast
  with v(2) p(2) show ?thesis by simp
qed

lemma jn_write_clock: "c_now (jn_cache_write rt k e w) = c_now w"
  by (simp add: jn_cache_write_def cache_store_def st_put_def split: option.splits prod.splits)

lemma jn_cached_again:
  fixes w w1 w2 :: "'m cli_scheme"
  assumes net: "quiet_net net" "marshals marshal" and inv: "store_inv rt (c_os w)"
    and first: "jn_cached net cli rt key ttl path headers ok marshal action w = (Inr (v, False), w1)"
    and later: "text_time (c_now w1)" "0 < ttl" "c_os w2 = c_os w1" "c_now w2 - c_now w1 \<le> ttl"
  shows "jn_cached net' cli' rt key ttl path' headers' ok' marshal' action' w2 = (Inr (v, True), w2)"
proof -
  have miss: "jn_cache_read rt key ttl w = None"
    using first by (cases "jn_cache_read rt key ttl w") (simp_all add: jn_cached_def cached_call_def)
  then obtain e w0 where f: "jn_fetch net cli path headers ok marshal action w = (Inr e, w0)"
    and e: "v = body_value (snd e)" "w1 = jn_cache_write rt key e w0"
    using first by (auto simp: jn_cached_def cached_call_def and_then_Inr)
  have t: "\<exists>u. json_reads (snd e) u" "c_os w0 = c_os w" using jn_fetch_text [OF f net(2,1)] by simp_all
  have now: "c_now w0 = c_now w1" using e(2) by (simp add: jn_write_clock)
  have call: "cached_call (jn_cache_read rt key ttl) (jn_fetch net cli path headers ok marshal action) (jn_cache_write rt key)
      (\<lambda>e. body_value (snd e)) w = (Inr (v, False), w1)" using first by (simp add: jn_cached_def)
  have "cached_call (jn_cache_read rt key ttl) (jn_fetch net' cli' path' headers' ok' marshal' action')
      (jn_cache_write rt key) (\<lambda>e. body_value (snd e)) w2 = (Inr (body_value (snd e), True), w2)"
  proof (rule jn_cache.call_again(2) [where fetch = "jn_fetch net cli path headers ok marshal action" and w = w])
    show "jn_cache_read rt key ttl w = None" by (rule miss)
    show "jn_fetch net cli path headers ok marshal action w = (Inr e, w0)" by (rule f)
  qed (use inv t now later call in simp_all)
  then show ?thesis by (simp add: jn_cached_def e(1))
qed

text \<open>The flag of an answer.\<close>

definition flag_cached :: "gval \<Rightarrow> gval" where
  "flag_cached v = (case v of GMap m \<Rightarrow> with_flag True m | _ \<Rightarrow> v)"

lemma obj_put_twice: "obj_put k x (obj_put k y kvs) = obj_put k x kvs"
proof -
  define upd where "upd x = map (\<lambda>(k', v'). if k' = k then (k, x) else (k', v'))" for x :: gval
  have put: "obj_put k x ms = (if k \<in> set (map fst ms) then upd x ms else ms @ [(k, x)])" for x ms
    by (simp add: obj_put_def upd_def)
  have keys: "map fst (upd y ms) = map fst ms" and twice: "upd x (upd y ms) = upd x ms"
    and none: "k \<notin> set (map fst ms) \<Longrightarrow> upd x ms = ms" for ms x
    by (induction ms) (auto simp: upd_def)
  show ?thesis
  proof (cases "k \<in> set (map fst kvs)")
    case True
    then show ?thesis by (simp only: put keys twice if_True)
  next
    case False
    then show ?thesis using none by (simp add: put upd_def)
  qed
qed

lemma map_of_obj_put: "map_of (obj_put k x kvs) k = Some x"
proof -
  have "map_of (map (\<lambda>(k', v'). if k' = k then (k, x) else (k', v')) xs) k = Some x" if "k \<in> fst ` set xs" for xs
    using that by (induction xs) auto
  then show ?thesis by (simp add: obj_put_def map_add_def map_of_eq_None_iff [THEN iffD2] split: option.splits)
qed

lemma decode_reader_flag:
  "obj_get (decode_reader v raw b) ''from_cache'' = Some (GBool b)"
  "decode_reader v raw True = flag_cached (decode_reader v raw False)"
  by (cases v; cases raw;
      simp add: decode_reader_def with_flag_def obj_get_def map_of_obj_put flag_cached_def obj_put_twice Let_def;
      simp add: obj_put_def)+

text \<open>C37.
  A page is fetched once per time to live: after a \<open>read\<close> that asked the service, a second one with the same parameters,
  on a world where only the clock moved and by no more than the time to live, gives the same answer flagged as cached,
  without a request and without a change of the world.
\<close>

theorem jina_read_again:
  fixes w w1 w2 :: "'m cli_scheme"
  assumes "quiet_net net" "store_inv (sn_state s) (c_os w)"
    and "jn_read net s params w = (Inr out, w1)" "obj_get out ''from_cache'' = Some (GBool False)"
    and "text_time (c_now w1)" "c_os w2 = c_os w1"
    and "0 < parse_ttl (5 * minute) (v_string (with_defaults params jn_read_schema) ''cache_ttl'')"
    and "c_now w2 - c_now w1 \<le> parse_ttl (5 * minute) (v_string (with_defaults params jn_read_schema) ''cache_ttl'')"
  shows "jn_read net' s params w2 = (Inr (flag_cached out), w2)"
proof -
  define p ttl where "p = with_defaults params jn_read_schema" and "ttl = parse_ttl (5 * minute) (v_string p ''cache_ttl'')"
  define target hd where "target = trim_space (v_string p ''url'')" and "hd = jn_request_headers s p"
  define key where "key = jn_cache_key ''read'' (target @ CHR ''|'' # serialize_headers hd)"
  define c c' where
    "c = jn_cached net (sn_http s) (sn_state s) key ttl (CHR ''/'' # target) hd reader_ok (\<lambda>v. reader_json (reader_fields v)) ''read''"
    and "c' = jn_cached net' (sn_http s) (sn_state s) key ttl (CHR ''/'' # target) hd reader_ok (\<lambda>v. reader_json (reader_fields v)) ''read''"
  have ok: "target \<noteq> []" "url_ok target" and run: "and_then (c w) (\<lambda>(v, b) w1. (Inr (decode_reader v (v_bool p ''raw'') b), w1)) = (Inr out, w1)"
    using assms(3) by (auto simp: jn_read_def Let_def p_def [symmetric] target_def [symmetric] hd_def [symmetric]
        ttl_def [symmetric] key_def [symmetric] c_def split: if_splits)
  obtain v b where vb: "c w = (Inr (v, b), w1)" "out = decode_reader v (v_bool p ''raw'') b"
    using run by (auto simp: and_then_Inr)
  have b: "b = False" using assms(4) vb(2) by (simp add: decode_reader_flag(1))
  then have "c' w2 = (Inr (v, True), w2)"
    using jn_cached_again [OF assms(1) read_marshals(1) assms(2), of "sn_http s" key ttl] vb(1) assms(5-8) b
    unfolding c_def c'_def p_def [symmetric] ttl_def [symmetric] by blast
  moreover have "decode_reader v (v_bool p ''raw'') True = flag_cached out" using vb(2) b decode_reader_flag(2) by simp
  ultimately show ?thesis
    using ok by (simp add: jn_read_def Let_def p_def [symmetric] target_def [symmetric] hd_def [symmetric]
        ttl_def [symmetric] key_def [symmetric] c'_def)
qed

definition ex_page :: string where
  "ex_page = json_object [(''data'', json_object [(''title'', json_quote ''T'')])]"

definition ex_jina :: "net_world net" where
  "ex_jina rq w = (ok_answer ex_page, w)"

definition ex_jina_session :: api_session where
  "ex_jina_session =
     \<lparr>sn_cred = \<lparr>cr_type = ''jina'', cr_name = ''j'', cr_values = (\<lambda>_. None), cr_created = 0, cr_updated = 0\<rparr>,
      sn_http = \<lparr>hc_base = ''https://r.jina.ai'', hc_headers = [], hc_agent = ''mw/0.1'', hc_timeout = 90 * second\<rparr>,
      sn_state = ex_instance\<rparr>"

definition ex_jina_params :: vals where
  "ex_jina_params = [''url'' \<mapsto> GStr ''https://a.b'']"

lemma ex_jina_get:
  assumes "url_ok (''https://r.jina.ai'' @ path)"
  shows "\<exists>v. jn_do_get ex_jina (sn_http ex_jina_session) path extra reader_ok w = (Inr v, w)"
proof -
  let ?v = "GMap [(''data'', GMap [(''title'', GStr ''T'')])]"
  have "json_reads (json_object [(''title'', json_quote ''T'')]) (GMap [(''title'', GStr ''T'')])"
    by (rule json_reads_object) (simp_all add: field_reads_def json_reads_quote)
  then have "json_reads ex_page ?v"
    unfolding ex_page_def by (intro json_reads_object) (simp_all add: field_reads_def)
  then have u: "json_unmarshal ex_page = Some ?v" by (rule json_reads_unmarshal)
  have "reader_ok ?v" "\<not> jn_limit < int (length ex_page)" by code_simp+
  with u assms show ?thesis
    by (simp add: jn_do_get_def ex_jina_def ok_answer_def read_all_limited_def ex_jina_session_def)
qed

theorem jina_read_again_witness:
  "\<exists>out w1. jn_read ex_jina ex_jina_session ex_jina_params ex_net_world = (Inr out, w1) \<and>
     obj_get out ''from_cache'' = Some (GBool False) \<and>
     jn_read ex_jina ex_jina_session ex_jina_params (w1\<lparr>c_now := c_now w1 + 60 * second\<rparr>) =
       (Inr (flag_cached out), w1\<lparr>c_now := c_now w1 + 60 * second\<rparr>)"
proof -
  let ?s = ex_jina_session and ?w = ex_net_world
  have os: "c_os ?w = ex_store_os" by (simp add: ex_net_world_def ex_cli_def cli.defs)
  define p where "p = with_defaults ex_jina_params jn_read_schema"
  have t: "trim_space (v_string p ''url'') = ''https://a.b''" "url_ok ''https://a.b''" "url_ok (''https://r.jina.ai'' @ CHR ''/'' # ''https://a.b'')"
    unfolding p_def by code_simp+
  have ttl: "parse_ttl (5 * minute) (v_string p ''cache_ttl'') = 300 * second" unfolding p_def by code_simp
  obtain v where v: "jn_do_get ex_jina (sn_http ?s) (CHR ''/'' # ''https://a.b'') (jn_request_headers ?s p) reader_ok ?w = (Inr v, ?w)"
    using ex_jina_get [OF t(3)] by blast
  have "json_plain v" using jn_do_get_plain [OF v] by simp
  then obtain j where j: "reader_json (reader_fields v) = Some j" using reader_json_some by blast
  have miss: "jn_cache_read ex_instance k l ?w = None" for k l
    using ex_instance_empty(2) [OF os] by (simp add: jn_cache_read_def)
  define w1 where "w1 = jn_cache_write ex_instance
      (jn_cache_key ''read'' (''https://a.b'' @ CHR ''|'' # serialize_headers (jn_request_headers ?s p))) (''read'', j) ?w"
  define out where "out = decode_reader (body_value j) (v_bool p ''raw'') False"
  have run: "jn_read ex_jina ?s ex_jina_params ?w = (Inr out, w1)"
    unfolding jn_read_def Let_def p_def [symmetric] t(1) jn_cached_def cached_call_def
    using t(2) v j miss by (simp add: jn_fetch_def out_def w1_def ex_jina_session_def)
  have now1: "c_now w1 = unix_epoch" by (simp add: w1_def jn_write_clock ex_net_world_def ex_cli_def cli.defs)
  have txt1: "text_time unix_epoch" by code_simp
  have "quiet_net ex_jina" by (simp add: quiet_net_def ex_jina_def)
  moreover have "store_inv (sn_state ?s) (c_os ?w)" using ex_instance_empty(1) [OF os] by (simp add: ex_jina_session_def)
  moreover have flag: "obj_get out ''from_cache'' = Some (GBool False)" by (simp add: out_def decode_reader_flag(1))
  ultimately have "jn_read ex_jina ?s ex_jina_params (w1\<lparr>c_now := c_now w1 + 60 * second\<rparr>) =
      (Inr (flag_cached out), w1\<lparr>c_now := c_now w1 + 60 * second\<rparr>)"
    by (rule jina_read_again [OF _ _ run]) (use now1 txt1 ttl p_def in \<open>simp_all add: second_def\<close>)
  with run flag show ?thesis by blast
qed

text \<open>The parameters are not kept apart in the key of the cache: an engine that carries a separator gives the key of an engine
  and a locale, so one call can be answered with the other's page.
\<close>

lemma jina_key_collision:
  "jn_request_headers ex_jina_session [''engine'' \<mapsto> GStr ''browser;X-Locale:de''] \<noteq>
     jn_request_headers ex_jina_session [''engine'' \<mapsto> GStr ''browser'', ''locale'' \<mapsto> GStr ''de''] \<and>
   serialize_headers (jn_request_headers ex_jina_session [''engine'' \<mapsto> GStr ''browser;X-Locale:de'']) =
     serialize_headers (jn_request_headers ex_jina_session [''engine'' \<mapsto> GStr ''browser'', ''locale'' \<mapsto> GStr ''de''])"
  by code_simp

end
