(* ===== verification/GoUrl.thy ===== *)
theory GoUrl
  imports GoTime ApiConn
begin

text \<open>
  What the sources use of \<open>net/url\<close> on whole URLs: \<open>Parse\<close>, \<open>ResolveReference\<close> and \<open>String\<close>. Paths, user information and
  fragments are kept in the form they are printed in: as written when that is a valid encoding, else
  decoded and encoded again.
\<close>

section \<open>Encoding\<close>

definition is_alnum :: "char \<Rightarrow> bool" where
  "is_alnum c = (let n = (of_char c :: nat) in (48 \<le> n \<and> n \<le> 57) \<or> (65 \<le> n \<and> n \<le> 90) \<or> (97 \<le> n \<and> n \<le> 122))"

datatype url_mode = PathMode | UserMode | HostMode | FragmentMode

definition mode_plain :: "url_mode \<Rightarrow> string" where
  "mode_plain m =
     (case m of PathMode \<Rightarrow> ''$&+,/:;=@'' | UserMode \<Rightarrow> ''$&+,;='' | HostMode \<Rightarrow> ''!$&()*+,;=:[]<>'' @ apos @ dq
      | FragmentMode \<Rightarrow> ''$&+,/:;=?@!()*'')"

definition mode_escapes :: "url_mode \<Rightarrow> char \<Rightarrow> bool" where
  "mode_escapes m c = (\<not> is_alnum c \<and> c \<notin> set ''-_.~'' \<and> c \<notin> set (mode_plain m))"

definition pct_octet :: "char \<Rightarrow> string" where
  "pct_octet c = [CHR ''%'', hex_upper (of_char c div 16), hex_upper (of_char c mod 16)]"

definition url_escape :: "url_mode \<Rightarrow> string \<Rightarrow> string" where
  "url_escape m s = concat (map (\<lambda>c. if mode_escapes m c then pct_octet c else [c]) s)"

fun pct_unescape :: "string \<Rightarrow> string option" where
  "pct_unescape [] = Some []"
| "pct_unescape (c # cs) =
     (if c = CHR ''%'' then
        (case cs of
           a # b # r \<Rightarrow>
             (case (hex_digit_val a, hex_digit_val b) of
                (Some x, Some y) \<Rightarrow> map_option ((#) (char_of (16 * x + y))) (pct_unescape r)
              | _ \<Rightarrow> None)
         | _ \<Rightarrow> None)
      else map_option ((#) c) (pct_unescape cs))"

definition valid_encoded :: "url_mode \<Rightarrow> string \<Rightarrow> bool" where
  "valid_encoded m s = list_all (\<lambda>c. c \<in> set (''!$&()*+,;=:@[]%'' @ apos) \<or> \<not> mode_escapes m c) s"

definition canon_part :: "url_mode \<Rightarrow> string \<Rightarrow> string option" where
  "canon_part m s =
     (case pct_unescape s of
        None \<Rightarrow> None
      | Some d \<Rightarrow> Some (if valid_encoded m s \<or> url_escape m d = s then s else url_escape m d))"

section \<open>Parse\<close>

record go_url =
  u_scheme :: string
  u_opaque :: string
  u_user :: "string option"
  u_host :: string
  u_omit_host :: bool
  u_path :: string
  u_force_query :: bool
  u_query :: string
  u_fragment :: string

text \<open>The scheme and the rest; nothing when the colon comes first.\<close>

definition scheme_char :: "char \<Rightarrow> bool" where
  "scheme_char c = (is_alnum c \<or> c \<in> set ''+-.'')"

definition get_scheme :: "string \<Rightarrow> (string \<times> string) option" where
  "get_scheme s =
     (let p = takeWhile scheme_char s; r = dropWhile scheme_char s
      in case s of
           [] \<Rightarrow> Some ([], s)
         | c # _ \<Rightarrow>
             (if c = CHR '':'' then None
              else if \<not> is_alnum c \<or> is_digit c then Some ([], s)
              else case r of d # r' \<Rightarrow> (if d = CHR '':'' then Some (to_lower p, r') else Some ([], s)) | [] \<Rightarrow> Some ([], s)))"

definition parse_authority :: "string \<Rightarrow> (string option \<times> string) option" where
  "parse_authority a =
     (if CHR ''@'' \<notin> set a then map_option (\<lambda>h. (None, h)) (parse_host a)
      else
        (let user = upto_last (CHR ''@'') a; (name, pw, has) = str_cut (CHR '':'') user
         in case parse_host (tl (from_last (CHR ''@'') a)) of
              None \<Rightarrow> None
            | Some h \<Rightarrow>
                (if \<not> userinfo_ok user then None
                 else case (pct_unescape name, pct_unescape pw) of
                   (Some n, Some q) \<Rightarrow>
                     Some (Some (url_escape UserMode n @ (if has then CHR '':'' # url_escape UserMode q else [])), h)
                 | _ \<Rightarrow> None)))"

definition empty_url :: go_url where
  "empty_url = \<lparr>u_scheme = [], u_opaque = [], u_user = None, u_host = [], u_omit_host = False, u_path = [],
     u_force_query = False, u_query = [], u_fragment = []\<rparr>"

definition starts :: "string \<Rightarrow> string \<Rightarrow> bool" where "starts p s = prefix p s"

definition parse_hier :: "go_url \<Rightarrow> string \<Rightarrow> go_url option" where
  "parse_hier u rest =
     (if (u_scheme u \<noteq> [] \<or> \<not> starts ''///'' rest) \<and> starts ''//'' rest then
        (let r = drop 2 rest; a = takeWhile (\<lambda>c. c \<noteq> CHR ''/'') r; p = dropWhile (\<lambda>c. c \<noteq> CHR ''/'') r
         in case (parse_authority a, canon_part PathMode p) of
              (Some (user, h), Some path) \<Rightarrow> Some (u\<lparr>u_user := user, u_host := h, u_path := path\<rparr>)
            | _ \<Rightarrow> None)
      else map_option (\<lambda>path. u\<lparr>u_omit_host := (u_scheme u \<noteq> [] \<and> starts ''/'' rest), u_path := path\<rparr>) (canon_part PathMode rest))"

definition parse_url :: "string \<Rightarrow> go_url option" where
  "parse_url raw =
     (let (main, frag, _) = str_cut (CHR ''#'') raw
      in if \<not> list_all (\<lambda>c. 32 \<le> (of_char c :: nat) \<and> (of_char c :: nat) \<noteq> 127) main then None
         else case (get_scheme main, canon_part FragmentMode frag) of
           (Some (scheme, rest0), Some fr) \<Rightarrow>
             (let force = (suffix ''?'' rest0 \<and> length (filter (\<lambda>c. c = CHR ''?'') rest0) = 1);
                  (rest, q, _) = str_cut (CHR ''?'') rest0;
                  u = empty_url\<lparr>u_scheme := scheme, u_force_query := force, u_query := q, u_fragment := fr\<rparr>
              in if main = ''*'' then Some (empty_url\<lparr>u_path := ''*'', u_fragment := fr\<rparr>)
                 else if starts ''/'' rest then parse_hier u rest
                 else if scheme \<noteq> [] then Some (u\<lparr>u_opaque := rest\<rparr>)
                 else if CHR '':'' \<in> set (takeWhile (\<lambda>c. c \<noteq> CHR ''/'') rest) then None
                 else parse_hier u rest)
         | _ \<Rightarrow> None)"

section \<open>Print\<close>

definition url_authority :: "go_url \<Rightarrow> string" where
  "url_authority u =
     (if (u_scheme u = [] \<and> u_host u = [] \<and> u_user u = None) \<or> (u_omit_host u \<and> u_host u = [] \<and> u_user u = None) then []
      else (if u_host u \<noteq> [] \<or> u_path u \<noteq> [] \<or> u_user u \<noteq> None then ''//'' else [])
        @ (case u_user u of Some x \<Rightarrow> x @ ''@'' | None \<Rightarrow> []) @ url_escape HostMode (u_host u))"

definition url_string :: "go_url \<Rightarrow> string" where
  "url_string u =
     (let sch = (if u_scheme u = [] then [] else u_scheme u @ '':'');
          front = sch @ url_authority u; p = u_path u;
          body =
            (if u_opaque u \<noteq> [] then sch @ u_opaque u
             else front @ (if p \<noteq> [] \<and> hd p \<noteq> CHR ''/'' \<and> u_host u \<noteq> [] then ''/'' else [])
               @ (if front = [] \<and> CHR '':'' \<in> set (takeWhile (\<lambda>c. c \<noteq> CHR ''/'') p) then ''./'' else []) @ p)
      in body @ (if u_force_query u \<or> u_query u \<noteq> [] then CHR ''?'' # u_query u else [])
         @ (if u_fragment u \<noteq> [] then CHR ''#'' # u_fragment u else []))"

section \<open>References\<close>

text \<open>
  The loop over the segments of a path keeps the text written after the leading slash, and whether the next segment is
  the first one.
\<close>

fun path_steps :: "string list \<Rightarrow> bool \<Rightarrow> string \<Rightarrow> string" where
  "path_steps [] first out = out"
| "path_steps (e # es) first out =
     (if e = ''.'' then path_steps es False out
      else if e = ''..'' then
        (if CHR ''/'' \<in> set out then path_steps es False (upto_last (CHR ''/'') out) else path_steps es True [])
      else path_steps es False (out @ (if first then [] else ''/'') @ e))"

definition merge_path :: "string \<Rightarrow> string \<Rightarrow> string" where
  "merge_path base ref =
     (if ref = [] then base
      else if starts ''/'' ref then ref
      else upto_last (CHR ''/'') base @ (if CHR ''/'' \<in> set base then ''/'' else []) @ ref)"

definition resolve_path :: "string \<Rightarrow> string \<Rightarrow> string" where
  "resolve_path base ref =
     (let full = merge_path base ref; es = split_on (CHR ''/'') full;
          r = CHR ''/'' # path_steps es True [] @ (if last es = ''.'' \<or> last es = ''..'' then ''/'' else [])
      in if full = [] then [] else if starts ''//'' r then tl r else r)"

definition resolve_ref :: "go_url \<Rightarrow> go_url \<Rightarrow> go_url" where
  "resolve_ref u ref =
     (let r = (if u_scheme ref = [] then ref\<lparr>u_scheme := u_scheme u\<rparr> else ref);
          bare = (u_path ref = [] \<and> \<not> u_force_query ref \<and> u_query ref = []);
          r2 = (if bare then r\<lparr>u_query := u_query u, u_fragment := (if u_fragment ref = [] then u_fragment u else u_fragment ref)\<rparr> else r)
      in if u_scheme ref \<noteq> [] \<or> u_host ref \<noteq> [] \<or> u_user ref \<noteq> None then r\<lparr>u_path := resolve_path (u_path ref) []\<rparr>
         else if u_opaque ref \<noteq> [] then r\<lparr>u_user := None, u_host := [], u_path := []\<rparr>
         else if u_path ref = [] \<and> u_opaque u \<noteq> [] then r2\<lparr>u_opaque := u_opaque u, u_user := None, u_host := [], u_path := []\<rparr>
         else r2\<lparr>u_host := u_host u, u_user := u_user u, u_path := resolve_path (u_path u) (u_path ref)\<rparr>)"

end
