(* ===== verification/Web.thy ===== *)
theory Web
  imports GoUrl TtlCache
begin

text \<open>
  The web connector (\<open>connectors/web\<close>): fetching a page over HTTP or through a remote browser, with a cache of pages in the
  state of the instance, and extracting text, links and media from it.

  The transport of the page, the browser, the HTML parser with its selectors, the readability and the Markdown library
  are the fields of \<open>web_env\<close>.
\<close>

section \<open>Libraries\<close>

record readable =
  ar_title :: string
  ar_byline :: string
  ar_excerpt :: string
  ar_length :: int
  ar_site :: string
  ar_content :: string

text \<open>
  A request goes out with an optional proxy and comes back with the URL it ended at after at most ten redirects. The browser
  gets the endpoint, the URL, the selector to wait for and the time limit. A selection is a list of nodes.
\<close>

record ('n, 'w) web_env =
  we_http :: "api_request \<Rightarrow> string option \<Rightarrow> 'w \<Rightarrow> (api_response \<times> string) res \<times> 'w"
  we_render :: "string \<Rightarrow> string \<Rightarrow> string \<Rightarrow> int \<Rightarrow> 'w \<Rightarrow> (string \<times> string) res \<times> 'w"
  we_shot :: "string \<Rightarrow> string \<Rightarrow> string \<Rightarrow> int \<Rightarrow> int \<Rightarrow> 'w \<Rightarrow> string res \<times> 'w"
  we_article :: "string \<Rightarrow> go_url option \<Rightarrow> readable res"
  we_markdown :: "string \<Rightarrow> string res"
  we_parse :: "string \<Rightarrow> 'n res"
  we_find :: "'n list \<Rightarrow> string \<Rightarrow> 'n list"
  we_text :: "'n \<Rightarrow> string"
  we_outer :: "'n \<Rightarrow> string"
  we_attrs :: "'n \<Rightarrow> (string \<times> string) list"

record web_session =
  ws_cred :: credential
  ws_state :: string

definition node_attr :: "('n, 'w) web_env \<Rightarrow> 'n \<Rightarrow> string \<Rightarrow> string" where
  "node_attr env n k = (case map_of (we_attrs env n) k of Some v \<Rightarrow> v | None \<Rightarrow> [])"

section \<open>The cache\<close>

record page_entry =
  pe_fetched :: time
  pe_status :: int
  pe_type :: string
  pe_url :: string
  pe_body :: string
  pe_js :: bool

definition page_key :: "string \<Rightarrow> bool \<Rightarrow> string \<Rightarrow> string" where
  "page_key url js agent =
     ''page:'' @ take 32 (hex_encode (sha256 (url @ [CHR 0x00] @ (if js then ''js'' else ''http'') @ [CHR 0x00] @ agent)))"

definition page_json :: "page_entry \<Rightarrow> string option" where
  "page_json e =
     map_option (\<lambda>t. json_object
       [(''fetched_at'', t), (''status'', itoa (pe_status e)), (''content_type'', json_quote (pe_type e)),
        (''final_url'', json_quote (pe_url e)), (''body'', json_quote (pe_body e)), (''js'', bool_str (pe_js e))])
       (time_json (pe_fetched e))"

definition dec_page_entry :: "gval \<Rightarrow> page_entry option" where
  "dec_page_entry v =
     (if \<not> is_object v then None
      else case (dec_time (jfield v ''fetched_at''), dec_int (jfield v ''status''), dec_string (jfield v ''content_type''),
             dec_string (jfield v ''final_url''), dec_string (jfield v ''body''), dec_bool (jfield v ''js'')) of
        (Some t, Some st, Some ty, Some u, Some b, Some j) \<Rightarrow>
          Some \<lparr>pe_fetched = t, pe_status = st, pe_type = ty, pe_url = u, pe_body = b, pe_js = j\<rparr>
      | _ \<Rightarrow> None)"

definition read_cache :: "string \<Rightarrow> string \<Rightarrow> int \<Rightarrow> 'm cli_scheme \<Rightarrow> page_entry option" where
  "read_cache rt key ttl w = cache_lookup dec_page_entry pe_fetched rt key ttl w"

definition write_cache :: "string \<Rightarrow> string \<Rightarrow> page_entry \<Rightarrow> 'm cli_scheme \<Rightarrow> 'm cli_scheme" where
  "write_cache rt key e w = cache_store rt key (page_json e) w"

definition page_ttl :: "string \<Rightarrow> int" where
  "page_ttl s = parse_ttl (5 * minute) s"

section \<open>Fetching\<close>

definition max_page :: int where "max_page = 8 * 1024 * 1024"

definition default_agent :: string where
  "default_agent = ''Mozilla/5.0 (X11; Linux x86_64) pantograf/0.1 (+https://github.com/sistemica/pantograf)''"

record fetch_inputs =
  fi_target :: string
  fi_js :: bool
  fi_wait :: string
  fi_selector :: string
  fi_agent :: string
  fi_timeout :: int
  fi_ttl :: int

definition read_fetch_inputs :: "vals \<Rightarrow> fetch_inputs res" where
  "read_fetch_inputs p =
     (let url = trim_space (v_string p ''url''); t = v_string p ''timeout''
      in if url = [] then Inl (ErrMsg ''url is required'')
         else if parse_url url = None then Inl (ErrWrap ''url: '' (ErrExt ''url'') [])
         else case (if t = [] then Inr (30 * second) else parse_duration t) of
           Inl e \<Rightarrow> Inl (ErrWrap ''timeout: '' e [])
         | Inr d \<Rightarrow>
             Inr \<lparr>fi_target = url, fi_js = v_bool p ''js'', fi_wait = v_string p ''wait_for'', fi_selector = v_string p ''selector'',
               fi_agent = v_string p ''user_agent'', fi_timeout = d, fi_ttl = page_ttl (v_string p ''cache_ttl'')\<rparr>)"

text \<open>The proxy of the credential, or the one of the environment.\<close>

definition proxy_of :: "web_session \<Rightarrow> string option res" where
  "proxy_of s =
     (let p = v_string (cr_values (ws_cred s)) ''proxy_url''
      in if p = [] then Inr None
         else if parse_url p = None then Inl (ErrWrap ''proxy_url: '' (ErrExt ''url'') [])
         else Inr (Some p))"

definition fetch_via_http :: "('n, 'm cli_scheme) web_env \<Rightarrow> web_session \<Rightarrow> string \<Rightarrow> int \<Rightarrow> string \<Rightarrow> 'm cli_scheme \<Rightarrow>
    page_entry res \<times> 'm cli_scheme" where
  "fetch_via_http env s target timeout agent w =
     (case proxy_of s of
        Inl e \<Rightarrow> (Inl e, w)
      | Inr proxy \<Rightarrow>
          (if parse_url target = None then (Inl (ErrExt ''url''), w)
           else
             and_then (we_http env \<lparr>aq_method = ''GET'', aq_url = target,
                 aq_headers = [(''User-Agent'', [agent]),
                   (''Accept'', [''text/html,application/xhtml+xml,application/xml;q=0.9,image/avif,image/webp,*/*;q=0.8'']),
                   (''Accept-Language'', [''en-US,en;q=0.9''])],
                 aq_body = [], aq_timeout = timeout\<rparr> proxy w)
               (\<lambda>(resp, final) w1.
                 (case as_body resp of
                    Inl e \<Rightarrow> (Inl e, w1)
                  | Inr body \<Rightarrow>
                      (if max_page < int (length body) then (Inl (ErrMsg (''response exceeds '' @ itoa max_page @ '' bytes'')), w1)
                       else
                         (Inr \<lparr>pe_fetched = c_now w1, pe_status = as_status resp, pe_type = hdr_get (as_headers resp) ''Content-Type'',
                             pe_url = final, pe_body = body, pe_js = False\<rparr>, w1))))))"

definition fetch_via_cdp :: "('n, 'm cli_scheme) web_env \<Rightarrow> web_session \<Rightarrow> string \<Rightarrow> string \<Rightarrow> int \<Rightarrow> 'm cli_scheme \<Rightarrow>
    page_entry res \<times> 'm cli_scheme" where
  "fetch_via_cdp env s target wait timeout w =
     (let endpoint = v_string (cr_values (ws_cred s)) ''cdp_endpoint''
      in if endpoint = [] then
           (Inl (ErrMsg (''js=true requires cdp_endpoint set on the credential. Run e.g. '' @ bq
              @ ''chromium --headless --remote-debugging-port=9222'' @ bq @ '' and '' @ bq @ ''pgf connect web <name>'' @ bq
              @ '' with cdp_endpoint=ws://localhost:9222'')), w)
         else
           and_then (wrap_err ''cdp: '' (we_render env endpoint target wait timeout w))
             (\<lambda>(final, html) w1.
               (Inr \<lparr>pe_fetched = c_now w1, pe_status = 200, pe_type = ''text/html'', pe_url = final, pe_body = html, pe_js = True\<rparr>, w1)))"

definition fetch_page :: "('n, 'm cli_scheme) web_env \<Rightarrow> web_session \<Rightarrow> fetch_inputs \<Rightarrow> string \<Rightarrow> 'm cli_scheme \<Rightarrow>
    page_entry res \<times> 'm cli_scheme" where
  "fetch_page env s i agent w =
     (if fi_js i then fetch_via_cdp env s (fi_target i) (fi_wait i) (fi_timeout i) w
      else fetch_via_http env s (fi_target i) (fi_timeout i) agent w)"

text \<open>The agent of the call, of the credential, or the default.\<close>

definition agent_of :: "web_session \<Rightarrow> string \<Rightarrow> string \<Rightarrow> string" where
  "agent_of s agent fallback =
     (let a = (if agent = [] then v_string (cr_values (ws_cred s)) ''default_user_agent'' else agent)
      in if a = [] then fallback else a)"

definition page_key_of :: "web_session \<Rightarrow> fetch_inputs \<Rightarrow> string" where
  "page_key_of s i = page_key (fi_target i) (fi_js i) (agent_of s (fi_agent i) default_agent)"

definition fetch_or_cache :: "('n, 'm cli_scheme) web_env \<Rightarrow> web_session \<Rightarrow> fetch_inputs \<Rightarrow> 'm cli_scheme \<Rightarrow>
    (page_entry \<times> bool) res \<times> 'm cli_scheme" where
  "fetch_or_cache env s i =
     cached_call (read_cache (ws_state s) (page_key_of s i) (fi_ttl i))
       (fetch_page env s i (agent_of s (fi_agent i) default_agent))
       (write_cache (ws_state s) (page_key_of s i)) id"

section \<open>Extraction\<close>

definition shared_fields :: schema where
  "shared_fields =
     [(field ''url'' FieldString)\<lparr>f_required := True, f_description := ''Absolute http(s) URL.''\<rparr>,
      (field ''js'' FieldBool)\<lparr>f_default := Some (GBool False),
        f_description := ''Render through Chrome over CDP instead of plain HTTP. Requires cdp_endpoint on the credential.''\<rparr>,
      (field ''wait_for'' FieldString)\<lparr>f_description := ''CSS selector to wait for before extracting (js=true only).''\<rparr>,
      (field ''user_agent'' FieldString)\<lparr>
        f_description := ''Override the credential'' @ apos @ ''s default_user_agent for this call.''\<rparr>,
      (field ''timeout'' FieldString)\<lparr>f_description := ''Go duration: 30s, 2m, etc. Default 30s.''\<rparr>,
      (field ''cache_ttl'' FieldString)\<lparr>
        f_description := ''Reuse a recent fetch of the same URL+js+user_agent. Go duration; 0 to disable. Default 5m.''\<rparr>]"

text \<open>A list built by appending to a nil slice is nil when nothing was appended.\<close>

definition nil_if_none :: "gval list \<Rightarrow> gval" where
  "nil_if_none xs = (if xs = [] then GNil else GList xs)"

text \<open>The frame of the actions on a page: read the inputs, get the page, extract.\<close>

definition on_page :: "('n, 'm cli_scheme) web_env \<Rightarrow> web_session \<Rightarrow> fetch_inputs \<Rightarrow> (page_entry \<Rightarrow> bool \<Rightarrow> gval res) \<Rightarrow>
    'm cli_scheme \<Rightarrow> gval res \<times> 'm cli_scheme" where
  "on_page env s i extract w = and_then (fetch_or_cache env s i w) (\<lambda>(e, from_cache) w1. (extract e from_cache, w1))"

definition wb_fetch_schema :: schema where
  "wb_fetch_schema =
     shared_fields"

definition wb_fetch :: "('n, 'm cli_scheme) web_env \<Rightarrow> web_session \<Rightarrow> vals \<Rightarrow> 'm cli_scheme \<Rightarrow> gval res \<times> 'm cli_scheme" where
  "wb_fetch env s params w =
     (case read_fetch_inputs (with_defaults params wb_fetch_schema) of
        Inl e \<Rightarrow> (Inl e, w)
      | Inr i \<Rightarrow>
          on_page env s i (\<lambda>e from_cache.
            Inr (GMap [(''url'', GStr (pe_url e)), (''status'', GInt (pe_status e)), (''content_type'', GStr (pe_type e)),
              (''body'', GStr (pe_body e)), (''from_cache'', GBool from_cache), (''js'', GBool (pe_js e))])) w)"

definition wb_extract_markdown_schema :: schema where
  "wb_extract_markdown_schema =
     shared_fields"

definition markdown_of :: "('n, 'w) web_env \<Rightarrow> page_entry \<Rightarrow> bool \<Rightarrow> gval res" where
  "markdown_of env e from_cache =
     (case we_article env (pe_body e) (parse_url (pe_url e)) of
        Inl er \<Rightarrow> Inl (ErrWrap ''readability: '' er [])
      | Inr a \<Rightarrow>
          (case we_markdown env (ar_content a) of
             Inl er \<Rightarrow> Inl (ErrWrap ''html-to-markdown: '' er [])
           | Inr md \<Rightarrow>
               Inr (GMap [(''url'', GStr (pe_url e)), (''title'', GStr (ar_title a)), (''byline'', GStr (ar_byline a)),
                 (''excerpt'', GStr (ar_excerpt a)), (''length'', GInt (ar_length a)), (''site_name'', GStr (ar_site a)),
                 (''markdown'', GStr md), (''from_cache'', GBool from_cache)])))"

definition wb_extract_markdown :: "('n, 'm cli_scheme) web_env \<Rightarrow> web_session \<Rightarrow> vals \<Rightarrow> 'm cli_scheme \<Rightarrow> gval res \<times> 'm cli_scheme" where
  "wb_extract_markdown env s params w =
     (case read_fetch_inputs (with_defaults params wb_extract_markdown_schema) of
        Inl e \<Rightarrow> (Inl e, w)
      | Inr i \<Rightarrow> on_page env s i (markdown_of env) w)"

definition wb_extract_html_schema :: schema where
  "wb_extract_html_schema =
     shared_fields @
     [(field ''selector'' FieldString)\<lparr>f_required := True,
        f_description := ''CSS selector. e.g. '' @ apos @ ''article h2'' @ apos @ '', '' @ apos @ ''.product-card'' @ apos @ '', ''
          @ apos @ ''#main > p'' @ apos @ ''.''\<rparr>]"

definition parsed :: "('n, 'w) web_env \<Rightarrow> page_entry \<Rightarrow> ('n \<Rightarrow> gval) \<Rightarrow> gval res" where
  "parsed env e f =
     (case we_parse env (pe_body e) of Inl er \<Rightarrow> Inl (ErrWrap ''parse: '' er []) | Inr doc \<Rightarrow> Inr (f doc))"

definition counted_page :: "string \<Rightarrow> (string \<times> gval) list \<Rightarrow> string \<Rightarrow> gval list \<Rightarrow> bool \<Rightarrow> gval" where
  "counted_page url kvs name xs from_cache =
     GMap ((''url'', GStr url) # kvs @ [(''count'', GInt (int (length xs))), (name, nil_if_none xs), (''from_cache'', GBool from_cache)])"

definition match_of :: "('n, 'w) web_env \<Rightarrow> 'n \<Rightarrow> gval" where
  "match_of env n =
     GMap [(''text'', GStr (trim_space (we_text env n))), (''html'', GStr (we_outer env n)),
       (''attrs'', GMap (foldl (\<lambda>m (k, v). obj_put k (GStr v) m) [] (we_attrs env n)))]"

definition wb_extract_html :: "('n, 'm cli_scheme) web_env \<Rightarrow> web_session \<Rightarrow> vals \<Rightarrow> 'm cli_scheme \<Rightarrow> gval res \<times> 'm cli_scheme" where
  "wb_extract_html env s params w =
     (case read_fetch_inputs (with_defaults params wb_extract_html_schema) of
        Inl e \<Rightarrow> (Inl e, w)
      | Inr i \<Rightarrow>
          (if fi_selector i = [] then (Inl (ErrMsg ''selector is required''), w)
           else
             on_page env s i (\<lambda>e from_cache. parsed env e (\<lambda>doc.
               counted_page (pe_url e) [(''selector'', GStr (fi_selector i))] ''matches''
                 (map (match_of env) (we_find env [doc] (fi_selector i))) from_cache)) w))"

text \<open>The nodes the optional selector scopes to, and a reference made absolute where the URLs parse.\<close>

definition scope_of :: "('n, 'w) web_env \<Rightarrow> string \<Rightarrow> 'n \<Rightarrow> 'n list" where
  "scope_of env sel doc = (if sel = [] then [doc] else we_find env [doc] sel)"

definition absolute :: "string \<Rightarrow> string \<Rightarrow> string" where
  "absolute base ref =
     (case (parse_url base, parse_url ref) of (Some b, Some r) \<Rightarrow> url_string (resolve_ref b r) | _ \<Rightarrow> ref)"

definition link_of :: "('n, 'w) web_env \<Rightarrow> string \<Rightarrow> 'n \<Rightarrow> gval list" where
  "link_of env base n =
     (let href = trim_space (node_attr env n ''href'')
      in if href = [] then []
         else [GMap [(''href'', GStr (absolute base href)), (''text'', GStr (trim_space (we_text env n))),
                 (''rel'', GStr (node_attr env n ''rel''))]])"

definition wb_extract_links_schema :: schema where
  "wb_extract_links_schema =
     shared_fields @
     [(field ''selector'' FieldString)\<lparr>
        f_description := ''Optional CSS selector to scope. Default = whole document.''\<rparr>]"

definition wb_extract_links :: "('n, 'm cli_scheme) web_env \<Rightarrow> web_session \<Rightarrow> vals \<Rightarrow> 'm cli_scheme \<Rightarrow> gval res \<times> 'm cli_scheme" where
  "wb_extract_links env s params w =
     (case read_fetch_inputs (with_defaults params wb_extract_links_schema) of
        Inl e \<Rightarrow> (Inl e, w)
      | Inr i \<Rightarrow>
          on_page env s i (\<lambda>e from_cache. parsed env e (\<lambda>doc.
            counted_page (pe_url e) [] ''links''
              (concat (map (link_of env (pe_url e)) (we_find env (scope_of env (fi_selector i) doc) ''a[href]''))) from_cache)) w)"

definition media_of :: "('n, 'w) web_env \<Rightarrow> string \<Rightarrow> string \<Rightarrow> string \<Rightarrow> 'n \<Rightarrow> gval" where
  "media_of env base kind extra n =
     (let src = trim_space (node_attr env n ''src'')
      in GMap [(''kind'', GStr kind), (''src'', GStr (if src = [] then src else absolute base src)),
           (extra, GStr (node_attr env n extra))])"

definition wb_extract_media_schema :: schema where
  "wb_extract_media_schema =
     shared_fields @
     [(field ''selector'' FieldString)\<lparr>f_description := ''Optional CSS selector to scope.''\<rparr>]"

definition wb_extract_media :: "('n, 'm cli_scheme) web_env \<Rightarrow> web_session \<Rightarrow> vals \<Rightarrow> 'm cli_scheme \<Rightarrow> gval res \<times> 'm cli_scheme" where
  "wb_extract_media env s params w =
     (case read_fetch_inputs (with_defaults params wb_extract_media_schema) of
        Inl e \<Rightarrow> (Inl e, w)
      | Inr i \<Rightarrow>
          on_page env s i (\<lambda>e from_cache. parsed env e (\<lambda>doc.
            (let scope = scope_of env (fi_selector i) doc; base = pe_url e
             in counted_page base [] ''media''
                  (map (media_of env base ''img'' ''alt'') (we_find env scope ''img[src]'')
                   @ map (media_of env base ''audio'' ''type'') (we_find env scope ''audio[src], audio source[src]'')
                   @ map (media_of env base ''video'' ''type'') (we_find env scope ''video[src], video source[src]''))
                  from_cache))) w)"

section \<open>Screenshot and search\<close>

definition duration_or :: "string \<Rightarrow> int \<Rightarrow> int res" where
  "duration_or s def = (if s = [] then Inr def else parse_duration s)"

definition screenshot_via_cdp :: "('n, 'w) web_env \<Rightarrow> web_session \<Rightarrow> string \<Rightarrow> string \<Rightarrow> int \<Rightarrow> int \<Rightarrow> 'w \<Rightarrow> string res \<times> 'w" where
  "screenshot_via_cdp env s target wait timeout quality w =
     (let endpoint = v_string (cr_values (ws_cred s)) ''cdp_endpoint''
      in if endpoint = [] then (Inl (ErrMsg ''screenshot requires cdp_endpoint set on the credential''), w)
         else wrap_err ''cdp screenshot: '' (we_shot env endpoint target wait timeout quality w))"

definition wb_screenshot_schema :: schema where
  "wb_screenshot_schema =
     [(field ''url'' FieldString)\<lparr>f_required := True, f_description := ''Absolute http(s) URL.''\<rparr>,
      (field ''out'' FieldString)\<lparr>f_required := True, f_is_path := True,
        f_description := ''Output file path. Extension picks format: .png (default) or .jpg/.jpeg.''\<rparr>,
      (field ''wait_for'' FieldString)\<lparr>f_description := ''CSS selector to wait for before capturing.''\<rparr>,
      (field ''quality'' FieldInt)\<lparr>f_default := Some (GInt 90),
        f_description := ''JPEG quality 1'' @ en_dash @ ''100. Ignored for PNG.''\<rparr>,
      (field ''user_agent'' FieldString)\<lparr>
        f_description := ''Override the credential'' @ apos @ ''s default_user_agent.''\<rparr>,
      (field ''timeout'' FieldString)\<lparr>f_default := Some (GStr ''60s''),
        f_description := ''Go duration; longer than fetch default because large pages take time to render.''\<rparr>]"

definition wb_screenshot :: "('n, 'm cli_scheme) web_env \<Rightarrow> web_session \<Rightarrow> vals \<Rightarrow> 'm cli_scheme \<Rightarrow> gval res \<times> 'm cli_scheme" where
  "wb_screenshot env s params w =
     (let p = with_defaults params wb_screenshot_schema; target = trim_space (v_string p ''url''); out = trim_space (v_string p ''out'')
      in if target = [] \<or> out = [] then (Inl (ErrMsg ''url and out are required''), w)
         else case duration_or (v_string p ''timeout'') (60 * second) of
           Inl e \<Rightarrow> (Inl (ErrWrap ''timeout: '' e []), w)
         | Inr timeout \<Rightarrow>
             and_then (screenshot_via_cdp env s target (v_string p ''wait_for'') timeout (v_int p ''quality'') w)
               (\<lambda>buf w1.
                 (case os_write_file (c_os w1) out buf 420 of
                    Inl e \<Rightarrow> (Inl (ErrWrap (''write '' @ out @ '': '') e []), w1)
                  | Inr s1 \<Rightarrow>
                      (Inr (GMap [(''url'', GStr target), (''path'', GStr out), (''bytes'', GInt (int (length buf)))]),
                       w1\<lparr>c_os := s1\<rparr>))))"

definition unwrap_ddg :: "string \<Rightarrow> string" where
  "unwrap_ddg href0 =
     (if href0 = [] then href0
      else
        (let href = (if prefix ''//'' href0 then ''https:'' @ href0 else href0)
         in case parse_url href of
              None \<Rightarrow> href
            | Some u \<Rightarrow>
                (if \<not> sublist ''duckduckgo.com'' (u_host u) then href
                 else
                   (let uddg = q_get (parse_query (u_query u)) ''uddg''
                    in case (if uddg = [] then None else query_unescape uddg) of Some d \<Rightarrow> d | None \<Rightarrow> href))))"

definition status_str :: "int \<Rightarrow> string" where
  "status_str n = (if n = 202 then ''202'' else if n = 429 then ''429'' else itoa n)"

record search_row =
  sw_title :: string
  sw_url :: string
  sw_snippet :: string

definition first_text_of :: "('n, 'w) web_env \<Rightarrow> 'n list \<Rightarrow> string" where
  "first_text_of env ns = (case ns of n # _ \<Rightarrow> trim_space (we_text env n) | [] \<Rightarrow> [])"

text \<open>Rows without a title or a link are passed over; the walk stops once it has enough.\<close>

fun ddg_rows :: "('n, 'w) web_env \<Rightarrow> int \<Rightarrow> 'n list \<Rightarrow> search_row list \<Rightarrow> search_row list" where
  "ddg_rows env most [] acc = acc"
| "ddg_rows env most (n # ns) acc =
     (if most \<le> int (length acc) then acc
      else
        (let ts = we_find env [n] ''a.result__a, h2 a.result__a''; title = first_text_of env ts;
             href = unwrap_ddg (case ts of t # _ \<Rightarrow> node_attr env t ''href'' | [] \<Rightarrow> []);
             snippet = first_text_of env (we_find env [n] ''.result__snippet, .snippet'')
         in ddg_rows env most ns
              (if title = [] \<or> href = [] then acc
               else acc @ [\<lparr>sw_title = title, sw_url = href, sw_snippet = snippet\<rparr>])))"

definition ddg_search :: "('n, 'w) web_env \<Rightarrow> web_session \<Rightarrow> string \<Rightarrow> int \<Rightarrow> string \<Rightarrow> int \<Rightarrow> 'w \<Rightarrow> search_row list res \<times> 'w" where
  "ddg_search env s query most agent timeout w =
     (case proxy_of s of
        Inl e \<Rightarrow> (Inl e, w)
      | Inr proxy \<Rightarrow>
          and_then (we_http env \<lparr>aq_method = ''POST'', aq_url = ''https://html.duckduckgo.com/html/'',
              aq_headers = [(''Content-Type'', [''application/x-www-form-urlencoded'']), (''User-Agent'', [agent]),
                (''Accept'', [''text/html,application/xhtml+xml'']), (''Accept-Language'', [''en-US,en;q=0.9'']),
                (''Origin'', [''https://html.duckduckgo.com'']), (''Referer'', [''https://html.duckduckgo.com/''])],
              aq_body = q_encode [(''q'', [query])], aq_timeout = timeout\<rparr> proxy w)
            (\<lambda>(resp, _) w1.
              (if as_status resp = 202 \<or> as_status resp = 429 then
                 (Inl (ErrMsg (''ddg: rate-limited (status '' @ status_str (as_status resp) @ '') '' @ em_dash @ '' pause and retry'')), w1)
               else if as_status resp \<noteq> 200 then (Inl (ErrMsg (''ddg: http '' @ itoa (as_status resp))), w1)
               else case as_body resp of
                 Inl e \<Rightarrow> (Inl e, w1)
               | Inr body \<Rightarrow>
                   (case we_parse env (take (2 * 1024 * 1024) body) of
                      Inl e \<Rightarrow> (Inl e, w1)
                    | Inr doc \<Rightarrow>
                        (let rows = ddg_rows env most (we_find env [doc] ''div.result, .web-result, .results_links_deep'') []
                         in if rows = [] then (Inl (ErrMsg ''ddg: no results parsed (selectors may need updating)''), w1)
                            else (Inr rows, w1))))))"

definition wb_search_schema :: schema where
  "wb_search_schema =
     [(field ''query'' FieldString)\<lparr>f_required := True,
        f_description := ''Search query string. Use site:example.com to scope.''\<rparr>,
      (field ''site'' FieldString)\<lparr>f_description := ''Convenience: prefixes query with site:<value>.''\<rparr>,
      (field ''max_results'' FieldInt)\<lparr>f_default := Some (GInt 10),
        f_description := ''1'' @ en_dash @ ''25. Default 10.''\<rparr>,
      (field ''user_agent'' FieldString)\<lparr>f_description := ''Override default UA.''\<rparr>,
      (field ''timeout'' FieldString)\<lparr>f_description := ''Go duration. Default 30s.''\<rparr>]"

definition row_value :: "search_row \<Rightarrow> gval" where
  "row_value r = GMap [(''title'', GStr (sw_title r)), (''url'', GStr (sw_url r)), (''snippet'', GStr (sw_snippet r))]"

definition wb_search :: "('n, 'm cli_scheme) web_env \<Rightarrow> web_session \<Rightarrow> vals \<Rightarrow> 'm cli_scheme \<Rightarrow> gval res \<times> 'm cli_scheme" where
  "wb_search env s params w =
     (let p = with_defaults params wb_search_schema; q0 = trim_space (v_string p ''query''); site = trim_space (v_string p ''site'');
          q = (if site = [] then q0 else ''site:'' @ site @ '' '' @ q0);
          m0 = v_int p ''max_results''; m1 = (if m0 \<le> 0 then 10 else m0); most = (if 25 < m1 then 25 else m1)
      in if q0 = [] then (Inl (ErrMsg ''query is required''), w)
         else case duration_or (v_string p ''timeout'') (30 * second) of
           Inl e \<Rightarrow> (Inl (ErrWrap ''timeout: '' e []), w)
         | Inr timeout \<Rightarrow>
             and_then (ddg_search env s q most (agent_of s (v_string p ''user_agent'')
                 ''Mozilla/5.0 (Windows NT 10.0; Win64; x64) AppleWebKit/537.36'') timeout w)
               (\<lambda>rows w1. (Inr (GMap [(''query'', GStr q), (''engine'', GStr ''duckduckgo''), (''count'', GInt (int (length rows))),
                  (''results'', GList (map row_value rows))]), w1)))"

section \<open>The connector\<close>

definition wb_cred_schema :: schema where
  "wb_cred_schema =
     [(field ''cdp_endpoint'' FieldString)\<lparr>f_label := ''Chrome DevTools Protocol endpoint (optional)'',
        f_description := ''Connect-only '' @ em_dash
          @ '' pgf never auto-spawns Chrome. Run: chromium --headless --remote-debugging-port=9222 --no-sandbox. ''
          @ ''Then set this to ws://localhost:9222. When empty, js=true actions return an error.''\<rparr>,
      (field ''default_user_agent'' FieldString)\<lparr>f_label := ''Default User-Agent (optional)'',
        f_description := ''Sent on every HTTP fetch. Override per-call with -p user_agent=...''\<rparr>,
      (field ''proxy_url'' FieldString)\<lparr>f_label := ''HTTP/SOCKS proxy URL (optional)'',
        f_description := ''e.g. http://192.168.1.50:8118 or socks5://127.0.0.1:1080. Used for net/http; passed to Chrome via ''
          @ ''--proxy-server only if the CDP instance honours it.''\<rparr>]"

definition wb_validate :: "credential \<Rightarrow> 'w \<Rightarrow> unit res \<times> 'w" where
  "wb_validate c w = (Inr (), w)"

definition wb_fetch_action where
  "wb_fetch_action env =
     mk_action ''fetch'' ''Fetch URL''
       (''Fetch a URL (HTTP or CDP). Returns status, content-type, final-URL, body. Honours the per-instance ''
              @ ''cache.'')
       wb_fetch_schema (wb_fetch env)"

definition wb_extract_markdown_action where
  "wb_extract_markdown_action env =
     mk_action ''extract-markdown'' ''Extract main content as Markdown''
       (''Mozilla Readability extracts the article body; html-to-markdown converts to clean CommonMark. Best ''
              @ ''for LLM consumption of articles, blog posts, documentation.'')
       wb_extract_markdown_schema (wb_extract_markdown env)"

definition wb_extract_html_action where
  "wb_extract_html_action env =
     mk_action ''extract-html'' ''Extract HTML by selector''
       ''Return every element matching a CSS selector with its text, outer HTML, and attributes.''
       wb_extract_html_schema (wb_extract_html env)"

definition wb_extract_links_action where
  "wb_extract_links_action env =
     mk_action ''extract-links'' ''Extract links''
       (''Every <a href>: href (resolved to absolute), text, rel. Optional selector scopes the search to ''
              @ ''a subtree.'')
       wb_extract_links_schema (wb_extract_links env)"

definition wb_extract_media_action where
  "wb_extract_media_action env =
     mk_action ''extract-media'' ''Extract media URLs''
       ''Every <img>, <audio>, <video>, <source>. Resolves to absolute URLs. Kind tag identifies which element.''
       wb_extract_media_schema (wb_extract_media env)"

definition wb_screenshot_action where
  "wb_screenshot_action env =
     mk_action ''screenshot'' ''Full-page screenshot''
       (''Render the page over CDP and capture the entire scrollable area (not just the viewport) to a PNG ''
              @ ''or JPEG file. Requires cdp_endpoint.'')
       wb_screenshot_schema (wb_screenshot env)"

definition wb_search_action where
  "wb_search_action env =
     mk_action ''search'' ''Web search (DuckDuckGo)''
       (''DuckDuckGo HTML search. Returns [{title, url, snippet}]. No API key needed; may rate-limit under ''
              @ ''heavy use.'')
       wb_search_schema (wb_search env)"

definition wb_open :: "credential \<Rightarrow> string \<Rightarrow> 'w \<Rightarrow> web_session res \<times> 'w" where
  "wb_open c rt w = (Inr \<lparr>ws_cred = c, ws_state = rt\<rparr>, w)"

definition web_connector :: "('n, 'm cli_scheme) web_env \<Rightarrow> ('m cli_scheme, web_session) connector" where
  "web_connector env =
     \<lparr>c_descriptor = \<lparr>d_name = ''web'', d_display = ''Web (fetch + extract)'',
        d_description = ''Fetch pages and extract markdown, links, media, or HTML by CSS selector. Default HTTP; optional CDP ''
          @ ''browser mode for JS-heavy pages.'',
        d_version = ''0.1.0'', d_categories = [''scrape'', ''io'']\<rparr>,
      c_credential = \<lparr>cs_kind = AuthNone, cs_schema = wb_cred_schema, cs_presets = [], cs_defaults = (\<lambda>p. p),
        cs_validate = keep_values wb_validate\<rparr>,
      c_actions =
        [wb_fetch_action env, wb_extract_markdown_action env, wb_extract_html_action env,
         wb_extract_links_action env, wb_extract_media_action env, wb_screenshot_action env, wb_search_action env],
      c_triggers = [],
      c_open = wb_open,
      c_close = (\<lambda>_ w. (Inr (), w))\<rparr>"

section \<open>Properties\<close>

text \<open>An entry is read back from its text.\<close>

lemma page_reads:
  assumes "text_time (pe_fetched e)" "\<bar>pe_status e\<bar> < 2 ^ 53"
  shows "\<exists>x g. page_json e = Some x \<and> json_reads x g \<and> dec_page_entry g = Some e"
proof -
  have t: "time_json (pe_fetched e) = Some (json_quote (rfc3339 (pe_fetched e)))"
    using assms(1) by (simp add: time_json_def text_time_def Let_def)
  obtain n where n: "json_reads (itoa (pe_status e)) (GFloat n)" "float_int n = Some (pe_status e)"
    using json_reads_int [OF assms(2)] by blast
  let ?g = "GMap [(''fetched_at'', GStr (rfc3339 (pe_fetched e))), (''status'', GFloat n), (''content_type'', GStr (pe_type e)),
        (''final_url'', GStr (pe_url e)), (''body'', GStr (pe_body e)), (''js'', GBool (pe_js e))]"
  let ?keys = "[''fetched_at'', ''status'', ''content_type'', ''final_url'', ''body'', ''js'']"
  have "json_reads (json_object [(''fetched_at'', json_quote (rfc3339 (pe_fetched e))), (''status'', itoa (pe_status e)),
      (''content_type'', json_quote (pe_type e)), (''final_url'', json_quote (pe_url e)), (''body'', json_quote (pe_body e)),
      (''js'', bool_str (pe_js e))]) ?g"
    by (rule json_reads_object) (use json_reads_quote json_reads_bool n in \<open>simp_all add: field_reads_def\<close>)
  moreover have "list_all (\<lambda>a. list_all (\<lambda>b. equal_fold a b = (a = b)) ?keys) ?keys" by code_simp
  then have "dec_page_entry ?g = Some e"
    using n(2) parse_rfc3339_text [OF assms(1)]
    by (simp add: dec_page_entry_def jfield_def dec_time_def dec_int_def dec_string_def dec_bool_def is_object_def)
  ultimately show ?thesis using t by (auto simp: page_json_def)
qed

definition storable_page :: "page_entry \<Rightarrow> bool" where
  "storable_page e = (text_time (pe_fetched e) \<and> \<bar>pe_status e\<bar> < 2 ^ 53)"

interpretation page_cache: ttl_cache "\<lambda>w. store_inv rt (c_os w)" c_now "\<lambda>w w'. c_os w' = c_os w" "read_cache rt"
    "write_cache rt" "\<lambda>w e. storable_page e" id "\<lambda>w e. pe_fetched e"
proof
  fix w :: "'m cli_scheme" and k e
  assume "store_inv rt (c_os w)"
  then show "store_inv rt (c_os (write_cache rt k e w))" by (simp add: write_cache_def cache_store_inv)
next
  fix ttl :: int and k and w :: "'m cli_scheme"
  assume "ttl \<le> 0"
  then show "read_cache rt k ttl w = None" by (simp add: read_cache_def cache_lookup_def)
next
  fix w w' :: "'m cli_scheme" and k ttl and e :: page_entry
  assume i: "store_inv rt (c_os w)" and s: "storable_page e" and os: "c_os w' = c_os (write_cache rt k e w)"
  from s obtain x g where x: "page_json e = Some x" "json_reads x g" "dec_page_entry g = Some e"
    using page_reads unfolding storable_page_def by blast
  have l: "cache_lookup dec_page_entry pe_fetched rt k ttl w' =
      (if ttl \<le> 0 \<or> ttl < time_since (c_now w') (pe_fetched e) then None else Some e)"
    by (rule cache_lookup_stored [where t = x and v = g, OF i]) (use os x in \<open>simp_all add: write_cache_def\<close>)
  {
    assume "0 < ttl" "c_now w' - pe_fetched e \<le> ttl"
    then show "read_cache rt k ttl w' = Some (id e)"
      using l time_since_fresh [of "c_now w'" "pe_fetched e" ttl] by (simp add: read_cache_def)
  }
  {
    assume "ttl < max_int64" "ttl < c_now w' - pe_fetched e"
    then show "read_cache rt k ttl w' = None"
      using l time_since_stale [of ttl "c_now w'" "pe_fetched e"] by (simp add: read_cache_def)
  }
qed

text \<open>The transport and the browser leave the files of the world alone.\<close>

definition quiet_env :: "('n, 'm cli_scheme) web_env \<Rightarrow> bool" where
  "quiet_env env =
     ((\<forall>rq p w. c_os (snd (we_http env rq p w)) = c_os w) \<and>
      (\<forall>e u s t w. c_os (snd (we_render env e u s t w)) = c_os w))"

lemma and_then_os: "(\<And>x w2. c_os (snd (f x w2)) = c_os w2) \<Longrightarrow> c_os (snd (and_then r f)) = c_os (snd r)"
  by (simp add: and_then_def split: prod.splits sum.splits)

lemma wrap_err_os: "c_os (snd (wrap_err m r)) = c_os (snd r)"
  by (simp add: wrap_err_def split: prod.splits sum.splits)

lemma fetch_page_os: "quiet_env env \<Longrightarrow> c_os (snd (fetch_page env s i agent w)) = c_os w"
proof -
  assume q: "quiet_env env"
  have "c_os (snd (fetch_via_http env s target t agent w)) = c_os w" for target t
    unfolding fetch_via_http_def using q
    by (auto simp: quiet_env_def Let_def and_then_def split: prod.splits sum.splits)
       (metis snd_conv)+
  moreover have "c_os (snd (fetch_via_cdp env s target wt t w)) = c_os w" for target wt t
    unfolding fetch_via_cdp_def using q
    by (auto simp: quiet_env_def Let_def and_then_def wrap_err_def split: prod.splits sum.splits)
       (metis snd_conv)+
  ultimately show ?thesis by (simp add: fetch_page_def)
qed


text \<open>C39.
  A failure is not cached: when a page cannot be had, whether for its inputs, the transport, its size or the browser, the
  files are as before.
\<close>

theorem web_error_not_cached:
  assumes "quiet_env env" "fetch_or_cache env s i w = (Inl err, w1)"
  shows "c_os w1 = c_os w"
proof -
  have "fetch_page env s i (agent_of s (fi_agent i) default_agent) w = (Inl err, w1)"
    using assms(2) by (auto simp: fetch_or_cache_def cached_call_def and_then_def split: option.splits prod.splits sum.splits)
  then show ?thesis using fetch_page_os [OF assms(1)] by (metis snd_conv)
qed

lemma ddg_rows_bound:
  "int (length (ddg_rows env most ns acc)) \<le> max most (int (length acc))"
proof (induction ns arbitrary: acc)
  case (Cons n ns)
  show ?case
  proof (cases "most \<le> int (length acc)")
    case False
    then have m: "max most (int (length acc)) = most" "max most (1 + int (length acc)) = most" by simp_all
    have "int (length (ddg_rows env most ns acc)) \<le> most" "int (length (ddg_rows env most ns (acc @ [x]))) \<le> most" for x
      using Cons [of acc] Cons [of "acc @ [x]"] by (simp_all only: m length_append_singleton of_nat_Suc)
    with m(1) have "int (length (ddg_rows env most ns acc)) \<le> max most (int (length acc))"
      "int (length (ddg_rows env most ns (acc @ [x]))) \<le> max most (int (length acc))" for x by simp_all
    with False show ?thesis by (simp add: Let_def)
  qed simp
qed simp

definition row_filled :: "search_row \<Rightarrow> bool" where
  "row_filled r = (sw_title r \<noteq> [] \<and> sw_url r \<noteq> [])"

lemma filled_make: "row_filled \<lparr>sw_title = t, sw_url = u, sw_snippet = x\<rparr> = (t \<noteq> [] \<and> u \<noteq> [])"
  by (simp add: row_filled_def)

lemma ddg_rows_filled: "list_all row_filled acc \<Longrightarrow> list_all row_filled (ddg_rows env most ns acc)"
proof (induction ns arbitrary: acc)
  case (Cons n ns)
  have "list_all row_filled (ddg_rows env most ns (acc @ [x]))" if "row_filled x" for x
    using Cons.prems that by (intro Cons.IH) simp
  with Cons.IH [OF Cons.prems] Cons.prems show ?case by (simp add: Let_def filled_make)
qed simp

text \<open>C40.
  A search gives between one and 25 rows, each with a title and a link, and never more than asked for.
\<close>

theorem web_search_rows:
  assumes "wb_search env s params w = (Inr v, w1)"
  shows "\<exists>rows. obj_get v ''results'' = Some (GList (map row_value rows)) \<and> obj_get v ''count'' = Some (GInt (int (length rows))) \<and>
    1 \<le> length rows \<and> length rows \<le> 25 \<and>
    length rows \<le> (let m = v_int (with_defaults params wb_search_schema) ''max_results'' in if m \<le> 0 then 10 else nat m) \<and>
    list_all row_filled rows"
proof -
  define p m where "p = with_defaults params wb_search_schema" and "m = v_int p ''max_results''"
  define most where "most = (if 25 < (if m \<le> 0 then 10 else m) then 25 else (if m \<le> 0 then 10 else m))"
  define q0 site q where "q0 = trim_space (v_string p ''query'')" and "site = trim_space (v_string p ''site'')"
    and "q = (if site = [] then q0 else ''site:'' @ site @ '' '' @ q0)"
  define agent where "agent = agent_of s (v_string p ''user_agent'') ''Mozilla/5.0 (Windows NT 10.0; Win64; x64) AppleWebKit/537.36''"
  have nz: "q0 \<noteq> []" using assms by (cases "q0 = []") (simp_all add: wb_search_def Let_def p_def q0_def)
  obtain t where t: "duration_or (v_string p ''timeout'') (30 * second) = Inr t"
    using assms nz by (cases "duration_or (v_string p ''timeout'') (30 * second)") (simp_all add: wb_search_def Let_def p_def q0_def)
  have "and_then (ddg_search env s q most agent t w)
      (\<lambda>rows w1. (Inr (GMap [(''query'', GStr q), (''engine'', GStr ''duckduckgo''), (''count'', GInt (int (length rows))),
                  (''results'', GList (map row_value rows))]), w1)) = (Inr v, w1)"
    using assms nz t unfolding wb_search_def Let_def p_def q0_def site_def q_def m_def most_def agent_def by (simp only: if_False sum.case)
  then obtain rows where s: "ddg_search env s q most agent t w = (Inr rows, w1)"
    and v: "v = GMap [(''query'', GStr q), (''engine'', GStr ''duckduckgo''), (''count'', GInt (int (length rows))),
                  (''results'', GList (map row_value rows))]"
    by (auto simp: and_then_Inr simp del: map_eq_conv)
  obtain ns where ns: "rows = ddg_rows env most ns []" "rows \<noteq> []"
    using s by (auto simp: ddg_search_def Let_def and_then_Inr split: if_splits sum.splits)
  have "int (length rows) \<le> most" using ddg_rows_bound [of env most ns "[]"] ns(1) by (simp add: most_def split: if_splits)
  moreover have "most \<le> 25" "most \<le> (if m \<le> 0 then 10 else m)" by (simp_all add: most_def)
  moreover have "list_all row_filled rows" unfolding ns(1) by (rule ddg_rows_filled) simp
  moreover have "1 \<le> length rows" using ns(2) by (cases rows) simp_all
  ultimately show ?thesis
    unfolding v p_def [symmetric] m_def [symmetric]
    by (intro exI [of _ rows]) (auto simp: obj_get_def Let_def)
qed

text \<open>The link behind a result is decoded twice: an escaped plus sign in the target comes out as a blank.\<close>

lemma ddg_decodes_twice:
  "unwrap_ddg ''//duckduckgo.com/l/?uddg=x%252By'' = ''x+y'' \<and>
   q_get (parse_query ''uddg=x%252By'') ''uddg'' = ''x%2By''"
proof -
  have q: "q_get (parse_query ''uddg=x%252By'') ''uddg'' = ''x%2By''" by code_simp
  have d: "query_unescape ''x%2By'' = Some ''x+y''" by code_simp
  have "map_option (\<lambda>u. (u_host u, u_query u)) (parse_url ''https://duckduckgo.com/l/?uddg=x%252By'') =
      Some (''duckduckgo.com'', ''uddg=x%252By'')" by code_simp
  then obtain u where u: "parse_url ''https://duckduckgo.com/l/?uddg=x%252By'' = Some u"
    "u_host u = ''duckduckgo.com''" "u_query u = ''uddg=x%252By''" by auto
  have h: "(if prefix ''//'' ''//duckduckgo.com/l/?uddg=x%252By''
      then ''https:'' @ ''//duckduckgo.com/l/?uddg=x%252By''
      else ''//duckduckgo.com/l/?uddg=x%252By'') =
      ''https://duckduckgo.com/l/?uddg=x%252By''" by code_simp
  have "sublist ''duckduckgo.com'' (u_host u)" unfolding u(2) by (rule sublist_order.order_refl)
  then show ?thesis
    unfolding unwrap_ddg_def Let_def h using q d
    by (simp only: u(1,3) option.case if_False not_True_eq_False list.distinct simp_thms)
qed

text \<open>A service that serves one page, for the witnesses.\<close>

definition ex_web :: "(nat, net_world) web_env" where
  "ex_web =
     \<lparr>we_http = (\<lambda>rq p w. (Inr (\<lparr>as_status = 200, as_headers = [(''Content-Type'', [''text/html''])], as_body = Inr ''<p>''\<rparr>, aq_url rq), w)),
      we_render = (\<lambda>_ u _ _ w. (Inr (u, ''<p>''), w)), we_shot = (\<lambda>_ _ _ _ _ w. (Inr [], w)),
      we_article = (\<lambda>_ _. Inl (ErrMsg ''none'')), we_markdown = Inr, we_parse = (\<lambda>_. Inr 0),
      we_find = (\<lambda>ns sel. if sel = ''div.result, .web-result, .results_links_deep'' then [1] else ns),
      we_text = (\<lambda>_. ''T''), we_outer = (\<lambda>_. []), we_attrs = (\<lambda>_. [(''href'', ''http://x'')])\<rparr>"

definition ex_web_session :: web_session where
  "ex_web_session =
     \<lparr>ws_cred = \<lparr>cr_type = ''web'', cr_name = ''w'', cr_values = (\<lambda>_. None), cr_created = 0, cr_updated = 0\<rparr>, ws_state = ex_instance\<rparr>"

definition ex_inputs :: "string \<Rightarrow> bool \<Rightarrow> fetch_inputs" where
  "ex_inputs sel js = \<lparr>fi_target = ''http://a.b/'', fi_js = js, fi_wait = sel, fi_selector = sel, fi_agent = [], fi_timeout = 30 * second,
     fi_ttl = 300 * second\<rparr>"

lemma ex_web_quiet: "quiet_env ex_web"
  by (simp add: quiet_env_def ex_web_def)


theorem web_error_not_cached_witness:
  "\<exists>err w1. fetch_or_cache ex_web ex_web_session (ex_inputs [] True) ex_net_world = (Inl err, w1) \<and> c_os w1 = c_os ex_net_world"
proof -
  have os: "c_os ex_net_world = ex_store_os" by (simp add: ex_net_world_def ex_cli_def cli.defs)
  have "read_cache ex_instance k l ex_net_world = None" for k l
    using ex_instance_empty(2) [OF os] by (simp add: read_cache_def)
  then have "\<exists>err. fetch_or_cache ex_web ex_web_session (ex_inputs [] True) ex_net_world = (Inl err, ex_net_world)"
    by (simp add: fetch_or_cache_def cached_call_def ex_web_session_def fetch_page_def ex_inputs_def fetch_via_cdp_def v_string_def)
  then obtain err where "fetch_or_cache ex_web ex_web_session (ex_inputs [] True) ex_net_world = (Inl err, ex_net_world)" by blast
  from web_error_not_cached [OF ex_web_quiet this] this show ?thesis by blast
qed

theorem web_search_rows_witness:
  "\<exists>v w1 rows. wb_search ex_web ex_web_session [''query'' \<mapsto> GStr ''q''] ex_net_world = (Inr v, w1) \<and>
     obj_get v ''results'' = Some (GList (map row_value rows)) \<and> 1 \<le> length rows \<and> length rows \<le> 25"
proof -
  have "map_option u_host (parse_url ''http://x'') = Some ''x''" by code_simp
  then obtain u where u: "parse_url ''http://x'' = Some u" "u_host u = ''x''" by auto
  have "\<not> sublist ''duckduckgo.com'' ''x''" by (auto dest: sublist_length_le)
  then have link: "unwrap_ddg ''http://x'' = ''http://x''" using u by (simp add: unwrap_ddg_def)
  define p where "p = with_defaults [''query'' \<mapsto> GStr ''q''] wb_search_schema"
  have p: "trim_space (v_string p ''query'') = ''q''" "trim_space (v_string p ''site'') = []" "v_int p ''max_results'' = 10"
    "v_string p ''timeout'' = []" unfolding p_def by code_simp+
  have t: "trim_space ''T'' = ''T''" by code_simp
  have r: "\<exists>rows. ddg_search ex_web ex_web_session ''q'' 10 a d ex_net_world = (Inr rows, ex_net_world)" for a d
    by (simp add: Let_def ddg_search_def proxy_of_def ex_web_session_def v_string_def ex_web_def first_text_of_def node_attr_def link t)
  from r [of "agent_of ex_web_session (v_string p ''user_agent'') ''Mozilla/5.0 (Windows NT 10.0; Win64; x64) AppleWebKit/537.36''" "30 * second"]
  have "\<exists>v w1. wb_search ex_web ex_web_session [''query'' \<mapsto> GStr ''q''] ex_net_world = (Inr v, w1)"
    unfolding wb_search_def Let_def p_def [symmetric] p duration_or_def by auto
  then obtain v w1 where "wb_search ex_web ex_web_session [''query'' \<mapsto> GStr ''q''] ex_net_world = (Inr v, w1)" by blast
  with web_search_rows [OF this] show ?thesis by blast
qed

end
