(* ===== verification/Spec2Isabelle.thy ===== *)
theory Spec2Isabelle
  imports Prelude GoPath FileSystem Codec Values Contract Json Http AtomicWrite StateStore CredStore Vault
    MailTransport AllowedPaths Cli Serve Webhooks Dispatch GoText GoTime ConnBase ApiConn WebhookConn Rss FileLocal FileConn
    Telegram Matrix MatrixSpec YouTrack Bunny GoFloat Lexoffice Paperless Infisical Synapse GoSniff Llm Whisper
    GoDate JsonText TtlCache Jina GoUrl Web
begin

text \<open>
  A model of \<^emph>\<open>pantograf\<close>, the connector command line \<open>pgf\<close>: its parts, their states and operations,
  and the properties that make them correct.

  \<^bold>\<open>The program and its theories.\<close> A connector describes itself, its credential schema, its actions
  and triggers (\<open>connector/\<close>); the command line and two daemons look connectors up in a registry, load a
  credential from the YAML store, open its secrets with the vault, and run actions or triggers on the
  session that results; triggers keep their position in a per-instance key-value store.

  \<^item> \<open>Prelude\<close>, \<open>GoPath\<close>, \<open>FileSystem\<close>, \<open>Codec\<close>, \<open>Json\<close>: what the code uses of Go's library. Errors with
    their wrapping chain, string functions on bytes, \<open>strconv\<close>, \<open>path/filepath\<close>, a POSIX file system
    with directories and symbolic links (path resolution follows at most \<open>max_links\<close> links, as the system
    does), hex, base64, SHA-1, SHA-256 and HMAC, and the JSON decoder and encoder.
  \<^item> \<open>Values\<close>, \<open>Contract\<close>: \<open>connector/\<close>. A \<open>Values\<close> bag is a map to untyped values with the readers'
    conversions, floats printed the way \<open>fmt\<close> does; the Go interfaces are records of functions on an
    explicit world.
  \<^item> \<open>Vault\<close>: \<open>secrets/\<close>. \<open>CredStore\<close>: \<open>storage/yamlstore\<close>. \<open>AtomicWrite\<close>, \<open>StateStore\<close>: \<open>state/fsstore\<close>, whose
    promise is the locale \<open>kv_store\<close>, interpreted on the model's own operations.
  \<^item> \<open>Http\<close>, \<open>MailTransport\<close>: \<open>transport/\<close>. The network is a function of the request and the world.
  \<^item> \<open>AllowedPaths\<close>: \<open>cmd/pgf/paths.go\<close>. \<open>Cli\<close>: \<open>cmd/pgf/wizard.go\<close> and the commands of \<open>cmd/pgf/main.go\<close>.
    \<open>Serve\<close>: \<open>cmd/pgf/serve.go\<close>. \<open>Webhooks\<close>: \<open>cmd/pgf/webhooks.go\<close>. \<open>Dispatch\<close>: \<open>main\<close> and \<open>init\<close>.

  \<^item> \<open>GoText\<close>, \<open>GoTime\<close>: media types, UTF-8, times and durations, the host of a URL. \<open>ConnBase\<close>: what connectors share.
    \<open>WebhookConn\<close>: \<open>connectors/webhook\<close>. \<open>Rss\<close>: \<open>connectors/rss\<close>. \<open>FileLocal\<close>, \<open>FileConn\<close>: \<open>connectors/file\<close>
    (\<open>local.go\<close> and \<open>driver.go\<close>; \<open>s3.go\<close>, \<open>credentials.go\<close>, \<open>actions.go\<close>). A polling trigger runs for a
    given number of rounds, after which its context is canceled. Long help texts are cut.
  \<^item> \<open>ApiConn\<close>: what the connectors of JSON services share: answers decoded into typed values, a session
    that is a client with a credential and a state, multipart uploads, downloads, and a service that records
    what it is sent. \<open>Telegram\<close>: \<open>connectors/telegram\<close>. \<open>Matrix\<close>, \<open>MatrixSpec\<close>: \<open>connectors/matrix\<close> and its
    properties. \<open>YouTrack\<close>: \<open>connectors/youtrack\<close>. \<open>Bunny\<close>: \<open>connectors/bunny\<close>.

  \<^bold>\<open>What the lemmas show.\<close> The stores are refined to maps, with crash points and interleavings of a
  write as explicit sequences of system calls; sealing leaves no secret in the clear and opening inverts
  it; the whitelist decides prefixes of resolved directory components, with the ways around it; the
  daemon's session cache is a step relation whose invariant accounts for every session; authentication
  isolates; a feed's items are emitted exactly once; the file search is the filter it stands for and its
  keys stay below the root; the bot trigger delivers every update exactly once over restarts, the matrix trigger
  every event at least once; the walk of an article tree ends and is complete; the commands' effects are stated from their arguments to the files they write.

  \<^bold>\<open>Parameters.\<close> The YAML library, secretbox, the terminal, the mail and HTTP libraries, the feed parser, the S3 client, the
  compiler of regular expressions and the network are
  arguments, with what is relied on as hypotheses of the theorems; witnesses instantiate them.

  \<^bold>\<open>Not modelled.\<close> Timeouts and signals other than as the end of a run, logging, and the connectors that
  only map parameters to requests of a remote service beyond those named above.
\<close>

end
